(* ===== verification/Prelude.thy ===== *)
theory Prelude
  imports Main "HOL-Library.Char_ord" "HOL-Library.List_Lexorder"
begin

text \<open>
  Shared vocabulary of the development: the error type, the sequencing of fallible
  steps, the text functions of Python's \<open>str\<close> that the sources use, and generic lemmas on
  keyed row lists. A \<open>str\<close> is a list of code points below 256.
\<close>

section \<open>Theorem collections\<close>

named_theorems row_simps \<open>lookups and updates of keyed rows\<close>
named_theorems inv_intros \<open>invariants kept by the operations of a store\<close>

section \<open>Errors and sequencing\<close>

text \<open>Exceptions that the sources let escape from Python's own operations.\<close>

datatype py_exn = KeyError | ValueError | TypeError | AttributeError | IndexError | RuntimeError
  | OverflowError

text \<open>
  Every exception class of the modelled sources is a constructor. A feature error
  (\<open>ComputeError\<close>, \<open>DiskError\<close>, ...) carries its code and HTTP status; its display message
  is not modelled.
\<close>

datatype error =
    PyError py_exn
  | FeatureError string nat
  | InvalidOperationTransition string string
  | OperationIntentConflict string
  | OperationNotFound string
  | OperationStateConflict string string
  | IntegrityError
  | RecoveryNotFound string
  | RecoveryLeaseLost string
  | RecoveryLeaseBusy string
  | RecoveryOperationConflict string
  | DurableTargetLockBusy string
  | RecoveryBindingError string
  | InvalidRoleError
  | UserNotFoundError
  | DuplicateUserError
  | LastEnabledAdminError
  | CurrentPasswordInvalidError
  | SessionNotFoundError

type_synonym 'a result = "error + 'a"

definition ebind :: "'e + 'a \<Rightarrow> ('a \<Rightarrow> 'e + 'b) \<Rightarrow> 'e + 'b" where
  "ebind m f = (case m of Inl e \<Rightarrow> Inl e | Inr x \<Rightarrow> f x)"

lemma ebind_simps [simp]:
  "ebind (Inl e) f = Inl e"
  "ebind (Inr x) f = f x"
  by (simp_all add: ebind_def)

lemma ebind_Inr_iff: "ebind m f = Inr y \<longleftrightarrow> (\<exists>x. m = Inr x \<and> f x = Inr y)"
  by (cases m) auto

lemma ebind_InrE [elim!]:
  assumes "ebind m f = Inr y"
  obtains x where "m = Inr x" "f x = Inr y"
  using assms by (auto simp: ebind_Inr_iff)

lemma if_Inl_eq_Inr [simp]: "(if c then Inl e else m) = Inr y \<longleftrightarrow> \<not> c \<and> m = Inr y"
  by simp

text \<open>\<open>raise_if c e\<close> is the guard \<open>if c: raise e\<close>.\<close>

definition raise_if :: "bool \<Rightarrow> 'e \<Rightarrow> 'e + unit" where
  "raise_if c e = (if c then Inl e else Inr ())"

lemma raise_if_Inr [simp]: "raise_if c e = Inr u \<longleftrightarrow> \<not> c"
  by (simp add: raise_if_def)

lemma raise_if_Inl [simp]: "raise_if c e = Inl e' \<longleftrightarrow> c \<and> e' = e"
  by (auto simp: raise_if_def)

section \<open>Text\<close>

definition py_space :: "char \<Rightarrow> bool" where
  "py_space c = (let n = (of_char c :: nat) in (9 \<le> n \<and> n \<le> 13) \<or> (28 \<le> n \<and> n \<le> 32) \<or> n = 133 \<or> n = 160)"

definition strip_by :: "('a \<Rightarrow> bool) \<Rightarrow> 'a list \<Rightarrow> 'a list" where
  "strip_by p s = rev (dropWhile p (rev (dropWhile p s)))"

definition py_strip :: "string \<Rightarrow> string" where
  "py_strip s = strip_by py_space s"

definition char_between :: "nat \<Rightarrow> nat \<Rightarrow> char \<Rightarrow> bool" where
  "char_between lo hi c = (lo \<le> of_char c \<and> of_char c \<le> hi)"

definition is_digit :: "char \<Rightarrow> bool" where
  "is_digit c = char_between 48 57 c"

definition is_alpha :: "char \<Rightarrow> bool" where
  "is_alpha c = (char_between 65 90 c \<or> char_between 97 122 c)"

definition is_hex :: "char \<Rightarrow> bool" where
  "is_hex c = (is_digit c \<or> char_between 65 70 c \<or> char_between 97 102 c)"

definition is_lower_hex :: "char \<Rightarrow> bool" where
  "is_lower_hex c = (is_digit c \<or> char_between 97 102 c)"

text \<open>\<open>str.lower\<close>: on code points below 256 the cased letters are A-Z and 192-222 without 215.\<close>

definition lower_char :: "char \<Rightarrow> char" where
  "lower_char c = (let n = (of_char c :: nat) in
     if (65 \<le> n \<and> n \<le> 90) \<or> (192 \<le> n \<and> n \<le> 222 \<and> n \<noteq> 215) then char_of (n + 32) else c)"

definition py_lower :: "string \<Rightarrow> string" where
  "py_lower s = map lower_char s"

text \<open>\<open>str.split(c)\<close>, \<open>str.split(c, 1)\<close>, \<open>str.partition(c)\<close> and \<open>str.join\<close>.\<close>

fun py_split :: "char \<Rightarrow> string \<Rightarrow> string list" where
  "py_split c [] = [[]]"
| "py_split c (x # xs) =
     (if x = c then [] # py_split c xs
      else (case py_split c xs of [] \<Rightarrow> [[x]] | w # ws \<Rightarrow> (x # w) # ws))"

fun py_partition :: "char \<Rightarrow> string \<Rightarrow> string \<times> bool \<times> string" where
  "py_partition c [] = ([], False, [])"
| "py_partition c (x # xs) =
     (if x = c then ([], True, xs)
      else (case py_partition c xs of (a, b, r) \<Rightarrow> (x # a, b, r)))"

fun py_join :: "string \<Rightarrow> string list \<Rightarrow> string" where
  "py_join sep [] = []"
| "py_join sep [w] = w"
| "py_join sep (w # v # ws) = w @ sep @ py_join sep (v # ws)"

fun starts_with :: "string \<Rightarrow> string \<Rightarrow> bool" where
  "starts_with [] s = True"
| "starts_with (p # ps) [] = False"
| "starts_with (p # ps) (x # xs) = (p = x \<and> starts_with ps xs)"

text \<open>\<open>p in s\<close> for two \<open>str\<close> values.\<close>

fun contains_text :: "string \<Rightarrow> string \<Rightarrow> bool" where
  "contains_text p [] = (p = [])"
| "contains_text p (x # xs) = (starts_with p (x # xs) \<or> contains_text p xs)"

lemma py_split_nonempty [simp]: "py_split c s \<noteq> []"
  by (induction s) (auto split: list.splits)

lemma join_split: "py_join [c] (py_split c s) = s"
proof (induction s)
  case Nil
  then show ?case by simp
next
  case (Cons x xs)
  obtain w ws where ws: "py_split c xs = w # ws"
    using py_split_nonempty [of c xs] by (cases "py_split c xs") auto
  with Cons show ?case by (cases ws) auto
qed

lemma split_no_sep: "w \<in> set (py_split c s) \<Longrightarrow> c \<notin> set w"
proof (induction s arbitrary: w)
  case Nil
  then show ?case by simp
next
  case (Cons x xs)
  then show ?case by (cases "py_split c xs") (auto split: if_splits)
qed

lemma py_split_no_sep: "c \<notin> set w \<Longrightarrow> py_split c w = [w]"
  by (induction w) auto

lemma py_split_append_sep: "c \<notin> set w \<Longrightarrow> py_split c (w @ c # s) = w # py_split c s"
  by (induction w) auto

lemma split_join: "ws \<noteq> [] \<Longrightarrow> (\<And>w. w \<in> set ws \<Longrightarrow> c \<notin> set w) \<Longrightarrow> py_split c (py_join [c] ws) = ws"
  by (induction "[c]" ws rule: py_join.induct) (auto simp: py_split_no_sep py_split_append_sep)

lemma py_partition_no_sep: "c \<notin> set k \<Longrightarrow> py_partition c (k @ c # v) = (k, True, v)"
  by (induction k) auto

lemma py_partition_found: "py_partition c s = (k, True, v) \<Longrightarrow> s = k @ c # v \<and> c \<notin> set k"
  by (induction s arbitrary: k) (auto split: if_splits prod.splits)

text \<open>Decimal text of a number.\<close>

fun show_nat :: "nat \<Rightarrow> string" where
  "show_nat n = (if n < 10 then [char_of (48 + n)] else show_nat (n div 10) @ [char_of (48 + n mod 10)])"

declare show_nat.simps [simp del]

definition show_int :: "int \<Rightarrow> string" where
  "show_int i = (if i < 0 then ''-'' @ show_nat (nat (- i)) else show_nat (nat i))"

definition digit_val :: "char \<Rightarrow> nat" where
  "digit_val c = of_char c - 48"

definition nat_of_digits :: "string \<Rightarrow> nat" where
  "nat_of_digits ds = foldl (\<lambda>n c. 10 * n + digit_val c) 0 ds"

lemma is_digit_digit_char [simp]: "d < 10 \<Longrightarrow> is_digit (char_of (48 + d :: nat))"
  by (simp add: is_digit_def char_between_def of_char_of)

lemma digit_val_digit_char [simp]: "d < 10 \<Longrightarrow> digit_val (char_of (48 + d :: nat)) = d"
  by (simp add: digit_val_def of_char_of)

lemma show_nat_digits: "\<forall>c \<in> set (show_nat n). is_digit c"
proof (induction n rule: show_nat.induct)
  case (1 n)
  then show ?case by (subst show_nat.simps) auto
qed

lemma show_nat_nonempty [simp]: "show_nat n \<noteq> []"
  by (subst show_nat.simps) simp

lemma nat_of_digits_snoc: "nat_of_digits (ds @ [c]) = 10 * nat_of_digits ds + digit_val c"
  by (simp add: nat_of_digits_def)

lemma nat_of_digits_show_nat [simp]: "nat_of_digits (show_nat n) = n"
proof (induction n rule: show_nat.induct)
  case (1 n)
  show ?case
  proof (cases "n < 10")
    case True
    then show ?thesis by (subst show_nat.simps) (simp add: nat_of_digits_def)
  next
    case False
    with 1 show ?thesis by (subst show_nat.simps) (simp add: nat_of_digits_snoc)
  qed
qed

lemma show_nat_inject [simp]: "show_nat m = show_nat n \<longleftrightarrow> m = n"
  by (metis nat_of_digits_show_nat)

lemma dropWhile_none: "\<forall>x \<in> set s. \<not> p x \<Longrightarrow> dropWhile p s = s"
  by (cases s) auto

lemma strip_by_none: "\<forall>x \<in> set s. \<not> p x \<Longrightarrow> strip_by p s = s"
  by (simp add: strip_by_def dropWhile_none)

lemma digit_not_sign: "is_digit c \<Longrightarrow> c \<noteq> CHR ''-'' \<and> c \<noteq> CHR ''+'' \<and> \<not> py_space c"
  by (auto simp: is_digit_def char_between_def py_space_def Let_def)

lemma length_show_nat: "length (show_nat n) \<le> n + 1"
proof (induction n rule: show_nat.induct)
  case (1 n)
  show ?case
  proof (cases "n < 10")
    case False
    with 1 have "length (show_nat (n div 10)) \<le> n div 10 + 1" by simp
    moreover have "n div 10 + 2 \<le> n + 1" using False by linarith
    ultimately show ?thesis using False by (subst show_nat.simps) simp
  qed (subst show_nat.simps, simp)
qed

section \<open>Keyed rows\<close>

text \<open>
  A table is a list of rows. \<open>row_of k x rows\<close> is the row with primary key \<open>x\<close>,
  \<open>set_row k r rows\<close> replaces the row that has the key of \<open>r\<close>.
\<close>

definition row_of :: "('r \<Rightarrow> 'k) \<Rightarrow> 'k \<Rightarrow> 'r list \<Rightarrow> 'r option" where
  "row_of k x rows = find (\<lambda>r. k r = x) rows"

definition set_row :: "('r \<Rightarrow> 'k) \<Rightarrow> 'r \<Rightarrow> 'r list \<Rightarrow> 'r list" where
  "set_row k r rows = map (\<lambda>q. if k q = k r then r else q) rows"

lemma row_of_Some: "row_of k x rows = Some r \<Longrightarrow> r \<in> set rows \<and> k r = x"
  by (auto simp: row_of_def find_Some_iff)

lemma row_of_None: "row_of k x rows = None \<longleftrightarrow> (\<forall>r \<in> set rows. k r \<noteq> x)"
  by (auto simp: row_of_def find_None_iff)

lemma row_of_Nil [row_simps]: "row_of k x [] = None"
  by (simp add: row_of_def)

lemma row_of_Cons [row_simps]: "row_of k x (r # rs) = (if k r = x then Some r else row_of k x rs)"
  by (simp add: row_of_def)

lemma row_of_append [row_simps]:
  "row_of k x (rs @ qs) = (case row_of k x rs of None \<Rightarrow> row_of k x qs | Some r \<Rightarrow> Some r)"
  by (induction rs) (auto simp: row_simps)

lemma row_of_set_row [row_simps]:
  "row_of k x (set_row k r rows) =
     (if k r = x then (case row_of k x rows of None \<Rightarrow> None | Some _ \<Rightarrow> Some r) else row_of k x rows)"
  by (induction rows) (auto simp: row_of_def set_row_def)

lemma keys_set_row [simp]: "map k (set_row k r rows) = map k rows"
  by (induction rows) (auto simp: set_row_def)

lemma set_row_mem: "q \<in> set (set_row k r rows) \<Longrightarrow> q = r \<or> (q \<in> set rows \<and> k q \<noteq> k r)"
  by (auto simp: set_row_def)

lemma distinct_row_of: "distinct (map k rows) \<Longrightarrow> r \<in> set rows \<Longrightarrow> row_of k (k r) rows = Some r"
  by (induction rows) (auto simp: row_of_def)

end
