(* ===== verification/Regex.thy ===== *)
theory Regex
  imports Prelude
begin

text \<open>
  Python's \<open>re\<close> as the sources use it: regular expressions without back-references, a
  backtracking matcher that returns every way to match a prefix in the order in which the
  engine tries them, the captured groups of the first full match, and the proof that a full
  match exists exactly for the words of the expression's language.
\<close>

section \<open>Expressions and their languages\<close>

datatype rx =
    Eps
  | Cls "char \<Rightarrow> bool"
  | Cat rx rx
  | Alt rx rx
  | Star rx
  | Grp rx

inductive_set star_lang :: "string set \<Rightarrow> string set" for L where
  star_Nil: "[] \<in> star_lang L"
| star_step: "u \<in> L \<Longrightarrow> v \<in> star_lang L \<Longrightarrow> u @ v \<in> star_lang L"

fun lang :: "rx \<Rightarrow> string set" where
  "lang Eps = {[]}"
| "lang (Cls p) = {[c] | c. p c}"
| "lang (Cat a b) = {u @ v | u v. u \<in> lang a \<and> v \<in> lang b}"
| "lang (Alt a b) = lang a \<union> lang b"
| "lang (Star r) = star_lang (lang r)"
| "lang (Grp r) = lang r"

section \<open>Derived expressions\<close>

definition lit :: "char \<Rightarrow> rx" where
  "lit c = Cls (\<lambda>x. x = c)"

fun word_rx :: "string \<Rightarrow> rx" where
  "word_rx [] = Eps"
| "word_rx (c # cs) = Cat (lit c) (word_rx cs)"

definition plus :: "rx \<Rightarrow> rx" where
  "plus r = Cat r (Star r)"

definition opt :: "rx \<Rightarrow> rx" where
  "opt r = Alt r Eps"

fun upto_times :: "nat \<Rightarrow> rx \<Rightarrow> rx" where
  "upto_times 0 r = Eps"
| "upto_times (Suc n) r = opt (Cat r (upto_times n r))"

fun times :: "nat \<Rightarrow> rx \<Rightarrow> rx" where
  "times 0 r = Eps"
| "times (Suc n) r = Cat r (times n r)"

fun cats :: "rx list \<Rightarrow> rx" where
  "cats [] = Eps"
| "cats [r] = r"
| "cats (r # q # rs) = Cat r (cats (q # rs))"

fun alts :: "rx list \<Rightarrow> rx" where
  "alts [] = Cls (\<lambda>_. False)"
| "alts [r] = r"
| "alts (r # q # rs) = Alt r (alts (q # rs))"

section \<open>The backtracking matcher\<close>

text \<open>
  \<open>rm r s\<close> lists the results of matching \<open>r\<close> at the start of \<open>s\<close>, each with the captured
  groups and the remaining text, in the order in which a backtracking engine finds them:
  \<open>Alt\<close> tries its left branch first and \<open>Star\<close> is greedy. A further iteration of \<open>Star\<close>
  must consume at least one character.
\<close>

function rm :: "rx \<Rightarrow> string \<Rightarrow> (string list \<times> string) list" where
  "rm Eps s = [([], s)]"
| "rm (Cls p) s = (case s of [] \<Rightarrow> [] | c # cs \<Rightarrow> if p c then [([], cs)] else [])"
| "rm (Cat a b) s = concat (map (\<lambda>(g, t). map (\<lambda>(h, u). (g @ h, u)) (rm b t)) (rm a s))"
| "rm (Alt a b) s = rm a s @ rm b s"
| "rm (Star r) s =
     concat (map (\<lambda>(g, t). if length t < length s then map (\<lambda>(h, u). (g @ h, u)) (rm (Star r) t) else [])
       (rm r s)) @ [([], s)]"
| "rm (Grp r) s = map (\<lambda>(g, t). (take (length s - length t) s # g, t)) (rm r s)"
  by pat_completeness auto
termination
  by (relation "measures [\<lambda>(r, s). size r, \<lambda>(r, s). length s]") auto

definition fullmatch :: "rx \<Rightarrow> string \<Rightarrow> string list option" where
  "fullmatch r s = map_option fst (find (\<lambda>(g, t). t = []) (rm r s))"

definition matches_full :: "rx \<Rightarrow> string \<Rightarrow> bool" where
  "matches_full r s = (fullmatch r s \<noteq> None)"

section \<open>The matcher decides the language\<close>

lemma star_lang_nonempty_step:
  "w \<in> star_lang L \<Longrightarrow> w \<noteq> [] \<Longrightarrow> \<exists>u v. w = u @ v \<and> u \<in> L \<and> u \<noteq> [] \<and> v \<in> star_lang L"
proof (induction rule: star_lang.induct)
  case star_Nil
  then show ?case by simp
next
  case (star_step u v)
  then show ?case by (cases "u = []") auto
qed

declare rm.simps(5) [simp del]

lemmas rm_star = rm.simps(5)

lemma rm_cat_mem:
  "(g, t) \<in> set (rm (Cat a b) s) \<longleftrightarrow>
     (\<exists>g1 t1 g2. (g1, t1) \<in> set (rm a s) \<and> (g2, t) \<in> set (rm b t1) \<and> g = g1 @ g2)"
  by force

lemma rm_star_mem:
  "(g, t) \<in> set (rm (Star r) s) \<longleftrightarrow> (g, t) = ([], s) \<or>
     (\<exists>g1 t1 g2. (g1, t1) \<in> set (rm r s) \<and> length t1 < length s \<and>
        (g2, t) \<in> set (rm (Star r) t1) \<and> g = g1 @ g2)"
  by (subst rm_star) (force split: if_splits)

lemma rm_sound: "(g, t) \<in> set (rm r s) \<Longrightarrow> \<exists>w. s = w @ t \<and> w \<in> lang r"
proof (induction r s arbitrary: g t rule: rm.induct)
  case (1 s)
  then show ?case by simp
next
  case (2 p s)
  then show ?case by (cases s) (auto split: if_splits)
next
  case (3 a b s)
  from "3.prems" obtain g1 t1 g2 where
    a: "(g1, t1) \<in> set (rm a s)" and b: "(g2, t) \<in> set (rm b t1)"
    unfolding rm_cat_mem by blast
  from "3.IH"(1) [OF a] obtain w1 where w1: "s = w1 @ t1" "w1 \<in> lang a" by blast
  from "3.IH"(2) [OF a refl b] obtain w2 where w2: "t1 = w2 @ t" "w2 \<in> lang b" by blast
  from w1 w2 have "s = (w1 @ w2) @ t" "w1 @ w2 \<in> lang (Cat a b)" by auto
  then show ?case by blast
next
  case (4 a b s)
  from "4.prems" consider "(g, t) \<in> set (rm a s)" | "(g, t) \<in> set (rm b s)" by auto
  then show ?case
    by cases (use "4.IH" in fastforce)+
next
  case (5 r s)
  from "5.prems" consider "t = s" | g1 t1 g2 where "(g1, t1) \<in> set (rm r s)"
      "length t1 < length s" "(g2, t) \<in> set (rm (Star r) t1)"
    by (auto simp: rm_star_mem [of g t r s])
  then show ?case
  proof cases
    case 1
    then show ?thesis by (intro exI [of _ "[]"]) (simp add: star_Nil)
  next
    case 2
    from "5.IH"(1) [OF 2(1)] obtain w1 where w1: "s = w1 @ t1" "w1 \<in> lang r" by blast
    from "5.IH"(2) [OF 2(1) refl 2(2,3)] obtain w2 where w2: "t1 = w2 @ t" "w2 \<in> lang (Star r)"
      by blast
    from w1 w2 have "s = (w1 @ w2) @ t" "w1 @ w2 \<in> lang (Star r)" by (auto intro: star_step)
    then show ?thesis by blast
  qed
next
  case (6 r s)
  from "6.prems" obtain h where "(h, t) \<in> set (rm r s)" by auto
  from "6.IH" [OF this] show ?case by simp
qed

lemma rm_complete: "s = w @ t \<Longrightarrow> w \<in> lang r \<Longrightarrow> \<exists>g. (g, t) \<in> set (rm r s)"
proof (induction r s arbitrary: w t rule: rm.induct)
  case (3 a b s)
  then obtain u v where uv: "w = u @ v" "u \<in> lang a" "v \<in> lang b" by auto
  from "3.IH"(1) [of u "v @ t"] uv "3.prems" obtain g where g: "(g, v @ t) \<in> set (rm a s)" by auto
  from "3.IH"(2) [OF g refl, of v t] uv obtain h where "(h, t) \<in> set (rm b (v @ t))" by auto
  with g show ?case unfolding rm_cat_mem by blast
next
  case (5 r s)
  show ?case
  proof (cases "w = []")
    case True
    with "5.prems" have "([], t) \<in> set (rm (Star r) s)" by (subst rm_star_mem) simp
    then show ?thesis by blast
  next
    case False
    with "5.prems" star_lang_nonempty_step [of w "lang r"] obtain u v where
      uv: "w = u @ v" "u \<in> lang r" "u \<noteq> []" "v \<in> star_lang (lang r)" by auto
    from "5.IH"(1) [of u "v @ t"] uv "5.prems" obtain g where
      g: "(g, v @ t) \<in> set (rm r s)" by auto
    from uv "5.prems" have len: "length (v @ t) < length s" by simp
    from "5.IH"(2) [OF g refl len, of v t] uv obtain h where
      h: "(h, t) \<in> set (rm (Star r) (v @ t))" by auto
    from g h len have "(g @ h, t) \<in> set (rm (Star r) s)" by (subst rm_star_mem) blast
    then show ?thesis by blast
  qed
next
  case (6 r s)
  from "6.prems" have "w \<in> lang r" by simp
  with "6.IH" [OF "6.prems"(1)] obtain g where "(g, t) \<in> set (rm r s)" by blast
  then show ?case by force
next
  case (4 a b s)
  from "4.prems"(2) consider "w \<in> lang a" | "w \<in> lang b" by auto
  then show ?case
  proof cases
    case 1
    with "4.IH"(1) [OF "4.prems"(1)] show ?thesis by auto
  next
    case 2
    with "4.IH"(2) [OF "4.prems"(1)] show ?thesis by auto
  qed
qed auto

text \<open>An expression without groups captures nothing; a match leaves a suffix of the text.\<close>

fun group_free :: "rx \<Rightarrow> bool" where
  "group_free (Cat a b) = (group_free a \<and> group_free b)"
| "group_free (Alt a b) = (group_free a \<and> group_free b)"
| "group_free (Star r) = group_free r"
| "group_free (Grp r) = False"
| "group_free _ = True"

lemma rm_group_free: "(g, t) \<in> set (rm r s) \<Longrightarrow> group_free r \<Longrightarrow> g = []"
proof (induction r s arbitrary: g t rule: rm.induct)
  case (2 p s)
  then show ?case by (cases s) (auto split: if_splits)
next
  case (3 a b s)
  then obtain g1 t1 g2 where
    "(g1, t1) \<in> set (rm a s)" "(g2, t) \<in> set (rm b t1)" "g = g1 @ g2"
    unfolding rm_cat_mem by blast
  with 3 show ?case by auto
next
  case (5 r s)
  from "5.prems"(1) consider "g = []" | g1 t1 g2 where "(g1, t1) \<in> set (rm r s)"
      "length t1 < length s" "(g2, t) \<in> set (rm (Star r) t1)" "g = g1 @ g2"
    by (auto simp: rm_star_mem [of g t r s])
  then show ?case
  proof cases
    case 2
    with "5.IH"(1) [OF 2(1)] "5.IH"(2) [OF 2(1) refl 2(2,3)] "5.prems"(2) show ?thesis by simp
  qed simp
qed auto

lemma group_free_lit [simp]: "group_free (lit c)"
  by (simp add: lit_def)

lemma group_free_word_rx [simp]: "group_free (word_rx w)"
  by (induction w) auto

lemma group_free_plus [simp]: "group_free (plus r) = group_free r"
  by (auto simp: plus_def)

lemma group_free_opt [simp]: "group_free (opt r) = group_free r"
  by (auto simp: opt_def)

lemma group_free_upto_times [simp]: "group_free r \<Longrightarrow> group_free (upto_times n r)"
  by (induction n) auto

lemma group_free_times [simp]: "group_free r \<Longrightarrow> group_free (times n r)"
  by (induction n) auto

lemma rm_grp_mem:
  "(g, t) \<in> set (rm (Grp r) s) \<longleftrightarrow>
     (\<exists>h. (h, t) \<in> set (rm r s) \<and> g = take (length s - length t) s # h)"
  by force

lemma fullmatch_None_iff: "fullmatch r s = None \<longleftrightarrow> (\<forall>(g, t) \<in> set (rm r s). t \<noteq> [])"
  by (auto simp: fullmatch_def find_None_iff)

lemma fullmatch_SomeD: "fullmatch r s = Some g \<Longrightarrow> (g, []) \<in> set (rm r s)"
  by (auto simp: fullmatch_def find_Some_iff dest: nth_mem)

lemma matches_full_iff_lang: "matches_full r s \<longleftrightarrow> s \<in> lang r"
proof
  assume "matches_full r s"
  then obtain g where "(g, []) \<in> set (rm r s)"
    by (auto simp: matches_full_def dest: fullmatch_SomeD)
  from rm_sound [OF this] show "s \<in> lang r" by auto
next
  assume "s \<in> lang r"
  from rm_complete [OF _ this, of s "[]"] show "matches_full r s"
    by (auto simp: matches_full_def fullmatch_None_iff)
qed

section \<open>Languages of the common shapes\<close>

lemma lang_word_rx [simp]: "lang (word_rx w) = {w}"
  by (induction w) (auto simp: lit_def)

lemma lang_lit [simp]: "lang (lit c) = {[c]}"
  by (auto simp: lit_def)

lemma star_lang_cls: "w \<in> star_lang {[c] | c. p c} \<Longrightarrow> \<forall>c \<in> set w. p c"
  by (induction rule: star_lang.induct) auto

lemma lang_plus_cls: "w \<in> lang (plus (Cls p)) \<Longrightarrow> w \<noteq> [] \<and> (\<forall>c \<in> set w. p c)"
  using star_lang_cls [of _ p] by (auto simp: plus_def)

lemma lang_upto_cls: "w \<in> lang (upto_times n (Cls p)) \<Longrightarrow> \<forall>c \<in> set w. p c"
  by (induction n arbitrary: w) (auto simp: opt_def)

lemma cls_cat_iff: "w \<in> lang (Cat (Cls p) r) \<longleftrightarrow> (\<exists>c v. w = c # v \<and> p c \<and> v \<in> lang r)"
  by (auto, metis append_Cons append_Nil)

lemma upto_cls_iff: "w \<in> lang (upto_times n (Cls p)) \<longleftrightarrow> length w \<le> n \<and> (\<forall>c \<in> set w. p c)"
proof (induction n arbitrary: w)
  case (Suc n)
  then show ?case by (cases w) (auto simp: opt_def cls_cat_iff simp del: lang.simps(3))
qed auto

end
