(* ===== verification/PyValues.thy ===== *)
theory PyValues
  imports Regex
begin

text \<open>
  JSON-shaped Python values: None, bool, int, str, list and dict with \<open>str\<close> keys. A dict is
  an association list in insertion order whose keys are distinct. The functions are the ones
  that the sources apply to such values: \<open>get\<close>, item assignment, \<open>{**a, **b}\<close>, truth value,
  \<open>str\<close>, \<open>int\<close>, \<open>==\<close>, and the canonical JSON text of \<open>json.dumps\<close>. Floating-point numbers
  are not among the values.
\<close>

section \<open>Values\<close>

datatype pyval =
    PNone
  | PBool bool
  | PInt int
  | PStr string
  | PList "pyval list"
  | PDict "(string \<times> pyval) list"

type_synonym pydict = "(string \<times> pyval) list"

section \<open>Dicts\<close>

definition dget :: "pydict \<Rightarrow> string \<Rightarrow> pyval" where
  "dget d k = (case map_of d k of None \<Rightarrow> PNone | Some v \<Rightarrow> v)"

definition dget_or :: "pydict \<Rightarrow> string \<Rightarrow> pyval \<Rightarrow> pyval" where
  "dget_or d k v0 = (case map_of d k of None \<Rightarrow> v0 | Some v \<Rightarrow> v)"

definition ditem :: "pydict \<Rightarrow> string \<Rightarrow> pyval result" where
  "ditem d k = (case map_of d k of None \<Rightarrow> Inl (PyError KeyError) | Some v \<Rightarrow> Inr v)"

definition dhas :: "pydict \<Rightarrow> string \<Rightarrow> bool" where
  "dhas d k = (map_of d k \<noteq> None)"

fun dset :: "'k \<Rightarrow> 'v \<Rightarrow> ('k \<times> 'v) list \<Rightarrow> ('k \<times> 'v) list" where
  "dset k v [] = [(k, v)]"
| "dset k v ((k', v') # d) = (if k' = k then (k, v) # d else (k', v') # dset k v d)"

definition dmerge :: "('k \<times> 'v) list \<Rightarrow> ('k \<times> 'v) list \<Rightarrow> ('k \<times> 'v) list" where
  "dmerge d e = foldl (\<lambda>d (k, v). dset k v d) d e"

definition dpop :: "'k \<Rightarrow> ('k \<times> 'v) list \<Rightarrow> ('k \<times> 'v) list" where
  "dpop k d = filter (\<lambda>(k', v). k' \<noteq> k) d"

definition dict_keys :: "('k \<times> 'v) list \<Rightarrow> 'k list" where
  "dict_keys d = map fst d"

definition as_dict :: "pyval \<Rightarrow> pydict option" where
  "as_dict v = (case v of PDict d \<Rightarrow> Some d | _ \<Rightarrow> None)"

lemma map_of_dset [simp]: "map_of (dset k v d) = (map_of d)(k \<mapsto> v)"
  by (induction d) auto

lemma keys_dset: "fst ` set (dset k v d) = insert k (fst ` set d)"
  by (induction k v d rule: dset.induct) (simp_all add: insert_commute)

lemma set_dset: "set (dset k v d) \<subseteq> insert (k, v) (set d)"
  by (induction k v d rule: dset.induct) auto

lemma map_of_dpop [simp]: "map_of (dpop k d) = (map_of d)(k := None)"
  by (induction d) (auto simp: dpop_def)

lemma distinct_dset [simp]: "distinct (map fst d) \<Longrightarrow> distinct (map fst (dset k v d))"
proof (induction d)
  case Nil
  then show ?case by simp
next
  case (Cons x d)
  then show ?case using keys_dset [of k v d] by (cases x) auto
qed

lemma dmerge_Nil [simp]: "dmerge d [] = d"
  by (simp add: dmerge_def)

lemma dmerge_Cons [simp]: "dmerge d ((k, v) # e) = dmerge (dset k v d) e"
  by (simp add: dmerge_def)

lemma distinct_dmerge [simp]: "distinct (map fst d) \<Longrightarrow> distinct (map fst (dmerge d e))"
  by (induction e arbitrary: d) auto

lemma map_of_dmerge:
  "distinct (map fst e) \<Longrightarrow> map_of (dmerge d e) = map_of d ++ map_of e"
proof (induction e arbitrary: d)
  case Nil
  then show ?case by simp
next
  case (Cons x e)
  obtain k v where x: "x = (k, v)" by (cases x)
  with Cons.prems have k: "map_of e k = None" by (simp add: map_of_eq_None_iff)
  have "map_of (dmerge d (x # e)) = (map_of d)(k \<mapsto> v) ++ map_of e"
    using Cons x by simp
  also have "\<dots> = map_of d ++ map_of (x # e)"
    using k x by (auto simp: map_add_def fun_eq_iff split: option.splits)
  finally show ?case .
qed

lemma dget_dmerge:
  "distinct (map fst e) \<Longrightarrow> dget (dmerge d e) k = (if dhas e k then dget e k else dget d k)"
  by (cases "map_of e k")
    (simp_all add: dget_def dhas_def map_of_dmerge map_add_def del: map_of_eq_Some_iff)

section \<open>Truth, text and numbers\<close>

fun truthy :: "pyval \<Rightarrow> bool" where
  "truthy PNone = False"
| "truthy (PBool b) = b"
| "truthy (PInt i) = (i \<noteq> 0)"
| "truthy (PStr s) = (s \<noteq> [])"
| "truthy (PList xs) = (xs \<noteq> [])"
| "truthy (PDict d) = (d \<noteq> [])"

definition py_or :: "pyval \<Rightarrow> pyval \<Rightarrow> pyval" where
  "py_or a b = (if truthy a then a else b)"

definition hex_digit :: "nat \<Rightarrow> char" where
  "hex_digit n = (if n < 10 then char_of (48 + n) else char_of (87 + n))"

definition hex2 :: "char \<Rightarrow> string" where
  "hex2 c = (let n = (of_char c :: nat) in [hex_digit (n div 16), hex_digit (n mod 16)])"

definition repr_char :: "char \<Rightarrow> char \<Rightarrow> string" where
  "repr_char q c = (let n = (of_char c :: nat) in
     if c = q \<or> n = 92 then [CHR 0x5C, c]
     else if n = 9 then [CHR 0x5C, CHR ''t'']
     else if n = 10 then [CHR 0x5C, CHR ''n'']
     else if n = 13 then [CHR 0x5C, CHR ''r'']
     else if n < 32 \<or> (127 \<le> n \<and> n \<le> 160) \<or> n = 173 then [CHR 0x5C, CHR ''x''] @ hex2 c
     else [c])"

definition repr_str :: "string \<Rightarrow> string" where
  "repr_str s = (let q = (if CHR 0x27 \<in> set s \<and> CHR 0x22 \<notin> set s then CHR 0x22 else CHR 0x27)
                 in [q] @ concat (map (repr_char q) s) @ [q])"

fun py_repr :: "pyval \<Rightarrow> string" where
  "py_repr PNone = ''None''"
| "py_repr (PBool b) = (if b then ''True'' else ''False'')"
| "py_repr (PInt i) = show_int i"
| "py_repr (PStr s) = repr_str s"
| "py_repr (PList xs) = ''['' @ py_join '', '' (map py_repr xs) @ '']''"
| "py_repr (PDict d) =
     [CHR 0x7B] @ py_join '', '' (map (\<lambda>(k, v). repr_str k @ '': '' @ py_repr v) d) @ [CHR 0x7D]"

definition py_str :: "pyval \<Rightarrow> string" where
  "py_str v = (case v of PStr s \<Rightarrow> s | _ \<Rightarrow> py_repr v)"

text \<open>The frequent \<open>str(value or "")\<close> and \<open>str(value or "").strip()\<close>.\<close>

definition text_or_empty :: "pyval \<Rightarrow> string" where
  "text_or_empty v = py_str (py_or v (PStr []))"

definition stripped_text :: "pyval \<Rightarrow> string" where
  "stripped_text v = py_strip (text_or_empty v)"

text \<open>
  \<open>int(text)\<close>: optional sign, decimal digits, single underscores between digits, at most
  4300 digits; surrounding white space is ignored.
\<close>

fun int_digits :: "bool \<Rightarrow> string \<Rightarrow> string option" where
  "int_digits prev [] = (if prev then Some [] else None)"
| "int_digits prev (c # cs) =
     (if is_digit c then map_option ((#) c) (int_digits True cs)
      else if c = CHR ''_'' \<and> prev then
        (case cs of [] \<Rightarrow> None | d # ds \<Rightarrow> if is_digit d then int_digits False cs else None)
      else None)"

definition int_of_text :: "string \<Rightarrow> int result" where
  "int_of_text s =
     (let t = py_strip s;
          neg = (case t of c # _ \<Rightarrow> c = CHR ''-'' | [] \<Rightarrow> False);
          u = (case t of c # cs \<Rightarrow> if c = CHR ''-'' \<or> c = CHR ''+'' then cs else t | [] \<Rightarrow> [])
      in case int_digits False u of
           None \<Rightarrow> Inl (PyError ValueError)
         | Some ds \<Rightarrow> if length ds > 4300 then Inl (PyError ValueError)
                      else Inr (if neg then - int (nat_of_digits ds) else int (nat_of_digits ds)))"

lemma int_digits_all: "ds \<noteq> [] \<Longrightarrow> \<forall>c \<in> set ds. is_digit c \<Longrightarrow> int_digits prev ds = Some ds"
proof (induction ds arbitrary: prev)
  case (Cons d ds)
  then show ?case by (cases ds) auto
qed simp

lemma int_of_text_digits:
  assumes "ds \<noteq> []" "\<forall>c \<in> set ds. is_digit c" "length ds \<le> 4300"
  shows "int_of_text ds = Inr (int (nat_of_digits ds))"
proof -
  have "py_strip ds = ds"
    using assms(2) digit_not_sign by (auto simp: py_strip_def intro!: strip_by_none)
  moreover obtain c cs where "ds = c # cs" using assms(1) by (cases ds) auto
  moreover have "c \<noteq> CHR ''-''" "c \<noteq> CHR ''+''"
    using calculation assms(2) digit_not_sign by auto
  ultimately show ?thesis
    using assms int_digits_all [of ds False] by (simp add: int_of_text_def del: int_digits.simps)
qed

definition py_int :: "pyval \<Rightarrow> int result" where
  "py_int v = (case v of
       PInt i \<Rightarrow> Inr i
     | PBool b \<Rightarrow> Inr (if b then 1 else 0)
     | PStr s \<Rightarrow> int_of_text s
     | _ \<Rightarrow> Inl (PyError TypeError))"

section \<open>Equality\<close>

text \<open>
  Python's \<open>==\<close>: \<open>True == 1\<close>, lists compare item by item, dicts by key without regard to
  order.
\<close>

definition as_num :: "pyval \<Rightarrow> int option" where
  "as_num v = (case v of PInt i \<Rightarrow> Some i | PBool b \<Rightarrow> Some (if b then 1 else 0) | _ \<Rightarrow> None)"

function py_eq :: "pyval \<Rightarrow> pyval \<Rightarrow> bool" where
  "py_eq (PList xs) w = (case w of
       PList ys \<Rightarrow> length xs = length ys \<and> list_all (\<lambda>(x, y). py_eq x y) (zip xs ys)
     | _ \<Rightarrow> False)"
| "py_eq (PDict d) w = (case w of
       PDict e \<Rightarrow> length d = length e \<and>
         list_all (\<lambda>(k, v). case map_of e k of None \<Rightarrow> False | Some u \<Rightarrow> py_eq v u) d
     | _ \<Rightarrow> False)"
| "py_eq (PStr s) w = (w = PStr s)"
| "py_eq PNone w = (w = PNone)"
| "py_eq (PInt i) w = (as_num w = Some i)"
| "py_eq (PBool b) w = (as_num w = Some (if b then 1 else 0))"
  by pat_completeness auto
termination
proof (relation "measure (\<lambda>(v, w). size v)", goal_cases)
  case 1
  then show ?case by simp
next
  case (2 xs w ys p x y)
  then have "x \<in> set xs" by (auto dest: set_zip_leftD)
  then have "size x \<le> size_list size xs" by (rule size_list_estimation') simp
  then show ?case by simp
next
  case (3 d w e p k v u)
  then have "v \<in> snd ` set d" by force
  then obtain p' where p': "p' \<in> set d" "v = snd p'" by blast
  then have "size v \<le> size_list (size_prod (\<lambda>_. 0) size) d"
    by (intro size_list_estimation' [OF p'(1)]) (cases p'; simp)
  then show ?case by simp
qed

definition in_values :: "pyval \<Rightarrow> pyval list \<Rightarrow> bool" where
  "in_values v vs = list_ex (\<lambda>w. py_eq v w) vs"

section \<open>Canonical JSON\<close>

definition json_char :: "char \<Rightarrow> string" where
  "json_char c = (let n = (of_char c :: nat) in
     if n = 34 \<or> n = 92 then [CHR 0x5C, c]
     else if n = 10 then [CHR 0x5C, CHR ''n'']
     else if n = 13 then [CHR 0x5C, CHR ''r'']
     else if n = 9 then [CHR 0x5C, CHR ''t'']
     else if n = 12 then [CHR 0x5C, CHR ''f'']
     else if n = 8 then [CHR 0x5C, CHR ''b'']
     else if n < 32 then [CHR 0x5C, CHR ''u'', CHR ''0'', CHR ''0''] @ hex2 c
     else [c])"

definition json_str :: "string \<Rightarrow> string" where
  "json_str s = [CHR 0x22] @ concat (map json_char s) @ [CHR 0x22]"

text \<open>\<open>json.dumps(v, ensure_ascii=False, sort_keys=True, separators=(",", ":"))\<close>\<close>

fun canonical_json :: "pyval \<Rightarrow> string" where
  "canonical_json PNone = ''null''"
| "canonical_json (PBool b) = (if b then ''true'' else ''false'')"
| "canonical_json (PInt i) = show_int i"
| "canonical_json (PStr s) = json_str s"
| "canonical_json (PList xs) = ''['' @ py_join '','' (map canonical_json xs) @ '']''"
| "canonical_json (PDict d) =
     [CHR 0x7B] @ py_join '','' (map (\<lambda>(k, j). json_str k @ '':'' @ j)
       (sort_key fst (map (\<lambda>(k, v). (k, canonical_json v)) d))) @ [CHR 0x7D]"

text \<open>UTF-8 bytes of a text whose code points are below 256.\<close>

definition utf8_char :: "char \<Rightarrow> string" where
  "utf8_char c = (let n = (of_char c :: nat) in
     if n < 128 then [c] else [char_of (192 + n div 64), char_of (128 + n mod 64)])"

definition utf8 :: "string \<Rightarrow> string" where
  "utf8 s = concat (map utf8_char s)"

section \<open>Time stamps\<close>

text \<open>
  A time stamp is a number of microseconds since 1970-01-01T00:00:00 UTC. \<open>isoformat\<close> is
  the text of an aware UTC \<open>datetime\<close>.
\<close>

type_synonym time = int

definition two_digits :: "int \<Rightarrow> string" where
  "two_digits i = [char_of (48 + nat i div 10), char_of (48 + nat i mod 10)]"

definition pad_left :: "nat \<Rightarrow> string \<Rightarrow> string" where
  "pad_left n s = replicate (n - length s) (CHR ''0'') @ s"

definition civil_date :: "int \<Rightarrow> int \<times> int \<times> int" where
  "civil_date days =
     (let z = days + 719468; era = z div 146097; doe = z mod 146097;
          yoe = (doe - doe div 1460 + doe div 36524 - doe div 146096) div 365;
          doy = doe - (365 * yoe + yoe div 4 - yoe div 100);
          mp = (5 * doy + 2) div 153; d = doy - (153 * mp + 2) div 5 + 1;
          m = (if mp < 10 then mp + 3 else mp - 9)
      in (yoe + era * 400 + (if m \<le> 2 then 1 else 0), m, d))"

definition isoformat :: "time \<Rightarrow> string" where
  "isoformat t =
     (let us = t mod 1000000; secs = t div 1000000; sod = secs mod 86400;
          (y, m, d) = civil_date (secs div 86400)
      in pad_left 4 (show_int y) @ ''-'' @ two_digits m @ ''-'' @ two_digits d @ ''T''
         @ two_digits (sod div 3600) @ '':'' @ two_digits (sod div 60 mod 60) @ '':'' @ two_digits (sod mod 60)
         @ (if us = 0 then [] else ''.'' @ pad_left 6 (show_int us)) @ ''+00:00'')"

section \<open>The hash of the standard library\<close>

text \<open>
  \<open>hashlib.sha256(bytes).hexdigest()\<close> is an argument \<open>sha\<close> of every definition that uses
  it: a function from byte strings to texts.
\<close>

type_synonym sha = "string \<Rightarrow> string"

section \<open>Evaluation on literals\<close>

text \<open>
  Code equations that read a character's bits: the simplifier evaluates the witnesses with them.
  The \<open>slow\<close> constants are the definitions for the remaining characters.
\<close>

lemma digit_bits [code]: "is_digit (Char b0 b1 b2 b3 b4 b5 b6 b7) \<longleftrightarrow>
    \<not> b7 \<and> \<not> b6 \<and> b5 \<and> b4 \<and> (\<not> b3 \<or> \<not> b2 \<and> \<not> b1)"
  by (cases b0; cases b1; cases b2; cases b3; cases b4; cases b5; cases b6; cases b7)
     (simp_all add: is_digit_def char_between_def)

lemma alpha_bits [code]: "is_alpha (Char b0 b1 b2 b3 b4 b5 b6 b7) \<longleftrightarrow>
    \<not> b7 \<and> b6 \<and> (b0 \<or> b1 \<or> b2 \<or> b3 \<or> b4) \<and> (\<not> b4 \<or> \<not> b3 \<or> \<not> b2 \<and> (\<not> b1 \<or> \<not> b0))"
  by (cases b0; cases b1; cases b2; cases b3; cases b4; cases b5; cases b6; cases b7)
     (simp_all add: is_alpha_def char_between_def)

definition lower_char_slow :: "char \<Rightarrow> char" where "lower_char_slow c = lower_char c"
lemma lower_char_slow_code [code]: "lower_char_slow c = (let n = (of_char c :: nat) in
    if (65 \<le> n \<and> n \<le> 90) \<or> (192 \<le> n \<and> n \<le> 222 \<and> n \<noteq> 215) then char_of (n + 32) else c)"
  by (simp add: lower_char_slow_def lower_char_def Let_def)
lemma lower_char_bits [code]: "lower_char (Char b0 b1 b2 b3 b4 b5 b6 b7) =
    (if \<not> b6 \<or> b5 then Char b0 b1 b2 b3 b4 b5 b6 b7 else lower_char_slow (Char b0 b1 b2 b3 b4 b5 b6 b7))"
  by (cases b0; cases b1; cases b2; cases b3; cases b4; cases b5; cases b6; cases b7)
     (simp_all add: lower_char_slow_def lower_char_def Let_def)

definition utf8_slow :: "char \<Rightarrow> string" where "utf8_slow c = utf8_char c"
lemma utf8_slow_code [code]: "utf8_slow c = (let n = (of_char c :: nat) in
     if n < 128 then [c] else [char_of (192 + n div 64), char_of (128 + n mod 64)])"
  by (simp add: utf8_slow_def utf8_char_def Let_def)
lemma utf8_char_bits [code]: "utf8_char (Char b0 b1 b2 b3 b4 b5 b6 b7) =
    (if b7 then utf8_slow (Char b0 b1 b2 b3 b4 b5 b6 b7) else [Char b0 b1 b2 b3 b4 b5 b6 b7])"
  by (cases b0; cases b1; cases b2; cases b3; cases b4; cases b5; cases b6; cases b7)
     (simp_all add: utf8_slow_def utf8_char_def Let_def)

definition json_slow :: "char \<Rightarrow> string" where "json_slow c = json_char c"
lemmas json_slow_code [code] = json_char_def [folded json_slow_def]
lemma json_char_bits [code]: "json_char (Char b0 b1 b2 b3 b4 b5 b6 b7) =
    (if (b5 \<or> b6 \<or> b7) \<and> Char b0 b1 b2 b3 b4 b5 b6 b7 \<notin> {CHR 0x22, CHR 0x5C}
     then [Char b0 b1 b2 b3 b4 b5 b6 b7] else json_slow (Char b0 b1 b2 b3 b4 b5 b6 b7))"
  by (cases b0; cases b1; cases b2; cases b3; cases b4; cases b5; cases b6; cases b7)
     (simp_all add: json_slow_def json_char_def Let_def)
definition iso_slow :: "time \<Rightarrow> string" where "iso_slow t = isoformat t"

lemmas iso_slow_code [code] = isoformat_def [folded iso_slow_def]

lemma isoformat_epoch [code]:
  "isoformat t = (if t = 0 then ''1970-01-01T00:00:00+00:00'' else iso_slow t)"
proof -
  have "isoformat 0 = ''1970-01-01T00:00:00+00:00''" by code_simp
  then show ?thesis by (simp add: iso_slow_def)
qed

end
