(* ===== verification/Redaction.thy ===== *)
theory Redaction
  imports PyValues
begin

text \<open>
  \<open>app/core/redaction.py\<close>: secret redaction of the payloads that reach the operation log,
  and the proofs that every value stored under a secret key is masked at every depth and that
  masked output contains no marker outside of texts with an \<open>@\<close> sign.
\<close>

section \<open>Substitution\<close>

text \<open>
  \<open>re.sub\<close> for patterns that never match the empty text. \<open>m bol s\<close> lists the matches at
  the start of \<open>s\<close>; \<open>bol\<close> says whether the position is at the beginning of a line.
\<close>

function re_sub :: "(bool \<Rightarrow> string \<Rightarrow> (string list \<times> string) list) \<Rightarrow> (string list \<Rightarrow> string)
    \<Rightarrow> bool \<Rightarrow> string \<Rightarrow> string" where
  "re_sub m f bol s =
     (case find (\<lambda>(g, t). length t < length s) (m bol s) of
        Some (g, t) \<Rightarrow> f g @ re_sub m f (s ! (length s - length t - 1) = CHR 0x0A) t
      | None \<Rightarrow> (case s of [] \<Rightarrow> [] | c # cs \<Rightarrow> c # re_sub m f (c = CHR 0x0A) cs))"
  by pat_completeness auto
termination
  by (relation "measure (\<lambda>(m, f, bol, s). length s)") (auto simp: find_Some_iff)

declare re_sub.simps [simp del]

section \<open>Markers and keys\<close>

definition REDACTED :: string where
  "REDACTED = ''[REDACTED]''"

definition SECRET_KEY_MARKERS :: "string list" where
  "SECRET_KEY_MARKERS = [''secret'', ''token'', ''password'', ''passwd'', ''private_key'',
     ''credential'', ''database_url'', ''connection_string'']"

definition SECRET_EXACT_KEYS :: "string list" where
  "SECRET_EXACT_KEYS = [''sshkeys'', ''sshkey'', ''ssh_public_key'', ''sshpublickey'',
     ''public_key'', ''publickey'']"

definition SAFE_KEYS :: "string list" where
  "SAFE_KEYS = [''password_login'']"

definition rx_space :: rx where
  "rx_space = Cls py_space"

definition ssh_key :: rx where
  "ssh_key = cats [
     alts [word_rx ''sk-ssh-ed25519@openssh.com'', word_rx ''sk-ecdsa-sha2-nistp256@openssh.com'',
           word_rx ''ssh-ed25519'', word_rx ''ssh-rsa'', word_rx ''rsa-sha2-256'', word_rx ''rsa-sha2-512'',
           Cat (word_rx ''ecdsa-sha2-'') (plus (Cls (\<lambda>c. is_alpha c \<or> is_digit c \<or> c \<in> set ''@._+-'')))],
     plus rx_space,
     plus (Cls (\<lambda>c. is_alpha c \<or> is_digit c \<or> c \<in> set ''+/='')),
     opt (cats [plus rx_space, plus (Cls (\<lambda>c. c \<noteq> CHR 0x0D \<and> c \<noteq> CHR 0x0A))])]"

definition ssh_key_matches :: "bool \<Rightarrow> string \<Rightarrow> (string list \<times> string) list" where
  "ssh_key_matches bol s = rm (if bol then Alt ssh_key (Cat rx_space ssh_key) else Cat rx_space ssh_key) s"

definition url_userinfo :: rx where
  "url_userinfo = cats [
     Grp (cats [word_rx ''://'', plus (Cls (\<lambda>c. c \<notin> set '':/@'')), lit CHR '':'']),
     plus (Cls (\<lambda>c. c \<noteq> CHR ''@'')),
     Grp (lit CHR ''@'')]"

definition mask_userinfo :: "string list \<Rightarrow> string" where
  "mask_userinfo g = (case g of [a, b] \<Rightarrow> a @ REDACTED @ b | _ \<Rightarrow> [])"

definition has_marker :: "string \<Rightarrow> bool" where
  "has_marker s = list_ex (\<lambda>m. contains_text m s) SECRET_KEY_MARKERS"

definition is_secret_key :: "string \<Rightarrow> bool" where
  "is_secret_key key =
     (let normalized = py_lower (map (\<lambda>c. if c = CHR ''-'' then CHR ''_'' else c) key);
          compact = filter (\<lambda>c. c \<noteq> CHR ''_'') normalized
      in if normalized \<in> set SAFE_KEYS then False
         else if normalized \<in> set SECRET_EXACT_KEYS \<or> compact \<in> set SECRET_EXACT_KEYS then True
         else has_marker normalized)"

definition redact_string :: "string \<Rightarrow> string" where
  "redact_string value =
     (let v = re_sub ssh_key_matches (\<lambda>_. ''[REDACTED_SSH_PUBLIC_KEY]'') True value
      in if contains_text ''://'' v \<and> CHR ''@'' \<in> set v
         then re_sub (\<lambda>_. rm url_userinfo) mask_userinfo True v
         else if has_marker (py_lower v) then REDACTED
         else v)"

fun redact_secrets :: "pyval \<Rightarrow> pyval" where
  "redact_secrets (PDict d) =
     PDict (map (\<lambda>(k, v). (k, if is_secret_key k then PStr REDACTED else redact_secrets v)) d)"
| "redact_secrets (PList xs) = PList (map redact_secrets xs)"
| "redact_secrets (PStr s) = PStr (redact_string s)"
| "redact_secrets (PBool b) = PBool b"
| "redact_secrets (PInt i) = PInt i"
| "redact_secrets PNone = PNone"

text \<open>\<open>_sanitized_mapping\<close> of the stores; an absent mapping is the empty one.\<close>

definition sanitized :: "pydict \<Rightarrow> pydict" where
  "sanitized payload = (case redact_secrets (PDict payload) of PDict d \<Rightarrow> d | _ \<Rightarrow> [])"

section \<open>What redaction guarantees\<close>

text \<open>
  \<open>masked v\<close>: every value under a secret key is the marker text, and every text without an
  \<open>@\<close> sign is free of secret markers.
\<close>

fun masked :: "pyval \<Rightarrow> bool" where
  "masked (PDict d) = list_all (\<lambda>(k, v). (is_secret_key k \<longrightarrow> v = PStr REDACTED) \<and> masked v) d"
| "masked (PList xs) = list_all masked xs"
| "masked (PStr s) = (CHR ''@'' \<in> set s \<or> \<not> has_marker (py_lower s))"
| "masked _ = True"

lemma url_userinfo_match:
  assumes "(g, t) \<in> set (rm url_userinfo s)"
  shows "\<exists>a. g = [a, ''@'']"
proof -
  from assms obtain g1 t1 g2 t2 g3 where
    g: "g = g1 @ g2 @ g3"
    and g1: "(g1, t1) \<in> set (rm (Grp (cats [word_rx ''://'', plus (Cls (\<lambda>c. c \<notin> set '':/@'')), lit CHR '':''])) s)"
    and g2: "(g2, t2) \<in> set (rm (plus (Cls (\<lambda>c. c \<noteq> CHR ''@''))) t1)"
    and g3: "(g3, t) \<in> set (rm (Grp (lit CHR ''@'')) t2)"
    unfolding url_userinfo_def cats.simps rm_cat_mem by blast
  from g1 obtain h where h: "(h, t1) \<in> set (rm (cats [word_rx ''://'', plus (Cls (\<lambda>c. c \<notin> set '':/@'')), lit CHR '':'']) s)"
    and g1': "g1 = take (length s - length t1) s # h"
    by (simp only: rm_grp_mem) blast
  from rm_group_free [OF h] g1' have "g1 = [take (length s - length t1) s]" by simp
  moreover from rm_group_free [OF g2] have "g2 = []" by simp
  moreover from g3 have "g3 = [''@'']"
    by (cases t2) (auto simp: lit_def split: if_splits)
  ultimately show ?thesis using g by simp
qed

lemma mask_userinfo_at: "(g, t) \<in> set (rm url_userinfo s) \<Longrightarrow> CHR ''@'' \<in> set (mask_userinfo g)"
  using url_userinfo_match [of g t s] by (auto simp: mask_userinfo_def)

lemma re_sub_url_keeps_at:
  "CHR ''@'' \<in> set s \<Longrightarrow> CHR ''@'' \<in> set (re_sub (\<lambda>_. rm url_userinfo) mask_userinfo bol s)"
proof (induction "(\<lambda>_::bool. rm url_userinfo)" mask_userinfo bol s rule: re_sub.induct)
  case (1 bol s)
  show ?case
  proof (cases "find (\<lambda>(g, t). length t < length s) (rm url_userinfo s)")
    case None
    with "1" show ?thesis by (cases s) (auto simp: re_sub.simps [of _ _ bol])
  next
    case (Some gt)
    obtain g t where gt: "gt = (g, t)" by (cases gt)
    with Some have "(g, t) \<in> set (rm url_userinfo s)"
      by (auto simp: find_Some_iff dest: nth_mem)
    with Some gt show ?thesis by (subst re_sub.simps) (simp add: mask_userinfo_at)
  qed
qed

lemma REDACTED_unmarked: "\<not> has_marker (py_lower REDACTED)"
  by code_simp

lemma redact_string_masked: "masked (PStr (redact_string s))"
proof -
  define v where "v = re_sub ssh_key_matches (\<lambda>_. ''[REDACTED_SSH_PUBLIC_KEY]'') True s"
  show ?thesis
    using re_sub_url_keeps_at [of v True] REDACTED_unmarked
    by (simp add: redact_string_def v_def [symmetric] Let_def)
qed

lemma redact_secrets_masked: "masked (redact_secrets v)"
proof (induction v rule: redact_secrets.induct)
  case (1 d)
  then show ?case by (auto simp: list_all_iff REDACTED_unmarked)
next
  case (2 xs)
  then show ?case by (simp add: list_all_iff)
next
  case (3 s)
  show ?case using redact_string_masked [of s] by (simp only: redact_secrets.simps)
qed simp_all

lemma sanitized_eq:
  "sanitized d = map (\<lambda>(k, v). (k, if is_secret_key k then PStr REDACTED else redact_secrets v)) d"
  by (simp add: sanitized_def)

lemma sanitized_Nil [simp]: "sanitized [] = []"
  by (simp add: sanitized_eq)

lemma sanitized_keys [simp]: "map fst (sanitized d) = map fst d"
  by (simp add: sanitized_eq case_prod_unfold comp_def)

lemma sanitized_masked: "masked (PDict (sanitized d))"
  using redact_secrets_masked [of "PDict d"] by (simp add: sanitized_def)

section \<open>Evaluating redaction\<close>

text \<open>
  A public key line names its algorithm, so the search for keys can skip every text without
  \<open>ssh-\<close> and \<open>sha2-\<close>.
\<close>

lemma starts_with_append: "starts_with m s \<Longrightarrow> starts_with m (s @ t)"
  by (induction m s rule: starts_with.induct) simp_all

lemma contains_text_append: "contains_text m s \<Longrightarrow> contains_text m (s @ t)"
proof (induction s)
  case Nil
  then show ?case by (cases t) simp_all
next
  case (Cons c s)
  then show ?case using starts_with_append [of m "c # s" t] by auto
qed

lemma contains_text_suffix: "contains_text m t \<Longrightarrow> contains_text m (u @ t)"
  by (induction u) simp_all

lemma re_sub_idle:
  assumes "\<And>u t b. s = u @ t \<Longrightarrow> m b t = []"
  shows "re_sub m f bol s = s"
  using assms
proof (induction s arbitrary: bol)
  case Nil
  then show ?case by (simp add: re_sub.simps)
next
  case (Cons c s)
  have "m bol (c # s) = []" using Cons.prems [of "[]" "c # s"] by simp
  moreover have "re_sub m f (c = CHR 0x0A) s = s"
    using Cons.prems [of "c # _"] by (intro Cons.IH) simp
  ultimately show ?case by (simp add: re_sub.simps [of m f bol "c # s"])
qed

lemma ssh_key_text:
  assumes "ssh_key_matches bol t \<noteq> []"
  shows "contains_text ''ssh-'' t \<or> contains_text ''sha2-'' t"
proof -
  let ?key = "\<lambda>w. contains_text ''ssh-'' w \<or> contains_text ''sha2-'' w"
  let ?kinds = "alts [
     word_rx ''sk-ssh-ed25519@openssh.com'', word_rx ''sk-ecdsa-sha2-nistp256@openssh.com'',
           word_rx ''ssh-ed25519'', word_rx ''ssh-rsa'', word_rx ''rsa-sha2-256'', word_rx ''rsa-sha2-512'',
           Cat (word_rx ''ecdsa-sha2-'') (plus (Cls (\<lambda>c. is_alpha c \<or> is_digit c \<or> c \<in> set ''@._+-'')))]"
  have kinds: "?key a" if "a \<in> lang ?kinds" for a
    using that unfolding alts.simps lang.simps(3,4) lang_word_rx
    by (elim UnE CollectE exE conjE) simp_all
  have core: "?key w" if key: "w \<in> lang ssh_key" for w
  proof -
    obtain a r where "w = a @ r" "a \<in> lang ?kinds"
      using key unfolding ssh_key_def cats.simps lang.simps(3) by blast
    then show ?thesis using kinds contains_text_append by blast
  qed
  from assms obtain g r where "(g, r) \<in> set (ssh_key_matches bol t)" by (cases "ssh_key_matches bol t") auto
  then obtain w where t: "t = w @ r" and w: "w \<in> lang ssh_key \<or> w \<in> lang (Cat rx_space ssh_key)"
    unfolding ssh_key_matches_def using rm_sound lang.simps(4) by (metis (full_types) UnE)
  from w have "?key w"
  proof
    assume "w \<in> lang (Cat rx_space ssh_key)"
    then obtain u v where "w = u @ v" "v \<in> lang ssh_key" unfolding lang.simps(3) by blast
    then show ?thesis using core contains_text_suffix by blast
  qed (rule core)
  then show ?thesis using t contains_text_append by blast
qed

lemma re_sub_ssh_idle:
  assumes "\<not> (contains_text ''ssh-'' s \<or> contains_text ''sha2-'' s)"
  shows "re_sub ssh_key_matches f bol s = s"
  using assms contains_text_suffix ssh_key_text by (intro re_sub_idle) blast

lemma redact_string_code [code]:
  "redact_string value =
     (let v = if contains_text ''ssh-'' value \<or> contains_text ''sha2-'' value
              then re_sub ssh_key_matches (\<lambda>_. ''[REDACTED_SSH_PUBLIC_KEY]'') True value else value
      in if contains_text ''://'' v \<and> CHR ''@'' \<in> set v
         then re_sub (\<lambda>_. rm url_userinfo) mask_userinfo True v
         else if has_marker (py_lower v) then REDACTED
         else v)"
  by (simp add: redact_string_def re_sub_ssh_idle)

end
