(* ===== verification/OperationDomain.thy ===== *)
theory OperationDomain
  imports Redaction
begin

text \<open>
  \<open>app/operations/core/domain.py\<close>: the status machine of an operation, the validation of an
  operation's specification, and the checksum chain of its events. Statuses are the source's
  texts. \<open>sha\<close> is \<open>hashlib.sha256(...).hexdigest()\<close>.
\<close>

section \<open>Statuses and transitions\<close>

definition EXECUTION_MODES :: "string list" where
  "EXECUTION_MODES = [''managed_api'', ''guided_manual'', ''observe_only'']"

definition OPERATION_STATUSES :: "string list" where
  "OPERATION_STATUSES = [''draft'', ''planned'', ''awaiting_approval'', ''approved'', ''dispatching'',
     ''running'', ''awaiting_operator'', ''awaiting_verification'', ''verifying'', ''succeeded'',
     ''blocked'', ''rejected'', ''expired'', ''failed'', ''needs_reconciliation'', ''cancelled'']"

definition TERMINAL_OPERATION_STATUSES :: "string list" where
  "TERMINAL_OPERATION_STATUSES =
     [''succeeded'', ''blocked'', ''rejected'', ''expired'', ''failed'', ''cancelled'']"

definition ALLOWED_TRANSITIONS :: "(string \<times> string list) list" where
  "ALLOWED_TRANSITIONS = [
     (''draft'', [''planned'', ''cancelled'']),
     (''planned'', [''awaiting_approval'', ''approved'', ''dispatching'', ''awaiting_operator'',
        ''blocked'', ''expired'', ''failed'', ''cancelled'']),
     (''awaiting_approval'', [''approved'', ''rejected'', ''expired'', ''cancelled'']),
     (''approved'', [''dispatching'', ''awaiting_operator'', ''blocked'', ''expired'', ''cancelled'']),
     (''dispatching'', [''running'', ''failed'', ''needs_reconciliation'']),
     (''running'', [''verifying'', ''failed'', ''needs_reconciliation'']),
     (''awaiting_operator'', [''awaiting_verification'', ''expired'', ''cancelled'', ''needs_reconciliation'']),
     (''awaiting_verification'', [''verifying'', ''expired'', ''needs_reconciliation'']),
     (''verifying'', [''succeeded'', ''failed'', ''needs_reconciliation'']),
     (''needs_reconciliation'', [''verifying'', ''succeeded'', ''failed'', ''cancelled'']),
     (''expired'', [''needs_reconciliation''])]"

definition allowed_next :: "string \<Rightarrow> string list" where
  "allowed_next s = (case map_of ALLOWED_TRANSITIONS s of None \<Rightarrow> [] | Some ts \<Rightarrow> ts)"

definition ensure_operation_transition :: "string \<Rightarrow> string \<Rightarrow> unit result" where
  "ensure_operation_transition current_status next_status =
     (if current_status \<notin> set OPERATION_STATUSES \<or> next_status \<notin> set OPERATION_STATUSES
      then Inl (InvalidOperationTransition current_status next_status)
      else if next_status \<notin> set (allowed_next current_status)
      then Inl (InvalidOperationTransition current_status next_status)
      else Inr ())"

section \<open>Actors and specifications\<close>

record operation_actor =
  ac_user_id :: string
  ac_username :: string
  ac_role :: string

definition actor_from_mapping :: "pydict \<Rightarrow> operation_actor" where
  "actor_from_mapping payload =
     \<lparr>ac_user_id = py_strip (py_str (py_or (py_or (dget payload ''actor_user_id'') (dget payload ''user_id'')) (PStr []))),
      ac_username = py_strip (py_str (py_or (py_or (dget payload ''actor_username'') (dget payload ''username'')) (PStr []))),
      ac_role = py_strip (py_str (py_or (py_or (dget payload ''actor_role'') (dget payload ''role'')) (PStr [])))\<rparr>"

definition actor_to_dict :: "operation_actor \<Rightarrow> pydict" where
  "actor_to_dict a =
     [(''user_id'', PStr (ac_user_id a)), (''username'', PStr (ac_username a)), (''role'', PStr (ac_role a))]"

text \<open>\<open>expires_at\<close> is a time together with the flag "has a timezone".\<close>

record operation_spec =
  sp_operation_id :: string
  sp_operation_type :: string
  sp_execution_mode :: string
  sp_target_type :: string
  sp_target_id :: string
  sp_idempotency_key :: string
  sp_intent_digest :: string
  sp_plan_digest :: string
  sp_actor :: operation_actor
  sp_initial_status :: string
  sp_initial_stage :: string
  sp_expires_at :: "(time \<times> bool) option"
  sp_details :: pydict

definition spec_post_init :: "operation_spec \<Rightarrow> unit result" where
  "spec_post_init sp =
     (if list_ex (\<lambda>v. py_strip v = [])
           [sp_operation_id sp, sp_operation_type sp, sp_target_type sp, sp_target_id sp,
            sp_idempotency_key sp, sp_intent_digest sp, sp_plan_digest sp]
      then Inl (PyError ValueError)
      else if sp_execution_mode sp \<notin> set EXECUTION_MODES then Inl (PyError ValueError)
      else if sp_initial_status sp \<notin> set OPERATION_STATUSES then Inl (PyError ValueError)
      else (case sp_expires_at sp of
              Some (t, has_tz) \<Rightarrow> if \<not> has_tz then Inl (PyError ValueError) else Inr ()
            | None \<Rightarrow> Inr ()))"

section \<open>Snapshots and events\<close>

record operation_snapshot =
  sn_operation_id :: string
  sn_operation_type :: string
  sn_execution_mode :: string
  sn_status :: string
  sn_target_type :: string
  sn_target_id :: string
  sn_idempotency_key :: string
  sn_intent_digest :: string
  sn_plan_digest :: string
  sn_current_stage :: string
  sn_actor :: operation_actor
  sn_details :: pydict
  sn_expires_at :: "time option"
  sn_version :: int
  sn_last_event_checksum :: string
  sn_created_at :: time
  sn_updated_at :: time

record create_result =
  cr_operation :: operation_snapshot
  cr_created :: bool

record operation_event =
  ev_event_id :: string
  ev_operation_id :: string
  ev_sequence :: int
  ev_event_type :: string
  ev_from_status :: "string option"
  ev_to_status :: string
  ev_stage :: string
  ev_actor :: operation_actor
  ev_payload :: pydict
  ev_previous_checksum :: string
  ev_checksum :: string
  ev_created_at :: time

section \<open>Digests and the event chain\<close>

definition operation_digest :: "sha \<Rightarrow> pydict \<Rightarrow> string" where
  "operation_digest sha payload = ''sha256:'' @ sha (utf8 (canonical_json (PDict payload)))"

definition event_checksum_payload ::
    "string \<Rightarrow> int \<Rightarrow> string \<Rightarrow> string option \<Rightarrow> string \<Rightarrow> string \<Rightarrow> operation_actor \<Rightarrow> pydict
     \<Rightarrow> string \<Rightarrow> time \<Rightarrow> pydict" where
  "event_checksum_payload operation_id seq event_type from_status to_status stage actor payload
     previous_checksum created_at =
     [(''operation_id'', PStr operation_id),
      (''sequence'', PInt seq),
      (''event_type'', PStr event_type),
      (''from_status'', (case from_status of None \<Rightarrow> PNone | Some s \<Rightarrow> PStr s)),
      (''to_status'', PStr to_status),
      (''stage'', PStr stage),
      (''actor'', PDict (actor_to_dict actor)),
      (''payload'', PDict payload),
      (''previous_checksum'', PStr previous_checksum),
      (''created_at'', PStr (isoformat created_at))]"

definition event_digest :: "sha \<Rightarrow> operation_event \<Rightarrow> string" where
  "event_digest sha e = operation_digest sha (event_checksum_payload (ev_operation_id e) (ev_sequence e)
     (ev_event_type e) (ev_from_status e) (ev_to_status e) (ev_stage e) (ev_actor e) (ev_payload e)
     (ev_previous_checksum e) (ev_created_at e))"

fun verify_chain_from :: "sha \<Rightarrow> string \<Rightarrow> int \<Rightarrow> operation_event list \<Rightarrow> bool" where
  "verify_chain_from sha previous_checksum expected_sequence [] = True"
| "verify_chain_from sha previous_checksum expected_sequence (e # es) =
     (if ev_sequence e \<noteq> expected_sequence \<or> ev_previous_checksum e \<noteq> previous_checksum then False
      else if ev_checksum e \<noteq> event_digest sha e then False
      else verify_chain_from sha (ev_checksum e) (expected_sequence + 1) es)"

definition verify_event_chain :: "sha \<Rightarrow> operation_event list \<Rightarrow> bool" where
  "verify_event_chain sha es = verify_chain_from sha [] 1 es"

section \<open>The status machine\<close>

lemma ensure_transition_Inr_iff:
  "ensure_operation_transition s t = Inr () \<longleftrightarrow>
     s \<in> set OPERATION_STATUSES \<and> t \<in> set OPERATION_STATUSES \<and> t \<in> set (allowed_next s)"
  by (simp add: ensure_operation_transition_def)

lemma ensure_transition_InlD:
  "ensure_operation_transition s t = Inl e \<Longrightarrow> e = InvalidOperationTransition s t"
  by (auto simp: ensure_operation_transition_def split: if_splits)

lemma allowed_next_statuses: "t \<in> set (allowed_next s) \<Longrightarrow> s \<in> set OPERATION_STATUSES \<and> t \<in> set OPERATION_STATUSES"
  by (auto simp: allowed_next_def ALLOWED_TRANSITIONS_def OPERATION_STATUSES_def split: if_splits)

lemma transition_iff_allowed: "ensure_operation_transition s t = Inr () \<longleftrightarrow> t \<in> set (allowed_next s)"
  using allowed_next_statuses by (auto simp: ensure_transition_Inr_iff)

text \<open>The terminal statuses other than \<open>expired\<close> are exactly those without a successor.\<close>

lemma terminal_iff_stuck:
  "s \<in> set OPERATION_STATUSES \<Longrightarrow>
     allowed_next s = [] \<longleftrightarrow> s \<in> set TERMINAL_OPERATION_STATUSES \<and> s \<noteq> ''expired''"
  by (auto simp: allowed_next_def ALLOWED_TRANSITIONS_def OPERATION_STATUSES_def TERMINAL_OPERATION_STATUSES_def)

text \<open>A step of the status machine is a transition that the check lets through.\<close>

inductive status_step :: "string \<Rightarrow> string \<Rightarrow> bool" where
  step: "ensure_operation_transition s t = Inr () \<Longrightarrow> status_step s t"

inductive_simps status_step_iff: "status_step s t"

inductive status_path :: "string \<Rightarrow> string list \<Rightarrow> string \<Rightarrow> bool" where
  path_Nil: "status_path s [] s"
| path_snoc: "status_path s ts t \<Longrightarrow> status_step t u \<Longrightarrow> status_path s (ts @ [u]) u"

lemma status_step_sources:
  "status_step s ''succeeded'' \<Longrightarrow> s = ''verifying'' \<or> s = ''needs_reconciliation''"
  by (auto simp: status_step_iff transition_iff_allowed allowed_next_def ALLOWED_TRANSITIONS_def split: if_splits)

lemma status_step_running: "status_step s ''running'' \<Longrightarrow> s = ''dispatching''"
  by (auto simp: status_step_iff transition_iff_allowed allowed_next_def ALLOWED_TRANSITIONS_def split: if_splits)

lemma status_path_end: "status_path s ts t \<Longrightarrow> ts = [] \<and> t = s \<or> ts \<noteq> [] \<and> last ts = t"
  by (induction rule: status_path.induct) auto

lemma status_path_last_step:
  "status_path s ts t \<Longrightarrow> s \<noteq> t \<Longrightarrow> \<exists>us u. status_path s us u \<and> status_step u t \<and> ts = us @ [t]"
  by (induction rule: status_path.cases) auto

section \<open>The chain\<close>

lemma verify_chain_from_append:
  "verify_chain_from sha c n (es @ [e]) \<longleftrightarrow>
     verify_chain_from sha c n es \<and> ev_sequence e = n + int (length es) \<and>
     ev_previous_checksum e = (if es = [] then c else ev_checksum (last es)) \<and>
     ev_checksum e = event_digest sha e"
  by (induction es arbitrary: c n) (auto simp: algebra_simps)

lemma verify_chain_sequences:
  "verify_chain_from sha c n es \<Longrightarrow> i < length es \<Longrightarrow> ev_sequence (es ! i) = n + int i"
proof (induction es arbitrary: c n i)
  case Nil
  then show ?case by simp
next
  case (Cons e es)
  then show ?case by (cases i) (auto split: if_splits)
qed

lemma verify_chain_sorted:
  assumes "verify_chain_from sha c n es"
  shows "sorted (map ev_sequence es)"
  using verify_chain_sequences [OF assms] by (simp add: sorted_iff_nth_mono)

lemma verify_chain_prefix: "verify_chain_from sha c n (es @ fs) \<Longrightarrow> verify_chain_from sha c n es"
  by (induction es arbitrary: c n) (auto split: if_splits)

end
