(* ===== verification/Database.thy ===== *)
theory Database
  imports OperationDomain "HOL-Library.Product_Lexorder"
begin

text \<open>
  The tables that the operation core shares (\<open>app/operations/core/infrastructure/models.py\<close>,
  \<open>app/operations/recovery/infrastructure/models.py\<close>, the lock, connection and credential
  tables) with the constraints that PostgreSQL enforces on an insert. A table is the list of
  its rows in insertion order; an insert that violates a primary key, a unique index, a check
  constraint or a foreign key is an \<open>IntegrityError\<close>. A session is a function from the
  database to an error (rolled back, no change) or to the committed database and a result.
\<close>

section \<open>Rows\<close>

record op_row =
  op_operation_id :: string
  op_operation_type :: string
  op_execution_mode :: string
  op_status :: string
  op_target_type :: string
  op_target_id :: string
  op_idempotency_key :: string
  op_intent_digest :: string
  op_plan_digest :: string
  op_current_stage :: string
  op_actor_user_id :: "string option"
  op_actor_username :: "string option"
  op_actor_role :: "string option"
  op_details :: pydict
  op_expires_at :: "time option"
  op_version :: int
  op_last_event_checksum :: string
  op_created_at :: time
  op_updated_at :: time

record event_row =
  er_event_id :: string
  er_operation_id :: string
  er_sequence :: int
  er_event_type :: string
  er_from_status :: "string option"
  er_to_status :: string
  er_stage :: string
  er_actor_user_id :: "string option"
  er_actor_username :: "string option"
  er_actor_role :: "string option"
  er_payload :: pydict
  er_previous_checksum :: string
  er_checksum :: string
  er_created_at :: time

record lock_row =
  lk_operation_lock_id :: string
  lk_operation_type :: string
  lk_scope_type :: string
  lk_scope_key :: string
  lk_status :: string
  lk_cluster_id :: string
  lk_vmid :: "int option"
  lk_owner_id :: "string option"
  lk_reason :: string
  lk_evidence :: pydict
  lk_created_at :: time
  lk_updated_at :: time
  lk_released_at :: "time option"

record recovery_row =
  rc_operation_id :: string
  rc_recovery_kind :: string
  rc_status :: string
  rc_available_at :: time
  rc_lease_owner :: "string option"
  rc_lease_token :: "string option"
  rc_lease_generation :: int
  rc_lease_expires_at :: "time option"
  rc_attempt_count :: int
  rc_last_error_code :: "string option"
  rc_details :: pydict
  rc_created_at :: time
  rc_updated_at :: time
  rc_completed_at :: "time option"

text \<open>
  The Proxmox connection selected by the installation: its source, its cluster, whether new
  work is admitted, and the configuration of the active credential revision.
\<close>

record setup_scope =
  sc_nodes :: "string list"
  sc_vmids :: "int list"
  sc_template_vmids :: "int list"
  sc_restore_vmids :: "int list"
  sc_image_vmids :: "int list"
  sc_clone_vmids :: "int list"
  sc_create_vmids :: "int list"
  sc_storages :: "string list"
  sc_host_storages :: "string list"
  sc_host_bridges :: "string list"
  sc_restore_storages :: "string list"
  sc_backup_storages :: "string list"
  sc_image_cleanup_storages :: "string list"
  sc_bridges :: "string list"

record credential_row =
  cd_revision_id :: string
  cd_state :: string
  cd_features :: "string list"
  cd_scope :: setup_scope
  cd_access_mode :: string

record connection_row =
  cn_source :: string
  cn_cluster_id :: string
  cn_admission :: string
  cn_active_revision_id :: "string option"

record db =
  db_operations :: "op_row list"
  db_events :: "event_row list"
  db_locks :: "lock_row list"
  db_recoveries :: "recovery_row list"
  db_connection :: "connection_row option"
  db_credentials :: "credential_row list"

definition empty_db :: db where
  "empty_db = \<lparr>db_operations = [], db_events = [], db_locks = [], db_recoveries = [],
     db_connection = None, db_credentials = []\<rparr>"

section \<open>Lookups\<close>

abbreviation find_operation :: "db \<Rightarrow> string \<Rightarrow> op_row option" where
  "find_operation d i \<equiv> row_of op_operation_id i (db_operations d)"

abbreviation find_lock :: "db \<Rightarrow> string \<Rightarrow> lock_row option" where
  "find_lock d i \<equiv> row_of lk_operation_lock_id i (db_locks d)"

abbreviation find_recovery :: "db \<Rightarrow> string \<Rightarrow> recovery_row option" where
  "find_recovery d i \<equiv> row_of rc_operation_id i (db_recoveries d)"

section \<open>Inserts and their constraints\<close>



definition op_scope :: "op_row \<Rightarrow> string \<times> string \<times> string \<times> string" where
  "op_scope r = (op_operation_type r, op_target_type r, op_target_id r, op_idempotency_key r)"

definition insert_operation :: "db \<Rightarrow> op_row \<Rightarrow> db result" where
  "insert_operation d r =
     (if list_ex (\<lambda>q. op_operation_id q = op_operation_id r \<or> op_scope q = op_scope r) (db_operations d)
         \<or> op_execution_mode r \<notin> set EXECUTION_MODES \<or> op_status r \<notin> set OPERATION_STATUSES
      then Inl IntegrityError
      else Inr (d\<lparr>db_operations := db_operations d @ [r]\<rparr>))"

definition insert_event :: "db \<Rightarrow> event_row \<Rightarrow> db result" where
  "insert_event d e =
     (if list_ex (\<lambda>q. er_event_id q = er_event_id e \<or>
            (er_operation_id q = er_operation_id e \<and> er_sequence q = er_sequence e)) (db_events d)
         \<or> find_operation d (er_operation_id e) = None
      then Inl IntegrityError
      else Inr (d\<lparr>db_events := db_events d @ [e]\<rparr>))"

definition OPEN_TARGET_LOCK_STATUSES :: "string list" where
  "OPEN_TARGET_LOCK_STATUSES = [''active'', ''stale'', ''reconciliation_required'']"

definition LOCK_STATUSES :: "string list" where
  "LOCK_STATUSES = [''active'', ''released'', ''stale'', ''reconciliation_required'']"

definition SUPPORTED_TARGET_OPERATION_TYPES :: "string list" where
  "SUPPORTED_TARGET_OPERATION_TYPES = [''vm_start'', ''vm_create'', ''guided_qm_vm_unlock'',
     ''vm_shutdown'', ''vm_compute'', ''vm_disk_resize'', ''vm_network'', ''vm_clone'', ''vm_delete'',
     ''vm_template'', ''vm_image_build'', ''vm_image_cleanup'', ''vm_backup'', ''vm_restore'', ''vm_migrate'']"

definition HOST_OPERATION_TYPES :: "string list" where
  "HOST_OPERATION_TYPES = [''host_storage'', ''host_network'']"

definition lock_open :: "lock_row \<Rightarrow> bool" where
  "lock_open r = (lk_status r \<in> set OPEN_TARGET_LOCK_STATUSES)"

definition lock_scope :: "lock_row \<Rightarrow> string \<times> string" where
  "lock_scope r = (lk_scope_type r, lk_scope_key r)"

definition lock_checks :: "lock_row \<Rightarrow> bool" where
  "lock_checks r =
     (lk_operation_type r \<in> set SUPPORTED_TARGET_OPERATION_TYPES \<union> set HOST_OPERATION_TYPES \<and>
      lk_scope_type r \<in> {''proxmox_locator'', ''proxmox_configuration''} \<and>
      lk_status r \<in> set LOCK_STATUSES \<and>
      ((lk_scope_type r = ''proxmox_configuration'' \<and> lk_operation_type r \<in> set HOST_OPERATION_TYPES
          \<and> lk_vmid r = None)
       \<or> (lk_scope_type r = ''proxmox_locator'' \<and> lk_operation_type r \<notin> set HOST_OPERATION_TYPES)))"

definition insert_lock :: "db \<Rightarrow> lock_row \<Rightarrow> db result" where
  "insert_lock d r =
     (if list_ex (\<lambda>q. lk_operation_lock_id q = lk_operation_lock_id r \<or>
            (lock_open q \<and> lock_open r \<and> lock_scope q = lock_scope r)) (db_locks d)
         \<or> \<not> lock_checks r
      then Inl IntegrityError
      else Inr (d\<lparr>db_locks := db_locks d @ [r]\<rparr>))"

definition RECOVERY_STATUSES :: "string list" where
  "RECOVERY_STATUSES = [''pending'', ''leased'', ''retry_wait'', ''paused'', ''completed'']"

definition insert_recovery :: "db \<Rightarrow> recovery_row \<Rightarrow> db result" where
  "insert_recovery d r =
     (if list_ex (\<lambda>q. rc_operation_id q = rc_operation_id r) (db_recoveries d)
         \<or> find_operation d (rc_operation_id r) = None
         \<or> rc_status r \<notin> set RECOVERY_STATUSES
      then Inl IntegrityError
      else Inr (d\<lparr>db_recoveries := db_recoveries d @ [r]\<rparr>))"

text \<open>Updates of the row with the given primary key.\<close>

definition put_operation :: "op_row \<Rightarrow> db \<Rightarrow> db" where
  "put_operation r d = d\<lparr>db_operations := set_row op_operation_id r (db_operations d)\<rparr>"

definition put_lock :: "lock_row \<Rightarrow> db \<Rightarrow> db" where
  "put_lock r d = d\<lparr>db_locks := set_row lk_operation_lock_id r (db_locks d)\<rparr>"

definition put_recovery :: "recovery_row \<Rightarrow> db \<Rightarrow> db" where
  "put_recovery r d = d\<lparr>db_recoveries := set_row rc_operation_id r (db_recoveries d)\<rparr>"

section \<open>Frames\<close>

lemma put_operation_simps [simp]:
  "db_events (put_operation r d) = db_events d"
  "db_locks (put_operation r d) = db_locks d"
  "db_recoveries (put_operation r d) = db_recoveries d"
  "db_connection (put_operation r d) = db_connection d"
  "db_credentials (put_operation r d) = db_credentials d"
  "db_operations (put_operation r d) = set_row op_operation_id r (db_operations d)"
  by (simp_all add: put_operation_def)

lemma put_lock_simps [simp]:
  "db_events (put_lock r d) = db_events d"
  "db_locks (put_lock r d) = set_row lk_operation_lock_id r (db_locks d)"
  "db_recoveries (put_lock r d) = db_recoveries d"
  "db_connection (put_lock r d) = db_connection d"
  "db_credentials (put_lock r d) = db_credentials d"
  "db_operations (put_lock r d) = db_operations d"
  by (simp_all add: put_lock_def)

lemma put_recovery_simps [simp]:
  "db_events (put_recovery r d) = db_events d"
  "db_locks (put_recovery r d) = db_locks d"
  "db_recoveries (put_recovery r d) = set_row rc_operation_id r (db_recoveries d)"
  "db_connection (put_recovery r d) = db_connection d"
  "db_credentials (put_recovery r d) = db_credentials d"
  "db_operations (put_recovery r d) = db_operations d"
  by (simp_all add: put_recovery_def)

lemma insert_operationD:
  "insert_operation d r = Inr d' \<Longrightarrow> d' = d\<lparr>db_operations := db_operations d @ [r]\<rparr> \<and>
     (\<forall>q \<in> set (db_operations d). op_operation_id q \<noteq> op_operation_id r \<and> op_scope q \<noteq> op_scope r) \<and>
     op_execution_mode r \<in> set EXECUTION_MODES \<and> op_status r \<in> set OPERATION_STATUSES"
  by (auto simp: insert_operation_def list_ex_iff split: if_splits)

lemma insert_eventD:
  "insert_event d e = Inr d' \<Longrightarrow> d' = d\<lparr>db_events := db_events d @ [e]\<rparr> \<and>
     find_operation d (er_operation_id e) \<noteq> None"
  by (auto simp: insert_event_def split: if_splits)

lemma insert_lockD:
  "insert_lock d r = Inr d' \<Longrightarrow> d' = d\<lparr>db_locks := db_locks d @ [r]\<rparr> \<and> lock_checks r \<and>
     (\<forall>q \<in> set (db_locks d). lk_operation_lock_id q \<noteq> lk_operation_lock_id r \<and>
        \<not> (lock_open q \<and> lock_open r \<and> lock_scope q = lock_scope r))"
  by (auto simp: insert_lock_def list_ex_iff split: if_splits)

lemma insert_recoveryD:
  "insert_recovery d r = Inr d' \<Longrightarrow> d' = d\<lparr>db_recoveries := db_recoveries d @ [r]\<rparr> \<and>
     find_recovery d (rc_operation_id r) = None \<and> find_operation d (rc_operation_id r) \<noteq> None"
  by (auto simp: insert_recovery_def list_ex_iff row_of_None split: if_splits)

lemma insert_errors:
  "insert_operation d r = Inl e \<Longrightarrow> e = IntegrityError"
  "insert_event d ev = Inl e \<Longrightarrow> e = IntegrityError"
  "insert_lock d lk = Inl e \<Longrightarrow> e = IntegrityError"
  "insert_recovery d rc = Inl e \<Longrightarrow> e = IntegrityError"
  by (auto simp: insert_operation_def insert_event_def insert_lock_def insert_recovery_def split: if_splits)

end
