(* ===== verification/OperationStore.thy ===== *)
theory OperationStore
  imports Database
begin

text \<open>
  \<open>app/operations/core/infrastructure/repository.py\<close>: the store that keeps an operation's
  current projection and its append-only event chain in one transaction. The time of the
  clock and the fresh event identifier are arguments.
\<close>

section \<open>Reading rows\<close>

definition opt_text :: "string option \<Rightarrow> string" where
  "opt_text x = (case x of None \<Rightarrow> [] | Some s \<Rightarrow> s)"

definition none_if_empty :: "string \<Rightarrow> string option" where
  "none_if_empty s = (if s = [] then None else Some s)"

definition actor_from_op :: "op_row \<Rightarrow> operation_actor" where
  "actor_from_op r = \<lparr>ac_user_id = opt_text (op_actor_user_id r),
     ac_username = opt_text (op_actor_username r), ac_role = opt_text (op_actor_role r)\<rparr>"

definition actor_from_event :: "event_row \<Rightarrow> operation_actor" where
  "actor_from_event r = \<lparr>ac_user_id = opt_text (er_actor_user_id r),
     ac_username = opt_text (er_actor_username r), ac_role = opt_text (er_actor_role r)\<rparr>"

definition snapshot_of :: "op_row \<Rightarrow> operation_snapshot" where
  "snapshot_of r = \<lparr>sn_operation_id = op_operation_id r, sn_operation_type = op_operation_type r,
     sn_execution_mode = op_execution_mode r, sn_status = op_status r,
     sn_target_type = op_target_type r, sn_target_id = op_target_id r,
     sn_idempotency_key = op_idempotency_key r, sn_intent_digest = op_intent_digest r,
     sn_plan_digest = op_plan_digest r, sn_current_stage = op_current_stage r,
     sn_actor = actor_from_op r, sn_details = op_details r, sn_expires_at = op_expires_at r,
     sn_version = op_version r, sn_last_event_checksum = op_last_event_checksum r,
     sn_created_at = op_created_at r, sn_updated_at = op_updated_at r\<rparr>"

definition event_of :: "event_row \<Rightarrow> operation_event" where
  "event_of r = \<lparr>ev_event_id = er_event_id r, ev_operation_id = er_operation_id r,
     ev_sequence = er_sequence r, ev_event_type = er_event_type r, ev_from_status = er_from_status r,
     ev_to_status = er_to_status r, ev_stage = er_stage r, ev_actor = actor_from_event r,
     ev_payload = er_payload r, ev_previous_checksum = er_previous_checksum r,
     ev_checksum = er_checksum r, ev_created_at = er_created_at r\<rparr>"

definition store_get :: "db \<Rightarrow> string \<Rightarrow> operation_snapshot option" where
  "store_get d i = map_option snapshot_of (find_operation d i)"

definition get_by_scope :: "db \<Rightarrow> operation_spec \<Rightarrow> operation_snapshot option" where
  "get_by_scope d sp = map_option snapshot_of
     (find (\<lambda>r. op_operation_type r = sp_operation_type sp \<and> op_target_type r = sp_target_type sp
        \<and> op_target_id r = sp_target_id sp \<and> op_idempotency_key r = sp_idempotency_key sp) (db_operations d))"

definition list_events :: "db \<Rightarrow> string \<Rightarrow> operation_event list" where
  "list_events d i =
     map event_of (sort_key er_sequence (filter (\<lambda>r. er_operation_id r = i) (db_events d)))"

definition store_list :: "db \<Rightarrow> string option \<Rightarrow> string option \<Rightarrow> string option \<Rightarrow> string option
    \<Rightarrow> int \<Rightarrow> operation_snapshot list" where
  "store_list d status operation_type target_type target_id limit =
     (let want = (\<lambda>x v. case x of None \<Rightarrow> True | Some s \<Rightarrow> s = [] \<or> v = s);
          rows = filter (\<lambda>r. want status (op_status r) \<and> want operation_type (op_operation_type r)
                   \<and> want target_type (op_target_type r) \<and> want target_id (op_target_id r)) (db_operations d);
          ordered = rev (sort_key (\<lambda>r. (op_updated_at r, op_operation_id r)) rows)
      in map snapshot_of (take (nat (max 1 (min limit 200))) ordered))"

section \<open>Writing events\<close>

definition new_event_row :: "string \<Rightarrow> string \<Rightarrow> int \<Rightarrow> string \<Rightarrow> string option \<Rightarrow> string \<Rightarrow> string
    \<Rightarrow> operation_actor \<Rightarrow> pydict \<Rightarrow> string \<Rightarrow> string \<Rightarrow> time \<Rightarrow> event_row" where
  "new_event_row event_id operation_id seq event_type from_status to_status stage actor payload
     previous_checksum checksum created_at =
     \<lparr>er_event_id = event_id, er_operation_id = operation_id, er_sequence = seq,
      er_event_type = event_type, er_from_status = from_status, er_to_status = to_status,
      er_stage = stage, er_actor_user_id = none_if_empty (ac_user_id actor),
      er_actor_username = none_if_empty (ac_username actor),
      er_actor_role = none_if_empty (ac_role actor), er_payload = payload,
      er_previous_checksum = previous_checksum, er_checksum = checksum, er_created_at = created_at\<rparr>"

definition event_checksum :: "sha \<Rightarrow> string \<Rightarrow> int \<Rightarrow> string \<Rightarrow> string option \<Rightarrow> string \<Rightarrow> string
    \<Rightarrow> operation_actor \<Rightarrow> pydict \<Rightarrow> string \<Rightarrow> time \<Rightarrow> string" where
  "event_checksum sha operation_id seq event_type from_status to_status stage actor payload
     previous_checksum created_at =
     operation_digest sha (event_checksum_payload operation_id seq event_type from_status to_status
       stage actor payload previous_checksum created_at)"

section \<open>Creation\<close>

definition resolve_existing :: "operation_snapshot \<Rightarrow> operation_spec \<Rightarrow> create_result result" where
  "resolve_existing existing sp =
     (if sn_operation_type existing = sp_operation_type sp
         \<and> sn_execution_mode existing = sp_execution_mode sp
         \<and> sn_target_type existing = sp_target_type sp
         \<and> sn_target_id existing = sp_target_id sp
         \<and> sn_idempotency_key existing = sp_idempotency_key sp
         \<and> sn_intent_digest existing = sp_intent_digest sp
         \<and> sn_plan_digest existing = sp_plan_digest sp
      then Inr \<lparr>cr_operation = existing, cr_created = False\<rparr>
      else Inl (OperationIntentConflict (sn_operation_id existing)))"

definition created_row :: "operation_spec \<Rightarrow> string \<Rightarrow> time \<Rightarrow> op_row" where
  "created_row sp checksum created_at =
     \<lparr>op_operation_id = sp_operation_id sp, op_operation_type = sp_operation_type sp,
      op_execution_mode = sp_execution_mode sp, op_status = sp_initial_status sp,
      op_target_type = sp_target_type sp, op_target_id = sp_target_id sp,
      op_idempotency_key = sp_idempotency_key sp, op_intent_digest = sp_intent_digest sp,
      op_plan_digest = sp_plan_digest sp, op_current_stage = sp_initial_stage sp,
      op_actor_user_id = none_if_empty (ac_user_id (sp_actor sp)),
      op_actor_username = none_if_empty (ac_username (sp_actor sp)),
      op_actor_role = none_if_empty (ac_role (sp_actor sp)),
      op_details = sanitized (sp_details sp), op_expires_at = map_option fst (sp_expires_at sp),
      op_version = 1, op_last_event_checksum = checksum,
      op_created_at = created_at, op_updated_at = created_at\<rparr>"

text \<open>The transaction that inserts the operation and its first event.\<close>

definition created_event :: "sha \<Rightarrow> operation_spec \<Rightarrow> pydict \<Rightarrow> string \<Rightarrow> time \<Rightarrow> event_row" where
  "created_event sha sp event_payload event_id now =
     (let payload = sanitized event_payload;
          checksum = event_checksum sha (sp_operation_id sp) 1 ''operation_created'' None
            (sp_initial_status sp) (sp_initial_stage sp) (sp_actor sp) payload [] now
      in new_event_row event_id (sp_operation_id sp) 1 ''operation_created'' None
            (sp_initial_status sp) (sp_initial_stage sp) (sp_actor sp) payload [] checksum now)"

definition create_rows :: "sha \<Rightarrow> db \<Rightarrow> time \<Rightarrow> string \<Rightarrow> operation_spec \<Rightarrow> pydict
    \<Rightarrow> (db \<times> create_result) result" where
  "create_rows sha d now event_id sp event_payload =
     (let event = created_event sha sp event_payload event_id now;
          row = created_row sp (er_checksum event) now
      in ebind (insert_operation d row) (\<lambda>d1.
         ebind (insert_event d1 event) (\<lambda>d2.
           Inr (d2, \<lparr>cr_operation = snapshot_of row, cr_created = True\<rparr>))))"

text \<open>
  An \<open>IntegrityError\<close> rolls the transaction back; the operation that is there is then
  compared with the request.
\<close>

definition create_insert :: "sha \<Rightarrow> db \<Rightarrow> time \<Rightarrow> string \<Rightarrow> operation_spec \<Rightarrow> pydict
    \<Rightarrow> (db \<times> create_result) result" where
  "create_insert sha d now event_id sp event_payload =
     (case create_rows sha d now event_id sp event_payload of
        Inr r \<Rightarrow> Inr r
      | Inl _ \<Rightarrow>
          (case (case get_by_scope d sp of None \<Rightarrow> store_get d (sp_operation_id sp) | Some x \<Rightarrow> Some x) of
             None \<Rightarrow> Inl IntegrityError
           | Some existing \<Rightarrow> ebind (resolve_existing existing sp) (\<lambda>r. Inr (d, r))))"

definition store_create :: "sha \<Rightarrow> db \<Rightarrow> time \<Rightarrow> string \<Rightarrow> operation_spec \<Rightarrow> pydict
    \<Rightarrow> (db \<times> create_result) result" where
  "store_create sha d now event_id sp event_payload =
     (case get_by_scope d sp of
        Some existing \<Rightarrow> ebind (resolve_existing existing sp) (\<lambda>r. Inr (d, r))
      | None \<Rightarrow> create_insert sha d now event_id sp event_payload)"

section \<open>Appending\<close>

definition apply_projection :: "op_row \<Rightarrow> string \<Rightarrow> string \<Rightarrow> pydict \<Rightarrow> int \<Rightarrow> string \<Rightarrow> time \<Rightarrow> op_row" where
  "apply_projection r status stage details_patch version checksum updated_at =
     r\<lparr>op_status := status, op_current_stage := stage,
       op_details := dmerge (op_details r) details_patch, op_version := version,
       op_last_event_checksum := checksum, op_updated_at := updated_at\<rparr>"

text \<open>The arguments of one append; \<open>next_status\<close> is used when it is a transition.\<close>

record append_request =
  aq_next_status :: "string option"
  aq_event_type :: string
  aq_stage :: string
  aq_payload :: pydict
  aq_details_patch :: pydict
  aq_actor :: "operation_actor option"
  aq_expected_statuses :: "string list option"
  aq_is_transition :: bool

definition append_target :: "append_request \<Rightarrow> op_row \<Rightarrow> string" where
  "append_target q row = (if aq_is_transition q
     then (case aq_next_status q of None \<Rightarrow> ''None'' | Some s \<Rightarrow> s) else op_status row)"

definition appended_event :: "sha \<Rightarrow> op_row \<Rightarrow> append_request \<Rightarrow> string \<Rightarrow> string \<Rightarrow> time \<Rightarrow> event_row" where
  "appended_event sha row q event_id operation_id now =
     (let event_actor = (case aq_actor q of None \<Rightarrow> actor_from_op row | Some a \<Rightarrow> a);
          payload = sanitized (aq_payload q);
          checksum = event_checksum sha operation_id (op_version row + 1) (aq_event_type q)
            (Some (op_status row)) (append_target q row) (aq_stage q) event_actor payload
            (op_last_event_checksum row) now
      in new_event_row event_id operation_id (op_version row + 1) (aq_event_type q)
           (Some (op_status row)) (append_target q row) (aq_stage q) event_actor payload
           (op_last_event_checksum row) checksum now)"

definition append_in_session :: "sha \<Rightarrow> db \<Rightarrow> time \<Rightarrow> string \<Rightarrow> string \<Rightarrow> append_request
    \<Rightarrow> (db \<times> operation_snapshot) result" where
  "append_in_session sha d now event_id operation_id q =
     (if py_strip (aq_event_type q) = [] \<or> py_strip (aq_stage q) = [] then Inl (PyError ValueError)
      else case find_operation d operation_id of
        None \<Rightarrow> Inl (OperationNotFound operation_id)
      | Some row \<Rightarrow>
          if (case aq_expected_statuses q of None \<Rightarrow> False | Some ss \<Rightarrow> op_status row \<notin> set ss)
          then Inl (OperationStateConflict operation_id (op_status row))
          else ebind (if aq_is_transition q
                      then ensure_operation_transition (op_status row) (append_target q row)
                      else Inr ()) (\<lambda>_.
               let event = appended_event sha row q event_id operation_id now;
                   row' = apply_projection row (append_target q row) (aq_stage q)
                     (sanitized (aq_details_patch q)) (op_version row + 1) (er_checksum event) now
               in ebind (insert_event d event) (\<lambda>d1.
                    Inr (put_operation row' d1, snapshot_of row'))))"

text \<open>\<open>transition\<close> and \<open>append_event\<close>, each its own transaction.\<close>

definition store_transition :: "sha \<Rightarrow> db \<Rightarrow> time \<Rightarrow> string \<Rightarrow> string \<Rightarrow> string \<Rightarrow> string \<Rightarrow> string
    \<Rightarrow> pydict \<Rightarrow> pydict \<Rightarrow> operation_actor option \<Rightarrow> string list option
    \<Rightarrow> (db \<times> operation_snapshot) result" where
  "store_transition sha d now event_id operation_id next_status event_type stage payload
     details_patch actor expected_statuses =
     append_in_session sha d now event_id operation_id
       \<lparr>aq_next_status = Some next_status, aq_event_type = event_type, aq_stage = stage,
        aq_payload = payload, aq_details_patch = details_patch, aq_actor = actor,
        aq_expected_statuses = expected_statuses, aq_is_transition = True\<rparr>"

definition store_append_event :: "sha \<Rightarrow> db \<Rightarrow> time \<Rightarrow> string \<Rightarrow> string \<Rightarrow> string \<Rightarrow> string
    \<Rightarrow> pydict \<Rightarrow> pydict \<Rightarrow> operation_actor option \<Rightarrow> string list option
    \<Rightarrow> (db \<times> operation_snapshot) result" where
  "store_append_event sha d now event_id operation_id event_type stage payload
     details_patch actor expected_statuses =
     append_in_session sha d now event_id operation_id
       \<lparr>aq_next_status = None, aq_event_type = event_type, aq_stage = stage,
        aq_payload = payload, aq_details_patch = details_patch, aq_actor = actor,
        aq_expected_statuses = expected_statuses, aq_is_transition = False\<rparr>"

section \<open>Operations that look at locks and recoveries\<close>

definition vmid_text :: "int option \<Rightarrow> string" where
  "vmid_text v = ''vmid:'' @ (case v of None \<Rightarrow> ''None'' | Some i \<Rightarrow> show_int i)"

definition transition_for_target_lock_conflict :: "sha \<Rightarrow> db \<Rightarrow> time \<Rightarrow> string \<Rightarrow> string \<Rightarrow> string \<Rightarrow> string
    \<Rightarrow> string \<Rightarrow> string \<Rightarrow> string \<Rightarrow> pydict \<Rightarrow> pydict \<Rightarrow> (db \<times> operation_snapshot) result" where
  "transition_for_target_lock_conflict sha d now event_id operation_id conflicting_lock_id
     conflicting_owner_id next_status event_type stage payload details_patch =
     (case find_operation d operation_id of
        None \<Rightarrow> Inl (OperationNotFound operation_id)
      | Some operation \<Rightarrow>
          if op_status operation \<noteq> ''planned'' then Inr (d, snapshot_of operation)
          else (case find_lock d conflicting_lock_id of
              None \<Rightarrow> Inr (d, snapshot_of operation)
            | Some lock \<Rightarrow>
                if \<not> lock_open lock \<or> lk_owner_id lock \<noteq> Some conflicting_owner_id
                   \<or> lk_owner_id lock = Some operation_id
                   \<or> lk_scope_type lock \<noteq> ''proxmox_locator''
                   \<or> op_target_type operation \<noteq> ''proxmox_vm''
                   \<or> op_target_id operation \<noteq> vmid_text (lk_vmid lock)
                then Inr (d, snapshot_of operation)
                else append_in_session sha d now event_id operation_id
                  \<lparr>aq_next_status = Some next_status, aq_event_type = event_type, aq_stage = stage,
                   aq_payload = payload, aq_details_patch = details_patch, aq_actor = None,
                   aq_expected_statuses = Some [''planned''], aq_is_transition = True\<rparr>))"

definition transition_pre_dispatch_failure :: "sha \<Rightarrow> db \<Rightarrow> time \<Rightarrow> string \<Rightarrow> string \<Rightarrow> string \<Rightarrow> string
    \<Rightarrow> string \<Rightarrow> pydict \<Rightarrow> pydict \<Rightarrow> (db \<times> bool) result" where
  "transition_pre_dispatch_failure sha d now event_id operation_id target_lock_id event_type stage
     payload details_patch =
     (case find_operation d operation_id of
        None \<Rightarrow> Inl (OperationNotFound operation_id)
      | Some operation \<Rightarrow>
          if op_status operation \<noteq> ''planned'' then Inr (d, False)
          else if find_recovery d operation_id \<noteq> None then Inr (d, False)
          else (case find_lock d target_lock_id of
              None \<Rightarrow> Inr (d, False)
            | Some lock \<Rightarrow>
                if lk_owner_id lock \<noteq> Some operation_id \<or> \<not> lock_open lock
                   \<or> lk_scope_type lock \<noteq> ''proxmox_locator''
                   \<or> op_target_type operation \<noteq> ''proxmox_vm''
                   \<or> op_target_id operation \<noteq> vmid_text (lk_vmid lock)
                then Inr (d, False)
                else ebind (append_in_session sha d now event_id operation_id
                  \<lparr>aq_next_status = Some ''failed'', aq_event_type = event_type, aq_stage = stage,
                   aq_payload = payload, aq_details_patch = details_patch, aq_actor = None,
                   aq_expected_statuses = Some [''planned''], aq_is_transition = True\<rparr>)
                  (\<lambda>(d', _). Inr (d', True))))"

definition has_unfinished_coordination :: "db \<Rightarrow> string \<Rightarrow> bool" where
  "has_unfinished_coordination d excluding_operation_id =
     (list_ex (\<lambda>r. op_operation_id r \<noteq> excluding_operation_id
          \<and> op_status r \<notin> set TERMINAL_OPERATION_STATUSES) (db_operations d)
      \<or> list_ex lock_open (db_locks d)
      \<or> list_ex (\<lambda>r. rc_status r \<noteq> ''completed'') (db_recoveries d))"

section \<open>The invariant of the operation log\<close>

text \<open>
  \<open>log_ok\<close>: the events of an operation form a verified chain, as many as the version says,
  whose last event carries the projection's checksum and status, and in which every event
  starts at the status where the previous one ended and either keeps it or makes an allowed
  transition.
\<close>

fun status_links :: "string option \<Rightarrow> operation_event list \<Rightarrow> bool" where
  "status_links prev [] = True"
| "status_links prev (e # es) =
     (ev_from_status e = prev \<and>
      (case prev of None \<Rightarrow> True
       | Some s \<Rightarrow> ev_to_status e = s \<or> ensure_operation_transition s (ev_to_status e) = Inr ()) \<and>
      status_links (Some (ev_to_status e)) es)"

definition events_of :: "db \<Rightarrow> string \<Rightarrow> operation_event list" where
  "events_of d i = map event_of (filter (\<lambda>r. er_operation_id r = i) (db_events d))"

definition log_ok :: "sha \<Rightarrow> db \<Rightarrow> op_row \<Rightarrow> bool" where
  "log_ok sha d r =
     (let es = events_of d (op_operation_id r)
      in es \<noteq> [] \<and> verify_event_chain sha es \<and> int (length es) = op_version r \<and>
         ev_checksum (last es) = op_last_event_checksum r \<and>
         ev_to_status (last es) = op_status r \<and> status_links None es)"

definition op_table_ok :: "db \<Rightarrow> bool" where
  "op_table_ok d \<longleftrightarrow>
     distinct (map op_operation_id (db_operations d)) \<and> distinct (map op_scope (db_operations d)) \<and>
     (\<forall>e \<in> set (db_events d). find_operation d (er_operation_id e) \<noteq> None)"

definition store_inv :: "sha \<Rightarrow> db \<Rightarrow> bool" where
  "store_inv sha d \<longleftrightarrow> op_table_ok d \<and> (\<forall>r \<in> set (db_operations d). log_ok sha d r)"

lemma actor_roundtrip [simp]:
  "actor_from_event (new_event_row i oid n et fs ts st a p pc c t) = a"
  by (simp add: actor_from_event_def new_event_row_def opt_text_def none_if_empty_def)

lemma event_of_new [simp]:
  "event_of (new_event_row i oid n et fs ts st a p pc c t) =
     \<lparr>ev_event_id = i, ev_operation_id = oid, ev_sequence = n, ev_event_type = et, ev_from_status = fs,
      ev_to_status = ts, ev_stage = st, ev_actor = a, ev_payload = p, ev_previous_checksum = pc,
      ev_checksum = c, ev_created_at = t\<rparr>"
  by (simp add: event_of_def new_event_row_def actor_from_event_def opt_text_def none_if_empty_def)

lemma er_id_new [simp]:
  "er_operation_id (new_event_row i oid n et fs ts st a p pc c t) = oid"
  by (simp add: new_event_row_def)

lemma ev_checksum_event_of [simp]: "ev_checksum (event_of e) = er_checksum e"
  by (simp add: event_of_def)

lemma er_checksum_new [simp]: "er_checksum (new_event_row i oid n et fs ts st a p pc c t) = c"
  by (simp add: new_event_row_def)

lemma status_links_append:
  "status_links prev (es @ [e]) \<longleftrightarrow> status_links prev es \<and>
     (let p = (if es = [] then prev else Some (ev_to_status (last es)))
      in ev_from_status e = p \<and>
         (case p of None \<Rightarrow> True
          | Some s \<Rightarrow> ev_to_status e = s \<or> ensure_operation_transition s (ev_to_status e) = Inr ()))"
  by (induction prev es rule: status_links.induct) auto

lemma store_inv_frame:
  "db_events d' = db_events d \<Longrightarrow> db_operations d' = db_operations d \<Longrightarrow>
     store_inv sha d' = store_inv sha d"
  by (simp add: store_inv_def op_table_ok_def log_ok_def events_of_def)

lemma store_inv_empty: "store_inv sha empty_db"
  by (simp add: store_inv_def op_table_ok_def empty_db_def)

lemma store_inv_find:
  "store_inv sha d \<Longrightarrow> find_operation d i = Some r \<Longrightarrow> log_ok sha d r \<and> op_operation_id r = i"
  by (auto simp: store_inv_def dest: row_of_Some)

lemma list_events_eq:
  assumes "store_inv sha d" "find_operation d i = Some r"
  shows "list_events d i = events_of d i"
proof -
  let ?rs = "filter (\<lambda>q. er_operation_id q = i) (db_events d)"
  from store_inv_find [OF assms] have "verify_chain_from sha [] 1 (map event_of ?rs)"
    by (auto simp: log_ok_def events_of_def verify_event_chain_def Let_def)
  from verify_chain_sorted [OF this] have "sorted (map er_sequence ?rs)"
    by (simp add: comp_def event_of_def)
  then show ?thesis
    by (simp add: list_events_def events_of_def sort_key_id_if_sorted)
qed

subsection \<open>Creation keeps the invariant\<close>

lemma created_row_simps [simp]:
  "op_operation_id (created_row sp c t) = sp_operation_id sp"
  "op_version (created_row sp c t) = 1"
  "op_status (created_row sp c t) = sp_initial_status sp"
  "op_last_event_checksum (created_row sp c t) = c"
  "op_scope (created_row sp c t) =
     (sp_operation_type sp, sp_target_type sp, sp_target_id sp, sp_idempotency_key sp)"
  by (simp_all add: created_row_def op_scope_def)

lemma created_fields [simp]:
  "ev_sequence (event_of (created_event sha sp p eid now)) = 1"
  "ev_from_status (event_of (created_event sha sp p eid now)) = None"
  "ev_to_status (event_of (created_event sha sp p eid now)) = sp_initial_status sp"
  "ev_previous_checksum (event_of (created_event sha sp p eid now)) = []"
  "er_operation_id (created_event sha sp p eid now) = sp_operation_id sp"
  by (simp_all add: created_event_def Let_def)

lemma created_checksum:
  "er_checksum (created_event sha sp p eid now) = event_digest sha (event_of (created_event sha sp p eid now))"
  by (simp add: created_event_def Let_def event_digest_def event_checksum_def)

lemma create_rowsD:
  assumes "create_rows sha d now eid sp payload = Inr (d', res)"
  obtains row where "row = created_row sp (er_checksum (created_event sha sp payload eid now)) now"
      "d' = d\<lparr>db_operations := db_operations d @ [row],
              db_events := db_events d @ [created_event sha sp payload eid now]\<rparr>"
      "\<forall>q \<in> set (db_operations d). op_operation_id q \<noteq> sp_operation_id sp \<and> op_scope q \<noteq> op_scope row"
      "res = \<lparr>cr_operation = snapshot_of row, cr_created = True\<rparr>"
  using assms
  by (auto simp: create_rows_def Let_def dest!: insert_operationD insert_eventD)

lemma create_insert_cases:
  assumes "create_insert sha d now eid sp payload = Inr (d', res)"
  obtains (fresh) "create_rows sha d now eid sp payload = Inr (d', res)"
    | (existing) existing where "d' = d" "resolve_existing existing sp = Inr res"
      "get_by_scope d sp = Some existing \<or> store_get d (sp_operation_id sp) = Some existing"
  using assms by (auto simp: create_insert_def split: sum.splits option.splits)

lemma create_rows_inv [inv_intros]:
  assumes "store_inv sha d" "create_rows sha d now eid sp payload = Inr (d', res)"
  shows "store_inv sha d'"
  using assms(2)
proof (cases rule: create_rowsD)
  case fresh: (1 row)
  define event where "event = created_event sha sp payload eid now"
  note d' = fresh(2) [folded event_def] and fr = fresh(3)
  have row: "op_operation_id row = sp_operation_id sp" "op_version row = 1"
    "op_status row = sp_initial_status sp" "op_last_event_checksum row = er_checksum event"
    by (simp_all add: fresh(1) event_def)
  from assms(1) have tab: "op_table_ok d" and logs: "\<forall>r \<in> set (db_operations d). log_ok sha d r"
    by (auto simp: store_inv_def)
  have none: "filter (\<lambda>r. er_operation_id r = sp_operation_id sp) (db_events d) = []"
    using tab fr by (fastforce simp: op_table_ok_def filter_empty_conv dest: row_of_Some)
  have "op_table_ok d'"
    using tab fr row by (auto simp: op_table_ok_def d' event_def row_simps split: option.splits)
  moreover have "log_ok sha d' r" if "r \<in> set (db_operations d')" for r
  proof (cases "r = row")
    case True
    then have "events_of d' (op_operation_id r) = [event_of event]"
      using row none by (simp add: events_of_def d' event_def)
    with True row show ?thesis
      by (simp add: log_ok_def event_def verify_event_chain_def created_checksum [symmetric])
  next
    case False
    with that fr have "r \<in> set (db_operations d)" "op_operation_id r \<noteq> sp_operation_id sp"
      by (auto simp: d')
    with logs show ?thesis by (simp add: log_ok_def events_of_def d' event_def)
  qed
  ultimately show ?thesis by (simp add: store_inv_def)
qed

lemma create_insert_inv [inv_intros]:
  "store_inv sha d \<Longrightarrow> create_insert sha d now eid sp payload = Inr (d', res) \<Longrightarrow> store_inv sha d'"
  by (erule create_insert_cases) (auto dest: create_rows_inv)

lemma store_create_inv [inv_intros]:
  "store_inv sha d \<Longrightarrow> store_create sha d now eid sp payload = Inr (d', res) \<Longrightarrow> store_inv sha d'"
  by (auto simp: store_create_def split: option.splits dest: create_insert_inv)

subsection \<open>Appending keeps the invariant\<close>

lemma appended_fields [simp]:
  "ev_operation_id (event_of (appended_event sha row q eid oid now)) = oid"
  "ev_sequence (event_of (appended_event sha row q eid oid now)) = op_version row + 1"
  "ev_event_type (event_of (appended_event sha row q eid oid now)) = aq_event_type q"
  "ev_from_status (event_of (appended_event sha row q eid oid now)) = Some (op_status row)"
  "ev_to_status (event_of (appended_event sha row q eid oid now)) = append_target q row"
  "ev_stage (event_of (appended_event sha row q eid oid now)) = aq_stage q"
  "ev_payload (event_of (appended_event sha row q eid oid now)) = sanitized (aq_payload q)"
  "ev_previous_checksum (event_of (appended_event sha row q eid oid now)) = op_last_event_checksum row"
  "ev_created_at (event_of (appended_event sha row q eid oid now)) = now"
  by (simp_all add: appended_event_def Let_def)

lemma appended_checksum:
  "er_checksum (appended_event sha row q eid oid now) =
     event_digest sha (event_of (appended_event sha row q eid oid now))"
  by (simp add: appended_event_def Let_def event_digest_def event_checksum_def)

lemma er_id_appended [simp]: "er_operation_id (appended_event sha row q eid oid now) = oid"
  by (simp add: appended_event_def Let_def)

definition appended_row :: "sha \<Rightarrow> op_row \<Rightarrow> append_request \<Rightarrow> string \<Rightarrow> string \<Rightarrow> time \<Rightarrow> op_row" where
  "appended_row sha row q event_id operation_id now =
     apply_projection row (append_target q row) (aq_stage q) (sanitized (aq_details_patch q))
       (op_version row + 1) (er_checksum (appended_event sha row q event_id operation_id now)) now"

lemma append_in_session_Inr:
  "append_in_session sha d now eid oid q = Inr (d', sn) \<longleftrightarrow>
     py_strip (aq_event_type q) \<noteq> [] \<and> py_strip (aq_stage q) \<noteq> [] \<and>
     (\<exists>row d1. find_operation d oid = Some row \<and>
        (\<forall>ss. aq_expected_statuses q = Some ss \<longrightarrow> op_status row \<in> set ss) \<and>
        (aq_is_transition q \<longrightarrow>
           ensure_operation_transition (op_status row) (append_target q row) = Inr ()) \<and>
        insert_event d (appended_event sha row q eid oid now) = Inr d1 \<and>
        d' = put_operation (appended_row sha row q eid oid now) d1 \<and>
        sn = snapshot_of (appended_row sha row q eid oid now))"
  by (auto simp: append_in_session_def Let_def ebind_Inr_iff appended_row_def
      split: option.splits if_splits)

text \<open>What a successful append has checked and written.\<close>

lemma append_in_sessionD:
  assumes "append_in_session sha d now eid oid q = Inr (d', sn)"
  obtains row where "find_operation d oid = Some row"
    "\<And>ss. aq_expected_statuses q = Some ss \<Longrightarrow> op_status row \<in> set ss"
    "aq_is_transition q \<Longrightarrow> ensure_operation_transition (op_status row) (append_target q row) = Inr ()"
    "d' = put_operation (appended_row sha row q eid oid now)
       (d\<lparr>db_events := db_events d @ [appended_event sha row q eid oid now]\<rparr>)"
    "sn = snapshot_of (appended_row sha row q eid oid now)"
  using assms by (auto simp: append_in_session_Inr dest!: insert_eventD)

lemma apply_projection_simps [simp]:
  "op_operation_id (apply_projection r s st p v c t) = op_operation_id r"
  "op_scope (apply_projection r s st p v c t) = op_scope r"
  "op_status (apply_projection r s st p v c t) = s"
  "op_version (apply_projection r s st p v c t) = v"
  "op_last_event_checksum (apply_projection r s st p v c t) = c"
  "op_details (apply_projection r s st p v c t) = dmerge (op_details r) p"
  "op_operation_type (apply_projection r s st p v c t) = op_operation_type r"
  "op_target_id (apply_projection r s st p v c t) = op_target_id r"
  "op_target_type (apply_projection r s st p v c t) = op_target_type r"
  by (simp_all add: apply_projection_def op_scope_def)

lemma appended_row_simps [simp]:
  "op_operation_id (appended_row sha r q i j t) = op_operation_id r"
  "op_scope (appended_row sha r q i j t) = op_scope r"
  "op_status (appended_row sha r q i j t) = append_target q r"
  "op_version (appended_row sha r q i j t) = op_version r + 1"
  "op_last_event_checksum (appended_row sha r q i j t) = er_checksum (appended_event sha r q i j t)"
  "op_details (appended_row sha r q i j t) = dmerge (op_details r) (sanitized (aq_details_patch q))"
  by (simp_all add: appended_row_def)

lemma append_in_session_inv [inv_intros]:
  assumes inv: "store_inv sha d" and app: "append_in_session sha d now eid oid q = Inr (d', sn)"
  shows "store_inv sha d'"
proof -
  from app obtain row where
    row: "find_operation d oid = Some row"
    and tr: "aq_is_transition q \<Longrightarrow>
      ensure_operation_transition (op_status row) (append_target q row) = Inr ()"
    and d0: "d' = put_operation (appended_row sha row q eid oid now)
       (d\<lparr>db_events := db_events d @ [appended_event sha row q eid oid now]\<rparr>)"
    by (rule append_in_sessionD) blast
  define row' where "row' = appended_row sha row q eid oid now"
  define event where "event = appended_event sha row q eid oid now"
  have d'': "d' = put_operation row' (d\<lparr>db_events := db_events d @ [event]\<rparr>)"
    by (simp add: d0 row'_def event_def)
  have eo: "er_operation_id event = oid" by (simp add: event_def)
  note ev = appended_fields [of sha row q eid oid now, folded event_def]
  note cs = appended_checksum [of sha row q eid oid now, folded event_def]
  note row'_simps = appended_row_simps [of sha row q eid oid now, folded row'_def event_def]
  from store_inv_find [OF inv row] have lrow: "log_ok sha d row" and oid: "op_operation_id row = oid"
    by auto
  from inv have tab: "op_table_ok d" and logs: "\<forall>r \<in> set (db_operations d). log_ok sha d r"
    by (auto simp: store_inv_def)
  have scopes: "map op_scope (set_row op_operation_id row' (db_operations d)) = map op_scope (db_operations d)"
  proof -
    have "q = row" if "q \<in> set (db_operations d)" "op_operation_id q = oid" for q
      using distinct_row_of [of op_operation_id "db_operations d" q] tab row that
      by (simp add: op_table_ok_def)
    then show ?thesis using oid row'_simps(1,2) by (auto simp: set_row_def)
  qed
  have "op_table_ok d'"
    using tab row eo oid scopes row'_simps
    by (auto simp: op_table_ok_def d'' row_simps split: option.splits)
  moreover have "log_ok sha d' r" if "r \<in> set (db_operations d')" for r
  proof (cases "r = row'")
    case True
    have "events_of d' oid = events_of d oid @ [event_of event]"
      using eo by (simp add: events_of_def d'')
    moreover have "append_target q row = op_status row" if "\<not> aq_is_transition q"
      using that by (simp add: append_target_def)
    ultimately show ?thesis using True lrow ev cs oid tr row'_simps
      by (cases "aq_is_transition q")
        (simp_all add: log_ok_def Let_def verify_event_chain_def verify_chain_from_append
          status_links_append)
  next
    case False
    with that have r: "r \<in> set (db_operations d)" "op_operation_id r \<noteq> oid"
      using set_row_mem [of r op_operation_id row' "db_operations d"] oid row'_simps
      by (auto simp: d'')
    then have "events_of d' (op_operation_id r) = events_of d (op_operation_id r)"
      using eo by (simp add: events_of_def d'')
    with logs r show ?thesis by (simp add: log_ok_def)
  qed
  ultimately show ?thesis by (simp add: store_inv_def)
qed

lemma store_transition_inv [inv_intros]:
  "store_inv sha d \<Longrightarrow> store_transition sha d now eid oid ns et st p dp a ex = Inr (d', sn) \<Longrightarrow>
     store_inv sha d'"
  unfolding store_transition_def by (rule append_in_session_inv)

lemma store_append_event_inv [inv_intros]:
  "store_inv sha d \<Longrightarrow> store_append_event sha d now eid oid et st p dp a ex = Inr (d', sn) \<Longrightarrow>
     store_inv sha d'"
  unfolding store_append_event_def by (rule append_in_session_inv)

lemma lock_conflict_inv [inv_intros]:
  "store_inv sha d \<Longrightarrow>
     transition_for_target_lock_conflict sha d now eid oid li lo ns et st p dp = Inr (d', sn) \<Longrightarrow>
     store_inv sha d'"
  by (auto simp: transition_for_target_lock_conflict_def split: option.splits if_splits
      dest: append_in_session_inv)

lemma pre_dispatch_failure_inv [inv_intros]:
  "store_inv sha d \<Longrightarrow>
     transition_pre_dispatch_failure sha d now eid oid li et st p dp = Inr (d', b) \<Longrightarrow>
     store_inv sha d'"
  by (auto simp: transition_pre_dispatch_failure_def split: option.splits if_splits
      dest: append_in_session_inv)

end
