(* ===== verification/SetupAdmission.thy ===== *)
theory SetupAdmission
  imports Database
begin

text \<open>
  The mutation admission boundary of \<open>app/setup_integration/runtime.py\<close>: a process pins the
  Proxmox connection it first saw; a mutation of a VM or of a host is admitted only while the
  connection is open, its credential is active and carries the feature of the operation, and
  the target is in the selected scope. Whether the stored secret decrypts is the argument
  \<open>se_decrypts\<close> (the authenticated encryption is not part of the sources).
\<close>

record setup_env =
  se_pin :: "(string \<times> string option) option"
  se_decrypts :: "connection_row \<Rightarrow> credential_row \<Rightarrow> bool"

definition setup_error :: "string \<Rightarrow> nat \<Rightarrow> error" where
  "setup_error code status = FeatureError code status"

definition connection_selection :: "connection_row option \<Rightarrow> string \<times> string option" where
  "connection_selection connection = (case connection of
       None \<Rightarrow> (''legacy_env'', None)
     | Some c \<Rightarrow> (cn_source c, cn_active_revision_id c))"

text \<open>
  \<open>pinned\<close> is what \<open>_pins.setdefault\<close> leaves in the process; the check compares the
  previous pin with the current selection.
\<close>

definition pinned :: "setup_env \<Rightarrow> connection_row option \<Rightarrow> setup_env" where
  "pinned env connection = (case se_pin env of
       None \<Rightarrow> env\<lparr>se_pin := Some (connection_selection connection)\<rparr>
     | Some _ \<Rightarrow> env)"

definition pin_selection :: "setup_env \<Rightarrow> connection_row option \<Rightarrow> unit result" where
  "pin_selection env connection =
     (if se_pin (pinned env connection) \<noteq> Some (connection_selection connection)
      then Inl (setup_error ''SETUP_RESTART_REQUIRED'' 503) else Inr ())"

definition active_credential :: "db \<Rightarrow> connection_row \<Rightarrow> credential_row result" where
  "active_credential d connection =
     (case (case cn_active_revision_id connection of
              None \<Rightarrow> None | Some i \<Rightarrow> row_of cd_revision_id i (db_credentials d)) of
        None \<Rightarrow> Inl (setup_error ''SETUP_CREDENTIAL_UNAVAILABLE'' 503)
      | Some credential \<Rightarrow>
          if cd_state credential \<noteq> ''active'' then Inl (setup_error ''SETUP_CREDENTIAL_UNAVAILABLE'' 503)
          else Inr credential)"

definition MUTATION_FEATURES :: "(string \<times> string) list" where
  "MUTATION_FEATURES = [(''vm_start'', ''power''), (''vm_shutdown'', ''power''),
     (''vm_compute'', ''compute''), (''vm_create'', ''create''), (''vm_disk_resize'', ''disk''),
     (''vm_network'', ''network''), (''vm_clone'', ''clone''), (''vm_delete'', ''delete''),
     (''vm_template'', ''template''), (''vm_image_build'', ''image_build''),
     (''vm_image_cleanup'', ''image_cleanup''), (''vm_backup'', ''backup''),
     (''vm_restore'', ''restore''), (''vm_migrate'', ''migrate'')]"

definition created_target :: "credential_row \<Rightarrow> int \<Rightarrow> bool" where
  "created_target cd vmid = (''create'' \<in> set (cd_features cd) \<and> vmid \<in> set (sc_create_vmids (cd_scope cd)))"

definition restored_target :: "credential_row \<Rightarrow> int \<Rightarrow> bool" where
  "restored_target cd vmid = (''restore'' \<in> set (cd_features cd) \<and> vmid \<in> set (sc_restore_vmids (cd_scope cd)))"

text \<open>The VMs that a feature may touch; the later assignments of the source win.\<close>

definition mutation_targets :: "credential_row \<Rightarrow> string \<Rightarrow> int \<Rightarrow> int list" where
  "mutation_targets cd feature vmid =
     (let sc = cd_scope cd;
          t0 = (if feature = ''create'' then sc_create_vmids sc else sc_vmids sc @ sc_create_vmids sc);
          t1 = (if feature = ''image_build'' then sc_image_vmids sc else t0);
          t2 = (if feature \<in> {''template'', ''image_cleanup'', ''backup'', ''migrate''} then sc_vmids sc else t1);
          t3 = (if feature = ''power'' \<and> restored_target cd vmid then t2 @ sc_restore_vmids sc else t2);
          t4 = (if feature = ''restore'' then sc_vmids sc @ sc_restore_vmids sc else t3)
      in if feature = ''clone'' then sc_vmids sc @ sc_clone_vmids sc else t4)"

definition credential_admits :: "credential_row \<Rightarrow> int \<Rightarrow> string \<Rightarrow> unit result" where
  "credential_admits cd vmid operation_type =
     (case map_of MUTATION_FEATURES operation_type of
        None \<Rightarrow> Inl (setup_error ''SETUP_FEATURE_NOT_SELECTED'' 403)
      | Some feature \<Rightarrow>
          if feature \<notin> set (cd_features cd)
             \<and> \<not> ((created_target cd vmid \<or> restored_target cd vmid) \<and> feature = ''power'')
          then Inl (setup_error ''SETUP_FEATURE_NOT_SELECTED'' 403)
          else if cd_access_mode cd \<noteq> ''cluster'' \<and> vmid \<notin> set (mutation_targets cd feature vmid)
          then Inl (setup_error ''SETUP_TARGET_NOT_SELECTED'' 403)
          else Inr ())"

definition decryptable :: "setup_env \<Rightarrow> connection_row \<Rightarrow> credential_row \<Rightarrow> unit result" where
  "decryptable env connection credential =
     (if se_decrypts env connection credential then Inr ()
      else Inl (setup_error ''SETUP_CREDENTIAL_UNAVAILABLE'' 503))"

definition admit_mutation :: "setup_env \<Rightarrow> db \<Rightarrow> string \<Rightarrow> int \<Rightarrow> string \<Rightarrow> unit result" where
  "admit_mutation env d cluster_id vmid operation_type =
     ebind (pin_selection env (db_connection d)) (\<lambda>_.
       case db_connection d of
         None \<Rightarrow> Inr ()
       | Some connection \<Rightarrow>
           if cn_cluster_id connection \<noteq> cluster_id \<or> cn_admission connection \<noteq> ''open''
           then Inl (setup_error ''SETUP_ADMISSION_CLOSED'' 409)
           else if cn_source connection = ''legacy_env'' then Inr ()
           else ebind (active_credential d connection) (\<lambda>credential.
                ebind (credential_admits credential vmid operation_type) (\<lambda>_.
                  decryptable env connection credential)))"

section \<open>Host targets\<close>

definition IDENTIFIER :: rx where
  "IDENTIFIER = Cat (Cls (\<lambda>c. is_alpha c \<or> is_digit c))
     (upto_times 63 (Cls (\<lambda>c. is_alpha c \<or> is_digit c \<or> c \<in> set ''_.-'')))"

definition BRIDGE :: rx where
  "BRIDGE = cats [word_rx ''vmbr'', Cls is_digit, upto_times 3 (Cls is_digit)]"

definition exact_text :: "rx \<Rightarrow> pyval \<Rightarrow> string option" where
  "exact_text r v = (case v of PStr s \<Rightarrow> if matches_full r s then Some s else None | _ \<Rightarrow> None)"

text \<open>\<open>target_identity\<close> of \<open>app/operations/host_config/domain.py\<close>.\<close>

definition target_identity :: "string \<Rightarrow> pyval \<Rightarrow> (string \<times> string) result" where
  "target_identity operation_type target =
     (case target of
        PDict t \<Rightarrow>
          (case exact_text IDENTIFIER (dget t ''node_id'') of
             None \<Rightarrow> Inl (PyError ValueError)
           | Some node \<Rightarrow>
               if operation_type = ''host_storage'' \<and> set (dict_keys t) = {''node_id'', ''storage_id''}
               then (case exact_text IDENTIFIER (dget t ''storage_id'') of
                       Some storage \<Rightarrow> Inr (''proxmox_storage'', ''storage:'' @ storage)
                     | None \<Rightarrow> Inl (PyError ValueError))
               else if operation_type = ''host_network'' \<and> set (dict_keys t) = {''node_id'', ''bridge_id''}
               then (case exact_text BRIDGE (dget t ''bridge_id'') of
                       Some bridge \<Rightarrow> Inr (''proxmox_network'', ''node:'' @ node @ ''/bridge:'' @ bridge)
                     | None \<Rightarrow> Inl (PyError ValueError))
               else Inl (PyError ValueError))
      | _ \<Rightarrow> Inl (PyError ValueError))"

definition host_scope_admits :: "credential_row \<Rightarrow> string \<Rightarrow> pydict \<Rightarrow> unit result" where
  "host_scope_admits cd operation_type target =
     (let (selected, resource_id) = (if operation_type = ''host_storage''
            then (sc_host_storages (cd_scope cd), dget target ''storage_id'')
            else (sc_host_bridges (cd_scope cd), dget target ''bridge_id''))
      in if operation_type \<notin> set (cd_features cd) then Inl (setup_error ''SETUP_FEATURE_NOT_SELECTED'' 403)
         else if cd_access_mode cd \<noteq> ''cluster''
           \<and> (dget target ''node_id'' \<notin> PStr ` set (sc_nodes (cd_scope cd))
              \<or> resource_id \<notin> PStr ` set selected)
         then Inl (setup_error ''SETUP_TARGET_NOT_SELECTED'' 403)
         else Inr ())"

definition admit_host_mutation :: "setup_env \<Rightarrow> db \<Rightarrow> string \<Rightarrow> string \<Rightarrow> pyval \<Rightarrow> unit result" where
  "admit_host_mutation env d cluster_id operation_type target =
     ebind (target_identity operation_type target) (\<lambda>_.
     ebind (pin_selection env (db_connection d)) (\<lambda>_.
       case db_connection d of
         None \<Rightarrow> Inr ()
       | Some connection \<Rightarrow>
           if cn_cluster_id connection \<noteq> cluster_id \<or> cn_admission connection \<noteq> ''open''
           then Inl (setup_error ''SETUP_ADMISSION_CLOSED'' 409)
           else if cn_source connection = ''legacy_env'' then Inr ()
           else ebind (active_credential d connection) (\<lambda>credential.
                ebind (host_scope_admits credential operation_type
                         (case target of PDict t \<Rightarrow> t | _ \<Rightarrow> [])) (\<lambda>_.
                  decryptable env connection credential))))"

section \<open>What admission guarantees\<close>

lemma pin_selection_Inr_iff:
  "pin_selection env c = Inr () \<longleftrightarrow> se_pin env = None \<or> se_pin env = Some (connection_selection c)"
  by (auto simp: pin_selection_def pinned_def split: option.splits)

lemma pinned_pinned [simp]: "se_pin (pinned env c) = Some p \<Longrightarrow> pinned (pinned env c) c' = pinned env c"
  by (simp add: pinned_def)

text \<open>Once a process has pinned a connection, a different selection is refused for ever.\<close>

lemma pin_is_sticky:
  assumes "pin_selection env c = Inr ()"
  shows "pin_selection (pinned env c) c' = Inr () \<longleftrightarrow> connection_selection c' = connection_selection c"
  using assms by (auto simp: pin_selection_Inr_iff pinned_def split: option.splits)

lemma active_credentialD:
  "active_credential d c = Inr cd \<Longrightarrow>
     cd_state cd = ''active'' \<and> cn_active_revision_id c = Some (cd_revision_id cd) \<and> cd \<in> set (db_credentials d)"
  by (auto simp: active_credential_def split: option.splits if_splits dest!: row_of_Some)

lemma mutation_targets_scope:
  "vmid \<in> set (mutation_targets cd feature vmid) \<Longrightarrow>
     vmid \<in> set (sc_vmids (cd_scope cd)) \<or> vmid \<in> set (sc_create_vmids (cd_scope cd)) \<or>
     vmid \<in> set (sc_image_vmids (cd_scope cd)) \<or> vmid \<in> set (sc_restore_vmids (cd_scope cd)) \<or>
     vmid \<in> set (sc_clone_vmids (cd_scope cd))"
  by (auto simp: mutation_targets_def Let_def split: if_splits)

lemma admit_mutationD:
  assumes "admit_mutation env d cluster vmid ot = Inr ()"
    and "db_connection d = Some c" "cn_source c \<noteq> ''legacy_env''"
  obtains cd where "cn_cluster_id c = cluster" "cn_admission c = ''open''" "cd_state cd = ''active''"
    "cn_active_revision_id c = Some (cd_revision_id cd)" "credential_admits cd vmid ot = Inr ()"
    "se_decrypts env c cd"
  using assms by (auto simp: admit_mutation_def decryptable_def dest!: active_credentialD split: if_splits)

lemma target_identity_types:
  "target_identity ot t = Inr (ty, i) \<Longrightarrow> ot \<in> set HOST_OPERATION_TYPES \<and>
     ty = (if ot = ''host_storage'' then ''proxmox_storage'' else ''proxmox_network'')"
  by (auto simp: target_identity_def HOST_OPERATION_TYPES_def split: pyval.splits option.splits if_splits)

end
