(* ===== verification/TargetLocks.thy ===== *)
theory TargetLocks
  imports SetupAdmission
begin

text \<open>
  The durable target locks: \<open>app/operations/locks/domain.py\<close>,
  \<open>app/operations/locks/infrastructure/repository.py\<close>, \<open>app/operations/locks/binding.py\<close> and
  \<open>app/operations/target_lock.py\<close>. The evidence dictionary that the busy error carries is not
  modelled.
\<close>

section \<open>Lock values\<close>

record durable_lock =
  dl_lock_id :: string
  dl_operation_type :: string
  dl_cluster_id :: string
  dl_vmid :: int
  dl_owner_id :: string
  dl_scope_key :: string
  dl_status :: string
  dl_created_at :: time

definition durable_lock_dict :: "durable_lock \<Rightarrow> pydict" where
  "durable_lock_dict l =
     [(''operation_lock_id'', PStr (dl_lock_id l)), (''operation_type'', PStr (dl_operation_type l)),
      (''scope_type'', PStr ''proxmox_locator''), (''scope_key'', PStr (dl_scope_key l)),
      (''status'', PStr (dl_status l)), (''cluster_id'', PStr (dl_cluster_id l)),
      (''vmid'', PInt (dl_vmid l)), (''owner_id'', PStr (dl_owner_id l)),
      (''created_at'', PStr (isoformat (dl_created_at l)))]"

definition locator_scope_key :: "string \<Rightarrow> int \<Rightarrow> string" where
  "locator_scope_key cluster_id vmid =
     (let c = map (\<lambda>x. if x = CHR ''|'' then CHR ''-'' else x) (py_strip cluster_id)
      in (if c = [] then ''gjallar-mvp'' else c) @ ''|proxmox_locator|'' @ show_int vmid)"

definition durable_lock_of :: "lock_row \<Rightarrow> durable_lock" where
  "durable_lock_of r = \<lparr>dl_lock_id = lk_operation_lock_id r, dl_operation_type = lk_operation_type r,
     dl_cluster_id = lk_cluster_id r, dl_vmid = (case lk_vmid r of None \<Rightarrow> 0 | Some v \<Rightarrow> v),
     dl_owner_id = (case lk_owner_id r of None \<Rightarrow> [] | Some w \<Rightarrow> w), dl_scope_key = lk_scope_key r,
     dl_status = lk_status r, dl_created_at = lk_created_at r\<rparr>"

section \<open>The repository\<close>

definition lock_current :: "db \<Rightarrow> string \<Rightarrow> int \<Rightarrow> durable_lock option" where
  "lock_current d cluster_id vmid =
     (case sort_key (\<lambda>r. (lk_created_at r, lk_operation_lock_id r))
             (filter (\<lambda>r. lk_scope_type r = ''proxmox_locator''
                \<and> lk_scope_key r = locator_scope_key cluster_id vmid \<and> lock_open r) (db_locks d)) of
        [] \<Rightarrow> None | r # _ \<Rightarrow> Some (durable_lock_of r))"

definition normalized_cluster :: "string \<Rightarrow> string" where
  "normalized_cluster cluster_id = (if py_strip cluster_id = [] then ''gjallar-mvp'' else py_strip cluster_id)"

definition reason_or :: "string \<Rightarrow> string \<Rightarrow> string" where
  "reason_or reason fallback = (if py_strip reason = [] then fallback else py_strip reason)"

definition vm_lock_row :: "string \<Rightarrow> string \<Rightarrow> string \<Rightarrow> int \<Rightarrow> string \<Rightarrow> string \<Rightarrow> time \<Rightarrow> lock_row" where
  "vm_lock_row lock_id operation_type cluster_id vmid owner_id reason now =
     \<lparr>lk_operation_lock_id = ''operation-lock-'' @ lock_id, lk_operation_type = operation_type,
      lk_scope_type = ''proxmox_locator'', lk_scope_key = locator_scope_key cluster_id vmid,
      lk_status = ''active'', lk_cluster_id = cluster_id, lk_vmid = Some vmid, lk_owner_id = Some owner_id,
      lk_reason = reason_or reason (operation_type @ ''_target_lock''),
      lk_evidence = [(''operation_id'', PStr owner_id), (''target_type'', PStr ''proxmox_vm''),
                     (''target_id'', PStr (''vmid:'' @ show_int vmid))],
      lk_created_at = now, lk_updated_at = now, lk_released_at = None\<rparr>"

text \<open>
  The transaction that inserts the lock: admission, the open host configuration lock of the
  cluster, the insert with its constraints.
\<close>

definition lock_insert_tx :: "setup_env \<Rightarrow> db \<Rightarrow> lock_row \<Rightarrow> int \<Rightarrow> (db \<times> durable_lock) result" where
  "lock_insert_tx env d row vmid =
     (case admit_mutation env d (lk_cluster_id row) vmid (lk_operation_type row) of
        Inl _ \<Rightarrow> Inl (DurableTargetLockBusy (lk_scope_key row))
      | Inr _ \<Rightarrow>
          if list_ex (\<lambda>r. lk_cluster_id r = lk_cluster_id row
               \<and> lk_scope_type r = ''proxmox_configuration'' \<and> lock_open r) (db_locks d)
          then Inl (DurableTargetLockBusy (lk_scope_key row))
          else (case insert_lock d row of
                  Inl _ \<Rightarrow> Inl (DurableTargetLockBusy (lk_scope_key row))
                | Inr d' \<Rightarrow> Inr (d', durable_lock_of row)))"

definition lock_acquire :: "setup_env \<Rightarrow> db \<Rightarrow> time \<Rightarrow> string \<Rightarrow> string \<Rightarrow> string \<Rightarrow> int \<Rightarrow> string \<Rightarrow> string
    \<Rightarrow> (db \<times> durable_lock) result" where
  "lock_acquire env d now lock_id operation_type cluster_id vmid owner_id reason =
     (if operation_type \<notin> set SUPPORTED_TARGET_OPERATION_TYPES then Inl (PyError ValueError)
      else if py_strip owner_id = [] then Inl (PyError ValueError)
      else if lock_current d (normalized_cluster cluster_id) vmid \<noteq> None
      then Inl (DurableTargetLockBusy (locator_scope_key (normalized_cluster cluster_id) vmid))
      else lock_insert_tx env d (vm_lock_row lock_id operation_type (normalized_cluster cluster_id) vmid
             (py_strip owner_id) reason now) vmid)"

definition released_row :: "lock_row \<Rightarrow> string \<Rightarrow> time \<Rightarrow> lock_row" where
  "released_row r reason now =
     r\<lparr>lk_status := ''released'', lk_reason := reason_or reason ''verified_operation_completed'',
       lk_released_at := Some now, lk_updated_at := now\<rparr>"

definition lock_release :: "db \<Rightarrow> time \<Rightarrow> durable_lock \<Rightarrow> string \<Rightarrow> db \<times> bool" where
  "lock_release d now lock reason =
     (case find_lock d (dl_lock_id lock) of
        None \<Rightarrow> (d, False)
      | Some r \<Rightarrow>
          if \<not> lock_open r \<or> lk_owner_id r \<noteq> Some (dl_owner_id lock) \<or> lk_scope_key r \<noteq> dl_scope_key lock
          then (d, False)
          else (put_lock (released_row r reason now) d, True))"

definition lock_release_owned :: "db \<Rightarrow> time \<Rightarrow> string \<Rightarrow> int \<Rightarrow> string \<Rightarrow> string \<Rightarrow> db \<times> bool" where
  "lock_release_owned d now cluster_id vmid owner_id reason =
     (case find (\<lambda>r. lk_scope_type r = ''proxmox_locator''
              \<and> lk_scope_key r = locator_scope_key cluster_id vmid
              \<and> lk_owner_id r = Some owner_id \<and> lock_open r) (db_locks d) of
        None \<Rightarrow> (d, False)
      | Some r \<Rightarrow> (put_lock (released_row r reason now) d, True))"

section \<open>Target identities\<close>

text \<open>\<open>_locator\<close>: \<open>vmid:\<close> and a positive decimal number without leading zeros.\<close>

definition LOCATOR :: rx where
  "LOCATOR = Cat (word_rx ''vmid:'') (Grp (Cat (Cls (char_between 49 57)) (Star (Cls is_digit))))"

definition locator :: "string \<Rightarrow> string \<Rightarrow> int result" where
  "locator target_type target_id =
     (case fullmatch LOCATOR target_id of
        Some [ds] \<Rightarrow> if target_type \<noteq> ''proxmox_vm'' then Inl (PyError ValueError)
                     else Inr (int (nat_of_digits ds))
      | _ \<Rightarrow> Inl (PyError ValueError))"

definition acquire_target_lock :: "setup_env \<Rightarrow> db \<Rightarrow> time \<Rightarrow> string \<Rightarrow> string \<Rightarrow> string \<Rightarrow> string \<Rightarrow> string
    \<Rightarrow> string \<Rightarrow> (db \<times> durable_lock) result" where
  "acquire_target_lock env d now lock_id cluster target_type target_id owner_id operation_type =
     ebind (locator target_type target_id) (\<lambda>vmid.
       lock_acquire env d now lock_id operation_type cluster vmid owner_id (operation_type @ ''_dispatch''))"

definition release_target_lock :: "db \<Rightarrow> time \<Rightarrow> durable_lock \<Rightarrow> db" where
  "release_target_lock d now lock = fst (lock_release d now lock ''verified_operation_completed'')"

definition release_target_lock_for_owner :: "db \<Rightarrow> time \<Rightarrow> string \<Rightarrow> string \<Rightarrow> string \<Rightarrow> string
    \<Rightarrow> (db \<times> bool) result" where
  "release_target_lock_for_owner d now cluster target_type target_id owner_id =
     ebind (locator target_type target_id) (\<lambda>vmid.
       Inr (lock_release_owned d now cluster vmid owner_id ''verified_operation_completed''))"

section \<open>Lock references of multi-VM operations\<close>

record lock_ref =
  lr_lock_id :: string
  lr_vmid :: int

definition expected_lock_count :: "string \<Rightarrow> nat" where
  "expected_lock_count operation_type = (if operation_type \<in> {''vm_clone'', ''vm_restore''} then 2 else 1)"

definition VMID_TEXT :: rx where
  "VMID_TEXT = Cat (word_rx ''vmid:'') (Grp (plus (Cls is_digit)))"

text \<open>The second reference of a clone or restore, read from \<open>related_target_locks\<close>.\<close>

definition source_reference :: "pydict \<Rightarrow> lock_ref \<Rightarrow> pyval \<Rightarrow> lock_ref option" where
  "source_reference operation_details primary row =
     (case (dget operation_details ''source'', row) of
        (PDict source, PDict r) \<Rightarrow>
          if set (dict_keys r) \<noteq> {''lock_id'', ''vmid''} then None
          else (case (dget r ''vmid'', dget r ''lock_id'') of
                  (PInt v, PStr l) \<Rightarrow>
                    if \<not> (100 \<le> v \<and> v \<le> 999999999) \<or> \<not> py_eq (PInt v) (dget source ''vmid'')
                       \<or> v = lr_vmid primary \<or> py_strip l = [] \<or> l = lr_lock_id primary
                    then None else Some \<lparr>lr_lock_id = l, lr_vmid = v\<rparr>
                | _ \<Rightarrow> None)
      | _ \<Rightarrow> None)"

definition lock_references :: "string \<Rightarrow> string \<Rightarrow> pydict \<Rightarrow> pydict \<Rightarrow> lock_ref list" where
  "lock_references operation_type target_id operation_details recovery_details =
     (case (fullmatch VMID_TEXT target_id, dget recovery_details ''target_lock_id'') of
        (Some [ds], PStr lock_id) \<Rightarrow>
          if py_strip lock_id = [] then []
          else (let primary = \<lparr>lr_lock_id = lock_id, lr_vmid = int (nat_of_digits ds)\<rparr>;
                    extra = dget_or recovery_details ''related_target_locks'' (PList [])
                in if expected_lock_count operation_type = 1
                   then (if truthy extra then [] else [primary])
                   else if \<not> py_eq (dget operation_details ''target_lock_id'') (PStr lock_id)
                   then []
                   else (case extra of
                           PList [row] \<Rightarrow>
                             if \<not> py_eq (dget operation_details ''related_target_locks'') extra then []
                             else (case source_reference operation_details primary row of
                                     None \<Rightarrow> [] | Some r \<Rightarrow> [primary, r])
                         | _ \<Rightarrow> []))
      | _ \<Rightarrow> [])"

section \<open>The lock table invariant\<close>

text \<open>
  \<open>lock_inv\<close>: lock identifiers are distinct, every row passes the table's checks, two
  different open rows never share a scope, and while a host configuration lock is open it is
  the only open lock of its cluster.
\<close>

definition compatible_locks :: "lock_row \<Rightarrow> lock_row \<Rightarrow> bool" where
  "compatible_locks r q \<longleftrightarrow>
     lk_operation_lock_id r = lk_operation_lock_id q \<or> \<not> lock_open r \<or> \<not> lock_open q \<or>
     (lock_scope r \<noteq> lock_scope q \<and>
      (lk_cluster_id r = lk_cluster_id q \<longrightarrow>
         lk_scope_type r = ''proxmox_locator'' \<and> lk_scope_type q = ''proxmox_locator''))"

definition lock_inv :: "db \<Rightarrow> bool" where
  "lock_inv d \<longleftrightarrow> distinct (map lk_operation_lock_id (db_locks d)) \<and>
     (\<forall>r \<in> set (db_locks d). lock_checks r) \<and>
     (\<forall>r \<in> set (db_locks d). \<forall>q \<in> set (db_locks d). compatible_locks r q)"

lemma compatible_sym: "compatible_locks r q \<longleftrightarrow> compatible_locks q r"
  by (auto simp: compatible_locks_def)

lemma compatible_refl [simp]: "compatible_locks r r"
  by (simp add: compatible_locks_def)

lemma lock_inv_frame: "db_locks d' = db_locks d \<Longrightarrow> lock_inv d' = lock_inv d"
  by (simp add: lock_inv_def)

lemma lock_inv_empty: "lock_inv empty_db"
  by (simp add: lock_inv_def empty_db_def)

lemma lock_inv_insert:
  assumes "lock_inv d" "insert_lock d r = Inr d'"
    and "\<And>q. q \<in> set (db_locks d) \<Longrightarrow> lock_open q \<Longrightarrow> lk_cluster_id q = lk_cluster_id r \<Longrightarrow>
      lk_scope_type r = ''proxmox_locator'' \<and> lk_scope_type q = ''proxmox_locator''"
  shows "lock_inv d'"
proof -
  from insert_lockD [OF assms(2)]
  have d': "db_locks d' = db_locks d @ [r]" and checks: "lock_checks r"
    and new: "\<And>q. q \<in> set (db_locks d) \<Longrightarrow> lk_operation_lock_id q \<noteq> lk_operation_lock_id r \<and>
        \<not> (lock_open q \<and> lock_open r \<and> lock_scope q = lock_scope r)" by auto
  have comp: "compatible_locks q r" if "q \<in> set (db_locks d)" for q
    using new [OF that] assms(3) [OF that] by (auto simp: compatible_locks_def)
  then have "\<And>q. q \<in> set (db_locks d) \<Longrightarrow> compatible_locks r q" by (simp add: compatible_sym)
  moreover have "lk_operation_lock_id r \<notin> lk_operation_lock_id ` set (db_locks d)"
    using new by fastforce
  ultimately show ?thesis using assms(1) comp checks by (auto simp: lock_inv_def d')
qed

text \<open>A row may change its status, reason, evidence and times; it must not become open.\<close>

definition lock_update :: "lock_row \<Rightarrow> lock_row \<Rightarrow> bool" where
  "lock_update r r' \<longleftrightarrow>
     lk_operation_lock_id r' = lk_operation_lock_id r \<and> lock_scope r' = lock_scope r \<and>
     lk_cluster_id r' = lk_cluster_id r \<and> lk_operation_type r' = lk_operation_type r \<and>
     lk_vmid r' = lk_vmid r \<and> lk_status r' \<in> set LOCK_STATUSES \<and> (lock_open r' \<longrightarrow> lock_open r)"

lemma lock_inv_put:
  assumes inv: "lock_inv d" and r: "r \<in> set (db_locks d)" and upd: "lock_update r r'"
  shows "lock_inv (put_lock r' d)"
proof -
  have old: "q = r' \<or> q \<in> set (db_locks d)" if "q \<in> set (db_locks (put_lock r' d))" for q
    using that by (auto dest: set_row_mem)
  have up: "compatible_locks r' q" if "q \<in> set (db_locks d)" for q
    using inv r upd that by (auto simp: lock_inv_def compatible_locks_def lock_update_def lock_scope_def)
  have "lock_checks r'"
    using inv r upd by (auto simp: lock_inv_def lock_checks_def lock_update_def lock_scope_def)
  moreover have "compatible_locks q q'" if "q \<in> set (db_locks (put_lock r' d))"
    "q' \<in> set (db_locks (put_lock r' d))" for q q'
    using old [OF that(1)] old [OF that(2)] up inv compatible_sym by (auto simp: lock_inv_def)
  moreover have "distinct (map lk_operation_lock_id (db_locks (put_lock r' d)))"
    using inv by (simp add: lock_inv_def)
  ultimately show ?thesis using old inv unfolding lock_inv_def by blast
qed

lemma released_update: "lock_update r (released_row r reason now)"
  by (simp add: lock_update_def released_row_def lock_scope_def lock_open_def LOCK_STATUSES_def
      OPEN_TARGET_LOCK_STATUSES_def)

lemma vm_lock_row_simps [simp]:
  "lk_cluster_id (vm_lock_row i ot c v w re now) = c"
  "lk_scope_type (vm_lock_row i ot c v w re now) = ''proxmox_locator''"
  "lk_scope_key (vm_lock_row i ot c v w re now) = locator_scope_key c v"
  "lk_operation_type (vm_lock_row i ot c v w re now) = ot"
  "lk_owner_id (vm_lock_row i ot c v w re now) = Some w"
  "lk_operation_lock_id (vm_lock_row i ot c v w re now) = ''operation-lock-'' @ i"
  "lock_open (vm_lock_row i ot c v w re now)"
  by (simp_all add: vm_lock_row_def lock_open_def OPEN_TARGET_LOCK_STATUSES_def)

text \<open>What a successful acquisition has checked and written.\<close>

lemma lock_acquireD:
  assumes "lock_acquire env d now i ot c v w re = Inr (d', l)"
  obtains r where "r = vm_lock_row i ot (normalized_cluster c) v (py_strip w) re now"
    "insert_lock d r = Inr d'" "l = durable_lock_of r" "py_strip w \<noteq> []"
    "admit_mutation env d (normalized_cluster c) v ot = Inr ()"
    "\<And>q. q \<in> set (db_locks d) \<Longrightarrow> lock_open q \<Longrightarrow> lk_cluster_id q = normalized_cluster c \<Longrightarrow>
       lk_scope_type q \<noteq> ''proxmox_configuration''"
  using assms
  by (auto simp: lock_acquire_def lock_insert_tx_def list_ex_iff split: if_splits sum.splits)

lemma lock_acquire_inv [inv_intros]:
  assumes "lock_inv d" "lock_acquire env d now i ot c v w re = Inr (d', l)"
  shows "lock_inv d'"
  using assms(2)
proof (rule lock_acquireD)
  fix r assume r: "r = vm_lock_row i ot (normalized_cluster c) v (py_strip w) re now"
    and ins: "insert_lock d r = Inr d'"
    and host: "\<And>q. q \<in> set (db_locks d) \<Longrightarrow> lock_open q \<Longrightarrow> lk_cluster_id q = normalized_cluster c \<Longrightarrow>
       lk_scope_type q \<noteq> ''proxmox_configuration''"
  have "lk_scope_type q = ''proxmox_locator''" if "q \<in> set (db_locks d)" "lk_scope_type q \<noteq> ''proxmox_configuration''" for q
    using assms(1) that by (auto simp: lock_inv_def lock_checks_def)
  with host r show ?thesis by (intro lock_inv_insert [OF assms(1) ins]) auto
qed

lemma lock_release_inv [inv_intros]:
  "lock_inv d \<Longrightarrow> lock_release d now l reason = (d', b) \<Longrightarrow> lock_inv d'"
  by (auto simp: lock_release_def split: option.splits if_splits dest!: row_of_Some
      intro: lock_inv_put released_update)

lemma lock_release_owned_inv [inv_intros]:
  "lock_inv d \<Longrightarrow> lock_release_owned d now c v w reason = (d', b) \<Longrightarrow> lock_inv d'"
  by (auto simp: lock_release_owned_def find_Some_iff split: option.splits
      intro!: lock_inv_put released_update)

lemma lock_frame_store:
  "lock_release d now l reason = (d', b) \<Longrightarrow> db_operations d' = db_operations d \<and>
     db_events d' = db_events d \<and> db_recoveries d' = db_recoveries d"
  "lock_release_owned d now c v w reason = (d', b) \<Longrightarrow> db_operations d' = db_operations d \<and>
     db_events d' = db_events d \<and> db_recoveries d' = db_recoveries d"
  "lock_acquire env d now i ot c v w reason = Inr (d', l) \<Longrightarrow> db_operations d' = db_operations d \<and>
     db_events d' = db_events d \<and> db_recoveries d' = db_recoveries d"
  by (auto simp: lock_release_def lock_release_owned_def split: option.splits if_splits
      elim!: lock_acquireD dest!: insert_lockD)

text \<open>Under the invariant there is at most one open row of a locator scope.\<close>

lemma open_lock_unique:
  assumes "lock_inv d" "r \<in> set (db_locks d)" "q \<in> set (db_locks d)" "lock_open r" "lock_open q"
    "lock_scope r = lock_scope q"
  shows "r = q"
proof -
  from assms have "lk_operation_lock_id r = lk_operation_lock_id q"
    by (auto simp: lock_inv_def compatible_locks_def)
  with assms show ?thesis
    using distinct_row_of [of lk_operation_lock_id "db_locks d"] by (metis lock_inv_def option.inject)
qed

lemma lock_references_length:
  "lock_references ot ti od rd \<noteq> [] \<Longrightarrow> length (lock_references ot ti od rd) = expected_lock_count ot"
  by (auto simp: lock_references_def expected_lock_count_def Let_def
      split: option.splits list.splits pyval.splits if_splits)

lemma lock_references_distinct:
  "distinct (map lr_lock_id (lock_references ot ti od rd)) \<and> distinct (map lr_vmid (lock_references ot ti od rd))"
  by (auto simp: lock_references_def source_reference_def Let_def
      split: option.splits list.splits pyval.splits if_splits prod.splits)

end
