(* ===== verification/HostConfig.thy ===== *)
theory HostConfig
  imports TargetLocks
begin

text \<open>
  Host configuration targets and their locks: \<open>app/operations/host_config/domain.py\<close> and
  \<open>app/operations/host_config/infrastructure.py\<close>. One open configuration lock excludes every
  other open lock of its cluster.
\<close>

section \<open>Scope and binding\<close>

definition configuration_scope_key :: "sha \<Rightarrow> pyval \<Rightarrow> string result" where
  "configuration_scope_key sha cluster_id =
     (case cluster_id of
        PStr c \<Rightarrow> if py_strip c = [] \<or> length (py_strip c) > 120 then Inl (PyError ValueError)
                  else Inr (''proxmox_configuration:'' @ sha (utf8 (py_strip c)))
      | _ \<Rightarrow> Inl (PyError ValueError))"

definition HOST_BINDING_FIELDS :: "string list" where
  "HOST_BINDING_FIELDS = [''target_lock_id'', ''cluster_id'', ''scope_key'', ''target_type'', ''target_id'',
     ''target'', ''operation_type'', ''execution_mode'', ''related_target_locks'', ''vmid'']"

definition BINDING_FIELDS :: "string list" where
  "BINDING_FIELDS = [''target_lock_id'', ''cluster_id'', ''scope_key'', ''target_type'', ''target_id'',
     ''target'', ''operation_type'', ''execution_mode'']"

definition nonblank :: "pyval \<Rightarrow> bool" where
  "nonblank v = (case v of PStr s \<Rightarrow> py_strip s \<noteq> [] | _ \<Rightarrow> False)"

definition lock_binding :: "sha \<Rightarrow> string \<Rightarrow> string \<Rightarrow> string \<Rightarrow> pydict \<Rightarrow> pydict \<Rightarrow> pydict option" where
  "lock_binding sha operation_type target_type target_id operation_details recovery_details =
     (if operation_type \<notin> set HOST_OPERATION_TYPES then None
      else if list_ex (\<lambda>f. \<not> dhas operation_details f
                \<or> \<not> py_eq (dget operation_details f) (dget recovery_details f)) BINDING_FIELDS
      then None
      else (let value = (\<lambda>f. dget operation_details f)
            in case (target_identity operation_type (value ''target''),
                     configuration_scope_key sha (value ''cluster_id'')) of
                 (Inr (exact_type, exact_id), Inr scope) \<Rightarrow>
                   if \<not> nonblank (value ''target_lock_id'') \<or> value ''scope_key'' \<noteq> PStr scope
                      \<or> value ''target_type'' \<noteq> PStr target_type \<or> value ''target_id'' \<noteq> PStr target_id
                      \<or> exact_type \<noteq> target_type \<or> exact_id \<noteq> target_id
                      \<or> value ''operation_type'' \<noteq> PStr operation_type
                      \<or> value ''execution_mode'' \<noteq> PStr ''managed_api''
                      \<or> truthy (dget operation_details ''related_target_locks'')
                      \<or> truthy (dget recovery_details ''related_target_locks'')
                      \<or> dget operation_details ''vmid'' \<noteq> PNone \<or> dget recovery_details ''vmid'' \<noteq> PNone
                   then None
                   else Some (map (\<lambda>f. (f, value f)) BINDING_FIELDS)
               | _ \<Rightarrow> None))"

definition preserves_lock_binding :: "pydict \<Rightarrow> pydict \<Rightarrow> bool" where
  "preserves_lock_binding current patch =
     list_all (\<lambda>f. \<not> dhas patch f \<or> py_eq (dget patch f) (dget current f)) HOST_BINDING_FIELDS"

section \<open>Configuration locks\<close>

record configuration_lock =
  cl_lock_id :: string
  cl_operation_type :: string
  cl_cluster_id :: string
  cl_owner_id :: "string option"
  cl_scope_key :: string
  cl_status :: string
  cl_target_type :: pyval
  cl_target_id :: pyval
  cl_target :: pyval

definition configuration_lock_dict :: "configuration_lock \<Rightarrow> pydict" where
  "configuration_lock_dict l =
     [(''operation_lock_id'', PStr (cl_lock_id l)), (''operation_type'', PStr (cl_operation_type l)),
      (''cluster_id'', PStr (cl_cluster_id l)),
      (''owner_id'', (case cl_owner_id l of None \<Rightarrow> PNone | Some w \<Rightarrow> PStr w)),
      (''scope_type'', PStr ''proxmox_configuration''), (''scope_key'', PStr (cl_scope_key l)),
      (''status'', PStr (cl_status l)), (''vmid'', PNone), (''target_type'', cl_target_type l),
      (''target_id'', cl_target_id l), (''target'', cl_target l)]"

definition configuration_lock_of :: "lock_row \<Rightarrow> configuration_lock" where
  "configuration_lock_of r = \<lparr>cl_lock_id = lk_operation_lock_id r, cl_operation_type = lk_operation_type r,
     cl_cluster_id = lk_cluster_id r, cl_owner_id = lk_owner_id r, cl_scope_key = lk_scope_key r,
     cl_status = lk_status r, cl_target_type = dget (lk_evidence r) ''target_type'',
     cl_target_id = dget (lk_evidence r) ''target_id'',
     cl_target = dget_or (lk_evidence r) ''target'' (PDict [])\<rparr>"

definition configuration_current :: "sha \<Rightarrow> db \<Rightarrow> string \<Rightarrow> configuration_lock option result" where
  "configuration_current sha d cluster_id =
     ebind (configuration_scope_key sha (PStr cluster_id)) (\<lambda>key.
       Inr (map_option configuration_lock_of
         (find (\<lambda>r. lk_scope_type r = ''proxmox_configuration'' \<and> lk_scope_key r = key \<and> lock_open r)
            (db_locks d))))"

definition configuration_row :: "string \<Rightarrow> string \<Rightarrow> string \<Rightarrow> string \<Rightarrow> string \<Rightarrow> string \<Rightarrow> string \<Rightarrow> pyval
    \<Rightarrow> time \<Rightarrow> lock_row" where
  "configuration_row lock_id operation_type scope_key cluster_id owner_id target_type target_id target now =
     \<lparr>lk_operation_lock_id = ''configuration-lock-'' @ lock_id, lk_operation_type = operation_type,
      lk_scope_type = ''proxmox_configuration'', lk_scope_key = scope_key, lk_status = ''active'',
      lk_cluster_id = cluster_id, lk_vmid = None, lk_owner_id = Some owner_id,
      lk_reason = ''host_configuration_dispatch'',
      lk_evidence = [(''operation_id'', PStr owner_id), (''target_type'', PStr target_type),
                     (''target_id'', PStr target_id), (''target'', target)],
      lk_created_at = now, lk_updated_at = now, lk_released_at = None\<rparr>"

definition configuration_acquire :: "sha \<Rightarrow> setup_env \<Rightarrow> db \<Rightarrow> time \<Rightarrow> string \<Rightarrow> string \<Rightarrow> string \<Rightarrow> string
    \<Rightarrow> pyval \<Rightarrow> (db \<times> configuration_lock) result" where
  "configuration_acquire sha env d now lock_id operation_type cluster_id owner_id target =
     ebind (target_identity operation_type target) (\<lambda>(target_type, target_id).
     ebind (configuration_scope_key sha (PStr cluster_id)) (\<lambda>scope_key.
       if py_strip owner_id = [] then Inl (PyError ValueError)
       else (case admit_host_mutation env d (py_strip cluster_id) operation_type target of
               Inl e \<Rightarrow> Inl (DurableTargetLockBusy scope_key)
             | Inr _ \<Rightarrow>
                 if list_ex (\<lambda>r. lk_cluster_id r = py_strip cluster_id \<and> lock_open r) (db_locks d)
                 then Inl (DurableTargetLockBusy scope_key)
                 else (let row = configuration_row lock_id operation_type scope_key (py_strip cluster_id)
                               (py_strip owner_id) target_type target_id target now
                       in case insert_lock d row of
                            Inl _ \<Rightarrow> Inl (DurableTargetLockBusy scope_key)
                          | Inr d' \<Rightarrow> Inr (d', configuration_lock_of row)))))"

section \<open>What the definitions guarantee\<close>

lemma configuration_row_simps [simp]:
  "lk_cluster_id (configuration_row i ot k c w ty ti t now) = c"
  "lk_scope_type (configuration_row i ot k c w ty ti t now) = ''proxmox_configuration''"
  "lk_scope_key (configuration_row i ot k c w ty ti t now) = k"
  "lk_owner_id (configuration_row i ot k c w ty ti t now) = Some w"
  "lk_operation_lock_id (configuration_row i ot k c w ty ti t now) = ''configuration-lock-'' @ i"
  "lock_open (configuration_row i ot k c w ty ti t now)"
  by (simp_all add: configuration_row_def lock_open_def OPEN_TARGET_LOCK_STATUSES_def)

lemma configuration_acquireD:
  assumes "configuration_acquire sha env d now i ot c w t = Inr (d', l)"
  obtains ty ti k r where "target_identity ot t = Inr (ty, ti)"
    "configuration_scope_key sha (PStr c) = Inr k"
    "r = configuration_row i ot k (py_strip c) (py_strip w) ty ti t now"
    "insert_lock d r = Inr d'" "l = configuration_lock_of r"
    "admit_host_mutation env d (py_strip c) ot t = Inr ()"
    "\<And>q. q \<in> set (db_locks d) \<Longrightarrow> lk_cluster_id q = py_strip c \<Longrightarrow> \<not> lock_open q"
  using assms
  by (auto simp: configuration_acquire_def list_ex_iff Let_def split: if_splits sum.splits)

lemma configuration_acquire_inv [inv_intros]:
  assumes "lock_inv d" "configuration_acquire sha env d now i ot c w t = Inr (d', l)"
  shows "lock_inv d'"
  using assms(2)
proof (rule configuration_acquireD)
  fix ty ti k r
  assume r: "r = configuration_row i ot k (py_strip c) (py_strip w) ty ti t now"
    and ins: "insert_lock d r = Inr d'"
    and free: "\<And>q. q \<in> set (db_locks d) \<Longrightarrow> lk_cluster_id q = py_strip c \<Longrightarrow> \<not> lock_open q"
  from free r show ?thesis by (intro lock_inv_insert [OF assms(1) ins]) auto
qed

lemma configuration_acquire_frame:
  "configuration_acquire sha env d now i ot c w t = Inr (d', l) \<Longrightarrow> db_operations d' = db_operations d \<and>
     db_events d' = db_events d \<and> db_recoveries d' = db_recoveries d \<and> db_connection d' = db_connection d"
  by (auto elim!: configuration_acquireD dest!: insert_lockD)

lemma lock_bindingD:
  assumes "lock_binding sha ot ty ti od rd = Some b"
  shows "ot \<in> set HOST_OPERATION_TYPES" "b = map (\<lambda>f. (f, dget od f)) BINDING_FIELDS"
    "target_identity ot (dget od ''target'') = Inr (ty, ti)"
    "\<exists>k. configuration_scope_key sha (dget od ''cluster_id'') = Inr k \<and> dget od ''scope_key'' = PStr k"
    "\<forall>f \<in> set BINDING_FIELDS. dhas od f \<and> py_eq (dget od f) (dget rd f)"
  using assms
  by (auto simp: lock_binding_def Let_def list_ex_iff split: if_splits sum.splits prod.splits)

text \<open>A patch that preserves the binding leaves every binding field equal after the merge.\<close>

lemma preserves_lock_bindingD:
  assumes "preserves_lock_binding current patch" "distinct (map fst patch)"
    and "f \<in> set HOST_BINDING_FIELDS" "py_eq (dget current f) (dget current f)"
  shows "py_eq (dget (dmerge current patch) f) (dget current f)"
  using assms by (auto simp: preserves_lock_binding_def list_all_iff dget_dmerge)

end
