(* ===== verification/RecoveryStore.thy ===== *)
theory RecoveryStore
  imports OperationStore HostConfig
begin

text \<open>
  Durable recovery with lease fencing: \<open>app/operations/recovery/domain.py\<close> and
  \<open>app/operations/recovery/infrastructure/repository.py\<close>. A lease is a private token and a
  generation; a write through a lease is checked against the row, its expiry and the
  operation's version. Times and durations are microseconds; the clock, the fresh tokens and
  the rows that another transaction has locked are arguments.
\<close>

section \<open>Domain\<close>

definition RECOVERY_KINDS :: "string list" where
  "RECOVERY_KINDS = [''host_storage_observation'', ''host_network_observation'', ''vm_start_observation'',
     ''vm_shutdown_observation'', ''vm_compute_observation'', ''vm_disk_observation'',
     ''vm_network_observation'', ''vm_clone_observation'', ''vm_delete_observation'',
     ''vm_template_observation'', ''vm_image_build_observation'', ''vm_image_cleanup_observation'',
     ''vm_backup_observation'', ''vm_restore_observation'', ''vm_migrate_observation'',
     ''vm_create_observation'', ''guided_qm_unlock_observation'']"

definition PRE_DISPATCH_RECOVERY_CONTRACT :: string where
  "PRE_DISPATCH_RECOVERY_CONTRACT = ''operation_lock_recovery_before_mutation.v1''"

definition PRE_DISPATCH_TERMINAL_NO_EFFECT_REASONS :: "((string \<times> string) \<times> string list) list" where
  "PRE_DISPATCH_TERMINAL_NO_EFFECT_REASONS =
     [((''vm_start'', ''blocked''), [''precheck_blocked'']),
      ((''vm_start'', ''failed''), [''mutation_client_unavailable'', ''recovery_registration_failed'']),
      ((''vm_shutdown'', ''blocked''), [''precheck_blocked'']),
      ((''vm_shutdown'', ''failed''), [''mutation_client_unavailable'', ''recovery_registration_failed''])]"

text \<open>The event that a caller may hand in with its payload and checksums.\<close>

record terminal_event =
  te_event_type :: string
  te_payload :: pydict
  te_to_status :: string
  te_checksum :: string
  te_operation_checksum :: string

definition is_pre_dispatch_terminal_no_effect ::
    "string \<Rightarrow> string \<Rightarrow> pydict \<Rightarrow> terminal_event option \<Rightarrow> bool" where
  "is_pre_dispatch_terminal_no_effect operation_type status details event =
     (let reason = stripped_text (dget details ''pre_dispatch_terminal_reason'');
          allowed = (case map_of PRE_DISPATCH_TERMINAL_NO_EFFECT_REASONS (operation_type, status) of
                       None \<Rightarrow> [] | Some rs \<Rightarrow> rs)
      in if reason \<notin> set allowed
            \<or> dget details ''pre_dispatch_terminal_no_effect'' \<noteq> PBool True
            \<or> dget details ''mutation_dispatched'' \<noteq> PBool False
            \<or> dget details ''recovery_contract'' \<noteq> PStr PRE_DISPATCH_RECOVERY_CONTRACT
            \<or> stripped_text (dget details ''target_lock_id'') = []
            \<or> stripped_text (dget details ''cluster_id'') = []
         then False
         else (case event of
                 None \<Rightarrow> True
               | Some e \<Rightarrow>
                   te_event_type e = reason \<and> te_to_status e = status
                   \<and> te_checksum e \<noteq> [] \<and> te_checksum e = te_operation_checksum e
                   \<and> dget (te_payload e) ''pre_dispatch_terminal_no_effect'' = PBool True
                   \<and> dget (te_payload e) ''mutation_dispatched'' = PBool False
                   \<and> text_or_empty (dget (te_payload e) ''pre_dispatch_terminal_reason'') = reason
                   \<and> text_or_empty (dget (te_payload e) ''target_lock_id'') = text_or_empty (dget details ''target_lock_id'')
                   \<and> text_or_empty (dget (te_payload e) ''cluster_id'') = text_or_empty (dget details ''cluster_id'')))"

record recovery_spec =
  rs_operation_id :: string
  rs_recovery_kind :: string
  rs_details :: pydict

definition recovery_spec_check :: "recovery_spec \<Rightarrow> unit result" where
  "recovery_spec_check sp =
     ebind (raise_if (py_strip (rs_operation_id sp) = []) (PyError ValueError)) (\<lambda>_.
       raise_if (rs_recovery_kind sp \<notin> set RECOVERY_KINDS) (PyError ValueError))"

record recovery_item =
  ri_operation_id :: string
  ri_recovery_kind :: string
  ri_status :: string
  ri_available_at :: time
  ri_lease_owner :: "string option"
  ri_lease_generation :: int
  ri_lease_expires_at :: "time option"
  ri_attempt_count :: int
  ri_last_error_code :: "string option"
  ri_details :: pydict
  ri_created_at :: time
  ri_updated_at :: time
  ri_completed_at :: "time option"

record recovery_lease =
  ls_item :: recovery_item
  ls_token :: string

definition lease_operation_id :: "recovery_lease \<Rightarrow> string" where
  "lease_operation_id l = ri_operation_id (ls_item l)"

definition lease_generation :: "recovery_lease \<Rightarrow> int" where
  "lease_generation l = ri_lease_generation (ls_item l)"

definition opt_val :: "('a \<Rightarrow> pyval) \<Rightarrow> 'a option \<Rightarrow> pyval" where
  "opt_val f x = (case x of None \<Rightarrow> PNone | Some v \<Rightarrow> f v)"

definition recovery_item_payload :: "recovery_item \<Rightarrow> pydict" where
  "recovery_item_payload i =
     [(''operation_id'', PStr (ri_operation_id i)), (''recovery_kind'', PStr (ri_recovery_kind i)),
      (''status'', PStr (ri_status i)), (''available_at'', PStr (isoformat (ri_available_at i))),
      (''lease_owner'', opt_val PStr (ri_lease_owner i)),
      (''lease_generation'', PInt (ri_lease_generation i)),
      (''lease_expires_at'', opt_val (\<lambda>t. PStr (isoformat t)) (ri_lease_expires_at i)),
      (''attempt_count'', PInt (ri_attempt_count i)),
      (''last_error_code'', opt_val PStr (ri_last_error_code i)),
      (''details'', PDict (ri_details i)),
      (''created_at'', PStr (isoformat (ri_created_at i))),
      (''updated_at'', PStr (isoformat (ri_updated_at i))),
      (''completed_at'', opt_val (\<lambda>t. PStr (isoformat t)) (ri_completed_at i))]"

section \<open>Rows and leases\<close>

definition item_of :: "recovery_row \<Rightarrow> recovery_item" where
  "item_of r = \<lparr>ri_operation_id = rc_operation_id r, ri_recovery_kind = rc_recovery_kind r,
     ri_status = rc_status r, ri_available_at = rc_available_at r, ri_lease_owner = rc_lease_owner r,
     ri_lease_generation = rc_lease_generation r, ri_lease_expires_at = rc_lease_expires_at r,
     ri_attempt_count = rc_attempt_count r, ri_last_error_code = rc_last_error_code r,
     ri_details = rc_details r, ri_created_at = rc_created_at r, ri_updated_at = rc_updated_at r,
     ri_completed_at = rc_completed_at r\<rparr>"

definition lease_end :: "time \<Rightarrow> int \<Rightarrow> time" where
  "lease_end now lease_us = now + max lease_us 1000000"

definition lease_token_text :: "string \<Rightarrow> string" where
  "lease_token_text token = ''recovery-lease-'' @ token"

definition live_lease :: "recovery_row \<Rightarrow> time \<Rightarrow> bool" where
  "live_lease r now = (rc_status r = ''leased'' \<and>
     (case rc_lease_expires_at r of None \<Rightarrow> False | Some t \<Rightarrow> t > now))"

text \<open>The assignments that every claim makes; the callers add theirs.\<close>

definition claimed_row :: "recovery_row \<Rightarrow> string \<Rightarrow> string \<Rightarrow> time \<Rightarrow> time \<Rightarrow> recovery_row" where
  "claimed_row r owner token expires_at now =
     r\<lparr>rc_status := ''leased'', rc_lease_owner := Some owner, rc_lease_token := Some token,
       rc_lease_generation := rc_lease_generation r + 1, rc_lease_expires_at := Some expires_at,
       rc_attempt_count := rc_attempt_count r + 1, rc_updated_at := now\<rparr>"

definition lease_of :: "recovery_row \<Rightarrow> string \<Rightarrow> recovery_lease" where
  "lease_of r token = \<lparr>ls_item = item_of r, ls_token = token\<rparr>"

definition identity_conflict :: "op_row \<Rightarrow> int option \<Rightarrow> string option \<Rightarrow> bool" where
  "identity_conflict operation version checksum =
     ((case version of None \<Rightarrow> False | Some v \<Rightarrow> op_version operation \<noteq> v)
      \<or> (case checksum of None \<Rightarrow> False | Some c \<Rightarrow> op_last_event_checksum operation \<noteq> c))"

definition assert_operation_identity :: "db \<Rightarrow> string \<Rightarrow> int option \<Rightarrow> string option \<Rightarrow> unit result" where
  "assert_operation_identity d operation_id version checksum =
     (case find_operation d operation_id of
        None \<Rightarrow> Inl (RecoveryOperationConflict operation_id)
      | Some operation \<Rightarrow>
          raise_if (identity_conflict operation version checksum) (RecoveryOperationConflict operation_id))"

definition recovery_get :: "db \<Rightarrow> string \<Rightarrow> recovery_item option" where
  "recovery_get d operation_id = map_option item_of (find_recovery d operation_id)"

section \<open>Claims\<close>

definition new_recovery_row :: "recovery_spec \<Rightarrow> string \<Rightarrow> string \<Rightarrow> time \<Rightarrow> time \<Rightarrow> recovery_row" where
  "new_recovery_row sp owner token expires_at now =
     \<lparr>rc_operation_id = rs_operation_id sp, rc_recovery_kind = rs_recovery_kind sp,
      rc_status = ''leased'', rc_available_at = now, rc_lease_owner = Some owner,
      rc_lease_token = Some token, rc_lease_generation = 1, rc_lease_expires_at = Some expires_at,
      rc_attempt_count = 1, rc_last_error_code = None, rc_details = sanitized (rs_details sp),
      rc_created_at = now, rc_updated_at = now, rc_completed_at = None\<rparr>"

definition prepare_and_claim :: "db \<Rightarrow> time \<Rightarrow> string \<Rightarrow> recovery_spec \<Rightarrow> string \<Rightarrow> int \<Rightarrow> int option
    \<Rightarrow> string option \<Rightarrow> (db \<times> recovery_lease) result" where
  "prepare_and_claim d now token sp lease_owner lease_us version checksum =
     (let owner = py_strip lease_owner; expires_at = lease_end now lease_us; tok = lease_token_text token
      in ebind (raise_if (owner = []) (PyError ValueError)) (\<lambda>_.
         ebind (assert_operation_identity d (rs_operation_id sp) version checksum) (\<lambda>_.
         case find_recovery d (rs_operation_id sp) of
           None \<Rightarrow>
             (let row = new_recovery_row sp owner tok expires_at now
              in ebind (insert_recovery d row) (\<lambda>d'. Inr (d', lease_of row tok)))
         | Some r \<Rightarrow>
             ebind (raise_if (rc_recovery_kind r \<noteq> rs_recovery_kind sp) (PyError ValueError)) (\<lambda>_.
             ebind (raise_if (live_lease r now) (RecoveryLeaseBusy (rs_operation_id sp))) (\<lambda>_.
             ebind (raise_if (rc_status r = ''completed'') (RecoveryLeaseBusy (rs_operation_id sp))) (\<lambda>_.
               let row = (claimed_row r owner tok expires_at now)
                     \<lparr>rc_available_at := now, rc_details := dmerge (rc_details r) (sanitized (rs_details sp))\<rparr>
               in Inr (put_recovery row d, lease_of row tok)))))))"

definition claim_operation :: "db \<Rightarrow> time \<Rightarrow> string \<Rightarrow> string \<Rightarrow> string \<Rightarrow> int \<Rightarrow> int option
    \<Rightarrow> string option \<Rightarrow> (db \<times> recovery_lease) result" where
  "claim_operation d now token operation_id lease_owner lease_us version checksum =
     (let owner = py_strip lease_owner; oid = py_strip operation_id;
          expires_at = lease_end now lease_us; tok = lease_token_text token
      in ebind (raise_if (owner = []) (PyError ValueError)) (\<lambda>_.
         ebind (raise_if (oid = []) (PyError ValueError)) (\<lambda>_.
         case find_recovery d oid of
           None \<Rightarrow> Inl (RecoveryNotFound oid)
         | Some r \<Rightarrow>
             ebind (assert_operation_identity d oid version checksum) (\<lambda>_.
             ebind (raise_if (live_lease r now \<or> rc_status r = ''completed'') (RecoveryLeaseBusy oid)) (\<lambda>_.
               let row = (claimed_row r owner tok expires_at now)\<lparr>rc_available_at := now\<rparr>
               in Inr (put_recovery row d, lease_of row tok))))))"

definition due :: "time \<Rightarrow> recovery_row \<Rightarrow> bool" where
  "due now r = (rc_available_at r \<le> now \<and>
     (rc_status r \<in> {''pending'', ''retry_wait''} \<or>
      (rc_status r = ''leased'' \<and> (case rc_lease_expires_at r of None \<Rightarrow> False | Some t \<Rightarrow> t \<le> now))))"

definition due_rows :: "db \<Rightarrow> time \<Rightarrow> (string \<Rightarrow> bool) \<Rightarrow> int \<Rightarrow> recovery_row list" where
  "due_rows d now skip_locked limit =
     take (nat (max 1 (min limit 10)))
       (sort_key (\<lambda>r. (rc_available_at r, rc_operation_id r))
         (filter (\<lambda>r. due now r \<and> \<not> skip_locked (rc_operation_id r)) (db_recoveries d)))"

fun claim_rows :: "string \<Rightarrow> time \<Rightarrow> time \<Rightarrow> (string \<Rightarrow> string) \<Rightarrow> recovery_row list \<Rightarrow> db
    \<Rightarrow> db \<times> recovery_lease list" where
  "claim_rows owner expires_at now tokens [] d = (d, [])"
| "claim_rows owner expires_at now tokens (r # rs) d =
     (let tok = lease_token_text (tokens (rc_operation_id r));
          row = claimed_row r owner tok expires_at now;
          (d', ls) = claim_rows owner expires_at now tokens rs (put_recovery row d)
      in (d', lease_of row tok # ls))"

definition claim_due :: "db \<Rightarrow> time \<Rightarrow> (string \<Rightarrow> string) \<Rightarrow> (string \<Rightarrow> bool) \<Rightarrow> string \<Rightarrow> int \<Rightarrow> int
    \<Rightarrow> (db \<times> recovery_lease list) result" where
  "claim_due d now tokens skip_locked lease_owner lease_us limit =
     (let owner = py_strip lease_owner
      in ebind (raise_if (owner = []) (PyError ValueError)) (\<lambda>_.
           Inr (claim_rows owner (lease_end now lease_us) now tokens (due_rows d now skip_locked limit) d)))"

section \<open>Writes through a lease\<close>

definition lease_owns :: "recovery_row \<Rightarrow> recovery_lease \<Rightarrow> time \<Rightarrow> bool" where
  "lease_owns r lease now = (live_lease r now \<and> rc_lease_token r = Some (ls_token lease)
     \<and> rc_lease_generation r = lease_generation lease)"

definition owned_row :: "db \<Rightarrow> recovery_lease \<Rightarrow> time \<Rightarrow> recovery_row result" where
  "owned_row d lease now =
     (case find_recovery d (lease_operation_id lease) of
        None \<Rightarrow> Inl (RecoveryLeaseLost (lease_operation_id lease))
      | Some r \<Rightarrow>
          if rc_status r \<noteq> ''leased'' \<or> rc_lease_token r \<noteq> Some (ls_token lease)
             \<or> rc_lease_generation r \<noteq> lease_generation lease
             \<or> (case rc_lease_expires_at r of None \<Rightarrow> True | Some t \<Rightarrow> t \<le> now)
          then Inl (RecoveryLeaseLost (lease_operation_id lease))
          else Inr r)"

definition heartbeat :: "db \<Rightarrow> time \<Rightarrow> recovery_lease \<Rightarrow> int \<Rightarrow> (db \<times> recovery_lease) result" where
  "heartbeat d now lease lease_us =
     ebind (owned_row d lease now) (\<lambda>r.
       let row = r\<lparr>rc_lease_expires_at := Some (lease_end now lease_us), rc_updated_at := now\<rparr>
       in Inr (put_recovery row d, lease_of row (ls_token lease)))"

section \<open>The invariant of the recovery table\<close>

text \<open>
  \<open>recovery_ok\<close>: a row is leased exactly while it carries a token, a leased row has an
  expiry, every attempt has its own generation, and only a completed row has a completion
  time.
\<close>

definition recovery_ok :: "recovery_row \<Rightarrow> bool" where
  "recovery_ok r \<longleftrightarrow>
     rc_status r \<in> set RECOVERY_STATUSES \<and>
     (rc_status r = ''leased'' \<longleftrightarrow> rc_lease_token r \<noteq> None) \<and>
     (rc_status r = ''leased'' \<longrightarrow> rc_lease_expires_at r \<noteq> None \<and> rc_lease_owner r \<noteq> None) \<and>
     1 \<le> rc_lease_generation r \<and> rc_attempt_count r = rc_lease_generation r \<and>
     (rc_status r = ''completed'' \<longleftrightarrow> rc_completed_at r \<noteq> None)"

definition recovery_inv :: "db \<Rightarrow> bool" where
  "recovery_inv d \<longleftrightarrow> distinct (map rc_operation_id (db_recoveries d)) \<and>
     (\<forall>r \<in> set (db_recoveries d). recovery_ok r \<and> find_operation d (rc_operation_id r) \<noteq> None)"

lemma recovery_inv_empty: "recovery_inv empty_db"
  by (simp add: recovery_inv_def empty_db_def)

lemma claimed_row_simps [simp]:
  "rc_operation_id (claimed_row r w t e n) = rc_operation_id r"
  "rc_lease_generation (claimed_row r w t e n) = rc_lease_generation r + 1"
  "rc_status (claimed_row r w t e n) = ''leased''"
  "rc_lease_token (claimed_row r w t e n) = Some t"
  "rc_lease_expires_at (claimed_row r w t e n) = Some e"
  "rc_recovery_kind (claimed_row r w t e n) = rc_recovery_kind r"
  by (simp_all add: claimed_row_def)

lemma claimed_ok:
  "recovery_ok r \<Longrightarrow> rc_status r \<noteq> ''completed'' \<Longrightarrow> recovery_ok (claimed_row r w t e n)"
  by (auto simp: recovery_ok_def claimed_row_def RECOVERY_STATUSES_def)

lemma recovery_ok_times [simp]:
  "recovery_ok (r\<lparr>rc_available_at := t\<rparr>) = recovery_ok r"
  "recovery_ok (r\<lparr>rc_details := dd\<rparr>) = recovery_ok r"
  "recovery_ok (r\<lparr>rc_available_at := t, rc_details := dd\<rparr>) = recovery_ok r"
  by (simp_all add: recovery_ok_def)

lemma recovery_inv_put:
  assumes "recovery_inv d" "r \<in> set (db_recoveries d)" "rc_operation_id r' = rc_operation_id r" "recovery_ok r'"
  shows "recovery_inv (put_recovery r' d)"
  using assms set_row_mem [of _ rc_operation_id r' "db_recoveries d"]
  by (auto simp: recovery_inv_def) metis+

lemma recovery_inv_frame:
  assumes "recovery_inv d" "db_recoveries d' = db_recoveries d"
    and "\<And>i. find_operation d i \<noteq> None \<Longrightarrow> find_operation d' i \<noteq> None"
  shows "recovery_inv d'"
  using assms by (auto simp: recovery_inv_def)

lemma new_recovery_ok: "recovery_ok (new_recovery_row sp w t e now)"
  by (simp add: recovery_ok_def new_recovery_row_def RECOVERY_STATUSES_def)

lemma recovery_inv_insert:
  assumes "recovery_inv d" "insert_recovery d r = Inr d'" "recovery_ok r"
  shows "recovery_inv d'"
  using assms(1,3) insert_recoveryD [OF assms(2)]
  by (auto simp: recovery_inv_def row_of_None)

text \<open>What a successful claim has checked and written.\<close>

lemma prepare_and_claimD:
  assumes "prepare_and_claim d now t sp w us v c = Inr (d', l)"
  obtains (fresh) "find_recovery d (rs_operation_id sp) = None"
      "insert_recovery d (new_recovery_row sp (py_strip w) (lease_token_text t) (lease_end now us) now) = Inr d'"
      "l = lease_of (new_recovery_row sp (py_strip w) (lease_token_text t) (lease_end now us) now) (lease_token_text t)"
    | (claim) r r' where "find_recovery d (rs_operation_id sp) = Some r" "\<not> live_lease r now"
      "rc_status r \<noteq> ''completed''" "rc_recovery_kind r = rs_recovery_kind sp"
      "r' = (claimed_row r (py_strip w) (lease_token_text t) (lease_end now us) now)
           \<lparr>rc_available_at := now, rc_details := dmerge (rc_details r) (sanitized (rs_details sp))\<rparr>"
      "d' = put_recovery r' d" "l = lease_of r' (lease_token_text t)"
  using assms by (auto simp: prepare_and_claim_def Let_def split: option.splits)

lemma prepare_identity:
  "prepare_and_claim d now t sp w us v c = Inr (d', l) \<Longrightarrow>
     assert_operation_identity d (rs_operation_id sp) v c = Inr ()"
  by (auto simp: prepare_and_claim_def Let_def split: option.splits)

lemma claim_operationD:
  assumes "claim_operation d now t oid w us v c = Inr (d', l)"
  obtains r r' where "find_recovery d (py_strip oid) = Some r" "\<not> live_lease r now"
    "rc_status r \<noteq> ''completed''" "assert_operation_identity d (py_strip oid) v c = Inr ()"
    "r' = (claimed_row r (py_strip w) (lease_token_text t) (lease_end now us) now)\<lparr>rc_available_at := now\<rparr>"
    "d' = put_recovery r' d" "l = lease_of r' (lease_token_text t)"
  using assms by (auto simp: claim_operation_def Let_def split: option.splits)

lemma prepare_and_claim_inv [inv_intros]:
  assumes "recovery_inv d" "prepare_and_claim d now t sp w us v c = Inr (d', l)"
  shows "recovery_inv d'"
  using assms(2)
proof (cases rule: prepare_and_claimD)
  case fresh
  then show ?thesis using assms(1) recovery_inv_insert new_recovery_ok by blast
next
  case (claim r r')
  with assms(1) have "r \<in> set (db_recoveries d)" "recovery_ok r"
    by (auto simp: recovery_inv_def dest: row_of_Some)
  with claim assms(1) show ?thesis
    by (auto intro!: recovery_inv_put claimed_ok)
qed

lemma claim_operation_inv [inv_intros]:
  assumes "recovery_inv d" "claim_operation d now t oid w us v c = Inr (d', l)"
  shows "recovery_inv d'"
  using assms(2)
proof (cases rule: claim_operationD)
  case (1 r r')
  with assms(1) have "r \<in> set (db_recoveries d)" "recovery_ok r"
    by (auto simp: recovery_inv_def dest: row_of_Some)
  with 1 assms(1) show ?thesis
    by (auto intro!: recovery_inv_put claimed_ok)
qed

subsection \<open>Due claims\<close>

lemma due_rows_mem: "r \<in> set (due_rows d now sk limit) \<Longrightarrow> r \<in> set (db_recoveries d) \<and> due now r"
  by (auto simp: due_rows_def dest: in_set_takeD)

lemma due_not_live: "due now r \<Longrightarrow> \<not> live_lease r now \<and> rc_status r \<noteq> ''completed''"
  by (auto simp: due_def live_lease_def split: option.splits)

lemma due_rows_length: "length (due_rows d now sk limit) \<le> 10"
  by (simp add: due_rows_def)

lemma due_rows_distinct:
  assumes "recovery_inv d"
  shows "distinct (map rc_operation_id (due_rows d now sk limit))"
proof -
  let ?rs = "sort_key (\<lambda>r. (rc_available_at r, rc_operation_id r))
    (filter (\<lambda>r. due now r \<and> \<not> sk (rc_operation_id r)) (db_recoveries d))"
  have "distinct (map rc_operation_id (filter (\<lambda>r. due now r \<and> \<not> sk (rc_operation_id r)) (db_recoveries d)))"
    using assms by (auto simp: recovery_inv_def intro: distinct_map_filter)
  then have "distinct (map rc_operation_id ?rs)"
    by (simp add: distinct_map)
  then show ?thesis unfolding due_rows_def take_map [symmetric] by (rule distinct_take)
qed

lemma claim_rows_inv:
  assumes "recovery_inv d" "\<And>r. r \<in> set rs \<Longrightarrow> r \<in> set (db_recoveries d) \<and> rc_status r \<noteq> ''completed''"
    and "distinct (map rc_operation_id rs)"
  shows "recovery_inv (fst (claim_rows w e now tk rs d))"
  using assms
proof (induction rs arbitrary: d)
  case Nil
  then show ?case by simp
next
  case (Cons r rs)
  define row where "row = claimed_row r w (lease_token_text (tk (rc_operation_id r))) e now"
  from Cons.prems have "recovery_ok r" by (auto simp: recovery_inv_def)
  with Cons.prems have inv: "recovery_inv (put_recovery row d)"
    by (auto simp: row_def intro!: recovery_inv_put claimed_ok)
  have "r' \<in> set (db_recoveries (put_recovery row d))" if "r' \<in> set rs" for r'
  proof -
    from imageI [OF that, of rc_operation_id] Cons.prems(3) have "rc_operation_id r' \<noteq> rc_operation_id row"
      by (auto simp: row_def)
    with that Cons.prems(2) show ?thesis by (force simp: set_row_def)
  qed
  with Cons inv show ?case
    by (auto simp: row_def Let_def case_prod_beta)
qed

lemma claim_due_inv [inv_intros]:
  assumes "recovery_inv d" "claim_due d now tk sk w us limit = Inr (d', ls)"
  shows "recovery_inv d'"
proof -
  from assms(2) have "d' = fst (claim_rows (py_strip w) (lease_end now us) now tk (due_rows d now sk limit) d)"
    by (auto simp: claim_due_def Let_def)
  then show ?thesis
    using claim_rows_inv [OF assms(1), of "due_rows d now sk limit"] due_rows_mem due_not_live
      due_rows_distinct [OF assms(1)] by metis
qed

subsection \<open>Writes through a lease\<close>

lemma owned_row_Inr:
  "owned_row d lease now = Inr r \<longleftrightarrow>
     find_recovery d (lease_operation_id lease) = Some r \<and> lease_owns r lease now"
  by (auto simp: owned_row_def lease_owns_def live_lease_def split: option.splits)

lemma owned_row_Inl: "owned_row d lease now = Inl e \<Longrightarrow> e = RecoveryLeaseLost (lease_operation_id lease)"
  by (auto simp: owned_row_def split: option.splits if_splits)

lemma heartbeat_inv [inv_intros]:
  assumes "recovery_inv d" "heartbeat d now lease us = Inr (d', l)"
  shows "recovery_inv d'"
proof -
  from assms(2) obtain r where r: "find_recovery d (lease_operation_id lease) = Some r" "lease_owns r lease now"
    and d': "d' = put_recovery (r\<lparr>rc_lease_expires_at := Some (lease_end now us), rc_updated_at := now\<rparr>) d"
    by (auto simp: heartbeat_def Let_def owned_row_Inr)
  from r(1) assms(1) have mem: "r \<in> set (db_recoveries d)" and ok: "recovery_ok r"
    by (auto simp: recovery_inv_def dest: row_of_Some)
  from ok have "recovery_ok (r\<lparr>rc_lease_expires_at := Some (lease_end now us), rc_updated_at := now\<rparr>)"
    by (simp add: recovery_ok_def)
  then show ?thesis unfolding d' by (intro recovery_inv_put [OF assms(1) mem]) simp_all
qed

subsection \<open>Generations only grow\<close>

text \<open>
  \<open>recovery_le d d'\<close>: no row disappears, no generation decreases, and a completed row stays
  as it is. Every transaction of the store moves up in this order, so a lease whose
  generation has been passed never owns its row again.
\<close>

definition recovery_le :: "db \<Rightarrow> db \<Rightarrow> bool" where
  "recovery_le d d' \<longleftrightarrow> (\<forall>i r. find_recovery d i = Some r \<longrightarrow>
     (\<exists>r'. find_recovery d' i = Some r' \<and> rc_lease_generation r \<le> rc_lease_generation r' \<and>
        (rc_status r = ''completed'' \<longrightarrow> r' = r)))"

lemma recovery_le_refl [simp]: "recovery_le d d"
  by (simp add: recovery_le_def)

lemma recovery_le_same: "db_recoveries d' = db_recoveries d \<Longrightarrow> recovery_le d d'"
  by (simp add: recovery_le_def)

lemma recovery_leE:
  assumes "recovery_le d d'" "find_recovery d i = Some r"
  obtains r' where "find_recovery d' i = Some r'" "rc_lease_generation r \<le> rc_lease_generation r'"
    "rc_status r = ''completed'' \<longrightarrow> r' = r"
  using assms by (auto simp: recovery_le_def)

lemma recovery_le_trans:
  assumes "recovery_le d d'" "recovery_le d' d''"
  shows "recovery_le d d''"
  unfolding recovery_le_def
proof (intro allI impI)
  fix i r assume "find_recovery d i = Some r"
  with assms(1) obtain r' where r': "find_recovery d' i = Some r'"
    "rc_lease_generation r \<le> rc_lease_generation r'" "rc_status r = ''completed'' \<longrightarrow> r' = r"
    by (rule recovery_leE)
  from assms(2) r'(1) obtain r'' where r'': "find_recovery d'' i = Some r''"
    "rc_lease_generation r' \<le> rc_lease_generation r''" "rc_status r' = ''completed'' \<longrightarrow> r'' = r'"
    by (rule recovery_leE)
  have "rc_lease_generation r \<le> rc_lease_generation r''" using r'(2) r''(2) by simp
  moreover have "rc_status r = ''completed'' \<longrightarrow> r'' = r" using r'(3) r''(3) by auto
  ultimately show "\<exists>r''. find_recovery d'' i = Some r'' \<and> rc_lease_generation r \<le> rc_lease_generation r'' \<and>
      (rc_status r = ''completed'' \<longrightarrow> r'' = r)" using r''(1) by blast
qed

lemma recovery_le_put:
  assumes "find_recovery d (rc_operation_id r') = Some r" "rc_lease_generation r \<le> rc_lease_generation r'"
    and "rc_status r \<noteq> ''completed''"
  shows "recovery_le d (put_recovery r' d)"
  using assms by (auto simp: recovery_le_def row_simps)

lemma recovery_le_insert: "insert_recovery d r = Inr d' \<Longrightarrow> recovery_le d d'"
  by (auto simp: recovery_le_def row_simps dest!: insert_recoveryD)

lemma prepare_and_claim_le:
  assumes "prepare_and_claim d now t sp w us v c = Inr (d', l)"
  shows "recovery_le d d'"
  using assms
proof (cases rule: prepare_and_claimD)
  case fresh
  then show ?thesis by (blast intro: recovery_le_insert)
next
  case (claim r r')
  then show ?thesis using row_of_Some [OF claim(1)] by (auto intro: recovery_le_put [of _ _ r])
qed

lemma claim_operation_le:
  assumes "claim_operation d now t oid w us v c = Inr (d', l)"
  shows "recovery_le d d'"
  using assms
proof (cases rule: claim_operationD)
  case (1 r r')
  then show ?thesis using row_of_Some [OF 1(1)] by (auto intro: recovery_le_put [of _ _ r])
qed

lemma claim_rows_le:
  assumes "distinct (map rc_operation_id rs)"
    and "\<And>r. r \<in> set rs \<Longrightarrow> find_recovery d (rc_operation_id r) = Some r \<and> rc_status r \<noteq> ''completed''"
  shows "recovery_le d (fst (claim_rows w e now tk rs d))"
  using assms
proof (induction rs arbitrary: d)
  case Nil
  then show ?case by simp
next
  case (Cons r rs)
  define row where "row = claimed_row r w (lease_token_text (tk (rc_operation_id r))) e now"
  have id: "rc_operation_id row = rc_operation_id r" by (simp add: row_def)
  have "recovery_le d (put_recovery row d)"
    using Cons.prems(2) [of r] by (intro recovery_le_put [of _ _ r]) (simp_all add: row_def)
  moreover have "find_recovery (put_recovery row d) (rc_operation_id r') = Some r' \<and> rc_status r' \<noteq> ''completed''"
    if "r' \<in> set rs" for r'
    using Cons.prems(1) Cons.prems(2) [of r'] that id by (auto simp: row_simps)
  ultimately have "recovery_le d (fst (claim_rows w e now tk rs (put_recovery row d)))"
    using Cons.IH [of "put_recovery row d"] Cons.prems(1) by (auto intro: recovery_le_trans)
  then show ?case by (simp add: row_def Let_def case_prod_beta)
qed

lemma claim_due_le:
  assumes "recovery_inv d" "claim_due d now tk sk w us limit = Inr (d', ls)"
  shows "recovery_le d d'"
proof -
  from assms(2) have d': "d' = fst (claim_rows (py_strip w) (lease_end now us) now tk (due_rows d now sk limit) d)"
    by (auto simp: claim_due_def Let_def)
  have "find_recovery d (rc_operation_id r) = Some r" if "r \<in> set (due_rows d now sk limit)" for r
    using due_rows_mem [OF that] assms(1) by (auto simp: recovery_inv_def intro: distinct_row_of)
  then show ?thesis unfolding d'
    using due_rows_mem due_not_live due_rows_distinct [OF assms(1)] by (intro claim_rows_le) blast+
qed

lemma heartbeat_le:
  assumes "heartbeat d now lease us = Inr (d', l)"
  shows "recovery_le d d'"
proof -
  from assms obtain r where r: "find_recovery d (lease_operation_id lease) = Some r" "lease_owns r lease now"
    and d': "d' = put_recovery (r\<lparr>rc_lease_expires_at := Some (lease_end now us), rc_updated_at := now\<rparr>) d"
    by (auto simp: heartbeat_def Let_def owned_row_Inr)
  from r row_of_Some [OF r(1)] show ?thesis
    by (auto simp: d' lease_owns_def live_lease_def intro!: recovery_le_put [of _ _ r])
qed

text \<open>A lease that a later claim has overtaken stays lost.\<close>

definition overtaken :: "db \<Rightarrow> recovery_lease \<Rightarrow> bool" where
  "overtaken d lease \<longleftrightarrow> (\<exists>r. find_recovery d (lease_operation_id lease) = Some r \<and>
     (lease_generation lease < rc_lease_generation r \<or> rc_status r = ''completed''))"

lemma overtaken_stable:
  assumes "recovery_le d d'" "overtaken d lease"
  shows "overtaken d' lease"
proof -
  from assms(2) obtain r where r: "find_recovery d (lease_operation_id lease) = Some r"
    "lease_generation lease < rc_lease_generation r \<or> rc_status r = ''completed''"
    by (auto simp: overtaken_def)
  from assms(1) r(1) obtain r' where "find_recovery d' (lease_operation_id lease) = Some r'"
    "rc_lease_generation r \<le> rc_lease_generation r'" "rc_status r = ''completed'' \<longrightarrow> r' = r"
    by (rule recovery_leE)
  with r(2) show ?thesis unfolding overtaken_def by fastforce
qed

lemma overtaken_lost: "overtaken d lease \<Longrightarrow> owned_row d lease now = Inl (RecoveryLeaseLost (lease_operation_id lease))"
  by (auto simp: overtaken_def owned_row_def)

section \<open>What a claim of due work does\<close>

text \<open>The rows that a claim takes are leased to the worker, one after the other.\<close>

lemma claim_rows_result:
  assumes "distinct (map rc_operation_id rs)"
    and "\<And>r. r \<in> set rs \<Longrightarrow> find_recovery d (rc_operation_id r) = Some r"
  shows "snd (claim_rows w e now tk rs d) = map (\<lambda>r. let tok = lease_token_text (tk (rc_operation_id r))
        in lease_of (claimed_row r w tok e now) tok) rs \<and>
    (\<forall>r \<in> set rs. find_recovery (fst (claim_rows w e now tk rs d)) (rc_operation_id r) =
       Some (claimed_row r w (lease_token_text (tk (rc_operation_id r))) e now)) \<and>
    (\<forall>i. i \<notin> rc_operation_id ` set rs \<longrightarrow> find_recovery (fst (claim_rows w e now tk rs d)) i = find_recovery d i)"
  using assms
proof (induction rs arbitrary: d)
  case Nil
  then show ?case by simp
next
  case (Cons r rs)
  define row where "row = claimed_row r w (lease_token_text (tk (rc_operation_id r))) e now"
  let ?d = "put_recovery row d"
  have id: "rc_operation_id row = rc_operation_id r" by (simp add: row_def)
  have run: "claim_rows w e now tk (r # rs) d = (fst (claim_rows w e now tk rs ?d),
      lease_of row (lease_token_text (tk (rc_operation_id r))) # snd (claim_rows w e now tk rs ?d))"
    by (simp add: row_def Let_def case_prod_beta)
  have here: "find_recovery d (rc_operation_id r) = Some r" and new: "rc_operation_id r \<notin> rc_operation_id ` set rs"
    and dist: "distinct (map rc_operation_id rs)"
    using Cons.prems by auto
  have rest: "find_recovery ?d (rc_operation_id q) = Some q" if "q \<in> set rs" for q
    using Cons.prems(2) [of q] that new here by (auto simp: row_simps id)
  have "find_recovery ?d (rc_operation_id r) = Some row" using here by (simp add: row_simps id)
  moreover have "find_recovery ?d i = find_recovery d i" if "i \<noteq> rc_operation_id r" for i
    using that by (simp add: row_simps id)
  ultimately show ?case
    using Cons.IH [OF dist rest] new unfolding run fst_conv snd_conv row_def [symmetric] by (simp add: Let_def row_def [symmetric])
qed

text \<open>
  \<open>claimed_by\<close>: the item of the lease was due, free and not locked by another transaction, and
  in the database after the claim it is leased to the worker in a new generation.
\<close>

definition claimed_by :: "db \<Rightarrow> db \<Rightarrow> time \<Rightarrow> (string \<Rightarrow> bool) \<Rightarrow> string \<Rightarrow> recovery_lease \<Rightarrow> bool" where
  "claimed_by d d' now skip_locked worker l \<longleftrightarrow> (\<exists>r r'.
     find_recovery d (lease_operation_id l) = Some r \<and> due now r \<and> \<not> skip_locked (lease_operation_id l) \<and>
     \<not> live_lease r now \<and> rc_status r \<noteq> ''completed'' \<and>
     find_recovery d' (lease_operation_id l) = Some r' \<and> lease_owns r' l now \<and>
     rc_lease_owner r' = Some (py_strip worker) \<and> rc_lease_generation r' = rc_lease_generation r + 1)"

lemma claimed_row_owned:
  assumes "l = lease_of (claimed_row r w t (lease_end now us) now) t"
  shows "lease_owns (claimed_row r w t (lease_end now us) now) l now" "lease_operation_id l = rc_operation_id r"
    "rc_lease_owner (claimed_row r w t (lease_end now us) now) = Some w"
  using assms by (simp_all add: lease_owns_def live_lease_def lease_end_def lease_generation_def lease_operation_id_def
      lease_of_def item_of_def claimed_row_def)

lemma due_rows_unlocked: "r \<in> set (due_rows d now sk limit) \<Longrightarrow> \<not> sk (rc_operation_id r)"
  by (auto simp: due_rows_def dest: in_set_takeD)

lemma claim_due_result:
  assumes "recovery_inv d" "claim_due d now tk sk w us limit = Inr (d', ls)"
  shows "length ls = min (nat (max 1 (min limit 10)))
      (length (filter (\<lambda>r. due now r \<and> \<not> sk (rc_operation_id r)) (db_recoveries d)))"
    "distinct (map lease_operation_id ls)" "\<forall>l \<in> set ls. claimed_by d d' now sk w l"
    "\<forall>i. i \<notin> lease_operation_id ` set ls \<longrightarrow> find_recovery d' i = find_recovery d i"
proof -
  let ?rs = "due_rows d now sk limit"
  let ?run = "claim_rows (py_strip w) (lease_end now us) now tk ?rs d"
  have run: "d' = fst ?run" "ls = snd ?run" using assms(2) by (auto simp: claim_due_def Let_def)
  have mem: "find_recovery d (rc_operation_id r) = Some r" if "r \<in> set ?rs" for r
    using due_rows_mem [OF that] assms(1) by (auto simp: recovery_inv_def intro: distinct_row_of)
  have result: "ls = map (\<lambda>r. let tok = lease_token_text (tk (rc_operation_id r))
        in lease_of (claimed_row r (py_strip w) tok (lease_end now us) now) tok) ?rs"
      "\<forall>r \<in> set ?rs. find_recovery d' (rc_operation_id r) =
         Some (claimed_row r (py_strip w) (lease_token_text (tk (rc_operation_id r))) (lease_end now us) now)"
      "\<forall>i. i \<notin> rc_operation_id ` set ?rs \<longrightarrow> find_recovery d' i = find_recovery d i"
    using claim_rows_result [of ?rs d "py_strip w" "lease_end now us" now tk, OF due_rows_distinct [OF assms(1)] mem] run by blast+
  define lease where "lease r = lease_of (claimed_row r (py_strip w) (lease_token_text (tk (rc_operation_id r))) (lease_end now us) now)
    (lease_token_text (tk (rc_operation_id r)))" for r
  have ls: "ls = map lease ?rs" using result(1) by (simp add: lease_def Let_def)
  have id: "lease_operation_id (lease r) = rc_operation_id r" for r
    by (rule claimed_row_owned(2)) (simp add: lease_def)
  then have ids: "map lease_operation_id ls = map rc_operation_id ?rs" by (simp add: ls)
  show "length ls = min (nat (max 1 (min limit 10)))
      (length (filter (\<lambda>r. due now r \<and> \<not> sk (rc_operation_id r)) (db_recoveries d)))"
    by (simp add: ls due_rows_def min.commute)
  show "distinct (map lease_operation_id ls)" unfolding ids by (rule due_rows_distinct [OF assms(1)])
  have set_ids: "lease_operation_id ` set ls = rc_operation_id ` set ?rs" using arg_cong [OF ids, of set] by simp
  show "\<forall>i. i \<notin> lease_operation_id ` set ls \<longrightarrow> find_recovery d' i = find_recovery d i"
    using result(3) unfolding set_ids .
  show "\<forall>l \<in> set ls. claimed_by d d' now sk w l"
  proof
    fix l assume "l \<in> set ls"
    then obtain r where r: "r \<in> set ?rs" "l = lease r" by (auto simp: ls)
    from due_rows_mem [OF r(1)] due_not_live have due: "due now r" "\<not> live_lease r now" "rc_status r \<noteq> ''completed''" by auto
    let ?row = "claimed_row r (py_strip w) (lease_token_text (tk (rc_operation_id r))) (lease_end now us) now"
    have "find_recovery d' (rc_operation_id r) = Some ?row" using result(2) r(1) by simp
    moreover have "lease_owns ?row l now" "rc_lease_owner ?row = Some (py_strip w)"
      by (rule claimed_row_owned; simp add: r(2) lease_def)+
    ultimately show "claimed_by d d' now sk w l"
      unfolding claimed_by_def using due mem [OF r(1)] due_rows_unlocked [OF r(1)] by (simp add: r(2) id)
  qed
qed

end
