(* ===== verification/RecoveryCommit.thy ===== *)
theory RecoveryCommit
  imports RecoveryStore
begin

text \<open>
  \<open>SqlAlchemyRecoveryStore.commit_observation\<close> of
  \<open>app/operations/recovery/infrastructure/repository.py\<close> with its helpers: the fenced transaction
  that appends to the operation log, settles the recovery item and releases or holds the bound
  target locks. The projector is an argument that may read the database; the job tables that
  it writes are not part of the model.
\<close>

section \<open>The locks an operation is bound to\<close>

definition host_lock :: "db \<Rightarrow> op_row \<Rightarrow> pydict \<Rightarrow> lock_row option" where
  "host_lock d operation binding =
     find (\<lambda>r. PStr (lk_operation_lock_id r) = dget binding ''target_lock_id''
        \<and> lk_owner_id r = Some (op_operation_id operation)
        \<and> lk_operation_type r = op_operation_type operation
        \<and> lk_scope_type r = ''proxmox_configuration''
        \<and> PStr (lk_scope_key r) = dget binding ''scope_key''
        \<and> PStr (lk_cluster_id r) = dget binding ''cluster_id''
        \<and> lk_vmid r = None \<and> lock_open r) (db_locks d)"

definition host_evidence :: "op_row \<Rightarrow> pydict \<Rightarrow> pydict" where
  "host_evidence operation binding =
     [(''operation_id'', PStr (op_operation_id operation)), (''target_type'', PStr (op_target_type operation)),
      (''target_id'', PStr (op_target_id operation)), (''target'', dget binding ''target'')]"

definition vm_lock :: "db \<Rightarrow> op_row \<Rightarrow> string \<Rightarrow> lock_ref \<Rightarrow> lock_row option" where
  "vm_lock d operation cluster_id reference =
     find (\<lambda>r. lk_owner_id r = Some (op_operation_id operation)
        \<and> lk_operation_type r = op_operation_type operation
        \<and> lk_scope_type r = ''proxmox_locator''
        \<and> lk_vmid r = Some (lr_vmid reference) \<and> lock_open r
        \<and> lk_operation_lock_id r = lr_lock_id reference
        \<and> lk_cluster_id r = cluster_id) (db_locks d)"

fun all_found :: "'a option list \<Rightarrow> 'a list" where
  "all_found [] = []"
| "all_found (x # xs) =
     (case x of None \<Rightarrow> [] | Some v \<Rightarrow> if xs \<noteq> [] \<and> all_found xs = [] then [] else v # all_found xs)"

definition exact_target_locks :: "sha \<Rightarrow> db \<Rightarrow> op_row \<Rightarrow> pydict \<Rightarrow> lock_row list" where
  "exact_target_locks sha d operation recovery_details =
     (if op_operation_type operation \<in> set HOST_OPERATION_TYPES
      then (case lock_binding sha (op_operation_type operation) (op_target_type operation)
                   (op_target_id operation) (op_details operation) recovery_details of
              None \<Rightarrow> []
            | Some binding \<Rightarrow>
                if PStr (op_execution_mode operation) \<noteq> dget binding ''execution_mode'' then []
                else (case host_lock d operation binding of
                        None \<Rightarrow> []
                      | Some r \<Rightarrow>
                          if list_ex (\<lambda>(k, v). \<not> py_eq (dget (lk_evidence r) k) v) (host_evidence operation binding)
                          then [] else [r]))
      else if op_target_type operation \<noteq> ''proxmox_vm'' then []
      else (let references = lock_references (op_operation_type operation) (op_target_id operation)
                  (op_details operation) recovery_details;
                cluster_id = stripped_text (dget recovery_details ''cluster_id'')
            in if references = [] \<or> cluster_id = [] then []
               else all_found (map (vm_lock d operation cluster_id) (sort_key lr_vmid references))))"

section \<open>Binding a lock before dispatch\<close>

definition dict_or_empty :: "pyval \<Rightarrow> pydict" where
  "dict_or_empty v = (case v of PDict d \<Rightarrow> d | _ \<Rightarrow> [])"

definition durable_vmid :: "pydict \<Rightarrow> int" where
  "durable_vmid durable = (case py_int (py_or (dget durable ''vmid'') (PInt 0)) of Inr i \<Rightarrow> i | Inl _ \<Rightarrow> 0)"

definition exact_projection :: "op_row \<Rightarrow> pydict \<Rightarrow> string \<Rightarrow> string \<Rightarrow> bool" where
  "exact_projection operation binding lock_id cluster_id =
     (let durable = dict_or_empty (dget binding ''durable'')
      in case fullmatch VMID_TEXT (op_target_id operation) of
           Some [ds] \<Rightarrow>
             text_or_empty (dget binding ''target_type'') = op_target_type operation
             \<and> text_or_empty (dget binding ''target_id'') = op_target_id operation
             \<and> text_or_empty (dget binding ''owner_id'') = op_operation_id operation
             \<and> text_or_empty (dget durable ''operation_lock_id'') = lock_id
             \<and> text_or_empty (dget durable ''cluster_id'') = cluster_id
             \<and> text_or_empty (dget durable ''owner_id'') = op_operation_id operation
             \<and> text_or_empty (dget durable ''operation_type'') = op_operation_type operation
             \<and> text_or_empty (dget durable ''scope_type'') = ''proxmox_locator''
             \<and> durable_vmid durable = int (nat_of_digits ds)
         | _ \<Rightarrow> False)"

definition assert_binding_checkpoint :: "op_row \<Rightarrow> pydict \<Rightarrow> pydict \<Rightarrow> pydict \<Rightarrow> lock_row list
    \<Rightarrow> unit result" where
  "assert_binding_checkpoint operation current_details effective_details operation_patch locks =
     (let lock_id = stripped_text (dget effective_details ''target_lock_id'');
          cluster_id = stripped_text (dget effective_details ''cluster_id'');
          current_lock_id = stripped_text (dget current_details ''target_lock_id'');
          current_cluster_id = stripped_text (dget current_details ''cluster_id'');
          binding = dict_or_empty (dget operation_patch ''target_operation_lock'');
          recorded = dict_or_empty (dget (op_details operation) ''target_operation_lock'');
          recorded_durable = dict_or_empty (dget recorded ''durable'');
          recorded_lock_id = py_strip (py_str (py_or (py_or (dget recorded_durable ''operation_lock_id'')
            (dget recorded ''lock_id'')) (PStr [])));
          recorded_cluster_id = stripped_text (dget recorded_durable ''cluster_id'')
      in ebind (raise_if (lock_id = [] \<or> cluster_id = []
            \<or> current_lock_id \<notin> {[], lock_id} \<or> current_cluster_id \<notin> {[], cluster_id}
            \<or> length locks \<noteq> 1 \<or> lk_status (hd locks) \<noteq> ''active'') (PyError ValueError)) (\<lambda>_.
         raise_if (\<not> exact_projection operation binding lock_id cluster_id
            \<or> recorded_lock_id \<notin> {[], lock_id} \<or> recorded_cluster_id \<notin> {[], cluster_id})
           (PyError ValueError)))"

section \<open>The commit\<close>

record projection =
  pj_event_payload :: pydict
  pj_operation_details :: pydict
  pj_recovery_details :: pydict

definition no_projection :: projection where
  "no_projection = \<lparr>pj_event_payload = [], pj_operation_details = [], pj_recovery_details = []\<rparr>"

record commit_request =
  cq_event_type :: string
  cq_stage :: string
  cq_payload :: pydict
  cq_details_patch :: pydict
  cq_next_status :: "string option"
  cq_expected_statuses :: "string list option"
  cq_actor :: "operation_actor option"
  cq_recovery_status :: string
  cq_retry_delay :: int
  cq_error_code :: "string option"
  cq_recovery_details_patch :: pydict
  cq_release_target_lock :: bool
  cq_require_exact_lock :: bool
  cq_bind_target_lock :: bool
  cq_expected_version :: "int option"
  cq_expected_checksum :: "string option"
  cq_projector :: "(db \<Rightarrow> projection result) option"

text \<open>The keyword defaults of the source.\<close>

definition commit_defaults :: "string \<Rightarrow> string \<Rightarrow> string \<Rightarrow> commit_request" where
  "commit_defaults event_type stage recovery_status =
     \<lparr>cq_event_type = event_type, cq_stage = stage, cq_payload = [], cq_details_patch = [],
      cq_next_status = None, cq_expected_statuses = None, cq_actor = None,
      cq_recovery_status = recovery_status, cq_retry_delay = 0, cq_error_code = None,
      cq_recovery_details_patch = [], cq_release_target_lock = False, cq_require_exact_lock = True,
      cq_bind_target_lock = False, cq_expected_version = None, cq_expected_checksum = None,
      cq_projector = None\<rparr>"

definition is_host :: "op_row \<Rightarrow> bool" where
  "is_host operation = (op_operation_type operation \<in> set HOST_OPERATION_TYPES)"

definition effective_details :: "recovery_row \<Rightarrow> commit_request \<Rightarrow> pydict" where
  "effective_details row q =
     (if cq_bind_target_lock q then dmerge (rc_details row) (sanitized (cq_recovery_details_patch q))
      else rc_details row)"

definition commit_locks :: "sha \<Rightarrow> db \<Rightarrow> recovery_row \<Rightarrow> op_row \<Rightarrow> commit_request \<Rightarrow> lock_row list" where
  "commit_locks sha d row operation q =
     (if is_host operation \<and> rc_recovery_kind row \<noteq> op_operation_type operation @ ''_observation'' then []
      else exact_target_locks sha d operation (effective_details row q))"

text \<open>The guards on the number of locks, in the order of the source.\<close>

definition lock_guards :: "op_row \<Rightarrow> commit_request \<Rightarrow> lock_row list \<Rightarrow> unit result" where
  "lock_guards operation q locks =
     (let required = expected_lock_count (op_operation_type operation)
      in ebind (raise_if (cq_projector q \<noteq> None \<and> length locks \<noteq> 1) (PyError ValueError)) (\<lambda>_.
         ebind (raise_if ((required = 2 \<or> is_host operation) \<and> length locks \<noteq> required
              \<and> \<not> (cq_recovery_status q = ''paused'' \<and> cq_next_status q = None \<and> \<not> cq_release_target_lock q))
             (RecoveryOperationConflict (op_operation_id operation))) (\<lambda>_.
         ebind (raise_if (cq_release_target_lock q \<and> length locks \<noteq> required) (PyError ValueError)) (\<lambda>_.
           raise_if (cq_next_status q = Some ''needs_reconciliation''
              \<and> (length locks > required \<or> (cq_require_exact_lock q \<and> length locks \<noteq> required)))
             (PyError ValueError)))))"

definition settled_recovery :: "recovery_row \<Rightarrow> commit_request \<Rightarrow> projection \<Rightarrow> time \<Rightarrow> recovery_row" where
  "settled_recovery row q pj now =
     (let r = row\<lparr>rc_status := cq_recovery_status q,
                rc_available_at := now + max (cq_retry_delay q) 0,
                rc_last_error_code := (case cq_error_code q of None \<Rightarrow> None
                  | Some e \<Rightarrow> if e = [] then None else Some (take 120 (py_strip e))),
                rc_details := dmerge (dmerge (rc_details row) (sanitized (cq_recovery_details_patch q)))
                  (sanitized (pj_recovery_details pj)),
                rc_updated_at := now,
                rc_completed_at := (if cq_recovery_status q = ''completed'' then Some now else None)\<rparr>
      in if cq_recovery_status q = ''leased'' then r
         else r\<lparr>rc_lease_owner := None, rc_lease_token := None, rc_lease_expires_at := None\<rparr>)"

definition lock_evidence_patch :: "string \<Rightarrow> commit_request \<Rightarrow> pydict" where
  "lock_evidence_patch operation_id q =
     [(''recovery_operation_id'', PStr operation_id), (''recovery_event_type'', PStr (cq_event_type q))]"

definition settled_lock :: "string \<Rightarrow> commit_request \<Rightarrow> time \<Rightarrow> lock_row \<Rightarrow> lock_row" where
  "settled_lock operation_id q now l =
     (if cq_release_target_lock q
      then l\<lparr>lk_status := ''released'', lk_reason := ''verified_recovery_completed'',
             lk_evidence := dmerge (lk_evidence l) (lock_evidence_patch operation_id q),
             lk_released_at := Some now, lk_updated_at := now\<rparr>
      else if cq_next_status q = Some ''needs_reconciliation''
      then l\<lparr>lk_status := ''reconciliation_required'', lk_reason := ''recovery_result_requires_reconciliation'',
             lk_evidence := dmerge (lk_evidence l) (lock_evidence_patch operation_id q),
             lk_updated_at := now\<rparr>
      else l)"

definition commit_append :: "commit_request \<Rightarrow> projection \<Rightarrow> append_request" where
  "commit_append q pj =
     \<lparr>aq_next_status = cq_next_status q, aq_event_type = cq_event_type q, aq_stage = cq_stage q,
      aq_payload = dmerge (sanitized (cq_payload q)) (sanitized (pj_event_payload pj)),
      aq_details_patch = dmerge (sanitized (cq_details_patch q)) (sanitized (pj_operation_details pj)),
      aq_actor = cq_actor q, aq_expected_statuses = cq_expected_statuses q,
      aq_is_transition = (cq_next_status q \<noteq> None)\<rparr>"

text \<open>The checks before the projector runs; they yield the owned row, the operation, the locks.\<close>

definition commit_checks :: "sha \<Rightarrow> db \<Rightarrow> time \<Rightarrow> recovery_lease \<Rightarrow> commit_request
    \<Rightarrow> (recovery_row \<times> op_row \<times> lock_row list) result" where
  "commit_checks sha d now lease q =
     (let oid = lease_operation_id lease
      in ebind (raise_if (cq_recovery_status q \<notin> set RECOVERY_STATUSES) (PyError ValueError)) (\<lambda>_.
         ebind (owned_row d lease now) (\<lambda>row.
         case find_operation d oid of
           None \<Rightarrow> Inl (RecoveryOperationConflict oid)
         | Some operation \<Rightarrow>
             ebind (raise_if (identity_conflict operation (cq_expected_version q) (cq_expected_checksum q))
                 (RecoveryOperationConflict oid)) (\<lambda>_.
             ebind (raise_if (case cq_expected_statuses q of None \<Rightarrow> False
                      | Some ss \<Rightarrow> op_status operation \<notin> set ss)
                 (OperationStateConflict oid (op_status operation))) (\<lambda>_.
             ebind (case cq_next_status q of None \<Rightarrow> Inr ()
                    | Some s \<Rightarrow> ensure_operation_transition (op_status operation) s) (\<lambda>_.
               let locks = commit_locks sha d row operation q
               in ebind (if cq_bind_target_lock q
                         then assert_binding_checkpoint operation (rc_details row) (effective_details row q)
                                (sanitized (cq_details_patch q)) locks
                         else Inr ()) (\<lambda>_.
                  ebind (lock_guards operation q locks) (\<lambda>_. Inr (row, operation, locks)))))))))"

definition keeps_binding :: "recovery_row \<Rightarrow> op_row \<Rightarrow> commit_request \<Rightarrow> projection \<Rightarrow> bool" where
  "keeps_binding row operation q pj =
     (preserves_lock_binding (op_details operation)
        (dmerge (sanitized (cq_details_patch q)) (sanitized (pj_operation_details pj)))
      \<and> preserves_lock_binding (rc_details row)
        (dmerge (sanitized (cq_recovery_details_patch q)) (sanitized (pj_recovery_details pj))))"

definition commit_observation :: "sha \<Rightarrow> db \<Rightarrow> time \<Rightarrow> time \<Rightarrow> string \<Rightarrow> recovery_lease \<Rightarrow> commit_request
    \<Rightarrow> (db \<times> operation_snapshot \<times> recovery_item) result" where
  "commit_observation sha d now event_now event_id lease q =
     ebind (commit_checks sha d now lease q) (\<lambda>(row, operation, locks).
     ebind (case cq_projector q of None \<Rightarrow> Inr no_projection | Some p \<Rightarrow> p d) (\<lambda>pj.
     ebind (raise_if (is_host operation \<and> \<not> keeps_binding row operation q pj)
        (RecoveryOperationConflict (lease_operation_id lease))) (\<lambda>_.
     ebind (append_in_session sha d event_now event_id (lease_operation_id lease) (commit_append q pj))
       (\<lambda>(d1, sn).
          let row' = settled_recovery row q pj now;
              d2 = fold (\<lambda>l. put_lock (settled_lock (lease_operation_id lease) q now l)) locks (put_recovery row' d1)
          in Inr (d2, sn, item_of row')))))"

section \<open>Which locks a commit may touch\<close>

lemma find_SomeD: "find P xs = Some x \<Longrightarrow> P x \<and> x \<in> set xs"
  by (auto simp: find_Some_iff)

lemma all_found_mem: "v \<in> set (all_found xs) \<Longrightarrow> Some v \<in> set xs"
  by (induction xs) (auto split: option.splits if_splits)

lemma all_found_cases: "all_found xs = [] \<or> xs = map Some (all_found xs)"
  by (induction xs) (auto split: option.splits)

definition owned_lock :: "op_row \<Rightarrow> lock_row \<Rightarrow> bool" where
  "owned_lock operation r \<longleftrightarrow> lock_open r \<and> lk_owner_id r = Some (op_operation_id operation) \<and>
     lk_operation_type r = op_operation_type operation"

lemma host_lockD: "host_lock d operation b = Some r \<Longrightarrow> r \<in> set (db_locks d) \<and> owned_lock operation r"
  by (auto simp: host_lock_def owned_lock_def dest: find_SomeD)

lemma vm_lockD:
  "vm_lock d operation c ref = Some r \<Longrightarrow> r \<in> set (db_locks d) \<and> owned_lock operation r \<and>
     lk_operation_lock_id r = lr_lock_id ref \<and> lk_vmid r = Some (lr_vmid ref) \<and> lk_cluster_id r = c"
  by (auto simp: vm_lock_def owned_lock_def dest!: find_SomeD)

lemma exact_target_locksD:
  "r \<in> set (exact_target_locks sha d operation rd) \<Longrightarrow> r \<in> set (db_locks d) \<and> owned_lock operation r"
  by (auto simp: exact_target_locks_def Let_def split: option.splits if_splits
      dest!: all_found_mem dest: host_lockD vm_lockD [OF sym])

lemma map_vm_lock_ids:
  "map (vm_lock d operation c) refs = map Some rs \<Longrightarrow> map lk_operation_lock_id rs = map lr_lock_id refs"
proof (induction refs arbitrary: rs)
  case Nil
  then show ?case by simp
next
  case (Cons ref refs)
  then show ?case by (cases rs) (auto dest: vm_lockD)
qed

lemma exact_target_locks_distinct:
  "distinct (map lk_operation_lock_id (exact_target_locks sha d operation rd))"
proof -
  have "distinct (map lk_operation_lock_id (all_found (map (vm_lock d operation c) (sort_key lr_vmid
      (lock_references ot ti od rd)))))" for c ot ti od
  proof -
    let ?refs = "sort_key lr_vmid (lock_references ot ti od rd)"
    consider "all_found (map (vm_lock d operation c) ?refs) = []"
      | "map (vm_lock d operation c) ?refs = map Some (all_found (map (vm_lock d operation c) ?refs))"
      using all_found_cases by blast
    then show ?thesis
    proof cases
      case 2
      from map_vm_lock_ids [OF this] lock_references_distinct [of ot ti od rd]
      show ?thesis by (simp add: distinct_map)
    qed simp
  qed
  then show ?thesis
    by (auto simp: exact_target_locks_def Let_def split: option.splits)
qed

lemma commit_locks_subset: "set (commit_locks sha d row operation q) \<subseteq> {r \<in> set (db_locks d). owned_lock operation r}"
  by (auto simp: commit_locks_def dest: exact_target_locksD)

lemma commit_locks_distinct: "distinct (map lk_operation_lock_id (commit_locks sha d row operation q))"
  by (simp add: commit_locks_def exact_target_locks_distinct)

lemma settled_update: "lock_open l \<Longrightarrow> lk_status l \<in> set LOCK_STATUSES \<Longrightarrow> lock_update l (settled_lock i q now l)"
  by (auto simp: lock_update_def settled_lock_def lock_scope_def LOCK_STATUSES_def lock_open_def
      OPEN_TARGET_LOCK_STATUSES_def)

lemma settled_lock_id [simp]: "lk_operation_lock_id (settled_lock i q now l) = lk_operation_lock_id l"
  by (simp add: settled_lock_def)

lemma fold_put_lock_frame [simp]:
  "db_operations (fold (\<lambda>l. put_lock (f l)) ls d) = db_operations d"
  "db_events (fold (\<lambda>l. put_lock (f l)) ls d) = db_events d"
  "db_recoveries (fold (\<lambda>l. put_lock (f l)) ls d) = db_recoveries d"
  "db_connection (fold (\<lambda>l. put_lock (f l)) ls d) = db_connection d"
  by (induction ls arbitrary: d) simp_all

lemma fold_put_lock_inv:
  assumes "lock_inv d" "distinct (map lk_operation_lock_id ls)"
    and "\<And>l. l \<in> set ls \<Longrightarrow> l \<in> set (db_locks d) \<and> lock_update l (f l)"
  shows "lock_inv (fold (\<lambda>l. put_lock (f l)) ls d)"
  using assms
proof (induction ls arbitrary: d)
  case Nil
  then show ?case by simp
next
  case (Cons l ls)
  have inv: "lock_inv (put_lock (f l) d)"
    using Cons.prems(1) Cons.prems(3) [of l] by (auto intro: lock_inv_put)
  have "l' \<in> set (db_locks (put_lock (f l) d))" if "l' \<in> set ls" for l'
  proof -
    have "lk_operation_lock_id l' \<noteq> lk_operation_lock_id (f l)"
      using imageI [OF that, of lk_operation_lock_id] Cons.prems(2) Cons.prems(3) [of l]
      by (auto simp: lock_update_def)
    with that Cons.prems(3) [of l'] show ?thesis by (force simp: set_row_def)
  qed
  then show ?case using Cons inv by simp
qed

section \<open>What a successful commit has checked and written\<close>

lemma commit_checksD:
  assumes "commit_checks sha d now lease q = Inr (row, operation, locks)"
  shows "owned_row d lease now = Inr row" "find_operation d (lease_operation_id lease) = Some operation"
    "\<not> identity_conflict operation (cq_expected_version q) (cq_expected_checksum q)"
    "locks = commit_locks sha d row operation q" "lock_guards operation q locks = Inr ()"
    "cq_recovery_status q \<in> set RECOVERY_STATUSES"
  using assms by (auto simp: commit_checks_def Let_def split: option.splits)

lemma commit_observationD:
  assumes "commit_observation sha d now event_now eid lease q = Inr (d', sn, item)"
  obtains row operation locks pj d1 where
    "commit_checks sha d now lease q = Inr (row, operation, locks)"
    "is_host operation \<Longrightarrow> keeps_binding row operation q pj"
    "append_in_session sha d event_now eid (lease_operation_id lease) (commit_append q pj) = Inr (d1, sn)"
    "d' = fold (\<lambda>l. put_lock (settled_lock (lease_operation_id lease) q now l)) locks
       (put_recovery (settled_recovery row q pj now) d1)"
    "item = item_of (settled_recovery row q pj now)"
proof -
  from assms obtain row operation locks pj d1 where
    "commit_checks sha d now lease q = Inr (row, operation, locks)"
    "\<not> (is_host operation \<and> \<not> keeps_binding row operation q pj)"
    "append_in_session sha d event_now eid (lease_operation_id lease) (commit_append q pj) = Inr (d1, sn)"
    "d' = fold (\<lambda>l. put_lock (settled_lock (lease_operation_id lease) q now l)) locks
       (put_recovery (settled_recovery row q pj now) d1)"
    "item = item_of (settled_recovery row q pj now)"
    unfolding commit_observation_def Let_def by (auto split: prod.splits)
  then show thesis by (intro that) auto
qed

lemma append_frame:
  assumes "append_in_session sha d now eid oid q = Inr (d', sn)"
  shows "db_locks d' = db_locks d" "db_recoveries d' = db_recoveries d" "db_connection d' = db_connection d"
    "db_credentials d' = db_credentials d"
    "find_operation d i \<noteq> None \<Longrightarrow> find_operation d' i \<noteq> None"
  using assms by (auto elim!: append_in_sessionD simp: row_simps split: option.splits)

lemma settled_recovery_id [simp]: "rc_operation_id (settled_recovery r q pj now) = rc_operation_id r"
  "rc_lease_generation (settled_recovery r q pj now) = rc_lease_generation r"
  "rc_status (settled_recovery r q pj now) = cq_recovery_status q"
  by (simp_all add: settled_recovery_def Let_def)

lemma settled_recovery_ok:
  "recovery_ok r \<Longrightarrow> rc_status r = ''leased'' \<Longrightarrow> cq_recovery_status q \<in> set RECOVERY_STATUSES \<Longrightarrow>
     recovery_ok (settled_recovery r q pj now)"
  by (auto simp: recovery_ok_def settled_recovery_def Let_def)

lemma lease_owns_leased: "lease_owns r l now \<Longrightarrow> rc_status r = ''leased''"
  by (simp add: lease_owns_def live_lease_def)

lemma commit_store_inv [inv_intros]:
  assumes "store_inv sha d" "commit_observation sha d now event_now eid lease q = Inr (d', sn, item)"
  shows "store_inv sha d'"
  using assms(2)
proof (rule commit_observationD)
  fix row locks pj d1
  assume app: "append_in_session sha d event_now eid (lease_operation_id lease) (commit_append q pj) = Inr (d1, sn)"
    and d': "d' = fold (\<lambda>l. put_lock (settled_lock (lease_operation_id lease) q now l)) locks
       (put_recovery (settled_recovery row q pj now) d1)"
  have "store_inv sha d' = store_inv sha d1" by (rule store_inv_frame) (simp_all add: d')
  with append_in_session_inv [OF assms(1) app] show ?thesis by simp
qed

lemma commit_lock_inv [inv_intros]:
  assumes "lock_inv d" "commit_observation sha d now event_now eid lease q = Inr (d', sn, item)"
  shows "lock_inv d'"
  using assms(2)
proof (rule commit_observationD)
  fix row operation locks pj d1
  assume c: "commit_checks sha d now lease q = Inr (row, operation, locks)"
    and app: "append_in_session sha d event_now eid (lease_operation_id lease) (commit_append q pj) = Inr (d1, sn)"
    and d': "d' = fold (\<lambda>l. put_lock (settled_lock (lease_operation_id lease) q now l)) locks
       (put_recovery (settled_recovery row q pj now) d1)"
  let ?d = "put_recovery (settled_recovery row q pj now) d1"
  have locks: "db_locks ?d = db_locks d" using append_frame(1) [OF app] by simp
  have "lock_update l (settled_lock i q now l)" if "l \<in> set locks" for l i
  proof -
    from that commit_checksD(4) [OF c] commit_locks_subset [of sha d row operation q]
    have l: "l \<in> set (db_locks d)" "lock_open l" by (auto simp: owned_lock_def)
    with assms(1) have "lk_status l \<in> set LOCK_STATUSES" by (auto simp: lock_inv_def lock_checks_def)
    with l(2) show ?thesis by (rule settled_update)
  qed
  moreover have "l \<in> set (db_locks ?d)" if "l \<in> set locks" for l
    using that commit_checksD(4) [OF c] commit_locks_subset [of sha d row operation q] locks by auto
  moreover have "distinct (map lk_operation_lock_id locks)"
    using commit_checksD(4) [OF c] commit_locks_distinct by simp
  moreover have "lock_inv ?d" using assms(1) lock_inv_frame [OF locks] by simp
  ultimately show ?thesis unfolding d' by (intro fold_put_lock_inv) auto
qed

lemma commit_recovery_row:
  assumes "commit_observation sha d now event_now eid lease q = Inr (d', sn, item)"
  obtains row pj d1 where "find_recovery d (lease_operation_id lease) = Some row" "lease_owns row lease now"
    "db_recoveries d' = db_recoveries (put_recovery (settled_recovery row q pj now) d)"
    "cq_recovery_status q \<in> set RECOVERY_STATUSES"
    "\<And>i. find_operation d i \<noteq> None \<Longrightarrow> find_operation d' i \<noteq> None"
proof -
  from assms show thesis
  proof (rule commit_observationD)
    fix row operation locks pj d1
    assume c: "commit_checks sha d now lease q = Inr (row, operation, locks)"
      and app: "append_in_session sha d event_now eid (lease_operation_id lease) (commit_append q pj) = Inr (d1, sn)"
      and d': "d' = fold (\<lambda>l. put_lock (settled_lock (lease_operation_id lease) q now l)) locks
         (put_recovery (settled_recovery row q pj now) d1)"
    from commit_checksD(1) [OF c] have row: "find_recovery d (lease_operation_id lease) = Some row"
      "lease_owns row lease now" by (simp_all add: owned_row_Inr)
    show thesis
    proof (rule that [OF row])
      show "db_recoveries d' = db_recoveries (put_recovery (settled_recovery row q pj now) d)"
        using append_frame(2) [OF app] by (simp add: d')
      show "cq_recovery_status q \<in> set RECOVERY_STATUSES" by (rule commit_checksD(6) [OF c])
      show "find_operation d' i \<noteq> None" if "find_operation d i \<noteq> None" for i
        using append_frame(5) [OF app that] by (simp add: d')
    qed
  qed
qed

lemma commit_recovery_inv [inv_intros]:
  assumes "recovery_inv d" "commit_observation sha d now event_now eid lease q = Inr (d', sn, item)"
  shows "recovery_inv d'"
  using assms(2)
proof (rule commit_recovery_row)
  fix row pj
  assume row: "find_recovery d (lease_operation_id lease) = Some row" "lease_owns row lease now"
    and d': "db_recoveries d' = db_recoveries (put_recovery (settled_recovery row q pj now) d)"
    and st: "cq_recovery_status q \<in> set RECOVERY_STATUSES"
    and ops: "\<And>i. find_operation d i \<noteq> None \<Longrightarrow> find_operation d' i \<noteq> None"
  from row_of_Some [OF row(1)] assms(1) have mem: "row \<in> set (db_recoveries d)" and ok: "recovery_ok row"
    by (auto simp: recovery_inv_def)
  have "recovery_inv (put_recovery (settled_recovery row q pj now) d)"
    using settled_recovery_ok [OF ok lease_owns_leased [OF row(2)] st]
    by (intro recovery_inv_put [OF assms(1) mem]) simp_all
  then show ?thesis using d' ops by (rule recovery_inv_frame) simp
qed

lemma commit_le:
  assumes "commit_observation sha d now event_now eid lease q = Inr (d', sn, item)"
  shows "recovery_le d d'"
  using assms
proof (rule commit_recovery_row)
  fix row pj
  assume row: "find_recovery d (lease_operation_id lease) = Some row" "lease_owns row lease now"
    and d': "db_recoveries d' = db_recoveries (put_recovery (settled_recovery row q pj now) d)"
  have "recovery_le d (put_recovery (settled_recovery row q pj now) d)"
    using row row_of_Some [OF row(1)] lease_owns_leased [OF row(2)]
    by (intro recovery_le_put [of _ _ row]) auto
  then show ?thesis using recovery_le_trans [OF _ recovery_le_same [OF d']] by blast
qed

text \<open>A lease that does not own its row cannot commit.\<close>

lemma commit_needs_lease:
  assumes "owned_row d lease now = Inl e"
  shows "\<exists>e'. commit_observation sha d now event_now eid lease q = Inl e' \<and>
    (cq_recovery_status q \<in> set RECOVERY_STATUSES \<longrightarrow> e' = RecoveryLeaseLost (lease_operation_id lease))"
  using owned_row_Inl [OF assms] assms
  by (cases "cq_recovery_status q \<in> set RECOVERY_STATUSES")
    (simp_all add: commit_observation_def commit_checks_def Let_def raise_if_def)

text \<open>The operation's row after a commit.\<close>

lemma append_in_session_row:
  assumes "append_in_session sha d now eid oid q = Inr (d', sn)"
  obtains row row' where "find_operation d oid = Some row" "row' = appended_row sha row q eid oid now"
    "find_operation d' oid = Some row'" "sn = snapshot_of row'"
  using assms
proof (rule append_in_sessionD)
  fix row assume row: "find_operation d oid = Some row"
    and d': "d' = put_operation (appended_row sha row q eid oid now)
       (d\<lparr>db_events := db_events d @ [appended_event sha row q eid oid now]\<rparr>)"
    and sn: "sn = snapshot_of (appended_row sha row q eid oid now)"
  from row_of_Some [OF row] have "op_operation_id row = oid" by simp
  then have "find_operation d' oid = Some (appended_row sha row q eid oid now)"
    by (simp add: d' row_simps row)
  with row sn show thesis by (intro that [OF _ refl])
qed

lemma commit_operation_row:
  assumes "commit_observation sha d now event_now eid lease q = Inr (d', sn, item)"
  obtains row row' pj where "find_operation d (lease_operation_id lease) = Some row"
    "find_operation d' (lease_operation_id lease) = Some row'" "sn = snapshot_of row'"
    "op_status row' = (case cq_next_status q of None \<Rightarrow> op_status row | Some s \<Rightarrow> s)"
    "op_details row' = dmerge (op_details row)
       (sanitized (dmerge (sanitized (cq_details_patch q)) (sanitized (pj_operation_details pj))))"
    "cq_projector q = None \<Longrightarrow> pj = no_projection"
proof -
  from assms obtain row0 operation locks pj d1 where
    "commit_checks sha d now lease q = Inr (row0, operation, locks)"
    and pj: "(case cq_projector q of None \<Rightarrow> Inr no_projection | Some p \<Rightarrow> p d) = Inr pj"
    and app: "append_in_session sha d event_now eid (lease_operation_id lease) (commit_append q pj) = Inr (d1, sn)"
    and d': "d' = fold (\<lambda>l. put_lock (settled_lock (lease_operation_id lease) q now l)) locks
       (put_recovery (settled_recovery row0 q pj now) d1)"
    unfolding commit_observation_def Let_def by (auto split: prod.splits)
  from app obtain row row' where row: "find_operation d (lease_operation_id lease) = Some row"
    and row': "row' = appended_row sha row (commit_append q pj) eid (lease_operation_id lease) event_now"
      "find_operation d1 (lease_operation_id lease) = Some row'" "sn = snapshot_of row'"
    by (rule append_in_session_row)
  have "find_operation d' (lease_operation_id lease) = Some row'" by (simp add: d' row')
  with row row' pj show thesis
    by (intro that [of row row' pj])
      (simp_all add: append_target_def commit_append_def split: option.splits)
qed

lemma fold_put_lock_mem:
  assumes "distinct (map lk_operation_lock_id ls)"
    and "\<And>l. l \<in> set ls \<Longrightarrow> l \<in> set (db_locks d) \<and> lk_operation_lock_id (f l) = lk_operation_lock_id l"
    and "l \<in> set ls"
  shows "f l \<in> set (db_locks (fold (\<lambda>l. put_lock (f l)) ls d))"
  using assms
proof (induction ls arbitrary: d)
  case Nil
  then show ?case by simp
next
  case (Cons l0 ls)
  have keep: "x \<in> set (db_locks (put_lock (f l0) d))"
    if "x \<in> set (db_locks d)" "lk_operation_lock_id x \<noteq> lk_operation_lock_id l0" for x
    using that Cons.prems(2) [of l0] by (force simp: set_row_def)
  have other: "lk_operation_lock_id x \<noteq> lk_operation_lock_id l0" if "x \<in> set ls" for x
    using imageI [OF that, of lk_operation_lock_id] Cons.prems(1) by auto
  show ?case
  proof (cases "l \<in> set ls")
    case True
    then show ?thesis using Cons.IH [of "put_lock (f l0) d"] Cons.prems keep other by simp
  next
    case False
    with Cons.prems(3) have l: "l = l0" by simp
    have stay: "x \<in> set (db_locks (fold (\<lambda>l. put_lock (f l)) ls d'))"
      if "x \<in> set (db_locks d')" "\<And>y. y \<in> set ls \<Longrightarrow> lk_operation_lock_id (f y) \<noteq> lk_operation_lock_id x" for x d'
      using that
    proof (induction ls arbitrary: d')
      case Nil
      then show ?case by simp
    next
      case (Cons y ys)
      have "x \<in> set (db_locks (put_lock (f y) d'))"
        using Cons.prems(1) Cons.prems(2) [of y] by (force simp: set_row_def)
      then show ?case using Cons.IH [of "put_lock (f y) d'"] Cons.prems(2) by simp
    qed
    have "f l0 \<in> set (db_locks (put_lock (f l0) d))"
      using Cons.prems(2) [of l0] by (force simp: set_row_def)
    moreover have "lk_operation_lock_id (f y) \<noteq> lk_operation_lock_id (f l0)" if "y \<in> set ls" for y
      using other [OF that] that Cons.prems(2) [of y] Cons.prems(2) [of l0] by simp
    ultimately show ?thesis using stay l by simp
  qed
qed

text \<open>
  A commit that asks for the release leaves every lock the operation is bound to released, and
  there are as many as the operation's type demands.
\<close>

lemma commit_released:
  assumes "commit_observation sha d now event_now eid lease q = Inr (d', sn, item)" "cq_release_target_lock q"
  obtains row operation locks where "find_operation d (lease_operation_id lease) = Some operation"
    "locks = commit_locks sha d row operation q" "find_recovery d (lease_operation_id lease) = Some row"
    "length locks = expected_lock_count (op_operation_type operation)"
    "\<And>l. l \<in> set locks \<Longrightarrow> settled_lock (lease_operation_id lease) q now l \<in> set (db_locks d')"
proof -
  from assms(1) show thesis
  proof (rule commit_observationD)
    fix row operation locks pj d1
    assume c: "commit_checks sha d now lease q = Inr (row, operation, locks)"
      and app: "append_in_session sha d event_now eid (lease_operation_id lease) (commit_append q pj) = Inr (d1, sn)"
      and d': "d' = fold (\<lambda>l. put_lock (settled_lock (lease_operation_id lease) q now l)) locks
         (put_recovery (settled_recovery row q pj now) d1)"
    let ?d = "put_recovery (settled_recovery row q pj now) d1"
    have locks: "db_locks ?d = db_locks d" using append_frame(1) [OF app] by simp
    have eq: "locks = commit_locks sha d row operation q" by (rule commit_checksD(4) [OF c])
    have len: "length locks = expected_lock_count (op_operation_type operation)"
      using commit_checksD(5) [OF c] assms(2) by (auto simp: lock_guards_def Let_def)
    have "settled_lock (lease_operation_id lease) q now l \<in> set (db_locks d')" if "l \<in> set locks" for l
      unfolding d'
    proof (rule fold_put_lock_mem [OF _ _ that])
      show "distinct (map lk_operation_lock_id locks)" using eq commit_locks_distinct by simp
      show "l' \<in> set (db_locks ?d) \<and> lk_operation_lock_id (settled_lock (lease_operation_id lease) q now l') =
          lk_operation_lock_id l'" if "l' \<in> set locks" for l'
        using that eq commit_locks_subset [of sha d row operation q] locks by auto
    qed
    moreover have "find_recovery d (lease_operation_id lease) = Some row"
      using commit_checksD(1) [OF c] by (simp add: owned_row_Inr)
    ultimately show thesis using that commit_checksD(2) [OF c] eq len by blast
  qed
qed

end
