(* ===== verification/Admission.thy ===== *)
theory Admission
  imports RecoveryCommit
begin

text \<open>
  Atomic admission: \<open>app/operations/vm_admission.py\<close> and
  \<open>app/operations/host_config/admission.py\<close>. One transaction takes the target locks, records the
  operation and its recovery item with the first lease. The clock readings and the fresh
  identifiers of the transaction are the record \<open>admission_env\<close>.
\<close>

record admission_env =
  ae_setup :: setup_env
  ae_lock_now :: time
  ae_create_now :: time
  ae_claim_now :: time
  ae_lock_ids :: "int \<Rightarrow> string"
  ae_event_id :: string
  ae_token :: string
  ae_owner :: string

text \<open>
  \<open>create\<close> inside a shared session: a violated constraint ends the whole transaction.
\<close>

definition create_shared :: "sha \<Rightarrow> db \<Rightarrow> time \<Rightarrow> string \<Rightarrow> operation_spec \<Rightarrow> pydict
    \<Rightarrow> (db \<times> create_result) result" where
  "create_shared sha d now event_id sp event_payload =
     (case get_by_scope d sp of
        Some existing \<Rightarrow> ebind (resolve_existing existing sp) (\<lambda>r. Inr (d, r))
      | None \<Rightarrow> create_rows sha d now event_id sp event_payload)"

text \<open>\<open>dataclasses.replace(spec, details={**spec.details, **binding})\<close> validates again.\<close>

definition bound_spec :: "operation_spec \<Rightarrow> pydict \<Rightarrow> operation_spec result" where
  "bound_spec sp binding =
     (let sp' = sp\<lparr>sp_details := dmerge (sp_details sp) binding\<rparr>
      in ebind (spec_post_init sp') (\<lambda>_. Inr sp'))"

definition record_bound :: "sha \<Rightarrow> admission_env \<Rightarrow> db \<Rightarrow> operation_spec \<Rightarrow> pydict \<Rightarrow> string
    \<Rightarrow> (db \<times> operation_snapshot \<times> recovery_lease option) result" where
  "record_bound sha ae d sp binding recovery_kind =
     ebind (bound_spec sp binding) (\<lambda>sp'.
     ebind (create_shared sha d (ae_create_now ae) (ae_event_id ae) sp' []) (\<lambda>(d1, created).
       let rspec = \<lparr>rs_operation_id = sp_operation_id sp, rs_recovery_kind = recovery_kind, rs_details = binding\<rparr>
       in ebind (recovery_spec_check rspec) (\<lambda>_.
          ebind (prepare_and_claim d1 (ae_claim_now ae) (ae_token ae) rspec
                   (sp_operation_type sp @ '':'' @ ae_owner ae) 60000000 None None) (\<lambda>(d2, lease).
            Inr (d2, cr_operation created, Some lease)))))"

text \<open>A replay of a recorded operation returns it without a lease.\<close>

definition replay :: "db \<Rightarrow> operation_spec \<Rightarrow> operation_snapshot
    \<Rightarrow> (db \<times> operation_snapshot \<times> recovery_lease option) result" where
  "replay d sp existing =
     (if sn_intent_digest existing \<noteq> sp_intent_digest sp
      then Inl (OperationIntentConflict (sp_operation_id sp)) else Inr (d, existing, None))"

section \<open>VM mutations\<close>

definition related_scope_check :: "operation_spec \<Rightarrow> int \<Rightarrow> int list \<Rightarrow> unit result" where
  "related_scope_check sp vmid related_vmids =
     ebind (if related_vmids = [] then Inr ()
            else if expected_lock_count (sp_operation_type sp) \<noteq> 2 \<or> length related_vmids \<noteq> 1
                 \<or> hd related_vmids = vmid
            then Inl (PyError ValueError)
            else (case dget_or (sp_details sp) ''source'' (PDict []) of
                    PDict source \<Rightarrow> raise_if (\<not> py_eq (dget source ''vmid'') (PInt (hd related_vmids)))
                                      (PyError ValueError)
                  | _ \<Rightarrow> Inl (PyError AttributeError))) (\<lambda>_.
       raise_if (expected_lock_count (sp_operation_type sp) = 2 \<and> length related_vmids \<noteq> 1)
         (PyError ValueError))"

fun acquire_all :: "admission_env \<Rightarrow> operation_spec \<Rightarrow> string \<Rightarrow> int list \<Rightarrow> db
    \<Rightarrow> (db \<times> (int \<times> durable_lock) list) result" where
  "acquire_all ae sp cluster_id [] d = Inr (d, [])"
| "acquire_all ae sp cluster_id (v # vs) d =
     ebind (lock_acquire (ae_setup ae) d (ae_lock_now ae) (ae_lock_ids ae v) (sp_operation_type sp)
              cluster_id v (sp_operation_id sp) (sp_operation_type sp @ ''_dispatch'')) (\<lambda>(d1, l).
     ebind (acquire_all ae sp cluster_id vs d1) (\<lambda>(d2, ls). Inr (d2, (v, l) # ls)))"

definition node_of_target :: "operation_spec \<Rightarrow> pyval result" where
  "node_of_target sp = ebind (ditem (sp_details sp) ''target'') (\<lambda>t.
     case t of PDict target \<Rightarrow> ditem target ''node_id'' | _ \<Rightarrow> Inl (PyError TypeError))"

definition held_id :: "(int \<times> durable_lock) list \<Rightarrow> int \<Rightarrow> pyval" where
  "held_id held v = (case map_of held v of None \<Rightarrow> PNone | Some l \<Rightarrow> PStr (dl_lock_id l))"

definition vm_binding :: "operation_spec \<Rightarrow> string \<Rightarrow> int \<Rightarrow> int list \<Rightarrow> (int \<times> durable_lock) list \<Rightarrow> pyval
    \<Rightarrow> pydict" where
  "vm_binding sp cluster_id vmid related_vmids held node =
     [(''target_lock_id'', held_id held vmid), (''cluster_id'', PStr cluster_id), (''node_id'', node),
      (''vmid'', PInt vmid), (''operation_type'', PStr (sp_operation_type sp)),
      (''execution_mode'', PStr (sp_execution_mode sp))]
     @ (if related_vmids = [] then []
        else [(''related_target_locks'', PList (map (\<lambda>v.
               PDict [(''lock_id'', held_id held v), (''vmid'', PInt v)]) (sort related_vmids)))])"

fun release_all :: "time \<Rightarrow> string \<Rightarrow> (int \<times> durable_lock) list \<Rightarrow> db \<Rightarrow> db" where
  "release_all now reason [] d = d"
| "release_all now reason ((v, l) # ls) d = release_all now reason ls (fst (lock_release d now l reason))"

definition vm_prepare :: "sha \<Rightarrow> admission_env \<Rightarrow> db \<Rightarrow> string \<Rightarrow> operation_spec \<Rightarrow> string \<Rightarrow> int \<Rightarrow> int list
    \<Rightarrow> (db \<times> operation_snapshot \<times> recovery_lease option) result" where
  "vm_prepare sha ae d recovery_kind sp cluster_id vmid related_vmids =
     ebind (related_scope_check sp vmid related_vmids) (\<lambda>_.
       case store_get d (sp_operation_id sp) of
         Some existing \<Rightarrow> replay d sp existing
       | None \<Rightarrow>
           ebind (acquire_all ae sp cluster_id (sort (remdups (vmid # related_vmids))) d) (\<lambda>(d1, held).
             case store_get d1 (sp_operation_id sp) of
               Some existing \<Rightarrow>
                 ebind (replay d1 sp existing) (\<lambda>_.
                   Inr (release_all (ae_lock_now ae) (sp_operation_type sp @ ''_completed_replay'') held d1,
                        existing, None))
             | None \<Rightarrow>
                 ebind (node_of_target sp) (\<lambda>node.
                   record_bound sha ae d1 sp (vm_binding sp cluster_id vmid related_vmids held node) recovery_kind)))"

section \<open>Host configuration\<close>

definition host_binding :: "operation_spec \<Rightarrow> configuration_lock \<Rightarrow> pyval \<Rightarrow> pydict" where
  "host_binding sp lock target =
     [(''target_lock_id'', PStr (cl_lock_id lock)), (''cluster_id'', PStr (cl_cluster_id lock)),
      (''scope_key'', PStr (cl_scope_key lock)), (''target_type'', PStr (sp_target_type sp)),
      (''target_id'', PStr (sp_target_id sp)), (''target'', target),
      (''operation_type'', PStr (sp_operation_type sp)), (''execution_mode'', PStr (sp_execution_mode sp))]"

definition host_prepare :: "sha \<Rightarrow> admission_env \<Rightarrow> db \<Rightarrow> operation_spec \<Rightarrow> string
    \<Rightarrow> (db \<times> operation_snapshot \<times> recovery_lease option) result" where
  "host_prepare sha ae d sp cluster_id =
     (let target = dget (sp_details sp) ''target''
      in ebind (target_identity (sp_operation_type sp) target) (\<lambda>(expected_type, expected_id).
         ebind (raise_if ((sp_target_type sp, sp_target_id sp, sp_execution_mode sp)
                  \<noteq> (expected_type, expected_id, ''managed_api'')) (PyError ValueError)) (\<lambda>_.
         case store_get d (sp_operation_id sp) of
           Some existing \<Rightarrow> replay d sp existing
         | None \<Rightarrow>
             ebind (configuration_acquire sha (ae_setup ae) d (ae_lock_now ae) (ae_lock_ids ae 0)
                      (sp_operation_type sp) cluster_id (sp_operation_id sp) target) (\<lambda>(d1, lock).
               record_bound sha ae d1 sp (host_binding sp lock target)
                 (sp_operation_type sp @ ''_observation'')))))"

section \<open>The joint invariant of the operation core\<close>

definition core_inv :: "sha \<Rightarrow> db \<Rightarrow> bool" where
  "core_inv sha d \<longleftrightarrow> store_inv sha d \<and> lock_inv d \<and> recovery_inv d"

lemma core_inv_empty: "core_inv sha empty_db"
  by (simp add: core_inv_def store_inv_empty lock_inv_empty recovery_inv_empty)

lemma create_shared_inv:
  assumes "core_inv sha d" "create_shared sha d now eid sp payload = Inr (d', r)"
  shows "core_inv sha d'"
proof -
  from assms(2) have "d' = d \<or> create_rows sha d now eid sp payload = Inr (d', r)"
    by (auto simp: create_shared_def split: option.splits)
  then show ?thesis
  proof
    assume rows: "create_rows sha d now eid sp payload = Inr (d', r)"
    then have "db_locks d' = db_locks d" "db_recoveries d' = db_recoveries d"
      "\<And>i. find_operation d i \<noteq> None \<Longrightarrow> find_operation d' i \<noteq> None"
      by (auto elim!: create_rowsD simp: row_simps)
    with assms(1) create_rows_inv [OF _ rows] show ?thesis
      unfolding core_inv_def using lock_inv_frame recovery_inv_frame by blast
  qed (use assms(1) in simp)
qed

lemma create_shared_frame:
  "create_shared sha d now eid sp payload = Inr (d', r) \<Longrightarrow>
     db_locks d' = db_locks d \<and> db_recoveries d' = db_recoveries d"
  by (auto simp: create_shared_def split: option.splits elim!: create_rowsD)

lemma core_inv_recoveries:
  assumes "core_inv sha d" "db_operations d' = db_operations d" "db_events d' = db_events d"
    "db_locks d' = db_locks d" "recovery_inv d'"
  shows "core_inv sha d'"
  using assms store_inv_frame [of d' d] lock_inv_frame [of d' d] by (simp add: core_inv_def)

lemma prepare_and_claim_frame:
  "prepare_and_claim d now t sp w us v c = Inr (d', l) \<Longrightarrow> db_operations d' = db_operations d \<and>
     db_events d' = db_events d \<and> db_locks d' = db_locks d"
  by (erule prepare_and_claimD) (auto dest!: insert_recoveryD)

lemma core_prepare_and_claim:
  assumes "core_inv sha d" "prepare_and_claim d now t sp w us v c = Inr (d', l)"
  shows "core_inv sha d'"
proof (rule core_inv_recoveries [OF assms(1)])
  from assms(1) have "recovery_inv d" by (simp add: core_inv_def)
  then show "recovery_inv d'" using assms(2) by (rule prepare_and_claim_inv)
qed (use prepare_and_claim_frame [OF assms(2)] in simp_all)

lemma core_locks:
  assumes "core_inv sha d" "db_operations d' = db_operations d" "db_events d' = db_events d"
    "db_recoveries d' = db_recoveries d" "lock_inv d'"
  shows "core_inv sha d'"
  using assms store_inv_frame [of d' d] by (simp add: core_inv_def recovery_inv_def)

lemma core_lock_acquire:
  assumes "core_inv sha d" "lock_acquire env d now i ot c v w re = Inr (d', l)"
  shows "core_inv sha d'"
proof (rule core_locks [OF assms(1)])
  from assms(1) have "lock_inv d" by (simp add: core_inv_def)
  then show "lock_inv d'" using assms(2) by (rule lock_acquire_inv)
qed (use lock_frame_store(3) [OF assms(2)] in simp_all)

lemma core_configuration_acquire:
  assumes "core_inv sha d" "configuration_acquire sha env d now i ot c w t = Inr (d', l)"
  shows "core_inv sha d'"
proof (rule core_locks [OF assms(1)])
  from assms(1) have "lock_inv d" by (simp add: core_inv_def)
  then show "lock_inv d'" using assms(2) by (rule configuration_acquire_inv)
qed (use configuration_acquire_frame [OF assms(2)] in simp_all)

lemma core_lock_release:
  assumes "core_inv sha d" "lock_release d now l reason = (d', b)"
  shows "core_inv sha d'"
proof (rule core_locks [OF assms(1)])
  from assms(1) have "lock_inv d" by (simp add: core_inv_def)
  then show "lock_inv d'" using assms(2) by (rule lock_release_inv)
qed (use lock_frame_store(1) [OF assms(2)] in simp_all)

lemma core_lock_release_owned:
  assumes "core_inv sha d" "lock_release_owned d now c v w reason = (d', b)"
  shows "core_inv sha d'"
proof (rule core_locks [OF assms(1)])
  from assms(1) have "lock_inv d" by (simp add: core_inv_def)
  then show "lock_inv d'" using assms(2) by (rule lock_release_owned_inv)
qed (use lock_frame_store(2) [OF assms(2)] in simp_all)

lemma core_acquire_all:
  "core_inv sha d \<Longrightarrow> acquire_all ae sp c vs d = Inr (d', ls) \<Longrightarrow> core_inv sha d'"
  by (induction vs arbitrary: d ls) (auto split: prod.splits dest: core_lock_acquire)

lemma core_release_all: "core_inv sha d \<Longrightarrow> core_inv sha (release_all now reason ls d)"
proof (induction ls arbitrary: d)
  case Nil
  then show ?case by simp
next
  case (Cons x ls)
  obtain v l where "x = (v, l)" by (cases x)
  moreover obtain d' b where "lock_release d now l reason = (d', b)" by (cases "lock_release d now l reason")
  ultimately show ?case using Cons core_lock_release by simp
qed

lemma core_record_bound:
  "core_inv sha d \<Longrightarrow> record_bound sha ae d sp b k = Inr (d', sn, l) \<Longrightarrow> core_inv sha d'"
  by (auto simp: record_bound_def Let_def split: prod.splits
      dest: create_shared_inv core_prepare_and_claim)

lemma core_vm_prepare:
  "core_inv sha d \<Longrightarrow> vm_prepare sha ae d k sp c v rel = Inr (d', sn, l) \<Longrightarrow> core_inv sha d'"
  by (auto simp: vm_prepare_def replay_def split: option.splits prod.splits if_splits
      dest!: core_acquire_all [rotated] core_record_bound [rotated] intro: core_release_all)

lemma core_host_prepare:
  "core_inv sha d \<Longrightarrow> host_prepare sha ae d sp c = Inr (d', sn, l) \<Longrightarrow> core_inv sha d'"
  by (auto simp: host_prepare_def replay_def Let_def split: option.splits prod.splits if_splits
      dest: core_configuration_acquire core_record_bound)

lemma core_commit:
  assumes "core_inv sha d" "commit_observation sha d now en eid lease q = Inr (d', sn, item)"
  shows "core_inv sha d'"
  using assms by (auto simp: core_inv_def intro: commit_store_inv commit_lock_inv commit_recovery_inv)

end
