(* ===== verification/Transactions.thy ===== *)
theory Transactions
  imports Prelude
begin

text \<open>
  Stores as interfaces. A store executes commands; each command is one transaction that
  commits a new state with a result or rolls back with an error. The locales state what a
  client may rely on: an invariant that every commit keeps, an order in which every commit
  moves up, and rows of which no two may be in conflict.
\<close>

section \<open>Running commands\<close>

definition committed :: "('c \<Rightarrow> 'd \<Rightarrow> 'e + ('d \<times> 'r)) \<Rightarrow> 'c \<Rightarrow> 'd \<Rightarrow> 'd" where
  "committed exec c d = (case exec c d of Inl _ \<Rightarrow> d | Inr (d', _) \<Rightarrow> d')"

fun run :: "('c \<Rightarrow> 'd \<Rightarrow> 'e + ('d \<times> 'r)) \<Rightarrow> 'c list \<Rightarrow> 'd \<Rightarrow> 'd" where
  "run exec [] d = d"
| "run exec (c # cs) d = run exec cs (committed exec c d)"

lemma run_append: "run exec (cs @ cs') d = run exec cs' (run exec cs d)"
  by (induction cs arbitrary: d) simp_all

text \<open>The states that some sequence of transactions reaches.\<close>

inductive reach :: "('c \<Rightarrow> 'd \<Rightarrow> 'e + ('d \<times> 'r)) \<Rightarrow> 'd \<Rightarrow> 'd \<Rightarrow> bool" for exec where
  reach_refl: "reach exec d d"
| reach_step: "reach exec d d' \<Longrightarrow> exec c d' = Inr (d'', r) \<Longrightarrow> reach exec d d''"

lemma reach_committed: "reach exec d d' \<Longrightarrow> reach exec d (committed exec c d')"
  by (cases "exec c d'") (auto simp: committed_def intro: reach_step)

lemma reach_run: "reach exec d d' \<Longrightarrow> reach exec d (run exec cs d')"
  by (induction cs arbitrary: d') (simp_all add: reach_committed)

section \<open>Interfaces\<close>

locale transactional_store =
  fixes exec :: "'c \<Rightarrow> 'd \<Rightarrow> 'e + ('d \<times> 'r)" and inv :: "'d \<Rightarrow> bool"
  assumes exec_inv: "inv d \<Longrightarrow> exec c d = Inr (d', r) \<Longrightarrow> inv d'"
begin

lemma committed_inv: "inv d \<Longrightarrow> inv (committed exec c d)"
  by (auto simp: committed_def split: sum.splits dest: exec_inv)

lemma run_inv: "inv d \<Longrightarrow> inv (run exec cs d)"
  by (induction cs arbitrary: d) (simp_all add: committed_inv)

lemma reach_inv: "reach exec d d' \<Longrightarrow> inv d \<Longrightarrow> inv d'"
  by (induction rule: reach.induct) (auto dest: exec_inv)

end

locale ordered_store = transactional_store exec inv
  for exec :: "'c \<Rightarrow> 'd \<Rightarrow> 'e + ('d \<times> 'r)" and inv :: "'d \<Rightarrow> bool" +
  fixes le :: "'d \<Rightarrow> 'd \<Rightarrow> bool"
  assumes le_refl: "le d d"
    and le_trans: "le d d' \<Longrightarrow> le d' d'' \<Longrightarrow> le d d''"
    and exec_le: "inv d \<Longrightarrow> exec c d = Inr (d', r) \<Longrightarrow> le d d'"
begin

lemma committed_le: "inv d \<Longrightarrow> le d (committed exec c d)"
  by (auto simp: committed_def le_refl split: sum.splits dest: exec_le)

lemma run_le: "inv d \<Longrightarrow> le d (run exec cs d)"
proof (induction cs arbitrary: d)
  case Nil
  then show ?case by (simp add: le_refl)
next
  case (Cons c cs)
  then show ?case using committed_le committed_inv le_trans by (metis run.simps(2))
qed

end

locale exclusive_store = transactional_store exec inv
  for exec :: "'c \<Rightarrow> 'd \<Rightarrow> 'e + ('d \<times> 'r)" and inv :: "'d \<Rightarrow> bool" +
  fixes holders :: "'d \<Rightarrow> 'l set" and conflict :: "'l \<Rightarrow> 'l \<Rightarrow> bool"
  assumes holders_exclusive:
    "inv d \<Longrightarrow> l \<in> holders d \<Longrightarrow> l' \<in> holders d \<Longrightarrow> conflict l l' \<Longrightarrow> l = l'"
begin

lemma run_exclusive:
  "inv d \<Longrightarrow> l \<in> holders (run exec cs d) \<Longrightarrow> l' \<in> holders (run exec cs d) \<Longrightarrow> conflict l l' \<Longrightarrow> l = l'"
  using run_inv holders_exclusive by blast

text \<open>A transaction that adds a holder adds one that conflicts with no other holder.\<close>

lemma added_holder_free:
  "inv d \<Longrightarrow> exec c d = Inr (d', r) \<Longrightarrow> l \<in> holders d' \<Longrightarrow> l \<notin> holders d \<Longrightarrow>
     l' \<in> holders d \<Longrightarrow> l' \<in> holders d' \<Longrightarrow> \<not> conflict l l'"
  using exec_inv holders_exclusive by blast

end

end
