(* ===== verification/CoreSystem.thy ===== *)
theory CoreSystem
  imports Admission Transactions
begin

text \<open>
  The operation core as one transactional store: every transaction of the operation store,
  the lock repositories, the recovery store and the admissions is a command. The interface
  locales are interpreted on it.
\<close>

section \<open>Commands\<close>

datatype core_command =
    CreateOperation time string operation_spec pydict
  | Transition time string string string string string pydict pydict "operation_actor option" "string list option"
  | AppendEvent time string string string string pydict pydict "operation_actor option" "string list option"
  | LockConflict time string string string string string string string pydict pydict
  | PreDispatchFailure time string string string string string pydict pydict
  | AcquireLock setup_env time string string string int string string
  | ReleaseLock time durable_lock string
  | ReleaseOwned time string int string string
  | AcquireConfiguration setup_env time string string string string pyval
  | PrepareAndClaim time string recovery_spec string int "int option" "string option"
  | ClaimOperation time string string string int "int option" "string option"
  | ClaimDue time "string \<Rightarrow> string" "string \<Rightarrow> bool" string int int
  | Heartbeat time recovery_lease int
  | CommitObservation time time string recovery_lease commit_request
  | AdmitVm admission_env string operation_spec string int "int list"
  | AdmitHost admission_env operation_spec string

definition void :: "'e + ('d \<times> 'r) \<Rightarrow> 'e + ('d \<times> unit)" where
  "void m = ebind m (\<lambda>(d, _). Inr (d, ()))"

lemma void_Inr [simp]: "void m = Inr (d, u) \<longleftrightarrow> (\<exists>r. m = Inr (d, r))"
  by (cases m) (auto simp: void_def)

fun core_exec :: "sha \<Rightarrow> core_command \<Rightarrow> db \<Rightarrow> (db \<times> unit) result" where
  "core_exec sha (CreateOperation now eid sp p) d = void (store_create sha d now eid sp p)"
| "core_exec sha (Transition now eid oid ns et st p dp a ex) d =
     void (store_transition sha d now eid oid ns et st p dp a ex)"
| "core_exec sha (AppendEvent now eid oid et st p dp a ex) d =
     void (store_append_event sha d now eid oid et st p dp a ex)"
| "core_exec sha (LockConflict now eid oid li lo ns et st p dp) d =
     void (transition_for_target_lock_conflict sha d now eid oid li lo ns et st p dp)"
| "core_exec sha (PreDispatchFailure now eid oid li et st p dp) d =
     void (transition_pre_dispatch_failure sha d now eid oid li et st p dp)"
| "core_exec sha (AcquireLock env now i ot c v w re) d = void (lock_acquire env d now i ot c v w re)"
| "core_exec sha (ReleaseLock now l re) d = void (Inr (lock_release d now l re))"
| "core_exec sha (ReleaseOwned now c v w re) d = void (Inr (lock_release_owned d now c v w re))"
| "core_exec sha (AcquireConfiguration env now i ot c w t) d =
     void (configuration_acquire sha env d now i ot c w t)"
| "core_exec sha (PrepareAndClaim now t sp w us v c) d = void (prepare_and_claim d now t sp w us v c)"
| "core_exec sha (ClaimOperation now t oid w us v c) d = void (claim_operation d now t oid w us v c)"
| "core_exec sha (ClaimDue now tk sk w us limit) d = void (claim_due d now tk sk w us limit)"
| "core_exec sha (Heartbeat now l us) d = void (heartbeat d now l us)"
| "core_exec sha (CommitObservation now en eid l q) d = void (commit_observation sha d now en eid l q)"
| "core_exec sha (AdmitVm ae k sp c v rel) d = void (vm_prepare sha ae d k sp c v rel)"
| "core_exec sha (AdmitHost ae sp c) d = void (host_prepare sha ae d sp c)"

section \<open>Every command keeps the invariant\<close>

definition core_frame :: "db \<Rightarrow> db \<Rightarrow> bool" where
  "core_frame d d' \<longleftrightarrow> db_locks d' = db_locks d \<and> db_recoveries d' = db_recoveries d \<and>
     (\<forall>i. find_operation d i \<noteq> None \<longrightarrow> find_operation d' i \<noteq> None)"

lemma core_frame_refl [simp]: "core_frame d d"
  by (simp add: core_frame_def)

lemma core_inv_store:
  "core_inv sha d \<Longrightarrow> core_frame d d' \<Longrightarrow> store_inv sha d' \<Longrightarrow> core_inv sha d'"
  using lock_inv_frame recovery_inv_frame unfolding core_inv_def core_frame_def by blast

lemma append_core_frame: "append_in_session sha d now eid oid q = Inr (d', sn) \<Longrightarrow> core_frame d d'"
  by (auto simp: core_frame_def append_frame)

lemma create_core_frame: "store_create sha d now eid sp p = Inr (d', r) \<Longrightarrow> core_frame d d'"
  by (auto simp: core_frame_def store_create_def row_simps split: option.splits
      elim!: create_insert_cases create_rowsD)

lemma lock_conflict_frame:
  "transition_for_target_lock_conflict sha d now eid oid li lo ns et st p dp = Inr (d', sn) \<Longrightarrow> core_frame d d'"
  by (auto simp: transition_for_target_lock_conflict_def split: option.splits if_splits dest: append_core_frame)

lemma pre_dispatch_frame:
  "transition_pre_dispatch_failure sha d now eid oid li et st p dp = Inr (d', b) \<Longrightarrow> core_frame d d'"
  by (auto simp: transition_pre_dispatch_failure_def split: option.splits if_splits dest: append_core_frame)

lemma claim_rows_frame [simp]:
  "db_operations (fst (claim_rows w e now tk rs d)) = db_operations d"
  "db_events (fst (claim_rows w e now tk rs d)) = db_events d"
  "db_locks (fst (claim_rows w e now tk rs d)) = db_locks d"
  by (induction rs arbitrary: d) (simp_all add: Let_def case_prod_beta)

lemma claim_frames:
  "claim_operation d now t oid w us v c = Inr (d', l) \<Longrightarrow>
     db_operations d' = db_operations d \<and> db_events d' = db_events d \<and> db_locks d' = db_locks d"
  "claim_due d now tk sk w us limit = Inr (d', ls) \<Longrightarrow>
     db_operations d' = db_operations d \<and> db_events d' = db_events d \<and> db_locks d' = db_locks d"
  "heartbeat d now l us = Inr (d', l') \<Longrightarrow>
     db_operations d' = db_operations d \<and> db_events d' = db_events d \<and> db_locks d' = db_locks d"
proof -
  show "claim_operation d now t oid w us v c = Inr (d', l) \<Longrightarrow>
     db_operations d' = db_operations d \<and> db_events d' = db_events d \<and> db_locks d' = db_locks d"
    by (auto elim!: claim_operationD)
  show "heartbeat d now l us = Inr (d', l') \<Longrightarrow>
     db_operations d' = db_operations d \<and> db_events d' = db_events d \<and> db_locks d' = db_locks d"
    by (auto simp: heartbeat_def Let_def)
  assume "claim_due d now tk sk w us limit = Inr (d', ls)"
  then have "d' = fst (claim_rows (py_strip w) (lease_end now us) now tk (due_rows d now sk limit) d)"
    by (auto simp: claim_due_def Let_def)
  then show "db_operations d' = db_operations d \<and> db_events d' = db_events d \<and> db_locks d' = db_locks d"
    by simp
qed

lemma core_inv_claim:
  assumes "core_inv sha d" "recovery_inv d \<Longrightarrow> recovery_inv d'"
    and "db_operations d' = db_operations d \<and> db_events d' = db_events d \<and> db_locks d' = db_locks d"
  shows "core_inv sha d'"
  using assms core_inv_recoveries [of sha d d'] by (simp add: core_inv_def)

lemma core_invD: "core_inv sha d \<Longrightarrow> store_inv sha d" "core_inv sha d \<Longrightarrow> lock_inv d" "core_inv sha d \<Longrightarrow> recovery_inv d"
  by (simp_all add: core_inv_def)

lemma core_exec_inv:
  assumes "core_inv sha d" "core_exec sha c d = Inr (d', u)"
  shows "core_inv sha d'"
proof (cases c)
  case (CreateOperation now eid sp p)
  with assms show ?thesis
    using core_inv_store create_core_frame store_create_inv core_invD(1) by fastforce
next
  case (Transition now eid oid ns et st p dp a ex)
  with assms show ?thesis
    using core_inv_store append_core_frame append_in_session_inv core_invD(1)
    by (fastforce simp: store_transition_def)
next
  case (AppendEvent now eid oid et st p dp a ex)
  with assms show ?thesis
    using core_inv_store append_core_frame append_in_session_inv core_invD(1)
    by (fastforce simp: store_append_event_def)
next
  case (LockConflict now eid oid li lo ns et st p dp)
  with assms show ?thesis
    using core_inv_store lock_conflict_frame lock_conflict_inv core_invD(1) by fastforce
next
  case (PreDispatchFailure now eid oid li et st p dp)
  with assms show ?thesis
    using core_inv_store pre_dispatch_frame pre_dispatch_failure_inv core_invD(1) by fastforce
next
  case (ClaimOperation now t oid w us v c)
  with assms show ?thesis
    using core_inv_claim claim_frames(1) claim_operation_inv by fastforce
next
  case (ClaimDue now tk sk w us limit)
  with assms show ?thesis
    using core_inv_claim claim_frames(2) claim_due_inv by fastforce
next
  case (Heartbeat now l us)
  with assms show ?thesis
    using core_inv_claim claim_frames(3) heartbeat_inv by fastforce
qed (use assms in \<open>auto dest: core_lock_acquire core_configuration_acquire core_prepare_and_claim
  core_lock_release core_lock_release_owned core_commit core_vm_prepare core_host_prepare\<close>)

section \<open>Every command moves the recovery table up\<close>

lemma record_bound_le:
  "record_bound sha ae d sp b k = Inr (d', sn, l) \<Longrightarrow> recovery_le d d'"
  by (auto simp: record_bound_def Let_def split: prod.splits
      dest!: create_shared_frame prepare_and_claim_le intro: recovery_le_trans recovery_le_same)

lemma acquire_all_recoveries:
  "acquire_all ae sp c vs d = Inr (d', ls) \<Longrightarrow> db_recoveries d' = db_recoveries d"
  by (induction vs arbitrary: d ls) (auto split: prod.splits dest!: lock_frame_store(3))

lemma release_all_recoveries: "db_recoveries (release_all now reason ls d) = db_recoveries d"
proof (induction ls arbitrary: d)
  case Nil
  then show ?case by simp
next
  case (Cons x ls)
  obtain v l where "x = (v, l)" by (cases x)
  moreover obtain d' b where "lock_release d now l reason = (d', b)" by (cases "lock_release d now l reason")
  ultimately show ?case using Cons lock_frame_store(1) by simp
qed

lemma vm_prepare_le: "vm_prepare sha ae d k sp c v rel = Inr (d', sn, l) \<Longrightarrow> recovery_le d d'"
  by (auto simp: vm_prepare_def replay_def release_all_recoveries recovery_le_def
      split: option.splits prod.splits if_splits
      dest!: acquire_all_recoveries record_bound_le)

lemma host_prepare_le: "host_prepare sha ae d sp c = Inr (d', sn, l) \<Longrightarrow> recovery_le d d'"
  by (auto simp: host_prepare_def replay_def Let_def split: option.splits prod.splits if_splits
      dest!: configuration_acquire_frame record_bound_le intro: recovery_le_trans recovery_le_same)

lemma core_exec_le:
  assumes "core_inv sha d" "core_exec sha c d = Inr (d', u)"
  shows "recovery_le d d'"
  using assms
  by (cases c)
    (auto dest!: create_core_frame lock_conflict_frame pre_dispatch_frame append_core_frame
      lock_frame_store configuration_acquire_frame prepare_and_claim_le claim_operation_le heartbeat_le
      commit_le vm_prepare_le host_prepare_le
      simp: core_frame_def store_transition_def store_append_event_def
      intro: recovery_le_same claim_due_le core_invD(3))

section \<open>Interpretations\<close>

interpretation core: ordered_store "core_exec sha" "core_inv sha" recovery_le for sha
proof
  show "core_inv sha d'" if "core_inv sha d" "core_exec sha c d = Inr (d', r)" for d c d' r
    using that by (rule core_exec_inv)
  show "recovery_le d d" for d by simp
  show "recovery_le d d''" if "recovery_le d d'" "recovery_le d' d''" for d d' d''
    using that by (rule recovery_le_trans)
  show "recovery_le d d'" if "core_inv sha d" "core_exec sha c d = Inr (d', r)" for d c d' r
    using that by (rule core_exec_le)
qed

definition open_locks :: "db \<Rightarrow> lock_row set" where
  "open_locks d = {r \<in> set (db_locks d). lock_open r}"

definition same_scope :: "lock_row \<Rightarrow> lock_row \<Rightarrow> bool" where
  "same_scope r q \<longleftrightarrow> lock_scope r = lock_scope q"

definition host_conflict :: "lock_row \<Rightarrow> lock_row \<Rightarrow> bool" where
  "host_conflict r q \<longleftrightarrow> lk_cluster_id r = lk_cluster_id q \<and>
     (lk_scope_type r = ''proxmox_configuration'' \<or> lk_scope_type q = ''proxmox_configuration'')"

lemma lock_rows_eq:
  "lock_inv d \<Longrightarrow> r \<in> set (db_locks d) \<Longrightarrow> q \<in> set (db_locks d) \<Longrightarrow>
     lk_operation_lock_id r = lk_operation_lock_id q \<Longrightarrow> r = q"
  using distinct_row_of [of lk_operation_lock_id "db_locks d"] by (metis lock_inv_def option.inject)

lemma host_conflict_eq:
  assumes "lock_inv d" "r \<in> open_locks d" "q \<in> open_locks d" "host_conflict r q"
  shows "r = q"
proof -
  from assms have "compatible_locks r q" "lock_open r" "lock_open q"
    by (auto simp: lock_inv_def open_locks_def)
  with assms(4) have "lk_operation_lock_id r = lk_operation_lock_id q"
    by (auto simp: compatible_locks_def host_conflict_def)
  with assms show ?thesis using lock_rows_eq by (auto simp: open_locks_def)
qed

interpretation scope_locks: exclusive_store "core_exec sha" "core_inv sha" open_locks same_scope for sha
  by unfold_locales (auto simp: open_locks_def same_scope_def dest: core_invD(2) open_lock_unique)

interpretation host_locks: exclusive_store "core_exec sha" "core_inv sha" open_locks host_conflict for sha
  by unfold_locales (blast dest: core_invD(2) host_conflict_eq)

end
