(* ===== verification/Flow.thy ===== *)
theory Flow
  imports CoreSystem
begin

text \<open>
  Services that run several transactions and external calls in a row. A process is a function
  on a \<open>world\<close>: the database, the calls that have left for Proxmox, and a step counter. Before
  each transaction other processes may commit (\<open>fe_between\<close>); external reads are functions of
  the step, so that two reads may differ. An exception leaves the committed database as it is.
\<close>

section \<open>Worlds and processes\<close>

text \<open>
  An entry of \<open>w_calls\<close> is a mutation that was sent: the database and the step at that moment, the
  node, the VM and the request.
\<close>

record dispatched_call =
  dc_db :: db
  dc_step :: nat
  dc_node :: string
  dc_vmid :: int
  dc_request :: pydict

record world =
  w_db :: db
  w_calls :: "dispatched_call list"
  w_step :: nat

record flow_env =
  fe_between :: "nat \<Rightarrow> db \<Rightarrow> db"
  fe_now :: "nat \<Rightarrow> time"
  fe_event_now :: "nat \<Rightarrow> time"
  fe_event_id :: "nat \<Rightarrow> string"
  fe_admission :: "nat \<Rightarrow> admission_env"

type_synonym 'a io = "world \<Rightarrow> 'a result \<times> world"

definition io_return :: "'a \<Rightarrow> 'a io" where
  "io_return x w = (Inr x, w)"

definition io_of :: "'a result \<Rightarrow> 'a io" where
  "io_of m w = (m, w)"

definition io_bind :: "'a io \<Rightarrow> ('a \<Rightarrow> 'b io) \<Rightarrow> 'b io" where
  "io_bind m f w = (case m w of (Inl e, w') \<Rightarrow> (Inl e, w') | (Inr x, w') \<Rightarrow> f x w')"

text \<open>\<open>try: x = m  except error_type as exc: h  else: f x\<close>\<close>

definition io_try :: "'a io \<Rightarrow> (string \<Rightarrow> nat \<Rightarrow> 'b io) \<Rightarrow> ('a \<Rightarrow> 'b io) \<Rightarrow> 'b io" where
  "io_try m h f w = (case m w of
       (Inl (FeatureError code status), w') \<Rightarrow> h code status w'
     | (Inl e, w') \<Rightarrow> (Inl e, w')
     | (Inr x, w') \<Rightarrow> f x w')"

definition tx :: "flow_env \<Rightarrow> (nat \<Rightarrow> db \<Rightarrow> (db \<times> 'a) result) \<Rightarrow> 'a io" where
  "tx fe f w =
     (let d = fe_between fe (w_step w) (w_db w)
      in case f (w_step w) d of
           Inl e \<Rightarrow> (Inl e, w\<lparr>w_db := d, w_step := Suc (w_step w)\<rparr>)
         | Inr (d', x) \<Rightarrow> (Inr x, w\<lparr>w_db := d', w_step := Suc (w_step w)\<rparr>))"

definition ext_read :: "(nat \<Rightarrow> 'a result) \<Rightarrow> 'a io" where
  "ext_read f w = (f (w_step w), w\<lparr>w_step := Suc (w_step w)\<rparr>)"

definition ext_call :: "(nat \<Rightarrow> 'a result) \<Rightarrow> string \<Rightarrow> int \<Rightarrow> pydict \<Rightarrow> 'a io" where
  "ext_call f node vmid request w =
     (f (w_step w), w\<lparr>w_calls := w_calls w @ [\<lparr>dc_db = w_db w, dc_step = w_step w, dc_node = node,
        dc_vmid = vmid, dc_request = request\<rparr>], w_step := Suc (w_step w)\<rparr>)"

definition get_io :: "flow_env \<Rightarrow> string \<Rightarrow> operation_snapshot option io" where
  "get_io fe operation_id = tx fe (\<lambda>_ d. Inr (d, store_get d operation_id))"

definition commit_io :: "sha \<Rightarrow> flow_env \<Rightarrow> recovery_lease \<Rightarrow> commit_request
    \<Rightarrow> (operation_snapshot \<times> recovery_item) io" where
  "commit_io sha fe lease q = tx fe (\<lambda>k d.
     commit_observation sha d (fe_now fe k) (fe_event_now fe k) (fe_event_id fe k) lease q)"

definition renewed :: "recovery_lease \<Rightarrow> recovery_item \<Rightarrow> recovery_lease" where
  "renewed lease item = \<lparr>ls_item = item, ls_token = ls_token lease\<rparr>"

text \<open>\<open>operations.get(operation_id)\<close> where the caller uses the operation at once.\<close>

definition get_existing_io :: "flow_env \<Rightarrow> string \<Rightarrow> operation_snapshot io" where
  "get_existing_io fe operation_id = io_bind (get_io fe operation_id) (\<lambda>x. case x of
       None \<Rightarrow> io_of (Inl (PyError AttributeError)) | Some sn \<Rightarrow> io_return sn)"

definition dict_item :: "pyval \<Rightarrow> string \<Rightarrow> pyval result" where
  "dict_item v k = (case v of PDict d \<Rightarrow> ditem d k | _ \<Rightarrow> Inl (PyError TypeError))"

section \<open>Reasoning about processes\<close>

text \<open>
  \<open>io_ok I m\<close>: the process keeps the property \<open>I\<close> of worlds, whatever it returns or raises.
\<close>

definition io_ok :: "(world \<Rightarrow> bool) \<Rightarrow> 'a io \<Rightarrow> bool" where
  "io_ok I m \<longleftrightarrow> (\<forall>w. I w \<longrightarrow> I (snd (m w)))"

named_theorems io_intros \<open>what processes keep\<close>

lemma io_ok_return [io_intros]: "io_ok I (io_return x)"
  by (simp add: io_ok_def io_return_def)

lemma io_ok_of [io_intros]: "io_ok I (io_of m)"
  by (simp add: io_ok_def io_of_def)

lemma io_ok_bind [io_intros]: "io_ok I m \<Longrightarrow> (\<And>x. io_ok I (f x)) \<Longrightarrow> io_ok I (io_bind m f)"
  unfolding io_ok_def io_bind_def by (force split: prod.splits sum.splits)

lemma io_ok_try [io_intros]:
  assumes "io_ok I m" "\<And>c s. io_ok I (h c s)" "\<And>x. io_ok I (f x)"
  shows "io_ok I (io_try m h f)"
  unfolding io_ok_def
proof (intro allI impI)
  fix w assume "I w"
  with assms(1) have "I (snd (m w))" by (simp add: io_ok_def)
  with assms(2,3) show "I (snd (io_try m h f w))"
    by (cases "m w"; cases "fst (m w)")
      (auto simp: io_try_def io_ok_def split: error.splits)
qed

lemma io_ok_if [io_intros]: "io_ok I m \<Longrightarrow> io_ok I m' \<Longrightarrow> io_ok I (if b then m else m')"
  by simp

lemma io_ok_option [io_intros]:
  "io_ok I m \<Longrightarrow> (\<And>x. io_ok I (f x)) \<Longrightarrow> io_ok I (case z of None \<Rightarrow> m | Some x \<Rightarrow> f x)"
  by (simp split: option.splits)

lemma io_ok_prod [io_intros]: "(\<And>x y. io_ok I (f x y)) \<Longrightarrow> io_ok I (case z of (x, y) \<Rightarrow> f x y)"
  by (simp split: prod.splits)

lemma io_ok_let [io_intros]: "(\<And>x. io_ok I (f x)) \<Longrightarrow> io_ok I (Let z f)"
  by (simp add: Let_def)

text \<open>
  Others commit through the same transactions: \<open>fair_env\<close> says that what happens between two
  transactions is some sequence of the store's commands.
\<close>

definition fair_env :: "sha \<Rightarrow> flow_env \<Rightarrow> bool" where
  "fair_env sha fe \<longleftrightarrow> (\<forall>k d. reach (core_exec sha) d (fe_between fe k d))"

definition world_ok :: "sha \<Rightarrow> world \<Rightarrow> bool" where
  "world_ok sha w \<longleftrightarrow> core_inv sha (w_db w)"

lemma fair_env_inv: "fair_env sha fe \<Longrightarrow> core_inv sha d \<Longrightarrow> core_inv sha (fe_between fe k d)"
  using core.reach_inv [of sha d "fe_between fe k d"] by (simp add: fair_env_def)

lemma tx_ok:
  assumes "fair_env sha fe" "\<And>k d d' x. core_inv sha d \<Longrightarrow> f k d = Inr (d', x) \<Longrightarrow> core_inv sha d'"
  shows "io_ok (world_ok sha) (tx fe f)"
  using assms fair_env_inv
  by (fastforce simp: io_ok_def tx_def world_ok_def Let_def split: sum.splits prod.splits)

lemma ext_read_ok [io_intros]: "io_ok (world_ok sha) (ext_read f)"
  by (simp add: io_ok_def ext_read_def world_ok_def)

lemma ext_call_ok [io_intros]: "io_ok (world_ok sha) (ext_call f n v r)"
  by (simp add: io_ok_def ext_call_def world_ok_def)

lemma get_io_ok [io_intros]: "fair_env sha fe \<Longrightarrow> io_ok (world_ok sha) (get_io fe i)"
  unfolding get_io_def by (rule tx_ok) auto

lemma get_existing_io_ok [io_intros]: "fair_env sha fe \<Longrightarrow> io_ok (world_ok sha) (get_existing_io fe i)"
  unfolding get_existing_io_def by (intro io_intros)

lemma commit_io_ok [io_intros]: "fair_env sha fe \<Longrightarrow> io_ok (world_ok sha) (commit_io sha fe l q)"
  unfolding commit_io_def by (rule tx_ok) (auto intro: core_commit)

subsection \<open>Calls\<close>

text \<open>
  \<open>silent m\<close>: the process sends no mutation. \<open>sends_once P m\<close>: it sends at most one, and the
  one it sends satisfies \<open>P\<close>.
\<close>

definition silent :: "'a io \<Rightarrow> bool" where
  "silent m \<longleftrightarrow> (\<forall>w. w_calls (snd (m w)) = w_calls w)"

definition sends_once :: "(dispatched_call \<Rightarrow> bool) \<Rightarrow> 'a io \<Rightarrow> bool" where
  "sends_once P m \<longleftrightarrow> (\<forall>w. w_calls (snd (m w)) = w_calls w \<or>
     (\<exists>c. P c \<and> w_calls (snd (m w)) = w_calls w @ [c]))"

named_theorems silent_intros \<open>processes that send nothing\<close>

lemma silent_iff: "silent m \<longleftrightarrow> (\<forall>cs. io_ok (\<lambda>w. w_calls w = cs) m)"
  by (auto simp: silent_def io_ok_def)

lemma silent_return [silent_intros]: "silent (io_return x)"
  by (simp add: silent_def io_return_def)

lemma silent_of [silent_intros]: "silent (io_of m)"
  by (simp add: silent_def io_of_def)

lemma silent_bind [silent_intros]: "silent m \<Longrightarrow> (\<And>x. silent (f x)) \<Longrightarrow> silent (io_bind m f)"
  unfolding silent_iff by (blast intro: io_ok_bind)

lemma silent_try [silent_intros]:
  "silent m \<Longrightarrow> (\<And>c s. silent (h c s)) \<Longrightarrow> (\<And>x. silent (f x)) \<Longrightarrow> silent (io_try m h f)"
  unfolding silent_iff by (blast intro: io_ok_try)

lemma silent_if [silent_intros]: "silent m \<Longrightarrow> silent m' \<Longrightarrow> silent (if b then m else m')"
  by simp

lemma silent_option [silent_intros]:
  "silent m \<Longrightarrow> (\<And>x. silent (f x)) \<Longrightarrow> silent (case z of None \<Rightarrow> m | Some x \<Rightarrow> f x)"
  by (simp split: option.splits)

lemma silent_prod [silent_intros]: "(\<And>x y. silent (f x y)) \<Longrightarrow> silent (case z of (x, y) \<Rightarrow> f x y)"
  by (simp split: prod.splits)

lemma silent_let [silent_intros]: "(\<And>x. silent (f x)) \<Longrightarrow> silent (Let z f)"
  by (simp add: Let_def)

lemma silent_tx [silent_intros]: "silent (tx fe f)"
  by (simp add: silent_def tx_def Let_def split: sum.splits prod.splits)

lemma silent_ext_read [silent_intros]: "silent (ext_read f)"
  by (simp add: silent_def ext_read_def)

lemma silent_get_io [silent_intros]: "silent (get_io fe i)"
  unfolding get_io_def by (rule silent_tx)

lemma silent_get_existing_io [silent_intros]: "silent (get_existing_io fe i)"
  unfolding get_existing_io_def by (intro silent_intros)

lemma silent_commit_io [silent_intros]: "silent (commit_io sha fe l q)"
  unfolding commit_io_def by (rule silent_tx)

subsection \<open>Calls and steps from a known world\<close>

lemma silentE: "silent m \<Longrightarrow> m w = (r, w') \<Longrightarrow> w_calls w' = w_calls w"
  by (metis silent_def snd_conv)

text \<open>Every transaction and every read is one step.\<close>

lemma tx_step: "tx fe f w = (r, w') \<Longrightarrow> w_step w' = Suc (w_step w)"
  by (auto simp: tx_def Let_def split: sum.splits prod.splits)

lemma commit_io_step: "commit_io sha fe lease q w = (r, w') \<Longrightarrow> w_step w' = Suc (w_step w)"
  unfolding commit_io_def by (rule tx_step)

lemma ext_read_step: "ext_read f w = (r, w') \<Longrightarrow> f (w_step w) = r \<and> w_step w' = Suc (w_step w)"
  by (auto simp: ext_read_def)

text \<open>
  \<open>sends_at Q m w\<close>: run in the world \<open>w\<close>, the calls that the process sends satisfy \<open>Q\<close>.
\<close>

definition sends_at :: "(dispatched_call list \<Rightarrow> bool) \<Rightarrow> 'a io \<Rightarrow> world \<Rightarrow> bool" where
  "sends_at Q m w \<longleftrightarrow> (\<exists>cs. Q cs \<and> w_calls (snd (m w)) = w_calls w @ cs)"

definition at_most_one :: "(dispatched_call \<Rightarrow> bool) \<Rightarrow> dispatched_call list \<Rightarrow> bool" where
  "at_most_one P cs \<longleftrightarrow> cs = [] \<or> (\<exists>c. P c \<and> cs = [c])"

lemma at_most_one_Nil [simp]: "at_most_one P []"
  by (simp add: at_most_one_def)

lemma sends_once_at: "sends_once P m \<longleftrightarrow> (\<forall>w. sends_at (at_most_one P) m w)"
  unfolding sends_once_def sends_at_def at_most_one_def by (intro iff_allI) auto

lemma sends_at_silent: "silent m \<Longrightarrow> Q [] \<Longrightarrow> sends_at Q m w"
  by (auto simp: sends_at_def silent_def intro!: exI [of _ "[]"])

lemma sends_at_mono: "sends_at Q m w \<Longrightarrow> (\<And>cs. Q cs \<Longrightarrow> R cs) \<Longrightarrow> sends_at R m w"
  unfolding sends_at_def by blast

lemma sends_at_bind:
  assumes "silent m" "Q []" "\<And>x w'. m w = (Inr x, w') \<Longrightarrow> sends_at Q (f x) w'"
  shows "sends_at Q (io_bind m f) w"
proof -
  obtain r w' where m: "m w = (r, w')" by (cases "m w")
  with assms(1) have "w_calls w' = w_calls w" by (rule silentE)
  with m assms(2,3) show ?thesis by (cases r) (auto simp: sends_at_def io_bind_def)
qed

lemma sends_at_try:
  assumes "silent m" "Q []" "\<And>c s w'. sends_at Q (h c s) w'" "\<And>x w'. m w = (Inr x, w') \<Longrightarrow> sends_at Q (f x) w'"
  shows "sends_at Q (io_try m h f) w"
proof -
  obtain r w' where m: "m w = (r, w')" by (cases "m w")
  with assms(1) have eq: "w_calls w' = w_calls w" by (rule silentE)
  show ?thesis
  proof (cases r)
    case (Inl e)
    have "sends_at Q (h c s) w'" for c s by (rule assms(3))
    then have "\<exists>cs. Q cs \<and> w_calls (snd (h c s w')) = w_calls w @ cs" for c s by (simp add: sends_at_def eq)
    with m eq assms(2) Inl show ?thesis by (cases e) (auto simp: sends_at_def io_try_def)
  next
    case (Inr x)
    with m eq assms(4) show ?thesis by (auto simp: sends_at_def io_try_def)
  qed
qed

text \<open>A call, and what follows it.\<close>

lemma sends_at_call:
  fixes f :: "'a \<Rightarrow> 'b io"
  assumes "\<And>c s w'. w_step w' = Suc (w_step w) \<Longrightarrow> sends_at Q (h c s) w'"
    and "\<And>x w'. w_step w' = Suc (w_step w) \<Longrightarrow> sends_at Q (f x) w'" and "Q []"
    and "\<And>cs. Q cs \<Longrightarrow>
      R (\<lparr>dc_db = w_db w, dc_step = w_step w, dc_node = node, dc_vmid = vmid, dc_request = request\<rparr> # cs)"
  shows "sends_at R (io_try (ext_call g node vmid request) h f) w"
proof -
  let ?c = "\<lparr>dc_db = w_db w, dc_step = w_step w, dc_node = node, dc_vmid = vmid, dc_request = request\<rparr>"
  let ?w = "w\<lparr>w_calls := w_calls w @ [?c], w_step := Suc (w_step w)\<rparr>"
  have run: "io_try (ext_call g node vmid request) h f w = (case g (w_step w) of
      Inl e \<Rightarrow> (case e of FeatureError c s \<Rightarrow> h c s ?w | _ \<Rightarrow> (Inl e, ?w)) | Inr x \<Rightarrow> f x ?w)"
    by (simp add: io_try_def ext_call_def split: sum.splits error.splits)
  have go: "\<exists>cs. R cs \<and> w_calls (snd (k ?w)) = w_calls w @ cs" if "sends_at Q k ?w" for k :: "'b io"
    using that assms(4) by (force simp: sends_at_def)
  have stop: "\<exists>cs. R cs \<and> w_calls (snd (Inl e :: 'b result, ?w)) = w_calls w @ cs" for e
    using assms(3,4) by auto
  show ?thesis
    unfolding sends_at_def run using go [OF assms(1)] go [OF assms(2)] stop by (simp split: sum.splits error.splits)
qed

end
