(* ===== verification/ConfigChange.thy ===== *)
theory ConfigChange
  imports Flow
begin

text \<open>
  \<open>app/operations/vm_config/application.py\<close>: the durable single-dispatch flow of synchronous
  configuration changes. The methods that a feature service defines or overrides (review,
  observation, comparison, expected-state check, the client's call) are the fields of
  \<open>config_service\<close>.
\<close>

section \<open>The service interface\<close>

record change_request =
  rq_idempotency_key :: string
  rq_expected_name :: string
  rq_dump :: pydict

record config_service =
  cs_operation_type :: string
  cs_operation_prefix :: string
  cs_event_prefix :: string
  cs_error_prefix :: string
  cs_recovery_kind :: string
  cs_cluster_id :: string
  cs_validate_target :: "string \<Rightarrow> int \<Rightarrow> unit result"
  cs_review :: "string \<Rightarrow> int \<Rightarrow> nat \<Rightarrow> pydict result"
  cs_check_expected :: "pydict \<Rightarrow> change_request \<Rightarrow> unit result"
  cs_observe :: "pyval \<Rightarrow> pyval \<Rightarrow> nat \<Rightarrow> pydict result"
  cs_matches :: "pydict \<Rightarrow> pyval \<Rightarrow> pyval \<Rightarrow> bool result"
  cs_apply :: "string \<Rightarrow> int \<Rightarrow> change_request \<Rightarrow> nat \<Rightarrow> unit result"

section \<open>Identity and specification\<close>

definition change_identity :: "sha \<Rightarrow> string \<Rightarrow> string \<Rightarrow> int \<Rightarrow> string \<Rightarrow> string" where
  "change_identity sha cluster_id node_id vmid key =
     operation_digest sha [(''cluster_id'', PStr cluster_id), (''node_id'', PStr node_id),
       (''vmid'', PInt vmid), (''idempotency_key'', PStr key)]"

definition change_operation_id :: "string \<Rightarrow> string \<Rightarrow> string" where
  "change_operation_id prefix identity = prefix @ snd (snd (py_partition CHR '':'' identity))"

definition change_target :: "string \<Rightarrow> int \<Rightarrow> change_request \<Rightarrow> pydict" where
  "change_target node_id vmid rq =
     [(''node_id'', PStr node_id), (''vmid'', PInt vmid), (''name'', PStr (rq_expected_name rq))]"

definition change_intent :: "sha \<Rightarrow> pydict \<Rightarrow> change_request \<Rightarrow> string" where
  "change_intent sha target rq = operation_digest sha (dmerge [(''target'', PDict target)] (rq_dump rq))"

definition config_spec :: "sha \<Rightarrow> config_service \<Rightarrow> string \<Rightarrow> int \<Rightarrow> change_request \<Rightarrow> pydict \<Rightarrow> pydict
    \<Rightarrow> operation_spec" where
  "config_spec sha cs node_id vmid rq actor before =
     (let identity = change_identity sha (cs_cluster_id cs) node_id vmid (rq_idempotency_key rq);
          target = change_target node_id vmid rq;
          intent = change_intent sha target rq
      in \<lparr>sp_operation_id = change_operation_id (cs_operation_prefix cs) identity,
          sp_operation_type = cs_operation_type cs, sp_execution_mode = ''managed_api'',
          sp_target_type = ''proxmox_vm'', sp_target_id = ''vmid:'' @ show_int vmid,
          sp_idempotency_key = identity, sp_intent_digest = intent, sp_plan_digest = intent,
          sp_actor = actor_from_mapping actor, sp_initial_status = ''planned'',
          sp_initial_stage = ''plan'', sp_expires_at = None,
          sp_details = [(''target'', PDict target), (''observed_before'', PDict before),
            (''requested'', PDict (rq_dump rq)), (''mutation_dispatched'', PBool False),
            (''dispatch_acknowledged'', PBool False)]\<rparr>)"

definition config_result :: "operation_snapshot \<Rightarrow> bool \<Rightarrow> pydict result" where
  "config_result operation replayed =
     ebind (ditem (sn_details operation) ''target'') (\<lambda>target.
     ebind (ditem (sn_details operation) ''requested'') (\<lambda>requested.
       Inr [(''operation_id'', PStr (sn_operation_id operation)), (''status'', PStr (sn_status operation)),
            (''operation'', PDict [(''operation_id'', PStr (sn_operation_id operation)),
               (''status'', PStr (sn_status operation))]),
            (''target'', target), (''observed_before'', dget (sn_details operation) ''observed_before''),
            (''observed_after'', dget (sn_details operation) ''observed_after''),
            (''requested'', requested), (''failure_code'', dget (sn_details operation) ''failure_code''),
            (''idempotent_replay'', PBool replayed), (''automatic_retry_allowed'', PBool False)]))"

section \<open>The commits of the flow\<close>

definition blocked_commit :: "config_service \<Rightarrow> string \<Rightarrow> commit_request" where
  "blocked_commit cs code =
     (commit_defaults (cs_event_prefix cs @ ''precheck_blocked'') ''precheck'' ''completed'')
       \<lparr>cq_next_status := Some ''blocked'', cq_details_patch := [(''failure_code'', PStr code)],
        cq_expected_statuses := Some [''planned''], cq_release_target_lock := True\<rparr>"

definition dispatching_commit :: "config_service \<Rightarrow> commit_request" where
  "dispatching_commit cs =
     (commit_defaults (cs_event_prefix cs @ ''dispatching'') ''dispatch'' ''leased'')
       \<lparr>cq_next_status := Some ''dispatching'', cq_details_patch := [(''mutation_dispatched'', PBool True)],
        cq_expected_statuses := Some [''planned'']\<rparr>"

definition unknown_commit :: "config_service \<Rightarrow> string \<Rightarrow> commit_request" where
  "unknown_commit cs code =
     (commit_defaults (cs_event_prefix cs @ ''dispatch_unknown'') ''reconciliation'' ''paused'')
       \<lparr>cq_next_status := Some ''needs_reconciliation'', cq_details_patch := [(''failure_code'', PStr code)],
        cq_expected_statuses := Some [''dispatching''],
        cq_error_code := Some (cs_error_prefix cs @ ''DISPATCH_UNKNOWN'')\<rparr>"

definition acknowledged_commit :: "config_service \<Rightarrow> commit_request" where
  "acknowledged_commit cs =
     (commit_defaults (cs_event_prefix cs @ ''dispatch_acknowledged'') ''post_check'' ''leased'')
       \<lparr>cq_next_status := Some ''running'', cq_details_patch := [(''dispatch_acknowledged'', PBool True)],
        cq_expected_statuses := Some [''dispatching'']\<rparr>"

definition fenced :: "operation_snapshot \<Rightarrow> commit_request \<Rightarrow> commit_request" where
  "fenced operation q =
     q\<lparr>cq_expected_version := Some (sn_version operation),
       cq_expected_checksum := Some (sn_last_event_checksum operation)\<rparr>"

definition unconfirmed_commit :: "config_service \<Rightarrow> operation_snapshot \<Rightarrow> pyval \<Rightarrow> string \<Rightarrow> commit_request" where
  "unconfirmed_commit cs operation observed code =
     fenced operation ((commit_defaults (cs_event_prefix cs @ ''result_unconfirmed'') ''reconciliation'' ''paused'')
       \<lparr>cq_next_status := (if sn_status operation = ''needs_reconciliation'' then None
          else Some ''needs_reconciliation''),
        cq_details_patch := [(''observed_after'', observed), (''failure_code'', PStr code)],
        cq_expected_statuses := Some [sn_status operation], cq_error_code := Some code\<rparr>)"

definition observed_commit :: "config_service \<Rightarrow> operation_snapshot \<Rightarrow> pydict \<Rightarrow> commit_request" where
  "observed_commit cs operation observed =
     fenced operation ((commit_defaults (cs_event_prefix cs @ ''state_observed'') ''post_check'' ''leased'')
       \<lparr>cq_next_status := Some ''verifying'', cq_details_patch := [(''observed_after'', PDict observed)],
        cq_expected_statuses := Some [sn_status operation]\<rparr>)"

definition verified_commit :: "config_service \<Rightarrow> operation_snapshot \<Rightarrow> pydict \<Rightarrow> commit_request" where
  "verified_commit cs operation observed =
     fenced operation ((commit_defaults (cs_event_prefix cs @ ''verified'') ''completed'' ''completed'')
       \<lparr>cq_next_status := Some ''succeeded'',
        cq_details_patch := [(''observed_after'', PDict observed), (''failure_code'', PNone)],
        cq_expected_statuses := Some [''verifying''], cq_release_target_lock := True\<rparr>)"

section \<open>Verification\<close>

definition config_unconfirmed :: "sha \<Rightarrow> flow_env \<Rightarrow> config_service \<Rightarrow> recovery_lease \<Rightarrow> operation_snapshot
    \<Rightarrow> pyval \<Rightarrow> string option \<Rightarrow> string io" where
  "config_unconfirmed sha fe cs lease operation observed error_code =
     (let code = (case error_code of
            Some c \<Rightarrow> if c = [] then cs_error_prefix cs @ ''RESULT_UNCONFIRMED'' else c
          | None \<Rightarrow> cs_error_prefix cs @ ''RESULT_UNCONFIRMED'')
      in io_bind (commit_io sha fe lease (unconfirmed_commit cs operation observed code))
           (\<lambda>_. io_return ''paused''))"

definition config_confirmed :: "sha \<Rightarrow> flow_env \<Rightarrow> config_service \<Rightarrow> recovery_lease \<Rightarrow> operation_snapshot
    \<Rightarrow> pydict \<Rightarrow> string io" where
  "config_confirmed sha fe cs lease operation observed =
     (let finish = (\<lambda>lease operation. io_bind (commit_io sha fe lease (verified_commit cs operation observed))
            (\<lambda>_. io_return ''succeeded''))
      in if sn_status operation \<noteq> ''verifying''
         then io_bind (commit_io sha fe lease (observed_commit cs operation observed))
                (\<lambda>(operation', item). finish (renewed lease item) operation')
         else finish lease operation)"

definition config_verify :: "sha \<Rightarrow> flow_env \<Rightarrow> config_service \<Rightarrow> recovery_lease \<Rightarrow> operation_snapshot
    \<Rightarrow> string io" where
  "config_verify sha fe cs lease operation =
     io_bind (io_of (ditem (sn_details operation) ''target'')) (\<lambda>target.
     io_bind (io_of (ditem (sn_details operation) ''requested'')) (\<lambda>requested.
     io_try (io_bind (io_of (dict_item target ''node_id'')) (\<lambda>node.
             io_bind (io_of (dict_item target ''vmid'')) (\<lambda>vmid. ext_read (cs_observe cs node vmid))))
       (\<lambda>code status. config_unconfirmed sha fe cs lease operation PNone (Some code))
       (\<lambda>observed.
          io_bind (io_of (ebind (ditem (sn_details operation) ''observed_before'') (cs_matches cs observed requested)))
            (\<lambda>matched.
               if dget (sn_details operation) ''dispatch_acknowledged'' \<noteq> PBool True \<or> \<not> matched
               then config_unconfirmed sha fe cs lease operation (PDict observed) None
               else config_confirmed sha fe cs lease operation observed))))"

section \<open>Execution\<close>

text \<open>After the dispatch: the response decides between reconciliation and verification.\<close>

definition config_unknown :: "sha \<Rightarrow> flow_env \<Rightarrow> config_service \<Rightarrow> recovery_lease \<Rightarrow> string \<Rightarrow> pydict io" where
  "config_unknown sha fe cs lease code =
     io_bind (commit_io sha fe lease (unknown_commit cs code)) (\<lambda>(operation, _).
       io_of (config_result operation False))"

definition config_acknowledged :: "sha \<Rightarrow> flow_env \<Rightarrow> config_service \<Rightarrow> recovery_lease \<Rightarrow> string \<Rightarrow> pydict io" where
  "config_acknowledged sha fe cs lease operation_id =
     io_bind (commit_io sha fe lease (acknowledged_commit cs)) (\<lambda>(operation, item).
     io_bind (config_verify sha fe cs (renewed lease item) operation) (\<lambda>_.
     io_bind (get_existing_io fe operation_id) (\<lambda>operation. io_of (config_result operation False))))"

definition config_dispatch :: "sha \<Rightarrow> flow_env \<Rightarrow> config_service \<Rightarrow> string \<Rightarrow> int \<Rightarrow> change_request
    \<Rightarrow> recovery_lease \<Rightarrow> string \<Rightarrow> pydict io" where
  "config_dispatch sha fe cs node_id vmid rq lease operation_id =
     io_bind (commit_io sha fe lease (dispatching_commit cs)) (\<lambda>(operation, item).
       let lease' = renewed lease item
       in io_try (ext_call (cs_apply cs node_id vmid rq) node_id vmid (rq_dump rq))
            (\<lambda>code status. config_unknown sha fe cs lease' code)
            (\<lambda>_. config_acknowledged sha fe cs lease' operation_id))"

definition config_admitted :: "sha \<Rightarrow> flow_env \<Rightarrow> config_service \<Rightarrow> string \<Rightarrow> int \<Rightarrow> change_request
    \<Rightarrow> recovery_lease \<Rightarrow> string \<Rightarrow> pydict io" where
  "config_admitted sha fe cs node_id vmid rq lease operation_id =
     io_try (io_bind (ext_read (cs_review cs node_id vmid)) (\<lambda>latest.
               io_of (cs_check_expected cs latest rq)))
       (\<lambda>code status. io_bind (commit_io sha fe lease (blocked_commit cs code))
          (\<lambda>_. io_of (Inl (FeatureError code status))))
       (\<lambda>_. config_dispatch sha fe cs node_id vmid rq lease operation_id)"

definition config_execute :: "sha \<Rightarrow> flow_env \<Rightarrow> config_service \<Rightarrow> string \<Rightarrow> int \<Rightarrow> change_request \<Rightarrow> pydict
    \<Rightarrow> pydict io" where
  "config_execute sha fe cs node_id vmid rq actor =
     io_bind (io_of (cs_validate_target cs node_id vmid)) (\<lambda>_.
       let identity = change_identity sha (cs_cluster_id cs) node_id vmid (rq_idempotency_key rq);
           operation_id = change_operation_id (cs_operation_prefix cs) identity;
           intent = change_intent sha (change_target node_id vmid rq) rq
       in io_bind (get_io fe operation_id) (\<lambda>found. case found of
            Some existing \<Rightarrow>
              if sn_intent_digest existing \<noteq> intent
              then io_of (Inl (FeatureError (cs_error_prefix cs @ ''IDEMPOTENCY_CONFLICT'') 409))
              else io_of (config_result existing True)
          | None \<Rightarrow>
              io_bind (ext_read (cs_review cs node_id vmid)) (\<lambda>before.
              io_bind (io_of (cs_check_expected cs before rq)) (\<lambda>_.
                let spec = config_spec sha cs node_id vmid rq actor before
                in io_bind (io_of (spec_post_init spec)) (\<lambda>_.
                   io_bind (tx fe (\<lambda>k d. vm_prepare sha (fe_admission fe k) d (cs_recovery_kind cs) spec
                              (cs_cluster_id cs) vmid [])) (\<lambda>(operation, admitted). case admitted of
                       None \<Rightarrow> io_of (config_result operation True)
                     | Some lease \<Rightarrow> config_admitted sha fe cs node_id vmid rq lease operation_id))))))"

section \<open>The flow keeps the core's invariant\<close>

lemmas config_stages = config_execute_def config_admitted_def config_dispatch_def config_unknown_def
  config_acknowledged_def

lemma config_confirmed_ok [io_intros]:
  "fair_env sha fe \<Longrightarrow> io_ok (world_ok sha) (config_confirmed sha fe cs l op obs)"
  unfolding config_confirmed_def Let_def by (intro io_intros)

lemma config_unconfirmed_ok [io_intros]:
  "fair_env sha fe \<Longrightarrow> io_ok (world_ok sha) (config_unconfirmed sha fe cs l op obs c)"
  unfolding config_unconfirmed_def by (intro io_intros)

lemma config_verify_ok [io_intros]:
  "fair_env sha fe \<Longrightarrow> io_ok (world_ok sha) (config_verify sha fe cs l op)"
  unfolding config_verify_def by (intro io_intros)

lemma vm_prepare_tx_ok [io_intros]:
  "fair_env sha fe \<Longrightarrow> io_ok (world_ok sha) (tx fe (\<lambda>k d. vm_prepare sha (fe_admission fe k) d kind sp c v rel))"
  by (rule tx_ok) (auto intro: core_vm_prepare)

lemma config_execute_ok:
  "fair_env sha fe \<Longrightarrow> io_ok (world_ok sha) (config_execute sha fe cs node vmid rq actor)"
  unfolding config_stages by (intro io_intros)

section \<open>Verification sends nothing, execution at most one call\<close>

lemma silent_config_confirmed [silent_intros]: "silent (config_confirmed sha fe cs l op obs)"
  unfolding config_confirmed_def Let_def by (intro silent_intros)

lemma silent_config_unconfirmed [silent_intros]: "silent (config_unconfirmed sha fe cs l op obs c)"
  unfolding config_unconfirmed_def by (intro silent_intros)

lemma silent_config_verify [silent_intros]: "silent (config_verify sha fe cs l op)"
  unfolding config_verify_def by (intro silent_intros)

lemma silent_config_unknown [silent_intros]: "silent (config_unknown sha fe cs l c)"
  unfolding config_unknown_def by (intro silent_intros)

lemma silent_config_acknowledged [silent_intros]: "silent (config_acknowledged sha fe cs l i)"
  unfolding config_acknowledged_def by (intro silent_intros)

text \<open>The durable state in which a call may leave: dispatching, with the dispatch recorded.\<close>

definition durably_dispatching :: "string \<Rightarrow> db \<Rightarrow> bool" where
  "durably_dispatching operation_id d \<longleftrightarrow> (\<exists>r. find_operation d operation_id = Some r \<and>
     op_status r = ''dispatching'' \<and> dget (op_details r) ''mutation_dispatched'' = PBool True)"

definition dispatched_as :: "string \<Rightarrow> string \<Rightarrow> int \<Rightarrow> pydict \<Rightarrow> dispatched_call \<Rightarrow> bool" where
  "dispatched_as operation_id node vmid request c \<longleftrightarrow>
     durably_dispatching operation_id (dc_db c) \<and> dc_node c = node \<and> dc_vmid c = vmid \<and> dc_request c = request"

lemma dget_dset: "dget (dset k v d) j = (if j = k then v else dget d j)"
  by (simp add: dget_def)

lemma sanitized_flag: "sanitized [(''mutation_dispatched'', PBool True)] = [(''mutation_dispatched'', PBool True)]"
  by code_simp

text \<open>A commit to \<open>dispatching\<close> with the flag makes the state durable.\<close>

lemma commit_dispatching:
  assumes "commit_observation sha d now en eid lease q = Inr (d', sn, item)"
    and "cq_next_status q = Some ''dispatching''" "cq_projector q = None"
    and "cq_details_patch q = [(''mutation_dispatched'', PBool True)]"
  shows "durably_dispatching (lease_operation_id lease) d'"
  using assms(1)
proof (rule commit_operation_row)
  fix row row' pj
  assume "find_operation d' (lease_operation_id lease) = Some row'"
    and "op_status row' = (case cq_next_status q of None \<Rightarrow> op_status row | Some s \<Rightarrow> s)"
    and "op_details row' = dmerge (op_details row)
       (sanitized (dmerge (sanitized (cq_details_patch q)) (sanitized (pj_operation_details pj))))"
    and "cq_projector q = None \<Longrightarrow> pj = no_projection"
  with assms(2-4) show ?thesis
    by (auto simp: durably_dispatching_def no_projection_def sanitized_flag dget_dset)
qed

lemma sends_once_silent: "silent m \<Longrightarrow> sends_once P m"
  by (simp add: silent_def sends_once_def)

lemma sends_once_of: "sends_once P (io_of m)"
  by (intro sends_once_silent silent_intros)

lemma sends_once_if: "sends_once P m \<Longrightarrow> sends_once P m' \<Longrightarrow> sends_once P (if b then m else m')"
  by simp

lemma sends_once_option:
  "sends_once P m \<Longrightarrow> (\<And>x. sends_once P (f x)) \<Longrightarrow> sends_once P (case z of None \<Rightarrow> m | Some x \<Rightarrow> f x)"
  by (simp split: option.splits)

lemma sends_once_bind:
  assumes "silent m" "\<And>x w w'. m w = (Inr x, w') \<Longrightarrow> sends_once P (f x)"
  shows "sends_once P (io_bind m f)"
  unfolding sends_once_def
proof
  fix w
  obtain r w' where m: "m w = (r, w')" by (cases "m w")
  with assms(1) have eq: "w_calls w' = w_calls w" by (metis silent_def snd_conv)
  show "w_calls (snd (io_bind m f w)) = w_calls w \<or>
      (\<exists>c. P c \<and> w_calls (snd (io_bind m f w)) = w_calls w @ [c])"
  proof (cases r)
    case (Inl e)
    with m eq show ?thesis by (simp add: io_bind_def)
  next
    case (Inr x)
    with m assms(2) have "sends_once P (f x)" by blast
    then have "w_calls (snd (f x w')) = w_calls w' \<or> (\<exists>c. P c \<and> w_calls (snd (f x w')) = w_calls w' @ [c])"
      by (simp add: sends_once_def)
    with m Inr eq show ?thesis by (simp add: io_bind_def)
  qed
qed

lemma sends_once_try:
  assumes "silent m" "\<And>c s. silent (h c s)" "\<And>x. sends_once P (f x)"
  shows "sends_once P (io_try m h f)"
  unfolding sends_once_def
proof
  fix w
  obtain r w' where m: "m w = (r, w')" by (cases "m w")
  with assms(1) have eq: "w_calls w' = w_calls w" by (metis silent_def snd_conv)
  show "w_calls (snd (io_try m h f w)) = w_calls w \<or>
      (\<exists>c. P c \<and> w_calls (snd (io_try m h f w)) = w_calls w @ [c])"
  proof (cases r)
    case (Inl e)
    with m eq assms(2) show ?thesis by (cases e) (simp_all add: io_try_def silent_def)
  next
    case (Inr x)
    from assms(3) have "w_calls (snd (f x w')) = w_calls w' \<or> (\<exists>c. P c \<and> w_calls (snd (f x w')) = w_calls w' @ [c])"
      by (simp add: sends_once_def)
    with m Inr eq show ?thesis by (simp add: io_try_def)
  qed
qed

text \<open>One transaction that makes the dispatch durable, then one call, then silent steps.\<close>

lemma dispatch_once:
  assumes commit: "\<And>w d' sn item. m w = (Inr (sn, item), d') \<Longrightarrow> durably_dispatching oid (w_db d')"
    and "silent m" "\<And>sn item c s. silent (h sn item c s)" "\<And>sn item x. silent (f sn item x)"
  shows "sends_once (dispatched_as oid node vmid request)
    (io_bind m (\<lambda>(sn, item). io_try (ext_call (g sn) node vmid request) (h sn item) (f sn item)))"
  unfolding sends_once_def
proof
  fix w
  obtain r w' where m: "m w = (r, w')" by (cases "m w")
  with assms(2) have eq: "w_calls w' = w_calls w" by (metis silent_def snd_conv)
  let ?e = "\<lambda>sn. io_bind m (\<lambda>(sn, item). io_try (ext_call (g sn) node vmid request) (h sn item) (f sn item))"
  show "w_calls (snd (?e undefined w)) = w_calls w \<or>
      (\<exists>c. dispatched_as oid node vmid request c \<and> w_calls (snd (?e undefined w)) = w_calls w @ [c])"
  proof (cases r)
    case (Inl e)
    with m eq show ?thesis by (simp add: io_bind_def)
  next
    case (Inr x)
    obtain sn item where x: "x = (sn, item)" by (cases x)
    let ?c = "\<lparr>dc_db = w_db w', dc_step = w_step w', dc_node = node, dc_vmid = vmid, dc_request = request\<rparr>"
    let ?w = "w'\<lparr>w_calls := w_calls w' @ [?c], w_step := Suc (w_step w')\<rparr>"
    have "?e undefined w = io_try (ext_call (g sn) node vmid request) (h sn item) (f sn item) w'"
      using m Inr x by (simp add: io_bind_def)
    moreover have "w_calls (snd (io_try (ext_call (g sn) node vmid request) (h sn item) (f sn item) w')) = w_calls ?w"
      using assms(3,4)
      by (cases "g sn (w_step w')") (auto simp: io_try_def ext_call_def silent_def split: error.splits)
    moreover have "dispatched_as oid node vmid request ?c"
      using commit m Inr x by (auto simp: dispatched_as_def)
    ultimately show ?thesis using eq by auto
  qed
qed

lemma tx_InrD: "tx fe f w = (Inr x, w') \<Longrightarrow> \<exists>k d. f k d = Inr (w_db w', x)"
  by (force simp: tx_def Let_def split: sum.splits prod.splits)

lemma commit_io_InrD:
  "commit_io sha fe lease q w = (Inr (sn, item), w') \<Longrightarrow>
     \<exists>d now en eid. commit_observation sha d now en eid lease q = Inr (w_db w', sn, item)"
  unfolding commit_io_def by (drule tx_InrD) auto

lemma config_dispatch_once:
  assumes "lease_operation_id lease = operation_id"
  shows "sends_once (dispatched_as operation_id node vmid (rq_dump rq))
    (config_dispatch sha fe cs node vmid rq lease operation_id)"
  unfolding config_dispatch_def Let_def
proof (rule dispatch_once)
  show "durably_dispatching operation_id (w_db w')"
    if "commit_io sha fe lease (dispatching_commit cs) w = (Inr (sn, item), w')" for w w' sn item
    using commit_io_InrD [OF that] assms
    by (auto simp: dispatching_commit_def commit_defaults_def dest: commit_dispatching)
qed (auto intro!: silent_intros)

lemma record_bound_lease:
  "record_bound sha ae d sp b k = Inr (d', sn, l) \<Longrightarrow> \<exists>lease. l = Some lease \<and> lease_operation_id lease = sp_operation_id sp"
  by (auto simp: record_bound_def Let_def lease_operation_id_def lease_of_def item_of_def new_recovery_row_def
      split: prod.splits elim!: prepare_and_claimD dest: row_of_Some)

lemma vm_prepare_lease:
  "vm_prepare sha ae d k sp c v rel = Inr (d', sn, Some lease) \<Longrightarrow> lease_operation_id lease = sp_operation_id sp"
  by (auto simp: vm_prepare_def replay_def split: option.splits prod.splits if_splits dest: record_bound_lease)

lemma config_admitted_once:
  assumes "lease_operation_id lease = operation_id"
  shows "sends_once (dispatched_as operation_id node vmid (rq_dump rq))
    (config_admitted sha fe cs node vmid rq lease operation_id)"
  unfolding config_admitted_def using config_dispatch_once [OF assms]
  by (intro sends_once_try silent_intros) auto

definition config_operation_id :: "sha \<Rightarrow> config_service \<Rightarrow> string \<Rightarrow> int \<Rightarrow> change_request \<Rightarrow> string" where
  "config_operation_id sha cs node_id vmid rq = change_operation_id (cs_operation_prefix cs)
     (change_identity sha (cs_cluster_id cs) node_id vmid (rq_idempotency_key rq))"

lemma config_spec_id: "sp_operation_id (config_spec sha cs node vmid rq actor before) = config_operation_id sha cs node vmid rq"
  by (simp add: config_spec_def config_operation_id_def Let_def)

lemma config_execute_once:
  "sends_once (dispatched_as (config_operation_id sha cs node vmid rq) node vmid (rq_dump rq))
     (config_execute sha fe cs node vmid rq actor)"
proof -
  let ?oid = "config_operation_id sha cs node vmid rq"
  have admitted: "sends_once (dispatched_as ?oid node vmid (rq_dump rq))
      (case x of (operation, None) \<Rightarrow> io_of (config_result operation True)
        | (operation, Some lease) \<Rightarrow> config_admitted sha fe cs node vmid rq lease ?oid)"
    if tx: "tx fe (\<lambda>k d. vm_prepare sha (fe_admission fe k) d (cs_recovery_kind cs)
          (config_spec sha cs node vmid rq actor before) (cs_cluster_id cs) vmid []) w = (Inr x, w')"
    for x w w' before
  proof (cases "snd x")
    case None
    then show ?thesis by (cases x) (auto intro: sends_once_silent silent_intros)
  next
    case (Some lease)
    with tx_InrD [OF tx] have "lease_operation_id lease = ?oid"
      by (cases x) (auto dest: vm_prepare_lease simp: config_spec_id)
    with Some show ?thesis by (cases x) (simp add: config_admitted_once)
  qed
  show ?thesis
    unfolding config_execute_def Let_def config_operation_id_def [symmetric]
    by (intro sends_once_bind sends_once_option sends_once_if sends_once_of silent_intros) (erule admitted)
qed

section \<open>A replay changes nothing\<close>

lemma config_execute_replay:
  assumes "cs_validate_target cs node vmid = Inr ()"
    and "store_get (fe_between fe (w_step w) (w_db w)) (config_operation_id sha cs node vmid rq) = Some existing"
  shows "w_calls (snd (config_execute sha fe cs node vmid rq actor w)) = w_calls w"
    "w_db (snd (config_execute sha fe cs node vmid rq actor w)) = fe_between fe (w_step w) (w_db w)"
  using assms
  by (simp_all add: config_execute_def Let_def config_operation_id_def io_bind_def io_of_def get_io_def tx_def)

section \<open>Success is verified\<close>

lemma commit_recovery_status:
  assumes "commit_observation sha d now en eid lease q = Inr (d', sn, item)"
  obtains r where "find_recovery d' (lease_operation_id lease) = Some r" "rc_status r = cq_recovery_status q"
  using assms
proof (rule commit_recovery_row)
  fix row pj
  assume row: "find_recovery d (lease_operation_id lease) = Some row"
    and d': "db_recoveries d' = db_recoveries (put_recovery (settled_recovery row q pj now) d)"
  from row_of_Some [OF row] have id: "rc_operation_id row = lease_operation_id lease" by simp
  have "find_recovery d' (lease_operation_id lease) = Some (settled_recovery row q pj now)"
    unfolding d' using row id by (simp add: row_simps)
  then show thesis by (rule that) simp
qed

text \<open>The end state of a verified change: succeeded, recovery completed.\<close>

definition settled_success :: "string \<Rightarrow> db \<Rightarrow> bool" where
  "settled_success oid d \<longleftrightarrow>
     (\<exists>r. find_operation d oid = Some r \<and> op_status r = ''succeeded'') \<and>
     (\<exists>r. find_recovery d oid = Some r \<and> rc_status r = ''completed'')"

lemma commit_success:
  assumes "commit_observation sha d now en eid lease q = Inr (d', sn, item)"
    and "cq_next_status q = Some ''succeeded''" "cq_recovery_status q = ''completed''"
  shows "settled_success (lease_operation_id lease) d'"
proof -
  have "\<exists>r. find_operation d' (lease_operation_id lease) = Some r \<and> op_status r = ''succeeded''"
    by (rule commit_operation_row [OF assms(1)]) (use assms(2) in auto)
  moreover have "\<exists>r. find_recovery d' (lease_operation_id lease) = Some r \<and> rc_status r = ''completed''"
    by (rule commit_recovery_status [OF assms(1)]) (use assms(3) in auto)
  ultimately show ?thesis by (simp add: settled_success_def)
qed

lemma io_bind_InrE:
  assumes "io_bind m f w = (Inr y, w')"
  obtains x w1 where "m w = (Inr x, w1)" "f x w1 = (Inr y, w')"
  using assms by (auto simp: io_bind_def split: prod.splits sum.splits)

lemma io_try_InrE:
  assumes "io_try m h f w = (Inr y, w')"
  obtains (ok) x w1 where "m w = (Inr x, w1)" "f x w1 = (Inr y, w')"
    | (caught) c s w1 where "m w = (Inl (FeatureError c s), w1)" "h c s w1 = (Inr y, w')"
  using assms by (auto simp: io_try_def split: prod.splits sum.splits error.splits)

lemma io_of_Inr: "io_of m w = (Inr x, w') \<longleftrightarrow> m = Inr x \<and> w' = w"
  by (auto simp: io_of_def)

lemma io_return_Inr: "io_return x w = (Inr y, w') \<longleftrightarrow> y = x \<and> w' = w"
  by (auto simp: io_return_def)

lemma ext_read_Inr: "ext_read f w = (Inr x, w') \<Longrightarrow> f (w_step w) = Inr x"
  by (simp add: ext_read_def)

lemma item_of_id: "lease_operation_id (renewed lease (item_of r)) = rc_operation_id r"
  by (simp add: renewed_def lease_operation_id_def item_of_def)

lemma commit_item_id:
  assumes "commit_observation sha d now en eid lease q = Inr (d', sn, item)"
  shows "lease_operation_id (renewed lease item) = lease_operation_id lease"
  using assms
proof (rule commit_observationD)
  fix row operation locks pj
  assume c: "commit_checks sha d now lease q = Inr (row, operation, locks)"
    and item: "item = item_of (settled_recovery row q pj now)"
  from commit_checksD(1) [OF c] have "rc_operation_id row = lease_operation_id lease"
    by (auto simp: owned_row_Inr dest: row_of_Some)
  with item show ?thesis by (simp add: item_of_id)
qed

lemma config_confirmed_success:
  assumes "config_confirmed sha fe cs lease operation observed w = (Inr ''succeeded'', w')"
  shows "settled_success (lease_operation_id lease) (w_db w')"
proof -
  have fin: "settled_success (lease_operation_id l) (w_db w')"
    if c: "commit_io sha fe l (verified_commit cs sn observed) w1 = (Inr r, w')" for l sn w1 r
  proof -
    obtain sn' item where "r = (sn', item)" by (cases r)
    with commit_io_InrD [of sha fe l "verified_commit cs sn observed" w1 sn' item w'] c obtain d now en eid
      where "commit_observation sha d now en eid l (verified_commit cs sn observed) = Inr (w_db w', sn', item)"
      by blast
    then show ?thesis
      by (rule commit_success) (simp_all add: verified_commit_def fenced_def commit_defaults_def)
  qed
  show ?thesis
  proof (cases "sn_status operation = ''verifying''")
    case True
    with assms show ?thesis
      by (auto simp: config_confirmed_def io_return_Inr elim!: io_bind_InrE intro: fin)
  next
    case False
    with assms obtain sn item w1 where
      c: "commit_io sha fe lease (observed_commit cs operation observed) w = (Inr (sn, item), w1)"
      and f: "io_bind (commit_io sha fe (renewed lease item) (verified_commit cs sn observed))
          (\<lambda>_. io_return ''succeeded'') w1 = (Inr ''succeeded'', w')"
      by (auto simp: config_confirmed_def elim!: io_bind_InrE [of "commit_io sha fe lease (observed_commit cs operation observed)"])
    from commit_io_InrD [OF c] have "lease_operation_id (renewed lease item) = lease_operation_id lease"
      using commit_item_id by blast
    with f show ?thesis using fin [of "renewed lease item"] by (auto simp: io_return_Inr elim!: io_bind_InrE)
  qed
qed

lemma config_unconfirmed_paused [simp]:
  "config_unconfirmed sha fe cs lease operation obs c w \<noteq> (Inr ''succeeded'', w')"
  by (auto simp: config_unconfirmed_def Let_def io_return_Inr elim!: io_bind_InrE)

text \<open>
  \<open>config_evidence\<close>: the recorded operation was acknowledged and one observation matched the
  recorded request and the recorded earlier state.
\<close>

definition config_evidence :: "config_service \<Rightarrow> operation_snapshot \<Rightarrow> pydict \<Rightarrow> bool" where
  "config_evidence cs operation observed \<longleftrightarrow>
     dget (sn_details operation) ''dispatch_acknowledged'' = PBool True \<and>
     (\<exists>node vmid k. cs_observe cs node vmid k = Inr observed) \<and>
     (\<exists>requested before. ditem (sn_details operation) ''requested'' = Inr requested \<and>
        ditem (sn_details operation) ''observed_before'' = Inr before \<and>
        cs_matches cs observed requested before = Inr True)"

lemma config_verify_success:
  assumes "config_verify sha fe cs lease operation w = (Inr ''succeeded'', w')"
  shows "settled_success (lease_operation_id lease) (w_db w')"
    "\<exists>observed. config_evidence cs operation observed"
  using assms unfolding config_verify_def config_evidence_def
  by (auto elim!: io_bind_InrE io_try_InrE simp: io_of_Inr ebind_Inr_iff split: if_splits
      dest!: config_confirmed_success ext_read_Inr) blast

section \<open>The interface of a configuration feature\<close>

text \<open>
  What a feature promises: when its comparison says that an observation matches a request, the
  observation has the property \<open>achieved\<close>. A verified operation then has an observation with
  that property for the request it recorded.
\<close>

locale config_feature =
  fixes cs :: config_service and achieved :: "pydict \<Rightarrow> pyval \<Rightarrow> bool"
  assumes matches_achieved: "cs_matches cs observed requested before = Inr True \<Longrightarrow> achieved observed requested"
begin

lemma evidence_achieved:
  "config_evidence cs operation observed \<Longrightarrow>
     \<exists>requested. ditem (sn_details operation) ''requested'' = Inr requested \<and> achieved observed requested"
  using matches_achieved by (auto simp: config_evidence_def)

lemma success_achieved:
  assumes "config_verify sha fe cs lease operation w = (Inr ''succeeded'', w')"
  shows "\<exists>observed requested. ditem (sn_details operation) ''requested'' = Inr requested \<and>
       achieved observed requested \<and> (\<exists>node vmid k. cs_observe cs node vmid k = Inr observed)"
proof -
  from config_verify_success(2) [OF assms] obtain observed where ev: "config_evidence cs operation observed"
    by blast
  with evidence_achieved obtain requested where
    "ditem (sn_details operation) ''requested'' = Inr requested" "achieved observed requested" by blast
  moreover from ev have "\<exists>node vmid k. cs_observe cs node vmid k = Inr observed" by (simp add: config_evidence_def)
  ultimately show ?thesis by blast
qed

end

end
