(* ===== verification/TaskChange.thy ===== *)
theory TaskChange
  imports ConfigChange
begin

text \<open>
  \<open>app/operations/vm_config/task_application.py\<close>: one asynchronous Proxmox task per operation,
  bound durably to its task reference; recovery only observes. The methods that a feature
  defines or overrides and the client's calls are the fields of \<open>task_service\<close>; \<open>ts_polls\<close> is the
  number of heartbeats that the client sends while it waits for the task, \<open>ts_check_reference\<close> the
  check of the recorded task reference that some features put in front of \<open>verify\<close>.
\<close>

section \<open>The service interface\<close>

record task_service =
  ts_operation_type :: string
  ts_operation_prefix :: string
  ts_event_prefix :: string
  ts_error_prefix :: string
  ts_recovery_kind :: string
  ts_cluster_id :: string
  ts_target :: "string \<Rightarrow> int \<Rightarrow> change_request \<Rightarrow> pydict"
  ts_extra_details :: "string \<Rightarrow> int \<Rightarrow> change_request \<Rightarrow> pydict"
  ts_review :: "string \<Rightarrow> int \<Rightarrow> change_request \<Rightarrow> nat \<Rightarrow> pydict result"
  ts_check_expected :: "pydict \<Rightarrow> change_request \<Rightarrow> unit result"
  ts_lock_vmids :: "int \<Rightarrow> change_request \<Rightarrow> int \<times> int list"
  ts_dispatch :: "string \<Rightarrow> int \<Rightarrow> change_request \<Rightarrow> operation_snapshot \<Rightarrow> nat \<Rightarrow> string result"
  ts_polls :: "nat \<Rightarrow> nat"
  ts_task :: "pyval \<Rightarrow> pyval \<Rightarrow> nat \<Rightarrow> pydict result"
  ts_observe_result :: "operation_snapshot \<Rightarrow> nat \<Rightarrow> pydict result"
  ts_matches :: "pydict \<Rightarrow> pyval \<Rightarrow> pyval \<Rightarrow> bool result"
  ts_check_reference :: "operation_snapshot \<Rightarrow> unit result"

definition task_operation_id :: "sha \<Rightarrow> task_service \<Rightarrow> string \<Rightarrow> int \<Rightarrow> change_request \<Rightarrow> string" where
  "task_operation_id sha ts node_id vmid rq = change_operation_id (ts_operation_prefix ts)
     (change_identity sha (ts_cluster_id ts) node_id vmid (rq_idempotency_key rq))"

definition task_spec :: "sha \<Rightarrow> task_service \<Rightarrow> string \<Rightarrow> int \<Rightarrow> change_request \<Rightarrow> pydict \<Rightarrow> pydict
    \<Rightarrow> operation_spec" where
  "task_spec sha ts node_id vmid rq actor before =
     (let target = ts_target ts node_id vmid rq; intent = change_intent sha target rq
      in \<lparr>sp_operation_id = task_operation_id sha ts node_id vmid rq,
          sp_operation_type = ts_operation_type ts, sp_execution_mode = ''managed_api'',
          sp_target_type = ''proxmox_vm'', sp_target_id = ''vmid:'' @ py_str (dget target ''vmid''),
          sp_idempotency_key = change_identity sha (ts_cluster_id ts) node_id vmid (rq_idempotency_key rq),
          sp_intent_digest = intent, sp_plan_digest = intent,
          sp_actor = actor_from_mapping actor, sp_initial_status = ''planned'',
          sp_initial_stage = ''plan'', sp_expires_at = None,
          sp_details = dmerge [(''target'', PDict target), (''observed_before'', PDict before),
            (''requested'', PDict (rq_dump rq)), (''mutation_dispatched'', PBool False)]
            (ts_extra_details ts node_id vmid rq)\<rparr>)"

definition task_result :: "operation_snapshot \<Rightarrow> bool \<Rightarrow> pydict result" where
  "task_result operation replayed =
     ebind (ditem (sn_details operation) ''target'') (\<lambda>target.
     ebind (ditem (sn_details operation) ''requested'') (\<lambda>requested.
       Inr [(''operation_id'', PStr (sn_operation_id operation)), (''status'', PStr (sn_status operation)),
            (''operation'', PDict [(''operation_id'', PStr (sn_operation_id operation)),
               (''status'', PStr (sn_status operation))]),
            (''target'', target), (''observed_before'', dget (sn_details operation) ''observed_before''),
            (''observed_after'', dget (sn_details operation) ''observed_after''),
            (''requested'', requested), (''task'', dget (sn_details operation) ''task''),
            (''failure_code'', dget (sn_details operation) ''failure_code''),
            (''idempotent_replay'', PBool replayed), (''automatic_retry_allowed'', PBool False)]))"

section \<open>The commits of the flow\<close>

definition task_blocked_commit :: "task_service \<Rightarrow> string \<Rightarrow> commit_request" where
  "task_blocked_commit ts code =
     (commit_defaults (ts_event_prefix ts @ ''precheck_blocked'') ''precheck'' ''completed'')
       \<lparr>cq_next_status := Some ''blocked'', cq_details_patch := [(''failure_code'', PStr code)],
        cq_expected_statuses := Some [''planned''], cq_release_target_lock := True\<rparr>"

definition task_dispatching_commit :: "task_service \<Rightarrow> commit_request" where
  "task_dispatching_commit ts =
     (commit_defaults (ts_event_prefix ts @ ''dispatching'') ''dispatch'' ''leased'')
       \<lparr>cq_next_status := Some ''dispatching'', cq_details_patch := [(''mutation_dispatched'', PBool True)],
        cq_expected_statuses := Some [''planned'']\<rparr>"

definition task_bound_commit :: "task_service \<Rightarrow> string \<Rightarrow> commit_request" where
  "task_bound_commit ts upid =
     (commit_defaults (ts_event_prefix ts @ ''task_bound'') ''task'' ''leased'')
       \<lparr>cq_next_status := Some ''running'', cq_details_patch := [(''proxmox_upid'', PStr upid)],
        cq_recovery_details_patch := [(''upid'', PStr upid)],
        cq_expected_statuses := Some [''dispatching'']\<rparr>"

definition pause_commit :: "task_service \<Rightarrow> operation_snapshot \<Rightarrow> string \<Rightarrow> pydict \<Rightarrow> commit_request" where
  "pause_commit ts operation code evidence =
     fenced operation ((commit_defaults (ts_event_prefix ts @ ''result_unconfirmed'') ''reconciliation'' ''paused'')
       \<lparr>cq_next_status := (if sn_status operation = ''needs_reconciliation'' then None
          else Some ''needs_reconciliation''),
        cq_details_patch := dmerge [(''failure_code'', PStr code)] evidence,
        cq_expected_statuses := Some [sn_status operation], cq_error_code := Some code\<rparr>)"

definition task_running_commit :: "task_service \<Rightarrow> operation_snapshot \<Rightarrow> pydict \<Rightarrow> commit_request" where
  "task_running_commit ts operation task =
     (commit_defaults (ts_event_prefix ts @ ''task_running'') ''task'' ''retry_wait'')
       \<lparr>cq_details_patch := [(''task'', PDict task)],
        cq_expected_statuses := Some [sn_status operation], cq_retry_delay := 5000000\<rparr>"

definition size_observed_commit :: "task_service \<Rightarrow> operation_snapshot \<Rightarrow> pydict \<Rightarrow> pydict \<Rightarrow> commit_request" where
  "size_observed_commit ts operation after task =
     fenced operation ((commit_defaults (ts_event_prefix ts @ ''size_observed'') ''post_check'' ''leased'')
       \<lparr>cq_next_status := Some ''verifying'',
        cq_details_patch := [(''observed_after'', PDict after), (''task'', PDict task)],
        cq_expected_statuses := Some [sn_status operation]\<rparr>)"

definition task_verified_commit :: "task_service \<Rightarrow> operation_snapshot \<Rightarrow> pydict \<Rightarrow> pydict \<Rightarrow> commit_request" where
  "task_verified_commit ts operation after task =
     fenced operation ((commit_defaults (ts_event_prefix ts @ ''verified'') ''completed'' ''completed'')
       \<lparr>cq_next_status := Some ''succeeded'',
        cq_details_patch := [(''observed_after'', PDict after), (''task'', PDict task), (''failure_code'', PNone)],
        cq_expected_statuses := Some [''verifying''], cq_release_target_lock := True\<rparr>)"

section \<open>Verification\<close>

definition task_pause :: "sha \<Rightarrow> flow_env \<Rightarrow> task_service \<Rightarrow> recovery_lease \<Rightarrow> operation_snapshot \<Rightarrow> string
    \<Rightarrow> pydict \<Rightarrow> string io" where
  "task_pause sha fe ts lease operation code evidence =
     io_bind (commit_io sha fe lease (pause_commit ts operation code evidence)) (\<lambda>_. io_return ''paused'')"

definition task_confirmed :: "sha \<Rightarrow> flow_env \<Rightarrow> task_service \<Rightarrow> recovery_lease \<Rightarrow> operation_snapshot \<Rightarrow> pydict
    \<Rightarrow> pydict \<Rightarrow> string io" where
  "task_confirmed sha fe ts lease operation after task =
     (let finish = (\<lambda>lease operation. io_bind (commit_io sha fe lease (task_verified_commit ts operation after task))
            (\<lambda>_. io_return ''succeeded''))
      in if sn_status operation \<noteq> ''verifying''
         then io_bind (commit_io sha fe lease (size_observed_commit ts operation after task))
                (\<lambda>(operation', item). finish (renewed lease item) operation')
         else finish lease operation)"

text \<open>What the \<open>try\<close> block of \<open>verify\<close> yields: an early outcome, or the task and the observation.\<close>

datatype task_look =
    StillRunning pydict
  | TaskUnconfirmed pydict
  | TaskDone pydict pydict

definition task_look :: "task_service \<Rightarrow> operation_snapshot \<Rightarrow> pyval \<Rightarrow> pyval \<Rightarrow> pydict option \<Rightarrow> task_look io" where
  "task_look ts operation target upid given =
     io_bind (case given of
         Some t \<Rightarrow> if t \<noteq> [] then io_return t
                   else io_bind (io_of (dict_item target ''node_id'')) (\<lambda>node. ext_read (ts_task ts node upid))
       | None \<Rightarrow> io_bind (io_of (dict_item target ''node_id'')) (\<lambda>node. ext_read (ts_task ts node upid)))
     (\<lambda>task.
        io_bind (io_of (ditem task ''status'')) (\<lambda>status.
          if status \<in> {PStr ''running'', PStr ''queued''} then io_return (StillRunning task)
          else if status \<noteq> PStr ''stopped'' then io_return (TaskUnconfirmed task)
          else io_bind (io_of (ditem task ''exitstatus'')) (\<lambda>exitstatus.
            if exitstatus \<noteq> PStr ''OK'' then io_return (TaskUnconfirmed task)
            else io_bind (ext_read (ts_observe_result ts operation)) (\<lambda>after.
              io_return (TaskDone task after)))))"

definition task_super_verify :: "sha \<Rightarrow> flow_env \<Rightarrow> task_service \<Rightarrow> recovery_lease \<Rightarrow> operation_snapshot
    \<Rightarrow> pydict option \<Rightarrow> string io" where
  "task_super_verify sha fe ts lease operation given =
     io_bind (io_of (ditem (sn_details operation) ''target'')) (\<lambda>target.
       let upid = dget (sn_details operation) ''proxmox_upid''
       in if \<not> truthy upid
          then task_pause sha fe ts lease operation (ts_error_prefix ts @ ''TASK_REFERENCE_MISSING'') []
          else io_try (task_look ts operation target upid given)
            (\<lambda>code status. task_pause sha fe ts lease operation code [])
            (\<lambda>look. case look of
                StillRunning task \<Rightarrow>
                  io_bind (commit_io sha fe lease (task_running_commit ts operation task))
                    (\<lambda>_. io_return ''retry_wait'')
              | TaskUnconfirmed task \<Rightarrow>
                  task_pause sha fe ts lease operation (ts_error_prefix ts @ ''TASK_UNCONFIRMED'')
                    [(''task'', PDict task)]
              | TaskDone task after \<Rightarrow>
                  io_bind (io_of (ebind (ditem (sn_details operation) ''requested'') (\<lambda>requested.
                      ebind (ditem (sn_details operation) ''observed_before'') (ts_matches ts after requested))))
                    (\<lambda>matched.
                       if \<not> matched
                       then task_pause sha fe ts lease operation (ts_error_prefix ts @ ''RESULT_UNCONFIRMED'')
                              [(''observed_after'', PDict after), (''task'', PDict task)]
                       else task_confirmed sha fe ts lease operation after task)))"

text \<open>
  \<open>verify\<close> as the services have it: with a recorded task reference the feature's check comes first.
  Features that do not override \<open>verify\<close> have a check that always passes.
\<close>

definition task_verify :: "sha \<Rightarrow> flow_env \<Rightarrow> task_service \<Rightarrow> recovery_lease \<Rightarrow> operation_snapshot
    \<Rightarrow> pydict option \<Rightarrow> string io" where
  "task_verify sha fe ts lease operation given =
     io_bind (io_of (ditem (sn_details operation) ''target'')) (\<lambda>target.
       if truthy (dget (sn_details operation) ''proxmox_upid'')
       then io_try (io_of (ts_check_reference ts operation))
              (\<lambda>code status. task_pause sha fe ts lease operation code [])
              (\<lambda>_. task_super_verify sha fe ts lease operation given)
       else task_super_verify sha fe ts lease operation given)"

section \<open>Execution\<close>

fun heartbeats :: "flow_env \<Rightarrow> nat \<Rightarrow> recovery_lease \<Rightarrow> recovery_lease io" where
  "heartbeats fe 0 lease = io_return lease"
| "heartbeats fe (Suc n) lease =
     io_bind (tx fe (\<lambda>k d. heartbeat d (fe_now fe k) lease 60000000)) (heartbeats fe n)"

definition finished_result :: "flow_env \<Rightarrow> string \<Rightarrow> pydict io" where
  "finished_result fe operation_id =
     io_bind (get_existing_io fe operation_id) (\<lambda>operation. io_of (task_result operation False))"

definition task_bound :: "sha \<Rightarrow> flow_env \<Rightarrow> task_service \<Rightarrow> string \<Rightarrow> recovery_lease \<Rightarrow> string \<Rightarrow> string
    \<Rightarrow> pydict io" where
  "task_bound sha fe ts node_id lease operation_id upid =
     io_bind (commit_io sha fe lease (task_bound_commit ts upid)) (\<lambda>(operation, item).
     io_bind (ext_read (\<lambda>k. Inr (ts_polls ts k))) (\<lambda>polls.
     io_bind (heartbeats fe polls (renewed lease item)) (\<lambda>lease'.
     io_bind (io_try (ext_read (ts_task ts (PStr node_id) (PStr upid)))
               (\<lambda>code status. task_pause sha fe ts lease' operation code [])
               (\<lambda>task. task_verify sha fe ts lease' operation (Some task))) (\<lambda>_.
       finished_result fe operation_id))))"

definition task_dispatched :: "sha \<Rightarrow> flow_env \<Rightarrow> task_service \<Rightarrow> string \<Rightarrow> int \<Rightarrow> change_request
    \<Rightarrow> recovery_lease \<Rightarrow> string \<Rightarrow> pydict io" where
  "task_dispatched sha fe ts node_id vmid rq lease operation_id =
     io_bind (commit_io sha fe lease (task_dispatching_commit ts)) (\<lambda>(operation, item).
       io_try (ext_call (ts_dispatch ts node_id vmid rq operation) node_id vmid (rq_dump rq))
         (\<lambda>code status. io_bind (task_pause sha fe ts (renewed lease item) operation code [])
            (\<lambda>_. finished_result fe operation_id))
         (\<lambda>upid. task_bound sha fe ts node_id (renewed lease item) operation_id upid))"

definition task_admitted :: "sha \<Rightarrow> flow_env \<Rightarrow> task_service \<Rightarrow> string \<Rightarrow> int \<Rightarrow> change_request
    \<Rightarrow> recovery_lease \<Rightarrow> string \<Rightarrow> pydict io" where
  "task_admitted sha fe ts node_id vmid rq lease operation_id =
     io_try (io_bind (ext_read (ts_review ts node_id vmid rq)) (\<lambda>latest. io_of (ts_check_expected ts latest rq)))
       (\<lambda>code status. io_bind (commit_io sha fe lease (task_blocked_commit ts code))
          (\<lambda>_. io_of (Inl (FeatureError code status))))
       (\<lambda>_. task_dispatched sha fe ts node_id vmid rq lease operation_id)"

definition task_execute :: "sha \<Rightarrow> flow_env \<Rightarrow> task_service \<Rightarrow> string \<Rightarrow> int \<Rightarrow> change_request \<Rightarrow> pydict
    \<Rightarrow> pydict io" where
  "task_execute sha fe ts node_id vmid rq actor =
     (let operation_id = task_operation_id sha ts node_id vmid rq;
          intent = change_intent sha (ts_target ts node_id vmid rq) rq
      in io_bind (get_io fe operation_id) (\<lambda>found. case found of
            Some existing \<Rightarrow>
              if sn_intent_digest existing \<noteq> intent
              then io_of (Inl (FeatureError (ts_error_prefix ts @ ''IDEMPOTENCY_CONFLICT'') 409))
              else io_of (task_result existing True)
          | None \<Rightarrow>
              io_bind (ext_read (ts_review ts node_id vmid rq)) (\<lambda>before.
              io_bind (io_of (ts_check_expected ts before rq)) (\<lambda>_.
                let spec = task_spec sha ts node_id vmid rq actor before;
                    (lock_vmid, related) = ts_lock_vmids ts vmid rq
                in io_bind (io_of (spec_post_init spec)) (\<lambda>_.
                   io_bind (tx fe (\<lambda>k d. vm_prepare sha (fe_admission fe k) d (ts_recovery_kind ts) spec
                              (ts_cluster_id ts) lock_vmid related)) (\<lambda>(operation, admitted). case admitted of
                       None \<Rightarrow> io_of (task_result operation True)
                     | Some lease \<Rightarrow> task_admitted sha fe ts node_id vmid rq lease operation_id))))))"

section \<open>The flow keeps the core's invariant\<close>

lemma io_ok_look [io_intros]:
  "(\<And>t. io_ok I (f t)) \<Longrightarrow> (\<And>t. io_ok I (g t)) \<Longrightarrow> (\<And>t a. io_ok I (h t a)) \<Longrightarrow>
     io_ok I (case look of StillRunning t \<Rightarrow> f t | TaskUnconfirmed t \<Rightarrow> g t | TaskDone t a \<Rightarrow> h t a)"
  by (simp split: task_look.splits)

lemma heartbeat_tx_ok [io_intros]:
  "fair_env sha fe \<Longrightarrow> io_ok (world_ok sha) (tx fe (\<lambda>k d. heartbeat d (fe_now fe k) lease us))"
  by (rule tx_ok) (auto intro: core_inv_claim heartbeat_inv dest: claim_frames(3))

lemma heartbeats_ok [io_intros]:
  "fair_env sha fe \<Longrightarrow> io_ok (world_ok sha) (heartbeats fe n lease)"
  by (induction n arbitrary: lease) (auto intro!: io_intros)

lemma task_pause_ok [io_intros]:
  "fair_env sha fe \<Longrightarrow> io_ok (world_ok sha) (task_pause sha fe ts l op c e)"
  unfolding task_pause_def by (intro io_intros)

lemma task_confirmed_ok [io_intros]:
  "fair_env sha fe \<Longrightarrow> io_ok (world_ok sha) (task_confirmed sha fe ts l op a t)"
  unfolding task_confirmed_def Let_def by (intro io_intros)

lemma task_look_ok [io_intros]: "io_ok (world_ok sha) (task_look ts op target upid given)"
  unfolding task_look_def by (intro io_intros)

lemma task_super_verify_ok [io_intros]:
  "fair_env sha fe \<Longrightarrow> io_ok (world_ok sha) (task_super_verify sha fe ts l op given)"
  unfolding task_super_verify_def by (intro io_intros)

lemma task_verify_ok [io_intros]:
  "fair_env sha fe \<Longrightarrow> io_ok (world_ok sha) (task_verify sha fe ts l op given)"
  unfolding task_verify_def by (intro io_intros)

lemmas task_stages = task_execute_def task_admitted_def task_dispatched_def task_bound_def finished_result_def

lemma task_execute_ok:
  "fair_env sha fe \<Longrightarrow> io_ok (world_ok sha) (task_execute sha fe ts node vmid rq actor)"
  unfolding task_stages by (intro io_intros)

section \<open>Verification sends nothing, execution at most one call\<close>

lemma silent_look [silent_intros]:
  "(\<And>t. silent (f t)) \<Longrightarrow> (\<And>t. silent (g t)) \<Longrightarrow> (\<And>t a. silent (h t a)) \<Longrightarrow>
     silent (case look of StillRunning t \<Rightarrow> f t | TaskUnconfirmed t \<Rightarrow> g t | TaskDone t a \<Rightarrow> h t a)"
  by (simp split: task_look.splits)

lemma silent_heartbeats [silent_intros]: "silent (heartbeats fe n lease)"
  by (induction n arbitrary: lease) (auto intro!: silent_intros)

lemma silent_task_pause [silent_intros]: "silent (task_pause sha fe ts l op c e)"
  unfolding task_pause_def by (intro silent_intros)

lemma silent_task_confirmed [silent_intros]: "silent (task_confirmed sha fe ts l op a t)"
  unfolding task_confirmed_def Let_def by (intro silent_intros)

lemma silent_task_look [silent_intros]: "silent (task_look ts op target upid given)"
  unfolding task_look_def by (intro silent_intros)

lemma silent_task_super_verify [silent_intros]: "silent (task_super_verify sha fe ts l op given)"
  unfolding task_super_verify_def by (intro silent_intros)

lemma silent_task_verify [silent_intros]: "silent (task_verify sha fe ts l op given)"
  unfolding task_verify_def by (intro silent_intros)

lemma silent_finished_result [silent_intros]: "silent (finished_result fe i)"
  unfolding finished_result_def by (intro silent_intros)

lemma silent_task_bound [silent_intros]: "silent (task_bound sha fe ts node l i u)"
  unfolding task_bound_def by (intro silent_intros)

text \<open>
  \<open>task_reviewed\<close>: before the call, the client was read once more and the review passed the check
  of what the request expects.
\<close>

definition task_reviewed :: "task_service \<Rightarrow> string \<Rightarrow> int \<Rightarrow> change_request \<Rightarrow> dispatched_call \<Rightarrow> bool" where
  "task_reviewed ts node vmid rq c \<longleftrightarrow> (\<exists>latest k. k < dc_step c \<and>
     ts_review ts node vmid rq k = Inr latest \<and> ts_check_expected ts latest rq = Inr ())"

lemma task_dispatched_at:
  assumes "lease_operation_id lease = operation_id"
  shows "sends_at (at_most_one (\<lambda>c. dispatched_as operation_id node vmid (rq_dump rq) c \<and> w_step w \<le> dc_step c))
    (task_dispatched sha fe ts node vmid rq lease operation_id) w"
  unfolding task_dispatched_def
proof (rule sends_at_bind)
  fix x w'
  assume c: "commit_io sha fe lease (task_dispatching_commit ts) w = (Inr x, w')"
  obtain sn item where x: "x = (sn, item)" by (cases x)
  have "durably_dispatching operation_id (w_db w')"
    using commit_io_InrD [OF c [unfolded x]] assms
    by (auto simp: task_dispatching_commit_def commit_defaults_def dest: commit_dispatching)
  with commit_io_step [OF c]
  show "sends_at (at_most_one (\<lambda>c. dispatched_as operation_id node vmid (rq_dump rq) c \<and> w_step w \<le> dc_step c))
      (case x of (operation, item) \<Rightarrow> io_try (ext_call (ts_dispatch ts node vmid rq operation) node vmid (rq_dump rq))
         (\<lambda>code status. io_bind (task_pause sha fe ts (renewed lease item) operation code [])
            (\<lambda>_. finished_result fe operation_id))
         (\<lambda>upid. task_bound sha fe ts node (renewed lease item) operation_id upid)) w'"
    unfolding x prod.case
    by (intro sends_at_call [where Q = "\<lambda>cs. cs = []"] sends_at_silent silent_intros)
      (simp_all add: at_most_one_def dispatched_as_def)
qed (simp_all add: silent_commit_io)

lemma task_admitted_once:
  assumes "lease_operation_id lease = operation_id"
  shows "sends_once (\<lambda>c. dispatched_as operation_id node vmid (rq_dump rq) c \<and> task_reviewed ts node vmid rq c)
    (task_admitted sha fe ts node vmid rq lease operation_id)"
  unfolding task_admitted_def sends_once_at
proof (intro allI sends_at_try)
  fix w x w'
  assume "io_bind (ext_read (ts_review ts node vmid rq)) (\<lambda>latest. io_of (ts_check_expected ts latest rq)) w = (Inr x, w')"
  then obtain latest where "ts_review ts node vmid rq (w_step w) = Inr latest" "ts_check_expected ts latest rq = Inr ()"
      and step: "w_step w' = Suc (w_step w)"
    by (auto elim!: io_bind_InrE simp: io_of_Inr dest!: ext_read_step)
  then have "task_reviewed ts node vmid rq c" if "w_step w' \<le> dc_step c" for c
    using that unfolding task_reviewed_def by (metis Suc_le_eq)
  then show "sends_at (at_most_one (\<lambda>c. dispatched_as operation_id node vmid (rq_dump rq) c \<and> task_reviewed ts node vmid rq c))
      (task_dispatched sha fe ts node vmid rq lease operation_id) w'"
    by (intro sends_at_mono [OF task_dispatched_at [OF assms]]) (auto simp: at_most_one_def)
qed (auto intro!: sends_at_silent silent_intros)

lemma task_spec_id: "sp_operation_id (task_spec sha ts node vmid rq actor before) = task_operation_id sha ts node vmid rq"
  by (simp add: task_spec_def Let_def)

lemma task_execute_reviewed:
  "sends_once (\<lambda>c. dispatched_as (task_operation_id sha ts node vmid rq) node vmid (rq_dump rq) c \<and> task_reviewed ts node vmid rq c)
     (task_execute sha fe ts node vmid rq actor)"
proof -
  let ?oid = "task_operation_id sha ts node vmid rq"
  let ?P = "\<lambda>c. dispatched_as ?oid node vmid (rq_dump rq) c \<and> task_reviewed ts node vmid rq c"
  have admitted: "sends_once ?P
      (case x of (operation, None) \<Rightarrow> io_of (task_result operation True)
        | (operation, Some lease) \<Rightarrow> task_admitted sha fe ts node vmid rq lease ?oid)"
    if tx: "tx fe (\<lambda>k d. vm_prepare sha (fe_admission fe k) d (ts_recovery_kind ts)
          (task_spec sha ts node vmid rq actor before) (ts_cluster_id ts) lv rel) w = (Inr x, w')"
    for x w w' before lv rel
  proof (cases "snd x")
    case None
    then show ?thesis by (cases x) (auto intro: sends_once_silent silent_intros)
  next
    case (Some lease)
    with tx_InrD [OF tx] have "lease_operation_id lease = ?oid"
      by (cases x) (auto dest: vm_prepare_lease simp: task_spec_id)
    with Some show ?thesis by (cases x) (simp add: task_admitted_once)
  qed
  obtain lv rel where "ts_lock_vmids ts vmid rq = (lv, rel)" by (cases "ts_lock_vmids ts vmid rq")
  then show ?thesis
    unfolding task_execute_def Let_def
    by simp (intro sends_once_bind sends_once_option sends_once_if sends_once_of silent_intros; erule admitted)
qed

lemma sends_once_mono: "sends_once P m \<Longrightarrow> (\<And>c. P c \<Longrightarrow> Q c) \<Longrightarrow> sends_once Q m"
  unfolding sends_once_def by blast

lemma task_execute_once:
  "sends_once (dispatched_as (task_operation_id sha ts node vmid rq) node vmid (rq_dump rq))
     (task_execute sha fe ts node vmid rq actor)"
  by (rule sends_once_mono [OF task_execute_reviewed]) simp

section \<open>Success is verified\<close>

lemma task_confirmed_success:
  assumes "task_confirmed sha fe ts lease operation after task w = (Inr ''succeeded'', w')"
  shows "settled_success (lease_operation_id lease) (w_db w')"
proof -
  have fin: "settled_success (lease_operation_id l) (w_db w')"
    if c: "commit_io sha fe l (task_verified_commit ts sn after task) w1 = (Inr r, w')" for l sn w1 r
  proof -
    obtain sn' item where "r = (sn', item)" by (cases r)
    with commit_io_InrD [of sha fe l "task_verified_commit ts sn after task" w1 sn' item w'] c obtain d now en eid
      where "commit_observation sha d now en eid l (task_verified_commit ts sn after task) = Inr (w_db w', sn', item)"
      by blast
    then show ?thesis
      by (rule commit_success) (simp_all add: task_verified_commit_def fenced_def commit_defaults_def)
  qed
  show ?thesis
  proof (cases "sn_status operation = ''verifying''")
    case True
    with assms show ?thesis
      by (auto simp: task_confirmed_def io_return_Inr elim!: io_bind_InrE intro: fin)
  next
    case False
    with assms obtain sn item w1 where
      c: "commit_io sha fe lease (size_observed_commit ts operation after task) w = (Inr (sn, item), w1)"
      and f: "io_bind (commit_io sha fe (renewed lease item) (task_verified_commit ts sn after task))
          (\<lambda>_. io_return ''succeeded'') w1 = (Inr ''succeeded'', w')"
      by (auto simp: task_confirmed_def
          elim!: io_bind_InrE [of "commit_io sha fe lease (size_observed_commit ts operation after task)"])
    from commit_io_InrD [OF c] have "lease_operation_id (renewed lease item) = lease_operation_id lease"
      using commit_item_id by blast
    with f show ?thesis using fin [of "renewed lease item"] by (auto simp: io_return_Inr elim!: io_bind_InrE)
  qed
qed

lemma task_pause_not_succeeded [simp]: "task_pause sha fe ts l op c e w \<noteq> (Inr ''succeeded'', w')"
  by (auto simp: task_pause_def io_return_Inr elim!: io_bind_InrE)

text \<open>
  \<open>observed_task\<close>: the task of a verification is the one its caller hands in, or it is read from
  Proxmox under the recorded reference, at the node of the recorded target, at a step between \<open>j\<close>
  and \<open>k\<close>. \<open>task_done\<close>: this task stopped with exit status OK, and the observation was made after
  the task was read. \<open>task_evidence\<close>: the operation is bound to a task, the task is done, and the
  observation after it matched the recorded request and earlier state.
\<close>

definition observed_task :: "task_service \<Rightarrow> operation_snapshot \<Rightarrow> pydict option \<Rightarrow> nat \<Rightarrow> nat \<Rightarrow> pydict \<Rightarrow> bool" where
  "observed_task ts operation given j k task \<longleftrightarrow> given = Some task \<and> task \<noteq> [] \<or>
     given \<in> {None, Some []} \<and> (\<exists>target node i. ditem (sn_details operation) ''target'' = Inr target \<and>
        dict_item target ''node_id'' = Inr node \<and> j \<le> i \<and> i < k \<and>
        ts_task ts node (dget (sn_details operation) ''proxmox_upid'') i = Inr task)"

definition task_done :: "task_service \<Rightarrow> operation_snapshot \<Rightarrow> pydict option \<Rightarrow> nat \<Rightarrow> pydict \<Rightarrow> pydict \<Rightarrow> bool" where
  "task_done ts operation given j task after \<longleftrightarrow> (\<exists>k \<ge> j. observed_task ts operation given j k task \<and>
     dget task ''status'' = PStr ''stopped'' \<and> dget task ''exitstatus'' = PStr ''OK'' \<and>
     ts_observe_result ts operation k = Inr after)"

definition task_evidence :: "task_service \<Rightarrow> operation_snapshot \<Rightarrow> pydict option \<Rightarrow> nat \<Rightarrow> pydict \<Rightarrow> pydict \<Rightarrow> bool" where
  "task_evidence ts operation given j task after \<longleftrightarrow>
     truthy (dget (sn_details operation) ''proxmox_upid'') \<and> task_done ts operation given j task after \<and>
     (\<exists>requested before. ditem (sn_details operation) ''requested'' = Inr requested \<and>
        ditem (sn_details operation) ''observed_before'' = Inr before \<and>
        ts_matches ts after requested before = Inr True)"

lemma ditem_dget: "ditem d k = Inr v \<Longrightarrow> dget d k = v"
  by (auto simp: ditem_def dget_def split: option.splits)

text \<open>Where the task comes from.\<close>

lemma task_look_task:
  assumes "(case given of Some t \<Rightarrow> if t \<noteq> [] then io_return t
         else io_bind (io_of (dict_item target ''node_id'')) (\<lambda>node. ext_read (ts_task ts node upid))
       | None \<Rightarrow> io_bind (io_of (dict_item target ''node_id'')) (\<lambda>node. ext_read (ts_task ts node upid))) w = (Inr task, w')"
    and "ditem (sn_details operation) ''target'' = Inr target" "upid = dget (sn_details operation) ''proxmox_upid''"
  shows "w_step w \<le> w_step w' \<and> observed_task ts operation given (w_step w) (w_step w') task"
proof (cases "given \<in> {None, Some []}")
  case True
  then have "io_bind (io_of (dict_item target ''node_id'')) (\<lambda>node. ext_read (ts_task ts node upid)) w = (Inr task, w')"
    using assms(1) by auto
  then obtain node where "dict_item target ''node_id'' = Inr node" "ts_task ts node upid (w_step w) = Inr task"
      "w_step w' = Suc (w_step w)"
    by (auto elim!: io_bind_InrE simp: io_of_Inr dest!: ext_read_step)
  with True assms(2,3) show ?thesis unfolding observed_task_def by auto
next
  case False
  with assms(1) show ?thesis by (auto simp: observed_task_def io_return_Inr split: option.splits if_splits)
qed

lemma task_look_done:
  assumes "task_look ts operation target upid given w = (Inr (TaskDone task after), w')"
    and "ditem (sn_details operation) ''target'' = Inr target" "upid = dget (sn_details operation) ''proxmox_upid''"
  shows "task_done ts operation given (w_step w) task after"
proof -
  from assms(1) obtain t w1 where src: "(case given of Some t \<Rightarrow> if t \<noteq> [] then io_return t
         else io_bind (io_of (dict_item target ''node_id'')) (\<lambda>node. ext_read (ts_task ts node upid))
       | None \<Rightarrow> io_bind (io_of (dict_item target ''node_id'')) (\<lambda>node. ext_read (ts_task ts node upid))) w = (Inr t, w1)"
    and rest: "io_bind (io_of (ditem t ''status'')) (\<lambda>status.
          if status \<in> {PStr ''running'', PStr ''queued''} then io_return (StillRunning t)
          else if status \<noteq> PStr ''stopped'' then io_return (TaskUnconfirmed t)
          else io_bind (io_of (ditem t ''exitstatus'')) (\<lambda>exitstatus.
            if exitstatus \<noteq> PStr ''OK'' then io_return (TaskUnconfirmed t)
            else io_bind (ext_read (ts_observe_result ts operation)) (\<lambda>after.
              io_return (TaskDone t after)))) w1 = (Inr (TaskDone task after), w')"
    unfolding task_look_def by (rule io_bind_InrE)
  from rest have "t = task" "dget task ''status'' = PStr ''stopped''" "dget task ''exitstatus'' = PStr ''OK''"
      "ts_observe_result ts operation (w_step w1) = Inr after"
    by (auto elim!: io_bind_InrE simp: io_of_Inr io_return_Inr split: if_splits dest!: ditem_dget ext_read_Inr)
  with task_look_task [OF src assms(2,3)] show ?thesis unfolding task_done_def by blast
qed

lemma task_super_verify_success:
  assumes "task_super_verify sha fe ts lease operation given w = (Inr ''succeeded'', w')"
  shows "settled_success (lease_operation_id lease) (w_db w')"
    "\<exists>task after. task_evidence ts operation given (w_step w) task after"
proof -
  from assms obtain target w1 task after where "ditem (sn_details operation) ''target'' = Inr target"
    "truthy (dget (sn_details operation) ''proxmox_upid'')" 
    and look: "task_look ts operation target (dget (sn_details operation) ''proxmox_upid'') given w = (Inr (TaskDone task after), w1)"
    and rest: "io_bind (io_of (ebind (ditem (sn_details operation) ''requested'') (\<lambda>requested.
                      ebind (ditem (sn_details operation) ''observed_before'') (ts_matches ts after requested))))
                    (\<lambda>matched.
                       if \<not> matched
                       then task_pause sha fe ts lease operation (ts_error_prefix ts @ ''RESULT_UNCONFIRMED'')
                              [(''observed_after'', PDict after), (''task'', PDict task)]
                       else task_confirmed sha fe ts lease operation after task) w1 = (Inr ''succeeded'', w')"
    unfolding task_super_verify_def Let_def
    by (auto elim!: io_bind_InrE [of "io_of (ditem (sn_details operation) ''target'')"] io_try_InrE simp: io_of_Inr io_return_Inr
        split: if_splits task_look.splits elim!: io_bind_InrE [of "commit_io sha fe lease (task_running_commit ts operation task)" for task])
  then have "task_done ts operation given (w_step w) task after" by (intro task_look_done) auto
  moreover from rest obtain requested before where "ditem (sn_details operation) ''requested'' = Inr requested"
      "ditem (sn_details operation) ''observed_before'' = Inr before" "ts_matches ts after requested before = Inr True"
    and conf: "task_confirmed sha fe ts lease operation after task w1 = (Inr ''succeeded'', w')"
    by (auto elim!: io_bind_InrE simp: io_of_Inr split: if_splits)
  ultimately show "\<exists>task after. task_evidence ts operation given (w_step w) task after"
    unfolding task_evidence_def using \<open>truthy _\<close> by blast
  from conf show "settled_success (lease_operation_id lease) (w_db w')" by (rule task_confirmed_success)
qed

lemma task_verify_InrE:
  assumes "task_verify sha fe ts lease operation given w = (Inr ''succeeded'', w')"
  obtains "task_super_verify sha fe ts lease operation given w = (Inr ''succeeded'', w')"
    "ts_check_reference ts operation = Inr () \<or> \<not> truthy (dget (sn_details operation) ''proxmox_upid'')"
  using assms unfolding task_verify_def
  by (auto elim!: io_bind_InrE io_try_InrE simp: io_of_Inr split: if_splits)

lemma task_verify_success:
  assumes "task_verify sha fe ts lease operation given w = (Inr ''succeeded'', w')"
  shows "settled_success (lease_operation_id lease) (w_db w')"
    "\<exists>task after. task_evidence ts operation given (w_step w) task after" "ts_check_reference ts operation = Inr ()"
proof -
  from assms have sv: "task_super_verify sha fe ts lease operation given w = (Inr ''succeeded'', w')"
      and r: "ts_check_reference ts operation = Inr () \<or> \<not> truthy (dget (sn_details operation) ''proxmox_upid'')"
    by (auto elim: task_verify_InrE)
  from task_super_verify_success [OF sv] show "settled_success (lease_operation_id lease) (w_db w')"
    and ev: "\<exists>task after. task_evidence ts operation given (w_step w) task after" by blast+
  with r show "ts_check_reference ts operation = Inr ()" by (auto simp: task_evidence_def)
qed

lemma task_execute_replay:
  assumes "store_get (fe_between fe (w_step w) (w_db w)) (task_operation_id sha ts node vmid rq) = Some existing"
  shows "w_calls (snd (task_execute sha fe ts node vmid rq actor w)) = w_calls w"
    "w_db (snd (task_execute sha fe ts node vmid rq actor w)) = fe_between fe (w_step w) (w_db w)"
  using assms by (simp_all add: task_execute_def Let_def io_bind_def io_of_def get_io_def tx_def)

section \<open>The interface of a task feature\<close>

text \<open>
  A feature promises what a matching observation means (\<open>achieved\<close>) and that every task
  reference its dispatch returns is one that its check accepts (\<open>bound_to\<close>).
\<close>

locale task_feature =
  fixes ts :: task_service
    and achieved :: "pydict \<Rightarrow> pyval \<Rightarrow> bool"
    and bound_to :: "string \<Rightarrow> int \<Rightarrow> string \<Rightarrow> bool"
  assumes matches_achieved: "ts_matches ts after requested before = Inr True \<Longrightarrow> achieved after requested"
    and dispatch_bound: "ts_dispatch ts node vmid rq operation k = Inr upid \<Longrightarrow> bound_to node vmid upid"
begin

lemma success_achieved:
  assumes "task_verify sha fe ts lease operation given w = (Inr ''succeeded'', w')"
  shows "\<exists>task after requested. ditem (sn_details operation) ''requested'' = Inr requested \<and>
       task_done ts operation given (w_step w) task after \<and> achieved after requested"
proof -
  from task_verify_success(2) [OF assms] obtain task after
    where ev: "task_evidence ts operation given (w_step w) task after"
    by blast
  then obtain requested before where
    "ditem (sn_details operation) ''requested'' = Inr requested" "ts_matches ts after requested before = Inr True"
    unfolding task_evidence_def by blast
  moreover from ev have "task_done ts operation given (w_step w) task after" by (simp add: task_evidence_def)
  ultimately show ?thesis using matches_achieved by blast
qed

text \<open>The reference that the dispatch hands to the binding commit is an accepted one.\<close>

lemma dispatched_reference:
  "ext_call (ts_dispatch ts node vmid rq operation) node vmid request w = (Inr upid, w') \<Longrightarrow> bound_to node vmid upid"
  using dispatch_bound by (auto simp: ext_call_def)

end

end
