(* ===== verification/Evidence.thy ===== *)
theory Evidence
  imports Regex PyValues
begin

text \<open>
  \<open>app/operations/core/evidence.py\<close>: the bounded copies of Proxmox answers that operations may
  store. The connection evidence (with float timeouts) is not modelled.
\<close>

section \<open>Task evidence\<close>

text \<open>
  \<open>str.upper\<close> on code points below 256. The upper case of 181, 223 and 255 lies outside this
  range or has two letters; no text compared below contains one of them, so they are kept.
\<close>

definition upper_char :: "char \<Rightarrow> char" where
  "upper_char c = (let n = (of_char c :: nat) in
     if (97 \<le> n \<and> n \<le> 122) \<or> (224 \<le> n \<and> n \<le> 254 \<and> n \<noteq> 247) then char_of (n - 32) else c)"

definition py_upper :: "string \<Rightarrow> string" where
  "py_upper s = map upper_char s"

definition UPID_CHAR :: "char \<Rightarrow> bool" where
  "UPID_CHAR c = (is_alpha c \<or> is_digit c \<or> c \<in> set ''_.:@!+-'')"

definition PROXMOX_UPID :: rx where
  "PROXMOX_UPID = cats [word_rx ''UPID:'', Cls UPID_CHAR, upto_times 499 (Cls UPID_CHAR)]"

definition NAME_CHAR :: "char \<Rightarrow> bool" where
  "NAME_CHAR c = (is_alpha c \<or> is_digit c \<or> c \<in> set ''_.-'')"

definition PROXMOX_VM_NAME :: rx where
  "PROXMOX_VM_NAME = Cat (Cls (\<lambda>c. is_alpha c \<or> is_digit c)) (upto_times 254 (Cls NAME_CHAR))"

definition known_word :: "string list \<Rightarrow> string \<Rightarrow> string" where
  "known_word ws s = (if s \<in> set ws then s else if s \<noteq> [] then ''unknown'' else [])"

definition TASK_STATUSES :: "string list" where
  "TASK_STATUSES = [''running'', ''stopped'', ''queued'', ''failed'', ''unknown'']"

definition POWER_STATUSES :: "string list" where
  "POWER_STATUSES = [''running'', ''stopped'', ''paused'', ''suspended'', ''unknown'']"

definition exit_word :: "string \<Rightarrow> string" where
  "exit_word raw = (if raw = ''OK'' then ''OK'' else if raw \<in> {[], ''UNKNOWN''} then raw else ''ERROR'')"

definition selected_upid :: "string \<Rightarrow> string" where
  "selected_upid s = (if s \<noteq> [] \<and> \<not> matches_full PROXMOX_UPID s then [] else s)"

definition compact_proxmox_task :: "pydict \<Rightarrow> string \<Rightarrow> string \<Rightarrow> pydict" where
  "compact_proxmox_task task node upid =
     [(''node'', PStr (take 255 (if node \<noteq> [] then node else text_or_empty (dget task ''node'')))),
      (''upid'', PStr (selected_upid (py_strip (if upid \<noteq> [] then upid else text_or_empty (dget task ''upid''))))),
      (''status'', PStr (known_word TASK_STATUSES (py_lower (stripped_text (dget task ''status''))))),
      (''exitstatus'', PStr (exit_word (py_upper (stripped_text (dget task ''exitstatus'')))))]"

definition vm_name_word :: "string \<Rightarrow> string" where
  "vm_name_word s = (if s \<noteq> [] \<and> \<not> matches_full PROXMOX_VM_NAME s then ''unknown'' else s)"

definition compact_proxmox_vm_status :: "pydict \<Rightarrow> string \<Rightarrow> int \<Rightarrow> pydict" where
  "compact_proxmox_vm_status status node vmid =
     [(''node_id'', PStr (take 255 node)), (''vmid'', PInt vmid),
      (''name'', PStr (vm_name_word (stripped_text (dget status ''name'')))),
      (''status'', PStr (known_word POWER_STATUSES (py_lower (stripped_text (dget status ''status'')))))]"

section \<open>Error evidence\<close>

definition ERROR_TEXT :: rx where
  "ERROR_TEXT = (let c = Cls (\<lambda>c. is_alpha c \<or> is_digit c \<or> c \<in> set ''_.:-'') in Cat c (upto_times 79 c))"

text \<open>The values of \<open>int(x)\<close> that raise an error that is caught here count as zero.\<close>

definition status_code_of :: "pyval \<Rightarrow> int" where
  "status_code_of v = (case py_int (py_or v (PInt 0)) of Inr i \<Rightarrow> i | Inl _ \<Rightarrow> 0)"

definition METHODS :: "string list" where
  "METHODS = [''GET'', ''POST'', ''PUT'', ''PATCH'', ''DELETE'']"

definition response_error_fields :: "pyval \<Rightarrow> pyval list" where
  "response_error_fields response =
     (case response of
        PDict r \<Rightarrow> (case dget r ''errors'' of PDict es \<Rightarrow> map (\<lambda>k. PStr k) (dict_keys es) | _ \<Rightarrow> [])
      | _ \<Rightarrow> [])"

definition direct_fields :: "pyval \<Rightarrow> pyval list" where
  "direct_fields v = (case v of PList xs \<Rightarrow> xs | _ \<Rightarrow> [])"

definition invalid_fields :: "pydict \<Rightarrow> string list" where
  "invalid_fields details = take 20 (sort_key id (remdups (filter (matches_full ERROR_TEXT)
     (map py_str (response_error_fields (dget details ''response_json'') @ direct_fields (dget details ''invalid_fields''))))))"

definition compact_proxmox_error_details :: "pydict \<Rightarrow> pydict" where
  "compact_proxmox_error_details details =
     (let status_code = status_code_of (dget details ''status_code'');
          meth = py_upper (stripped_text (dget details ''method''));
          error_code = py_strip (text_or_empty (py_or (dget details ''error_code'') (dget details ''code'')));
          fields = invalid_fields details
      in (if 100 \<le> status_code \<and> status_code \<le> 599 then [(''status_code'', PInt status_code)] else [])
       @ (if meth \<in> set METHODS then [(''method'', PStr meth)] else [])
       @ (if error_code \<noteq> [] \<and> matches_full ERROR_TEXT error_code then [(''error_code'', PStr error_code)] else [])
       @ (if fields \<noteq> [] then [(''invalid_fields'', PList (map (\<lambda>f. PStr f) fields))] else []))"

section \<open>Bounds of the evidence\<close>

lemma known_word_in: "known_word ws s \<in> insert [] (insert ''unknown'' (set ws))"
  by (simp add: known_word_def)

lemma exit_word_in: "exit_word s \<in> {[], ''OK'', ''UNKNOWN'', ''ERROR''}"
  by (auto simp: exit_word_def)

lemma selected_upid_ok: "selected_upid s = [] \<or> matches_full PROXMOX_UPID (selected_upid s)"
  by (simp add: selected_upid_def)

lemma compact_task_get:
  "dget (compact_proxmox_task t n u) ''status'' = PStr (known_word TASK_STATUSES (py_lower (stripped_text (dget t ''status''))))"
  "dget (compact_proxmox_task t n u) ''exitstatus'' = PStr (exit_word (py_upper (stripped_text (dget t ''exitstatus''))))"
  "dget (compact_proxmox_task t n u) ''upid'' =
     PStr (selected_upid (py_strip (if u \<noteq> [] then u else text_or_empty (dget t ''upid''))))"
  "dget (compact_proxmox_task t n u) ''node'' = PStr (take 255 (if n \<noteq> [] then n else text_or_empty (dget t ''node'')))"
  by (simp_all add: compact_proxmox_task_def dget_def)

lemma stripped_text_str: "stripped_text (PStr s) = py_strip s"
  by (simp add: stripped_text_def text_or_empty_def py_or_def py_str_def)

lemma text_or_empty_str [simp]: "text_or_empty (PStr s) = s"
  by (simp add: text_or_empty_def py_or_def py_str_def)

lemma known_word_fixed:
  assumes "ws \<in> {TASK_STATUSES, POWER_STATUSES}"
  shows "known_word ws (py_lower (py_strip (known_word ws s))) = known_word ws s"
proof -
  have "\<forall>w \<in> insert [] (insert ''unknown'' (set ws)). known_word ws (py_lower (py_strip w)) = w"
    using assms by (elim insertE emptyE; hypsubst; code_simp)
  then show ?thesis using known_word_in by blast
qed

lemma exit_word_fixed: "exit_word (py_upper (py_strip (exit_word s))) = exit_word s"
proof -
  have "\<forall>w \<in> {[], ''OK'', ''UNKNOWN'', ''ERROR''}. exit_word (py_upper (py_strip w)) = w"
    by code_simp
  then show ?thesis using exit_word_in by blast
qed

lemma upid_no_space: "matches_full PROXMOX_UPID s \<Longrightarrow> py_strip s = s"
  using lang_upto_cls [of _ 499 UPID_CHAR]
  by (fastforce simp: PROXMOX_UPID_def matches_full_iff_lang py_strip_def py_space_def UPID_CHAR_def
      is_alpha_def is_digit_def char_between_def Let_def intro!: strip_by_none)

lemma selected_upid_fixed: "selected_upid (py_strip (selected_upid s)) = selected_upid s"
  using selected_upid_ok [of s] upid_no_space [of "selected_upid s"]
  by (auto simp: selected_upid_def py_strip_def strip_by_def)

lemma compact_task_idem:
  "compact_proxmox_task (compact_proxmox_task t n u) n u = compact_proxmox_task t n u"
  unfolding compact_proxmox_task_def [of "compact_proxmox_task t n u"]
  by (simp add: compact_task_get stripped_text_str known_word_fixed exit_word_fixed selected_upid_fixed)
     (simp add: compact_proxmox_task_def)

lemma proxmox_upid_full:
  "matches_full PROXMOX_UPID s \<longleftrightarrow> take 5 s = ''UPID:'' \<and> 6 \<le> length s \<and> length s \<le> 505 \<and> list_all UPID_CHAR (drop 5 s)"
proof
  assume "matches_full PROXMOX_UPID s"
  then obtain c w where "s = ''UPID:'' @ c # w" "UPID_CHAR c" "length w \<le> 499" "\<forall>x \<in> set w. UPID_CHAR x"
    by (auto simp: matches_full_iff_lang PROXMOX_UPID_def upto_cls_iff)
  then show "take 5 s = ''UPID:'' \<and> 6 \<le> length s \<and> length s \<le> 505 \<and> list_all UPID_CHAR (drop 5 s)"
    by (simp add: list_all_iff)
next
  assume r: "take 5 s = ''UPID:'' \<and> 6 \<le> length s \<and> length s \<le> 505 \<and> list_all UPID_CHAR (drop 5 s)"
  then obtain c w where d: "drop 5 s = c # w" by (cases "drop 5 s") auto
  then have "s = ''UPID:'' @ c # w" using r append_take_drop_id [of 5 s] by simp
  moreover have "length s - 5 = Suc (length w)" using arg_cong [OF d, of length] by simp
  then have "length w \<le> 499" using r by linarith
  moreover have "UPID_CHAR c" "\<forall>x \<in> set w. UPID_CHAR x" using r d by (auto simp: list_all_iff)
  ultimately show "matches_full PROXMOX_UPID s"
    by (auto simp: matches_full_iff_lang PROXMOX_UPID_def upto_cls_iff ) (metis append_Cons append_Nil)
qed
lemma selected_upid_code [code]:
  "selected_upid s = (if s \<noteq> [] \<and> \<not> (take 5 s = ''UPID:'' \<and> 6 \<le> length s \<and> length s \<le> 505 \<and> list_all UPID_CHAR (drop 5 s))
     then [] else s)"
  by (simp only: selected_upid_def proxmox_upid_full)

end
