(* ===== verification/VmCommon.thy ===== *)
theory VmCommon
  imports TaskChange Evidence
begin

text \<open>
  What the VM features share: checks of the configuration, the power state and the pending
  changes of a VM, device option texts, request validation, the reads and writes of the Proxmox
  client, and the exact task reference (UPID) of a dispatched task. A failed client call
  (\<open>ProxmoxMutationError\<close>) is \<open>None\<close>.
\<close>

section \<open>Requests\<close>

definition str_field :: "pydict \<Rightarrow> string \<Rightarrow> nat \<Rightarrow> nat \<Rightarrow> (string \<Rightarrow> bool) \<Rightarrow> bool" where
  "str_field d k lo hi p = (case dget d k of PStr s \<Rightarrow> lo \<le> length s \<and> length s \<le> hi \<and> p s | _ \<Rightarrow> False)"

definition int_field :: "pydict \<Rightarrow> string \<Rightarrow> int \<Rightarrow> int \<Rightarrow> bool" where
  "int_field d k lo hi = (case dget d k of PInt i \<Rightarrow> lo \<le> i \<and> i \<le> hi | _ \<Rightarrow> False)"

definition bool_field :: "pydict \<Rightarrow> string \<Rightarrow> bool" where
  "bool_field d k = (case dget d k of PBool b \<Rightarrow> True | _ \<Rightarrow> False)"

definition KEY_TEXT :: rx where
  "KEY_TEXT = plus (Cls (\<lambda>c. is_alpha c \<or> is_digit c \<or> c \<in> set ''_.:-''))"

definition HEX40 :: rx where
  "HEX40 = times 40 (Cls is_hex)"

definition SHA256_TEXT :: rx where
  "SHA256_TEXT = Cat (word_rx ''sha256:'') (times 64 (Cls is_lower_hex))"

definition common_request :: "pydict \<Rightarrow> bool" where
  "common_request d = (str_field d ''idempotency_key'' 1 160 (matches_full KEY_TEXT)
     \<and> str_field d ''expected_digest'' 0 40 (matches_full HEX40))"

definition attr :: "change_request \<Rightarrow> string \<Rightarrow> pyval" where
  "attr rq k = dget (rq_dump rq) k"

section \<open>Configuration checks\<close>

definition vmid_range :: "int \<Rightarrow> bool" where
  "vmid_range vmid = (100 \<le> vmid \<and> vmid \<le> 999999999)"

definition is_id :: "string \<Rightarrow> bool" where
  "is_id s = matches_full IDENTIFIER s"

definition valid_target :: "string \<Rightarrow> int \<Rightarrow> bool" where
  "valid_target node_id vmid = (is_id node_id \<and> vmid_range vmid)"

definition flag_text :: "pydict \<Rightarrow> string \<Rightarrow> string" where
  "flag_text config k = py_str (dget_or config k (PInt 0))"

definition is_stopped :: "pydict \<Rightarrow> bool" where
  "is_stopped status = (dget status ''status'' = PStr ''stopped'')"

definition template_or_locked :: "pydict \<Rightarrow> bool" where
  "template_or_locked config = (flag_text config ''template'' \<noteq> ''0'' \<or> truthy (dget config ''lock''))"

definition has_pending :: "pydict list \<Rightarrow> bool" where
  "has_pending rows = list_ex (\<lambda>row. dhas row ''pending'' \<or> truthy (dget row ''delete'')) rows"

definition config_digest :: "pyval \<Rightarrow> string option" where
  "config_digest v = exact_text HEX40 v"

definition numbered :: "string list \<Rightarrow> rx" where
  "numbered names = Cat (alts (map word_rx names)) (plus (Cls is_digit))"

definition stopped_unlocked :: "(string \<Rightarrow> nat \<Rightarrow> error) \<Rightarrow> pydict \<Rightarrow> pydict \<Rightarrow> pydict list \<Rightarrow> unit result" where
  "stopped_unlocked err config status pending =
     ebind (raise_if (\<not> is_stopped status) (err ''NOT_STOPPED'' 409)) (\<lambda>_.
     ebind (raise_if (template_or_locked config) (err ''LOCKED_OR_TEMPLATE'' 409)) (\<lambda>_.
     raise_if (has_pending pending) (err ''PENDING_CONFIG'' 409)))"

text \<open>\<open>len(dict(pairs)) == len(pairs)\<close> for \<open>part.split("=", 1)\<close> pairs.\<close>

definition split_pair :: "string \<Rightarrow> (string \<times> string) option" where
  "split_pair part = (case py_partition CHR ''='' part of (k, found, v) \<Rightarrow> if found then Some (k, v) else None)"

lemma split_pair_Some: "split_pair part = Some (k, v) \<longleftrightarrow> part = k @ CHR ''='' # v \<and> CHR ''='' \<notin> set k"
proof
  assume "split_pair part = Some (k, v)"
  then show "part = k @ CHR ''='' # v \<and> CHR ''='' \<notin> set k"
    by (auto simp: split_pair_def split: prod.splits if_splits dest: py_partition_found)
next
  assume "part = k @ CHR ''='' # v \<and> CHR ''='' \<notin> set k"
  then have "py_partition CHR ''='' part = (k, True, v)" using py_partition_no_sep by blast
  then show "split_pair part = Some (k, v)" by (simp add: split_pair_def)
qed

fun all_some :: "'a option list \<Rightarrow> 'a list option" where
  "all_some [] = Some []"
| "all_some (x # xs) = (case x of None \<Rightarrow> None
     | Some v \<Rightarrow> (case all_some xs of None \<Rightarrow> None | Some vs \<Rightarrow> Some (v # vs)))"

lemma all_some_map: "all_some (map Some ys) = Some ys"
  by (induction ys) auto

lemma all_some_Some: "all_some xs = Some ys \<longleftrightarrow> xs = map Some ys"
proof
  show "all_some xs = Some ys \<Longrightarrow> xs = map Some ys"
    by (induction xs arbitrary: ys) (auto split: option.splits)
qed (simp add: all_some_map)

definition option_pairs :: "string list \<Rightarrow> (string \<times> string) list option" where
  "option_pairs parts = (case all_some (map split_pair parts) of
       None \<Rightarrow> None
     | Some ps \<Rightarrow> if list_ex (\<lambda>(k, v). k = [] \<or> v = []) ps \<or> \<not> distinct (map fst ps) then None else Some ps)"

definition text_or :: "(string \<times> string) list \<Rightarrow> string \<Rightarrow> string \<Rightarrow> string" where
  "text_or ps k d = (case map_of ps k of None \<Rightarrow> d | Some v \<Rightarrow> v)"

text \<open>
  Decimal sizes: digits, an optional fraction, a unit. \<open>decimal_bytes\<close> is the exact product
  with the unit when it is a positive whole number. The precision of \<open>Decimal\<close> (28 digits) is
  not modelled: texts with more digits are taken exactly.
\<close>

definition SIZE_TEXT :: rx where
  "SIZE_TEXT = Cat (Grp (Cat (plus (Cls is_digit)) (opt (cats [lit CHR ''.'', plus (Cls is_digit)]))))
     (Grp (opt (Cls (\<lambda>c. c \<in> set ''KMGT''))))"

definition unit_power :: "string \<Rightarrow> nat" where
  "unit_power u = (if u = ''K'' then 1 else if u = ''M'' then 2 else if u = ''G'' then 3
     else if u = ''T'' then 4 else 0)"

definition decimal_bytes :: "string \<Rightarrow> int option" where
  "decimal_bytes t = (case fullmatch SIZE_TEXT t of
       Some [num, u] \<Rightarrow>
         (case py_partition CHR ''.'' num of (w, _, f) \<Rightarrow>
            let scaled = nat_of_digits (w @ f) * 1024 ^ unit_power u; d = 10 ^ length f
            in if scaled = 0 \<or> scaled mod d \<noteq> 0 then None else Some (int (scaled div d)))
     | _ \<Rightarrow> None)"

text \<open>The same product over integers, for evaluation.\<close>

lemma whole_quotient:
  "(if s = 0 \<or> s mod 10 ^ l \<noteq> 0 then None else Some (int (s div 10 ^ l))) =
   (if int s = 0 \<or> int s mod 10 ^ l \<noteq> 0 then None else Some (int s div 10 ^ l))"
proof -
  have "int s mod 10 ^ l = int (s mod 10 ^ l)" "int s div 10 ^ l = int (s div 10 ^ l)"
    by (simp_all only: of_nat_mod of_nat_div of_nat_power of_nat_numeral)
  then show ?thesis by (simp only: of_nat_eq_0_iff)
qed

lemma decimal_bytes_int [code]:
  "decimal_bytes t = (case fullmatch SIZE_TEXT t of
       Some [num, u] \<Rightarrow>
         (case py_partition CHR ''.'' num of (w, _, f) \<Rightarrow>
            let scaled = int (nat_of_digits (w @ f)) * 1024 ^ unit_power u; d = 10 ^ length f
            in if scaled = 0 \<or> scaled mod d \<noteq> 0 then None else Some (scaled div d))
     | _ \<Rightarrow> None)"
  unfolding decimal_bytes_def Let_def whole_quotient
  by (simp only: of_nat_mult of_nat_power of_nat_numeral)

section \<open>Ordering of numbers\<close>

definition num_lt :: "pyval \<Rightarrow> pyval \<Rightarrow> bool result" where
  "num_lt a b = (case (as_num a, as_num b) of
       (Some i, Some j) \<Rightarrow> Inr (i < j) | _ \<Rightarrow> Inl (PyError TypeError))"

section \<open>Rows of dicts\<close>

lemma dget_Cons: "dget ((k, v) # d) k' = (if k = k' then v else dget d k')"
  by (simp add: dget_def)

lemma py_eq_PInt: "py_eq a (PInt i) \<longleftrightarrow> as_num a = Some i"
  by (cases a) (auto simp: as_num_def)

definition dict_rows :: "pyval \<Rightarrow> pydict list result" where
  "dict_rows v = (case v of
       PList xs \<Rightarrow> (case all_some (map as_dict xs) of None \<Rightarrow> Inl (PyError AttributeError) | Some ds \<Rightarrow> Inr ds)
     | _ \<Rightarrow> Inl (PyError TypeError))"

definition one :: "pyval \<Rightarrow> bool" where
  "one v = in_values v [PInt 1, PStr ''1'']"

text \<open>A fallible loop that stops at the first error.\<close>

fun emap :: "('a \<Rightarrow> 'b result) \<Rightarrow> 'a list \<Rightarrow> 'b list result" where
  "emap f [] = Inr []"
| "emap f (x # xs) = ebind (f x) (\<lambda>y. ebind (emap f xs) (\<lambda>ys. Inr (y # ys)))"

lemma emap_Inr: "emap f xs = Inr ys \<longleftrightarrow> list_all2 (\<lambda>x y. f x = Inr y) xs ys"
  by (induction xs arbitrary: ys) (auto simp: ebind_Inr_iff list_all2_Cons1)

lemma emap_mem: "emap f xs = Inr ys \<Longrightarrow> y \<in> set ys \<Longrightarrow> \<exists>x \<in> set xs. f x = Inr y"
  by (induction xs arbitrary: ys) auto

lemma emap_src: "emap f xs = Inr ys \<Longrightarrow> x \<in> set xs \<Longrightarrow> \<exists>y \<in> set ys. f x = Inr y"
  by (induction xs arbitrary: ys) auto

definition row_list :: "pydict \<Rightarrow> string \<Rightarrow> pydict list result" where
  "row_list d k = ebind (ditem d k) dict_rows"

section \<open>The Proxmox client\<close>

record vm_client =
  vc_config :: "string \<Rightarrow> int \<Rightarrow> nat \<Rightarrow> pydict option"
  vc_status :: "string \<Rightarrow> int \<Rightarrow> nat \<Rightarrow> pydict option"
  vc_pending :: "string \<Rightarrow> int \<Rightarrow> nat \<Rightarrow> pydict list option"
  vc_vm_permissions :: "int \<Rightarrow> nat \<Rightarrow> string list option"
  vc_network :: "string \<Rightarrow> nat \<Rightarrow> pydict option"
  vc_bridge_permissions :: "string \<Rightarrow> nat \<Rightarrow> string list option"
  vc_storages :: "string \<Rightarrow> nat \<Rightarrow> pydict list option"
  vc_storage_permissions :: "string \<Rightarrow> nat \<Rightarrow> string list option"
  vc_volume :: "string \<Rightarrow> string \<Rightarrow> string \<Rightarrow> nat \<Rightarrow> pydict option"
  vc_set_config :: "string \<Rightarrow> int \<Rightarrow> pydict \<Rightarrow> nat \<Rightarrow> pyval option"
  vc_resize :: "string \<Rightarrow> int \<Rightarrow> int \<Rightarrow> string \<Rightarrow> nat \<Rightarrow> pyval option"
  vc_task :: "string \<Rightarrow> string \<Rightarrow> nat \<Rightarrow> pydict option"
  vc_snapshots :: "string \<Rightarrow> int \<Rightarrow> nat \<Rightarrow> pydict list option"
  vc_images :: "string \<Rightarrow> string \<Rightarrow> int \<Rightarrow> nat \<Rightarrow> pydict list option"
  vc_vmid_unused :: "int \<Rightarrow> nat \<Rightarrow> bool"
  vc_resources :: "nat \<Rightarrow> pydict list option"
  vc_nodes :: "nat \<Rightarrow> pydict list option"
  vc_node_status :: "string \<Rightarrow> nat \<Rightarrow> pydict option"
  vc_task_audit :: "string \<Rightarrow> nat \<Rightarrow> bool option"
  vc_preconditions :: "string \<Rightarrow> int \<Rightarrow> string \<Rightarrow> nat \<Rightarrow> pydict option"
  vc_backups :: "string \<Rightarrow> string \<Rightarrow> int \<Rightarrow> nat \<Rightarrow> pydict list option"
  vc_backup_defaults :: "string \<Rightarrow> string \<Rightarrow> nat \<Rightarrow> pydict option"
  vc_delete :: "string \<Rightarrow> int \<Rightarrow> nat \<Rightarrow> pyval option"
  vc_clone :: "string \<Rightarrow> int \<Rightarrow> pydict \<Rightarrow> nat \<Rightarrow> pyval option"
  vc_convert :: "string \<Rightarrow> int \<Rightarrow> nat \<Rightarrow> pyval option"
  vc_migrate :: "string \<Rightarrow> int \<Rightarrow> pyval \<Rightarrow> nat \<Rightarrow> pyval option"
  vc_create_backup :: "string \<Rightarrow> int \<Rightarrow> pyval \<Rightarrow> string \<Rightarrow> nat \<Rightarrow> pyval option"

definition read_or :: "'a option \<Rightarrow> string \<Rightarrow> nat \<Rightarrow> 'a result" where
  "read_or v code status = (case v of None \<Rightarrow> Inl (FeatureError code status) | Some x \<Rightarrow> Inr x)"

definition require_privileges :: "string list option \<Rightarrow> string list \<Rightarrow> string \<Rightarrow> string \<Rightarrow> unit result" where
  "require_privileges permissions needed unavailable denied =
     ebind (read_or permissions unavailable 503) (\<lambda>ps.
       raise_if (\<not> set needed \<subseteq> set ps) (FeatureError denied 403))"

section \<open>Task references\<close>

text \<open>
  The pattern \<open>UPID:<node>:<hex>:<hex>:<hex>:<kind>:<vmid>:<user>:\<close> of a feature's task, for a
  text of at most 512 characters.
\<close>

definition UPID_USER :: rx where
  "UPID_USER = plus (Cls (\<lambda>c. is_alpha c \<or> is_digit c \<or> c \<in> set ''_.@!+-''))"

definition HEX_COLON :: rx where
  "HEX_COLON = Cat (plus (Cls is_hex)) (lit CHR '':'')"

definition upid_rx :: "string \<Rightarrow> string \<Rightarrow> int \<Rightarrow> rx" where
  "upid_rx kind node_id vmid =
     cats [word_rx (''UPID:'' @ node_id @ '':''), HEX_COLON, HEX_COLON, HEX_COLON,
           word_rx (kind @ '':'' @ show_int vmid @ '':''), UPID_USER, lit CHR '':'']"

definition task_reference :: "string \<Rightarrow> string \<Rightarrow> string \<Rightarrow> int \<Rightarrow> pyval \<Rightarrow> string result" where
  "task_reference code kind node_id vmid value =
     (case value of
        PStr s \<Rightarrow> if length s > 512 \<or> \<not> matches_full (upid_rx kind node_id vmid) s
                  then Inl (FeatureError code 503) else Inr s
      | _ \<Rightarrow> Inl (FeatureError code 503))"

lemma id_text:
  assumes "is_id b"
  shows "b \<noteq> [] \<and> CHR '','' \<notin> set b \<and> CHR ''='' \<notin> set b \<and> CHR '':'' \<notin> set b"
proof -
  obtain c v where b: "b = c # v" "is_alpha c \<or> is_digit c"
      and v: "\<forall>x \<in> set v. is_alpha x \<or> is_digit x \<or> x \<in> set ''_.-''"
    using assms lang_upto_cls [of _ 63 "\<lambda>c. is_alpha c \<or> is_digit c \<or> c \<in> set ''_.-''"]
    unfolding is_id_def IDENTIFIER_def matches_full_iff_lang by auto
  have "\<not> (is_alpha x \<or> is_digit x)" if "x \<in> set '',=:''" for x
    using that by (auto simp: is_alpha_def is_digit_def char_between_def)
  then show ?thesis using b v by fastforce
qed

lemma show_int_no_comma: "CHR '','' \<notin> set (show_int i)"
  using show_nat_digits [of "nat i"] show_nat_digits [of "nat (- i)"]
  by (auto simp: show_int_def is_digit_def char_between_def)

lemma task_reference_Inr:
  "task_reference code kind node vmid v = Inr s \<longleftrightarrow> v = PStr s \<and> length s \<le> 512 \<and> s \<in> lang (upid_rx kind node vmid)"
  by (auto simp: task_reference_def matches_full_iff_lang split: pyval.splits if_splits)

lemma task_reference_Inl: "task_reference code kind node vmid v = Inl e \<Longrightarrow> e = FeatureError code 503"
  by (auto simp: task_reference_def split: pyval.splits if_splits)

text \<open>
  The fields of an accepted reference: splitting at the colons gives the node, the kind and the
  VMID, so a reference is accepted for one node, kind and VM only.
\<close>

lemma hex_no_colon: "w \<in> lang (plus (Cls is_hex)) \<Longrightarrow> CHR '':'' \<notin> set w"
  using lang_plus_cls [of w is_hex]
  by (auto simp: is_hex_def is_digit_def char_between_def)

lemma upid_fields:
  assumes "s \<in> lang (upid_rx kind node vmid)" "CHR '':'' \<notin> set node" "CHR '':'' \<notin> set kind"
  obtains a b c u where
    "py_split CHR '':'' s = [''UPID'', node, a, b, c, kind, show_int vmid, u, []]"
proof -
  from assms(1) obtain a b c u where
    s: "s = (''UPID:'' @ node @ '':'') @ (a @ '':'') @ (b @ '':'') @ (c @ '':'') @
          (kind @ '':'' @ show_int vmid @ '':'') @ u @ '':''"
    and hex: "a \<in> lang (plus (Cls is_hex))" "b \<in> lang (plus (Cls is_hex))" "c \<in> lang (plus (Cls is_hex))"
    and u: "u \<in> lang UPID_USER"
    by (auto simp: upid_rx_def HEX_COLON_def simp del: append_assoc)
  have "CHR '':'' \<notin> set u"
    using lang_plus_cls [OF u [unfolded UPID_USER_def]]
    by (auto simp: is_alpha_def is_digit_def char_between_def)
  moreover have "CHR '':'' \<notin> set (show_int vmid)"
    using show_nat_digits [of "nat vmid"] show_nat_digits [of "nat (- vmid)"]
    by (auto simp: show_int_def is_digit_def char_between_def)
  moreover have "CHR '':'' \<notin> set a" "CHR '':'' \<notin> set b" "CHR '':'' \<notin> set c"
    using hex hex_no_colon by auto
  moreover have "s = ''UPID'' @ CHR '':'' # node @ CHR '':'' # a @ CHR '':'' # b @ CHR '':'' # c @ CHR '':'' #
      kind @ CHR '':'' # show_int vmid @ CHR '':'' # u @ CHR '':'' # []"
    using s by simp
  ultimately have "py_split CHR '':'' s = [''UPID'', node, a, b, c, kind, show_int vmid, u, []]"
    using assms(2,3) by (simp only: py_split_append_sep) (simp add: py_split_append_sep)
  then show thesis by (rule that)
qed

lemma show_int_inject [simp]: "show_int i = show_int j \<longleftrightarrow> i = j"
proof
  have minus: "CHR ''-'' \<notin> set (show_nat n)" for n
    using show_nat_digits [of n] by (auto simp: is_digit_def char_between_def)
  assume "show_int i = show_int j"
  then show "i = j"
    using minus by (auto simp: show_int_def split: if_splits) (metis list.set_intros(1))+
qed simp

end
