(* ===== verification/VmCompute.thy ===== *)
theory VmCompute
  imports VmCommon
begin

text \<open>
  CPU and memory changes of a stopped VM: \<open>app/operations/vm_compute/domain.py\<close>,
  \<open>application.py\<close> and \<open>infrastructure.py\<close>.
\<close>

section \<open>Domain\<close>

abbreviation compute_error :: "string \<Rightarrow> nat \<Rightarrow> error" where
  "compute_error code status \<equiv> FeatureError (''VM_COMPUTE_'' @ code) status"

definition compute_request_ok :: "pydict \<Rightarrow> bool" where
  "compute_request_ok d =
     (set (dict_keys d) = {''idempotency_key'', ''expected_digest'', ''expected_name'', ''cores'', ''memory_mib''}
      \<and> common_request d \<and> str_field d ''expected_name'' 0 255 (\<lambda>_. True)
      \<and> int_field d ''cores'' 1 128 \<and> int_field d ''memory_mib'' 128 1048576)"

definition compute_validate_target :: "string \<Rightarrow> int \<Rightarrow> unit result" where
  "compute_validate_target node_id vmid =
     raise_if (\<not> valid_target node_id vmid) (compute_error ''INVALID_TARGET'' 422)"

definition NUMA_KEY :: rx where
  "NUMA_KEY = numbered [''numa'']"

text \<open>The four conversions inside \<open>try\<close>; any \<open>KeyError\<close>, \<open>ValueError\<close> or \<open>TypeError\<close> is one error.\<close>

definition compute_numbers :: "pydict \<Rightarrow> (int \<times> int \<times> int \<times> int) result" where
  "compute_numbers config =
     (case ebind (ditem config ''cores'') py_int of
        Inl _ \<Rightarrow> Inl (compute_error ''CONFIG_UNSUPPORTED'' 409)
      | Inr cores \<Rightarrow>
      case ebind (ditem config ''memory'') py_int of
        Inl _ \<Rightarrow> Inl (compute_error ''CONFIG_UNSUPPORTED'' 409)
      | Inr memory \<Rightarrow>
      case py_int (dget_or config ''sockets'' (PInt 1)) of
        Inl _ \<Rightarrow> Inl (compute_error ''CONFIG_UNSUPPORTED'' 409)
      | Inr sockets \<Rightarrow>
      case py_int (dget_or config ''balloon'' (PInt 0)) of
        Inl _ \<Rightarrow> Inl (compute_error ''CONFIG_UNSUPPORTED'' 409)
      | Inr balloon \<Rightarrow> Inr (cores, memory, sockets, balloon))"

definition observed_compute :: "pydict \<Rightarrow> pydict \<Rightarrow> pydict list \<Rightarrow> pydict result" where
  "observed_compute config status pending =
     ebind (raise_if (\<not> is_stopped status) (compute_error ''NOT_STOPPED'' 409)) (\<lambda>_.
     ebind (raise_if (template_or_locked config) (compute_error ''LOCKED_OR_TEMPLATE'' 409)) (\<lambda>_.
     ebind (raise_if (has_pending pending) (compute_error ''PENDING_CONFIG'' 409)) (\<lambda>_.
     ebind (compute_numbers config) (\<lambda>(cores, memory, sockets, balloon).
     ebind (raise_if (sockets \<noteq> 1 \<or> dhas config ''vcpus''
              \<or> list_ex (matches_full NUMA_KEY) (dict_keys config))
            (compute_error ''TOPOLOGY_UNSUPPORTED'' 409)) (\<lambda>_.
       case config_digest (dget config ''digest'') of
         None \<Rightarrow> Inl (compute_error ''DIGEST_UNAVAILABLE'' 503)
       | Some digest \<Rightarrow>
           Inr [(''name'', PStr (py_str (dget_or config ''name'' (PStr [])))), (''status'', PStr ''stopped''),
                (''cores'', PInt cores), (''memory_mib'', PInt memory), (''sockets'', PInt sockets),
                (''balloon_mib'', PInt balloon), (''digest'', PStr digest)])))))"

definition compute_check_expected :: "pydict \<Rightarrow> change_request \<Rightarrow> unit result" where
  "compute_check_expected before rq =
     ebind (ditem before ''digest'') (\<lambda>digest.
     ebind (ditem before ''name'') (\<lambda>name.
     ebind (raise_if (\<not> py_eq digest (attr rq ''expected_digest'') \<or> \<not> py_eq name (attr rq ''expected_name''))
        (compute_error ''STATE_CHANGED'' 409)) (\<lambda>_.
     ebind (ditem before ''balloon_mib'') (\<lambda>balloon.
     ebind (num_lt (attr rq ''memory_mib'') balloon) (\<lambda>below.
     ebind (raise_if below (compute_error ''BALLOON_LIMIT'' 422)) (\<lambda>_.
     ebind (ditem before ''cores'') (\<lambda>cores.
     ebind (ditem before ''memory_mib'') (\<lambda>memory.
       raise_if (py_eq (attr rq ''cores'') cores \<and> py_eq (attr rq ''memory_mib'') memory)
         (compute_error ''NO_CHANGE'' 422)))))))))"

section \<open>Client\<close>

definition compute_read :: "vm_client \<Rightarrow> string \<Rightarrow> int \<Rightarrow> nat \<Rightarrow> (pydict \<times> pydict \<times> pydict list) result" where
  "compute_read vc node_id vmid k =
     (case (vc_config vc node_id vmid k, vc_pending vc node_id vmid k, vc_status vc node_id vmid k) of
        (Some config, Some pending, Some status) \<Rightarrow> Inr (config, status, pending)
      | _ \<Rightarrow> Inl (compute_error ''OBSERVATION_UNAVAILABLE'' 503))"

definition compute_check_permissions :: "vm_client \<Rightarrow> int \<Rightarrow> nat \<Rightarrow> unit result" where
  "compute_check_permissions vc vmid k =
     require_privileges (vc_vm_permissions vc vmid k) [''VM.Audit'', ''VM.Config.CPU'', ''VM.Config.Memory'']
       ''VM_COMPUTE_PERMISSION_UNAVAILABLE'' ''VM_COMPUTE_PERMISSION_DENIED''"

definition compute_apply :: "vm_client \<Rightarrow> string \<Rightarrow> int \<Rightarrow> change_request \<Rightarrow> nat \<Rightarrow> unit result" where
  "compute_apply vc node_id vmid rq k =
     (case vc_set_config vc node_id vmid
             [(''cores'', attr rq ''cores''), (''memory'', attr rq ''memory_mib''),
              (''digest'', attr rq ''expected_digest'')] k of
        None \<Rightarrow> Inl (compute_error ''DISPATCH_UNKNOWN'' 503)
      | Some response \<Rightarrow> raise_if (response \<noteq> PNone) (compute_error ''DISPATCH_UNKNOWN'' 503))"

section \<open>Service\<close>

definition compute_observe :: "vm_client \<Rightarrow> string \<Rightarrow> int \<Rightarrow> nat \<Rightarrow> pydict result" where
  "compute_observe vc node_id vmid k =
     ebind (compute_read vc node_id vmid k) (\<lambda>(config, status, pending). observed_compute config status pending)"

definition compute_review :: "vm_client \<Rightarrow> string \<Rightarrow> int \<Rightarrow> nat \<Rightarrow> pydict result" where
  "compute_review vc node_id vmid k =
     ebind (compute_validate_target node_id vmid) (\<lambda>_.
     ebind (compute_check_permissions vc vmid k) (\<lambda>_. compute_observe vc node_id vmid k))"

definition compute_matches :: "pydict \<Rightarrow> pyval \<Rightarrow> pyval \<Rightarrow> bool result" where
  "compute_matches observed requested before =
     ebind (ditem observed ''name'') (\<lambda>name. ebind (dict_item requested ''expected_name'') (\<lambda>name'.
     ebind (ditem observed ''cores'') (\<lambda>cores. ebind (dict_item requested ''cores'') (\<lambda>cores'.
     ebind (ditem observed ''memory_mib'') (\<lambda>memory. ebind (dict_item requested ''memory_mib'') (\<lambda>memory'.
     ebind (ditem observed ''balloon_mib'') (\<lambda>balloon. ebind (dict_item before ''balloon_mib'') (\<lambda>balloon'.
       Inr (py_eq name name' \<and> py_eq cores cores' \<and> py_eq memory memory' \<and> py_eq balloon balloon')))))))))"

text \<open>Observation at the node and VM that the operation recorded.\<close>

definition at_target :: "(string \<Rightarrow> int \<Rightarrow> nat \<Rightarrow> 'a result) \<Rightarrow> pyval \<Rightarrow> pyval \<Rightarrow> nat \<Rightarrow> 'a result" where
  "at_target f node vmid k = (case (node, vmid) of (PStr n, PInt v) \<Rightarrow> f n v k | _ \<Rightarrow> Inl (PyError TypeError))"

definition compute_service :: "vm_client \<Rightarrow> string \<Rightarrow> config_service" where
  "compute_service vc cluster_id =
     \<lparr>cs_operation_type = ''vm_compute'', cs_operation_prefix = ''vm-compute-'',
      cs_event_prefix = ''compute_'', cs_error_prefix = ''VM_COMPUTE_'',
      cs_recovery_kind = ''vm_compute_observation'', cs_cluster_id = cluster_id,
      cs_validate_target = compute_validate_target, cs_review = compute_review vc,
      cs_check_expected = compute_check_expected, cs_observe = at_target (compute_observe vc),
      cs_matches = compute_matches, cs_apply = compute_apply vc\<rparr>"

section \<open>What the checks guarantee\<close>

lemma observed_computeD:
  assumes "observed_compute config status pending = Inr obs"
  shows "dget status ''status'' = PStr ''stopped''" "\<not> template_or_locked config" "\<not> has_pending pending"
    "dget obs ''sockets'' = PInt 1" "config_digest (dget config ''digest'') \<noteq> None"
    "dget obs ''digest'' = dget config ''digest''"
  using assms
  by (auto simp: observed_compute_def is_stopped_def dget_def config_digest_def exact_text_def
      split: option.splits pyval.splits if_splits)

text \<open>The observed state carries the request: same name, cores and memory.\<close>

definition compute_achieved :: "pydict \<Rightarrow> pyval \<Rightarrow> bool" where
  "compute_achieved observed requested \<longleftrightarrow> (\<exists>r. requested = PDict r \<and>
     py_eq (dget observed ''name'') (dget r ''expected_name'') \<and>
     py_eq (dget observed ''cores'') (dget r ''cores'') \<and>
     py_eq (dget observed ''memory_mib'') (dget r ''memory_mib''))"

lemma dict_itemD: "dict_item v k = Inr x \<Longrightarrow> \<exists>d. v = PDict d \<and> dget d k = x"
  by (cases v) (auto simp: dict_item_def dest: ditem_dget)

lemma compute_matches_achieved:
  "compute_matches observed requested before = Inr True \<Longrightarrow> compute_achieved observed requested"
  by (auto simp: compute_matches_def compute_achieved_def dest!: ditem_dget dict_itemD)

interpretation compute: config_feature "compute_service vc cluster" compute_achieved for vc cluster
  by unfold_locales (auto simp: compute_service_def intro: compute_matches_achieved)

text \<open>
  The check against the reviewed state: the digest is the reviewed one and the request changes
  something without going below the balloon minimum.
\<close>

lemma compute_check_expectedD:
  assumes "compute_check_expected before rq = Inr ()"
  shows "py_eq (dget before ''digest'') (attr rq ''expected_digest'')"
    "py_eq (dget before ''name'') (attr rq ''expected_name'')"
    "num_lt (attr rq ''memory_mib'') (dget before ''balloon_mib'') = Inr False"
    "\<not> (py_eq (attr rq ''cores'') (dget before ''cores'') \<and> py_eq (attr rq ''memory_mib'') (dget before ''memory_mib''))"
  using assms by (auto simp: compute_check_expected_def dest!: ditem_dget)

end
