(* ===== verification/VmNetwork.thy ===== *)
theory VmNetwork
  imports VmCompute
begin

text \<open>
  Bridge and VLAN changes of \<open>net0\<close> of a stopped VM: \<open>app/operations/vm_network/domain.py\<close>,
  \<open>application.py\<close> and \<open>infrastructure.py\<close>. The options of a device text are the list of its
  key-value pairs in order.
\<close>

section \<open>Device texts\<close>

type_synonym net_options = "(string \<times> string) list"

abbreviation network_error :: "string \<Rightarrow> nat \<Rightarrow> error" where
  "network_error code status \<equiv> FeatureError (''VM_NETWORK_'' @ code) status"

definition network_request_ok :: "pydict \<Rightarrow> bool" where
  "network_request_ok d =
     (set (dict_keys d) = {''idempotency_key'', ''expected_digest'', ''expected_name'', ''expected_net0'',
        ''bridge_id'', ''vlan_tag''}
      \<and> common_request d \<and> str_field d ''expected_name'' 0 255 (\<lambda>_. True)
      \<and> str_field d ''expected_net0'' 1 2048 (\<lambda>_. True) \<and> str_field d ''bridge_id'' 0 64 is_id
      \<and> (dget d ''vlan_tag'' = PNone \<or> int_field d ''vlan_tag'' 1 4094))"

definition network_validate_target :: "string \<Rightarrow> int \<Rightarrow> unit result" where
  "network_validate_target node_id vmid =
     raise_if (\<not> valid_target node_id vmid) (network_error ''INVALID_TARGET'' 422)"

definition OPTION_KEY :: rx where
  "OPTION_KEY = plus (Cls (\<lambda>c. is_alpha c \<or> is_digit c \<or> c = CHR ''_'' \<or> c = CHR ''-''))"

definition MAC :: rx where
  "MAC = Cat (times 5 (cats [Cls is_hex, Cls is_hex, lit CHR '':''])) (times 2 (Cls is_hex))"

definition NIC_MODELS :: "string list" where
  "NIC_MODELS = [''virtio'', ''e1000'', ''e1000-82540em'', ''e1000-82544gc'', ''e1000-82545em'',
     ''i82551'', ''i82557b'', ''i82559er'', ''ne2k_pci'', ''pcnet'', ''rtl8139'', ''vmxnet3'']"

text \<open>\<open>str.isdigit\<close>: besides 0-9 it accepts the superscripts of code points 178, 179 and 185.\<close>

definition py_isdigit :: "string \<Rightarrow> bool" where
  "py_isdigit s = (s \<noteq> [] \<and>
     list_all (\<lambda>c. is_digit c \<or> (of_char c :: nat) \<in> {178, 179, 185}) s)"

text \<open>\<open>not tag.isdigit() or not 1 <= int(tag) <= 4094\<close>; \<open>int\<close> may raise.\<close>

definition bad_tag :: "string option \<Rightarrow> bool result" where
  "bad_tag tag = (case tag of
       None \<Rightarrow> Inr False
     | Some t \<Rightarrow> if \<not> py_isdigit t then Inr True
                else ebind (int_of_text t) (\<lambda>i. Inr (\<not> (1 \<le> i \<and> i \<le> 4094))))"

definition net_pair_ok :: "string \<times> string \<Rightarrow> bool" where
  "net_pair_ok p = (matches_full OPTION_KEY (fst p) \<and> snd p \<noteq> [])"

definition parse_net0 :: "pyval \<Rightarrow> net_options result" where
  "parse_net0 value =
     (case value of
        PStr s \<Rightarrow>
          if s = [] \<or> length s > 2048 then Inl (network_error ''CONFIG_UNSUPPORTED'' 409)
          else (case all_some (map split_pair (py_split CHR '','' s)) of
                  None \<Rightarrow> Inl (network_error ''CONFIG_UNSUPPORTED'' 409)
                | Some pairs \<Rightarrow>
                    ebind (raise_if (\<not> list_all net_pair_ok pairs) (network_error ''CONFIG_UNSUPPORTED'' 409)) (\<lambda>_.
                    ebind (raise_if (\<not> distinct (map fst pairs) \<or> \<not> matches_full MAC (snd (hd pairs)))
                       (network_error ''CONFIG_UNSUPPORTED'' 409)) (\<lambda>_.
                    ebind (raise_if (fst (hd pairs) \<notin> set NIC_MODELS) (network_error ''CONFIG_UNSUPPORTED'' 409)) (\<lambda>_.
                    ebind (raise_if (map_of pairs ''trunks'' \<noteq> None \<or> \<not> is_id (text_or pairs ''bridge'' []))
                       (network_error ''CONFIG_UNSUPPORTED'' 409)) (\<lambda>_.
                    ebind (bad_tag (map_of pairs ''tag'')) (\<lambda>bad.
                    ebind (raise_if bad (network_error ''CONFIG_UNSUPPORTED'' 409)) (\<lambda>_. Inr pairs)))))))
      | _ \<Rightarrow> Inl (network_error ''CONFIG_UNSUPPORTED'' 409))"

definition render_options :: "net_options \<Rightarrow> string" where
  "render_options ps = py_join '','' (map (\<lambda>(k, v). k @ CHR ''='' # v) ps)"

definition edit_options :: "net_options \<Rightarrow> string \<Rightarrow> int option \<Rightarrow> net_options" where
  "edit_options ps bridge tag =
     (case tag of
        None \<Rightarrow> dpop ''tag'' (dset ''bridge'' bridge ps)
      | Some t \<Rightarrow> dset ''tag'' (show_int t) (dset ''bridge'' bridge ps))"

definition replace_network :: "pyval \<Rightarrow> string \<Rightarrow> int option \<Rightarrow> string result" where
  "replace_network net0 bridge tag =
     ebind (parse_net0 net0) (\<lambda>ps. Inr (render_options (edit_options ps bridge tag)))"

section \<open>Observation and checks\<close>

definition usable_bridge :: "pydict \<Rightarrow> string option" where
  "usable_bridge row =
     (if dget row ''type'' = PStr ''bridge'' \<and> one (dget row ''active'')
      then exact_text IDENTIFIER (dget row ''iface'') else None)"

definition bridge_entry :: "pydict \<Rightarrow> (string \<times> bool) option" where
  "bridge_entry row = map_option (\<lambda>b. (b, one (dget_or row ''bridge_vlan_aware'' (PInt 0)))) (usable_bridge row)"

definition bridge_dict :: "string \<times> bool \<Rightarrow> pyval" where
  "bridge_dict b = PDict [(''bridge_id'', PStr (fst b)), (''vlan_aware'', PBool (snd b))]"

definition tag_value :: "net_options \<Rightarrow> pyval result" where
  "tag_value ps = (case map_of ps ''tag'' of
       None \<Rightarrow> Inr PNone | Some t \<Rightarrow> ebind (int_of_text t) (\<lambda>i. Inr (PInt i)))"

definition network_view :: "pydict \<Rightarrow> string \<Rightarrow> net_options \<Rightarrow> pydict list \<Rightarrow> pydict result" where
  "network_view config digest ps rows =
     (let bridges = List.map_filter bridge_entry rows in
      ebind (raise_if (text_or ps ''bridge'' [] \<notin> set (map fst bridges))
         (network_error ''BRIDGE_UNAVAILABLE'' 409)) (\<lambda>_.
      ebind (tag_value ps) (\<lambda>vlan.
        Inr [(''name'', PStr (py_str (dget_or config ''name'' (PStr [])))), (''status'', PStr ''stopped''),
             (''digest'', PStr digest), (''net0'', dget config ''net0''),
             (''model'', PStr (fst (hd ps))), (''mac'', PStr (snd (hd ps))),
             (''bridge_id'', PStr (text_or ps ''bridge'' [])), (''vlan_tag'', vlan),
             (''bridges'', PList (map bridge_dict bridges))])))"

definition observed_network :: "pydict \<Rightarrow> pydict \<Rightarrow> pydict list \<Rightarrow> pydict \<Rightarrow> pydict result" where
  "observed_network config status pending snapshot =
     ebind (stopped_unlocked network_error config status pending) (\<lambda>_.
     ebind (ditem snapshot ''pending_changes'') (\<lambda>changes.
     ebind (raise_if (truthy changes) (network_error ''HOST_PENDING'' 409)) (\<lambda>_.
       case config_digest (dget config ''digest'') of
         None \<Rightarrow> Inl (network_error ''DIGEST_UNAVAILABLE'' 503)
       | Some digest \<Rightarrow>
           ebind (parse_net0 (dget config ''net0'')) (\<lambda>ps.
           ebind (ebind (ditem snapshot ''interfaces'') dict_rows) (\<lambda>rows. network_view config digest ps rows)))))"

definition find_bridge :: "pyval \<Rightarrow> pyval \<Rightarrow> pydict option result" where
  "find_bridge bridges bridge_id =
     ebind (dict_rows bridges) (\<lambda>rows. Inr (find (\<lambda>row. py_eq (dget row ''bridge_id'') bridge_id) rows))"

definition network_check_expected :: "pydict \<Rightarrow> change_request \<Rightarrow> unit result" where
  "network_check_expected before rq =
     ebind (ditem before ''digest'') (\<lambda>digest. ebind (ditem before ''name'') (\<lambda>name.
     ebind (ditem before ''net0'') (\<lambda>net0.
     ebind (raise_if (\<not> (py_eq digest (attr rq ''expected_digest'') \<and> py_eq name (attr rq ''expected_name'')
              \<and> py_eq net0 (attr rq ''expected_net0'')))
        (network_error ''STATE_CHANGED'' 409)) (\<lambda>_.
     ebind (ebind (ditem before ''bridges'') (\<lambda>bs. find_bridge bs (attr rq ''bridge_id''))) (\<lambda>selected.
       case selected of
         None \<Rightarrow> Inl (network_error ''BRIDGE_UNAVAILABLE'' 409)
       | Some row \<Rightarrow>
           ebind (raise_if (attr rq ''vlan_tag'' \<noteq> PNone \<and> \<not> truthy (dget row ''vlan_aware''))
              (network_error ''VLAN_UNSUPPORTED'' 422)) (\<lambda>_.
           ebind (ditem before ''bridge_id'') (\<lambda>bridge. ebind (ditem before ''vlan_tag'') (\<lambda>tag.
             raise_if (py_eq bridge (attr rq ''bridge_id'') \<and> py_eq tag (attr rq ''vlan_tag''))
               (network_error ''NO_CHANGE'' 422)))))))))"

section \<open>Client and service\<close>

definition offered_interfaces :: "vm_client \<Rightarrow> nat \<Rightarrow> pydict list \<Rightarrow> pydict list option" where
  "offered_interfaces vc k rows = foldr (\<lambda>row acc. case acc of None \<Rightarrow> None | Some kept \<Rightarrow>
       (case (dget row ''type'', dget row ''iface'') of
          (PStr t, PStr b) \<Rightarrow>
            if t \<noteq> ''bridge'' then Some kept
            else (case vc_bridge_permissions vc b k of
                    None \<Rightarrow> None
                  | Some ps \<Rightarrow> Some (if ''SDN.Use'' \<in> set ps then row # kept else kept))
        | _ \<Rightarrow> Some kept)) rows (Some [])"

definition network_read :: "vm_client \<Rightarrow> string \<Rightarrow> int \<Rightarrow> nat \<Rightarrow> (pydict \<times> pydict \<times> pydict list \<times> pydict) result" where
  "network_read vc node_id vmid k =
     (case (vc_config vc node_id vmid k, vc_pending vc node_id vmid k, vc_network vc node_id k) of
        (Some config, Some pending, Some snapshot) \<Rightarrow>
          ebind (ebind (ditem snapshot ''interfaces'') dict_rows) (\<lambda>rows.
            case (offered_interfaces vc k rows, vc_status vc node_id vmid k) of
              (Some kept, Some status) \<Rightarrow>
                Inr (config, status, pending, dset ''interfaces'' (PList (map PDict kept)) snapshot)
            | _ \<Rightarrow> Inl (network_error ''OBSERVATION_UNAVAILABLE'' 503))
      | _ \<Rightarrow> Inl (network_error ''OBSERVATION_UNAVAILABLE'' 503))"

definition network_check_permissions :: "vm_client \<Rightarrow> int \<Rightarrow> nat \<Rightarrow> unit result" where
  "network_check_permissions vc vmid k =
     require_privileges (vc_vm_permissions vc vmid k) [''VM.Audit'', ''VM.Config.Network'']
       ''VM_NETWORK_PERMISSION_UNAVAILABLE'' ''VM_NETWORK_PERMISSION_DENIED''"

definition tag_of :: "pyval \<Rightarrow> int option" where
  "tag_of v = (case v of PInt i \<Rightarrow> Some i | _ \<Rightarrow> None)"

definition network_apply :: "vm_client \<Rightarrow> string \<Rightarrow> int \<Rightarrow> change_request \<Rightarrow> nat \<Rightarrow> unit result" where
  "network_apply vc node_id vmid rq k =
     ebind (replace_network (attr rq ''expected_net0'') (py_str (attr rq ''bridge_id'')) (tag_of (attr rq ''vlan_tag'')))
       (\<lambda>net0.
          case vc_set_config vc node_id vmid [(''net0'', PStr net0), (''digest'', attr rq ''expected_digest'')] k of
            None \<Rightarrow> Inl (network_error ''DISPATCH_UNKNOWN'' 503)
          | Some response \<Rightarrow> raise_if (response \<noteq> PNone) (network_error ''DISPATCH_UNKNOWN'' 503))"

definition network_observe :: "vm_client \<Rightarrow> string \<Rightarrow> int \<Rightarrow> nat \<Rightarrow> pydict result" where
  "network_observe vc node_id vmid k =
     ebind (network_read vc node_id vmid k) (\<lambda>(config, status, pending, snapshot).
       observed_network config status pending snapshot)"

definition network_review :: "vm_client \<Rightarrow> string \<Rightarrow> int \<Rightarrow> nat \<Rightarrow> pydict result" where
  "network_review vc node_id vmid k =
     ebind (network_validate_target node_id vmid) (\<lambda>_.
     ebind (network_check_permissions vc vmid k) (\<lambda>_. network_observe vc node_id vmid k))"

text \<open>Python compares the two parsed dicts without regard to order.\<close>

definition same_options :: "net_options \<Rightarrow> net_options \<Rightarrow> bool" where
  "same_options ps qs = (length ps = length qs \<and> list_all (\<lambda>(k, v). map_of qs k = Some v) ps)"

definition network_matches :: "pydict \<Rightarrow> pyval \<Rightarrow> pyval \<Rightarrow> bool result" where
  "network_matches observed requested before =
     ebind (dict_item before ''net0'') (\<lambda>net0. ebind (dict_item requested ''bridge_id'') (\<lambda>bridge_id.
     ebind (dict_item requested ''vlan_tag'') (\<lambda>vlan_tag.
     ebind (replace_network net0 (py_str bridge_id) (tag_of vlan_tag)) (\<lambda>expected.
     ebind (ebind (ditem observed ''bridges'') (\<lambda>bs. find_bridge bs bridge_id)) (\<lambda>bridge.
     ebind (ditem observed ''name'') (\<lambda>name. ebind (dict_item requested ''expected_name'') (\<lambda>name'.
       if \<not> py_eq name name' then Inr False
       else ebind (ebind (ditem observed ''net0'') parse_net0) (\<lambda>ps.
            ebind (parse_net0 (PStr expected)) (\<lambda>qs.
              Inr (same_options ps qs \<and>
                (case bridge of None \<Rightarrow> False
                 | Some row \<Rightarrow> vlan_tag = PNone \<or> truthy (dget row ''vlan_aware''))))))))))))"

definition network_service :: "vm_client \<Rightarrow> string \<Rightarrow> config_service" where
  "network_service vc cluster_id =
     \<lparr>cs_operation_type = ''vm_network'', cs_operation_prefix = ''vm-network-'',
      cs_event_prefix = ''network_'', cs_error_prefix = ''VM_NETWORK_'',
      cs_recovery_kind = ''vm_network_observation'', cs_cluster_id = cluster_id,
      cs_validate_target = network_validate_target, cs_review = network_review vc,
      cs_check_expected = network_check_expected, cs_observe = at_target (network_observe vc),
      cs_matches = network_matches, cs_apply = network_apply vc\<rparr>"

section \<open>Parsing and rendering\<close>

text \<open>\<open>net_ok ps\<close>: the option lists that \<open>parse_net0\<close> accepts.\<close>

definition net_ok :: "net_options \<Rightarrow> bool" where
  "net_ok ps \<longleftrightarrow> ps \<noteq> [] \<and> list_all net_pair_ok ps \<and> distinct (map fst ps) \<and>
     matches_full MAC (snd (hd ps)) \<and> fst (hd ps) \<in> set NIC_MODELS \<and>
     map_of ps ''trunks'' = None \<and> is_id (text_or ps ''bridge'' []) \<and> bad_tag (map_of ps ''tag'') = Inr False"

definition comma_free :: "net_options \<Rightarrow> bool" where
  "comma_free ps \<longleftrightarrow> (\<forall>(k, v) \<in> set ps. CHR '','' \<notin> set k \<and> CHR '','' \<notin> set v)"

lemma option_key_chars: "matches_full OPTION_KEY k \<Longrightarrow> CHR ''='' \<notin> set k \<and> CHR '','' \<notin> set k"
  using lang_plus_cls [of k "\<lambda>c. is_alpha c \<or> is_digit c \<or> c = CHR ''_'' \<or> c = CHR ''-''"]
  by (auto simp: OPTION_KEY_def matches_full_iff_lang is_alpha_def is_digit_def char_between_def)

lemma split_render:
  assumes "ps \<noteq> []" "list_all net_pair_ok ps" "comma_free ps"
  shows "all_some (map split_pair (py_split CHR '','' (render_options ps))) = Some ps"
proof -
  let ?f = "\<lambda>(k, v). k @ CHR ''='' # v"
  have "py_split CHR '','' (render_options ps) = map ?f ps"
    unfolding render_options_def using assms(1,3) by (intro split_join) (auto simp: comma_free_def)
  moreover have "map (split_pair \<circ> ?f) ps = map Some ps"
    using assms(2) by (fastforce simp: list_all_iff net_pair_ok_def split_pair_Some dest: option_key_chars)
  ultimately show ?thesis by (simp add: all_some_Some)
qed

lemma parse_net0_Inr:
  "parse_net0 (PStr s) = Inr ps \<longleftrightarrow> s \<noteq> [] \<and> length s \<le> 2048 \<and> net_ok ps \<and> comma_free ps \<and> s = render_options ps"
  (is "?lhs \<longleftrightarrow> ?rhs")
proof
  assume l: ?lhs
  then have pairs: "map split_pair (py_split CHR '','' s) = map Some ps"
    and ok: "s \<noteq> []" "length s \<le> 2048" "list_all net_pair_ok ps" "distinct (map fst ps)"
      "matches_full MAC (snd (hd ps))" "fst (hd ps) \<in> set NIC_MODELS" "map_of ps ''trunks'' = None"
      "is_id (text_or ps ''bridge'' [])" "bad_tag (map_of ps ''tag'') = Inr False"
    by (auto simp: parse_net0_def all_some_Some simp del: map_of_eq_None_iff not_None_eq split: if_splits option.splits)
  have parts: "py_split CHR '','' s = map (\<lambda>(k, v). k @ CHR ''='' # v) ps"
  proof (rule nth_equalityI)
    show len: "length (py_split CHR '','' s) = length (map (\<lambda>(k, v). k @ CHR ''='' # v) ps)"
      using arg_cong [OF pairs, of length] by simp
    fix i assume i: "i < length (py_split CHR '','' s)"
    then have "split_pair (py_split CHR '','' s ! i) = Some (ps ! i)"
      using arg_cong [OF pairs, of "\<lambda>xs. xs ! i"] len by simp
    then show "py_split CHR '','' s ! i = map (\<lambda>(k, v). k @ CHR ''='' # v) ps ! i"
      using i len by (cases "ps ! i") (auto simp: split_pair_Some)
  qed
  then have "s = render_options ps" unfolding render_options_def using join_split [of "CHR '',''" s] by simp
  moreover have "comma_free ps"
    unfolding comma_free_def
  proof (intro ballI, clarify)
    fix k v assume "(k, v) \<in> set ps"
    then have "k @ CHR ''='' # v \<in> set (py_split CHR '','' s)" unfolding parts by force
    then show "CHR '','' \<notin> set k \<and> CHR '','' \<notin> set v" using split_no_sep by fastforce
  qed
  moreover have "ps \<noteq> []" using pairs by auto
  ultimately show ?rhs using ok by (simp add: net_ok_def)
next
  assume r: ?rhs
  then have "all_some (map split_pair (py_split CHR '','' s)) = Some ps"
    using split_render [of ps] by (simp add: net_ok_def)
  with r show ?lhs by (auto simp: parse_net0_def net_ok_def raise_if_def)
qed

section \<open>Editing keeps the other options\<close>

lemma vlan_text:
  assumes "1 \<le> t" "t \<le> 4094"
  shows "int_of_text (show_int t) = Inr t" "bad_tag (Some (show_int t)) = Inr False"
proof -
  show "int_of_text (show_int t) = Inr t"
    using assms show_nat_digits [of "nat t"] length_show_nat [of "nat t"]
    by (simp add: show_int_def int_of_text_digits)
  moreover have "py_isdigit (show_int t)"
    using assms show_nat_digits [of "nat t"] by (simp add: show_int_def py_isdigit_def list_all_iff)
  ultimately show "bad_tag (Some (show_int t)) = Inr False" using assms by (simp add: bad_tag_def)
qed

lemma net_head: "net_ok ps \<Longrightarrow> \<exists>m a rest. ps = (m, a) # rest \<and> m \<noteq> ''bridge'' \<and> m \<noteq> ''tag''"
  by (cases ps) (auto simp: net_ok_def NIC_MODELS_def)

lemma edit_head:
  assumes "net_ok ps"
  shows "edit_options ps b t \<noteq> [] \<and> hd (edit_options ps b t) = hd ps"
  using net_head [OF assms] by (auto simp: edit_options_def dpop_def split: option.splits)

lemma set_edit: "set (edit_options ps b t) \<subseteq> insert (''bridge'', b) ((\<lambda>t. (''tag'', show_int t)) ` set_option t \<union> set ps)"
proof -
  have "set (dset ''bridge'' b ps) \<subseteq> insert (''bridge'', b) (set ps)" by (rule set_dset)
  moreover have "set (dset ''tag'' s qs) \<subseteq> insert (''tag'', s) (set qs)" for s and qs :: net_options
    by (rule set_dset)
  ultimately show ?thesis
    by (cases t) (fastforce simp: edit_options_def dpop_def)+
qed

lemma map_of_edit:
  "map_of (edit_options ps b t) = (map_of ps)(''bridge'' \<mapsto> b, ''tag'' := map_option show_int t)"
  by (simp add: edit_options_def split: option.split)

lemma distinct_edit: "distinct (map fst ps) \<Longrightarrow> distinct (map fst (edit_options ps b t))"
  by (simp add: edit_options_def distinct_dset dpop_def distinct_map_filter split: option.split)

lemma edit_pairs:
  assumes "net_ok ps" "is_id b"
  shows "list_all net_pair_ok (edit_options ps b tag)"
proof -
  have "net_pair_ok (''bridge'', b)"
    using id_text [OF assms(2)] by (simp add: net_pair_ok_def) code_simp
  moreover have "net_pair_ok (''tag'', show_int t)" for t
    by (simp add: net_pair_ok_def show_int_def) code_simp
  moreover have "list_all net_pair_ok ps" using assms(1) by (simp add: net_ok_def)
  ultimately show ?thesis using set_edit [of ps b tag] by (auto simp: list_all_iff)
qed

lemma edit_comma_free:
  assumes "comma_free ps" "is_id b"
  shows "comma_free (edit_options ps b tag)"
proof -
  have "comma_free [(''bridge'', b)]" "comma_free [(''tag'', show_int t)]" for t
    using id_text [OF assms(2)] show_int_no_comma by (auto simp: comma_free_def)
  then show ?thesis using set_edit [of ps b tag] assms(1) by (auto simp: comma_free_def)
qed

lemma edit_net_ok:
  assumes "net_ok ps" "is_id b" "\<forall>t \<in> set_option tag. 1 \<le> t \<and> t \<le> 4094"
  shows "net_ok (edit_options ps b tag)"
proof -
  have "bad_tag (map_of (edit_options ps b tag) ''tag'') = Inr False"
    using assms(3) by (cases tag) (auto simp: map_of_edit vlan_text, simp add: bad_tag_def)
  then show ?thesis
    using assms edit_head [OF assms(1), of b tag] edit_pairs [OF assms(1,2), of tag]
    unfolding net_ok_def by (simp add: map_of_edit distinct_edit text_or_def)
qed

lemma replaced_options:
  assumes old: "parse_net0 (PStr net0) = Inr ps"
    and bridge: "is_id b" and tag: "\<forall>t \<in> set_option tag. 1 \<le> t \<and> t \<le> 4094"
    and new: "replace_network (PStr net0) b tag = Inr net1" and len: "length net1 \<le> 2048"
  shows "\<exists>qs. parse_net0 (PStr net1) = Inr qs \<and> hd qs = hd ps \<and>
    map_of qs = (map_of ps)(''bridge'' \<mapsto> b, ''tag'' := map_option show_int tag)"
proof (intro exI conjI)
  let ?qs = "edit_options ps b tag"
  have ps: "net_ok ps" "comma_free ps" using old by (auto simp: parse_net0_Inr)
  have ok: "net_ok ?qs" "comma_free ?qs" "?qs \<noteq> []"
    using edit_net_ok [OF ps(1) bridge tag] edit_comma_free [OF ps(2) bridge] edit_head [OF ps(1)] by auto
  have net1: "net1 = render_options ?qs" using new old by (simp add: replace_network_def)
  have "net1 \<noteq> []"
    using ok(3) unfolding net1 by (cases ?qs rule: list.exhaust; cases "tl ?qs") (auto simp: render_options_def)
  then show "parse_net0 (PStr net1) = Inr ?qs" using ok len net1 by (auto simp: parse_net0_Inr)
  show "hd ?qs = hd ps" using edit_head [OF ps(1)] by simp
  show "map_of ?qs = (map_of ps)(''bridge'' \<mapsto> b, ''tag'' := map_option show_int tag)"
    by (rule map_of_edit)
qed

section \<open>What the checks guarantee\<close>

lemma same_options_map_of:
  assumes "same_options ps qs" "distinct (map fst ps)" "distinct (map fst qs)"
  shows "map_of ps = map_of qs"
proof -
  have "set ps \<subseteq> set qs"
    using assms(1) by (auto simp: same_options_def list_all_iff dest: map_of_SomeD)
  moreover have "card (set ps) = card (set qs)"
    using assms by (simp add: same_options_def distinct_card distinct_map)
  ultimately have "set ps = set qs" by (simp add: card_subset_eq)
  then show ?thesis using assms(2,3) by (simp add: map_of_inject_set)
qed

text \<open>
  The observed device carries the requested bridge and tag (for a bridge and tag that the
  request check accepts) and the VM has the requested name.
\<close>

definition valid_change :: "string \<Rightarrow> int option \<Rightarrow> bool" where
  "valid_change b tag \<longleftrightarrow> is_id b \<and> (\<forall>t \<in> set_option tag. 1 \<le> t \<and> t \<le> 4094)"

definition network_achieved :: "pydict \<Rightarrow> pyval \<Rightarrow> bool" where
  "network_achieved observed requested \<longleftrightarrow> (\<exists>r ps. requested = PDict r \<and>
     py_eq (dget observed ''name'') (dget r ''expected_name'') \<and>
     parse_net0 (dget observed ''net0'') = Inr ps \<and>
     (valid_change (py_str (dget r ''bridge_id'')) (tag_of (dget r ''vlan_tag'')) \<longrightarrow>
        map_of ps ''bridge'' = Some (py_str (dget r ''bridge_id'')) \<and>
        map_of ps ''tag'' = map_option show_int (tag_of (dget r ''vlan_tag''))))"

lemma parse_net0_text: "parse_net0 v = Inr ps \<Longrightarrow> \<exists>s. v = PStr s \<and> length s \<le> 2048 \<and> distinct (map fst ps)"
  by (cases v) (auto simp: parse_net0_Inr net_ok_def, auto simp: parse_net0_def)

lemma network_matches_achieved:
  assumes "network_matches observed requested before = Inr True"
  shows "network_achieved observed requested"
proof -
  from assms obtain r net0 expected ps qs where
      r: "requested = PDict r" and name: "py_eq (dget observed ''name'') (dget r ''expected_name'')"
    and new: "replace_network net0 (py_str (dget r ''bridge_id'')) (tag_of (dget r ''vlan_tag'')) = Inr expected"
    and ps: "parse_net0 (dget observed ''net0'') = Inr ps" and qs: "parse_net0 (PStr expected) = Inr qs"
    and same: "same_options ps qs"
    by (auto simp: network_matches_def dest!: ditem_dget dict_itemD split: if_splits)
  from new obtain old where old: "parse_net0 net0 = Inr old"
    by (auto simp: replace_network_def)
  then obtain s where s: "net0 = PStr s" using parse_net0_text by blast
  have "map_of ps = map_of qs"
    using same_options_map_of [OF same] parse_net0_text [OF ps] parse_net0_text [OF qs] by auto
  moreover have "map_of qs ''bridge'' = Some (py_str (dget r ''bridge_id'')) \<and>
      map_of qs ''tag'' = map_option show_int (tag_of (dget r ''vlan_tag''))"
    if "valid_change (py_str (dget r ''bridge_id'')) (tag_of (dget r ''vlan_tag''))"
    using replaced_options [OF old [unfolded s] _ _ new [unfolded s]] that qs parse_net0_text [OF qs]
    by (auto simp: valid_change_def)
  ultimately show ?thesis using r name ps by (auto simp: network_achieved_def)
qed

interpretation network: config_feature "network_service vc cluster" network_achieved for vc cluster
  by unfold_locales (auto simp: network_service_def intro: network_matches_achieved)

lemma network_check_expectedD:
  assumes "network_check_expected before rq = Inr ()"
  shows "py_eq (dget before ''digest'') (attr rq ''expected_digest'')"
    "py_eq (dget before ''net0'') (attr rq ''expected_net0'')"
    "\<not> (py_eq (dget before ''bridge_id'') (attr rq ''bridge_id'') \<and> py_eq (dget before ''vlan_tag'') (attr rq ''vlan_tag''))"
  using assms by (auto simp: network_check_expected_def dest!: ditem_dget split: option.splits)

text \<open>A tag that \<open>isdigit\<close> accepts and \<open>int\<close> does not: the error leaves the parser.\<close>

lemma superscript_tag:
  "parse_net0 (PStr (''virtio=AA:BB:CC:DD:EE:FF,bridge=vmbr0,tag='' @ [CHR 0xB2])) = Inl (PyError ValueError)"
  by code_simp
end
