(* ===== verification/VmDisk.thy ===== *)
theory VmDisk
  imports VmNetwork
begin

text \<open>
  Expansion of \<open>scsi0\<close> of a stopped VM on NFS: \<open>app/operations/vm_disk/domain.py\<close>,
  \<open>application.py\<close> and \<open>infrastructure.py\<close>.
\<close>

section \<open>Domain\<close>

abbreviation disk_error :: "string \<Rightarrow> nat \<Rightarrow> error" where
  "disk_error code status \<equiv> FeatureError (''VM_DISK_'' @ code) status"

definition GIB :: int where
  "GIB = 1024 ^ 3"

definition disk_request_ok :: "pydict \<Rightarrow> bool" where
  "disk_request_ok d =
     (set (dict_keys d) = {''idempotency_key'', ''expected_digest'', ''expected_name'', ''expected_volume'',
        ''expected_size_bytes'', ''size_gib''}
      \<and> common_request d \<and> str_field d ''expected_name'' 0 255 (\<lambda>_. True)
      \<and> str_field d ''expected_volume'' 1 255 (\<lambda>_. True)
      \<and> (case dget d ''expected_size_bytes'' of PInt i \<Rightarrow> 0 < i | _ \<Rightarrow> False)
      \<and> int_field d ''size_gib'' 1 65536)"

definition DISK_VOLUME :: rx where
  "DISK_VOLUME = cats [Grp IDENTIFIER, lit CHR '':'', Grp (plus (Cls is_digit)), word_rx ''/vm-'',
     Grp (plus (Cls is_digit)), word_rx ''-disk-'', plus (Cls is_digit), lit CHR ''.'',
     Grp (alts [word_rx ''raw'', word_rx ''qcow2''])]"

text \<open>The loop over \<open>parts[1:]\<close>: every part has a \<open>=\<close> and no key occurs twice.\<close>

fun disk_options :: "(string \<times> string) list \<Rightarrow> string list \<Rightarrow> (string \<times> string) list result" where
  "disk_options opts [] = Inr opts"
| "disk_options opts (part # parts) =
     (case py_partition CHR ''='' part of (k, found, v) \<Rightarrow>
        if \<not> found \<or> map_of opts k \<noteq> None then Inl (disk_error ''UNSUPPORTED'' 409)
        else disk_options (opts @ [(k, v)]) parts)"

definition owned_volume :: "string \<Rightarrow> int \<Rightarrow> (string \<times> string) result" where
  "owned_volume volume vmid =
     (case fullmatch DISK_VOLUME volume of
        Some [storage, owner1, owner2, form] \<Rightarrow>
          ebind (int_of_text owner1) (\<lambda>i.
          ebind (raise_if (i \<noteq> vmid) (disk_error ''OWNERSHIP_UNCONFIRMED'' 409)) (\<lambda>_.
          ebind (int_of_text owner2) (\<lambda>j.
          ebind (raise_if (j \<noteq> vmid) (disk_error ''OWNERSHIP_UNCONFIRMED'' 409)) (\<lambda>_. Inr (storage, form)))))
      | _ \<Rightarrow> Inl (disk_error ''OWNERSHIP_UNCONFIRMED'' 409))"

definition disk_size :: "string \<Rightarrow> int result" where
  "disk_size t = (case decimal_bytes t of None \<Rightarrow> Inl (disk_error ''SIZE_UNKNOWN'' 503) | Some n \<Rightarrow> Inr n)"

definition scsi0_identity :: "pydict \<Rightarrow> string \<Rightarrow> int \<Rightarrow> pydict result" where
  "scsi0_identity config raw vmid =
     ebind (owned_volume (hd (py_split CHR '','' raw)) vmid) (\<lambda>(storage, form).
     ebind (disk_options [] (tl (py_split CHR '','' raw))) (\<lambda>opts.
     ebind (raise_if (text_or opts ''media'' [] = ''cdrom'' \<or> text_or opts ''shared'' ''0'' \<noteq> ''0''
         \<or> text_or opts ''ro'' ''0'' \<noteq> ''0'') (disk_error ''UNSUPPORTED'' 409)) (\<lambda>_.
     ebind (disk_size (text_or opts ''size'' [])) (\<lambda>bytes.
       case config_digest (dget config ''digest'') of
         None \<Rightarrow> Inl (disk_error ''DIGEST_UNAVAILABLE'' 503)
       | Some digest \<Rightarrow>
           Inr [(''name'', PStr (py_str (dget_or config ''name'' (PStr [])))), (''status'', PStr ''stopped''),
                (''digest'', PStr digest), (''disk'', PStr ''scsi0''),
                (''volume_id'', PStr (hd (py_split CHR '','' raw))),
                (''storage_id'', PStr storage), (''format'', PStr form), (''config_size_bytes'', PInt bytes)]))))"

definition disk_identity :: "pydict \<Rightarrow> pydict \<Rightarrow> pydict list \<Rightarrow> int \<Rightarrow> pydict result" where
  "disk_identity config status pending vmid =
     ebind (stopped_unlocked disk_error config status pending) (\<lambda>_.
       case dget config ''scsi0'' of
         PStr raw \<Rightarrow> scsi0_identity config raw vmid
       | _ \<Rightarrow> Inl (disk_error ''UNSUPPORTED'' 409))"

definition storage_row :: "pydict list \<Rightarrow> pyval \<Rightarrow> pydict option" where
  "storage_row storages storage_id = find (\<lambda>row. py_eq (dget row ''storage'') storage_id) storages"

definition active_nfs :: "pydict option \<Rightarrow> bool" where
  "active_nfs row = (case row of None \<Rightarrow> False
     | Some r \<Rightarrow> dget r ''type'' = PStr ''nfs'' \<and> truthy (dget r ''active'') \<and> truthy (dget r ''enabled''))"

definition observed_disk :: "pydict \<Rightarrow> pydict list \<Rightarrow> pydict \<Rightarrow> pydict result" where
  "observed_disk identity storages volume =
     ebind (ditem identity ''storage_id'') (\<lambda>storage_id.
     ebind (raise_if (\<not> active_nfs (storage_row storages storage_id)) (disk_error ''STORAGE_UNSUPPORTED'' 409)) (\<lambda>_.
       case dget volume ''size'' of
         PInt bytes \<Rightarrow>
           ebind (raise_if (bytes \<le> 0 \<or> dget identity ''config_size_bytes'' \<noteq> PInt bytes
               \<or> dget volume ''format'' \<noteq> dget identity ''format'') (disk_error ''SIZE_UNCONFIRMED'' 503)) (\<lambda>_.
             Inr (dmerge identity [(''size_bytes'', PInt bytes), (''storage_type'', PStr ''nfs'')]))
       | _ \<Rightarrow> Inl (disk_error ''SIZE_UNCONFIRMED'' 503)))"

text \<open>\<open>request.size_gib * GIB <= size\<close> for an integer and a stored value.\<close>

definition gib :: "pyval \<Rightarrow> pyval result" where
  "gib v = (case as_num v of Some i \<Rightarrow> Inr (PInt (i * GIB)) | None \<Rightarrow> Inl (PyError TypeError))"

definition disk_check_expected :: "pydict \<Rightarrow> change_request \<Rightarrow> unit result" where
  "disk_check_expected before rq =
     ebind (ditem before ''digest'') (\<lambda>digest. ebind (ditem before ''name'') (\<lambda>name.
     ebind (ditem before ''volume_id'') (\<lambda>volume. ebind (ditem before ''size_bytes'') (\<lambda>bytes.
     ebind (raise_if (\<not> (py_eq digest (attr rq ''expected_digest'') \<and> py_eq name (attr rq ''expected_name'')
              \<and> py_eq volume (attr rq ''expected_volume'') \<and> py_eq bytes (attr rq ''expected_size_bytes'')))
        (disk_error ''STATE_CHANGED'' 409)) (\<lambda>_.
     ebind (gib (attr rq ''size_gib'')) (\<lambda>requested.
     ebind (num_lt bytes requested) (\<lambda>larger.
       raise_if (\<not> larger) (disk_error ''NOT_EXPANSION'' 422))))))))"

section \<open>Client\<close>

definition disk_read :: "vm_client \<Rightarrow> string \<Rightarrow> int \<Rightarrow> nat \<Rightarrow> pydict result" where
  "disk_read vc node_id vmid k =
     (case (vc_config vc node_id vmid k, vc_status vc node_id vmid k, vc_pending vc node_id vmid k) of
        (Some config, Some status, Some pending) \<Rightarrow>
          ebind (disk_identity config status pending vmid) (\<lambda>identity.
          ebind (read_or (vc_storages vc node_id k) ''VM_DISK_OBSERVATION_UNAVAILABLE'' 503) (\<lambda>storages.
          ebind (read_or (vc_volume vc node_id (py_str (dget identity ''storage_id''))
                   (py_str (dget identity ''volume_id'')) k) ''VM_DISK_OBSERVATION_UNAVAILABLE'' 503) (\<lambda>volume.
            observed_disk identity storages volume)))
      | _ \<Rightarrow> Inl (disk_error ''OBSERVATION_UNAVAILABLE'' 503))"

definition disk_check_permissions :: "vm_client \<Rightarrow> int \<Rightarrow> string \<Rightarrow> nat \<Rightarrow> unit result" where
  "disk_check_permissions vc vmid storage k =
     ebind (read_or (vc_vm_permissions vc vmid k) ''VM_DISK_PERMISSION_UNAVAILABLE'' 503) (\<lambda>vm.
     ebind (read_or (vc_storage_permissions vc storage k) ''VM_DISK_PERMISSION_UNAVAILABLE'' 503) (\<lambda>st.
       raise_if (\<not> {''VM.Audit'', ''VM.Config.Disk''} \<subseteq> set vm
           \<or> \<not> {''Datastore.Audit'', ''Datastore.AllocateSpace''} \<subseteq> set st)
         (disk_error ''PERMISSION_DENIED'' 403)))"

definition disk_apply :: "vm_client \<Rightarrow> string \<Rightarrow> int \<Rightarrow> change_request \<Rightarrow> operation_snapshot \<Rightarrow> nat
    \<Rightarrow> string result" where
  "disk_apply vc node_id vmid rq operation k =
     (case attr rq ''size_gib'' of
        PInt bytes \<Rightarrow>
          ebind (read_or (vc_resize vc node_id vmid bytes (py_str (attr rq ''expected_digest'')) k)
             ''VM_DISK_DISPATCH_UNKNOWN'' 503) (task_reference ''VM_DISK_DISPATCH_UNKNOWN'' ''resize'' node_id vmid)
      | _ \<Rightarrow> Inl (PyError TypeError))"

text \<open>One observation of the task; the polling of \<open>wait_for_task\<close> is in the client.\<close>

definition task_observation :: "vm_client \<Rightarrow> string \<Rightarrow> pyval \<Rightarrow> pyval \<Rightarrow> nat \<Rightarrow> pydict result" where
  "task_observation vc code node upid k =
     (case (node, upid) of
        (PStr n, PStr u) \<Rightarrow> ebind (read_or (vc_task vc n u k) code 503) (\<lambda>task. Inr (compact_proxmox_task task n u))
      | _ \<Rightarrow> Inl (PyError TypeError))"

section \<open>Service\<close>

definition disk_review :: "vm_client \<Rightarrow> string \<Rightarrow> int \<Rightarrow> change_request \<Rightarrow> nat \<Rightarrow> pydict result" where
  "disk_review vc node_id vmid rq k =
     ebind (raise_if (\<not> valid_target node_id vmid) (disk_error ''INVALID_TARGET'' 422)) (\<lambda>_.
     ebind (disk_read vc node_id vmid k) (\<lambda>before.
     ebind (disk_check_permissions vc vmid (py_str (dget before ''storage_id'')) k) (\<lambda>_. Inr before)))"

text \<open>The default \<open>observe_result\<close>: read the VM at the target that the operation recorded.\<close>

definition read_target :: "(string \<Rightarrow> int \<Rightarrow> nat \<Rightarrow> pydict result) \<Rightarrow> operation_snapshot \<Rightarrow> nat \<Rightarrow> pydict result" where
  "read_target f operation k =
     ebind (ditem (sn_details operation) ''target'') (\<lambda>target.
     ebind (dict_item target ''node_id'') (\<lambda>node. ebind (dict_item target ''vmid'') (\<lambda>vmid. at_target f node vmid k)))"

definition disk_matches :: "pydict \<Rightarrow> pyval \<Rightarrow> pyval \<Rightarrow> bool result" where
  "disk_matches after requested before =
     ebind (ditem after ''name'') (\<lambda>name. ebind (dict_item requested ''expected_name'') (\<lambda>name'.
     ebind (ditem after ''volume_id'') (\<lambda>volume. ebind (dict_item requested ''expected_volume'') (\<lambda>volume'.
     ebind (ditem after ''size_bytes'') (\<lambda>bytes. ebind (ebind (dict_item requested ''size_gib'') gib) (\<lambda>bytes'.
       Inr (py_eq name name' \<and> py_eq volume volume' \<and> py_eq bytes bytes')))))))"

definition disk_service :: "vm_client \<Rightarrow> (nat \<Rightarrow> nat) \<Rightarrow> string \<Rightarrow> task_service" where
  "disk_service vc polls cluster_id =
     \<lparr>ts_operation_type = ''vm_disk_resize'', ts_operation_prefix = ''vm-disk-'', ts_event_prefix = ''disk_'',
      ts_error_prefix = ''VM_DISK_'', ts_recovery_kind = ''vm_disk_observation'', ts_cluster_id = cluster_id,
      ts_target = change_target, ts_extra_details = (\<lambda>_ _ _. []), ts_review = disk_review vc,
      ts_check_expected = disk_check_expected, ts_lock_vmids = (\<lambda>vmid _. (vmid, [])),
      ts_dispatch = disk_apply vc, ts_polls = polls,
      ts_task = task_observation vc ''VM_DISK_TASK_OBSERVATION_UNAVAILABLE'',
      ts_observe_result = read_target (disk_read vc), ts_matches = disk_matches, ts_check_reference = (\<lambda>_. Inr ())\<rparr>"

section \<open>What the checks guarantee\<close>

text \<open>The size is the exact number of bytes of the configured text.\<close>

lemma scsi0_identityD:
  assumes "scsi0_identity config raw vmid = Inr d"
  shows "\<exists>opts storage form bytes.
       owned_volume (hd (py_split CHR '','' raw)) vmid = Inr (storage, form) \<and>
       disk_options [] (tl (py_split CHR '','' raw)) = Inr opts \<and>
       disk_size (text_or opts ''size'' []) = Inr bytes \<and>
       dget d ''volume_id'' = PStr (hd (py_split CHR '','' raw)) \<and> dget d ''storage_id'' = PStr storage \<and>
       dget d ''format'' = PStr form \<and> dget d ''config_size_bytes'' = PInt bytes"
  using assms by (auto simp: scsi0_identity_def dget_Cons split: option.splits)

lemma disk_identityD:
  assumes "disk_identity config status pending vmid = Inr d"
  shows "is_stopped status" "\<not> template_or_locked config" "\<not> has_pending pending"
    "\<exists>raw. dget config ''scsi0'' = PStr raw \<and> scsi0_identity config raw vmid = Inr d"
  using assms by (auto simp: disk_identity_def stopped_unlocked_def split: pyval.splits)

lemma observed_diskD:
  assumes "observed_disk identity storages volume = Inr obs"
  shows "active_nfs (storage_row storages (dget identity ''storage_id''))"
    "\<exists>bytes > 0. dget obs ''size_bytes'' = PInt bytes \<and> dget volume ''size'' = PInt bytes \<and>
       dget identity ''config_size_bytes'' = PInt bytes"
    "dget volume ''format'' = dget identity ''format''"
  using assms
  by (auto simp: observed_disk_def dmerge_def dget_def dest!: ditem_dget split: pyval.splits)

text \<open>The check lets only a growth of the reviewed size through.\<close>

definition disk_grows :: "pydict \<Rightarrow> change_request \<Rightarrow> bool" where
  "disk_grows before rq \<longleftrightarrow> (\<exists>i n. as_num (dget before ''size_bytes'') = Some i \<and>
     as_num (attr rq ''size_gib'') = Some n \<and> i < n * GIB) \<and>
     py_eq (dget before ''size_bytes'') (attr rq ''expected_size_bytes'') \<and>
     py_eq (dget before ''volume_id'') (attr rq ''expected_volume'') \<and>
     py_eq (dget before ''digest'') (attr rq ''expected_digest'') \<and>
     py_eq (dget before ''name'') (attr rq ''expected_name'')"

lemma disk_check_expected_grows: "disk_check_expected before rq = Inr () \<Longrightarrow> disk_grows before rq"
  by (auto simp: disk_check_expected_def disk_grows_def gib_def num_lt_def as_num_def [of "PInt _"] dest!: ditem_dget
      split: option.splits)

text \<open>What a resize call has behind it: the disk as it was just observed, smaller than requested.\<close>

definition disk_growth_call :: "vm_client \<Rightarrow> string \<Rightarrow> int \<Rightarrow> change_request \<Rightarrow> dispatched_call \<Rightarrow> bool" where
  "disk_growth_call vc node vmid rq c \<longleftrightarrow> (\<exists>before k. k < dc_step c \<and> disk_read vc node vmid k = Inr before \<and>
     disk_grows before rq)"

lemma disk_reviewed_grows:
  "task_reviewed (disk_service vc polls cluster) node vmid rq c \<Longrightarrow> disk_growth_call vc node vmid rq c"
  by (auto simp: task_reviewed_def disk_growth_call_def disk_service_def disk_review_def dest: disk_check_expected_grows)

text \<open>The observed size is the requested number of GiB, for the requested volume and name.\<close>

definition disk_achieved :: "pydict \<Rightarrow> pyval \<Rightarrow> bool" where
  "disk_achieved after requested \<longleftrightarrow> (\<exists>r n. requested = PDict r \<and> as_num (dget r ''size_gib'') = Some n \<and>
     as_num (dget after ''size_bytes'') = Some (n * GIB) \<and>
     py_eq (dget after ''volume_id'') (dget r ''expected_volume'') \<and>
     py_eq (dget after ''name'') (dget r ''expected_name''))"

lemma disk_matches_achieved:
  assumes "disk_matches after requested before = Inr True"
  shows "disk_achieved after requested"
  using assms
  by (auto simp: disk_matches_def disk_achieved_def gib_def py_eq_PInt dest!: ditem_dget dict_itemD
      split: option.splits)

definition bound_task :: "string \<Rightarrow> string \<Rightarrow> int \<Rightarrow> string \<Rightarrow> bool" where
  "bound_task kind node vmid upid \<longleftrightarrow> length upid \<le> 512 \<and> upid \<in> lang (upid_rx kind node vmid)"

lemma disk_dispatch_bound: "disk_apply vc node vmid rq sn k = Inr upid \<Longrightarrow> bound_task ''resize'' node vmid upid"
  by (auto simp: disk_apply_def bound_task_def task_reference_Inr split: pyval.splits)

interpretation disk: task_feature "disk_service vc polls cluster" disk_achieved "bound_task ''resize''" for vc polls cluster
  by unfold_locales (auto simp: disk_service_def intro: disk_matches_achieved disk_dispatch_bound)

end
