(* ===== verification/RecoveryHandlers.thy ===== *)
theory RecoveryHandlers
  imports VmDisk
begin

text \<open>
  Recovery of interrupted operations: \<open>_validate_recovery_binding\<close>, \<open>_pause_binding_failure\<close> and
  \<open>OperationRecoveryRunner\<close> of \<open>app/operations/recovery/application.py\<close>, the handlers of the VM
  features (\<open>vm_*/recovery.py\<close>) and \<open>get_target_operation_lock\<close> of \<open>app/operations/target_lock.py\<close>.
\<close>

section \<open>Reading the target lock\<close>

definition lock_handle_dict :: "string \<Rightarrow> string \<Rightarrow> durable_lock \<Rightarrow> pydict" where
  "lock_handle_dict target_type target_id l =
     [(''target_type'', PStr target_type), (''target_id'', PStr target_id), (''owner_id'', PStr (dl_owner_id l)),
      (''lock_id'', PStr (dl_lock_id l)), (''acquired_at'', PStr (isoformat (dl_created_at l))),
      (''durable'', PDict (durable_lock_dict l))]"

definition host_lock_dict :: "string \<Rightarrow> string \<Rightarrow> configuration_lock \<Rightarrow> pydict" where
  "host_lock_dict target_type target_id held =
     [(''target_type'', PStr target_type), (''target_id'', PStr target_id), (''owner_id'', opt_val (\<lambda>s. PStr s) (cl_owner_id held)),
      (''lock_id'', PStr (cl_lock_id held)), (''durable'', PDict (configuration_lock_dict held))]"

definition get_target_operation_lock :: "sha \<Rightarrow> string \<Rightarrow> db \<Rightarrow> string \<Rightarrow> string \<Rightarrow> pydict option result" where
  "get_target_operation_lock sha cluster d target_type target_id =
     (if target_type = ''proxmox_connection'' then Inr None
      else if target_type \<in> {''proxmox_storage'', ''proxmox_network''}
      then ebind (configuration_current sha d cluster) (\<lambda>found. Inr (case found of
             None \<Rightarrow> None
           | Some held \<Rightarrow> if cl_target_type held = PStr target_type \<and> cl_target_id held = PStr target_id
                          then Some (host_lock_dict target_type target_id held) else None))
      else ebind (locator target_type target_id) (\<lambda>vmid.
             Inr (map_option (lock_handle_dict target_type target_id) (lock_current d cluster vmid))))"

definition read_lock :: "sha \<Rightarrow> flow_env \<Rightarrow> string \<Rightarrow> string \<Rightarrow> string \<Rightarrow> pydict option io" where
  "read_lock sha fe cluster target_type target_id =
     tx fe (\<lambda>_ d. ebind (get_target_operation_lock sha cluster d target_type target_id) (\<lambda>l. Inr (d, l)))"

section \<open>The recovery binding\<close>

definition unbound :: "bool \<Rightarrow> string \<Rightarrow> unit result" where
  "unbound c reason = raise_if c (RecoveryBindingError reason)"

text \<open>\<open>str(value or fallback).strip()\<close>\<close>

definition declared_text :: "pyval \<Rightarrow> string \<Rightarrow> string" where
  "declared_text v fallback = py_strip (py_str (py_or v (PStr fallback)))"

definition task_locator_ok :: "string \<Rightarrow> bool" where
  "task_locator_ok upid = truthy (dget (compact_proxmox_task [] [] upid) ''upid'')"

definition dict_of :: "pyval \<Rightarrow> pydict" where
  "dict_of v = (case v of PDict d \<Rightarrow> d | _ \<Rightarrow> [])"

definition check_kinds :: "recovery_lease \<Rightarrow> operation_snapshot \<Rightarrow> string \<Rightarrow> string \<Rightarrow> string \<Rightarrow> unit result" where
  "check_kinds lease operation recovery_kind operation_type execution_mode =
     (let details = ri_details (ls_item lease) in
      ebind (unbound (ri_recovery_kind (ls_item lease) \<noteq> recovery_kind) ''recovery_kind_mismatch'') (\<lambda>_.
      ebind (unbound (sn_operation_type operation \<noteq> operation_type) ''operation_type_mismatch'') (\<lambda>_.
      ebind (unbound (sn_execution_mode operation \<noteq> execution_mode) ''execution_mode_mismatch'') (\<lambda>_.
      ebind (unbound (declared_text (dget details ''operation_type'') (sn_operation_type operation)
          \<noteq> sn_operation_type operation) ''recovery_operation_type_mismatch'') (\<lambda>_.
      unbound (declared_text (dget details ''execution_mode'') (sn_execution_mode operation)
          \<noteq> sn_execution_mode operation) ''recovery_execution_mode_mismatch'')))))"

text \<open>The target of the item is the target of the operation; the result is its VMID.\<close>

definition check_target :: "recovery_lease \<Rightarrow> operation_snapshot \<Rightarrow> int result" where
  "check_target lease operation =
     (let details = ri_details (ls_item lease); tid = sn_target_id operation in
      ebind (unbound (sn_target_type operation \<noteq> ''proxmox_vm'' \<or> \<not> starts_with ''vmid:'' tid)
        ''operation_target_invalid'') (\<lambda>_.
      ebind (unbound (declared_text (dget details ''target_type'') (sn_target_type operation) \<noteq> sn_target_type operation
          \<or> declared_text (dget details ''target_id'') tid \<noteq> tid) ''recovery_target_mismatch'') (\<lambda>_.
        case py_int (py_or (dget details ''vmid'') (PStr (snd (snd (py_partition CHR '':'' tid))))) of
          Inl e \<Rightarrow> Inl (RecoveryBindingError ''recovery_vmid_invalid'')
        | Inr vmid \<Rightarrow> ebind (unbound (tid \<noteq> ''vmid:'' @ show_int vmid) ''recovery_vmid_mismatch'') (\<lambda>_. Inr vmid))))"

definition check_task :: "recovery_lease \<Rightarrow> operation_snapshot \<Rightarrow> unit result" where
  "check_task lease operation =
     (let details = ri_details (ls_item lease);
          operation_node = stripped_text (dget (dict_of (dget (sn_details operation) ''target'')) ''node_id'');
          operation_upid = stripped_text (dget (sn_details operation) ''proxmox_upid'');
          recovery_upid = stripped_text (dget details ''upid'') in
      ebind (unbound (operation_node = [] \<or> stripped_text (dget details ''node_id'') \<noteq> operation_node)
        ''recovery_node_mismatch'') (\<lambda>_.
      ebind (unbound (operation_upid \<noteq> [] \<and> \<not> task_locator_ok operation_upid)
        ''operation_task_reference_invalid'') (\<lambda>_.
      ebind (unbound (recovery_upid \<noteq> [] \<and> \<not> task_locator_ok recovery_upid)
        ''recovery_task_reference_invalid'') (\<lambda>_.
      unbound (operation_upid \<noteq> recovery_upid) ''recovery_task_reference_mismatch''))))"

definition int_or_zero :: "pyval \<Rightarrow> int result" where
  "int_or_zero v = py_int (py_or v (PInt 0))"

definition check_lock :: "recovery_lease \<Rightarrow> operation_snapshot \<Rightarrow> int \<Rightarrow> pydict option \<Rightarrow> unit result" where
  "check_lock lease operation vmid lock =
     (let details = ri_details (ls_item lease); held = (case lock of None \<Rightarrow> [] | Some l \<Rightarrow> l);
          durable = dict_of (dget held ''durable'');
          expected_cluster = stripped_text (dget details ''cluster_id'');
          expected_lock = stripped_text (dget details ''target_lock_id'');
          durable_lock = stripped_text (dget durable ''operation_lock_id'');
          wrapper_lock = stripped_text (dget held ''lock_id'') in
      ebind (unbound (held = [] \<or> text_or_empty (dget held ''owner_id'') \<noteq> sn_operation_id operation)
        ''target_lock_owner_mismatch'') (\<lambda>_.
      ebind (unbound (durable = []) ''durable_target_lock_missing'') (\<lambda>_.
      ebind (unbound (text_or_empty (dget durable ''operation_type'') \<noteq> sn_operation_type operation)
        ''target_lock_operation_type_mismatch'') (\<lambda>_.
      ebind (unbound (text_or_empty (dget durable ''owner_id'') \<noteq> sn_operation_id operation)
        ''durable_target_lock_owner_mismatch'') (\<lambda>_.
      ebind (unbound (int_or_zero (dget durable ''vmid'') \<noteq> Inr vmid) ''durable_target_lock_vmid_mismatch'') (\<lambda>_.
      ebind (unbound (expected_cluster = [] \<or> stripped_text (dget durable ''cluster_id'') \<noteq> expected_cluster)
        ''target_lock_cluster_mismatch'') (\<lambda>_.
      ebind (unbound (expected_lock = [] \<or> durable_lock = [] \<or> wrapper_lock = []) ''target_lock_id_missing'') (\<lambda>_.
      ebind (unbound (durable_lock \<noteq> expected_lock) ''target_lock_id_mismatch'') (\<lambda>_.
      unbound (wrapper_lock \<noteq> durable_lock) ''target_lock_identity_mismatch'')))))))))"

definition related_lock_ok :: "recovery_lease \<Rightarrow> operation_snapshot \<Rightarrow> lock_ref \<Rightarrow> pydict option \<Rightarrow> bool" where
  "related_lock_ok lease operation ref lock =
     (case lock of None \<Rightarrow> False
      | Some related \<Rightarrow>
          let durable = dict_of (dget related ''durable'')
          in related \<noteq> [] \<and> dget related ''owner_id'' = PStr (sn_operation_id operation)
             \<and> dget related ''lock_id'' = PStr (lr_lock_id ref)
             \<and> dget durable ''operation_lock_id'' = PStr (lr_lock_id ref)
             \<and> dget durable ''owner_id'' = PStr (sn_operation_id operation)
             \<and> dget durable ''operation_type'' = PStr (sn_operation_type operation)
             \<and> dget durable ''cluster_id'' = PStr (stripped_text (dget (ri_details (ls_item lease)) ''cluster_id''))
             \<and> dget durable ''vmid'' = PInt (lr_vmid ref))"

fun check_related :: "sha \<Rightarrow> flow_env \<Rightarrow> string \<Rightarrow> recovery_lease \<Rightarrow> operation_snapshot \<Rightarrow> lock_ref list \<Rightarrow> unit io" where
  "check_related sha fe cluster lease operation [] = io_return ()"
| "check_related sha fe cluster lease operation (ref # refs) =
     io_bind (read_lock sha fe cluster ''proxmox_vm'' (''vmid:'' @ show_int (lr_vmid ref))) (\<lambda>lock.
     io_bind (io_of (unbound (\<not> related_lock_ok lease operation ref lock) ''related_target_lock_identity_mismatch'')) (\<lambda>_.
       check_related sha fe cluster lease operation refs))"

definition related_references :: "recovery_lease \<Rightarrow> operation_snapshot \<Rightarrow> lock_ref list result" where
  "related_references lease operation =
     (if expected_lock_count (sn_operation_type operation) = 2
      then let refs = lock_references (sn_operation_type operation) (sn_target_id operation)
                 (sn_details operation) (ri_details (ls_item lease))
           in ebind (unbound (length refs \<noteq> 2) ''related_target_lock_binding_mismatch'') (\<lambda>_. Inr (tl refs))
      else Inr [])"

definition validate_recovery_binding :: "sha \<Rightarrow> flow_env \<Rightarrow> string \<Rightarrow> recovery_lease \<Rightarrow> operation_snapshot
    \<Rightarrow> string \<Rightarrow> string \<Rightarrow> string \<Rightarrow> unit io" where
  "validate_recovery_binding sha fe cluster lease operation recovery_kind operation_type execution_mode =
     io_bind (io_of (check_kinds lease operation recovery_kind operation_type execution_mode)) (\<lambda>_.
     io_bind (io_of (check_target lease operation)) (\<lambda>vmid.
     io_bind (io_of (check_task lease operation)) (\<lambda>_.
     io_bind (read_lock sha fe cluster (sn_target_type operation) (sn_target_id operation)) (\<lambda>lock.
     io_bind (io_of (check_lock lease operation vmid lock)) (\<lambda>_.
     io_bind (io_of (related_references lease operation)) (\<lambda>refs.
       check_related sha fe cluster lease operation refs))))))"

section \<open>Pausing an unbound item\<close>

definition SYSTEM_RECOVERY_ACTOR :: operation_actor where
  "SYSTEM_RECOVERY_ACTOR = \<lparr>ac_user_id = ''system:operation-recovery'',
     ac_username = ''operation-recovery'', ac_role = ''system''\<rparr>"

definition binding_failure_commit :: "operation_snapshot \<Rightarrow> string \<Rightarrow> commit_request" where
  "binding_failure_commit operation reason =
     (let bad_reference = reason \<in> {''operation_task_reference_invalid'', ''recovery_task_reference_invalid''} in
      (commit_defaults ''recovery_binding_mismatch'' ''reconciliation'' ''paused'')
        \<lparr>cq_next_status := (if sn_status operation \<in> {''dispatching'', ''running'', ''verifying''}
           then Some ''needs_reconciliation'' else None),
         cq_payload := [(''reason'', PStr reason)],
         cq_details_patch := (''reconciliation_code'', PStr ''OPERATION_RECOVERY_BINDING_MISMATCH'') #
           (if bad_reference then [(''proxmox_upid'', PStr [])] else []),
         cq_expected_statuses := Some [sn_status operation],
         cq_actor := Some SYSTEM_RECOVERY_ACTOR,
         cq_error_code := Some ''OPERATION_RECOVERY_BINDING_MISMATCH'',
         cq_recovery_details_patch := (''binding_error'', PStr reason) #
           (if bad_reference then [(''upid'', PStr [])] else []),
         cq_require_exact_lock := False\<rparr>)"

definition pause_binding_failure :: "sha \<Rightarrow> flow_env \<Rightarrow> recovery_lease \<Rightarrow> operation_snapshot \<Rightarrow> string
    \<Rightarrow> string io" where
  "pause_binding_failure sha fe lease operation reason =
     io_bind (commit_io sha fe lease (binding_failure_commit operation reason))
       (\<lambda>_. io_return ''paused_binding_mismatch'')"

section \<open>The handlers of the VM features\<close>

text \<open>
  The handlers differ in their names and in the service that verifies. \<open>rh_verify\<close> is
  \<open>self.service_factory().verify(lease, operation)\<close>, \<open>rh_error_class\<close> the feature's exception class.
\<close>

record recovery_handler =
  rh_recovery_kind :: string
  rh_operation_type :: string
  rh_event_prefix :: string
  rh_failure_code :: string
  rh_error_class :: string
  rh_verify :: "recovery_lease \<Rightarrow> operation_snapshot \<Rightarrow> string io"

text \<open>\<open>try: m  except Exception as exc: h(exc)  else: f\<close>\<close>

definition io_catch :: "'a io \<Rightarrow> (error \<Rightarrow> 'b io) \<Rightarrow> ('a \<Rightarrow> 'b io) \<Rightarrow> 'b io" where
  "io_catch m h f w = (case m w of (Inl e, w') \<Rightarrow> h e w' | (Inr x, w') \<Rightarrow> f x w')"

definition interrupted_commit :: "recovery_handler \<Rightarrow> operation_snapshot \<Rightarrow> commit_request" where
  "interrupted_commit rh operation =
     fenced operation ((commit_defaults (rh_event_prefix rh @ ''interrupted_before_dispatch'') ''precheck'' ''completed'')
       \<lparr>cq_next_status := Some ''blocked'',
        cq_details_patch := [(''failure_code'', PStr (rh_failure_code rh))],
        cq_expected_statuses := Some [''planned''], cq_release_target_lock := True\<rparr>)"

definition unavailable_commit :: "recovery_handler \<Rightarrow> operation_snapshot \<Rightarrow> string \<Rightarrow> commit_request" where
  "unavailable_commit rh operation code =
     (commit_defaults (rh_event_prefix rh @ ''recovery_unavailable'') ''reconciliation'' ''paused'')
       \<lparr>cq_expected_statuses := Some [sn_status operation], cq_error_code := Some code\<rparr>"

definition handle_bound :: "sha \<Rightarrow> flow_env \<Rightarrow> recovery_handler \<Rightarrow> recovery_lease \<Rightarrow> operation_snapshot \<Rightarrow> string io" where
  "handle_bound sha fe rh lease operation =
     (if sn_status operation = ''planned'' \<and> dget (sn_details operation) ''mutation_dispatched'' = PBool False
      then io_bind (commit_io sha fe lease (interrupted_commit rh operation)) (\<lambda>_. io_return ''blocked'')
      else io_try (rh_verify rh lease operation)
        (\<lambda>code status. io_bind (commit_io sha fe lease (unavailable_commit rh operation code))
           (\<lambda>_. io_return ''paused''))
        io_return)"

definition handle :: "sha \<Rightarrow> flow_env \<Rightarrow> string \<Rightarrow> recovery_handler \<Rightarrow> recovery_lease \<Rightarrow> string io" where
  "handle sha fe cluster rh lease =
     io_bind (get_io fe (lease_operation_id lease)) (\<lambda>found. case found of
       None \<Rightarrow> io_of (Inl (PyError RuntimeError))
     | Some operation \<Rightarrow>
         io_catch (validate_recovery_binding sha fe cluster lease operation (rh_recovery_kind rh)
             (rh_operation_type rh) ''managed_api'')
           (\<lambda>e. case e of RecoveryBindingError reason \<Rightarrow> pause_binding_failure sha fe lease operation reason
              | _ \<Rightarrow> io_of (Inl e))
           (\<lambda>_. handle_bound sha fe rh lease operation))"

section \<open>The runner\<close>

text \<open>\<open>type(exc).__name__\<close>\<close>

definition exn_name :: "string \<Rightarrow> error \<Rightarrow> string" where
  "exn_name error_class e = (case e of
       PyError KeyError \<Rightarrow> ''KeyError'' | PyError ValueError \<Rightarrow> ''ValueError'' | PyError TypeError \<Rightarrow> ''TypeError''
     | PyError AttributeError \<Rightarrow> ''AttributeError'' | PyError IndexError \<Rightarrow> ''IndexError''
     | PyError RuntimeError \<Rightarrow> ''RuntimeError'' | PyError OverflowError \<Rightarrow> ''OverflowError''
     | FeatureError _ _ \<Rightarrow> error_class
     | InvalidOperationTransition _ _ \<Rightarrow> ''InvalidOperationTransition''
     | OperationIntentConflict _ \<Rightarrow> ''OperationIntentConflict'' | OperationNotFound _ \<Rightarrow> ''OperationNotFound''
     | OperationStateConflict _ _ \<Rightarrow> ''OperationStateConflict'' | IntegrityError \<Rightarrow> ''IntegrityError''
     | RecoveryNotFound _ \<Rightarrow> ''RecoveryNotFound'' | RecoveryLeaseLost _ \<Rightarrow> ''RecoveryLeaseLost''
     | RecoveryLeaseBusy _ \<Rightarrow> ''RecoveryLeaseBusy''
     | RecoveryOperationConflict _ \<Rightarrow> ''RecoveryOperationConflict''
     | DurableTargetLockBusy _ \<Rightarrow> ''DurableTargetLockBusy''
     | RecoveryBindingError _ \<Rightarrow> ''RecoveryBindingError'' | InvalidRoleError \<Rightarrow> ''InvalidRoleError''
     | UserNotFoundError \<Rightarrow> ''UserNotFoundError'' | DuplicateUserError \<Rightarrow> ''DuplicateUserError''
     | LastEnabledAdminError \<Rightarrow> ''LastEnabledAdminError''
     | CurrentPasswordInvalidError \<Rightarrow> ''CurrentPasswordInvalidError''
     | SessionNotFoundError \<Rightarrow> ''SessionNotFoundError'')"

definition unsupported_commit :: "recovery_lease \<Rightarrow> commit_request" where
  "unsupported_commit lease =
     (commit_defaults ''recovery_handler_unsupported'' ''reconciliation'' ''paused'')
       \<lparr>cq_payload := [(''recovery_kind'', PStr (ri_recovery_kind (ls_item lease)))],
        cq_actor := Some SYSTEM_RECOVERY_ACTOR,
        cq_error_code := Some ''OPERATION_RECOVERY_HANDLER_UNSUPPORTED''\<rparr>"

definition exhausted :: "int \<Rightarrow> recovery_lease \<Rightarrow> bool" where
  "exhausted max_attempts lease = (max max_attempts 1 \<le> ri_attempt_count (ls_item lease))"

definition failed_commit :: "int \<Rightarrow> recovery_lease \<Rightarrow> string \<Rightarrow> commit_request" where
  "failed_commit max_attempts lease name =
     (commit_defaults ''recovery_observation_failed'' ''reconciliation''
        (if exhausted max_attempts lease then ''paused'' else ''retry_wait''))
       \<lparr>cq_payload := [(''error_type'', PStr name)], cq_actor := Some SYSTEM_RECOVERY_ACTOR,
        cq_retry_delay := (if exhausted max_attempts lease then 0 else 30000000),
        cq_error_code := Some (if exhausted max_attempts lease then ''OPERATION_RECOVERY_RETRY_EXHAUSTED''
          else ''OPERATION_RECOVERY_OBSERVATION_FAILED'')\<rparr>"

text \<open>\<open>except RecoveryLeaseLost: return "lease_lost"\<close>\<close>

definition lease_lost_or :: "error \<Rightarrow> string io \<Rightarrow> string io" where
  "lease_lost_or e m = (case e of RecoveryLeaseLost _ \<Rightarrow> io_return ''lease_lost'' | _ \<Rightarrow> m)"

text \<open>
  A registered handler: its \<open>handle\<close>, with the name of the feature's exception class.
\<close>

record claim_handler =
  ch_error_class :: string
  ch_handle :: "recovery_lease \<Rightarrow> string io"

definition vm_handler :: "sha \<Rightarrow> flow_env \<Rightarrow> string \<Rightarrow> recovery_handler \<Rightarrow> claim_handler" where
  "vm_handler sha fe cluster rh = \<lparr>ch_error_class = rh_error_class rh, ch_handle = handle sha fe cluster rh\<rparr>"

definition run_claimed :: "sha \<Rightarrow> flow_env \<Rightarrow> (string \<rightharpoonup> claim_handler) \<Rightarrow> int \<Rightarrow> recovery_lease
    \<Rightarrow> string io" where
  "run_claimed sha fe handlers max_attempts lease =
     (case handlers (ri_recovery_kind (ls_item lease)) of
        None \<Rightarrow> io_bind (commit_io sha fe lease (unsupported_commit lease)) (\<lambda>_. io_return ''paused_unsupported'')
      | Some ch \<Rightarrow>
          io_catch (ch_handle ch lease)
            (\<lambda>e. lease_lost_or e
               (io_catch (commit_io sha fe lease (failed_commit max_attempts lease (exn_name (ch_error_class ch) e)))
                  (\<lambda>e'. lease_lost_or e' (io_of (Inl e')))
                  (\<lambda>_. io_return (if exhausted max_attempts lease then ''paused_retry_exhausted''
                     else ''retry_observation_failed''))))
            io_return)"

fun run_all :: "('a \<Rightarrow> 'b io) \<Rightarrow> 'a list \<Rightarrow> 'b list io" where
  "run_all f [] = io_return []"
| "run_all f (x # xs) = io_bind (f x) (\<lambda>y. io_bind (run_all f xs) (\<lambda>ys. io_return (y # ys)))"

text \<open>\<open>rr_tokens\<close> and \<open>rr_skipped\<close>: the new lease tokens and the rows locked by others at a step.\<close>

record recovery_runner =
  rr_handlers :: "string \<rightharpoonup> claim_handler"
  rr_worker_id :: string
  rr_lease_us :: int
  rr_max_attempts :: int
  rr_tokens :: "nat \<Rightarrow> string \<Rightarrow> string"
  rr_skipped :: "nat \<Rightarrow> string \<Rightarrow> bool"

definition run_once :: "sha \<Rightarrow> flow_env \<Rightarrow> recovery_runner \<Rightarrow> string list io" where
  "run_once sha fe rr =
     io_bind (tx fe (\<lambda>k d. claim_due d (fe_now fe k) (rr_tokens rr k) (rr_skipped rr k) (rr_worker_id rr)
        (max (rr_lease_us rr) 1000000) 1))
       (run_all (run_claimed sha fe (rr_handlers rr) (rr_max_attempts rr)))"

text \<open>The services behind the handlers; \<open>svc\<close> is the service factory.\<close>

definition config_recovery :: "sha \<Rightarrow> flow_env \<Rightarrow> (nat \<Rightarrow> config_service result) \<Rightarrow> recovery_lease
    \<Rightarrow> operation_snapshot \<Rightarrow> string io" where
  "config_recovery sha fe svc lease operation =
     io_bind (ext_read svc) (\<lambda>cs. config_verify sha fe cs lease operation)"

definition task_recovery :: "sha \<Rightarrow> flow_env \<Rightarrow> (nat \<Rightarrow> task_service result) \<Rightarrow> recovery_lease
    \<Rightarrow> operation_snapshot \<Rightarrow> string io" where
  "task_recovery sha fe svc lease operation =
     io_bind (ext_read svc) (\<lambda>ts. task_verify sha fe ts lease operation None)"

definition compute_handler :: "sha \<Rightarrow> flow_env \<Rightarrow> (nat \<Rightarrow> config_service result) \<Rightarrow> recovery_handler" where
  "compute_handler sha fe svc =
     \<lparr>rh_recovery_kind = ''vm_compute_observation'', rh_operation_type = ''vm_compute'', rh_event_prefix = ''compute_'',
      rh_failure_code = ''VM_COMPUTE_INTERRUPTED_BEFORE_DISPATCH'', rh_error_class = ''ComputeError'',
      rh_verify = config_recovery sha fe svc\<rparr>"

definition network_handler :: "sha \<Rightarrow> flow_env \<Rightarrow> (nat \<Rightarrow> config_service result) \<Rightarrow> recovery_handler" where
  "network_handler sha fe svc =
     \<lparr>rh_recovery_kind = ''vm_network_observation'', rh_operation_type = ''vm_network'', rh_event_prefix = ''network_'',
      rh_failure_code = ''VM_NETWORK_INTERRUPTED_BEFORE_DISPATCH'', rh_error_class = ''NetworkError'',
      rh_verify = config_recovery sha fe svc\<rparr>"

definition disk_handler :: "sha \<Rightarrow> flow_env \<Rightarrow> (nat \<Rightarrow> task_service result) \<Rightarrow> recovery_handler" where
  "disk_handler sha fe svc =
     \<lparr>rh_recovery_kind = ''vm_disk_observation'', rh_operation_type = ''vm_disk_resize'', rh_event_prefix = ''disk_'',
      rh_failure_code = ''VM_DISK_INTERRUPTED_BEFORE_DISPATCH'', rh_error_class = ''DiskError'',
      rh_verify = task_recovery sha fe svc\<rparr>"

section \<open>Recovery keeps the core's invariant and sends nothing\<close>

lemma io_ok_catch [io_intros]:
  assumes "io_ok I m" "\<And>e. io_ok I (h e)" "\<And>x. io_ok I (f x)"
  shows "io_ok I (io_catch m h f)"
  unfolding io_ok_def
proof (intro allI impI)
  fix w assume "I w"
  with assms(1) have "I (snd (m w))" by (simp add: io_ok_def)
  with assms(2,3) show "I (snd (io_catch m h f w))"
    by (cases "m w"; cases "fst (m w)") (auto simp: io_catch_def io_ok_def)
qed

lemma silent_catch [silent_intros]:
  "silent m \<Longrightarrow> (\<And>e. silent (h e)) \<Longrightarrow> (\<And>x. silent (f x)) \<Longrightarrow> silent (io_catch m h f)"
  unfolding silent_iff by (blast intro: io_ok_catch)

lemma io_ok_binding_error [io_intros]:
  "(\<And>r. io_ok I (f r)) \<Longrightarrow> (\<And>e. io_ok I (g e)) \<Longrightarrow>
     io_ok I (case e of RecoveryBindingError r \<Rightarrow> f r | _ \<Rightarrow> g e)"
  by (simp split: error.splits)

lemma silent_binding_error [silent_intros]:
  "(\<And>r. silent (f r)) \<Longrightarrow> (\<And>e. silent (g e)) \<Longrightarrow>
     silent (case e of RecoveryBindingError r \<Rightarrow> f r | _ \<Rightarrow> g e)"
  by (simp split: error.splits)

lemma lease_lost_or_ok [io_intros]: "io_ok I m \<Longrightarrow> io_ok I (lease_lost_or e m)"
  by (auto simp: lease_lost_or_def intro: io_intros split: error.splits)

lemma silent_lease_lost_or [silent_intros]: "silent m \<Longrightarrow> silent (lease_lost_or e m)"
  by (auto simp: lease_lost_or_def intro: silent_intros split: error.splits)

lemma read_lock_ok [io_intros]: "fair_env sha fe \<Longrightarrow> io_ok (world_ok sha) (read_lock sha fe c t i)"
  unfolding read_lock_def by (rule tx_ok) auto

lemma silent_read_lock [silent_intros]: "silent (read_lock sha fe c t i)"
  unfolding read_lock_def by (intro silent_intros)

lemma check_related_ok [io_intros]: "fair_env sha fe \<Longrightarrow> io_ok (world_ok sha) (check_related sha fe c l sn refs)"
  by (induction refs) (auto intro!: io_intros)

lemma silent_check_related [silent_intros]: "silent (check_related sha fe c l sn refs)"
  by (induction refs) (auto intro!: silent_intros)

lemma validate_ok [io_intros]:
  "fair_env sha fe \<Longrightarrow> io_ok (world_ok sha) (validate_recovery_binding sha fe c l sn k t m)"
  unfolding validate_recovery_binding_def by (intro io_intros)

lemma silent_validate [silent_intros]: "silent (validate_recovery_binding sha fe c l sn k t m)"
  unfolding validate_recovery_binding_def by (intro silent_intros)

text \<open>What a table of handlers must promise: its handlers keep \<open>I\<close>, or send nothing.\<close>

definition handlers_ok :: "(world \<Rightarrow> bool) \<Rightarrow> (string \<rightharpoonup> claim_handler) \<Rightarrow> bool" where
  "handlers_ok I hs \<longleftrightarrow> (\<forall>ch \<in> ran hs. \<forall>l. io_ok I (ch_handle ch l))"

definition handlers_silent :: "(string \<rightharpoonup> claim_handler) \<Rightarrow> bool" where
  "handlers_silent hs \<longleftrightarrow> (\<forall>ch \<in> ran hs. \<forall>l. silent (ch_handle ch l))"

lemmas handle_defs = handle_def handle_bound_def pause_binding_failure_def

lemma handle_ok:
  "fair_env sha fe \<Longrightarrow> (\<And>l sn. io_ok (world_ok sha) (rh_verify rh l sn)) \<Longrightarrow>
     io_ok (world_ok sha) (handle sha fe c rh l)"
  unfolding handle_defs by (intro io_intros)

lemma silent_handle: "(\<And>l sn. silent (rh_verify rh l sn)) \<Longrightarrow> silent (handle sha fe c rh l)"
  unfolding handle_defs by (intro silent_intros)

lemma run_claimed_ok:
  assumes "fair_env sha fe" "handlers_ok (world_ok sha) hs"
  shows "io_ok (world_ok sha) (run_claimed sha fe hs n l)"
proof (cases "hs (ri_recovery_kind (ls_item l))")
  case (Some ch)
  then have "io_ok (world_ok sha) (ch_handle ch l)" using assms(2) by (auto simp: handlers_ok_def ranI)
  with assms(1) Some show ?thesis by (auto simp: run_claimed_def intro!: io_intros)
qed (use assms in \<open>auto simp: run_claimed_def intro!: io_intros\<close>)

lemma silent_run_claimed:
  assumes "handlers_silent hs"
  shows "silent (run_claimed sha fe hs n l)"
proof (cases "hs (ri_recovery_kind (ls_item l))")
  case (Some ch)
  then have "silent (ch_handle ch l)" using assms by (auto simp: handlers_silent_def ranI)
  with Some show ?thesis by (auto simp: run_claimed_def intro!: silent_intros)
qed (auto simp: run_claimed_def intro!: silent_intros)

lemma run_all_ok: "(\<And>x. io_ok I (f x)) \<Longrightarrow> io_ok I (run_all f xs)"
  by (induction xs) (auto intro!: io_intros)

lemma silent_run_all: "(\<And>x. silent (f x)) \<Longrightarrow> silent (run_all f xs)"
  by (induction xs) (auto intro!: silent_intros)

lemma run_once_ok:
  assumes "fair_env sha fe" "handlers_ok (world_ok sha) (rr_handlers rr)"
  shows "io_ok (world_ok sha) (run_once sha fe rr)"
  unfolding run_once_def
proof (intro io_ok_bind run_all_ok run_claimed_ok assms tx_ok)
  fix k d d' ls
  assume "core_inv sha d" "claim_due d (fe_now fe k) (rr_tokens rr k) (rr_skipped rr k) (rr_worker_id rr)
      (max (rr_lease_us rr) 1000000) 1 = Inr (d', ls)"
  then show "core_inv sha d'"
    by (auto intro: core_inv_claim claim_due_inv dest: claim_frames(2))
qed

lemma silent_run_once: "handlers_silent (rr_handlers rr) \<Longrightarrow> silent (run_once sha fe rr)"
  unfolding run_once_def by (intro silent_bind silent_tx silent_run_all silent_run_claimed)

lemma config_recovery_ok [io_intros]: "fair_env sha fe \<Longrightarrow> io_ok (world_ok sha) (config_recovery sha fe svc l sn)"
  unfolding config_recovery_def by (intro io_intros)

lemma silent_config_recovery [silent_intros]: "silent (config_recovery sha fe svc l sn)"
  unfolding config_recovery_def by (intro silent_intros)

lemma task_recovery_ok [io_intros]: "fair_env sha fe \<Longrightarrow> io_ok (world_ok sha) (task_recovery sha fe svc l sn)"
  unfolding task_recovery_def by (intro io_intros)

lemma silent_task_recovery [silent_intros]: "silent (task_recovery sha fe svc l sn)"
  unfolding task_recovery_def by (intro silent_intros)

section \<open>What the outcomes mean\<close>

lemma io_catch_InrE:
  assumes "io_catch m h f w = (Inr y, w')"
  obtains (ok) x w1 where "m w = (Inr x, w1)" "f x w1 = (Inr y, w')"
    | (caught) e w1 where "m w = (Inl e, w1)" "h e w1 = (Inr y, w')"
  using assms by (auto simp: io_catch_def split: prod.splits sum.splits)

lemma commit_settles:
  assumes "commit_observation sha d now en eid lease q = Inr (d', sn, item)" "cq_next_status q = Some s"
  shows "\<exists>r. find_operation d' (lease_operation_id lease) = Some r \<and> op_status r = s"
    "\<exists>r. find_recovery d' (lease_operation_id lease) = Some r \<and> rc_status r = cq_recovery_status q"
proof -
  show "\<exists>r. find_operation d' (lease_operation_id lease) = Some r \<and> op_status r = s"
    by (rule commit_operation_row [OF assms(1)]) (use assms(2) in auto)
  show "\<exists>r. find_recovery d' (lease_operation_id lease) = Some r \<and> rc_status r = cq_recovery_status q"
    by (rule commit_recovery_status [OF assms(1)]) blast
qed

text \<open>\<open>bound_to_lock\<close>: an open lock of the operation, of its type and VM, carries the item's lock id.\<close>

definition bound_to_lock :: "db \<Rightarrow> recovery_lease \<Rightarrow> operation_snapshot \<Rightarrow> bool" where
  "bound_to_lock d lease operation \<longleftrightarrow> (\<exists>l \<in> set (db_locks d). lock_open l \<and>
     lk_owner_id l = Some (sn_operation_id operation) \<and> lk_operation_type l = sn_operation_type operation \<and>
     py_strip (lk_operation_lock_id l) = stripped_text (dget (ri_details (ls_item lease)) ''target_lock_id''))"

lemma lock_current_Some:
  assumes "lock_current d cluster vmid = Some l"
  obtains r where "r \<in> set (db_locks d)" "lock_open r" "l = durable_lock_of r"
    "lk_scope_key r = locator_scope_key cluster vmid"
proof -
  let ?rows = "filter (\<lambda>r. lk_scope_type r = ''proxmox_locator''
      \<and> lk_scope_key r = locator_scope_key cluster vmid \<and> lock_open r) (db_locks d)"
  let ?sorted = "sort_key (\<lambda>r. (lk_created_at r, lk_operation_lock_id r)) ?rows"
  show thesis
  proof (cases ?sorted)
    case Nil
    with assms show ?thesis unfolding lock_current_def by (simp only: list.case) simp
  next
    case (Cons r rs)
    from assms have "Some (durable_lock_of r) = Some l" unfolding lock_current_def Cons by (simp only: list.case)
    moreover have "r \<in> set ?sorted" unfolding Cons by simp
    then have "r \<in> set ?rows" by (simp only: set_sort)
    ultimately show ?thesis by (intro that [of r]) (simp_all only: set_filter mem_Collect_eq option.inject)
  qed
qed

lemma check_lock_bound:
  assumes "check_lock lease operation vmid lock = Inr ()"
    and "get_target_operation_lock sha cluster d (sn_target_type operation) (sn_target_id operation) = Inr lock"
    and "sn_target_type operation = ''proxmox_vm''" "sn_operation_id operation \<noteq> []"
  shows "bound_to_lock d lease operation"
proof -
  from assms(1) obtain h where lock: "lock = Some h" by (auto simp: check_lock_def unbound_def Let_def split: option.splits)
  with assms(2,3) obtain v l where cur: "lock_current d cluster v = Some l"
      and h: "h = lock_handle_dict ''proxmox_vm'' (sn_target_id operation) l"
    by (auto simp: get_target_operation_lock_def)
  from cur obtain r where r: "r \<in> set (db_locks d)" "lock_open r" "l = durable_lock_of r"
    by (rule lock_current_Some)
  have "dl_owner_id l = sn_operation_id operation" "dl_operation_type l = sn_operation_type operation"
    "py_strip (dl_lock_id l) = stripped_text (dget (ri_details (ls_item lease)) ''target_lock_id'')"
    using assms(1) lock
    by (auto simp: check_lock_def unbound_def Let_def h lock_handle_dict_def durable_lock_dict_def dict_of_def
        dget_Cons stripped_text_str)
  with r assms(4) show ?thesis
    unfolding bound_to_lock_def by (intro bexI [of _ r]) (auto simp: durable_lock_of_def split: option.splits)
qed

lemma validate_bound:
  assumes "validate_recovery_binding sha fe cluster lease operation kind typ mode w = (Inr (), w')"
    and "sn_operation_id operation \<noteq> []"
  shows "ri_recovery_kind (ls_item lease) = kind" "sn_operation_type operation = typ"
    "sn_execution_mode operation = mode"
    "stripped_text (dget (sn_details operation) ''proxmox_upid'') = stripped_text (dget (ri_details (ls_item lease)) ''upid'')"
    "bound_to_lock (fe_between fe (w_step w) (w_db w)) lease operation"
proof -
  from assms(1) obtain vmid lock w1 where
      k: "check_kinds lease operation kind typ mode = Inr ()" and t: "check_target lease operation = Inr vmid"
      and u: "check_task lease operation = Inr ()"
      and r: "read_lock sha fe cluster (sn_target_type operation) (sn_target_id operation) w = (Inr lock, w1)"
      and l: "check_lock lease operation vmid lock = Inr ()"
    unfolding validate_recovery_binding_def by (auto elim!: io_bind_InrE simp: io_of_Inr)
  from k show "ri_recovery_kind (ls_item lease) = kind" "sn_operation_type operation = typ"
    "sn_execution_mode operation = mode"
    by (auto simp: check_kinds_def unbound_def Let_def)
  from u show "stripped_text (dget (sn_details operation) ''proxmox_upid'')
      = stripped_text (dget (ri_details (ls_item lease)) ''upid'')"
    by (auto simp: check_task_def unbound_def Let_def)
  have "sn_target_type operation = ''proxmox_vm''"
    using t by (auto simp: check_target_def unbound_def Let_def)
  moreover have "get_target_operation_lock sha cluster (fe_between fe (w_step w) (w_db w))
      (sn_target_type operation) (sn_target_id operation) = Inr lock"
    using r by (auto simp: read_lock_def tx_def Let_def ebind_def split: sum.splits prod.splits)
  ultimately show "bound_to_lock (fe_between fe (w_step w) (w_db w)) lease operation"
    using check_lock_bound [OF l] assms(2) by auto
qed

lemma handle_bound_outcomes:
  assumes "handle_bound sha fe rh lease operation w = (Inr out, w')"
    and verified: "\<And>w w'. rh_verify rh lease operation w = (Inr ''succeeded'', w') \<Longrightarrow>
      settled_success (lease_operation_id lease) (w_db w')"
    and no_blocked: "\<And>w w'. rh_verify rh lease operation w \<noteq> (Inr ''blocked'', w')"
  shows "out = ''succeeded'' \<Longrightarrow> settled_success (lease_operation_id lease) (w_db w')"
    "out = ''blocked'' \<Longrightarrow> sn_status operation = ''planned'' \<and>
       dget (sn_details operation) ''mutation_dispatched'' = PBool False"
  using assms
  by (auto simp: handle_bound_def io_return_Inr split: if_splits elim!: io_bind_InrE io_try_InrE)

end
