(* ===== verification/Examples.thy ===== *)
theory Examples
  imports RecoveryHandlers
begin

text \<open>
  A concrete setting for the witnesses: a database without a connection row, a process that
  runs alone, and a Proxmox client that answers for one stopped VM.
\<close>

definition ex_sha :: sha where
  "ex_sha s = replicate 64 CHR ''0''"

definition ex_setup :: setup_env where
  "ex_setup = \<lparr>se_pin = None, se_decrypts = (\<lambda>_ _. True)\<rparr>"

definition ex_admission :: admission_env where
  "ex_admission = \<lparr>ae_setup = ex_setup, ae_lock_now = 0, ae_create_now = 0, ae_claim_now = 0,
     ae_lock_ids = (\<lambda>v. ''lock-'' @ show_int v), ae_event_id = ''event'', ae_token = ''token'', ae_owner = ''owner''\<rparr>"

text \<open>A lonely process: the clock stands still, nothing is committed by others.\<close>

definition ex_flow :: flow_env where
  "ex_flow = \<lparr>fe_between = (\<lambda>_ d. d), fe_now = (\<lambda>_. 0), fe_event_now = (\<lambda>_. 0),
     fe_event_id = (\<lambda>k. ''event-'' @ show_nat k), fe_admission = (\<lambda>_. ex_admission)\<rparr>"

definition ex_world :: world where
  "ex_world = \<lparr>w_db = empty_db, w_calls = [], w_step = 0\<rparr>"

definition ex_actor :: pydict where
  "ex_actor = [(''user_id'', PStr ''u1''), (''username'', PStr ''admin''), (''role'', PStr ''admin'')]"

definition ex_digest :: string where
  "ex_digest = replicate 40 CHR ''a''"

definition ex_config :: "int \<Rightarrow> pydict" where
  "ex_config cores = [(''name'', PStr ''web''), (''digest'', PStr ex_digest), (''cores'', PInt cores), (''memory'', PInt 2048),
     (''net0'', PStr ''virtio=AA:BB:CC:DD:EE:FF,bridge=vmbr0''),
     (''scsi0'', PStr ''nfs1:100/vm-100-disk-0.qcow2,size=10G'')]"

text \<open>The configuration changes with the step \<open>n\<close>.\<close>

definition ex_client :: "nat \<Rightarrow> vm_client" where
  "ex_client n =
     \<lparr>vc_config = (\<lambda>_ _ k. Some (ex_config (if k < n then 2 else 4))),
      vc_status = (\<lambda>_ _ _. Some [(''status'', PStr ''stopped'')]), vc_pending = (\<lambda>_ _ _. Some []),
      vc_vm_permissions = (\<lambda>_ _. Some [''VM.Audit'', ''VM.Config.CPU'', ''VM.Config.Memory'', ''VM.Config.Disk'',
         ''VM.Config.Network'']),
      vc_network = (\<lambda>_ _. Some [(''pending_changes'', PBool False), (''interfaces'', PList [])]),
      vc_bridge_permissions = (\<lambda>_ _. Some [''SDN.Use'']), vc_storages = (\<lambda>_ _. Some []),
      vc_storage_permissions = (\<lambda>_ _. Some []), vc_volume = (\<lambda>_ _ _ _. None),
      vc_set_config = (\<lambda>_ _ _ _. Some PNone), vc_resize = (\<lambda>_ _ _ _ _. None), vc_task = (\<lambda>_ _ _. None),
      vc_snapshots = (\<lambda>_ _ _. None), vc_images = (\<lambda>_ _ _ _. None), vc_vmid_unused = (\<lambda>_ _. False),
      vc_resources = (\<lambda>_. None), vc_nodes = (\<lambda>_. None), vc_node_status = (\<lambda>_ _. None), vc_task_audit = (\<lambda>_ _. None),
      vc_preconditions = (\<lambda>_ _ _ _. None), vc_backups = (\<lambda>_ _ _ _. None), vc_backup_defaults = (\<lambda>_ _ _. None),
      vc_delete = (\<lambda>_ _ _. None), vc_clone = (\<lambda>_ _ _ _. None), vc_convert = (\<lambda>_ _ _. None),
      vc_migrate = (\<lambda>_ _ _ _. None), vc_create_backup = (\<lambda>_ _ _ _ _. None)\<rparr>"

definition ex_compute :: config_service where
  "ex_compute = compute_service (ex_client 6) ''lab''"

definition ex_request :: change_request where
  "ex_request = \<lparr>rq_idempotency_key = ''k1'', rq_expected_name = ''web'',
     rq_dump = [(''idempotency_key'', PStr ''k1''), (''expected_digest'', PStr ex_digest),
       (''expected_name'', PStr ''web''), (''cores'', PInt 4), (''memory_mib'', PInt 2048)]\<rparr>"

definition ex_done :: "pydict result \<times> world" where
  "ex_done = config_execute ex_sha ex_flow ex_compute ''pve1'' 100 ex_request ex_actor ex_world"

section \<open>A small operation log\<close>

definition ex_operation_actor :: operation_actor where
  "ex_operation_actor = \<lparr>ac_user_id = ''u1'', ac_username = ''admin'', ac_role = ''admin''\<rparr>"

definition ex_spec :: operation_spec where
  "ex_spec = \<lparr>sp_operation_id = ''op'', sp_operation_type = ''vm_compute'', sp_execution_mode = ''managed_api'',
     sp_target_type = ''proxmox_vm'', sp_target_id = ''vmid:100'', sp_idempotency_key = ''k'',
     sp_intent_digest = ''i'', sp_plan_digest = ''i'', sp_actor = ex_operation_actor, sp_initial_status = ''planned'',
     sp_initial_stage = ''plan'', sp_expires_at = None, sp_details = []\<rparr>"

definition ex_recovery_spec :: recovery_spec where
  "ex_recovery_spec = \<lparr>rs_operation_id = ''op'', rs_recovery_kind = ''vm_compute_observation'', rs_details = []\<rparr>"

definition ex_log :: db where
  "ex_log = run (core_exec ex_sha)
     [CreateOperation 0 ''event-1'' ex_spec [], PrepareAndClaim 0 ''token'' ex_recovery_spec ''owner'' 60000000 None None]
     empty_db"

lemma ex_log_inv: "core_inv ex_sha ex_log"
  unfolding ex_log_def by (rule core.run_inv [OF core_inv_empty])

definition ex_append :: append_request where
  "ex_append = \<lparr>aq_next_status = Some ''dispatching'', aq_event_type = ''dispatch'', aq_stage = ''dispatch'',
     aq_payload = [], aq_details_patch = [], aq_actor = None, aq_expected_statuses = Some [''planned''],
     aq_is_transition = True\<rparr>"

definition ex_event :: operation_event where
  "ex_event = \<lparr>ev_event_id = ''event-1'', ev_operation_id = ''op'', ev_sequence = 1,
     ev_event_type = ''operation_created'', ev_from_status = None, ev_to_status = ''planned'', ev_stage = ''plan'',
     ev_actor = ex_operation_actor, ev_payload = [], ev_previous_checksum = [], ev_checksum = [], ev_created_at = 0\<rparr>"

text \<open>A checksum that counts one letter, enough to tell two small texts apart.\<close>

definition ex_count :: sha where
  "ex_count s = replicate (length (filter (\<lambda>c. c = CHR ''x'') s)) CHR ''a''"

text \<open>A lease of an earlier generation than the one that \<open>ex_log\<close> holds.\<close>

definition ex_stale_lease :: recovery_lease where
  "ex_stale_lease = lease_of ((new_recovery_row ex_recovery_spec ''owner'' ''old'' 60000000 0)
     \<lparr>rc_lease_generation := 0\<rparr>) ''old''"

lemma overtaken_case:
  "overtaken d lease = (case find_recovery d (lease_operation_id lease) of None \<Rightarrow> False
     | Some r \<Rightarrow> lease_generation lease < rc_lease_generation r \<or> rc_status r = ''completed'')"
  by (auto simp: overtaken_def split: option.splits)

lemma ex_stale_overtaken: "overtaken ex_log ex_stale_lease"
  unfolding overtaken_case by code_simp

definition ex_host_commands :: "core_command list" where
  "ex_host_commands = [AcquireConfiguration ex_setup 0 ''lock-1'' ''host_network'' ''lab'' ''op''
     (PDict [(''node_id'', PStr ''n1''), (''bridge_id'', PStr ''vmbr0'')])]"

lemma pair_eqI: "fst p = x \<Longrightarrow> p = (x, snd p)"
  by (cases p) simp

section \<open>An operation in the middle of its life\<close>

text \<open>
  An operation of the given type and status with its active lock, its leased recovery item and
  the lease, over the given details.
\<close>

definition ex_op_row :: "string \<Rightarrow> string \<Rightarrow> pydict \<Rightarrow> op_row" where
  "ex_op_row operation_type status details = (created_row ex_spec ''sum'' 0)
     \<lparr>op_operation_type := operation_type, op_status := status, op_details := details\<rparr>"

definition ex_lock_row :: "string \<Rightarrow> lock_row" where
  "ex_lock_row operation_type = vm_lock_row ''lock-1'' operation_type ''lab'' 100 ''op'' ''admitted'' 0"

definition ex_recovery_row :: "string \<Rightarrow> recovery_row" where
  "ex_recovery_row kind = (new_recovery_row ex_recovery_spec ''owner'' ''token'' 60000000 0)
     \<lparr>rc_recovery_kind := kind, rc_details := [(''target_lock_id'', PStr (lk_operation_lock_id (ex_lock_row kind))),
        (''cluster_id'', PStr ''lab'')]\<rparr>"

definition ex_lease :: "string \<Rightarrow> recovery_lease" where
  "ex_lease kind = lease_of (ex_recovery_row kind) ''token''"

definition ex_db :: "string \<Rightarrow> string \<Rightarrow> string \<Rightarrow> pydict \<Rightarrow> db" where
  "ex_db operation_type kind status details = empty_db
     \<lparr>db_operations := [ex_op_row operation_type status details], db_locks := [ex_lock_row operation_type],
       db_recoveries := [ex_recovery_row kind]\<rparr>"

definition ex_world_of :: "db \<Rightarrow> world" where
  "ex_world_of d = \<lparr>w_db = d, w_calls = [], w_step = 0\<rparr>"

definition ex_target :: pydict where
  "ex_target = [(''node_id'', PStr ''pve1''), (''vmid'', PInt 100)]"

definition ex_compute_details :: pydict where
  "ex_compute_details = [(''target'', PDict ex_target),
     (''requested'', PDict [(''expected_name'', PStr ''web''), (''cores'', PInt 4), (''memory_mib'', PInt 2048)]),
     (''observed_before'', PDict [(''balloon_mib'', PInt 0)]), (''dispatch_acknowledged'', PBool True)]"

definition ex_compute_db :: db where
  "ex_compute_db = ex_db ''vm_compute'' ''vm_compute_observation'' ''verifying'' ex_compute_details"

definition ex_compute_snapshot :: operation_snapshot where
  "ex_compute_snapshot = snapshot_of (ex_op_row ''vm_compute'' ''verifying'' ex_compute_details)"

lemma ex_compute_verified:
  "fst (config_verify ex_sha ex_flow (compute_service (ex_client 0) ''lab'') (ex_lease ''vm_compute_observation'')
     ex_compute_snapshot (ex_world_of ex_compute_db)) = Inr ''succeeded''"
  by code_simp

section \<open>A disk that has grown\<close>

definition ex_volume :: string where
  "ex_volume = ''nfs1:100/vm-100-disk-0.qcow2''"

definition ex_upid :: string where
  "ex_upid = ''UPID:pve1:0001:0002:0003:resize:100:root@pam:''"

definition ex_disk_client :: vm_client where
  "ex_disk_client = (ex_client 0)
     \<lparr>vc_storages := (\<lambda>_ _. Some [[(''storage'', PStr ''nfs1''), (''type'', PStr ''nfs''), (''active'', PInt 1),
        (''enabled'', PInt 1)]]),
      vc_volume := (\<lambda>_ _ _ _. Some [(''size'', PInt 10737418240), (''format'', PStr ''qcow2'')]),
      vc_task := (\<lambda>_ _ _. Some [(''status'', PStr ''stopped''), (''exitstatus'', PStr ''OK'')])\<rparr>"

definition ex_disk :: task_service where
  "ex_disk = disk_service ex_disk_client (\<lambda>_. 0) ''lab''"

definition ex_disk_snapshot :: operation_snapshot where
  "ex_disk_snapshot = snapshot_of (ex_op_row ''vm_disk_resize'' ''verifying''
     [(''target'', PDict ex_target), (''proxmox_upid'', PStr ex_upid), (''observed_before'', PDict []),
      (''requested'', PDict [(''expected_name'', PStr ''web''), (''expected_volume'', PStr ex_volume), (''size_gib'', PInt 10)])])"

definition ex_disk_world :: world where
  "ex_disk_world = ex_world_of (ex_db ''vm_disk_resize'' ''vm_disk_observation'' ''verifying'' (sn_details ex_disk_snapshot))"

lemma ex_disk_verified:
  "fst (task_verify ex_sha ex_flow ex_disk (ex_lease ''vm_disk_observation'') ex_disk_snapshot None ex_disk_world)
     = Inr ''succeeded''"
  by code_simp

end
