(* ===== verification/VmVolumes.thy ===== *)
theory VmVolumes
  imports VmDisk
begin

text \<open>
  What the whole-VM features share: device keys, option texts behind a volume, names of volumes
  that belong to one VM, NFS storages with the content type \<open>images\<close>, the snapshot list of a VM
  without snapshots, and the single observation of a task.
\<close>

section \<open>Device keys\<close>

definition FOREIGN_DEVICE :: rx where
  "FOREIGN_DEVICE = numbered [''unused'', ''hostpci'', ''usb'', ''virtiofs'']"

definition FOREIGN_KEYS :: "string list" where
  "FOREIGN_KEYS = [''args'', ''hookscript'', ''efidisk0'', ''tpmstate0'', ''ivshmem'', ''cicustom'']"

definition has_foreign_device :: "pydict \<Rightarrow> bool" where
  "has_foreign_device config = list_ex (\<lambda>k. matches_full FOREIGN_DEVICE k \<or> k \<in> set FOREIGN_KEYS) (dict_keys config)"

definition DISK_SLOT :: rx where
  "DISK_SLOT = numbered [''scsi'', ''virtio'', ''sata'', ''ide'']"

definition disk_slots :: "pydict \<Rightarrow> string list" where
  "disk_slots config = filter (matches_full DISK_SLOT) (dict_keys config)"

definition only_current :: "pydict list \<Rightarrow> bool" where
  "only_current snapshots = (map (\<lambda>r. dget r ''name'') snapshots = [PStr ''current''])"

definition vm_name :: "nat \<Rightarrow> pyval \<Rightarrow> string option" where
  "vm_name hi v = (case v of PStr s \<Rightarrow> if s = [] \<or> length s > hi then None else Some s | _ \<Rightarrow> None)"

section \<open>Volumes\<close>

text \<open>A device value: the volume and the options behind it.\<close>

definition drive :: "error \<Rightarrow> pyval \<Rightarrow> (string \<times> (string \<times> string) list) result" where
  "drive e v = (case v of
       PStr s \<Rightarrow> (case option_pairs (tl (py_split CHR '','' s)) of
          None \<Rightarrow> Inl e | Some ps \<Rightarrow> Inr (hd (py_split CHR '','' s), ps))
     | _ \<Rightarrow> Inl e)"

text \<open>A dict of texts as a value.\<close>

definition text_dict :: "(string \<times> string) list \<Rightarrow> pyval" where
  "text_dict ps = PDict (map (\<lambda>(k, v). (k, PStr v)) ps)"

definition DISK_SUFFIX :: rx where
  "DISK_SUFFIX = Cat (word_rx ''disk-'') (plus (Cls is_digit))"

definition CLOUDINIT_SUFFIX :: rx where
  "CLOUDINIT_SUFFIX = word_rx ''cloudinit''"

text \<open>The pattern \<open>(storage):vmid/prefix-vmid-suffix.(raw|qcow2)\<close>.\<close>

definition own_volume_rx :: "string \<Rightarrow> int \<Rightarrow> rx \<Rightarrow> rx" where
  "own_volume_rx prefix vmid suffix =
     cats [Grp IDENTIFIER, word_rx ('':'' @ show_int vmid @ ''/'' @ prefix @ ''-'' @ show_int vmid @ ''-''), suffix,
       lit CHR ''.'', Grp (alts [word_rx ''raw'', word_rx ''qcow2''])]"

definition own_volume :: "error \<Rightarrow> string \<Rightarrow> int \<Rightarrow> rx \<Rightarrow> string \<Rightarrow> (string \<times> string) result" where
  "own_volume e prefix vmid suffix volume =
     (case fullmatch (own_volume_rx prefix vmid suffix) volume of
        Some [storage, form] \<Rightarrow> Inr (storage, form)
      | _ \<Rightarrow> Inl e)"

definition volume_dict :: "string \<Rightarrow> string \<Rightarrow> string \<Rightarrow> string \<Rightarrow> pydict" where
  "volume_dict slot volume storage form =
     [(''slot'', PStr slot), (''volume_id'', PStr volume), (''storage_id'', PStr storage), (''format'', PStr form)]"

definition volume_text :: "pydict \<Rightarrow> string" where
  "volume_text row = py_str (dget row ''volume_id'')"

definition images_storage :: "pydict option \<Rightarrow> bool" where
  "images_storage row = (case row of None \<Rightarrow> False
     | Some r \<Rightarrow> dget r ''type'' = PStr ''nfs'' \<and> one (dget r ''active'') \<and> one (dget r ''enabled'') \<and>
         ''images'' \<in> set (py_split CHR '','' (py_str (dget_or r ''content'' (PStr [])))))"

definition positive_int :: "pyval \<Rightarrow> int option" where
  "positive_int v = (case v of PInt i \<Rightarrow> if 0 < i then Some i else None | _ \<Rightarrow> None)"

text \<open>A whole number of MiB, GiB or TiB: \<open>([1-9][0-9]*)([MGT])\<close>, in bytes.\<close>

definition WHOLE_SIZE :: rx where
  "WHOLE_SIZE = Cat (Grp (Cat (Cls (\<lambda>c. is_digit c \<and> c \<noteq> CHR ''0'')) (Star (Cls is_digit)))) (Grp (Cls (\<lambda>c. c \<in> set ''MGT'')))"

definition whole_size :: "string \<Rightarrow> int option" where
  "whole_size t = (case fullmatch WHOLE_SIZE t of
       Some [num, u] \<Rightarrow> Some (int (nat_of_digits num) * 1024 ^ unit_power u)
     | _ \<Rightarrow> None)"

lemma positive_int_Some: "positive_int v = Some i \<longleftrightarrow> v = PInt i \<and> 0 < i"
  by (auto simp: positive_int_def split: pyval.splits)

text \<open>The name of an accepted volume carries the VM's own identifier twice.\<close>

lemma own_volume_name:
  assumes "own_volume e prefix vmid suffix volume = Inr (storage, form)"
  shows "volume \<in> lang (own_volume_rx prefix vmid suffix)"
    "\<exists>a b. volume = a @ '':'' @ show_int vmid @ ''/'' @ prefix @ ''-'' @ show_int vmid @ ''-'' @ b"
proof -
  from assms have "matches_full (own_volume_rx prefix vmid suffix) volume"
    by (auto simp: own_volume_def matches_full_def split: option.splits)
  then show lang: "volume \<in> lang (own_volume_rx prefix vmid suffix)" by (simp add: matches_full_iff_lang)
  then obtain a b where "volume = a @ ('':'' @ show_int vmid @ ''/'' @ prefix @ ''-'' @ show_int vmid @ ''-'') @ b"
    unfolding own_volume_rx_def cats.simps lang.simps lang_word_rx by blast
  then show "\<exists>a b. volume = a @ '':'' @ show_int vmid @ ''/'' @ prefix @ ''-'' @ show_int vmid @ ''-'' @ b"
    by (intro exI [of _ a] exI [of _ b]) simp
qed

text \<open>\<open>task_reference\<close> reads what a dispatch returned; a failed call has an unknown result.\<close>

definition dispatched_task :: "string \<Rightarrow> string \<Rightarrow> string \<Rightarrow> int \<Rightarrow> pyval option \<Rightarrow> string result" where
  "dispatched_task code kind node_id vmid response =
     ebind (read_or response code 503) (task_reference code kind node_id vmid)"

lemma dispatched_task_bound: "dispatched_task code kind node vmid r = Inr upid \<Longrightarrow> bound_task kind node vmid upid"
  by (auto simp: dispatched_task_def bound_task_def task_reference_Inr)

section \<open>Comparison of items\<close>

text \<open>\<open>a and b\<close> of two fallible conditions.\<close>

definition eand :: "bool result \<Rightarrow> bool result \<Rightarrow> bool result" where
  "eand a b = ebind a (\<lambda>x. if x then b else Inr False)"

lemma eand_Inr_True [simp]: "eand a b = Inr True \<longleftrightarrow> a = Inr True \<and> b = Inr True"
  by (auto simp: eand_def ebind_Inr_iff)

fun eall :: "bool result list \<Rightarrow> bool result" where
  "eall [] = Inr True"
| "eall (c # cs) = eand c (eall cs)"

lemma eall_True [simp]: "eall cs = Inr True \<longleftrightarrow> list_all (\<lambda>c. c = Inr True) cs"
  by (induction cs) auto

definition inner :: "pydict \<Rightarrow> string \<Rightarrow> pydict result" where
  "inner d k = ebind (ditem d k) (\<lambda>v. case v of PDict x \<Rightarrow> Inr x | _ \<Rightarrow> Inl (PyError TypeError))"

lemma inner_Inr [simp]: "inner d k = Inr x \<longleftrightarrow> ditem d k = Inr (PDict x)"
  by (cases "ditem d k") (auto simp: inner_def split: pyval.splits)

definition same_item :: "pydict \<Rightarrow> string \<Rightarrow> pydict \<Rightarrow> string \<Rightarrow> bool result" where
  "same_item a k b j = ebind (ditem a k) (\<lambda>v. ebind (ditem b j) (\<lambda>w. Inr (py_eq v w)))"

definition other_item :: "pydict \<Rightarrow> string \<Rightarrow> pydict \<Rightarrow> string \<Rightarrow> bool result" where
  "other_item a k b j = ebind (same_item a k b j) (\<lambda>same. Inr (\<not> same))"

lemma same_item_True: "same_item a k b j = Inr True \<Longrightarrow> py_eq (dget a k) (dget b j)"
  by (auto simp: same_item_def dest!: ditem_dget)

lemma other_item_True: "other_item a k b j = Inr True \<Longrightarrow> \<not> py_eq (dget a k) (dget b j)"
  by (auto simp: other_item_def same_item_def dest!: ditem_dget)

definition read_at :: "(string \<Rightarrow> int \<Rightarrow> nat \<Rightarrow> pydict result) \<Rightarrow> pyval \<Rightarrow> nat \<Rightarrow> pydict result" where
  "read_at f target k =
     ebind (dict_item target ''node_id'') (\<lambda>node. ebind (dict_item target ''vmid'') (\<lambda>vmid. at_target f node vmid k))"

end
