(* ===== verification/HostChange.thy ===== *)
theory HostChange
  imports VmVolumes
begin

text \<open>
  What the host configuration services share: \<open>execute\<close> of \<open>app/operations/host_storage/application.py\<close>
  and \<open>app/operations/host_network/application.py\<close> up to the first dispatch. The parts in which
  the two differ are the fields of \<open>host_feature\<close>; \<open>'c\<close> is the validated change of the request.
\<close>

section \<open>The service interface\<close>

record 'c host_feature =
  hf_operation_type :: string
  hf_id_prefix :: string
  hf_event_prefix :: string
  hf_error_prefix :: string
  hf_resource_key :: string
  hf_cluster_id :: string
  hf_flags :: pydict
  hf_change :: "change_request \<Rightarrow> 'c result"
  hf_review :: "string \<Rightarrow> string \<Rightarrow> 'c \<Rightarrow> nat \<Rightarrow> pydict result"
  hf_result :: "operation_snapshot \<Rightarrow> bool \<Rightarrow> pydict result"

definition host_error :: "'c host_feature \<Rightarrow> string \<Rightarrow> nat \<Rightarrow> error" where
  "host_error hf code status = FeatureError (hf_error_prefix hf @ code) status"

definition host_target :: "'c host_feature \<Rightarrow> string \<Rightarrow> string \<Rightarrow> pydict" where
  "host_target hf node_id resource = [(''node_id'', PStr node_id), (hf_resource_key hf, PStr resource)]"

definition host_validate :: "'c host_feature \<Rightarrow> string \<Rightarrow> string \<Rightarrow> (string \<times> string) result" where
  "host_validate hf node_id resource =
     (case target_identity (hf_operation_type hf) (PDict (host_target hf node_id resource)) of
        Inl _ \<Rightarrow> Inl (host_error hf ''TARGET_INVALID'' 422) | Inr p \<Rightarrow> Inr p)"

section \<open>Identity and specification\<close>

definition host_identity :: "sha \<Rightarrow> 'c host_feature \<Rightarrow> string \<Rightarrow> string \<Rightarrow> string \<Rightarrow> string" where
  "host_identity sha hf node_id resource key =
     operation_digest sha [(''cluster_id'', PStr (hf_cluster_id hf)),
       (''target'', PDict (host_target hf node_id resource)), (''key'', PStr key)]"

definition host_operation_id :: "sha \<Rightarrow> 'c host_feature \<Rightarrow> string \<Rightarrow> string \<Rightarrow> change_request \<Rightarrow> string" where
  "host_operation_id sha hf node_id resource rq = change_operation_id (hf_id_prefix hf)
     (host_identity sha hf node_id resource (rq_idempotency_key rq))"

definition host_intent :: "sha \<Rightarrow> pydict \<Rightarrow> change_request \<Rightarrow> string" where
  "host_intent sha target rq = operation_digest sha [(''target'', PDict target), (''request'', PDict (rq_dump rq))]"

definition host_check_expected :: "'c host_feature \<Rightarrow> pydict \<Rightarrow> change_request \<Rightarrow> unit result" where
  "host_check_expected hf plan rq =
     ebind (ditem plan ''review_digest'') (\<lambda>digest.
     ebind (raise_if (\<not> py_eq digest (attr rq ''expected_review_digest'')) (host_error hf ''STATE_CHANGED'' 409)) (\<lambda>_.
     ebind (ditem plan ''confirmation'') (\<lambda>confirmation.
       raise_if (\<not> py_eq confirmation (attr rq ''confirmation'')) (host_error hf ''CONFIRMATION_INVALID'' 422))))"

definition host_spec :: "sha \<Rightarrow> 'c host_feature \<Rightarrow> string \<Rightarrow> string \<Rightarrow> string \<times> string \<Rightarrow> change_request \<Rightarrow> pydict
    \<Rightarrow> pydict \<Rightarrow> operation_spec" where
  "host_spec sha hf node_id resource identity rq actor plan =
     (let target = host_target hf node_id resource in
      \<lparr>sp_operation_id = host_operation_id sha hf node_id resource rq,
       sp_operation_type = hf_operation_type hf, sp_execution_mode = ''managed_api'',
       sp_target_type = fst identity, sp_target_id = snd identity,
       sp_idempotency_key = host_identity sha hf node_id resource (rq_idempotency_key rq),
       sp_intent_digest = host_intent sha target rq, sp_plan_digest = py_str (dget plan ''review_digest''),
       sp_actor = actor_from_mapping actor, sp_initial_status = ''planned'', sp_initial_stage = ''plan'',
       sp_expires_at = None,
       sp_details = [(''target'', PDict target), (''requested'', PDict (rq_dump rq)), (''review'', PDict plan)] @ hf_flags hf\<rparr>)"

definition host_blocked_commit :: "'c host_feature \<Rightarrow> string \<Rightarrow> commit_request" where
  "host_blocked_commit hf code =
     (commit_defaults (hf_event_prefix hf @ ''precheck_blocked'') ''precheck'' ''completed'')
       \<lparr>cq_next_status := Some ''blocked'', cq_details_patch := [(''failure_code'', PStr code)],
        cq_expected_statuses := Some [''planned''], cq_release_target_lock := True\<rparr>"

section \<open>Execution up to the dispatch\<close>

definition host_admitted :: "sha \<Rightarrow> flow_env \<Rightarrow> 'c host_feature \<Rightarrow> string \<Rightarrow> string \<Rightarrow> change_request \<Rightarrow> 'c
    \<Rightarrow> recovery_lease \<Rightarrow> pydict io \<Rightarrow> pydict io" where
  "host_admitted sha fe hf node_id resource rq change lease proceed =
     io_try (io_bind (ext_read (hf_review hf node_id resource change)) (\<lambda>latest.
               io_of (host_check_expected hf latest rq)))
       (\<lambda>code status. io_bind (commit_io sha fe lease (host_blocked_commit hf code))
          (\<lambda>_. io_of (Inl (FeatureError code status))))
       (\<lambda>_. proceed)"

definition host_planned :: "sha \<Rightarrow> flow_env \<Rightarrow> 'c host_feature \<Rightarrow> string \<Rightarrow> string \<Rightarrow> string \<times> string \<Rightarrow> change_request
    \<Rightarrow> pydict \<Rightarrow> ('c \<Rightarrow> pydict \<Rightarrow> operation_snapshot \<Rightarrow> recovery_lease \<Rightarrow> pydict io) \<Rightarrow> pydict io" where
  "host_planned sha fe hf node_id resource identity rq actor proceed =
     io_bind (io_of (hf_change hf rq)) (\<lambda>change.
     io_bind (ext_read (hf_review hf node_id resource change)) (\<lambda>plan.
     io_bind (io_of (host_check_expected hf plan rq)) (\<lambda>_.
     let spec = host_spec sha hf node_id resource identity rq actor plan in
     io_bind (io_of (spec_post_init spec)) (\<lambda>_.
     io_bind (tx fe (\<lambda>k d. host_prepare sha (fe_admission fe k) d spec (hf_cluster_id hf)))
       (\<lambda>(operation, admitted). case admitted of
          None \<Rightarrow> io_of (hf_result hf operation True)
        | Some lease \<Rightarrow> host_admitted sha fe hf node_id resource rq change lease (proceed change plan operation lease))))))"

definition host_execute :: "sha \<Rightarrow> flow_env \<Rightarrow> 'c host_feature \<Rightarrow> string \<Rightarrow> string \<Rightarrow> change_request \<Rightarrow> pydict
    \<Rightarrow> ('c \<Rightarrow> pydict \<Rightarrow> operation_snapshot \<Rightarrow> recovery_lease \<Rightarrow> pydict io) \<Rightarrow> pydict io" where
  "host_execute sha fe hf node_id resource rq actor proceed =
     io_bind (io_of (host_validate hf node_id resource)) (\<lambda>identity.
     io_bind (get_io fe (host_operation_id sha hf node_id resource rq)) (\<lambda>found. case found of
       Some existing \<Rightarrow>
         if sn_intent_digest existing \<noteq> host_intent sha (host_target hf node_id resource) rq
         then io_of (Inl (host_error hf ''IDEMPOTENCY_CONFLICT'' 409))
         else io_of (hf_result hf existing True)
     | None \<Rightarrow> host_planned sha fe hf node_id resource identity rq actor proceed))"

section \<open>The stages keep the core's invariant\<close>

lemma host_prepare_tx_ok [io_intros]:
  "fair_env sha fe \<Longrightarrow> io_ok (world_ok sha) (tx fe (\<lambda>k d. host_prepare sha (fe_admission fe k) d sp c))"
  by (rule tx_ok) (auto intro: core_host_prepare)

lemmas host_stages = host_execute_def host_planned_def host_admitted_def

lemma host_execute_ok:
  assumes "fair_env sha fe" "\<And>c plan sn l. io_ok (world_ok sha) (proceed c plan sn l)"
  shows "io_ok (world_ok sha) (host_execute sha fe hf node res rq actor proceed)"
  unfolding host_stages by (intro io_intros assms)

section \<open>What leaves for Proxmox\<close>

text \<open>
  \<open>sends Q m\<close>: the calls that the process sends satisfy \<open>Q\<close>.
\<close>

definition sends :: "(dispatched_call list \<Rightarrow> bool) \<Rightarrow> 'a io \<Rightarrow> bool" where
  "sends Q m \<longleftrightarrow> (\<forall>w. \<exists>cs. Q cs \<and> w_calls (snd (m w)) = w_calls w @ cs)"

lemma sends_at_iff: "sends Q m \<longleftrightarrow> (\<forall>w. sends_at Q m w)"
  by (simp add: sends_def sends_at_def)

lemma host_prepare_lease:
  "host_prepare sha ae d sp c = Inr (d', sn, Some lease) \<Longrightarrow> lease_operation_id lease = sp_operation_id sp"
  by (auto simp: host_prepare_def replay_def Let_def split: option.splits prod.splits if_splits dest: record_bound_lease)

text \<open>
  \<open>reviewed_plan\<close>: the plan is the review, at a step, of the change that the request asks for, and it
  is the one that the request confirms. The dispatch is preceded by two of them: the plan that is
  recorded, and a second look after the admission.
\<close>

definition reviewed_plan :: "'c host_feature \<Rightarrow> string \<Rightarrow> string \<Rightarrow> change_request \<Rightarrow> 'c \<Rightarrow> pydict \<Rightarrow> nat \<Rightarrow> bool" where
  "reviewed_plan hf node_id resource rq change plan k \<longleftrightarrow> hf_change hf rq = Inr change \<and>
     hf_review hf node_id resource change k = Inr plan \<and> host_check_expected hf plan rq = Inr ()"

definition reviewed_twice :: "'c host_feature \<Rightarrow> string \<Rightarrow> string \<Rightarrow> change_request \<Rightarrow> 'c \<Rightarrow> pydict \<Rightarrow> nat \<Rightarrow> bool" where
  "reviewed_twice hf node_id resource rq change plan before \<longleftrightarrow> (\<exists>latest j k. j < k \<and> k < before \<and>
     reviewed_plan hf node_id resource rq change plan j \<and> reviewed_plan hf node_id resource rq change latest k)"

lemma io_of_run: "io_of m w = (Inr x, w') \<longleftrightarrow> m = Inr x \<and> w' = w"
  by (auto simp: io_of_def)

lemma host_admitted_sends:
  assumes "Q []" "reviewed_plan hf node res rq change plan j" "j < w_step w"
    and "\<And>w. reviewed_twice hf node res rq change plan (w_step w) \<Longrightarrow> sends_at Q proceed w"
  shows "sends_at Q (host_admitted sha fe hf node res rq change lease proceed) w"
  unfolding host_admitted_def
proof (rule sends_at_try)
  fix x w'
  assume "io_bind (ext_read (hf_review hf node res change)) (\<lambda>latest. io_of (host_check_expected hf latest rq)) w = (Inr x, w')"
  then obtain latest where "hf_review hf node res change (w_step w) = Inr latest" "host_check_expected hf latest rq = Inr ()"
      "w_step w' = Suc (w_step w)"
    by (auto elim!: io_bind_InrE simp: io_of_run dest!: ext_read_step)
  with assms(2,3) have "reviewed_twice hf node res rq change plan (w_step w')"
    unfolding reviewed_twice_def reviewed_plan_def by (metis lessI)
  then show "sends_at Q proceed w'" by (rule assms(4))
qed (auto intro!: sends_at_silent silent_intros assms(1))

lemma host_planned_sends:
  assumes "Q []"
    and proceed: "\<And>change plan sn l w. lease_operation_id l = host_operation_id sha hf node res rq \<Longrightarrow>
      reviewed_twice hf node res rq change plan (w_step w) \<Longrightarrow> sends_at Q (proceed change plan sn l) w"
  shows "sends_at Q (host_planned sha fe hf node res identity rq actor proceed) w"
proof -
  have tx: "sends_at Q (case admitted of None \<Rightarrow> io_of (hf_result hf sn True)
        | Some lease \<Rightarrow> host_admitted sha fe hf node res rq change lease (proceed change plan sn lease)) w'"
    if run: "tx fe (\<lambda>k d. host_prepare sha (fe_admission fe k) d (host_spec sha hf node res identity rq actor plan)
          (hf_cluster_id hf)) w = (Inr (sn, admitted), w')" and look: "hf_change hf rq = Inr change"
        "ext_read (hf_review hf node res change) w0 = (Inr plan, w)" "host_check_expected hf plan rq = Inr ()"
    for sn admitted w w' w0 change plan
  proof (cases admitted)
    case None
    then show ?thesis using assms(1) by (auto intro!: sends_at_silent silent_intros)
  next
    case (Some lease)
    with tx_InrD [OF run] have "lease_operation_id lease = host_operation_id sha hf node res rq"
      by (auto dest!: host_prepare_lease simp: host_spec_def Let_def)
    moreover have "reviewed_plan hf node res rq change plan (w_step w0)" "w_step w0 < w_step w'"
      using look ext_read_step [OF look(2)] tx_step [OF run] by (simp_all add: reviewed_plan_def)
    ultimately show ?thesis using Some
      by (auto intro!: host_admitted_sends [of Q] assms(1) proceed)
  qed
  show ?thesis
    unfolding host_planned_def Let_def
    by (intro sends_at_bind silent_intros assms(1)) (auto simp: io_of_run intro: tx)
qed

lemma host_execute_sends:
  assumes "Q []"
    and "\<And>change plan sn l w. lease_operation_id l = host_operation_id sha hf node res rq \<Longrightarrow>
      reviewed_twice hf node res rq change plan (w_step w) \<Longrightarrow> sends_at Q (proceed change plan sn l) w"
  shows "sends Q (host_execute sha fe hf node res rq actor proceed)"
  unfolding sends_at_iff
proof
  fix w
  have planned: "sends_at Q (host_planned sha fe hf node res identity rq actor proceed) w" for identity w
    using assms by (rule host_planned_sends)
  have "sends_at Q (case z of None \<Rightarrow> host_planned sha fe hf node res identity rq actor proceed
      | Some existing \<Rightarrow> if sn_intent_digest existing \<noteq> i then io_of e else io_of (hf_result hf existing True)) w"
    for z identity i e w
    using planned assms(1) by (cases z) (auto intro!: sends_at_silent silent_intros)
  then show "sends_at Q (host_execute sha fe hf node res rq actor proceed) w"
    unfolding host_execute_def by (intro sends_at_bind silent_intros assms(1))
qed

section \<open>A replay changes nothing\<close>

lemma host_execute_replay:
  assumes "host_validate hf node res = Inr p"
    and "store_get (fe_between fe (w_step w) (w_db w)) (host_operation_id sha hf node res rq) = Some existing"
  shows "w_calls (snd (host_execute sha fe hf node res rq actor proceed w)) = w_calls w"
    "w_db (snd (host_execute sha fe hf node res rq actor proceed w)) = fe_between fe (w_step w) (w_db w)"
  using assms by (simp_all add: host_execute_def io_bind_def io_of_def get_io_def tx_def)

section \<open>What success means\<close>

lemma sends_once_iff: "sends_once P m \<longleftrightarrow> sends (at_most_one P) m"
  by (simp add: sends_once_at sends_at_iff)

lemma settle_success:
  assumes "commit_io sha fe lease q w = (Inr r, w')" "cq_next_status q = Some ''succeeded''"
    "cq_recovery_status q = ''completed''"
  shows "settled_success (lease_operation_id lease) (w_db w')"
proof -
  obtain sn item where "r = (sn, item)" by (cases r)
  with commit_io_InrD [of sha fe lease q w sn item w'] assms show ?thesis by (blast intro: commit_success)
qed

lemma renewed_id:
  assumes "commit_io sha fe lease q w = (Inr (sn, item), w')"
  shows "lease_operation_id (renewed lease item) = lease_operation_id lease"
  using commit_io_InrD [OF assms] commit_item_id by blast

end
