(* ===== verification/VmMigrate.thy ===== *)
theory VmMigrate
  imports VmVolumes
begin

text \<open>
  Offline migration of a stopped VM between two nodes with shared NFS storage:
  \<open>app/operations/vm_migrate/domain.py\<close>, \<open>infrastructure.py\<close> and \<open>application.py\<close>. Where the source
  iterates over a set, the model takes the sorted order.
\<close>

section \<open>Domain\<close>

abbreviation migrate_error :: "string \<Rightarrow> nat \<Rightarrow> error" where
  "migrate_error code status \<equiv> FeatureError (''VM_MIGRATE_'' @ code) status"

definition CONFIG_KEYS :: "string list" where
  "CONFIG_KEYS = py_split CHR '' '' (''digest name description cores sockets cpu memory balloon numa scsihw scsi0 ide2 net0 ''
     @ ''bios machine boot bootdisk ostype agent ciuser cipassword sshkeys citype ciupgrade ipconfig0 nameserver ''
     @ ''searchdomain serial0 vga onboot protection smbios1 vmgenid meta tags startup tablet template'')"

definition migrate_request_ok :: "pydict \<Rightarrow> bool" where
  "migrate_request_ok d =
     (set (dict_keys d) = {''destination_node'', ''idempotency_key'', ''expected_name'', ''expected_review_digest'',
        ''confirmation'', ''migration_acknowledged''}
      \<and> str_field d ''destination_node'' 0 64 is_id \<and> str_field d ''idempotency_key'' 1 160 (matches_full KEY_TEXT)
      \<and> str_field d ''expected_name'' 1 255 (\<lambda>_. True)
      \<and> str_field d ''expected_review_digest'' 0 71 (matches_full SHA256_TEXT)
      \<and> str_field d ''confirmation'' 1 400 (\<lambda>_. True) \<and> bool_field d ''migration_acknowledged'')"

definition migrate_validate_target :: "string \<Rightarrow> int \<Rightarrow> string \<Rightarrow> unit result" where
  "migrate_validate_target node_id vmid destination_node =
     raise_if (\<not> is_id node_id \<or> \<not> is_id destination_node \<or> node_id = destination_node \<or> \<not> vmid_range vmid)
       (migrate_error ''TARGET_INVALID'' 422)"

definition migrate_options :: "pyval \<Rightarrow> (string \<times> string) list result" where
  "migrate_options v = (case v of
       PStr s \<Rightarrow> (case option_pairs (py_split CHR '','' s) of
          None \<Rightarrow> Inl (migrate_error ''CONFIG_UNSUPPORTED'' 409) | Some ps \<Rightarrow> Inr ps)
     | _ \<Rightarrow> Inl (migrate_error ''CONFIG_UNSUPPORTED'' 409))"

definition ha_unmanaged :: "pydict \<Rightarrow> bool" where
  "ha_unmanaged status = (case dget status ''ha'' of PDict ha \<Rightarrow> as_num (dget ha ''managed'') = Some 0 | _ \<Rightarrow> False)"

text \<open>\<open>value in {...}\<close> of a set of texts: a list or dict cannot be hashed.\<close>

definition in_text_set :: "pyval \<Rightarrow> string list \<Rightarrow> bool result" where
  "in_text_set v names = (case v of
       PList xs \<Rightarrow> Inl (PyError TypeError) | PDict d \<Rightarrow> Inl (PyError TypeError)
     | _ \<Rightarrow> Inr (v \<in> PStr ` set names))"

definition standard_config :: "pydict \<Rightarrow> bool result" where
  "standard_config config =
     eand (Inr (set (dict_keys config) \<subseteq> set CONFIG_KEYS \<and> dget_or config ''bios'' (PStr ''seabios'') = PStr ''seabios''
         \<and> dget_or config ''serial0'' (PStr ''socket'') = PStr ''socket''
         \<and> \<not> contains_text ''custom-'' (py_str (dget_or config ''cpu'' (PStr [])))))
       (in_text_set (dget_or config ''vga'' (PStr ''std'')) [''std'', ''serial0'', ''qxl'', ''virtio'', ''none''])"

text \<open>One of the two volumes; only the root disk has a configured size.\<close>

definition migrate_size :: "bool \<Rightarrow> (string \<times> string) list \<Rightarrow> pyval result" where
  "migrate_size root opts =
     (if \<not> root then Inr PNone
      else case whole_size (text_or opts ''size'' []) of
        None \<Rightarrow> Inl (migrate_error ''DISK_UNSUPPORTED'' 409) | Some n \<Rightarrow> Inr (PInt n))"

definition migrate_volume :: "pydict \<Rightarrow> int \<Rightarrow> string \<Rightarrow> pydict result" where
  "migrate_volume config vmid slot =
     (let root = (slot = ''scsi0''); e = migrate_error ''DISK_UNSUPPORTED'' 409 in
      case dget config slot of
        PStr s \<Rightarrow>
          (case py_split CHR '','' s of
             [] \<Rightarrow> Inl e
           | volume # parts \<Rightarrow>
               ebind (if parts = [] then Inr [] else migrate_options (PStr (py_join '','' parts))) (\<lambda>opts.
               ebind (own_volume e ''vm'' vmid (if root then DISK_SUFFIX else CLOUDINIT_SUFFIX) volume) (\<lambda>(storage, form).
               ebind (raise_if (text_or opts ''shared'' ''0'' \<noteq> ''0'' \<or> text_or opts ''ro'' ''0'' \<noteq> ''0''
                   \<or> root \<and> map_of opts ''media'' = Some ''cdrom'' \<or> \<not> root \<and> map_of opts ''media'' \<noteq> Some ''cdrom'') e) (\<lambda>_.
               ebind (migrate_size root opts) (\<lambda>bytes.
                 Inr (volume_dict slot volume storage form @ [(''configured_size_bytes'', bytes)]))))))
      | _ \<Rightarrow> Inl e)"

definition binary_flag :: "(string \<times> string) list \<Rightarrow> string \<Rightarrow> bool" where
  "binary_flag ps k = (text_or ps k ''0'' \<in> {''0'', ''1''})"

definition migrate_nic :: "pydict \<Rightarrow> (string \<times> string) list result" where
  "migrate_nic config =
     ebind (migrate_options (dget config ''net0'')) (\<lambda>nic.
     ebind (raise_if (\<not> {''virtio'', ''bridge''} \<subseteq> set (map fst nic)
         \<or> \<not> set (map fst nic) \<subseteq> {''virtio'', ''bridge'', ''firewall'', ''link_down''}
         \<or> \<not> matches_full MAC (text_or nic ''virtio'' []) \<or> \<not> is_id (text_or nic ''bridge'' [])
         \<or> \<not> binary_flag nic ''firewall'' \<or> \<not> binary_flag nic ''link_down'')
       (migrate_error ''NETWORK_UNSUPPORTED'' 409)) (\<lambda>_. Inr nic))"

definition migrate_identity :: "sha \<Rightarrow> pydict \<Rightarrow> pydict \<Rightarrow> pydict list \<Rightarrow> pydict list \<Rightarrow> int \<Rightarrow> pydict result" where
  "migrate_identity sha config status pending snapshots vmid =
     ebind (raise_if (\<not> is_stopped status \<or> flag_text config ''onboot'' \<noteq> ''0'' \<or> template_or_locked config)
        (migrate_error ''NOT_STOPPED'' 409)) (\<lambda>_.
     ebind (raise_if (\<not> ha_unmanaged status) (migrate_error ''HA_UNSUPPORTED'' 409)) (\<lambda>_.
     ebind (raise_if (has_pending pending \<or> \<not> only_current snapshots) (migrate_error ''PENDING_OR_SNAPSHOTS'' 409)) (\<lambda>_.
     ebind (standard_config config) (\<lambda>standard.
     ebind (raise_if (\<not> standard) (migrate_error ''CONFIG_UNSUPPORTED'' 409)) (\<lambda>_.
       case (config_digest (dget config ''digest''), vm_name 255 (dget config ''name'')) of
         (Some digest, Some name) \<Rightarrow>
           ebind (emap (migrate_volume config vmid) [''scsi0'', ''ide2'']) (\<lambda>volumes.
           ebind (migrate_nic config) (\<lambda>nic.
             Inr [(''vmid'', PInt vmid), (''name'', PStr name), (''status'', PStr ''stopped''), (''onboot'', PInt 0),
                  (''ha_managed'', PBool False), (''digest'', PStr digest),
                  (''config_fingerprint'', PStr (operation_digest sha (dpop ''digest'' config))),
                  (''volumes'', PList (map PDict volumes)), (''nic'', text_dict nic)]))
       | _ \<Rightarrow> Inl (migrate_error ''IDENTITY_UNAVAILABLE'' 503))))))"

definition empty_or_absent :: "pydict \<Rightarrow> string \<Rightarrow> pyval \<Rightarrow> bool" where
  "empty_or_absent d k v = py_eq (dget_or d k v) v"

definition preconditions_ok :: "pydict \<Rightarrow> string \<Rightarrow> bool" where
  "preconditions_ok v destination =
     (as_num (dget v ''running'') = Some 0
      \<and> (case dget v ''allowed_nodes'' of PList ns \<Rightarrow> in_values (PStr destination) ns | _ \<Rightarrow> False)
      \<and> dget v ''local_disks'' = PList [] \<and> dget v ''local_resources'' = PList []
      \<and> empty_or_absent v ''mapped-resources'' (PList []) \<and> empty_or_absent v ''mapped-resource-info'' (PDict [])
      \<and> empty_or_absent v ''dependent-ha-resources'' (PList [])
      \<and> (case dget v ''not_allowed_nodes'' of PDict ns \<Rightarrow> \<not> truthy (dget ns destination) | _ \<Rightarrow> False))"

definition check_preconditions :: "pydict \<Rightarrow> string \<Rightarrow> pydict result" where
  "check_preconditions v destination =
     ebind (raise_if (\<not> preconditions_ok v destination) (migrate_error ''PRECONDITION_BLOCKED'' 409)) (\<lambda>_.
       Inr [(''destination_allowed'', PBool True), (''local_disks'', PBool False), (''local_resources'', PBool False),
            (''ha_dependencies'', PBool False)])"

definition migrate_check_expected :: "pydict \<Rightarrow> change_request \<Rightarrow> unit result" where
  "migrate_check_expected before rq =
     ebind (raise_if (attr rq ''migration_acknowledged'' \<noteq> PBool True) (migrate_error ''CONFIRMATION_REQUIRED'' 422)) (\<lambda>_.
     ebind (ditem before ''vmid'') (\<lambda>vmid. ebind (ditem before ''name'') (\<lambda>name. ebind (ditem before ''node_id'') (\<lambda>node.
     ebind (raise_if (\<not> py_eq (attr rq ''confirmation'') (PStr (py_str vmid @ ''/'' @ py_str name @ ''/'' @ py_str node @ ''->''
            @ py_str (attr rq ''destination_node'')))) (migrate_error ''CONFIRMATION_REQUIRED'' 422)) (\<lambda>_.
     ebind (raise_if (\<not> py_eq name (attr rq ''expected_name'')) (migrate_error ''STATE_CHANGED'' 409)) (\<lambda>_.
     ebind (ditem before ''review_digest'') (\<lambda>digest.
       raise_if (\<not> py_eq digest (attr rq ''expected_review_digest'')) (migrate_error ''STATE_CHANGED'' 409))))))))"

text \<open>The only request body of a migration, and the policy of the transport for it.\<close>

definition migrate_body :: "pyval \<Rightarrow> pydict" where
  "migrate_body destination_node =
     [(''target'', destination_node), (''online'', PInt 0), (''with-local-disks'', PInt 0), (''force'', PInt 0)]"

definition plain_int :: "pyval \<Rightarrow> bool" where
  "plain_int v = (case v of PInt i \<Rightarrow> True | _ \<Rightarrow> False)"

definition in_scope :: "pydict \<Rightarrow> string \<Rightarrow> pyval \<Rightarrow> bool result" where
  "in_scope scope k v = ebind (ditem scope k) (\<lambda>vs. case vs of
       PList xs \<Rightarrow> Inr (in_values v xs) | _ \<Rightarrow> Inl (PyError TypeError))"

definition migrate_request_allowed :: "string \<Rightarrow> string list \<Rightarrow> pyval \<Rightarrow> pydict \<Rightarrow> bool result" where
  "migrate_request_allowed method pieces data scope =
     (if \<not> (method = ''POST'' \<and> length pieces = 5 \<and> pieces ! 2 = ''qemu'' \<and> pieces ! 4 = ''migrate''
          \<and> py_isdigit (pieces ! 3)) then Inr False
      else ebind (int_of_text (pieces ! 3)) (\<lambda>vmid. eand (in_scope scope ''vmids'' (PInt vmid))
        (case data of
           PDict d \<Rightarrow> eand (in_scope scope ''nodes'' (dget d ''target''))
             (ebind (ditem d ''target'') (\<lambda>target.
               Inr (\<not> py_eq target (PStr (pieces ! 1)) \<and> py_eq data (PDict (migrate_body target))
                 \<and> list_all (\<lambda>k. plain_int (dget d k)) [''online'', ''with-local-disks'', ''force''])))
         | _ \<Rightarrow> Inr False)))"

section \<open>Client\<close>

definition location :: "vm_client \<Rightarrow> string \<Rightarrow> int \<Rightarrow> nat \<Rightarrow> string result" where
  "location vc code vmid k =
     ebind (read_or (vc_resources vc k) code 503) (\<lambda>resources.
       case filter (\<lambda>row. py_eq (dget row ''vmid'') (PInt vmid)) resources of
         [row] \<Rightarrow> (case dget row ''node'' of
            PStr node \<Rightarrow> if dget row ''type'' = PStr ''qemu'' then Inr node
                         else Inl (migrate_error ''LOCATION_UNCONFIRMED'' 503)
          | _ \<Rightarrow> Inl (migrate_error ''LOCATION_UNCONFIRMED'' 503))
       | _ \<Rightarrow> Inl (migrate_error ''LOCATION_UNCONFIRMED'' 503))"

definition measured_volume :: "vm_client \<Rightarrow> string \<Rightarrow> string \<Rightarrow> nat \<Rightarrow> pydict \<Rightarrow> pydict result" where
  "measured_volume vc code node_id k volume =
     ebind (read_or (vc_volume vc node_id (py_str (dget volume ''storage_id'')) (volume_text volume) k) code 503) (\<lambda>info.
       case positive_int (dget info ''size'') of
         Some bytes \<Rightarrow>
           if py_eq (dget info ''format'') (dget volume ''format'')
              \<and> dget volume ''configured_size_bytes'' \<in> {PNone, PInt bytes}
           then Inr (dset ''size_bytes'' (PInt bytes) volume) else Inl (migrate_error ''VOLUME_UNCONFIRMED'' 503)
       | None \<Rightarrow> Inl (migrate_error ''VOLUME_UNCONFIRMED'' 503))"

definition migrate_vm :: "sha \<Rightarrow> vm_client \<Rightarrow> string \<Rightarrow> string \<Rightarrow> int \<Rightarrow> nat \<Rightarrow> pydict result" where
  "migrate_vm sha vc code node_id vmid k =
     (case (vc_config vc node_id vmid k, vc_status vc node_id vmid k, vc_pending vc node_id vmid k,
            vc_snapshots vc node_id vmid k) of
        (Some config, Some status, Some pending, Some snapshots) \<Rightarrow>
          ebind (migrate_identity sha config status pending snapshots vmid) (\<lambda>vm.
          ebind (row_list vm ''volumes'') (\<lambda>volumes.
          ebind (emap (measured_volume vc code node_id k) volumes) (\<lambda>measured.
            Inr (dset ''volumes'' (PList (map PDict measured)) vm))))
      | _ \<Rightarrow> Inl (FeatureError code 503))"

definition text_value :: "pyval \<Rightarrow> string option" where
  "text_value v = (case v of PStr s \<Rightarrow> if s = [] then None else Some s | _ \<Rightarrow> None)"

definition cpu_model :: "pydict \<Rightarrow> pyval result" where
  "cpu_model status = (case dget_or status ''cpuinfo'' (PDict []) of
       PDict info \<Rightarrow> Inr (dget info ''model'') | _ \<Rightarrow> Inl (PyError AttributeError))"

definition node_version :: "pydict \<Rightarrow> (string \<times> string) result" where
  "node_version status =
     ebind (cpu_model status) (\<lambda>model. case (dget status ''pveversion'', text_value model) of
         (PStr version, Some m) \<Rightarrow>
           if starts_with ''pve-manager/9.'' version then Inr (version, m) else Inl (migrate_error ''NODE_UNCONFIRMED'' 503)
       | _ \<Rightarrow> Inl (migrate_error ''NODE_UNCONFIRMED'' 503))"

definition shared_storage :: "pydict list \<Rightarrow> string \<Rightarrow> pyval result" where
  "shared_storage stores storage_id =
     (case filter (\<lambda>row. py_eq (dget row ''storage'') (PStr storage_id)) stores of
        [row] \<Rightarrow> if images_storage (Some row) \<and> one (dget row ''shared'') then Inr (PStr storage_id)
                 else Inl (migrate_error ''STORAGE_UNSUPPORTED'' 409)
      | _ \<Rightarrow> Inl (migrate_error ''STORAGE_UNSUPPORTED'' 409))"

text \<open>The single active bridge of a node without pending network changes.\<close>

definition active_bridge :: "error \<Rightarrow> pydict \<Rightarrow> string \<Rightarrow> pydict result" where
  "active_bridge e network bridge =
     ebind (row_list network ''interfaces'') (\<lambda>interfaces. ebind (ditem network ''pending_changes'') (\<lambda>changes.
       case filter (\<lambda>row. py_eq (dget row ''iface'') (PStr bridge)) interfaces of
         [row] \<Rightarrow> if truthy changes \<or> dget row ''type'' \<noteq> PStr ''bridge'' \<or> \<not> one (dget row ''active'') then Inl e
                  else Inr row
       | _ \<Rightarrow> Inl e))"

definition vm_storages :: "pydict \<Rightarrow> string list result" where
  "vm_storages vm = ebind (row_list vm ''volumes'') (\<lambda>volumes.
     Inr (sort (remdups (map (\<lambda>r. py_str (dget r ''storage_id'')) volumes))))"

definition vm_bridge :: "pydict \<Rightarrow> string result" where
  "vm_bridge vm = ebind (inner vm ''nic'') (\<lambda>nic. ebind (ditem nic ''bridge'') (\<lambda>b. Inr (py_str b)))"

definition environment :: "sha \<Rightarrow> vm_client \<Rightarrow> string \<Rightarrow> string \<Rightarrow> pydict \<Rightarrow> nat \<Rightarrow> pydict result" where
  "environment sha vc code node_id vm k =
     ebind (read_or (vc_task_audit vc node_id k) code 503) (\<lambda>audit.
     ebind (raise_if (\<not> audit) (migrate_error ''PERMISSION_DENIED'' 403)) (\<lambda>_.
     ebind (read_or (vc_node_status vc node_id k) code 503) (\<lambda>status.
     ebind (node_version status) (\<lambda>(version, model).
     ebind (read_or (vc_storages vc node_id k) code 503) (\<lambda>stores.
     ebind (vm_storages vm) (\<lambda>ids.
     ebind (emap (shared_storage stores) ids) (\<lambda>shared.
     ebind (read_or (vc_network vc node_id k) code 503) (\<lambda>network.
     ebind (vm_bridge vm) (\<lambda>bridge.
     ebind (active_bridge (migrate_error ''BRIDGE_UNAVAILABLE'' 409) network bridge) (\<lambda>row.
       Inr [(''node_id'', PStr node_id), (''pve_version'', PStr version), (''cpu_model'', PStr model),
            (''shared_storages'', PList shared), (''bridge_id'', PStr bridge),
            (''bridge_fingerprint'', PStr (operation_digest sha row))]))))))))))"

definition node_online :: "pydict list \<Rightarrow> string \<Rightarrow> unit result" where
  "node_online nodes node =
     (case filter (\<lambda>row. py_eq (dget row ''node'') (PStr node)) nodes of
        [row] \<Rightarrow> raise_if (dget row ''status'' \<noteq> PStr ''online'') (migrate_error ''NODE_UNAVAILABLE'' 409)
      | _ \<Rightarrow> Inl (migrate_error ''NODE_UNAVAILABLE'' 409))"

definition storage_audited :: "vm_client \<Rightarrow> nat \<Rightarrow> string \<Rightarrow> unit result" where
  "storage_audited vc k storage =
     require_privileges (vc_storage_permissions vc storage k) [''Datastore.Audit'']
       ''VM_MIGRATE_OBSERVATION_UNAVAILABLE'' ''VM_MIGRATE_PERMISSION_DENIED''"

definition visible_volume :: "vm_client \<Rightarrow> string \<Rightarrow> nat \<Rightarrow> pydict \<Rightarrow> unit result" where
  "visible_volume vc destination k volume =
     ebind (read_or (vc_volume vc destination (py_str (dget volume ''storage_id'')) (volume_text volume) k)
        ''VM_MIGRATE_OBSERVATION_UNAVAILABLE'' 503) (\<lambda>actual.
       raise_if (\<not> py_eq (dget actual ''size'') (dget volume ''size_bytes'')
           \<or> \<not> py_eq (dget actual ''format'') (dget volume ''format''))
         (migrate_error ''SHARED_VOLUME_UNCONFIRMED'' 409))"

definition compatible :: "pydict \<Rightarrow> pydict \<Rightarrow> unit result" where
  "compatible original destination =
     raise_if (list_ex (\<lambda>k. \<not> py_eq (dget original k) (dget destination k))
       [''pve_version'', ''cpu_model'', ''shared_storages'', ''bridge_id'']) (migrate_error ''NODE_INCOMPATIBLE'' 409)"

definition migrate_access :: "vm_client \<Rightarrow> string \<Rightarrow> int \<Rightarrow> string \<Rightarrow> nat \<Rightarrow> unit result" where
  "migrate_access vc node_id vmid destination k =
     (let code = ''VM_MIGRATE_OBSERVATION_UNAVAILABLE'' in
      ebind (require_privileges (vc_vm_permissions vc vmid k) [''VM.Audit'', ''VM.Migrate'', ''VM.Config.Disk'']
         code ''VM_MIGRATE_PERMISSION_DENIED'') (\<lambda>_.
      ebind (location vc code vmid k) (\<lambda>node.
      ebind (raise_if (node \<noteq> node_id) (migrate_error ''LOCATION_CHANGED'' 409)) (\<lambda>_.
      ebind (read_or (vc_nodes vc k) code 503) (\<lambda>nodes.
      ebind (node_online nodes node_id) (\<lambda>_. node_online nodes destination))))))"

definition migrate_manifest :: "sha \<Rightarrow> vm_client \<Rightarrow> string \<Rightarrow> int \<Rightarrow> string \<Rightarrow> nat \<Rightarrow> pydict result" where
  "migrate_manifest sha vc node_id vmid destination k =
     (let code = ''VM_MIGRATE_OBSERVATION_UNAVAILABLE'' in
      ebind (migrate_vm sha vc code node_id vmid k) (\<lambda>vm.
      ebind (vm_storages vm) (\<lambda>ids. ebind (emap (storage_audited vc k) ids) (\<lambda>_.
      ebind (vm_bridge vm) (\<lambda>bridge.
      ebind (require_privileges (vc_bridge_permissions vc bridge k) [''SDN.Use''] code ''VM_MIGRATE_PERMISSION_DENIED'') (\<lambda>_.
      ebind (environment sha vc code node_id vm k) (\<lambda>original.
      ebind (environment sha vc code destination vm k) (\<lambda>target.
      ebind (compatible original target) (\<lambda>_.
      ebind (row_list vm ''volumes'') (\<lambda>volumes. ebind (emap (visible_volume vc destination k) volumes) (\<lambda>_.
      ebind (read_or (vc_preconditions vc node_id vmid destination k) code 503) (\<lambda>v.
      ebind (check_preconditions v destination) (\<lambda>precondition.
      ebind (ditem vm ''name'') (\<lambda>name.
        Inr [(''node_id'', PStr node_id), (''vmid'', PInt vmid), (''name'', name), (''vm'', PDict vm),
             (''source_node'', PDict original), (''destination'', PDict target),
             (''preconditions'', PDict precondition)]))))))))))))))"

definition migrate_client_review :: "sha \<Rightarrow> vm_client \<Rightarrow> string \<Rightarrow> int \<Rightarrow> string \<Rightarrow> nat \<Rightarrow> pydict result" where
  "migrate_client_review sha vc node_id vmid destination k =
     ebind (migrate_validate_target node_id vmid destination) (\<lambda>_.
     ebind (migrate_access vc node_id vmid destination k) (\<lambda>_.
     ebind (migrate_manifest sha vc node_id vmid destination k) (\<lambda>m.
       Inr (m @ [(''review_digest'', PStr (operation_digest sha m))]))))"

definition migrate_reference :: "string \<Rightarrow> int \<Rightarrow> pyval \<Rightarrow> string result" where
  "migrate_reference = task_reference ''VM_MIGRATE_TASK_UNKNOWN'' ''qmigrate''"

definition migrate_apply :: "vm_client \<Rightarrow> string \<Rightarrow> int \<Rightarrow> change_request \<Rightarrow> operation_snapshot \<Rightarrow> nat \<Rightarrow> string result" where
  "migrate_apply vc node_id vmid rq operation k =
     ebind (read_or (vc_migrate vc node_id vmid (attr rq ''destination_node'') k) ''VM_MIGRATE_DISPATCH_UNKNOWN'' 503)
       (migrate_reference node_id vmid)"

definition migrate_observe :: "sha \<Rightarrow> vm_client \<Rightarrow> int \<Rightarrow> string \<Rightarrow> nat \<Rightarrow> pydict result" where
  "migrate_observe sha vc vmid destination k =
     (let code = ''VM_MIGRATE_RESULT_UNAVAILABLE'' in
      ebind (location vc code vmid k) (\<lambda>node.
      ebind (raise_if (node \<noteq> destination) (migrate_error ''LOCATION_UNCONFIRMED'' 503)) (\<lambda>_.
      ebind (migrate_vm sha vc code destination vmid k) (\<lambda>vm.
      ebind (environment sha vc code destination vm k) (\<lambda>env.
        Inr [(''node_id'', PStr node), (''vm'', PDict vm), (''destination'', PDict env),
             (''source_location_absent'', PBool True), (''boot_verified'', PBool False)])))))"

section \<open>Service\<close>

definition migrate_review :: "sha \<Rightarrow> vm_client \<Rightarrow> string \<Rightarrow> int \<Rightarrow> change_request \<Rightarrow> nat \<Rightarrow> pydict result" where
  "migrate_review sha vc node_id vmid rq k =
     migrate_client_review sha vc node_id vmid (py_str (attr rq ''destination_node'')) k"

definition migrate_extra_details :: "string \<Rightarrow> int \<Rightarrow> change_request \<Rightarrow> pydict" where
  "migrate_extra_details node_id vmid rq =
     [(''destination'', PDict [(''node_id'', attr rq ''destination_node''), (''vmid'', PInt vmid)])]"

definition migrate_observe_result :: "sha \<Rightarrow> vm_client \<Rightarrow> operation_snapshot \<Rightarrow> nat \<Rightarrow> pydict result" where
  "migrate_observe_result sha vc operation k =
     ebind (ebind (ditem (sn_details operation) ''target'') (\<lambda>t. dict_item t ''vmid'')) (\<lambda>vmid.
     ebind (ebind (ditem (sn_details operation) ''requested'') (\<lambda>r. dict_item r ''destination_node'')) (\<lambda>destination.
       at_target (\<lambda>node vmid. migrate_observe sha vc vmid node) destination vmid k))"

text \<open>The check that \<open>verify\<close> puts in front: the recorded reference is of this node and VM.\<close>

definition recorded_reference :: "(string \<Rightarrow> int \<Rightarrow> pyval \<Rightarrow> string result) \<Rightarrow> operation_snapshot \<Rightarrow> unit result" where
  "recorded_reference f operation =
     ebind (ditem (sn_details operation) ''target'') (\<lambda>target.
     ebind (dict_item target ''node_id'') (\<lambda>node. ebind (dict_item target ''vmid'') (\<lambda>vmid.
       at_target (\<lambda>n i k. ebind (f n i (dget (sn_details operation) ''proxmox_upid'')) (\<lambda>_. Inr ())) node vmid 0)))"

definition migrate_matches :: "pydict \<Rightarrow> pyval \<Rightarrow> pyval \<Rightarrow> bool result" where
  "migrate_matches after requested before = (case (requested, before) of
       (PDict r, PDict b) \<Rightarrow>
         ebind (inner b ''vm'') (\<lambda>original. ebind (inner after ''vm'') (\<lambda>observed.
           eall [same_item after ''node_id'' r ''destination_node'',
             ebind (ditem after ''source_location_absent'') (\<lambda>v. Inr (v = PBool True)),
             Inr (py_eq (PDict (dpop ''digest'' observed)) (PDict (dpop ''digest'' original))),
             same_item after ''destination'' b ''destination'']))
     | _ \<Rightarrow> Inl (PyError TypeError))"

definition migrate_service :: "sha \<Rightarrow> vm_client \<Rightarrow> (nat \<Rightarrow> nat) \<Rightarrow> string \<Rightarrow> task_service" where
  "migrate_service sha vc polls cluster_id =
     \<lparr>ts_operation_type = ''vm_migrate'', ts_operation_prefix = ''vm-migrate-'', ts_event_prefix = ''migrate_'',
      ts_error_prefix = ''VM_MIGRATE_'', ts_recovery_kind = ''vm_migrate_observation'', ts_cluster_id = cluster_id,
      ts_target = change_target, ts_extra_details = migrate_extra_details, ts_review = migrate_review sha vc,
      ts_check_expected = migrate_check_expected, ts_lock_vmids = (\<lambda>vmid _. (vmid, [])),
      ts_dispatch = migrate_apply vc, ts_polls = polls,
      ts_task = task_observation vc ''VM_MIGRATE_TASK_UNAVAILABLE'',
      ts_observe_result = migrate_observe_result sha vc, ts_matches = migrate_matches,
      ts_check_reference = recorded_reference migrate_reference\<rparr>"

section \<open>What the checks guarantee\<close>

text \<open>The review accepts only a VM that the cluster index shows once, on the source node.\<close>

lemma location_Inr:
  assumes "location vc code vmid k = Inr node"
  shows "\<exists>rows row. vc_resources vc k = Some rows \<and> filter (\<lambda>r. py_eq (dget r ''vmid'') (PInt vmid)) rows = [row] \<and>
      dget row ''node'' = PStr node \<and> dget row ''type'' = PStr ''qemu''"
  using assms by (auto simp: location_def read_or_def split: option.splits list.splits pyval.splits if_splits)

lemma migrate_observe_located:
  assumes "migrate_observe sha vc vmid destination k = Inr after"
  shows "dget after ''node_id'' = PStr destination"
    "\<exists>rows row. vc_resources vc k = Some rows \<and> filter (\<lambda>r. py_eq (dget r ''vmid'') (PInt vmid)) rows = [row] \<and>
      dget row ''node'' = PStr destination"
  using assms by (auto simp: migrate_observe_def Let_def dget_Cons dest!: location_Inr)

lemma migrate_review_moves:
  assumes "migrate_client_review sha vc node vmid destination k = Inr before"
  shows "node \<noteq> destination" "\<exists>code. location vc code vmid k = Inr node"
    "\<exists>v. vc_preconditions vc node vmid destination k = Some v \<and> preconditions_ok v destination"
  using assms
  by (auto simp: migrate_client_review_def migrate_validate_target_def migrate_access_def migrate_manifest_def Let_def
      check_preconditions_def read_or_def split: option.splits)

definition migrate_achieved :: "pydict \<Rightarrow> pyval \<Rightarrow> bool" where
  "migrate_achieved after requested \<longleftrightarrow> (\<exists>r. requested = PDict r \<and>
     py_eq (dget after ''node_id'') (dget r ''destination_node'') \<and> dget after ''source_location_absent'' = PBool True)"

lemma migrate_matches_achieved: "migrate_matches after requested before = Inr True \<Longrightarrow> migrate_achieved after requested"
  by (auto simp: migrate_matches_def migrate_achieved_def split: pyval.splits dest!: ditem_dget same_item_True)

lemma migrate_matches_same:
  assumes "migrate_matches after requested (PDict b) = Inr True"
  shows "\<exists>original observed. dget b ''vm'' = PDict original \<and> dget after ''vm'' = PDict observed \<and>
    py_eq (PDict (dpop ''digest'' observed)) (PDict (dpop ''digest'' original))"
  using assms by (auto simp: migrate_matches_def split: pyval.splits dest!: ditem_dget)

lemma migrate_dispatch_bound: "migrate_apply vc node vmid rq sn k = Inr upid \<Longrightarrow> bound_task ''qmigrate'' node vmid upid"
  by (auto simp: migrate_apply_def migrate_reference_def bound_task_def task_reference_Inr)

interpretation migrate: task_feature "migrate_service sha vc polls cluster" migrate_achieved "bound_task ''qmigrate''"
  for sha vc polls cluster
  by unfold_locales (auto simp: migrate_service_def intro: migrate_matches_achieved migrate_dispatch_bound)

text \<open>What the transport lets through moves a VM of the scope to another node of the scope, offline.\<close>

lemma in_scope_True: "in_scope scope k v = Inr True \<Longrightarrow> \<exists>xs. dget scope k = PList xs \<and> in_values v xs"
  by (auto simp: in_scope_def split: pyval.splits dest!: ditem_dget)

lemma py_eq_PStr: "py_eq v (PStr s) \<longleftrightarrow> v = PStr s"
  by (cases v) (auto simp: as_num_def)

lemma py_eq_zero: "plain_int v \<Longrightarrow> py_eq v (PInt 0) \<longleftrightarrow> v = PInt 0"
  by (cases v) (auto simp: as_num_def plain_int_def)

lemma in_scope_texts: "ditem scope k = Inr (PList (map PStr ns)) \<Longrightarrow> in_scope scope k v = Inr True \<longleftrightarrow> (\<exists>n \<in> set ns. v = PStr n)"
  by (simp add: in_scope_def in_values_def list_ex_iff py_eq_PStr)

lemma in_scope_numbers: "ditem scope k = Inr (PList (map PInt is)) \<Longrightarrow> in_scope scope k (PInt i) = Inr True \<longleftrightarrow> i \<in> set is"
  by (auto simp: in_scope_def in_values_def list_ex_iff as_num_def)

lemma body_keys: "dict_keys (migrate_body t) = [''target'', ''online'', ''with-local-disks'', ''force'']"
  by (simp add: migrate_body_def dict_keys_def)

text \<open>A dict that equals the body, with integer flags, is the body in some order of its keys.\<close>

lemma body_equal:
  assumes "distinct (dict_keys d)"
  shows "py_eq (PDict d) (PDict (migrate_body (PStr n))) \<and> dget d ''target'' = PStr n \<and>
      list_all (\<lambda>k. plain_int (dget d k)) [''online'', ''with-local-disks'', ''force'']
    \<longleftrightarrow> map_of d = map_of (migrate_body (PStr n))" (is "?l \<longleftrightarrow> ?r")
proof
  assume l: ?l
  have items: "\<exists>u. map_of (migrate_body (PStr n)) k = Some u \<and> py_eq v u" if "(k, v) \<in> set d" for k v
    using l that by (auto simp: list_all_iff split: option.splits)
  have len: "length d = 4" using l by (simp add: migrate_body_def)
  have sub: "set (dict_keys d) \<subseteq> set (dict_keys (migrate_body (PStr n)))"
    using items by (force simp: dict_keys_def dest: map_of_SomeD)
  have "card (set (dict_keys d)) = 4" using distinct_card [OF assms] len by (simp add: dict_keys_def)
  moreover have "card (set (dict_keys (migrate_body (PStr n)))) = 4" unfolding body_keys by code_simp
  ultimately have keys: "set (dict_keys d) = set (dict_keys (migrate_body (PStr n)))"
    by (intro card_subset_eq sub) simp_all
  have look: "map_of d k = Some v \<longleftrightarrow> (k, v) \<in> set d" for k v
    using assms by (simp add: map_of_eq_Some_iff dict_keys_def)
  show ?r
  proof
    fix k
    show "map_of d k = map_of (migrate_body (PStr n)) k"
    proof (cases "map_of d k")
      case None
      then have "k \<notin> set (dict_keys d)" by (simp add: map_of_eq_None_iff dict_keys_def)
      then have "k \<notin> fst ` set (migrate_body (PStr n))" unfolding keys by (simp add: dict_keys_def)
      then have "map_of (migrate_body (PStr n)) k = None" by (rule map_of_eq_None_iff [THEN iffD2])
      with None show ?thesis by simp
    next
      case (Some v)
      with look items obtain u where u: "map_of (migrate_body (PStr n)) k = Some u" "py_eq v u" by blast
      have v: "dget d k = v" using Some by (simp add: dget_def)
      show ?thesis using l u v Some by (auto simp: migrate_body_def py_eq_PStr py_eq_zero split: if_splits)
    qed
  qed
next
  assume r: ?r
  have keys: "set (dict_keys d) = {''target'', ''online'', ''with-local-disks'', ''force''}"
    using arg_cong [OF r, of dom] arg_cong [OF body_keys [of "PStr n"], of set] by (simp add: dom_map_of_conv_image_fst dict_keys_def)
  have "length d = card (set (dict_keys d))" using distinct_card [OF assms] by (simp add: dict_keys_def)
  then have len: "length d = 4" by (simp add: keys)
  have "case map_of (migrate_body (PStr n)) k of None \<Rightarrow> False | Some u \<Rightarrow> py_eq v u" if "(k, v) \<in> set d" for k v
  proof -
    have "map_of (migrate_body (PStr n)) k = Some v" using that assms r by (simp add: dict_keys_def flip: r)
    then show ?thesis by (auto simp: migrate_body_def as_num_def split: if_splits)
  qed
  then show ?l using len by (simp add: list_all_iff case_prod_beta dget_def r) (auto simp: migrate_body_def plain_int_def)
qed

lemma migrate_policy:
  assumes "\<forall>d. data = PDict d \<longrightarrow> distinct (dict_keys d)"
    and "ditem scope ''nodes'' = Inr (PList (map PStr nodes))" "ditem scope ''vmids'' = Inr (PList (map PInt vmids))"
  shows "migrate_request_allowed method pieces data scope = Inr True \<longleftrightarrow>
    method = ''POST'' \<and> length pieces = 5 \<and> pieces ! 2 = ''qemu'' \<and> pieces ! 4 = ''migrate'' \<and> py_isdigit (pieces ! 3) \<and>
    (\<exists>vmid \<in> set vmids. int_of_text (pieces ! 3) = Inr vmid) \<and>
    (\<exists>d. \<exists>n \<in> set nodes. data = PDict d \<and> n \<noteq> pieces ! 1 \<and> map_of d = map_of (migrate_body (PStr n)))"
    (is "_ = ?r")
proof
  assume a: "migrate_request_allowed method pieces data scope = Inr True"
  then obtain d vmid where d: "data = PDict d" "int_of_text (pieces ! 3) = Inr vmid" "in_scope scope ''vmids'' (PInt vmid) = Inr True"
    "in_scope scope ''nodes'' (dget d ''target'') = Inr True" "\<not> py_eq (dget d ''target'') (PStr (pieces ! 1))"
    "py_eq (PDict d) (PDict (migrate_body (dget d ''target'')))"
    "list_all (\<lambda>k. plain_int (dget d k)) [''online'', ''with-local-disks'', ''force'']"
    and m: "method = ''POST'' \<and> length pieces = 5 \<and> pieces ! 2 = ''qemu'' \<and> pieces ! 4 = ''migrate'' \<and> py_isdigit (pieces ! 3)"
    by (auto simp: migrate_request_allowed_def split: if_splits pyval.splits dest!: ditem_dget)
  from d(4) obtain n where n: "n \<in> set nodes" "dget d ''target'' = PStr n" by (auto simp: in_scope_texts [OF assms(2)])
  with d body_equal [of d n] assms(1) have "map_of d = map_of (migrate_body (PStr n))" by simp
  moreover have "n \<noteq> pieces ! 1" using d(5) n(2) by (auto simp: py_eq_PStr)
  moreover have "vmid \<in> set vmids" using d(3) by (simp add: in_scope_numbers [OF assms(3)])
  ultimately show ?r using m d(1,2) n(1) by blast
next
  assume ?r
  then obtain d n vmid where m: "method = ''POST'' \<and> length pieces = 5 \<and> pieces ! 2 = ''qemu'' \<and> pieces ! 4 = ''migrate'' \<and> py_isdigit (pieces ! 3)"
    and v: "vmid \<in> set vmids" "int_of_text (pieces ! 3) = Inr vmid"
    and d: "n \<in> set nodes" "data = PDict d" "n \<noteq> pieces ! 1" "map_of d = map_of (migrate_body (PStr n))" by blast
  from body_equal [of d n] assms(1) d(2,4) have body: "py_eq (PDict d) (PDict (migrate_body (PStr n)))"
    "dget d ''target'' = PStr n" "list_all (\<lambda>k. plain_int (dget d k)) [''online'', ''with-local-disks'', ''force'']" by simp_all
  have "ditem d ''target'' = Inr (PStr n)" by (simp add: ditem_def d(4) migrate_body_def)
  moreover have "in_scope scope ''vmids'' (PInt vmid) = Inr True" using v(1) by (simp add: in_scope_numbers [OF assms(3)])
  moreover have "in_scope scope ''nodes'' (PStr n) = Inr True" using d(1) by (simp add: in_scope_texts [OF assms(2)])
  ultimately show "migrate_request_allowed method pieces data scope = Inr True"
    using m v(2) body d(2,3) unfolding migrate_request_allowed_def by (simp add: py_eq_PStr)
qed

end
