(* ===== verification/Backups.thy ===== *)
theory Backups
  imports VmMigrate
begin

text \<open>
  Backup files and their contract: \<open>app/backups/domain.py\<close> (targets, the archive list, the source
  VM, storages), \<open>contracts.py\<close> (request bodies and the transport policy for them) and \<open>archive.py\<close>
  (the configuration inside a backup file).
\<close>

section \<open>Names\<close>

abbreviation backup_error :: "string \<Rightarrow> nat \<Rightarrow> error" where
  "backup_error code status \<equiv> FeatureError code status"

definition digits :: "nat \<Rightarrow> rx" where
  "digits n = times n (Cls is_digit)"

definition STAMP :: rx where
  "STAMP = cats [digits 4, lit CHR ''_'', digits 2, lit CHR ''_'', digits 2, lit CHR ''-'', digits 2, lit CHR ''_'',
     digits 2, lit CHR ''_'', digits 2]"

definition ARCHIVE :: rx where
  "ARCHIVE = cats [Grp IDENTIFIER, word_rx '':backup/vzdump-qemu-'',
     Grp (cats [Cls (\<lambda>c. is_digit c \<and> c \<noteq> CHR ''0''), digits 2, upto_times 6 (Cls is_digit)]), lit CHR ''-'', Grp STAMP,
     word_rx ''.vma'', opt (Cat (lit CHR ''.'') (Grp (alts [word_rx ''zst'', word_rx ''gz'', word_rx ''lzo''])))]"

definition marker_rx :: "string \<Rightarrow> rx" where
  "marker_rx prefix = Cat (word_rx prefix) (times 64 (Cls is_lower_hex))"

definition OPERATION :: rx where
  "OPERATION = marker_rx ''vm-backup-''"

text \<open>The four groups of an archive name; the last is empty without a compression suffix.\<close>

definition archive_parts :: "string \<Rightarrow> (string \<times> int \<times> string \<times> string) option" where
  "archive_parts volume = (case fullmatch ARCHIVE volume of
       Some [storage, owner, stamp, suffix] \<Rightarrow> Some (storage, int (nat_of_digits owner), stamp, suffix)
     | Some [storage, owner, stamp] \<Rightarrow> Some (storage, int (nat_of_digits owner), stamp, [])
     | _ \<Rightarrow> None)"

text \<open>\<open>datetime.strptime(text, "%Y_%m_%d-%H_%M_%S")\<close> for a text of the pattern \<open>STAMP\<close>.\<close>

definition leap_year :: "nat \<Rightarrow> bool" where
  "leap_year y = (y mod 4 = 0 \<and> (y mod 100 \<noteq> 0 \<or> y mod 400 = 0))"

definition month_days :: "nat \<Rightarrow> nat \<Rightarrow> nat" where
  "month_days y m = (if m = 2 then (if leap_year y then 29 else 28) else if m \<in> {4, 6, 9, 11} then 30 else 31)"

definition valid_stamp :: "string \<Rightarrow> bool" where
  "valid_stamp t = (let num = (\<lambda>i n. nat_of_digits (take n (drop i t)));
       y = num 0 4; m = num 5 2; d = num 8 2
     in 1 \<le> y \<and> 1 \<le> m \<and> m \<le> 12 \<and> 1 \<le> d \<and> d \<le> month_days y m \<and> num 11 2 \<le> 23 \<and> num 14 2 \<le> 59 \<and> num 17 2 \<le> 59)"

section \<open>The backup list\<close>

definition backup_target :: "string \<Rightarrow> int \<Rightarrow> string \<Rightarrow> unit result" where
  "backup_target node_id vmid storage =
     raise_if (\<not> valid_target node_id vmid \<or> \<not> is_id storage) (backup_error ''VM_BACKUP_TARGET_INVALID'' 422)"

definition matching_marker :: "rx \<Rightarrow> pyval \<Rightarrow> pyval" where
  "matching_marker r v = (case exact_text r v of Some s \<Rightarrow> PStr s | None \<Rightarrow> PNone)"

definition archive_row :: "string \<Rightarrow> int \<Rightarrow> pydict \<Rightarrow> pydict option" where
  "archive_row storage vmid row =
     (case (dget row ''volid'', positive_int (dget row ''size''), positive_int (dget row ''ctime'')) of
        (PStr volume, Some bytes, Some created) \<Rightarrow>
          (case archive_parts volume of
             Some (st, owner, stamp, suffix) \<Rightarrow>
               if st = storage \<and> owner = vmid \<and> dget row ''vmid'' = PInt vmid \<and> dget row ''content'' = PStr ''backup''
                  \<and> valid_stamp stamp
               then Some [(''volume_id'', PStr volume), (''vmid'', PInt vmid), (''storage_id'', PStr storage),
                 (''size_bytes'', PInt bytes), (''created_at'', PInt created),
                 (''format'', PStr (''vma'' @ (if suffix = [] then [] else CHR ''.'' # suffix))),
                 (''operation_marker'', matching_marker OPERATION (dget row ''notes''))]
               else None
           | None \<Rightarrow> None)
      | _ \<Rightarrow> None)"

definition created_key :: "pydict \<Rightarrow> int \<times> string" where
  "created_key row = (case dget row ''created_at'' of PInt i \<Rightarrow> (i, volume_text row) | _ \<Rightarrow> (0, volume_text row))"

definition archives :: "pydict list \<Rightarrow> string \<Rightarrow> int \<Rightarrow> pydict list result" where
  "archives rows storage vmid =
     ebind (raise_if (10000 < length rows) (backup_error ''VM_BACKUP_LIST_UNAVAILABLE'' 503)) (\<lambda>_.
       case all_some (map (archive_row storage vmid) rows) of
         None \<Rightarrow> Inl (backup_error ''VM_BACKUP_LIST_UNCONFIRMED'' 503)
       | Some found \<Rightarrow>
           ebind (raise_if (\<not> distinct (map volume_text found)) (backup_error ''VM_BACKUP_LIST_UNCONFIRMED'' 503)) (\<lambda>_.
             Inr (rev (sort_key created_key found))))"

section \<open>The source VM\<close>

definition source_volume :: "pydict \<Rightarrow> int \<Rightarrow> string \<Rightarrow> (pydict \<times> int option) result" where
  "source_volume config vmid slot =
     (let root = (slot = ''scsi0''); e = backup_error ''VM_BACKUP_DISK_UNSUPPORTED'' 409 in
      ebind (drive e (dget config slot)) (\<lambda>(volume, opts).
      ebind (own_volume e ''vm'' vmid (if root then DISK_SUFFIX else CLOUDINIT_SUFFIX) volume) (\<lambda>(storage, form).
      ebind (raise_if (text_or opts ''shared'' ''0'' \<noteq> ''0'' \<or> text_or opts ''backup'' ''1'' \<noteq> ''1''
          \<or> root \<and> map_of opts ''media'' = Some ''cdrom'' \<or> \<not> root \<and> map_of opts ''media'' \<noteq> Some ''cdrom'') e) (\<lambda>_.
        if \<not> root then Inr (volume_dict slot volume storage form, None)
        else case whole_size (text_or opts ''size'' []) of
          None \<Rightarrow> Inl (backup_error ''VM_BACKUP_SIZE_UNAVAILABLE'' 409)
        | Some bytes \<Rightarrow> Inr (volume_dict slot volume storage form, Some bytes)))))"

text \<open>The virtual size and a tenth of it, at least one GiB, must be free.\<close>

definition required_free :: "int \<Rightarrow> int" where
  "required_free bytes = bytes + max GIB (bytes div 10)"

definition source_identity :: "sha \<Rightarrow> pydict \<Rightarrow> int \<Rightarrow> string \<Rightarrow> string \<Rightarrow> pydict result" where
  "source_identity sha config vmid digest name =
     ebind (source_volume config vmid ''scsi0'') (\<lambda>(root, bytes).
     ebind (source_volume config vmid ''ide2'') (\<lambda>(cloud, _).
       Inr [(''vmid'', PInt vmid), (''name'', PStr name), (''status'', PStr ''stopped''), (''digest'', PStr digest),
            (''volumes'', PList [PDict root, PDict cloud]),
            (''config_fingerprint'', PStr (operation_digest sha (dpop ''digest'' config))),
            (''required_free_bytes'', PInt (required_free (case bytes of None \<Rightarrow> 0 | Some n \<Rightarrow> n)))]))"

definition backup_source :: "sha \<Rightarrow> pydict \<Rightarrow> pydict \<Rightarrow> pydict list \<Rightarrow> pydict list \<Rightarrow> int \<Rightarrow> pydict result" where
  "backup_source sha config status pending snapshots vmid =
     ebind (raise_if (\<not> is_stopped status \<or> template_or_locked config) (backup_error ''VM_BACKUP_NOT_STOPPED'' 409)) (\<lambda>_.
     ebind (raise_if (has_pending pending \<or> \<not> only_current snapshots)
        (backup_error ''VM_BACKUP_PENDING_OR_SNAPSHOTS'' 409)) (\<lambda>_.
     ebind (raise_if (has_foreign_device config \<or> set (disk_slots config) \<noteq> {''scsi0'', ''ide2''})
        (backup_error ''VM_BACKUP_CONFIG_UNSUPPORTED'' 409)) (\<lambda>_.
       case (config_digest (dget config ''digest''), vm_name 255 (dget config ''name'')) of
         (Some digest, Some name) \<Rightarrow> source_identity sha config vmid digest name
       | _ \<Rightarrow> Inl (backup_error ''VM_BACKUP_IDENTITY_UNAVAILABLE'' 503))))"

definition storage_with :: "string \<Rightarrow> pydict \<Rightarrow> bool" where
  "storage_with content row = (dget row ''type'' = PStr ''nfs'' \<and> one (dget row ''active'') \<and> one (dget row ''enabled'')
     \<and> content \<in> set (py_split CHR '','' (py_str (dget_or row ''content'' (PStr [])))))"

definition storage_available :: "pydict list \<Rightarrow> pyval \<Rightarrow> string \<Rightarrow> pydict result" where
  "storage_available rows storage content =
     (case filter (\<lambda>row. py_eq (dget row ''storage'') storage) rows of
        [row] \<Rightarrow> if storage_with content row then Inr row else Inl (backup_error ''VM_BACKUP_STORAGE_UNSUPPORTED'' 409)
      | _ \<Rightarrow> Inl (backup_error ''VM_BACKUP_STORAGE_UNSUPPORTED'' 409))"

section \<open>Request bodies and the transport policy\<close>

definition backup_body :: "int \<Rightarrow> pyval \<Rightarrow> string \<Rightarrow> pydict" where
  "backup_body vmid storage operation_id =
     [(''vmid'', PStr (show_int vmid)), (''storage'', storage), (''mode'', PStr ''snapshot''), (''compress'', PStr ''zstd''),
      (''remove'', PInt 0), (''all'', PInt 0), (''stop'', PInt 0), (''fleecing'', PStr ''enabled=0''), (''lockwait'', PInt 0),
      (''notification-mode'', PStr ''legacy-sendmail''), (''mailto'', PStr []), (''notes-template'', PStr operation_id)]"

text \<open>\<open>value in scope.get(key, [])\<close>\<close>

definition in_scope_or :: "pydict \<Rightarrow> string \<Rightarrow> pyval \<Rightarrow> bool result" where
  "in_scope_or scope k v = (case dget_or scope k (PList []) of
       PList xs \<Rightarrow> Inr (in_values v xs) | _ \<Rightarrow> Inl (PyError TypeError))"

definition scope_texts :: "pydict \<Rightarrow> string \<Rightarrow> string list result" where
  "scope_texts scope k = ebind (ditem scope k) (\<lambda>vs. case vs of
       PList xs \<Rightarrow> Inr (map py_str xs) | _ \<Rightarrow> Inl (PyError TypeError))"

definition backup_request_allowed :: "string \<Rightarrow> string list \<Rightarrow> pyval \<Rightarrow> pydict \<Rightarrow> bool result" where
  "backup_request_allowed method pieces data scope =
     (if \<not> (method = ''POST'' \<and> length pieces = 3 \<and> pieces ! 2 = ''vzdump'') then Inr False
      else case data of
        PDict d \<Rightarrow> (case dget d ''vmid'' of
           PStr vmid \<Rightarrow>
             eand (ebind (scope_texts scope ''vmids'') (\<lambda>ts. Inr (vmid \<in> set ts)))
            (eand (in_scope_or scope ''backup_storages'' (dget d ''storage''))
               (case exact_text OPERATION (dget d ''notes-template'') of
                  None \<Rightarrow> Inr False
                | Some marker \<Rightarrow> ebind (int_of_text vmid) (\<lambda>i.
                    Inr (py_eq data (PDict (backup_body i (dget d ''storage'') marker))
                      \<and> list_all (\<lambda>k. plain_int (dget d k)) [''remove'', ''all'', ''stop'', ''lockwait'']))))
         | _ \<Rightarrow> Inr False)
      | _ \<Rightarrow> Inr False)"

definition restore_body :: "int \<Rightarrow> pyval \<Rightarrow> pyval \<Rightarrow> pyval \<Rightarrow> string \<Rightarrow> string \<Rightarrow> string \<Rightarrow> string \<Rightarrow> pydict" where
  "restore_body new_vmid name archive storage bridge mac firewall operation_id =
     [(''vmid'', PInt new_vmid), (''name'', name), (''archive'', archive), (''storage'', storage),
      (''description'', PStr operation_id),
      (''net0'', PStr (''virtio='' @ mac @ '',bridge='' @ bridge @ '',link_down=1,firewall='' @ firewall)),
      (''force'', PInt 0), (''unique'', PInt 1), (''start'', PInt 0), (''live-restore'', PInt 0), (''onboot'', PInt 0)]"

definition is_upper_hex :: "char \<Rightarrow> bool" where
  "is_upper_hex c = (is_digit c \<or> char_between 65 70 c)"

definition RESTORE_NIC :: rx where
  "RESTORE_NIC = cats [word_rx ''virtio='',
     Grp (cats [word_rx ''02:'', times 4 (Cat (times 2 (Cls is_upper_hex)) (lit CHR '':'')), times 2 (Cls is_upper_hex)]),
     word_rx '',bridge='', Grp IDENTIFIER, word_rx '',link_down=1,firewall='', Grp (Cls (\<lambda>c. c \<in> set ''01''))]"

definition RESTORE_NAME :: rx where
  "RESTORE_NAME = Cat (Cls (\<lambda>c. is_alpha c \<or> is_digit c))
     (upto_times 62 (Cls (\<lambda>c. is_alpha c \<or> is_digit c \<or> c \<in> set ''.-'')))"

definition RESTORE_FLAGS :: pydict where
  "RESTORE_FLAGS = [(''force'', PInt 0), (''unique'', PInt 1), (''start'', PInt 0), (''live-restore'', PInt 0), (''onboot'', PInt 0)]"

definition RESTORE_KEYS :: "string list" where
  "RESTORE_KEYS = [''vmid'', ''name'', ''archive'', ''storage'', ''description'', ''net0''] @ dict_keys RESTORE_FLAGS"

definition archive_of :: "pyval \<Rightarrow> (string \<times> int \<times> string \<times> string) option" where
  "archive_of v = (case v of PStr s \<Rightarrow> archive_parts s | _ \<Rightarrow> None)"

definition restore_nic :: "pyval \<Rightarrow> (string \<times> string) option" where
  "restore_nic v = (case v of
       PStr s \<Rightarrow> (case fullmatch RESTORE_NIC s of Some [mac, bridge, firewall] \<Rightarrow> Some (mac, bridge) | _ \<Rightarrow> None)
     | _ \<Rightarrow> None)"

definition restore_fields_ok :: "pydict \<Rightarrow> bool" where
  "restore_fields_ok d = (exact_text RESTORE_NAME (dget d ''name'') \<noteq> None
     \<and> exact_text (marker_rx ''vm-restore-'') (dget d ''description'') \<noteq> None
     \<and> list_all (\<lambda>(k, v). dget d k = v) RESTORE_FLAGS)"

definition restore_request_allowed :: "string \<Rightarrow> string list \<Rightarrow> pyval \<Rightarrow> pydict \<Rightarrow> bool result" where
  "restore_request_allowed method pieces data scope =
     (case data of
        PDict d \<Rightarrow>
          if \<not> (method = ''POST'' \<and> length pieces = 3 \<and> pieces ! 2 = ''qemu'' \<and> set (dict_keys d) = set RESTORE_KEYS)
          then Inr False
          else (case dget d ''vmid'' of
             PInt vmid \<Rightarrow>
               eand (in_scope_or scope ''restore_vmids'' (PInt vmid))
                 (case archive_of (dget d ''archive'') of
                    None \<Rightarrow> Inr False
                  | Some (storage, owner, stamp, suffix) \<Rightarrow>
                      eall [in_scope_or scope ''backup_storages'' (PStr storage), in_scope scope ''vmids'' (PInt owner),
                        Inr (vmid \<noteq> owner), in_scope_or scope ''restore_storages'' (dget d ''storage''),
                        (case restore_nic (dget d ''net0'') of
                           None \<Rightarrow> Inr False | Some (mac, bridge) \<Rightarrow> in_scope scope ''bridges'' (PStr bridge)),
                        Inr (restore_fields_ok d)])
           | _ \<Rightarrow> Inr False)
      | _ \<Rightarrow> Inr False)"

definition selected_archive :: "pyval \<Rightarrow> pydict \<Rightarrow> bool result" where
  "selected_archive volume scope = (case archive_of volume of
       None \<Rightarrow> Inr False
     | Some (storage, owner, stamp, suffix) \<Rightarrow>
         eand (in_scope_or scope ''backup_storages'' (PStr storage)) (in_scope scope ''vmids'' (PInt owner)))"

section \<open>The configuration inside an archive\<close>

abbreviation config_unsupported :: error where
  "config_unsupported \<equiv> backup_error ''VM_RESTORE_CONFIG_UNSUPPORTED'' 409"

definition ALLOWED :: "string list" where
  "ALLOWED = py_split CHR '' '' (''agent balloon bios boot bootdisk ciuser cipassword sshkeys citype ciupgrade cores cpu ''
     @ ''description ide2 ipconfig0 machine memory meta name nameserver net0 numa onboot ostype protection scsi0 ''
     @ ''scsihw searchdomain serial0 smbios1 sockets startup tablet tags template vga vmgenid'')"

definition archive_options :: "pyval \<Rightarrow> (string \<times> string) list result" where
  "archive_options v = (case v of
       PStr s \<Rightarrow> (case option_pairs (py_split CHR '','' s) of None \<Rightarrow> Inl config_unsupported | Some ps \<Rightarrow> Inr ps)
     | _ \<Rightarrow> Inl config_unsupported)"

text \<open>\<open>str.splitlines\<close>: a line ends at any of these characters, and at a carriage return with its line feed.\<close>

definition line_break :: "char \<Rightarrow> bool" where
  "line_break c = (let n = (of_char c :: nat) in n \<in> {10, 11, 12, 13, 28, 29, 30, 133})"

function splitlines :: "string \<Rightarrow> string list" where
  "splitlines s = (if s = [] then []
     else let line = takeWhile (\<lambda>c. \<not> line_break c) s; rest = dropWhile (\<lambda>c. \<not> line_break c) s
          in line # splitlines (if starts_with [CHR 0x0D, CHR 0x0A] rest then drop 2 rest else drop 1 rest))"
  by pat_completeness auto
termination
proof (relation "measure length", goal_cases)
  case (2 s line rest)
  then have "length rest \<le> length s" "0 < length s" by (simp_all add: length_dropWhile_le)
  then have "length rest - 2 < length s" "length rest - 1 < length s" by linarith+
  then show ?case by simp
qed simp

definition MAP_LINE :: rx where
  "MAP_LINE = cats [word_rx ''#qmdump#map:scsi0:drive-scsi0:'', Grp IDENTIFIER, lit CHR '':'',
     Grp (alts [word_rx ''raw'', word_rx ''qcow2'']), lit CHR '':'']"

definition CONFIG_KEY :: rx where
  "CONFIG_KEY = Cat (Cls (char_between 97 122)) (Star (Cls (\<lambda>c. char_between 97 122 c \<or> is_digit c \<or> c \<in> set ''_-'')))"

text \<open>\<open>([a-z][a-z0-9_-]*):\s*(.*)\<close>; no line contains a line feed.\<close>

definition config_line :: "string \<Rightarrow> (string \<times> string) option" where
  "config_line line = (case py_partition CHR '':'' line of (k, found, v) \<Rightarrow>
     if found \<and> matches_full CONFIG_KEY k then Some (k, dropWhile py_space v) else None)"

text \<open>The loop over the lines: the configuration and the disk hint so far.\<close>

type_synonym archive_state = "pydict \<times> (string \<times> string) option"

fun archive_lines :: "archive_state \<Rightarrow> string list \<Rightarrow> archive_state result" where
  "archive_lines st [] = Inr st"
| "archive_lines (config, hint) (line # ls) =
     (if starts_with ''#qmdump#map:'' line then
        (case (fullmatch MAP_LINE line, hint) of
           (Some [storage, form], None) \<Rightarrow> archive_lines (config, Some (storage, form)) ls
         | _ \<Rightarrow> Inl (backup_error ''VM_RESTORE_ARCHIVE_MAP_INVALID'' 409))
      else if py_strip line = [] \<or> starts_with ''#'' line then archive_lines (config, hint) ls
      else case config_line line of
        None \<Rightarrow> Inl config_unsupported
      | Some (k, v) \<Rightarrow>
          if k \<notin> set ALLOWED \<or> dhas config k then Inl config_unsupported
          else archive_lines (dset k (PStr v) config, hint) ls)"

text \<open>Every supported property except the ones that a restore changes.\<close>

definition HARDWARE_EXCLUDED :: "string list" where
  "HARDWARE_EXCLUDED = [''digest'', ''name'', ''description'', ''net0'', ''onboot'', ''vmgenid'', ''lock'']"

definition slot_options :: "pydict \<Rightarrow> string \<Rightarrow> pyval result" where
  "slot_options config slot = (case dget config slot of
       PStr s \<Rightarrow>
         ebind (if tl (py_split CHR '','' s) = [] then Inr []
                else archive_options (PStr (py_join '','' (tl (py_split CHR '','' s))))) (\<lambda>opts.
           Inr (text_dict (dpop ''format'' opts)))
     | _ \<Rightarrow> Inl (backup_error ''VM_RESTORE_HARDWARE_UNCONFIRMED'' 503))"

definition hardware_fingerprint :: "sha \<Rightarrow> pydict \<Rightarrow> string result" where
  "hardware_fingerprint sha config =
     (let normalized = map (\<lambda>(k, v). (k, PStr (py_str v))) (filter (\<lambda>(k, v). k \<notin> set HARDWARE_EXCLUDED) config) in
      ebind (slot_options config ''scsi0'') (\<lambda>root. ebind (slot_options config ''ide2'') (\<lambda>cloud.
        let n = dset ''ide2'' cloud (dset ''scsi0'' root normalized) in
        ebind (if dhas n ''smbios1''
               then ebind (archive_options (dget n ''smbios1'')) (\<lambda>ps. Inr (dset ''smbios1'' (text_dict (dpop ''uuid'' ps)) n))
               else Inr n) (\<lambda>n'. Inr (operation_digest sha n')))))"

definition archive_nic :: "pydict \<Rightarrow> (string \<times> string) list result" where
  "archive_nic config =
     ebind (archive_options (dget config ''net0'')) (\<lambda>nic.
     ebind (raise_if (\<not> {''virtio'', ''bridge''} \<subseteq> set (map fst nic)
         \<or> \<not> set (map fst nic) \<subseteq> {''virtio'', ''bridge'', ''firewall'', ''link_down''}
         \<or> \<not> matches_full MAC (text_or nic ''virtio'' []) \<or> \<not> is_id (text_or nic ''bridge'' [])
         \<or> \<not> binary_flag nic ''firewall'' \<or> \<not> binary_flag nic ''link_down'')
       (backup_error ''VM_RESTORE_NETWORK_UNSUPPORTED'' 409)) (\<lambda>_. Inr nic))"

definition standard_devices :: "pydict \<Rightarrow> bool" where
  "standard_devices config =
     (dget_or config ''serial0'' (PStr ''socket'') = PStr ''socket''
      \<and> dget_or config ''vga'' (PStr ''std'') \<in> PStr ` set [''std'', ''serial0'', ''qxl'', ''virtio'', ''none'']
      \<and> dget_or config ''bios'' (PStr ''seabios'') = PStr ''seabios'')"

text \<open>\<open>re.search\<close> of \<open>size=\<close> at the start of a part: the first comma-separated part of that form.\<close>

definition searched_size :: "string \<Rightarrow> int option" where
  "searched_size s = (case List.map_filter (\<lambda>part. if starts_with ''size='' part then whole_size (drop 5 part) else None)
       (py_split CHR '','' s) of [] \<Rightarrow> None | n # _ \<Rightarrow> Some n)"

definition smbios_uuid :: "pydict \<Rightarrow> pyval result" where
  "smbios_uuid config =
     (if truthy (dget config ''smbios1'')
      then ebind (archive_options (dget config ''smbios1'')) (\<lambda>ps.
        Inr (case map_of ps ''uuid'' of None \<Rightarrow> PNone | Some u \<Rightarrow> PStr u))
      else Inr PNone)"

definition archive_manifest :: "sha \<Rightarrow> string \<Rightarrow> pydict \<Rightarrow> pydict \<Rightarrow> (string \<times> string) list \<Rightarrow> pydict result" where
  "archive_manifest sha raw config identity nic =
     (case searched_size (py_str (dget config ''scsi0'')) of
        None \<Rightarrow> Inl (PyError TypeError)
      | Some bytes \<Rightarrow>
          ebind (smbios_uuid config) (\<lambda>uuid. ebind (hardware_fingerprint sha config) (\<lambda>hardware.
            Inr (dmerge identity [(''size_bytes'', PInt bytes), (''smbios_uuid'', uuid), (''vmgenid'', dget config ''vmgenid''),
              (''archive_config_fingerprint'', PStr (operation_digest sha [(''archive_config'', PStr raw)])),
              (''hardware_fingerprint'', PStr hardware), (''source_mac'', PStr (py_upper (text_or nic ''virtio'' []))),
              (''source_bridge'', PStr (text_or nic ''bridge'' [])), (''firewall'', PStr (text_or nic ''firewall'' ''0''))]))))"

definition raw_ok :: "string \<Rightarrow> bool" where
  "raw_ok raw = (raw \<noteq> [] \<and> length (utf8 raw) \<le> 262144 \<and> CHR 0x00 \<notin> set raw)"

definition parse_archive_config :: "sha \<Rightarrow> pyval \<Rightarrow> int \<Rightarrow> (pydict \<times> pydict) result" where
  "parse_archive_config sha v source_vmid =
     (case v of
        PStr raw \<Rightarrow>
          ebind (raise_if (\<not> raw_ok raw) (backup_error ''VM_RESTORE_ARCHIVE_CONFIG_INVALID'' 503)) (\<lambda>_.
          ebind (archive_lines ([], None) (splitlines raw)) (\<lambda>(config0, hint).
          let config = dset ''digest'' (PStr (replicate 40 CHR ''0'')) config0 in
          ebind (backup_source sha config [(''status'', PStr ''stopped'')] [] [[(''name'', PStr ''current'')]] source_vmid) (\<lambda>identity.
          ebind (row_list identity ''volumes'') (\<lambda>volumes.
          ebind (raise_if (map_option (\<lambda>(s, f). (PStr s, PStr f)) hint
              \<noteq> Some (dget (hd volumes) ''storage_id'', dget (hd volumes) ''format''))
            (backup_error ''VM_RESTORE_ARCHIVE_MAP_INVALID'' 409)) (\<lambda>_.
          ebind (archive_nic config) (\<lambda>nic.
          ebind (raise_if (\<not> standard_devices config) (backup_error ''VM_RESTORE_DEVICE_UNSUPPORTED'' 409)) (\<lambda>_.
          ebind (archive_manifest sha raw config identity nic) (\<lambda>m. Inr (config, m)))))))))
      | _ \<Rightarrow> Inl (backup_error ''VM_RESTORE_ARCHIVE_CONFIG_INVALID'' 503))"

end
