(* ===== verification/HostStorage.thy ===== *)
theory HostStorage
  imports HostChange Backups
begin

text \<open>
  Directory storages of a cluster: \<open>app/operations/host_storage/domain.py\<close>, \<open>infrastructure.py\<close> and
  \<open>application.py\<close>, with the storage calls of \<open>app/proxmox/client.py\<close>. One configuration write
  per operation, verified by reads only. The warnings shown to the operator are left out.
\<close>

section \<open>Requests\<close>

definition CONTENTS :: "string list" where
  "CONTENTS = [''images'', ''iso'', ''backup'', ''import'', ''snippets'', ''vztmpl'', ''rootdir'']"

definition CHANGEABLE :: "string list" where
  "CHANGEABLE = [''content'', ''disable'', ''create-base-path'', ''create-subdirs'', ''digest'']"

abbreviation storage_error :: "string \<Rightarrow> nat \<Rightarrow> error" where
  "storage_error code status \<equiv> FeatureError (''HOST_STORAGE_'' @ code) status"

definition PATH_TEXT :: rx where
  "PATH_TEXT = Cat (lit CHR ''/'') (plus (Cls (\<lambda>c. is_alpha c \<or> is_digit c \<or> c \<in> set ''-_.@/'')))"

definition directory_path :: "pyval \<Rightarrow> bool" where
  "directory_path v = (case v of
       PStr s \<Rightarrow> length s \<le> 512 \<and> matches_full PATH_TEXT s \<and> last s \<noteq> CHR ''/''
         \<and> list_all (\<lambda>part. part \<notin> {[], ''.'', ''..''}) (tl (py_split CHR ''/'' s))
     | _ \<Rightarrow> False)"

record storage_change =
  sg_mode :: string
  sg_path :: "string option"
  sg_content :: "string list"
  sg_enabled :: bool

definition CHANGE_FIELDS :: "string list" where
  "CHANGE_FIELDS = [''mode'', ''path'', ''content'', ''enabled'']"

definition text_list :: "pyval \<Rightarrow> string list option" where
  "text_list v = (case v of
       PList xs \<Rightarrow> all_some (map (\<lambda>x. case x of PStr s \<Rightarrow> Some s | _ \<Rightarrow> None) xs) | _ \<Rightarrow> None)"

definition mode_ok :: "storage_change \<Rightarrow> bool" where
  "mode_ok c = (if sg_mode c = ''create''
     then (case sg_path c of Some p \<Rightarrow> directory_path (PStr p) | None \<Rightarrow> False) \<and> sg_enabled c
     else sg_path c = None)"

text \<open>\<open>StorageChange\<close>; \<open>None\<close> is a validation error. The content is stored sorted, without duplicates.\<close>

definition path_field :: "pyval \<Rightarrow> string option option" where
  "path_field v = (case v of
       PNone \<Rightarrow> Some None | PStr s \<Rightarrow> if length s \<le> 512 then Some (Some s) else None | _ \<Rightarrow> None)"

definition storage_change_of :: "pydict \<Rightarrow> storage_change option" where
  "storage_change_of d =
     (case (dget d ''mode'', path_field (dget d ''path''), text_list (dget d ''content''),
            dget_or d ''enabled'' (PBool True)) of
        (PStr mode, Some path, Some content, PBool enabled) \<Rightarrow>
          let c = \<lparr>sg_mode = mode, sg_path = path, sg_content = sort (remdups content), sg_enabled = enabled\<rparr>
          in if set (dict_keys d) \<subseteq> set CHANGE_FIELDS \<and> mode \<in> {''create'', ''update''}
                \<and> 1 \<le> length content \<and> length content \<le> 7 \<and> set content \<subseteq> set CONTENTS \<and> mode_ok c
             then Some c else None
      | _ \<Rightarrow> None)"

definition storage_dump :: "storage_change \<Rightarrow> pydict" where
  "storage_dump c =
     [(''mode'', PStr (sg_mode c)), (''path'', opt_val (\<lambda>s. PStr s) (sg_path c)),
      (''content'', PList (map PStr (sg_content c))), (''enabled'', PBool (sg_enabled c))]"

definition fields_of :: "string list \<Rightarrow> pydict \<Rightarrow> pydict" where
  "fields_of ks d = filter (\<lambda>(k, v). k \<in> set ks) d"

text \<open>\<open>StorageRequest\<close>: the change with the idempotency key and the confirmation.\<close>

definition host_request_ok :: "pydict \<Rightarrow> bool" where
  "host_request_ok d = (str_field d ''idempotency_key'' 1 160 (matches_full KEY_TEXT)
     \<and> str_field d ''expected_review_digest'' 0 71 (matches_full SHA256_TEXT)
     \<and> str_field d ''confirmation'' 0 180 (\<lambda>_. True))"

definition REQUEST_FIELDS :: "string list" where
  "REQUEST_FIELDS = [''idempotency_key'', ''expected_review_digest'', ''confirmation'']"

definition storage_request_of :: "pydict \<Rightarrow> change_request option" where
  "storage_request_of d =
     (case storage_change_of (fields_of CHANGE_FIELDS d) of
        Some c \<Rightarrow>
          if set (dict_keys d) \<subseteq> set (CHANGE_FIELDS @ REQUEST_FIELDS @ [''acknowledge_cluster_impact''])
             \<and> host_request_ok d \<and> dget d ''acknowledge_cluster_impact'' = PBool True
          then Some \<lparr>rq_idempotency_key = py_str (dget d ''idempotency_key''), rq_expected_name = [],
            rq_dump = storage_dump c @ map (\<lambda>k. (k, dget d k)) REQUEST_FIELDS
              @ [(''acknowledge_cluster_impact'', PBool True)]\<rparr>
          else None
      | None \<Rightarrow> None)"

definition storage_change_in :: "change_request \<Rightarrow> storage_change result" where
  "storage_change_in rq = (case storage_change_of (fields_of CHANGE_FIELDS (rq_dump rq)) of
       None \<Rightarrow> Inl (PyError ValueError) | Some c \<Rightarrow> Inr c)"

definition storage_target :: "string \<Rightarrow> string \<Rightarrow> (string \<times> string) result" where
  "storage_target node_id storage_id =
     (case target_identity ''host_storage'' (PDict [(''node_id'', PStr node_id), (''storage_id'', PStr storage_id)]) of
        Inl _ \<Rightarrow> Inl (storage_error ''TARGET_INVALID'' 422) | Inr p \<Rightarrow> Inr p)"

section \<open>Configurations\<close>

definition storage_flag :: "pyval \<Rightarrow> bool result" where
  "storage_flag v = (case v of
       PBool b \<Rightarrow> Inr b
     | PInt i \<Rightarrow> if i \<in> {0, 1} then Inr (i = 1) else Inl (storage_error ''CONFIG_INVALID'' 503)
     | PStr s \<Rightarrow> if s \<in> {''0'', ''1''} then Inr (s = ''1'') else Inl (storage_error ''CONFIG_INVALID'' 503)
     | _ \<Rightarrow> Inl (storage_error ''CONFIG_INVALID'' 503))"

definition config_flag :: "pydict \<Rightarrow> string \<Rightarrow> pyval \<Rightarrow> bool result" where
  "config_flag config k v = storage_flag (dget_or config k v)"

definition NODE_LIST :: rx where
  "NODE_LIST = (let name = plus (Cls (\<lambda>c. is_alpha c \<or> is_digit c \<or> c \<in> set ''_.-''))
     in Cat name (Star (Cat (lit CHR '','') name)))"

definition config_nodes :: "pydict \<Rightarrow> string list result" where
  "config_nodes config = (case dget config ''nodes'' of
       PNone \<Rightarrow> Inr []
     | PStr s \<Rightarrow> if matches_full NODE_LIST s then Inr (sort (remdups (py_split CHR '','' s)))
                 else Inl (storage_error ''CONFIG_INVALID'' 503)
     | _ \<Rightarrow> Inl (storage_error ''CONFIG_INVALID'' 503))"

definition config_content :: "pydict \<Rightarrow> string list option" where
  "config_content config = (case dget config ''content'' of
       PStr s \<Rightarrow> let parts = py_split CHR '','' s
                 in if s \<noteq> [] \<and> set parts \<subseteq> set (''none'' # CONTENTS) then Some (sort (remdups parts)) else None
     | _ \<Rightarrow> None)"

definition storage_fields :: "sha \<Rightarrow> pydict \<Rightarrow> string \<Rightarrow> string list \<Rightarrow> string \<Rightarrow> string list \<Rightarrow> pydict result" where
  "storage_fields sha config storage_id nodes digest content =
     ebind (config_flag config ''shared'' (PInt 0)) (\<lambda>shared.
     ebind (config_flag config ''disable'' (PInt 0)) (\<lambda>disabled.
     ebind (config_flag config ''create-base-path'' (dget_or config ''mkdir'' (PInt 1))) (\<lambda>base.
     ebind (eand (config_flag config ''create-subdirs'' (PInt 1)) (config_flag config ''mkdir'' (PInt 1))) (\<lambda>subdirs.
       Inr [(''storage_id'', PStr storage_id), (''type'', PStr ''dir''), (''path'', dget config ''path''),
            (''nodes'', PList (map PStr nodes)), (''all_nodes'', PBool (nodes = [])), (''shared'', PBool shared),
            (''enabled'', PBool (\<not> disabled)), (''content'', PList (map PStr content)), (''digest'', PStr digest),
            (''create_base_path'', PBool base), (''create_subdirs'', PBool subdirs),
            (''preserved_fingerprint'',
               PStr (operation_digest sha (filter (\<lambda>(k, v). k \<notin> set CHANGEABLE) config)))]))))"

definition summarize_config :: "sha \<Rightarrow> pydict \<Rightarrow> string \<Rightarrow> string \<Rightarrow> pydict result" where
  "summarize_config sha config node_id storage_id =
     ebind (raise_if (dget config ''type'' \<noteq> PStr ''dir'' \<or> dget config ''storage'' \<noteq> PStr storage_id)
        (storage_error ''TYPE_UNSUPPORTED'' 409)) (\<lambda>_.
     ebind (raise_if (\<not> directory_path (dget config ''path'')) (storage_error ''PATH_UNSUPPORTED'' 409)) (\<lambda>_.
     ebind (config_nodes config) (\<lambda>nodes.
     ebind (raise_if (nodes \<noteq> [] \<and> node_id \<notin> set nodes) (storage_error ''NODE_OUTSIDE_CONFIG'' 409)) (\<lambda>_.
       case (config_digest (dget config ''digest''), config_content config) of
         (Some digest, Some content) \<Rightarrow> storage_fields sha config storage_id nodes digest content
       | _ \<Rightarrow> Inl (storage_error ''CONFIG_INVALID'' 503)))))"

text \<open>What the storage is to look like; \<open>create\<close> has no earlier state.\<close>

definition storage_desired :: "string \<Rightarrow> storage_change \<Rightarrow> pydict option \<Rightarrow> pydict" where
  "storage_desired node_id change before =
     (let old = (\<lambda>k v. case before of None \<Rightarrow> v | Some b \<Rightarrow> dget b k) in
      [(''type'', PStr ''dir''), (''path'', old ''path'' (opt_val (\<lambda>s. PStr s) (sg_path change))),
       (''nodes'', old ''nodes'' (PList [PStr node_id])), (''all_nodes'', old ''all_nodes'' (PBool False)),
       (''shared'', old ''shared'' (PBool False)), (''content'', PList (map PStr (sg_content change))),
       (''enabled'', PBool (sg_enabled change)), (''create_base_path'', PBool False), (''create_subdirs'', PBool False)])"

definition has_all :: "pydict \<Rightarrow> pydict \<Rightarrow> bool" where
  "has_all config desired = list_all (\<lambda>(k, v). py_eq (dget config k) v) desired"

definition storage_make_review :: "sha \<Rightarrow> string \<Rightarrow> string \<Rightarrow> storage_change \<Rightarrow> pydict option \<Rightarrow> pydict result" where
  "storage_make_review sha node_id storage_id change config =
     ebind (storage_target node_id storage_id) (\<lambda>_.
     ebind (case config of None \<Rightarrow> Inr None
            | Some c \<Rightarrow> ebind (summarize_config sha c node_id storage_id) (\<lambda>s. Inr (Some s))) (\<lambda>before.
     ebind (raise_if ((sg_mode change = ''create'') \<noteq> (before = None)) (storage_error ''EXISTENCE_CHANGED'' 409)) (\<lambda>_.
     let desired = storage_desired node_id change before in
     ebind (raise_if (case before of None \<Rightarrow> False | Some b \<Rightarrow> has_all b desired) (storage_error ''NO_CHANGE'' 422)) (\<lambda>_.
       let plan = [(''target'', PDict [(''node_id'', PStr node_id), (''storage_id'', PStr storage_id)]),
                   (''mode'', PStr (sg_mode change)), (''observed_before'', opt_val PDict before),
                   (''desired'', PDict desired)]
       in Inr (plan @ [(''review_digest'', PStr (operation_digest sha plan)),
            (''confirmation'', PStr (node_id @ ''/'' @ storage_id @ ''/'' @ sg_mode change))])))))"

definition storage_mutation_body :: "storage_change \<Rightarrow> string \<Rightarrow> string \<Rightarrow> pyval \<Rightarrow> pydict result" where
  "storage_mutation_body change node_id storage_id before =
     (let fields = [(''content'', PStr (py_join '','' (sg_content change))), (''disable'', PInt (if sg_enabled change then 0 else 1)),
            (''create-base-path'', PInt 0), (''create-subdirs'', PInt 0)] in
      if sg_mode change = ''create''
      then Inr (fields @ [(''type'', PStr ''dir''), (''storage'', PStr storage_id),
             (''path'', opt_val (\<lambda>s. PStr s) (sg_path change)), (''nodes'', PStr node_id), (''shared'', PInt 0)])
      else ebind (dict_item before ''digest'') (\<lambda>digest. Inr (fields @ [(''digest'', digest)])))"

section \<open>The transport policy\<close>

definition scope_list :: "pydict \<Rightarrow> string \<Rightarrow> pyval list result" where
  "scope_list scope k = (case dget_or scope k (PList []) of PList xs \<Rightarrow> Inr xs | _ \<Rightarrow> Inl (PyError TypeError))"

definition storage_path :: "pyval list \<Rightarrow> string \<Rightarrow> bool" where
  "storage_path selected path = list_ex (\<lambda>v. path = ''/storage/'' @ py_str v) selected"

definition storage_fields_ok :: "pydict \<Rightarrow> bool" where
  "storage_fields_ok d =
     ((case dget d ''content'' of
         PStr s \<Rightarrow> s \<noteq> [] \<and> set (py_split CHR '','' s) \<subseteq> set CONTENTS | _ \<Rightarrow> False)
      \<and> dget d ''disable'' \<in> {PInt 0, PInt 1} \<and> dget d ''create-base-path'' = PInt 0 \<and> dget d ''create-subdirs'' = PInt 0)"

abbreviation base_fields :: "string list" where
  "base_fields \<equiv> [''content'', ''disable'', ''create-base-path'', ''create-subdirs'']"

definition storage_create_allowed :: "pydict \<Rightarrow> pyval list \<Rightarrow> pydict \<Rightarrow> bool result" where
  "storage_create_allowed d selected scope =
     (if \<not> (set (dict_keys d) = set (base_fields @ [''type'', ''storage'', ''path'', ''nodes'', ''shared''])
            \<and> dget d ''type'' = PStr ''dir'' \<and> in_values (dget d ''storage'') selected)
      then Inr False
      else ebind (ditem scope ''nodes'') (\<lambda>nodes. case nodes of
          PList ns \<Rightarrow> Inr (in_values (dget d ''nodes'') ns \<and> directory_path (dget d ''path'')
             \<and> dget d ''shared'' = PInt 0 \<and> dget d ''disable'' = PInt 0)
        | _ \<Rightarrow> Inl (PyError TypeError)))"

definition storage_request_allowed :: "string \<Rightarrow> string \<Rightarrow> pyval \<Rightarrow> pydict \<Rightarrow> bool result" where
  "storage_request_allowed method path data scope =
     ebind (scope_list scope ''host_storages'') (\<lambda>selected.
       if method = ''GET''
       then Inr (data = PNone \<and> (path = ''/storage'' \<or> storage_path selected path))
       else case data of
         PDict d \<Rightarrow>
           if \<not> storage_fields_ok d then Inr False
           else if method = ''POST'' \<and> path = ''/storage'' then storage_create_allowed d selected scope
           else Inr (method = ''PUT'' \<and> storage_path selected path \<and> set (dict_keys d) = set (base_fields @ [''digest''])
             \<and> config_digest (dget d ''digest'') \<noteq> None)
       | _ \<Rightarrow> Inr False)"

section \<open>Client\<close>

text \<open>\<open>urllib.parse.quote(text, safe="")\<close>\<close>

definition unreserved :: "char \<Rightarrow> bool" where
  "unreserved c = (is_alpha c \<or> is_digit c \<or> c \<in> set ''_.-~'')"

definition upper_hex :: "nat \<Rightarrow> char" where
  "upper_hex n = (if n < 10 then char_of (48 + n) else char_of (55 + n))"

definition py_quote :: "string \<Rightarrow> string" where
  "py_quote s = concat (map (\<lambda>b. if unreserved b then [b]
     else [CHR ''%'', upper_hex (of_char b div 16), upper_hex (of_char b mod 16)]) (utf8 s))"

text \<open>
  The calls that only the host services use, beside those of the VM features. \<open>hc_send\<close> is
  \<open>_request_json(method, path, data=body)\<close>.
\<close>

record host_calls =
  hc_client :: vm_client
  hc_storage_admin :: "nat \<Rightarrow> string list option"
  hc_storage_configs :: "nat \<Rightarrow> pydict list option"
  hc_storage_config :: "string \<Rightarrow> nat \<Rightarrow> pydict option"
  hc_network_permissions :: "string \<Rightarrow> nat \<Rightarrow> (string list \<times> string list) option"
  hc_network_snapshot :: "string \<Rightarrow> nat \<Rightarrow> (pydict list \<times> string) option"
  hc_send :: "string \<Rightarrow> string \<Rightarrow> pydict \<Rightarrow> nat \<Rightarrow> pyval option"

definition configure_directory_storage :: "host_calls \<Rightarrow> string \<Rightarrow> string \<Rightarrow> storage_change \<Rightarrow> pyval \<Rightarrow> nat
    \<Rightarrow> pyval option result" where
  "configure_directory_storage hc node storage change before k =
     ebind (storage_mutation_body change node storage before) (\<lambda>body.
       Inr (if sg_mode change = ''create'' then hc_send hc ''POST'' ''/storage'' body k
            else hc_send hc ''PUT'' (''/storage/'' @ py_quote storage) body k))"

definition storage_permissions :: "host_calls \<Rightarrow> string \<Rightarrow> nat \<Rightarrow> unit result" where
  "storage_permissions hc storage_id k =
     ebind (read_or (hc_storage_admin hc k) ''HOST_STORAGE_PERMISSION_UNAVAILABLE'' 503) (\<lambda>global_permissions.
     ebind (read_or (vc_storage_permissions (hc_client hc) storage_id k) ''HOST_STORAGE_PERMISSION_UNAVAILABLE'' 503) (\<lambda>selected.
       raise_if (''Datastore.Allocate'' \<notin> set global_permissions
           \<or> \<not> {''Datastore.Allocate'', ''Datastore.Audit''} \<subseteq> set selected) (storage_error ''PERMISSION_DENIED'' 403)))"

definition host_node_online :: "vm_client \<Rightarrow> string \<Rightarrow> string \<Rightarrow> string \<Rightarrow> nat \<Rightarrow> unit result" where
  "host_node_online vc unavailable denied node_id k =
     ebind (read_or (vc_nodes vc k) unavailable 503) (\<lambda>nodes.
       case filter (\<lambda>row. py_eq (dget row ''node'') (PStr node_id)) nodes of
         [row] \<Rightarrow> raise_if (dget row ''status'' \<noteq> PStr ''online'') (FeatureError denied 409)
       | _ \<Rightarrow> Inl (FeatureError denied 409))"

definition storage_read :: "host_calls \<Rightarrow> string \<Rightarrow> string \<Rightarrow> nat \<Rightarrow> pydict option result" where
  "storage_read hc node_id storage_id k =
     ebind (host_node_online (hc_client hc) ''HOST_STORAGE_OBSERVATION_UNAVAILABLE'' ''HOST_STORAGE_NODE_UNAVAILABLE''
        node_id k) (\<lambda>_.
     ebind (read_or (hc_storage_configs hc k) ''HOST_STORAGE_OBSERVATION_UNAVAILABLE'' 503) (\<lambda>configs.
       case filter (\<lambda>row. py_eq (dget row ''storage'') (PStr storage_id)) configs of
         [] \<Rightarrow> Inr None
       | [_] \<Rightarrow> ebind (read_or (hc_storage_config hc storage_id k) ''HOST_STORAGE_OBSERVATION_UNAVAILABLE'' 503)
                (\<lambda>config. Inr (Some config))
       | _ \<Rightarrow> Inl (storage_error ''CONFIG_INVALID'' 503)))"

definition storage_observation :: "pydict \<Rightarrow> pyval \<Rightarrow> bool \<Rightarrow> pydict" where
  "storage_observation observed active checked =
     [(''configuration'', PDict observed), (''activation_checked'', PBool checked), (''active'', active),
      (''content_directories_verified'', PBool False), (''write_test_performed'', PBool False)]"

definition zero_one :: "pyval \<Rightarrow> bool" where
  "zero_one v = (py_str v \<in> {''0'', ''1''})"

definition storage_active :: "pydict list \<Rightarrow> string \<Rightarrow> bool result" where
  "storage_active stores storage_id =
     (case filter (\<lambda>row. py_eq (dget row ''storage'') (PStr storage_id)) stores of
        [row] \<Rightarrow>
          if dget row ''type'' \<noteq> PStr ''dir'' \<or> \<not> zero_one (dget row ''active'') \<or> \<not> zero_one (dget row ''enabled'')
          then Inl (storage_error ''ACTIVATION_UNAVAILABLE'' 503)
          else Inr (py_str (dget row ''active'') = ''1'' \<and> py_str (dget row ''enabled'') = ''1'')
      | _ \<Rightarrow> Inl (storage_error ''ACTIVATION_UNAVAILABLE'' 503))"

definition storage_observe :: "sha \<Rightarrow> host_calls \<Rightarrow> string \<Rightarrow> string \<Rightarrow> nat \<Rightarrow> pydict result" where
  "storage_observe sha hc node_id storage_id k =
     ebind (storage_read hc node_id storage_id k) (\<lambda>config. case config of
       None \<Rightarrow> Inl (storage_error ''RESULT_ABSENT'' 409)
     | Some c \<Rightarrow>
         ebind (summarize_config sha c node_id storage_id) (\<lambda>observed.
           if dget observed ''enabled'' \<noteq> PBool True \<or> dget observed ''create_base_path'' = PBool True
              \<or> dget observed ''create_subdirs'' = PBool True
           then Inr (storage_observation observed PNone False)
           else ebind (read_or (vc_storages (hc_client hc) node_id k) ''HOST_STORAGE_ACTIVATION_UNAVAILABLE'' 503) (\<lambda>stores.
                ebind (storage_active stores storage_id) (\<lambda>active.
                  Inr (storage_observation observed (PBool active) True)))))"

definition storage_apply :: "host_calls \<Rightarrow> string \<Rightarrow> string \<Rightarrow> storage_change \<Rightarrow> pyval \<Rightarrow> nat \<Rightarrow> unit result" where
  "storage_apply hc node_id storage_id change before k =
     ebind (configure_directory_storage hc node_id storage_id change before k) (\<lambda>sent.
     ebind (read_or sent ''HOST_STORAGE_DISPATCH_UNKNOWN'' 503) (\<lambda>response.
       raise_if (case response of PNone \<Rightarrow> False
           | PDict d \<Rightarrow> dget d ''storage'' \<noteq> PStr storage_id \<or> dget d ''type'' \<noteq> PStr ''dir'' | _ \<Rightarrow> True)
         (storage_error ''DISPATCH_UNKNOWN'' 503)))"

section \<open>Service\<close>

definition storage_review :: "sha \<Rightarrow> host_calls \<Rightarrow> string \<Rightarrow> string \<Rightarrow> storage_change \<Rightarrow> nat \<Rightarrow> pydict result" where
  "storage_review sha hc node_id storage_id change k =
     ebind (storage_target node_id storage_id) (\<lambda>_.
     ebind (storage_permissions hc storage_id k) (\<lambda>_.
     ebind (storage_read hc node_id storage_id k) (\<lambda>config.
       storage_make_review sha node_id storage_id change config)))"

definition operation_dict :: "operation_snapshot \<Rightarrow> pydict" where
  "operation_dict operation =
     [(''operation_id'', PStr (sn_operation_id operation)), (''status'', PStr (sn_status operation))]"

definition storage_result :: "operation_snapshot \<Rightarrow> bool \<Rightarrow> pydict result" where
  "storage_result operation replayed =
     (let details = sn_details operation in
      ebind (ditem details ''target'') (\<lambda>target. ebind (ditem details ''requested'') (\<lambda>requested.
      ebind (ditem details ''review'') (\<lambda>review.
        Inr (operation_dict operation @
          [(''target'', target), (''operation'', PDict (operation_dict operation)), (''requested'', requested),
           (''review'', review), (''observed_after'', dget details ''observed_after''),
           (''failure_code'', dget details ''failure_code''), (''idempotent_replay'', PBool replayed),
           (''automatic_retry_allowed'', PBool False)])))))"

text \<open>\<open>all(config.get(key) == value for key, value in wanted.items())\<close>\<close>

definition all_items :: "pydict \<Rightarrow> pyval \<Rightarrow> bool result" where
  "all_items config wanted = (case wanted of
       PDict d \<Rightarrow> Inr (has_all config d) | _ \<Rightarrow> Inl (PyError AttributeError))"

definition storage_matches :: "pydict \<Rightarrow> pyval \<Rightarrow> bool result" where
  "storage_matches observed review = (case review of
       PDict r \<Rightarrow>
         ebind (inner observed ''configuration'') (\<lambda>config. ebind (ditem r ''observed_before'') (\<lambda>before.
           eall [ebind (ditem r ''desired'') (all_items config),
             if before = PNone then Inr True
             else ebind (ditem config ''preserved_fingerprint'') (\<lambda>now.
                  ebind (dict_item before ''preserved_fingerprint'') (\<lambda>old. Inr (py_eq now old))),
             ebind (ditem config ''enabled'') (\<lambda>enabled. Inr (\<not> truthy enabled
               \<or> dget observed ''activation_checked'' = PBool True \<and> dget observed ''active'' = PBool True))]))
     | _ \<Rightarrow> Inl (PyError TypeError))"

text \<open>The commits of the flow.\<close>

definition storage_dispatching_commit :: commit_request where
  "storage_dispatching_commit =
     (commit_defaults ''storage_dispatching'' ''dispatch'' ''leased'')
       \<lparr>cq_next_status := Some ''dispatching'', cq_details_patch := [(''mutation_dispatched'', PBool True)],
        cq_expected_statuses := Some [''planned'']\<rparr>"

definition storage_unknown_commit :: "string \<Rightarrow> commit_request" where
  "storage_unknown_commit code =
     (commit_defaults ''storage_dispatch_unknown'' ''reconciliation'' ''paused'')
       \<lparr>cq_next_status := Some ''needs_reconciliation'', cq_details_patch := [(''failure_code'', PStr code)],
        cq_expected_statuses := Some [''dispatching''], cq_error_code := Some code\<rparr>"

definition storage_acknowledged_commit :: commit_request where
  "storage_acknowledged_commit =
     (commit_defaults ''storage_dispatch_acknowledged'' ''post_check'' ''leased'')
       \<lparr>cq_next_status := Some ''running'', cq_details_patch := [(''dispatch_acknowledged'', PBool True)],
        cq_expected_statuses := Some [''dispatching'']\<rparr>"

definition storage_unconfirmed_commit :: "operation_snapshot \<Rightarrow> pyval \<Rightarrow> string \<Rightarrow> commit_request" where
  "storage_unconfirmed_commit operation observed code =
     fenced operation ((commit_defaults ''storage_result_unconfirmed'' ''reconciliation'' ''paused'')
       \<lparr>cq_next_status := (if sn_status operation = ''needs_reconciliation'' then None else Some ''needs_reconciliation''),
        cq_details_patch := [(''observed_after'', observed), (''failure_code'', PStr code)],
        cq_expected_statuses := Some [sn_status operation], cq_error_code := Some code\<rparr>)"

definition storage_observed_commit :: "operation_snapshot \<Rightarrow> pydict \<Rightarrow> commit_request" where
  "storage_observed_commit operation observed =
     fenced operation ((commit_defaults ''storage_state_observed'' ''post_check'' ''leased'')
       \<lparr>cq_next_status := Some ''verifying'', cq_details_patch := [(''observed_after'', PDict observed)],
        cq_expected_statuses := Some [sn_status operation]\<rparr>)"

definition storage_verified_commit :: "operation_snapshot \<Rightarrow> pydict \<Rightarrow> commit_request" where
  "storage_verified_commit operation observed =
     fenced operation ((commit_defaults ''storage_verified'' ''completed'' ''completed'')
       \<lparr>cq_next_status := Some ''succeeded'',
        cq_details_patch := [(''observed_after'', PDict observed), (''failure_code'', PNone)],
        cq_expected_statuses := Some [''verifying''], cq_release_target_lock := True\<rparr>)"

definition storage_unconfirmed :: "sha \<Rightarrow> flow_env \<Rightarrow> recovery_lease \<Rightarrow> operation_snapshot \<Rightarrow> pyval \<Rightarrow> string
    \<Rightarrow> string io" where
  "storage_unconfirmed sha fe lease operation observed code =
     io_bind (commit_io sha fe lease (storage_unconfirmed_commit operation observed
        (if code = [] then ''HOST_STORAGE_RESULT_UNCONFIRMED'' else code))) (\<lambda>_. io_return ''paused'')"

definition storage_confirmed :: "sha \<Rightarrow> flow_env \<Rightarrow> recovery_lease \<Rightarrow> operation_snapshot \<Rightarrow> pydict \<Rightarrow> string io" where
  "storage_confirmed sha fe lease operation observed =
     (let finish = (\<lambda>lease operation. io_bind (commit_io sha fe lease (storage_verified_commit operation observed))
            (\<lambda>_. io_return ''succeeded''))
      in if sn_status operation \<noteq> ''verifying''
         then io_bind (commit_io sha fe lease (storage_observed_commit operation observed))
                (\<lambda>(operation', item). finish (renewed lease item) operation')
         else finish lease operation)"

text \<open>\<open>self.client.observe(**target)\<close>: exactly the two keyword arguments.\<close>

definition target_arguments :: "string \<Rightarrow> pyval \<Rightarrow> (string \<times> string) result" where
  "target_arguments key target = (case target of
       PDict d \<Rightarrow> (case (dget d ''node_id'', dget d key) of
           (PStr node, PStr resource) \<Rightarrow>
             if set (dict_keys d) = {''node_id'', key} then Inr (node, resource) else Inl (PyError TypeError)
         | _ \<Rightarrow> Inl (PyError TypeError))
     | _ \<Rightarrow> Inl (PyError TypeError))"

definition storage_verify :: "sha \<Rightarrow> flow_env \<Rightarrow> host_calls \<Rightarrow> recovery_lease \<Rightarrow> operation_snapshot \<Rightarrow> string io" where
  "storage_verify sha fe hc lease operation =
     io_bind (io_of (ditem (sn_details operation) ''target'')) (\<lambda>target.
     io_try (io_bind (io_of (target_arguments ''storage_id'' target)) (\<lambda>(node, storage).
               ext_read (storage_observe sha hc node storage)))
       (\<lambda>code status. storage_unconfirmed sha fe lease operation PNone code)
       (\<lambda>observed.
          if dget (sn_details operation) ''dispatch_acknowledged'' \<noteq> PBool True
          then storage_unconfirmed sha fe lease operation (PDict observed) []
          else io_bind (io_of (ebind (ditem (sn_details operation) ''review'') (storage_matches observed))) (\<lambda>matched.
            if \<not> matched then storage_unconfirmed sha fe lease operation (PDict observed) []
            else storage_confirmed sha fe lease operation observed)))"

definition storage_feature :: "sha \<Rightarrow> host_calls \<Rightarrow> string \<Rightarrow> storage_change host_feature" where
  "storage_feature sha hc cluster_id =
     \<lparr>hf_operation_type = ''host_storage'', hf_id_prefix = ''host-storage-'', hf_event_prefix = ''storage_'',
      hf_error_prefix = ''HOST_STORAGE_'', hf_resource_key = ''storage_id'', hf_cluster_id = cluster_id,
      hf_flags = [(''mutation_dispatched'', PBool False), (''dispatch_acknowledged'', PBool False)],
      hf_change = storage_change_in, hf_review = storage_review sha hc, hf_result = storage_result\<rparr>"

definition storage_unknown :: "sha \<Rightarrow> flow_env \<Rightarrow> recovery_lease \<Rightarrow> string \<Rightarrow> pydict io" where
  "storage_unknown sha fe lease code =
     io_bind (commit_io sha fe lease (storage_unknown_commit code)) (\<lambda>(operation, _). io_of (storage_result operation False))"

definition storage_acknowledged :: "sha \<Rightarrow> flow_env \<Rightarrow> host_calls \<Rightarrow> recovery_lease \<Rightarrow> string \<Rightarrow> pydict io" where
  "storage_acknowledged sha fe hc lease operation_id =
     io_bind (commit_io sha fe lease storage_acknowledged_commit) (\<lambda>(operation, item).
     io_bind (storage_verify sha fe hc (renewed lease item) operation) (\<lambda>_.
     io_bind (get_existing_io fe operation_id) (\<lambda>operation. io_of (storage_result operation False))))"

definition storage_dispatch :: "sha \<Rightarrow> flow_env \<Rightarrow> host_calls \<Rightarrow> string \<Rightarrow> string \<Rightarrow> change_request \<Rightarrow> string
    \<Rightarrow> storage_change \<Rightarrow> pydict \<Rightarrow> operation_snapshot \<Rightarrow> recovery_lease \<Rightarrow> pydict io" where
  "storage_dispatch sha fe hc node_id storage_id rq operation_id change plan operation lease =
     io_bind (commit_io sha fe lease storage_dispatching_commit) (\<lambda>(operation, item).
       io_try (ext_call (\<lambda>k. ebind (ditem plan ''observed_before'') (\<lambda>before.
                 storage_apply hc node_id storage_id change before k)) node_id 0 (rq_dump rq))
         (\<lambda>code status. storage_unknown sha fe (renewed lease item) code)
         (\<lambda>_. storage_acknowledged sha fe hc (renewed lease item) operation_id))"

definition storage_execute :: "sha \<Rightarrow> flow_env \<Rightarrow> host_calls \<Rightarrow> string \<Rightarrow> string \<Rightarrow> string \<Rightarrow> change_request \<Rightarrow> pydict
    \<Rightarrow> pydict io" where
  "storage_execute sha fe hc cluster_id node_id storage_id rq actor =
     (let hf = storage_feature sha hc cluster_id in
      host_execute sha fe hf node_id storage_id rq actor
        (storage_dispatch sha fe hc node_id storage_id rq (host_operation_id sha hf node_id storage_id rq)))"

section \<open>The flow keeps the core's invariant and sends one call\<close>

lemma storage_verify_ok [io_intros]: "fair_env sha fe \<Longrightarrow> io_ok (world_ok sha) (storage_verify sha fe hc l sn)"
  unfolding storage_verify_def storage_unconfirmed_def storage_confirmed_def Let_def by (intro io_intros)

lemma silent_storage_verify [silent_intros]: "silent (storage_verify sha fe hc l sn)"
  unfolding storage_verify_def storage_unconfirmed_def storage_confirmed_def Let_def by (intro silent_intros)

lemma silent_storage_unknown [silent_intros]: "silent (storage_unknown sha fe l c)"
  unfolding storage_unknown_def by (intro silent_intros)

lemma silent_storage_acknowledged [silent_intros]: "silent (storage_acknowledged sha fe hc l i)"
  unfolding storage_acknowledged_def by (intro silent_intros)

lemma storage_execute_ok: "fair_env sha fe \<Longrightarrow> io_ok (world_ok sha) (storage_execute sha fe hc c node st rq actor)"
  unfolding storage_execute_def Let_def
  by (rule host_execute_ok)
    (simp_all add: storage_dispatch_def storage_unknown_def storage_acknowledged_def, intro io_intros)

lemma storage_execute_once:
  "sends_once (dispatched_as (host_operation_id sha (storage_feature sha hc c) node st rq) node 0 (rq_dump rq))
     (storage_execute sha fe hc c node st rq actor)"
proof -
  let ?oid = "host_operation_id sha (storage_feature sha hc c) node st rq"
  have "sends_once (dispatched_as ?oid node 0 (rq_dump rq))
      (storage_dispatch sha fe hc node st rq ?oid change plan sn l)" if "lease_operation_id l = ?oid" for change plan sn l
    unfolding storage_dispatch_def
  proof (rule dispatch_once)
    show "durably_dispatching ?oid (w_db w')"
      if "commit_io sha fe l storage_dispatching_commit w = (Inr (sn, item), w')" for w w' sn item
      using commit_io_InrD [OF that] \<open>lease_operation_id l = ?oid\<close>
      by (auto simp: storage_dispatching_commit_def commit_defaults_def dest: commit_dispatching)
  qed (auto intro!: silent_intros)
  then show ?thesis
    unfolding storage_execute_def Let_def sends_once_iff
    by (intro host_execute_sends) (simp_all add: sends_once_iff [symmetric] sends_once_at)
qed

section \<open>Success is verified\<close>

lemma storage_confirmed_success:
  assumes "storage_confirmed sha fe lease operation observed w = (Inr ''succeeded'', w')"
  shows "settled_success (lease_operation_id lease) (w_db w')"
proof (cases "sn_status operation = ''verifying''")
  case True
  with assms show ?thesis
    by (auto simp: storage_confirmed_def io_return_Inr storage_verified_commit_def fenced_def commit_defaults_def
        elim!: io_bind_InrE intro: settle_success)
next
  case False
  with assms obtain sn item w1 r w2 where
    c: "commit_io sha fe lease (storage_observed_commit operation observed) w = (Inr (sn, item), w1)"
    and v: "commit_io sha fe (renewed lease item) (storage_verified_commit sn observed) w1 = (Inr r, w')"
    by (auto simp: storage_confirmed_def io_return_Inr elim!: io_bind_InrE)
  have "settled_success (lease_operation_id (renewed lease item)) (w_db w')"
    by (rule settle_success [OF v]) (simp_all add: storage_verified_commit_def fenced_def commit_defaults_def)
  with renewed_id [OF c] show ?thesis by simp
qed

text \<open>
  \<open>storage_evidence\<close>: an acknowledged write whose observation has every reviewed field, the same
  other fields, and the storage active when it is to be enabled.
\<close>

definition storage_evidence :: "sha \<Rightarrow> host_calls \<Rightarrow> operation_snapshot \<Rightarrow> pydict \<Rightarrow> bool" where
  "storage_evidence sha hc operation observed \<longleftrightarrow>
     dget (sn_details operation) ''dispatch_acknowledged'' = PBool True \<and>
     (\<exists>node st k. storage_observe sha hc node st k = Inr observed) \<and>
     (\<exists>review desired config. dget (sn_details operation) ''review'' = PDict review \<and>
        dget review ''desired'' = PDict desired \<and> dget observed ''configuration'' = PDict config \<and> has_all config desired \<and>
        (truthy (dget config ''enabled'') \<longrightarrow> dget observed ''active'' = PBool True))"

lemma storage_matchesD:
  assumes "storage_matches observed (PDict review) = Inr True"
  shows "\<exists>desired config. dget review ''desired'' = PDict desired \<and> dget observed ''configuration'' = PDict config \<and>
    has_all config desired \<and> (truthy (dget config ''enabled'') \<longrightarrow> dget observed ''active'' = PBool True)"
  using assms
  by (auto simp: storage_matches_def all_items_def inner_def split: pyval.splits if_splits dest!: ditem_dget)

lemma storage_verify_success:
  assumes "storage_verify sha fe hc lease operation w = (Inr ''succeeded'', w')"
  shows "settled_success (lease_operation_id lease) (w_db w') \<and> (\<exists>observed. storage_evidence sha hc operation observed)"
proof -
  have paused: "storage_unconfirmed sha fe lease operation v c w1 \<noteq> (Inr ''succeeded'', w')" for v c w1
    by (auto simp: storage_unconfirmed_def io_return_Inr elim!: io_bind_InrE)
  from assms obtain observed node st k review w1 where ev:
    "storage_observe sha hc node st k = Inr observed"
    "dget (sn_details operation) ''dispatch_acknowledged'' = PBool True"
    "ditem (sn_details operation) ''review'' = Inr review" "storage_matches observed review = Inr True"
    "storage_confirmed sha fe lease operation observed w1 = (Inr ''succeeded'', w')"
    unfolding storage_verify_def
    by (auto elim!: io_bind_InrE io_try_InrE simp: io_of_Inr ebind_Inr_iff paused split: if_splits dest!: ext_read_Inr)
  from ev(4) have "\<exists>r. review = PDict r" by (cases review) (simp_all add: storage_matches_def)
  with ev have "storage_evidence sha hc operation observed"
    by (auto simp: storage_evidence_def dest!: storage_matchesD ditem_dget)
  with storage_confirmed_success [OF ev(5)] show ?thesis by blast
qed

section \<open>The policy of the transport\<close>

text \<open>Every body the service sends passes the policy for its storage.\<close>

lemma utf8_ascii: "(\<And>c. c \<in> set s \<Longrightarrow> of_char c < (128 :: nat)) \<Longrightarrow> utf8 s = s"
  by (induction s) (simp_all add: utf8_def utf8_char_def)

lemma unreserved_ascii: "unreserved c \<Longrightarrow> of_char c < (128 :: nat)"
  by (auto simp: unreserved_def is_alpha_def is_digit_def char_between_def)

lemma quote_unreserved: "(\<And>c. c \<in> set s \<Longrightarrow> unreserved c) \<Longrightarrow> py_quote s = s"
  by (simp add: py_quote_def utf8_ascii unreserved_ascii concat_map_singleton cong: map_cong)

lemma quote_id:
  assumes "is_id s"
  shows "py_quote s = s"
proof (rule quote_unreserved)
  obtain a v where s: "s = a # v" "is_alpha a \<or> is_digit a"
      and v: "\<forall>x \<in> set v. is_alpha x \<or> is_digit x \<or> x \<in> set ''_.-''"
    using assms lang_upto_cls [of _ 63 "\<lambda>c. is_alpha c \<or> is_digit c \<or> c \<in> set ''_.-''"]
    unfolding is_id_def IDENTIFIER_def matches_full_iff_lang by auto
  then show "unreserved c" if "c \<in> set s" for c
    using that by (auto simp: unreserved_def)
qed

lemma storage_change_ofD:
  assumes "storage_change_of d = Some c"
  shows "sg_mode c \<in> {''create'', ''update''}" "sg_content c \<noteq> []" "set (sg_content c) \<subseteq> set CONTENTS" "mode_ok c"
proof -
  from assms obtain content where c: "sg_content c = sort (remdups content)" "1 \<le> length content"
      "set content \<subseteq> set CONTENTS" "sg_mode c \<in> {''create'', ''update''}" "mode_ok c"
    by (auto simp: storage_change_of_def Let_def split: pyval.splits option.splits if_splits)
  then show "sg_mode c \<in> {''create'', ''update''}" "set (sg_content c) \<subseteq> set CONTENTS" "mode_ok c" by simp_all
  from c(1,2) have "set (sg_content c) \<noteq> {}" by auto
  then show "sg_content c \<noteq> []" by auto
qed

lemma content_split:
  assumes "storage_change_of d = Some c"
  shows "py_join '','' (sg_content c) \<noteq> []" "py_split CHR '','' (py_join '','' (sg_content c)) = sg_content c"
proof -
  have "CHR '','' \<notin> set w \<and> w \<noteq> []" if "w \<in> set (sg_content c)" for w
    using that storage_change_ofD(3) [OF assms] by (auto simp: CONTENTS_def)
  then show split: "py_split CHR '','' (py_join '','' (sg_content c)) = sg_content c"
    using storage_change_ofD(2) [OF assms] by (intro split_join) auto
  obtain w ws where "sg_content c = w # ws" using storage_change_ofD(2) [OF assms] by (cases "sg_content c") auto
  moreover from this have "w \<noteq> []" using storage_change_ofD(3) [OF assms] by (auto simp: CONTENTS_def)
  ultimately show "py_join '','' (sg_content c) \<noteq> []" by (cases ws) auto
qed

lemma storage_body_allowed:
  assumes change: "storage_change_of d = Some c"
    and body: "storage_mutation_body c node st before = Inr body"
    and digest: "sg_mode c = ''update'' \<Longrightarrow> \<exists>b. before = PDict b \<and> config_digest (dget b ''digest'') \<noteq> None"
    and scope: "dget_or scope ''host_storages'' (PList []) = PList ss" "PStr st \<in> set ss"
      "ditem scope ''nodes'' = Inr (PList ns)" "PStr node \<in> set ns"
  shows "storage_request_allowed (if sg_mode c = ''create'' then ''POST'' else ''PUT'')
      (if sg_mode c = ''create'' then ''/storage'' else ''/storage/'' @ st) (PDict body) scope = Inr True"
proof -
  note ok = content_split [OF change] storage_change_ofD [OF change]
  have in_scope: "in_values (PStr st) ss" "in_values (PStr node) ns"
    using scope(2,4) by (auto simp: in_values_def list_ex_iff)
  have path: "storage_path ss (''/storage/'' @ st)"
    using scope(2) by (auto simp: storage_path_def list_ex_iff py_str_def intro!: bexI [of _ "PStr st"])
  show ?thesis
  proof (cases "sg_mode c = ''create''")
    case True
    with ok(6) obtain p where p: "sg_path c = Some p" "directory_path (PStr p)" "sg_enabled c"
      by (auto simp: mode_ok_def split: option.splits)
    from True body p(1,3) have body': "body = [(''content'', PStr (py_join '','' (sg_content c))),
        (''disable'', PInt 0), (''create-base-path'', PInt 0), (''create-subdirs'', PInt 0), (''type'', PStr ''dir''),
        (''storage'', PStr st), (''path'', PStr p), (''nodes'', PStr node), (''shared'', PInt 0)]"
      by (simp add: storage_mutation_body_def opt_val_def)
    have "storage_fields_ok body" using ok(1,2,5) by (simp add: body' storage_fields_ok_def dget_Cons)
    moreover have "set (dict_keys body) = set (base_fields @ [''type'', ''storage'', ''path'', ''nodes'', ''shared''])"
      by (auto simp: body' dict_keys_def)
    then have "storage_create_allowed body ss scope = Inr True"
      using p(2) in_scope scope(3) unfolding storage_create_allowed_def by (simp add: body' dget_Cons)
    ultimately show ?thesis
      using True scope(1) by (simp add: storage_request_allowed_def scope_list_def)
  next
    case False
    with ok(3) have "sg_mode c = ''update''" by simp
    with digest obtain b where b: "before = PDict b" "config_digest (dget b ''digest'') \<noteq> None" by blast
    obtain g where g: "ditem b ''digest'' = Inr g"
      using body False b(1) by (auto simp: storage_mutation_body_def dict_item_def)
    with body False b(1) have body': "body = [(''content'', PStr (py_join '','' (sg_content c))),
        (''disable'', PInt (if sg_enabled c then 0 else 1)), (''create-base-path'', PInt 0), (''create-subdirs'', PInt 0),
        (''digest'', g)]"
      by (simp add: storage_mutation_body_def dict_item_def)
    have "storage_fields_ok body" using ok(1,2,5) by (simp add: body' storage_fields_ok_def dget_Cons)
    moreover have "set (dict_keys body) = set (base_fields @ [''digest''])" by (simp add: body' dict_keys_def)
    moreover have "config_digest (dget body ''digest'') \<noteq> None"
      using b(2) ditem_dget [OF g] by (simp add: body' dget_Cons)
    ultimately show ?thesis
      using False path scope(1) by (simp add: storage_request_allowed_def scope_list_def)
  qed
qed

end
