(* ===== verification/HostNetwork.thy ===== *)
theory HostNetwork
  imports HostStorage
begin

text \<open>
  VM bridges of a node: \<open>app/operations/host_network/domain.py\<close>, \<open>infrastructure.py\<close> and
  \<open>application.py\<close>, with the network calls of \<open>app/proxmox/client.py\<close>. A bridge change is staged,
  the pending difference is checked line by line, and only then the node's network is reloaded.
\<close>

section \<open>VLAN lists\<close>

text \<open>\<open>str.split()\<close>: the words between white space.\<close>

fun words_from :: "string \<Rightarrow> string \<Rightarrow> string list" where
  "words_from w [] = (if w = [] then [] else [w])"
| "words_from w (c # cs) =
     (if py_space c then (if w = [] then [] else [w]) @ words_from [] cs else words_from (w @ [c]) cs)"

definition py_words :: "string \<Rightarrow> string list" where
  "py_words s = words_from [] s"

definition VLAN_NUMBER :: rx where
  "VLAN_NUMBER = Cat (Cls (\<lambda>c. is_digit c \<and> c \<noteq> CHR ''0'')) (upto_times 3 (Cls is_digit))"

definition VLAN_PART :: rx where
  "VLAN_PART = Cat VLAN_NUMBER (opt (Cat (lit CHR ''-'') VLAN_NUMBER))"

definition vlan_bounds :: "string \<Rightarrow> (nat \<times> nat) option" where
  "vlan_bounds part =
     (if matches_full VLAN_PART part
      then let bounds = map nat_of_digits (py_split CHR ''-'' part); a = hd bounds; b = last bounds
           in if 1 \<le> a \<and> a \<le> b \<and> b \<le> 4094 then Some (a, b) else None
      else None)"

definition range_values :: "nat \<times> nat \<Rightarrow> nat list" where
  "range_values r = [fst r ..< Suc (snd r)]"

fun vlan_groups :: "nat \<Rightarrow> nat \<Rightarrow> nat list \<Rightarrow> (nat \<times> nat) list" where
  "vlan_groups a b [] = [(a, b)]"
| "vlan_groups a b (v # vs) = (if v = b + 1 then vlan_groups a v vs else (a, b) # vlan_groups v v vs)"

definition ordered_groups :: "nat list \<Rightarrow> (nat \<times> nat) list" where
  "ordered_groups vs = (case sort (remdups vs) of [] \<Rightarrow> [] | v # ws \<Rightarrow> vlan_groups v v ws)"

definition range_text :: "nat \<times> nat \<Rightarrow> string" where
  "range_text r = (if fst r = snd r then show_nat (fst r) else show_nat (fst r) @ ''-'' @ show_nat (snd r))"

definition vlan_ranges :: "pyval \<Rightarrow> string result" where
  "vlan_ranges v = (case v of
       PStr s \<Rightarrow>
         if length s > 1024 \<or> py_strip s = [] then Inl (PyError ValueError)
         else (case all_some (map vlan_bounds (py_words s)) of
             None \<Rightarrow> Inl (PyError ValueError)
           | Some rs \<Rightarrow> Inr (py_join '' '' (map range_text (ordered_groups (concat (map range_values rs))))))
     | _ \<Rightarrow> Inl (PyError ValueError))"

section \<open>Requests\<close>

abbreviation bridge_error :: "string \<Rightarrow> nat \<Rightarrow> error" where
  "bridge_error code status \<equiv> FeatureError (''HOST_NETWORK_'' @ code) status"

record bridge_change =
  bg_mode :: string
  bg_autostart :: bool
  bg_aware :: bool
  bg_vlans :: "string option"

definition bridge_change_make :: "string \<Rightarrow> bool \<Rightarrow> bool \<Rightarrow> pyval \<Rightarrow> bridge_change option" where
  "bridge_change_make mode autostart aware ids =
     (if mode \<notin> {''create'', ''update''} \<or> (case ids of PNone \<Rightarrow> False | PStr s \<Rightarrow> length s > 1024 | _ \<Rightarrow> True) then None
      else if aware
      then (case vlan_ranges ids of Inl _ \<Rightarrow> None
            | Inr t \<Rightarrow> Some \<lparr>bg_mode = mode, bg_autostart = autostart, bg_aware = True, bg_vlans = Some t\<rparr>)
      else if ids = PNone then Some \<lparr>bg_mode = mode, bg_autostart = autostart, bg_aware = False, bg_vlans = None\<rparr>
      else None)"

definition BRIDGE_CHANGE_FIELDS :: "string list" where
  "BRIDGE_CHANGE_FIELDS = [''mode'', ''autostart'', ''vlan_aware'', ''vlan_ids'']"

definition bridge_change_of :: "pydict \<Rightarrow> bridge_change option" where
  "bridge_change_of d =
     (case (dget d ''mode'', dget_or d ''autostart'' (PBool True), dget_or d ''vlan_aware'' (PBool False)) of
        (PStr mode, PBool autostart, PBool aware) \<Rightarrow>
          if set (dict_keys d) \<subseteq> set BRIDGE_CHANGE_FIELDS
          then bridge_change_make mode autostart aware (dget d ''vlan_ids'') else None
      | _ \<Rightarrow> None)"

definition vlans_val :: "bridge_change \<Rightarrow> pyval" where
  "vlans_val c = opt_val (\<lambda>s. PStr s) (bg_vlans c)"

definition bridge_dump :: "bridge_change \<Rightarrow> pydict" where
  "bridge_dump c = [(''mode'', PStr (bg_mode c)), (''autostart'', PBool (bg_autostart c)),
     (''vlan_aware'', PBool (bg_aware c)), (''vlan_ids'', vlans_val c)]"

definition bridge_request_of :: "pydict \<Rightarrow> change_request option" where
  "bridge_request_of d =
     (case bridge_change_of (fields_of BRIDGE_CHANGE_FIELDS d) of
        Some c \<Rightarrow>
          if set (dict_keys d) \<subseteq> set (BRIDGE_CHANGE_FIELDS @ REQUEST_FIELDS @ [''acknowledge_node_reload''])
             \<and> host_request_ok d \<and> dget d ''acknowledge_node_reload'' = PBool True
          then Some \<lparr>rq_idempotency_key = py_str (dget d ''idempotency_key''), rq_expected_name = [],
            rq_dump = bridge_dump c @ map (\<lambda>k. (k, dget d k)) REQUEST_FIELDS
              @ [(''acknowledge_node_reload'', PBool True)]\<rparr>
          else None
      | None \<Rightarrow> None)"

definition bridge_change_in :: "change_request \<Rightarrow> bridge_change result" where
  "bridge_change_in rq = (case bridge_change_of (fields_of BRIDGE_CHANGE_FIELDS (rq_dump rq)) of
       None \<Rightarrow> Inl (PyError ValueError) | Some c \<Rightarrow> Inr c)"

definition bridge_target :: "string \<Rightarrow> string \<Rightarrow> (string \<times> string) result" where
  "bridge_target node_id bridge_id =
     (case target_identity ''host_network'' (PDict [(''node_id'', PStr node_id), (''bridge_id'', PStr bridge_id)]) of
        Inl _ \<Rightarrow> Inl (bridge_error ''TARGET_INVALID'' 422) | Inr p \<Rightarrow> Inr p)"

section \<open>Bridges\<close>

definition bridge_flag :: "pyval \<Rightarrow> bool result" where
  "bridge_flag v = (case v of
       PNone \<Rightarrow> Inr False
     | PBool b \<Rightarrow> Inr b
     | PInt i \<Rightarrow> if i \<in> {0, 1} then Inr (i = 1) else Inl (bridge_error ''CONFIG_INVALID'' 503)
     | PStr s \<Rightarrow> if s \<in> {''0'', ''1''} then Inr (s = ''1'') else Inl (bridge_error ''CONFIG_INVALID'' 503)
     | _ \<Rightarrow> Inl (bridge_error ''CONFIG_INVALID'' 503))"

definition DYNAMIC_FIELDS :: "string list" where
  "DYNAMIC_FIELDS = [''active'', ''exists'', ''priority'']"

definition MUTABLE_FIELDS :: "string list" where
  "MUTABLE_FIELDS = [''autostart'', ''bridge_vlan_aware'', ''bridge_vids'']"

definition BRIDGE_FIELDS :: "string list" where
  "BRIDGE_FIELDS = [''iface'', ''type'', ''families'', ''method'', ''method6'', ''autostart'', ''bridge_vlan_aware'',
     ''bridge_vids'', ''bridge_ports'', ''bridge_stp'', ''bridge_fd'', ''mtu'', ''comments'', ''comments6'',
     ''active'', ''exists'', ''priority'', ''altnames'', ''is_empty_bridge'']"

definition PORT :: rx where
  "PORT = Cat (Cls is_alpha) (upto_times 63 (Cls (\<lambda>c. is_alpha c \<or> is_digit c \<or> c \<in> set ''_.:-'')))"

definition bridge_ports :: "pydict \<Rightarrow> string list option" where
  "bridge_ports row = (case dget_or row ''bridge_ports'' (PStr []) of
       PStr s \<Rightarrow> if list_all (matches_full PORT) (py_words s) then Some (sort (py_words s)) else None
     | _ \<Rightarrow> None)"

definition bridge_vlans :: "pydict \<Rightarrow> bool \<Rightarrow> pyval result" where
  "bridge_vlans row aware =
     (if \<not> aware then Inr PNone
      else (case vlan_ranges (dget_or row ''bridge_vids'' (PStr ''2-4094'')) of
          Inl _ \<Rightarrow> Inl (bridge_error ''CONFIG_INVALID'' 503) | Inr t \<Rightarrow> Inr (PStr t)))"

definition managed_bridge :: "pydict \<Rightarrow> bool" where
  "managed_bridge row =
     (set (dict_keys row) \<subseteq> set BRIDGE_FIELDS \<and> dget row ''method'' = PStr ''manual''
      \<and> dget row ''method6'' \<in> {PNone, PStr ''manual''} \<and> dget row ''families'' = PList [PStr ''inet''])"

definition summarize_bridge :: "sha \<Rightarrow> pydict \<Rightarrow> string \<Rightarrow> pydict result" where
  "summarize_bridge sha row bridge_id =
     ebind (raise_if (dget row ''iface'' \<noteq> PStr bridge_id \<or> dget row ''type'' \<noteq> PStr ''bridge'')
        (bridge_error ''TYPE_UNSUPPORTED'' 409)) (\<lambda>_.
     ebind (raise_if (\<not> managed_bridge row) (bridge_error ''MANAGEMENT_UNSUPPORTED'' 409)) (\<lambda>_.
       case bridge_ports row of
         None \<Rightarrow> Inl (bridge_error ''CONFIG_INVALID'' 503)
       | Some ports \<Rightarrow>
           ebind (bridge_flag (dget row ''bridge_vlan_aware'')) (\<lambda>aware.
           ebind (bridge_vlans row aware) (\<lambda>ids.
           ebind (bridge_flag (dget row ''autostart'')) (\<lambda>autostart.
           ebind (bridge_flag (dget row ''active'')) (\<lambda>active.
           ebind (bridge_flag (dget row ''exists'')) (\<lambda>present.
             Inr [(''bridge_id'', PStr bridge_id), (''type'', PStr ''bridge''), (''ports'', PList (map PStr ports)),
                  (''autostart'', PBool autostart), (''vlan_aware'', PBool aware), (''vlan_ids'', ids),
                  (''active'', PBool active), (''exists'', PBool present),
                  (''preserved_fingerprint'', PStr (operation_digest sha
                     (filter (\<lambda>(k, v). k \<notin> set (DYNAMIC_FIELDS @ MUTABLE_FIELDS)) row)))])))))))"

text \<open>A snapshot: the interfaces and the pending difference (\<open>get_host_network_snapshot\<close>).\<close>

type_synonym snapshot = "pydict list \<times> string"

definition iface_name :: "pydict \<Rightarrow> string option" where
  "iface_name row = (case dget row ''iface'' of PStr s \<Rightarrow> if s = [] then None else Some s | _ \<Rightarrow> None)"

definition configuration_rows :: "snapshot \<Rightarrow> (string \<times> pydict) list result" where
  "configuration_rows snap =
     (case all_some (map iface_name (fst snap)) of
        None \<Rightarrow> Inl (bridge_error ''OBSERVATION_INVALID'' 503)
      | Some names \<Rightarrow> if distinct names then Inr (zip names (fst snap))
                      else Inl (bridge_error ''OBSERVATION_INVALID'' 503))"

definition other_fingerprint :: "sha \<Rightarrow> (string \<times> pydict) list \<Rightarrow> string \<Rightarrow> string" where
  "other_fingerprint sha rows bridge_id =
     operation_digest sha (map (\<lambda>(name, row). (name, PDict (filter (\<lambda>(k, v). k \<notin> set DYNAMIC_FIELDS) row)))
       (filter (\<lambda>(name, row). name \<noteq> bridge_id) rows))"

definition bridge_desired :: "bridge_change \<Rightarrow> pydict option \<Rightarrow> pydict" where
  "bridge_desired change before =
     [(''autostart'', PBool (bg_autostart change)), (''vlan_aware'', PBool (bg_aware change)),
      (''vlan_ids'', vlans_val change),
      (''ports'', case before of None \<Rightarrow> PList [] | Some b \<Rightarrow> dget b ''ports'')]"

definition bridge_plan :: "sha \<Rightarrow> string \<Rightarrow> string \<Rightarrow> bridge_change \<Rightarrow> (string \<times> pydict) list \<Rightarrow> pydict option \<Rightarrow> pydict" where
  "bridge_plan sha node_id bridge_id change rows before =
     [(''target'', PDict [(''node_id'', PStr node_id), (''bridge_id'', PStr bridge_id)]),
      (''mode'', PStr (bg_mode change)), (''observed_before'', opt_val PDict before),
      (''desired'', PDict (bridge_desired change before)),
      (''other_configuration_fingerprint'', PStr (other_fingerprint sha rows bridge_id))]"

definition bridge_review_digest :: "sha \<Rightarrow> pydict \<Rightarrow> pydict option \<Rightarrow> string" where
  "bridge_review_digest sha plan before =
     operation_digest sha (dset ''observed_before'' (opt_val (\<lambda>b. PDict
       (filter (\<lambda>(k, v). k \<notin> {''active'', ''exists''}) b)) before) plan)"

definition bridge_make_review :: "sha \<Rightarrow> string \<Rightarrow> string \<Rightarrow> bridge_change \<Rightarrow> snapshot \<Rightarrow> pydict result" where
  "bridge_make_review sha node_id bridge_id change snap =
     ebind (bridge_target node_id bridge_id) (\<lambda>_.
     ebind (configuration_rows snap) (\<lambda>rows.
     ebind (raise_if (snd snap \<noteq> []) (bridge_error ''PENDING_CHANGES'' 409)) (\<lambda>_.
     ebind (case map_of rows bridge_id of None \<Rightarrow> Inr None
            | Some row \<Rightarrow> ebind (summarize_bridge sha row bridge_id) (\<lambda>b. Inr (Some b))) (\<lambda>before.
     ebind (raise_if ((bg_mode change = ''create'') \<noteq> (before = None)) (bridge_error ''EXISTENCE_CHANGED'' 409)) (\<lambda>_.
     ebind (raise_if (case before of None \<Rightarrow> False | Some b \<Rightarrow> has_all b (bridge_desired change before))
        (bridge_error ''NO_CHANGE'' 422)) (\<lambda>_.
       let plan = bridge_plan sha node_id bridge_id change rows before
       in Inr (plan @ [(''review_digest'', PStr (bridge_review_digest sha plan before)),
            (''confirmation'', PStr (node_id @ ''/'' @ bridge_id @ ''/'' @ bg_mode change))])))))))"

definition bridge_mutation_body :: "bridge_change \<Rightarrow> pyval \<Rightarrow> pydict" where
  "bridge_mutation_body change bridge =
     [(''type'', PStr ''bridge''), (''autostart'', PInt (of_bool (bg_autostart change))),
      (''bridge_vlan_aware'', PInt (of_bool (bg_aware change)))]
     @ (if bg_mode change = ''create'' then [(''iface'', bridge), (''bridge_ports'', PStr [])] else [])
     @ (if bg_aware change then [(''bridge_vids'', vlans_val change)]
        else if bg_mode change = ''update'' then [(''delete'', PStr ''bridge_vids'')] else [])"

section \<open>The pending difference\<close>

definition truth_of :: "pydict \<Rightarrow> string \<Rightarrow> bool result" where
  "truth_of d k = ebind (ditem d k) (\<lambda>v. Inr (truthy v))"

definition created_lines :: "string \<Rightarrow> string list" where
  "created_lines bridge_id = [''iface '' @ bridge_id @ '' inet manual'', ''bridge-ports none'', ''bridge-stp off'', ''bridge-fd 0'']"

definition directive_allowed :: "string \<Rightarrow> bool \<Rightarrow> pydict \<Rightarrow> string \<Rightarrow> pydict \<Rightarrow> bool result" where
  "directive_allowed stripped added review bridge_id config =
     (if stripped = ''auto '' @ bridge_id then truth_of config ''autostart''
      else if stripped = ''bridge-vlan-aware yes'' then truth_of config ''vlan_aware''
      else if starts_with ''bridge-vids '' stripped
      then eand (truth_of config ''vlan_aware'')
             (case vlan_ranges (PStr (drop 12 stripped)) of
                Inl _ \<Rightarrow> Inr False
              | Inr t \<Rightarrow> ebind (ditem config ''vlan_ids'') (\<lambda>ids. Inr (py_eq (PStr t) ids)))
      else ebind (ditem review ''mode'') (\<lambda>mode.
             Inr (mode = PStr ''create'' \<and> added \<and> stripped \<in> set (created_lines bridge_id))))"

definition allowed_diff_line :: "string \<Rightarrow> bool \<Rightarrow> pydict \<Rightarrow> bool result" where
  "allowed_diff_line line added review =
     (let stripped = py_join '' '' (py_words line) in
      if stripped = [] then Inr True
      else ebind (ebind (inner review ''target'') (\<lambda>t. ditem t ''bridge_id'')) (\<lambda>bridge_id.
           ebind (ditem review (if added then ''desired'' else ''observed_before'')) (\<lambda>config. case config of
               PNone \<Rightarrow> Inr False
             | PDict c \<Rightarrow> directive_allowed stripped added review (py_str bridge_id) c
             | _ \<Rightarrow> Inl (PyError TypeError))))"

definition HUNK :: rx where
  "HUNK = (let number = plus (Cls is_digit); count = Grp (opt (Cat (lit CHR '','') number)) in
     cats [word_rx ''@@ -'', number, count, word_rx '' +'', number, count, word_rx '' @@'',
       opt (Cat (lit CHR '' '') (Star (Cls (\<lambda>c. c \<noteq> CHR 0x0A))))])"

definition hunk_count :: "string \<Rightarrow> int result" where
  "hunk_count g = (if g = [] then Inr 1 else int_of_text (tl g))"

text \<open>The lines still expected on the old and the new side, whether a line changed, the hunks seen.\<close>

record diff_state =
  df_old :: int
  df_new :: int
  df_changed :: bool
  df_hunks :: nat

abbreviation diff_unverified :: error where
  "diff_unverified \<equiv> bridge_error ''DIFF_UNVERIFIED'' 409"

definition hunk_header :: "string \<Rightarrow> diff_state \<Rightarrow> diff_state result" where
  "hunk_header line st =
     (case fullmatch HUNK line of
        Some [a, b] \<Rightarrow>
          if df_old st \<noteq> 0 \<or> df_new st \<noteq> 0 then Inl diff_unverified
          else ebind (hunk_count a) (\<lambda>x. ebind (hunk_count b) (\<lambda>y.
            Inr (st\<lparr>df_old := x, df_new := y, df_hunks := Suc (df_hunks st)\<rparr>)))
      | _ \<Rightarrow> Inl diff_unverified)"

definition diff_line :: "pydict \<Rightarrow> string \<Rightarrow> diff_state \<Rightarrow> diff_state result" where
  "diff_line review line st =
     (if starts_with ''@@'' line then hunk_header line st
      else (case line of
          [] \<Rightarrow> Inl diff_unverified
        | sign # value \<Rightarrow>
            if df_hunks st = 0 \<or> sign \<notin> set '' +-'' then Inl diff_unverified
            else let st' = st\<lparr>df_old := df_old st - (if sign \<in> set '' -'' then 1 else 0),
                              df_new := df_new st - (if sign \<in> set '' +'' then 1 else 0)\<rparr>
                 in if min (df_old st') (df_new st') < 0 then Inl diff_unverified
                    else if sign = CHR '' '' then Inr st'
                    else ebind (allowed_diff_line value (sign = CHR ''+'') review) (\<lambda>allowed.
                           if \<not> allowed then Inl (bridge_error ''FOREIGN_CHANGES'' 409)
                           else Inr (st'\<lparr>df_changed := df_changed st \<or> py_strip value \<noteq> []\<rparr>))))"

fun diff_lines :: "pydict \<Rightarrow> string list \<Rightarrow> diff_state \<Rightarrow> diff_state result" where
  "diff_lines review [] st = Inr st"
| "diff_lines review (line # rest) st = ebind (diff_line review line st) (diff_lines review rest)"

definition assert_pending_diff :: "string \<Rightarrow> pydict \<Rightarrow> unit result" where
  "assert_pending_diff changes review =
     (if length changes > 262144 then Inl diff_unverified
      else (case splitlines changes of
          old # new # ls # rest \<Rightarrow>
            if starts_with (''--- /etc/network/interfaces'' @ [CHR 0x09]) old
               \<and> starts_with (''+++ /etc/network/interfaces.new'' @ [CHR 0x09]) new
            then ebind (diff_lines review (ls # rest) \<lparr>df_old = 0, df_new = 0, df_changed = False, df_hunks = 0\<rparr>) (\<lambda>st.
                   raise_if (df_hunks st = 0 \<or> \<not> df_changed st \<or> df_old st \<noteq> 0 \<or> df_new st \<noteq> 0) diff_unverified)
            else Inl diff_unverified
        | _ \<Rightarrow> Inl diff_unverified))"

section \<open>Observations\<close>

fun differs :: "pydict \<Rightarrow> pydict \<Rightarrow> bool result" where
  "differs observed [] = Inr False"
| "differs observed ((k, v) # rest) =
     ebind (ditem observed k) (\<lambda>x. if \<not> py_eq x v then Inr True else differs observed rest)"

definition eor :: "bool result \<Rightarrow> bool result \<Rightarrow> bool result" where
  "eor a b = ebind a (\<lambda>x. if x then Inr True else b)"

definition bridge_changed :: "sha \<Rightarrow> (string \<times> pydict) list \<Rightarrow> string \<Rightarrow> pydict \<Rightarrow> pydict \<Rightarrow> bool result" where
  "bridge_changed sha rows bridge_id observed review =
     ebind (ditem review ''observed_before'') (\<lambda>before.
     eor (ebind (inner review ''desired'') (differs observed))
    (eor (if before = PNone then Inr False
          else ebind (dict_item before ''preserved_fingerprint'') (\<lambda>old.
                 Inr (\<not> py_eq (dget observed ''preserved_fingerprint'') old)))
         (ebind (ditem review ''other_configuration_fingerprint'') (\<lambda>other.
            Inr (\<not> py_eq (PStr (other_fingerprint sha rows bridge_id)) other)))))"

definition bridge_observation :: "pydict \<Rightarrow> string \<Rightarrow> pydict" where
  "bridge_observation observed changes =
     [(''configuration'', PDict observed), (''pending_changes'', PBool (changes \<noteq> [])),
      (''other_configuration_preserved'', PBool True), (''guest_connectivity_verified'', PBool False),
      (''kernel_vlan_table_verified'', PBool False), (''immediate_down_verified'', PBool False)]"

definition observe_bridge :: "sha \<Rightarrow> snapshot \<Rightarrow> pydict \<Rightarrow> bool \<Rightarrow> pydict result" where
  "observe_bridge sha snap review staged =
     ebind (configuration_rows snap) (\<lambda>rows.
     ebind (ebind (inner review ''target'') (\<lambda>t. ditem t ''bridge_id'')) (\<lambda>b. let bridge_id = py_str b in
       case map_of rows bridge_id of
         None \<Rightarrow> Inl (bridge_error ''RESULT_ABSENT'' 409)
       | Some row \<Rightarrow>
           ebind (summarize_bridge sha row bridge_id) (\<lambda>observed.
           ebind (bridge_changed sha rows bridge_id observed review) (\<lambda>changed.
           ebind (raise_if changed (bridge_error ''CONFIGURATION_CHANGED'' 409)) (\<lambda>_.
           ebind (if staged then assert_pending_diff (snd snap) review
                  else raise_if (snd snap \<noteq> []) (bridge_error ''PENDING_CHANGES'' 409)) (\<lambda>_.
           ebind (if staged then Inr False
                  else eand (ebind (inner review ''desired'') (\<lambda>d. truth_of d ''autostart''))
                         (Inr (dget observed ''active'' \<noteq> PBool True))) (\<lambda>inactive.
           ebind (raise_if inactive (bridge_error ''ACTIVE_UNCONFIRMED'' 409)) (\<lambda>_.
             Inr (bridge_observation observed (snd snap))))))))))"

definition observe_configuration :: "sha \<Rightarrow> snapshot \<Rightarrow> pyval \<Rightarrow> bool \<Rightarrow> pydict result" where
  "observe_configuration sha snap review staged = (case review of
       PDict r \<Rightarrow> observe_bridge sha snap r staged
     | _ \<Rightarrow> ebind (configuration_rows snap) (\<lambda>_. Inl (PyError TypeError)))"

section \<open>The transport policy\<close>

definition bridge_policy_change :: "pydict \<Rightarrow> bool \<Rightarrow> bridge_change option" where
  "bridge_policy_change d create =
     (case (dget d ''autostart'', dget d ''bridge_vlan_aware'') of
        (PInt a, PInt w) \<Rightarrow>
          if a \<in> {0, 1} \<and> w \<in> {0, 1}
          then bridge_change_make (if create then ''create'' else ''update'') (a = 1) (w = 1) (dget d ''bridge_vids'')
          else None
      | _ \<Rightarrow> None)"

definition bridge_write_allowed :: "string \<Rightarrow> string list \<Rightarrow> pydict \<Rightarrow> pydict \<Rightarrow> bool result" where
  "bridge_write_allowed method pieces d scope =
     (let create = (method = ''POST'' \<and> length pieces = 3); update = (method = ''PUT'' \<and> length pieces = 4) in
      if \<not> create \<and> \<not> update then Inr False
      else let bridge = (if create then dget d ''iface'' else PStr (pieces ! 3))
           in eand (in_scope_or scope ''host_bridges'' bridge)
                (case bridge_policy_change d create of
                   None \<Rightarrow> Inr False
                 | Some change \<Rightarrow> Inr (py_eq (PDict d) (PDict (bridge_mutation_body change bridge)))))"

definition host_network_request_allowed :: "string \<Rightarrow> string list \<Rightarrow> pyval \<Rightarrow> pydict \<Rightarrow> bool result" where
  "host_network_request_allowed method pieces data scope =
     (if length pieces \<notin> {3, 4} \<or> pieces ! 0 \<noteq> ''nodes'' then Inr False
      else ebind (ditem scope ''nodes'') (\<lambda>nodes. case nodes of
          PList ns \<Rightarrow>
            if \<not> in_values (PStr (pieces ! 1)) ns \<or> pieces ! 2 \<noteq> ''network'' then Inr False
            else if method = ''GET''
            then (if data \<noteq> PNone then Inr False else if length pieces = 3 then Inr True
                  else in_scope_or scope ''host_bridges'' (PStr (pieces ! 3)))
            else if method = ''PUT'' \<and> length pieces = 3 then Inr (data = PDict [(''regenerate-frr'', PInt 0)])
            else (case data of PDict d \<Rightarrow> bridge_write_allowed method pieces d scope | _ \<Rightarrow> Inr False)
        | _ \<Rightarrow> Inl (PyError TypeError)))"

definition reload_upid_rx :: "string \<Rightarrow> rx" where
  "reload_upid_rx node_id = cats [word_rx (''UPID:'' @ node_id @ '':''), HEX_COLON, HEX_COLON, HEX_COLON,
     word_rx ''srvreload:networking:'', UPID_USER, lit CHR '':'']"

definition reload_reference :: "string \<Rightarrow> pyval \<Rightarrow> string result" where
  "reload_reference node_id value = (case value of
       PStr s \<Rightarrow> if length s > 512 \<or> \<not> matches_full (reload_upid_rx node_id) s
                 then Inl (bridge_error ''TASK_UNKNOWN'' 503) else Inr s
     | _ \<Rightarrow> Inl (bridge_error ''TASK_UNKNOWN'' 503))"

section \<open>VLAN lists denote sets\<close>

lemma lang_Cls_Cons: "c # w \<in> lang (Cat (Cls p) r) \<longleftrightarrow> p c \<and> w \<in> lang r"
proof
  show "p c \<and> w \<in> lang r" if "c # w \<in> lang (Cat (Cls p) r)" using that by auto
  show "c # w \<in> lang (Cat (Cls p) r)" if "p c \<and> w \<in> lang r"
  proof -
    have "[c] @ w \<in> lang (Cat (Cls p) r)" unfolding lang.simps using that by blast
    then show ?thesis by simp
  qed
qed

lemma upto_clsI: "length w \<le> n \<Longrightarrow> \<forall>c \<in> set w. p c \<Longrightarrow> w \<in> lang (upto_times n (Cls p))"
proof (induction n arbitrary: w)
  case (Suc n)
  then show ?case by (cases w) (simp_all add: opt_def lang_Cls_Cons del: lang.simps(3))
qed (simp add: opt_def)

lemma show_nat_head: "0 < n \<Longrightarrow> hd (show_nat n) \<noteq> CHR ''0''"
proof (induction n rule: show_nat.induct)
  case (1 n)
  show ?case
  proof (cases "n < 10")
    case True
    then have "digit_val (hd (show_nat n)) = n" by (subst show_nat.simps) simp
    moreover have "digit_val (CHR ''0'') = 0" by (simp add: digit_val_def)
    ultimately show ?thesis using 1(2) by auto
  next
    case False
    then have "0 < n div 10" by simp
    with 1(1) False have "hd (show_nat (n div 10)) \<noteq> CHR ''0''" by simp
    with False show ?thesis by (subst show_nat.simps) simp
  qed
qed

lemma show_nat_length: "n < 10 ^ k \<Longrightarrow> 0 < k \<Longrightarrow> length (show_nat n) \<le> k"
proof (induction k arbitrary: n)
  case (Suc k)
  show ?case
  proof (cases "n < 10")
    case False
    then have "k \<noteq> 0" using Suc.prems by (cases k) auto
    moreover have "n div 10 < 10 ^ k" using Suc.prems(1) by (simp add: less_mult_imp_div_less mult.commute)
    ultimately have "length (show_nat (n div 10)) \<le> k" using Suc.IH by simp
    with False show ?thesis by (subst show_nat.simps) simp
  qed (subst show_nat.simps, simp)
qed simp

lemma vlan_number:
  assumes "1 \<le> n" "n \<le> 4094"
  shows "show_nat n \<in> lang VLAN_NUMBER"
proof -
  obtain c cs where s: "show_nat n = c # cs" using show_nat_nonempty [of n] by (cases "show_nat n") auto
  have "length (show_nat n) \<le> 4" using assms by (intro show_nat_length) simp_all
  with s have "length cs \<le> 3" by simp
  moreover have "\<forall>x \<in> set cs. is_digit x" "is_digit c" using show_nat_digits [of n] s by simp_all
  moreover have "c \<noteq> CHR ''0''" using show_nat_head [of n] s assms by simp
  ultimately show ?thesis
    unfolding VLAN_NUMBER_def s lang_Cls_Cons by (blast intro: upto_clsI)
qed

definition vlan_ok :: "nat \<times> nat \<Rightarrow> bool" where
  "vlan_ok r \<longleftrightarrow> 1 \<le> fst r \<and> fst r \<le> snd r \<and> snd r \<le> 4094"

lemma show_nat_no_dash: "CHR ''-'' \<notin> set (show_nat n)"
  using show_nat_digits [of n] by (auto simp: is_digit_def char_between_def)

lemma range_text_lang:
  assumes "1 \<le> a" "a \<le> b" "b \<le> 4094"
  shows "range_text (a, b) \<in> lang VLAN_PART"
proof (cases "a = b")
  case True
  have "show_nat a \<in> lang VLAN_NUMBER" using assms by (intro vlan_number) simp_all
  moreover have "[] \<in> lang (opt (Cat (lit CHR ''-'') VLAN_NUMBER))" by (simp add: opt_def)
  ultimately have "show_nat a @ [] \<in> lang VLAN_PART" unfolding VLAN_PART_def lang.simps by blast
  with True show ?thesis by (simp add: range_text_def)
next
  case False
  have n: "show_nat a \<in> lang VLAN_NUMBER" "show_nat b \<in> lang VLAN_NUMBER" using assms by (auto intro: vlan_number)
  then have "''-'' @ show_nat b \<in> lang (opt (Cat (lit CHR ''-'') VLAN_NUMBER))"
    unfolding opt_def lang.simps lang_lit by blast
  with n(1) have "show_nat a @ ''-'' @ show_nat b \<in> lang VLAN_PART" unfolding VLAN_PART_def lang.simps by blast
  with False show ?thesis by (simp add: range_text_def)
qed

lemma bounds_text:
  assumes "vlan_ok r"
  shows "vlan_bounds (range_text r) = Some r"
proof -
  obtain a b where r: "r = (a, b)" by (cases r)
  with assms have ab: "1 \<le> a" "a \<le> b" "b \<le> 4094" by (simp_all add: vlan_ok_def)
  have "matches_full VLAN_PART (range_text (a, b))"
    unfolding matches_full_iff_lang by (rule range_text_lang [OF ab])
  moreover have "map nat_of_digits (py_split CHR ''-'' (range_text (a, b))) = (if a = b then [a] else [a, b])"
    by (simp add: range_text_def py_split_append_sep py_split_no_sep show_nat_no_dash)
  ultimately show ?thesis using ab by (simp add: vlan_bounds_def r)
qed

lemma bounds_ok: "vlan_bounds part = Some r \<Longrightarrow> vlan_ok r"
  by (auto simp: vlan_bounds_def vlan_ok_def Let_def split: if_splits)

text \<open>Joining the words of a text and taking it apart again.\<close>

lemma words_from_word: "\<forall>c \<in> set u. \<not> py_space c \<Longrightarrow> words_from w (u @ s) = words_from (w @ u) s"
  by (induction u arbitrary: w) auto

lemma words_join:
  assumes "\<And>w. w \<in> set ws \<Longrightarrow> w \<noteq> [] \<and> (\<forall>c \<in> set w. \<not> py_space c)"
  shows "py_words (py_join '' '' ws) = ws"
  using assms unfolding py_words_def
proof (induction "'' ''" ws rule: py_join.induct)
  case (2 w)
  then show ?case using words_from_word [of w "[]" "[]"] by simp
next
  case (3 w v ws)
  have w: "\<forall>c \<in> set w. \<not> py_space c" "w \<noteq> []" using "3.prems" by auto
  have "words_from [] (w @ '' '' @ py_join '' '' (v # ws)) = words_from w ('' '' @ py_join '' '' (v # ws))"
    using words_from_word [OF w(1)] by (simp only: append_Nil)
  also have "\<dots> = w # words_from [] (py_join '' '' (v # ws))"
    using w(2) by (simp add: py_space_def)
  also have "words_from [] (py_join '' '' (v # ws)) = v # ws"
    using "3.prems" by (intro "3"(1)) auto
  finally show ?case by simp
qed simp

text \<open>The groups denote the sorted list they were made of.\<close>

lemma vlan_groups_values:
  "a \<le> b \<Longrightarrow> sorted_wrt (<) (b # vs) \<Longrightarrow> concat (map range_values (vlan_groups a b vs)) = [a ..< Suc b] @ vs"
proof (induction a b vs rule: vlan_groups.induct)
  case (2 a b v vs)
  show ?case
  proof (cases "v = b + 1")
    case True
    with 2 show ?thesis by simp
  next
    case False
    with 2 show ?thesis by (simp add: range_values_def)
  qed
qed (simp add: range_values_def)

lemma ordered_groups_values: "concat (map range_values (ordered_groups vs)) = sort (remdups vs)"
proof (cases "sort (remdups vs)")
  case (Cons v ws)
  have "sorted_wrt (<) (sort (remdups vs))"
    by (simp add: strict_sorted_iff)
  then have "sorted_wrt (<) (v # ws)" by (simp only: Cons)
  then have "concat (map range_values (vlan_groups v v ws)) = [v ..< Suc v] @ ws"
    by (intro vlan_groups_values) simp_all
  then show ?thesis by (simp add: ordered_groups_def Cons)
qed (simp add: ordered_groups_def)

lemma vlan_groups_ok:
  "1 \<le> a \<Longrightarrow> a \<le> b \<Longrightarrow> b \<le> 4094 \<Longrightarrow> sorted_wrt (<) (b # vs) \<Longrightarrow> \<forall>v \<in> set vs. v \<le> 4094 \<Longrightarrow>
     \<forall>r \<in> set (vlan_groups a b vs). vlan_ok r"
  by (induction a b vs rule: vlan_groups.induct) (auto simp: vlan_ok_def)

lemma ordered_groups_ok:
  assumes "\<forall>v \<in> set vs. 1 \<le> v \<and> v \<le> 4094"
  shows "\<forall>r \<in> set (ordered_groups vs). vlan_ok r"
proof (cases "sort (remdups vs)")
  case (Cons v ws)
  have "sorted_wrt (<) (v # ws)" unfolding Cons [symmetric] by (simp add: strict_sorted_iff)
  moreover have "\<forall>x \<in> set (v # ws). 1 \<le> x \<and> x \<le> 4094"
    unfolding Cons [symmetric] using assms by simp
  ultimately show ?thesis using vlan_groups_ok [of v v ws] by (simp add: ordered_groups_def Cons)
qed (simp add: ordered_groups_def)

text \<open>The set of identifiers that a VLAN text denotes.\<close>

definition vlan_ids :: "string \<Rightarrow> nat set option" where
  "vlan_ids s = map_option (\<lambda>rs. set (concat (map range_values rs))) (all_some (map vlan_bounds (py_words s)))"

lemma words_from_Nil_iff: "words_from w s = [] \<longleftrightarrow> w = [] \<and> (\<forall>c \<in> set s. py_space c)"
  by (induction s arbitrary: w) auto

lemma strip_by_Nil_iff: "strip_by p s = [] \<longleftrightarrow> (\<forall>x \<in> set s. p x)"
proof
  assume "strip_by p s = []"
  then have "\<forall>x \<in> set (dropWhile p s). p x" by (simp add: strip_by_def)
  then have "dropWhile p s = []" using hd_dropWhile [of p s] by (cases "dropWhile p s") auto
  then show "\<forall>x \<in> set s. p x" by simp
next
  assume "\<forall>x \<in> set s. p x"
  then have "dropWhile p s = []" by simp
  then have "rev (dropWhile p s) = []" by (simp only: rev.simps)
  then show "strip_by p s = []" by (simp only: strip_by_def) simp
qed

lemma strip_words: "py_strip s = [] \<longleftrightarrow> py_words s = []"
  by (simp add: py_strip_def py_words_def words_from_Nil_iff strip_by_Nil_iff)

lemma all_some_map_Some: "all_some (map Some xs) = Some xs"
  by (induction xs) auto

lemma all_some_mem: "all_some ys = Some xs \<Longrightarrow> x \<in> set xs \<Longrightarrow> Some x \<in> set ys"
  by (induction ys arbitrary: xs) (auto split: option.splits)

lemma range_text_word: "range_text r \<noteq> [] \<and> (\<forall>c \<in> set (range_text r). \<not> py_space c)"
  using show_nat_digits [of "fst r"] show_nat_digits [of "snd r"] digit_not_sign
  by (auto simp: range_text_def py_space_def)

lemma range_values_ok: "vlan_ok r \<Longrightarrow> v \<in> set (range_values r) \<Longrightarrow> 1 \<le> v \<and> v \<le> 4094"
  by (auto simp: vlan_ok_def range_values_def)

lemma ordered_groups_again: "ordered_groups (concat (map range_values (ordered_groups vs))) = ordered_groups vs"
proof -
  have "sort (remdups (sort (remdups vs))) = sort (remdups vs)"
    by (simp add: distinct_remdups_id sorted_sort_id)
  then show ?thesis unfolding ordered_groups_values by (simp add: ordered_groups_def)
qed

lemma vlan_ranges_canonical:
  assumes "vlan_ranges (PStr s) = Inr t"
  shows "vlan_ids t = vlan_ids s" "length t \<le> 1024 \<Longrightarrow> vlan_ranges (PStr t) = Inr t"
proof -
  from assms obtain rs where s: "py_strip s \<noteq> []" "all_some (map vlan_bounds (py_words s)) = Some rs"
      and t: "t = py_join '' '' (map range_text (ordered_groups (concat (map range_values rs))))"
    by (auto simp: vlan_ranges_def split: if_splits option.splits)
  let ?vs = "concat (map range_values rs)"
  let ?gs = "ordered_groups ?vs"
  have ok: "vlan_ok r" if "r \<in> set rs" for r
    using all_some_mem [OF s(2) that] bounds_ok [of _ r] by (auto simp: eq_commute [of "Some r"])
  have "\<forall>v \<in> set ?vs. 1 \<le> v \<and> v \<le> 4094" using range_values_ok ok by fastforce
  from ordered_groups_ok [OF this] have gs: "\<forall>r \<in> set ?gs. vlan_ok r" .
  have words: "py_words t = map range_text ?gs"
    unfolding t using range_text_word by (intro words_join) auto
  then have "map vlan_bounds (py_words t) = map Some ?gs" using gs bounds_text by simp
  then have all: "all_some (map vlan_bounds (py_words t)) = Some ?gs" by (simp only: all_some_map_Some)
  show "vlan_ids t = vlan_ids s"
    unfolding vlan_ids_def all s(2) option.map ordered_groups_values by simp
  have "rs \<noteq> []" using s strip_words by (cases "py_words s") (auto split: option.splits)
  then have "?vs \<noteq> []" using ok by (cases rs) (auto simp: range_values_def vlan_ok_def)
  then have "set (concat (map range_values ?gs)) \<noteq> {}" unfolding ordered_groups_values by simp
  then have "?gs \<noteq> []" by auto
  then have "py_strip t \<noteq> []" using words by (simp add: strip_words)
  then show "vlan_ranges (PStr t) = Inr t" if "length t \<le> 1024"
    using that by (simp add: vlan_ranges_def all ordered_groups_again t [symmetric])
qed

end
