(* ===== verification/HostBridge.thy ===== *)
theory HostBridge
  imports HostNetwork
begin

text \<open>
  The bridge service: \<open>app/operations/host_network/infrastructure.py\<close> and \<open>application.py\<close>. An
  operation sends at most two mutations, the staged configuration and the reload of the node, and
  the reload only after the staged configuration was read back and checked.
\<close>

section \<open>Client\<close>

definition bridge_permissions :: "host_calls \<Rightarrow> string \<Rightarrow> nat \<Rightarrow> unit result" where
  "bridge_permissions hc node_id k =
     ebind (read_or (hc_network_permissions hc node_id k) ''HOST_NETWORK_PERMISSION_UNAVAILABLE'' 503) (\<lambda>(node, zone).
       raise_if (\<not> {''Sys.Audit'', ''Sys.Modify''} \<subseteq> set node \<or> ''SDN.Audit'' \<notin> set zone)
         (bridge_error ''PERMISSION_DENIED'' 403))"

definition bridge_read :: "host_calls \<Rightarrow> string \<Rightarrow> nat \<Rightarrow> snapshot result" where
  "bridge_read hc node_id k =
     ebind (host_node_online (hc_client hc) ''HOST_NETWORK_OBSERVATION_UNAVAILABLE'' ''HOST_NETWORK_NODE_UNAVAILABLE''
        node_id k) (\<lambda>_.
       read_or (hc_network_snapshot hc node_id k) ''HOST_NETWORK_OBSERVATION_UNAVAILABLE'' 503)"

definition stage_host_bridge :: "host_calls \<Rightarrow> string \<Rightarrow> string \<Rightarrow> bridge_change \<Rightarrow> nat \<Rightarrow> pyval option" where
  "stage_host_bridge hc node bridge change k =
     (let path = ''/nodes/'' @ node @ ''/network'' @ (if bg_mode change = ''update'' then CHR ''/'' # bridge else [])
      in hc_send hc (if bg_mode change = ''update'' then ''PUT'' else ''POST'') path
           (bridge_mutation_body change (PStr bridge)) k)"

definition bridge_stage :: "host_calls \<Rightarrow> string \<Rightarrow> string \<Rightarrow> bridge_change \<Rightarrow> nat \<Rightarrow> unit result" where
  "bridge_stage hc node_id bridge_id change k =
     ebind (read_or (stage_host_bridge hc node_id bridge_id change k) ''HOST_NETWORK_STAGE_UNKNOWN'' 503) (\<lambda>response.
       raise_if (response \<noteq> PNone) (bridge_error ''STAGE_UNKNOWN'' 503))"

definition RELOAD :: pydict where
  "RELOAD = [(''regenerate-frr'', PInt 0)]"

definition bridge_reload :: "host_calls \<Rightarrow> string \<Rightarrow> nat \<Rightarrow> string result" where
  "bridge_reload hc node_id k =
     ebind (read_or (hc_send hc ''PUT'' (''/nodes/'' @ node_id @ ''/network'') RELOAD k) ''HOST_NETWORK_RELOAD_UNKNOWN'' 503)
       (reload_reference node_id)"

definition foreign_task :: "string \<Rightarrow> string \<Rightarrow> pydict \<Rightarrow> bool" where
  "foreign_task node_id upid row =
     list_ex (\<lambda>(k, v). dhas row k \<and> dget row k \<noteq> PStr v)
       [(''node'', node_id), (''upid'', upid), (''type'', ''srvreload''), (''id'', ''networking'')]"

definition bridge_task :: "host_calls \<Rightarrow> string \<Rightarrow> pyval \<Rightarrow> nat \<Rightarrow> pydict result" where
  "bridge_task hc node_id upid k =
     ebind (reload_reference node_id upid) (\<lambda>u.
     ebind (read_or (vc_task (hc_client hc) node_id u k) ''HOST_NETWORK_TASK_UNAVAILABLE'' 503) (\<lambda>value.
       case dget_or value ''polls'' (PList []) of
         PList xs \<Rightarrow> (case all_some (map as_dict xs) of
             None \<Rightarrow> Inl (bridge_error ''TASK_UNKNOWN'' 503)
           | Some polls \<Rightarrow>
               if list_ex (foreign_task node_id u) (value # polls) then Inl (bridge_error ''TASK_UNKNOWN'' 503)
               else Inr (compact_proxmox_task value node_id u))
       | _ \<Rightarrow> Inl (bridge_error ''TASK_UNKNOWN'' 503)))"

section \<open>Service\<close>

definition bridge_review :: "sha \<Rightarrow> host_calls \<Rightarrow> string \<Rightarrow> string \<Rightarrow> bridge_change \<Rightarrow> nat \<Rightarrow> pydict result" where
  "bridge_review sha hc node_id bridge_id change k =
     ebind (bridge_target node_id bridge_id) (\<lambda>_.
     ebind (bridge_permissions hc node_id k) (\<lambda>_.
     ebind (bridge_read hc node_id k) (bridge_make_review sha node_id bridge_id change)))"

definition bridge_result :: "operation_snapshot \<Rightarrow> bool \<Rightarrow> pydict result" where
  "bridge_result operation replayed =
     (let details = sn_details operation in
      ebind (ditem details ''target'') (\<lambda>target. ebind (ditem details ''requested'') (\<lambda>requested.
      ebind (ditem details ''review'') (\<lambda>review.
        Inr (operation_dict operation @
          [(''operation'', PDict (operation_dict operation)), (''target'', target), (''requested'', requested),
           (''review'', review), (''staged_observation'', dget details ''staged_observation''),
           (''observed_after'', dget details ''observed_after''), (''task'', dget details ''task''),
           (''failure_code'', dget details ''failure_code''), (''idempotent_replay'', PBool replayed),
           (''automatic_retry_allowed'', PBool False)])))))"

definition checkpoint_commit :: "operation_snapshot \<Rightarrow> string \<Rightarrow> string \<Rightarrow> string option \<Rightarrow> pydict \<Rightarrow> pydict
    \<Rightarrow> commit_request" where
  "checkpoint_commit operation event stage next_status patch recovery_patch =
     fenced operation ((commit_defaults event stage ''leased'')
       \<lparr>cq_next_status := next_status, cq_details_patch := patch, cq_recovery_details_patch := recovery_patch,
        cq_expected_statuses := Some [sn_status operation]\<rparr>)"

definition bridge_pause_commit :: "operation_snapshot \<Rightarrow> string \<Rightarrow> pydict \<Rightarrow> commit_request" where
  "bridge_pause_commit operation code evidence =
     fenced operation ((commit_defaults ''host_network_result_unconfirmed'' ''reconciliation'' ''paused'')
       \<lparr>cq_next_status := (if sn_status operation = ''needs_reconciliation'' then None else Some ''needs_reconciliation''),
        cq_details_patch := dmerge [(''failure_code'', PStr code)] evidence,
        cq_expected_statuses := Some [sn_status operation], cq_error_code := Some code\<rparr>)"

definition bridge_pause :: "sha \<Rightarrow> flow_env \<Rightarrow> recovery_lease \<Rightarrow> operation_snapshot \<Rightarrow> string \<Rightarrow> pydict \<Rightarrow> string io" where
  "bridge_pause sha fe lease operation code evidence =
     io_bind (commit_io sha fe lease (bridge_pause_commit operation code evidence)) (\<lambda>_. io_return ''paused'')"

definition reload_running_commit :: "operation_snapshot \<Rightarrow> pydict \<Rightarrow> commit_request" where
  "reload_running_commit operation task =
     fenced operation ((commit_defaults ''host_network_reload_running'' ''task'' ''retry_wait'')
       \<lparr>cq_details_patch := [(''task'', PDict task)], cq_expected_statuses := Some [sn_status operation],
        cq_retry_delay := 5000000\<rparr>)"

definition bridge_verified_commit :: "operation_snapshot \<Rightarrow> pydict \<Rightarrow> pydict \<Rightarrow> commit_request" where
  "bridge_verified_commit operation observed task =
     fenced operation ((commit_defaults ''host_network_verified'' ''completed'' ''completed'')
       \<lparr>cq_next_status := Some ''succeeded'',
        cq_details_patch := [(''observed_after'', PDict observed), (''task'', PDict task), (''failure_code'', PNone)],
        cq_expected_statuses := Some [''verifying''], cq_release_target_lock := True\<rparr>)"

section \<open>Verification\<close>

definition bridge_confirmed :: "sha \<Rightarrow> flow_env \<Rightarrow> recovery_lease \<Rightarrow> operation_snapshot \<Rightarrow> pydict \<Rightarrow> pydict \<Rightarrow> string io" where
  "bridge_confirmed sha fe lease operation observed task =
     (let finish = (\<lambda>lease operation. io_bind (commit_io sha fe lease (bridge_verified_commit operation observed task))
            (\<lambda>_. io_return ''succeeded''))
      in if sn_status operation \<noteq> ''verifying''
         then io_bind (commit_io sha fe lease (checkpoint_commit operation ''host_network_state_observed'' ''post_check''
                (Some ''verifying'') [(''observed_after'', PDict observed), (''task'', PDict task)] []))
                (\<lambda>(operation', item). finish (renewed lease item) operation')
         else finish lease operation)"

definition preserved_print :: "pydict \<Rightarrow> pyval result" where
  "preserved_print observed = ebind (inner observed ''configuration'') (\<lambda>c. ditem c ''preserved_fingerprint'')"

text \<open>\<open>details.get("staged_observation", {}).get("configuration", {}).get("preserved_fingerprint")\<close>\<close>

definition staged_print :: "pydict \<Rightarrow> pyval result" where
  "staged_print details = (case dget_or details ''staged_observation'' (PDict []) of
       PDict s \<Rightarrow> (case dget_or s ''configuration'' (PDict []) of
           PDict c \<Rightarrow> Inr (dget c ''preserved_fingerprint'') | _ \<Rightarrow> Inl (PyError AttributeError))
     | _ \<Rightarrow> Inl (PyError AttributeError))"

definition host_node :: "pyval \<Rightarrow> string result" where
  "host_node target = ebind (dict_item target ''node_id'') (\<lambda>v. case v of
       PStr s \<Rightarrow> Inr s | _ \<Rightarrow> Inl (PyError TypeError))"

definition observed_bridge :: "sha \<Rightarrow> host_calls \<Rightarrow> string \<Rightarrow> pyval \<Rightarrow> bool \<Rightarrow> nat \<Rightarrow> pydict result" where
  "observed_bridge sha hc node_id review staged k =
     ebind (bridge_read hc node_id k) (\<lambda>snap. observe_configuration sha snap review staged)"

definition reloaded_bridge :: "sha \<Rightarrow> host_calls \<Rightarrow> operation_snapshot \<Rightarrow> string \<Rightarrow> nat \<Rightarrow> pydict result" where
  "reloaded_bridge sha hc operation node_id k =
     ebind (bridge_read hc node_id k) (\<lambda>snap.
     ebind (ditem (sn_details operation) ''review'') (\<lambda>review.
     ebind (observe_configuration sha snap review False) (\<lambda>observed.
     ebind (staged_print (sn_details operation)) (\<lambda>old.
     ebind (preserved_print observed) (\<lambda>now.
     ebind (raise_if (\<not> py_eq now old) (bridge_error ''CONFIGURATION_CHANGED'' 409)) (\<lambda>_. Inr observed))))))"

definition bridge_look :: "sha \<Rightarrow> host_calls \<Rightarrow> operation_snapshot \<Rightarrow> string \<Rightarrow> pyval \<Rightarrow> pydict option \<Rightarrow> task_look io" where
  "bridge_look sha hc operation node_id upid given =
     io_bind (io_of (reload_reference node_id upid)) (\<lambda>_.
     io_bind (case given of
         Some t \<Rightarrow> if t \<noteq> [] then io_return t else ext_read (bridge_task hc node_id upid)
       | None \<Rightarrow> ext_read (bridge_task hc node_id upid)) (\<lambda>task.
     io_bind (io_of (ditem task ''status'')) (\<lambda>status.
       if status \<in> {PStr ''running'', PStr ''queued''} then io_return (StillRunning task)
       else if status \<noteq> PStr ''stopped'' then io_return (TaskUnconfirmed task)
       else io_bind (io_of (ditem task ''exitstatus'')) (\<lambda>exitstatus.
         if exitstatus \<noteq> PStr ''OK'' then io_return (TaskUnconfirmed task)
         else io_bind (ext_read (reloaded_bridge sha hc operation node_id)) (\<lambda>observed.
           io_return (TaskDone task observed))))))"

definition bridge_unreloaded :: "sha \<Rightarrow> flow_env \<Rightarrow> host_calls \<Rightarrow> recovery_lease \<Rightarrow> operation_snapshot \<Rightarrow> pyval \<Rightarrow> string io" where
  "bridge_unreloaded sha fe hc lease operation target =
     io_try (io_bind (io_of (host_node target)) (\<lambda>node. ext_read (\<lambda>k.
               ebind (bridge_read hc node k) (\<lambda>snap.
               ebind (ditem (sn_details operation) ''review'') (\<lambda>review. observe_configuration sha snap review True)))))
       (\<lambda>code status. bridge_pause sha fe lease operation code [])
       (\<lambda>staged. bridge_pause sha fe lease operation ''HOST_NETWORK_RELOAD_REFERENCE_MISSING''
          [(''staged_observation'', PDict staged)])"

definition bridge_verify :: "sha \<Rightarrow> flow_env \<Rightarrow> host_calls \<Rightarrow> recovery_lease \<Rightarrow> operation_snapshot \<Rightarrow> pydict option
    \<Rightarrow> string io" where
  "bridge_verify sha fe hc lease operation given =
     (let details = sn_details operation; upid = dget details ''proxmox_upid'' in
      io_bind (io_of (ditem details ''target'')) (\<lambda>target.
        if dget details ''stage_acknowledged'' \<noteq> PBool True \<or> dget details ''reload_dispatched'' \<noteq> PBool True
           \<or> \<not> truthy upid
        then bridge_unreloaded sha fe hc lease operation target
        else if \<not> py_eq upid (dget (ri_details (ls_item lease)) ''upid'')
        then bridge_pause sha fe lease operation ''HOST_NETWORK_TASK_BINDING_MISMATCH'' []
        else io_try (io_bind (io_of (host_node target)) (\<lambda>node. bridge_look sha hc operation node upid given))
          (\<lambda>code status. bridge_pause sha fe lease operation code [])
          (\<lambda>look. case look of
              StillRunning task \<Rightarrow> io_bind (commit_io sha fe lease (reload_running_commit operation task))
                (\<lambda>_. io_return ''retry_wait'')
            | TaskUnconfirmed task \<Rightarrow>
                bridge_pause sha fe lease operation ''HOST_NETWORK_RELOAD_FAILED'' [(''task'', PDict task)]
            | TaskDone task observed \<Rightarrow> bridge_confirmed sha fe lease operation observed task)))"

section \<open>Execution\<close>

definition bridge_feature :: "sha \<Rightarrow> host_calls \<Rightarrow> string \<Rightarrow> bridge_change host_feature" where
  "bridge_feature sha hc cluster_id =
     \<lparr>hf_operation_type = ''host_network'', hf_id_prefix = ''host-network-'', hf_event_prefix = ''host_network_'',
      hf_error_prefix = ''HOST_NETWORK_'', hf_resource_key = ''bridge_id'', hf_cluster_id = cluster_id,
      hf_flags = [(''mutation_dispatched'', PBool False), (''stage_acknowledged'', PBool False),
        (''reload_dispatched'', PBool False)],
      hf_change = bridge_change_in, hf_review = bridge_review sha hc, hf_result = bridge_result\<rparr>"

definition bridge_finished :: "flow_env \<Rightarrow> string \<Rightarrow> pydict io" where
  "bridge_finished fe operation_id =
     io_bind (get_existing_io fe operation_id) (\<lambda>operation. io_of (bridge_result operation False))"

definition bridge_paused :: "sha \<Rightarrow> flow_env \<Rightarrow> string \<Rightarrow> recovery_lease \<Rightarrow> operation_snapshot \<Rightarrow> string \<Rightarrow> pydict io" where
  "bridge_paused sha fe operation_id lease operation code =
     io_bind (bridge_pause sha fe lease operation code []) (\<lambda>_. bridge_finished fe operation_id)"

definition reload_bound :: "sha \<Rightarrow> flow_env \<Rightarrow> host_calls \<Rightarrow> (nat \<Rightarrow> nat) \<Rightarrow> string \<Rightarrow> string \<Rightarrow> recovery_lease
    \<Rightarrow> operation_snapshot \<Rightarrow> string \<Rightarrow> pydict io" where
  "reload_bound sha fe hc polls node_id operation_id lease operation upid =
     io_bind (commit_io sha fe lease (checkpoint_commit operation ''host_network_reload_task_bound'' ''task'' (Some ''running'')
        [(''proxmox_upid'', PStr upid)] [(''upid'', PStr upid)])) (\<lambda>(operation, item).
     io_bind (ext_read (\<lambda>k. Inr (polls k))) (\<lambda>n.
     io_bind (heartbeats fe n (renewed lease item)) (\<lambda>lease'.
     io_bind (io_try (ext_read (bridge_task hc node_id (PStr upid)))
               (\<lambda>code status. bridge_pause sha fe lease' operation code [])
               (\<lambda>task. bridge_verify sha fe hc lease' operation (Some task))) (\<lambda>_.
       bridge_finished fe operation_id))))"

definition reload_dispatch :: "sha \<Rightarrow> flow_env \<Rightarrow> host_calls \<Rightarrow> (nat \<Rightarrow> nat) \<Rightarrow> string \<Rightarrow> string \<Rightarrow> recovery_lease
    \<Rightarrow> operation_snapshot \<Rightarrow> pydict io" where
  "reload_dispatch sha fe hc polls node_id operation_id lease operation =
     io_bind (commit_io sha fe lease (checkpoint_commit operation ''host_network_reload_dispatching'' ''reload'' None
        [(''reload_dispatched'', PBool True)] [])) (\<lambda>(operation, item).
       io_try (ext_call (bridge_reload hc node_id) node_id 0 RELOAD)
         (\<lambda>code status. bridge_paused sha fe operation_id (renewed lease item) operation code)
         (\<lambda>upid. reload_bound sha fe hc polls node_id operation_id (renewed lease item) operation upid))"

text \<open>The second look at the staged configuration, after its checkpoint.\<close>

definition restaged_bridge :: "sha \<Rightarrow> host_calls \<Rightarrow> string \<Rightarrow> pydict \<Rightarrow> pydict \<Rightarrow> nat \<Rightarrow> pydict result" where
  "restaged_bridge sha hc node_id plan staged k =
     ebind (observed_bridge sha hc node_id (PDict plan) True k) (\<lambda>latest.
     ebind (preserved_print latest) (\<lambda>now. ebind (preserved_print staged) (\<lambda>old.
     ebind (raise_if (\<not> py_eq now old) (bridge_error ''CONFIGURATION_CHANGED'' 409)) (\<lambda>_. Inr latest))))"

definition stage_verified :: "sha \<Rightarrow> flow_env \<Rightarrow> host_calls \<Rightarrow> (nat \<Rightarrow> nat) \<Rightarrow> string \<Rightarrow> string \<Rightarrow> pydict \<Rightarrow> recovery_lease
    \<Rightarrow> operation_snapshot \<Rightarrow> pydict \<Rightarrow> pydict io" where
  "stage_verified sha fe hc polls node_id operation_id plan lease operation staged =
     io_bind (commit_io sha fe lease (checkpoint_commit operation ''host_network_stage_verified'' ''reload_precheck'' None
        [(''staged_observation'', PDict staged)] [])) (\<lambda>(operation, item).
       io_try (ext_read (restaged_bridge sha hc node_id plan staged))
         (\<lambda>code status. bridge_paused sha fe operation_id (renewed lease item) operation code)
         (\<lambda>_. reload_dispatch sha fe hc polls node_id operation_id (renewed lease item) operation))"

definition stage_acknowledged :: "sha \<Rightarrow> flow_env \<Rightarrow> host_calls \<Rightarrow> (nat \<Rightarrow> nat) \<Rightarrow> string \<Rightarrow> string \<Rightarrow> pydict
    \<Rightarrow> recovery_lease \<Rightarrow> operation_snapshot \<Rightarrow> pydict io" where
  "stage_acknowledged sha fe hc polls node_id operation_id plan lease operation =
     io_bind (commit_io sha fe lease (checkpoint_commit operation ''host_network_stage_acknowledged'' ''stage'' None
        [(''stage_acknowledged'', PBool True)] [])) (\<lambda>(operation, item).
       io_try (ext_read (observed_bridge sha hc node_id (PDict plan) True))
         (\<lambda>code status. bridge_paused sha fe operation_id (renewed lease item) operation code)
         (\<lambda>staged. stage_verified sha fe hc polls node_id operation_id plan (renewed lease item) operation staged))"

definition stage_dispatch :: "sha \<Rightarrow> flow_env \<Rightarrow> host_calls \<Rightarrow> (nat \<Rightarrow> nat) \<Rightarrow> string \<Rightarrow> string \<Rightarrow> string \<Rightarrow> change_request
    \<Rightarrow> bridge_change \<Rightarrow> pydict \<Rightarrow> operation_snapshot \<Rightarrow> recovery_lease \<Rightarrow> pydict io" where
  "stage_dispatch sha fe hc polls node_id bridge_id operation_id rq change plan operation lease =
     io_bind (commit_io sha fe lease (checkpoint_commit operation ''host_network_stage_dispatching'' ''stage''
        (Some ''dispatching'') [(''mutation_dispatched'', PBool True)] [])) (\<lambda>(operation, item).
       io_try (ext_call (bridge_stage hc node_id bridge_id change) node_id 0 (rq_dump rq))
         (\<lambda>code status. bridge_paused sha fe operation_id (renewed lease item) operation code)
         (\<lambda>_. stage_acknowledged sha fe hc polls node_id operation_id plan (renewed lease item) operation))"

definition bridge_execute :: "sha \<Rightarrow> flow_env \<Rightarrow> host_calls \<Rightarrow> (nat \<Rightarrow> nat) \<Rightarrow> string \<Rightarrow> string \<Rightarrow> string \<Rightarrow> change_request
    \<Rightarrow> pydict \<Rightarrow> pydict io" where
  "bridge_execute sha fe hc polls cluster_id node_id bridge_id rq actor =
     (let hf = bridge_feature sha hc cluster_id in
      host_execute sha fe hf node_id bridge_id rq actor
        (stage_dispatch sha fe hc polls node_id bridge_id (host_operation_id sha hf node_id bridge_id rq) rq))"

section \<open>The flow keeps the core's invariant\<close>

lemma bridge_pause_ok [io_intros]: "fair_env sha fe \<Longrightarrow> io_ok (world_ok sha) (bridge_pause sha fe l sn c e)"
  unfolding bridge_pause_def by (intro io_intros)

lemma silent_bridge_pause [silent_intros]: "silent (bridge_pause sha fe l sn c e)"
  unfolding bridge_pause_def by (intro silent_intros)

lemma bridge_verify_ok [io_intros]: "fair_env sha fe \<Longrightarrow> io_ok (world_ok sha) (bridge_verify sha fe hc l sn given)"
  unfolding bridge_verify_def bridge_unreloaded_def bridge_look_def bridge_confirmed_def Let_def by (intro io_intros)

lemma silent_bridge_verify [silent_intros]: "silent (bridge_verify sha fe hc l sn given)"
  unfolding bridge_verify_def bridge_unreloaded_def bridge_look_def bridge_confirmed_def Let_def by (intro silent_intros)

lemmas stage_steps = bridge_finished_def bridge_paused_def reload_bound_def reload_dispatch_def stage_verified_def
  stage_acknowledged_def stage_dispatch_def

lemma bridge_execute_ok:
  "fair_env sha fe \<Longrightarrow> io_ok (world_ok sha) (bridge_execute sha fe hc polls c node br rq actor)"
  unfolding bridge_execute_def Let_def by (rule host_execute_ok) (simp_all only: stage_steps, intro io_intros)

lemma silent_bridge_finished [silent_intros]: "silent (bridge_finished fe i)"
  unfolding bridge_finished_def by (intro silent_intros)

lemma silent_bridge_paused [silent_intros]: "silent (bridge_paused sha fe i l sn c)"
  unfolding bridge_paused_def by (intro silent_intros)

lemma silent_reload_bound [silent_intros]: "silent (reload_bound sha fe hc polls node i l sn upid)"
  unfolding reload_bound_def by (intro silent_intros)

section \<open>Stage before reload\<close>

text \<open>The row of the operation says that the reload was sent.\<close>

definition durably_reloading :: "string \<Rightarrow> db \<Rightarrow> bool" where
  "durably_reloading operation_id d \<longleftrightarrow> (\<exists>r. find_operation d operation_id = Some r \<and>
     dget (op_details r) ''reload_dispatched'' = PBool True)"

text \<open>
  A reload: durably recorded, and between the stage at the step \<open>j\<close> and the reload the staged
  configuration of the plan was observed twice, with a pending difference of reviewed directives
  only and, the second time, with the rest of the host as it was the first time.
\<close>

definition reload_sent :: "sha \<Rightarrow> host_calls \<Rightarrow> string \<Rightarrow> string \<Rightarrow> pydict \<Rightarrow> nat \<Rightarrow> dispatched_call \<Rightarrow> bool" where
  "reload_sent sha hc node_id operation_id plan j c \<longleftrightarrow> durably_reloading operation_id (dc_db c) \<and> dc_node c = node_id \<and>
     dc_request c = RELOAD \<and> (\<exists>k k' staged latest. j < k \<and> k < k' \<and> k' < dc_step c \<and>
       observed_bridge sha hc node_id (PDict plan) True k = Inr staged \<and>
       restaged_bridge sha hc node_id plan staged k' = Inr latest)"

text \<open>
  What a bridge change sends: nothing, or the stage, or the stage and its reload. The plan is the
  one that was reviewed for this request before the stage, in the node's state at that moment.
\<close>

definition stage_then_reload :: "sha \<Rightarrow> host_calls \<Rightarrow> string \<Rightarrow> string \<Rightarrow> string \<Rightarrow> change_request \<Rightarrow> dispatched_call list \<Rightarrow> bool" where
  "stage_then_reload sha hc cluster_id node_id bridge_id rq cs \<longleftrightarrow> (case cs of [] \<Rightarrow> True
     | a # bs \<Rightarrow>
        (let hf = bridge_feature sha hc cluster_id; operation_id = host_operation_id sha hf node_id bridge_id rq in
         dispatched_as operation_id node_id 0 (rq_dump rq) a \<and>
         (\<exists>change plan. reviewed_twice hf node_id bridge_id rq change plan (dc_step a) \<and>
            (bs = [] \<or> (\<exists>b. bs = [b] \<and> reload_sent sha hc node_id operation_id plan (dc_step a) b)))))"

lemma sanitized_reload: "sanitized [(''reload_dispatched'', PBool True)] = [(''reload_dispatched'', PBool True)]"
  by code_simp

lemma commit_reloading:
  assumes "commit_observation sha d now en eid lease q = Inr (d', sn, item)" "cq_projector q = None"
    and "cq_details_patch q = [(''reload_dispatched'', PBool True)]"
  shows "durably_reloading (lease_operation_id lease) d'"
  using assms(1)
proof (rule commit_operation_row)
  fix row row' pj
  assume "find_operation d' (lease_operation_id lease) = Some row'"
    and "op_details row' = dmerge (op_details row)
       (sanitized (dmerge (sanitized (cq_details_patch q)) (sanitized (pj_operation_details pj))))"
    and "cq_projector q = None \<Longrightarrow> pj = no_projection"
  with assms(2,3) show ?thesis
    by (auto simp: durably_reloading_def no_projection_def sanitized_reload dget_dset)
qed

text \<open>After the stage: nothing, or one checked reload.\<close>

lemma reload_dispatch_sends:
  assumes "lease_operation_id lease = i" "j < k" "k < k'" "k' < w_step w"
    and "observed_bridge sha hc node (PDict plan) True k = Inr staged" "restaged_bridge sha hc node plan staged k' = Inr latest"
  shows "sends_at (at_most_one (reload_sent sha hc node i plan j)) (reload_dispatch sha fe hc polls node i lease sn) w"
  unfolding reload_dispatch_def
proof (rule sends_at_bind)
  fix x w'
  assume c: "commit_io sha fe lease (checkpoint_commit sn ''host_network_reload_dispatching'' ''reload'' None
      [(''reload_dispatched'', PBool True)] []) w = (Inr x, w')"
  obtain sn' item where x: "x = (sn', item)" by (cases x)
  have "durably_reloading i (w_db w')"
    using commit_io_InrD [OF c [unfolded x]] assms(1)
    by (auto simp: checkpoint_commit_def fenced_def commit_defaults_def dest: commit_reloading)
  with commit_io_step [OF c] assms(2-) have "reload_sent sha hc node i plan j
      \<lparr>dc_db = w_db w', dc_step = w_step w', dc_node = node, dc_vmid = 0, dc_request = RELOAD\<rparr>"
    unfolding reload_sent_def by simp (metis less_SucI)
  then show "sends_at (at_most_one (reload_sent sha hc node i plan j)) (case x of (operation, item) \<Rightarrow>
       io_try (ext_call (bridge_reload hc node) node 0 RELOAD)
         (\<lambda>code status. bridge_paused sha fe i (renewed lease item) operation code)
         (\<lambda>upid. reload_bound sha fe hc polls node i (renewed lease item) operation upid)) w'"
    unfolding x prod.case
    by (intro sends_at_call [where Q = "\<lambda>cs. cs = []"] sends_at_silent silent_intros) (simp_all add: at_most_one_def)
qed (simp_all add: silent_commit_io)

lemma stage_verified_sends:
  assumes "lease_operation_id lease = i" "j < k" "k < w_step w"
    and "observed_bridge sha hc node (PDict plan) True k = Inr staged"
  shows "sends_at (at_most_one (reload_sent sha hc node i plan j)) (stage_verified sha fe hc polls node i plan lease sn staged) w"
  unfolding stage_verified_def
proof (rule sends_at_bind)
  fix x w'
  assume c: "commit_io sha fe lease (checkpoint_commit sn ''host_network_stage_verified'' ''reload_precheck'' None
      [(''staged_observation'', PDict staged)] []) w = (Inr x, w')"
  obtain sn' item where x: "x = (sn', item)" by (cases x)
  with c assms(1) have id: "lease_operation_id (renewed lease item) = i" using renewed_id by blast
  show "sends_at (at_most_one (reload_sent sha hc node i plan j)) (case x of (operation, item) \<Rightarrow>
      io_try (ext_read (restaged_bridge sha hc node plan staged))
         (\<lambda>code status. bridge_paused sha fe i (renewed lease item) operation code)
         (\<lambda>_. reload_dispatch sha fe hc polls node i (renewed lease item) operation)) w'"
    unfolding x prod.case
  proof (rule sends_at_try)
    fix y w2
    assume "ext_read (restaged_bridge sha hc node plan staged) w' = (Inr y, w2)"
    from ext_read_step [OF this] commit_io_step [OF c] assms(2-)
    show "sends_at (at_most_one (reload_sent sha hc node i plan j)) (reload_dispatch sha fe hc polls node i (renewed lease item) sn') w2"
      by (intro reload_dispatch_sends [OF id, of j k "w_step w'"]) auto
  qed (auto intro!: sends_at_silent silent_intros)
qed (simp_all add: silent_commit_io)

lemma stage_acknowledged_sends:
  assumes "lease_operation_id lease = i" "j < w_step w"
  shows "sends_at (at_most_one (reload_sent sha hc node i plan j)) (stage_acknowledged sha fe hc polls node i plan lease sn) w"
  unfolding stage_acknowledged_def
proof (rule sends_at_bind)
  fix x w'
  assume c: "commit_io sha fe lease (checkpoint_commit sn ''host_network_stage_acknowledged'' ''stage'' None
      [(''stage_acknowledged'', PBool True)] []) w = (Inr x, w')"
  obtain sn' item where x: "x = (sn', item)" by (cases x)
  with c assms have id: "lease_operation_id (renewed lease item) = i" using renewed_id by blast
  show "sends_at (at_most_one (reload_sent sha hc node i plan j)) (case x of (operation, item) \<Rightarrow>
      io_try (ext_read (observed_bridge sha hc node (PDict plan) True))
         (\<lambda>code status. bridge_paused sha fe i (renewed lease item) operation code)
         (\<lambda>staged. stage_verified sha fe hc polls node i plan (renewed lease item) operation staged)) w'"
    unfolding x prod.case
  proof (rule sends_at_try)
    fix staged w2
    assume "ext_read (observed_bridge sha hc node (PDict plan) True) w' = (Inr staged, w2)"
    from ext_read_step [OF this] commit_io_step [OF c] assms(2)
    show "sends_at (at_most_one (reload_sent sha hc node i plan j)) (stage_verified sha fe hc polls node i plan (renewed lease item) sn' staged) w2"
      by (intro stage_verified_sends [OF id, of j "w_step w'"]) auto
  qed (auto intro!: sends_at_silent silent_intros)
qed (simp_all add: silent_commit_io)

lemma stage_dispatch_sends:
  assumes "i = host_operation_id sha (bridge_feature sha hc c) node br rq" "lease_operation_id lease = i"
    and "reviewed_twice (bridge_feature sha hc c) node br rq change plan (w_step w)"
  shows "sends_at (stage_then_reload sha hc c node br rq) (stage_dispatch sha fe hc polls node br i rq change plan sn lease) w"
  unfolding stage_dispatch_def
proof (rule sends_at_bind)
  fix x w'
  assume c: "commit_io sha fe lease (checkpoint_commit sn ''host_network_stage_dispatching'' ''stage''
      (Some ''dispatching'') [(''mutation_dispatched'', PBool True)] []) w = (Inr x, w')"
  obtain sn' item where x: "x = (sn', item)" by (cases x)
  have disp: "durably_dispatching i (w_db w')"
    using commit_io_InrD [OF c [unfolded x]] assms(2)
    by (auto simp: checkpoint_commit_def fenced_def commit_defaults_def dest: commit_dispatching)
  have id: "lease_operation_id (renewed lease item) = i" using renewed_id [OF c [unfolded x]] assms(2) by simp
  have twice: "reviewed_twice (bridge_feature sha hc c) node br rq change plan (w_step w')"
    using assms(3) commit_io_step [OF c] unfolding reviewed_twice_def by (metis less_Suc_eq)
  show "sends_at (stage_then_reload sha hc c node br rq) (case x of (operation, item) \<Rightarrow>
       io_try (ext_call (bridge_stage hc node br change) node 0 (rq_dump rq))
         (\<lambda>code status. bridge_paused sha fe i (renewed lease item) operation code)
         (\<lambda>_. stage_acknowledged sha fe hc polls node i plan (renewed lease item) operation)) w'"
    unfolding x prod.case
  proof (rule sends_at_call [where Q = "at_most_one (reload_sent sha hc node i plan (w_step w'))"])
    fix cs assume "at_most_one (reload_sent sha hc node i plan (w_step w')) cs"
    with disp twice show "stage_then_reload sha hc c node br rq
        (\<lparr>dc_db = w_db w', dc_step = w_step w', dc_node = node, dc_vmid = 0, dc_request = rq_dump rq\<rparr> # cs)"
      unfolding stage_then_reload_def by (auto simp: Let_def dispatched_as_def at_most_one_def assms(1))
  next
    fix x and w2 :: world assume "w_step w2 = Suc (w_step w')"
    then show "sends_at (at_most_one (reload_sent sha hc node i plan (w_step w')))
        (stage_acknowledged sha fe hc polls node i plan (renewed lease item) sn') w2"
      by (intro stage_acknowledged_sends [OF id]) simp
  qed (auto intro!: sends_at_silent silent_intros)
qed (simp_all add: silent_commit_io stage_then_reload_def)

lemma bridge_execute_sends: "sends (stage_then_reload sha hc c node br rq) (bridge_execute sha fe hc polls c node br rq actor)"
  unfolding bridge_execute_def Let_def
  by (rule host_execute_sends) (auto simp: stage_then_reload_def intro: stage_dispatch_sends)

section \<open>Success is verified\<close>

lemma bridge_confirmed_success:
  assumes "bridge_confirmed sha fe lease operation observed task w = (Inr ''succeeded'', w')"
  shows "settled_success (lease_operation_id lease) (w_db w')"
proof (cases "sn_status operation = ''verifying''")
  case True
  with assms show ?thesis
    by (auto simp: bridge_confirmed_def io_return_Inr bridge_verified_commit_def fenced_def commit_defaults_def
        elim!: io_bind_InrE intro: settle_success)
next
  case False
  with assms obtain sn item w1 r q where
    c: "commit_io sha fe lease q w = (Inr (sn, item), w1)"
    and v: "commit_io sha fe (renewed lease item) (bridge_verified_commit sn observed task) w1 = (Inr r, w')"
    by (auto simp: bridge_confirmed_def io_return_Inr elim!: io_bind_InrE)
  have "settled_success (lease_operation_id (renewed lease item)) (w_db w')"
    by (rule settle_success [OF v]) (simp_all add: bridge_verified_commit_def fenced_def commit_defaults_def)
  with renewed_id [OF c] show ?thesis by simp
qed

text \<open>
  \<open>bridge_evidence\<close>: the stage was acknowledged, the reload recorded, its task (the one the
  recovery item is bound to) stopped with exit status OK, and the node read after it has the
  reviewed bridge, no pending changes and the other interfaces unchanged.
\<close>

definition bridge_evidence :: "sha \<Rightarrow> host_calls \<Rightarrow> recovery_lease \<Rightarrow> operation_snapshot \<Rightarrow> pydict \<Rightarrow> bool" where
  "bridge_evidence sha hc lease operation task \<longleftrightarrow>
     dget (sn_details operation) ''stage_acknowledged'' = PBool True \<and>
     dget (sn_details operation) ''reload_dispatched'' = PBool True \<and>
     py_eq (dget (sn_details operation) ''proxmox_upid'') (dget (ri_details (ls_item lease)) ''upid'') \<and>
     dget task ''status'' = PStr ''stopped'' \<and> dget task ''exitstatus'' = PStr ''OK'' \<and>
     (\<exists>node k snap review observed. bridge_read hc node k = Inr snap \<and> snd snap = [] \<and>
        dget (sn_details operation) ''review'' = review \<and> observe_configuration sha snap review False = Inr observed)"

lemma observed_settled:
  assumes "observe_configuration sha snap review False = Inr observed"
  shows "snd snap = []"
  using assms
  by (cases review) (auto simp: observe_configuration_def observe_bridge_def Let_def split: option.splits if_splits)

lemma bridge_look_done:
  assumes "bridge_look sha hc operation node upid given w = (Inr (TaskDone task observed), w')"
  shows "dget task ''status'' = PStr ''stopped'' \<and> dget task ''exitstatus'' = PStr ''OK'' \<and>
    (\<exists>k. reloaded_bridge sha hc operation node k = Inr observed)"
  using assms unfolding bridge_look_def
  by (auto elim!: io_bind_InrE simp: io_of_Inr io_return_Inr split: if_splits option.splits
      dest!: ext_read_Inr ditem_dget) blast+

lemma bridge_verify_success:
  assumes "bridge_verify sha fe hc lease operation given w = (Inr ''succeeded'', w')"
  shows "settled_success (lease_operation_id lease) (w_db w') \<and> (\<exists>task. bridge_evidence sha hc lease operation task)"
proof -
  have paused: "bridge_pause sha fe lease operation code ev w1 \<noteq> (Inr ''succeeded'', w')" for code ev w1
    by (auto simp: bridge_pause_def io_return_Inr elim!: io_bind_InrE)
  have unreloaded: "bridge_unreloaded sha fe hc lease operation target w1 \<noteq> (Inr ''succeeded'', w')" for target w1
    by (auto simp: bridge_unreloaded_def paused elim!: io_bind_InrE io_try_InrE)
  from assms obtain node task observed w1 w2 where
    flags: "dget (sn_details operation) ''stage_acknowledged'' = PBool True"
      "dget (sn_details operation) ''reload_dispatched'' = PBool True"
      "py_eq (dget (sn_details operation) ''proxmox_upid'') (dget (ri_details (ls_item lease)) ''upid'')"
    and look: "bridge_look sha hc operation node (dget (sn_details operation) ''proxmox_upid'') given w1 =
      (Inr (TaskDone task observed), w2)"
    and fin: "bridge_confirmed sha fe lease operation observed task w2 = (Inr ''succeeded'', w')"
    unfolding bridge_verify_def Let_def
    by (auto elim!: io_bind_InrE io_try_InrE simp: io_of_Inr io_return_Inr paused unreloaded
        split: if_splits task_look.splits)
  from bridge_look_done [OF look] obtain k where t: "dget task ''status'' = PStr ''stopped''"
      "dget task ''exitstatus'' = PStr ''OK''" and r: "reloaded_bridge sha hc operation node k = Inr observed" by blast
  from r obtain snap review where "bridge_read hc node k = Inr snap" "ditem (sn_details operation) ''review'' = Inr review"
      "observe_configuration sha snap review False = Inr observed"
    by (auto simp: reloaded_bridge_def)
  moreover from this(3) have "snd snap = []" by (rule observed_settled)
  ultimately have "bridge_evidence sha hc lease operation task"
    using flags t ditem_dget unfolding bridge_evidence_def by blast
  with bridge_confirmed_success [OF fin] show ?thesis by blast
qed

end
