(* ===== verification/VmDelete.thy ===== *)
theory VmDelete
  imports VmVolumes
begin

text \<open>
  Deletion of a whole VM with its reviewed volumes: \<open>app/operations/vm_delete/domain.py\<close>,
  \<open>infrastructure.py\<close> and \<open>application.py\<close>. The result is proved by an independent listing of
  the storages, not by the task.
\<close>

section \<open>Domain\<close>

abbreviation delete_error :: "string \<Rightarrow> nat \<Rightarrow> error" where
  "delete_error code status \<equiv> FeatureError (''VM_DELETE_'' @ code) status"

definition delete_request_ok :: "pydict \<Rightarrow> bool" where
  "delete_request_ok d =
     (set (dict_keys d) = {''idempotency_key'', ''expected_digest'', ''expected_name'', ''expected_resources_digest'',
        ''confirmation'', ''delete_acknowledged''}
      \<and> common_request d \<and> str_field d ''expected_name'' 1 255 (\<lambda>_. True)
      \<and> str_field d ''expected_resources_digest'' 0 71 (matches_full SHA256_TEXT)
      \<and> str_field d ''confirmation'' 1 300 (\<lambda>_. True) \<and> bool_field d ''delete_acknowledged'')"

definition delete_validate_target :: "string \<Rightarrow> int \<Rightarrow> unit result" where
  "delete_validate_target node_id vmid = raise_if (\<not> valid_target node_id vmid) (delete_error ''INVALID_TARGET'' 422)"

text \<open>One disk slot: skipped, or the volume that the deletion will remove.\<close>

definition slot_suffix :: "string \<Rightarrow> (string \<times> string) list \<Rightarrow> rx result" where
  "slot_suffix slot opts =
     (if slot = ''scsi0'' \<and> map_of opts ''media'' \<noteq> Some ''cdrom'' \<and> text_or opts ''shared'' ''0'' = ''0'' then Inr DISK_SUFFIX
      else if slot = ''ide2'' \<and> map_of opts ''media'' = Some ''cdrom'' then Inr CLOUDINIT_SUFFIX
      else Inl (delete_error ''CONFIG_UNSUPPORTED'' 409))"

definition deletion_disk :: "int \<Rightarrow> pydict \<Rightarrow> string \<Rightarrow> pydict option result" where
  "deletion_disk vmid config slot =
     ebind (drive (delete_error ''CONFIG_UNSUPPORTED'' 409) (dget config slot)) (\<lambda>(volume, opts).
       if slot = ''ide2'' \<and> volume = ''none'' \<and> map_of opts ''media'' = Some ''cdrom'' then Inr None
       else ebind (slot_suffix slot opts) (\<lambda>suffix.
            ebind (own_volume (delete_error ''VOLUME_OWNERSHIP'' 409) ''vm'' vmid suffix volume) (\<lambda>(storage, form).
              Inr (Some (volume_dict slot volume storage form)))))"

definition deletion_disks :: "int \<Rightarrow> pydict \<Rightarrow> pydict list result" where
  "deletion_disks vmid config =
     ebind (emap (deletion_disk vmid config) (sort (disk_slots config))) (\<lambda>found. Inr (List.map_filter id found))"

definition deletion_identity :: "pydict \<Rightarrow> pydict \<Rightarrow> pydict list \<Rightarrow> pydict list \<Rightarrow> int \<Rightarrow> pydict result" where
  "deletion_identity config status pending snapshots vmid =
     ebind (raise_if (\<not> is_stopped status) (delete_error ''NOT_STOPPED'' 409)) (\<lambda>_.
     ebind (raise_if (template_or_locked config) (delete_error ''LOCKED_OR_TEMPLATE'' 409)) (\<lambda>_.
     ebind (raise_if (flag_text config ''protection'' \<noteq> ''0'') (delete_error ''PROTECTED'' 409)) (\<lambda>_.
     ebind (raise_if (has_pending pending) (delete_error ''PENDING_CONFIG'' 409)) (\<lambda>_.
     ebind (raise_if (\<not> only_current snapshots) (delete_error ''SNAPSHOT_UNCONFIRMED'' 409)) (\<lambda>_.
     ebind (raise_if (has_foreign_device config) (delete_error ''CONFIG_UNSUPPORTED'' 409)) (\<lambda>_.
       case (config_digest (dget config ''digest''), vm_name 255 (dget config ''name'')) of
         (None, _) \<Rightarrow> Inl (delete_error ''DIGEST_UNAVAILABLE'' 503)
       | (_, None) \<Rightarrow> Inl (delete_error ''NAME_UNAVAILABLE'' 503)
       | (Some digest, Some name) \<Rightarrow>
           ebind (deletion_disks vmid config) (\<lambda>disks.
           ebind (raise_if (\<not> list_ex (\<lambda>r. dget r ''slot'' = PStr ''scsi0'') disks)
              (delete_error ''CONFIG_UNSUPPORTED'' 409)) (\<lambda>_.
             Inr [(''vmid'', PInt vmid), (''name'', PStr name), (''status'', PStr ''stopped''),
                  (''digest'', PStr digest), (''deleted_volumes'', PList (map PDict disks))]))))))))"

definition delete_validate_storage :: "pydict list \<Rightarrow> string \<Rightarrow> unit result" where
  "delete_validate_storage storages storage_id =
     raise_if (\<not> images_storage (storage_row storages (PStr storage_id))) (delete_error ''STORAGE_UNAVAILABLE'' 503)"

definition OWNED_ROW :: "string \<Rightarrow> int \<Rightarrow> rx" where
  "OWNED_ROW storage_id vmid =
     Cat (word_rx (storage_id @ '':'' @ show_int vmid @ ''/'')) (plus (Cls (\<lambda>c. c \<noteq> CHR ''/'')))"

definition volume_row :: "string \<Rightarrow> int \<Rightarrow> pydict \<Rightarrow> pydict option" where
  "volume_row storage_id vmid row =
     (case (exact_text (OWNED_ROW storage_id vmid) (dget row ''volid''), positive_int (dget row ''size''), dget row ''format'') of
        (Some volid, Some bytes, PStr form) \<Rightarrow>
          if dget row ''vmid'' = PInt vmid
          then Some [(''volume_id'', PStr volid), (''storage_id'', PStr storage_id), (''size_bytes'', PInt bytes),
                     (''format'', PStr form)]
          else None
      | _ \<Rightarrow> None)"

definition volume_rows :: "pydict list \<Rightarrow> string \<Rightarrow> int \<Rightarrow> pydict list result" where
  "volume_rows rows storage_id vmid =
     (case all_some (map (volume_row storage_id vmid) rows) of
        None \<Rightarrow> Inl (delete_error ''VOLUME_OBSERVATION_UNCONFIRMED'' 503)
      | Some found \<Rightarrow>
          ebind (raise_if (\<not> distinct (map volume_text found)) (delete_error ''VOLUME_OBSERVATION_UNCONFIRMED'' 503))
            (\<lambda>_. Inr (sort_key volume_text found)))"

text \<open>\<open>{row['volume_id']: row ...}.get(id)\<close>; later rows win.\<close>

definition volume_at :: "pydict list \<Rightarrow> pyval \<Rightarrow> pydict option" where
  "volume_at rows i = find (\<lambda>r. py_eq (dget r ''volume_id'') i) (rev rows)"

definition manifest_volume :: "pydict list \<Rightarrow> (string \<times> pydict) list \<Rightarrow> pydict \<Rightarrow> pydict result" where
  "manifest_volume rows infos disk =
     (case (map_of infos (volume_text disk), volume_at rows (dget disk ''volume_id'')) of
        (None, _) \<Rightarrow> Inl (PyError KeyError)
      | (Some actual, Some row) \<Rightarrow>
          (case positive_int (dget actual ''size'') of
             Some bytes \<Rightarrow>
               if dget row ''size_bytes'' = PInt bytes \<and> py_eq (dget actual ''format'') (dget disk ''format'')
                  \<and> py_eq (dget row ''format'') (dget disk ''format'')
               then Inr (dset ''size_bytes'' (PInt bytes) disk)
               else Inl (delete_error ''VOLUME_OBSERVATION_UNCONFIRMED'' 503)
           | None \<Rightarrow> Inl (delete_error ''VOLUME_OBSERVATION_UNCONFIRMED'' 503))
      | (Some _, None) \<Rightarrow> Inl (delete_error ''VOLUME_OBSERVATION_UNCONFIRMED'' 503))"

definition manifest :: "sha \<Rightarrow> pydict \<Rightarrow> pydict list \<Rightarrow> (string \<times> pydict) list \<Rightarrow> pydict result" where
  "manifest sha identity rows infos =
     ebind (row_list identity ''deleted_volumes'') (\<lambda>disks.
     ebind (emap (manifest_volume rows infos) disks) (\<lambda>deleted.
       let kept = filter (\<lambda>r. volume_text r \<notin> set (map volume_text deleted)) rows;
           resources = [(''deleted_volumes'', PList (map PDict deleted)), (''preserved_volumes'', PList (map PDict kept))]
       in Inr (dmerge (dmerge identity resources) [(''resources_digest'', PStr (operation_digest sha resources))])))"

definition confirms :: "pydict \<Rightarrow> change_request \<Rightarrow> bool result" where
  "confirms before rq =
     ebind (ditem before ''vmid'') (\<lambda>vmid. ebind (ditem before ''name'') (\<lambda>name.
       Inr (py_eq (attr rq ''confirmation'') (PStr (py_str vmid @ ''/'' @ py_str name)))))"

definition reviewed_same :: "pydict \<Rightarrow> change_request \<Rightarrow> bool result" where
  "reviewed_same before rq =
     ebind (ditem before ''digest'') (\<lambda>digest. ebind (ditem before ''name'') (\<lambda>name.
     ebind (ditem before ''resources_digest'') (\<lambda>resources.
       Inr (py_eq digest (attr rq ''expected_digest'') \<and> py_eq name (attr rq ''expected_name'')
            \<and> py_eq resources (attr rq ''expected_resources_digest'')))))"

definition delete_check_expected :: "pydict \<Rightarrow> change_request \<Rightarrow> unit result" where
  "delete_check_expected before rq =
     ebind (raise_if (\<not> truthy (attr rq ''delete_acknowledged'')) (delete_error ''CONFIRMATION_REQUIRED'' 422)) (\<lambda>_.
     ebind (confirms before rq) (\<lambda>confirmed.
     ebind (raise_if (\<not> confirmed) (delete_error ''CONFIRMATION_REQUIRED'' 422)) (\<lambda>_.
     ebind (reviewed_same before rq) (\<lambda>same. raise_if (\<not> same) (delete_error ''STATE_CHANGED'' 409)))))"

text \<open>What the listing says of the reviewed volumes.\<close>

definition unchanged :: "pydict list \<Rightarrow> pydict \<Rightarrow> bool" where
  "unchanged rows row = (case volume_at rows (dget row ''volume_id'') of None \<Rightarrow> False | Some r \<Rightarrow> py_eq (PDict r) (PDict row))"

definition deletion_result :: "pydict \<Rightarrow> pydict list \<Rightarrow> bool \<Rightarrow> pydict result" where
  "deletion_result before rows vmid_unused =
     ebind (row_list before ''deleted_volumes'') (\<lambda>gone.
     ebind (row_list before ''preserved_volumes'') (\<lambda>kept.
     ebind (emap (\<lambda>r. ditem r ''volume_id'') (gone @ kept)) (\<lambda>_.
       let ids = (\<lambda>p rs. PList (map (\<lambda>r. dget r ''volume_id'') (filter p rs)));
           present = (\<lambda>r. volume_at rows (dget r ''volume_id'') \<noteq> None)
       in Inr [(''vmid_unused'', PBool vmid_unused), (''deleted_volumes'', ids (\<lambda>r. \<not> present r) gone),
               (''remaining_volumes'', ids present gone), (''preserved_volumes'', ids (unchanged rows) kept),
               (''preservation_unconfirmed'', ids (\<lambda>r. \<not> unchanged rows r) kept)])))"

section \<open>Client\<close>

definition storage_volumes :: "vm_client \<Rightarrow> string \<Rightarrow> string \<Rightarrow> int \<Rightarrow> nat \<Rightarrow> pydict list \<Rightarrow> string \<Rightarrow> pydict list result" where
  "storage_volumes vc code node_id vmid k storages storage =
     ebind (delete_validate_storage storages storage) (\<lambda>_.
     ebind (read_or (vc_storage_permissions vc storage k) code 503) (\<lambda>ps.
     ebind (raise_if (\<not> {''Datastore.Audit'', ''Datastore.Allocate''} \<subseteq> set ps) (delete_error ''PERMISSION_DENIED'' 403)) (\<lambda>_.
     ebind (read_or (vc_images vc node_id storage vmid k) code 503) (\<lambda>rows. volume_rows rows storage vmid))))"

definition storage_rows :: "vm_client \<Rightarrow> string \<Rightarrow> string \<Rightarrow> int \<Rightarrow> nat \<Rightarrow> string list \<Rightarrow> pydict list result" where
  "storage_rows vc code node_id vmid k storage_ids =
     ebind (read_or (vc_storages vc node_id k) code 503) (\<lambda>storages.
     ebind (emap (storage_volumes vc code node_id vmid k storages) (sort (remdups storage_ids))) (\<lambda>found.
       Inr (sort_key volume_text (concat found))))"

definition storage_ids :: "pydict list \<Rightarrow> string list result" where
  "storage_ids volumes = emap (\<lambda>r. ebind (ditem r ''storage_id'') (\<lambda>s. Inr (py_str s))) volumes"

definition volume_info :: "vm_client \<Rightarrow> string \<Rightarrow> nat \<Rightarrow> pydict \<Rightarrow> (string \<times> pydict) result" where
  "volume_info vc node_id k row =
     ebind (read_or (vc_volume vc node_id (py_str (dget row ''storage_id'')) (volume_text row) k)
        ''VM_DELETE_OBSERVATION_UNAVAILABLE'' 503) (\<lambda>info. Inr (volume_text row, info))"

definition delete_read :: "sha \<Rightarrow> vm_client \<Rightarrow> string \<Rightarrow> int \<Rightarrow> nat \<Rightarrow> pydict result" where
  "delete_read sha vc node_id vmid k =
     ebind (require_privileges (vc_vm_permissions vc vmid k) [''VM.Audit'', ''VM.Allocate'']
        ''VM_DELETE_OBSERVATION_UNAVAILABLE'' ''VM_DELETE_PERMISSION_DENIED'') (\<lambda>_.
     case (vc_config vc node_id vmid k, vc_status vc node_id vmid k, vc_pending vc node_id vmid k,
           vc_snapshots vc node_id vmid k) of
       (Some config, Some status, Some pending, Some snapshots) \<Rightarrow>
         ebind (deletion_identity config status pending snapshots vmid) (\<lambda>identity.
         ebind (row_list identity ''deleted_volumes'') (\<lambda>disks.
         ebind (storage_ids disks) (\<lambda>ids.
         ebind (storage_rows vc ''VM_DELETE_OBSERVATION_UNAVAILABLE'' node_id vmid k ids) (\<lambda>rows.
         ebind (emap (volume_info vc node_id k) disks) (\<lambda>infos. manifest sha identity rows infos)))))
     | _ \<Rightarrow> Inl (delete_error ''OBSERVATION_UNAVAILABLE'' 503))"

definition delete_apply :: "vm_client \<Rightarrow> string \<Rightarrow> int \<Rightarrow> change_request \<Rightarrow> operation_snapshot \<Rightarrow> nat \<Rightarrow> string result" where
  "delete_apply vc node_id vmid rq operation k =
     dispatched_task ''VM_DELETE_DISPATCH_UNKNOWN'' ''qmdestroy'' node_id vmid (vc_delete vc node_id vmid k)"

definition observe_deletion :: "vm_client \<Rightarrow> string \<Rightarrow> int \<Rightarrow> pydict \<Rightarrow> nat \<Rightarrow> pydict result" where
  "observe_deletion vc node_id vmid before k =
     ebind (row_list before ''deleted_volumes'') (\<lambda>gone.
     ebind (storage_ids gone) (\<lambda>ids.
     ebind (storage_rows vc ''VM_DELETE_ABSENCE_UNCONFIRMED'' node_id vmid k ids) (\<lambda>rows.
     ebind (raise_if (\<not> vc_vmid_unused vc vmid k) (delete_error ''ABSENCE_UNCONFIRMED'' 503)) (\<lambda>_.
       deletion_result before rows True))))"

section \<open>Service\<close>

definition delete_review :: "sha \<Rightarrow> vm_client \<Rightarrow> string \<Rightarrow> int \<Rightarrow> change_request \<Rightarrow> nat \<Rightarrow> pydict result" where
  "delete_review sha vc node_id vmid rq k =
     ebind (delete_validate_target node_id vmid) (\<lambda>_. delete_read sha vc node_id vmid k)"

definition delete_observe_result :: "vm_client \<Rightarrow> operation_snapshot \<Rightarrow> nat \<Rightarrow> pydict result" where
  "delete_observe_result vc operation k =
     ebind (ditem (sn_details operation) ''observed_before'') (\<lambda>before. case before of
         PDict b \<Rightarrow> read_target (\<lambda>node_id vmid. observe_deletion vc node_id vmid b) operation k
       | _ \<Rightarrow> Inl (PyError TypeError))"

definition same_ids :: "pyval \<Rightarrow> pydict list \<Rightarrow> bool result" where
  "same_ids ids rows = (case ids of
       PList vs \<Rightarrow> ebind (emap (\<lambda>r. ditem r ''volume_id'') rows) (\<lambda>ws.
         Inr (list_all (\<lambda>v. in_values v ws) vs \<and> list_all (\<lambda>w. in_values w vs) ws))
     | _ \<Rightarrow> Inl (PyError TypeError))"

definition delete_matches :: "pydict \<Rightarrow> pyval \<Rightarrow> pyval \<Rightarrow> bool result" where
  "delete_matches after requested before =
     ebind (ditem after ''vmid_unused'') (\<lambda>unused. ebind (ditem after ''remaining_volumes'') (\<lambda>remaining.
     ebind (ditem after ''preservation_unconfirmed'') (\<lambda>unconfirmed.
       if unused \<noteq> PBool True \<or> truthy remaining \<or> truthy unconfirmed then Inr False
       else case before of
         PDict b \<Rightarrow>
           ebind (ditem after ''deleted_volumes'') (\<lambda>deleted. ebind (row_list b ''deleted_volumes'') (\<lambda>gone.
           ebind (same_ids deleted gone) (\<lambda>all_gone.
             if \<not> all_gone then Inr False
             else ebind (ditem after ''preserved_volumes'') (\<lambda>preserved. ebind (row_list b ''preserved_volumes'') (\<lambda>kept.
                    same_ids preserved kept)))))
       | _ \<Rightarrow> Inl (PyError TypeError))))"

definition delete_service :: "sha \<Rightarrow> vm_client \<Rightarrow> (nat \<Rightarrow> nat) \<Rightarrow> string \<Rightarrow> task_service" where
  "delete_service sha vc polls cluster_id =
     \<lparr>ts_operation_type = ''vm_delete'', ts_operation_prefix = ''vm-delete-'', ts_event_prefix = ''delete_'',
      ts_error_prefix = ''VM_DELETE_'', ts_recovery_kind = ''vm_delete_observation'', ts_cluster_id = cluster_id,
      ts_target = change_target, ts_extra_details = (\<lambda>_ _ _. []), ts_review = delete_review sha vc,
      ts_check_expected = delete_check_expected, ts_lock_vmids = (\<lambda>vmid _. (vmid, [])),
      ts_dispatch = delete_apply vc, ts_polls = polls,
      ts_task = task_observation vc ''VM_DELETE_TASK_OBSERVATION_UNAVAILABLE'',
      ts_observe_result = delete_observe_result vc, ts_matches = delete_matches, ts_check_reference = (\<lambda>_. Inr ())\<rparr>"

section \<open>What the checks guarantee\<close>

text \<open>Only volumes named after the VM itself are ever listed for deletion.\<close>

definition named_after :: "string \<Rightarrow> int \<Rightarrow> pydict \<Rightarrow> bool" where
  "named_after prefix vmid row \<longleftrightarrow> (\<exists>a b. dget row ''volume_id'' =
     PStr (a @ '':'' @ show_int vmid @ ''/'' @ prefix @ ''-'' @ show_int vmid @ ''-'' @ b))"

lemma deletion_disk_owned:
  assumes "deletion_disk vmid config slot = Inr (Some row)"
  shows "named_after ''vm'' vmid row"
proof -
  from assms obtain volume storage form suffix where
    "own_volume (delete_error ''VOLUME_OWNERSHIP'' 409) ''vm'' vmid suffix volume = Inr (storage, form)"
    "row = volume_dict slot volume storage form"
    by (auto simp: deletion_disk_def split: if_splits)
  then show ?thesis
    using own_volume_name(2) [of "delete_error ''VOLUME_OWNERSHIP'' 409" "''vm''" vmid suffix volume storage form]
    by (auto simp: named_after_def volume_dict_def dget_Cons)
qed

lemma deletion_disks_owned:
  assumes "deletion_disks vmid config = Inr disks" "row \<in> set disks"
  shows "named_after ''vm'' vmid row"
proof -
  from assms obtain found where "emap (deletion_disk vmid config) (sort (disk_slots config)) = Inr found"
      and "Some row \<in> set found"
    by (auto simp: deletion_disks_def map_filter_def)
  from emap_mem [OF this] obtain s where "deletion_disk vmid config s = Inr (Some row)" by blast
  then show ?thesis by (rule deletion_disk_owned)
qed

lemma deletion_identityD:
  assumes "deletion_identity config status pending snapshots vmid = Inr d"
  shows "is_stopped status" "\<not> template_or_locked config" "flag_text config ''protection'' = ''0''"
    "\<exists>digest name disks. deletion_disks vmid config = Inr disks \<and>
       d = [(''vmid'', PInt vmid), (''name'', PStr name), (''status'', PStr ''stopped''),
            (''digest'', PStr digest), (''deleted_volumes'', PList (map PDict disks))]"
  using assms unfolding deletion_identity_def
  by (simp_all add: ebind_Inr_iff split: option.splits) blast

lemma deletion_identity_owned:
  assumes "deletion_identity config status pending snapshots vmid = Inr d"
  shows "\<exists>disks. dget d ''deleted_volumes'' = PList (map PDict disks) \<and> list_all (named_after ''vm'' vmid) disks"
  using deletion_identityD(4) [OF assms] deletion_disks_owned by (fastforce simp: dget_Cons list_all_iff)

lemma delete_check_expectedD:
  assumes "delete_check_expected before rq = Inr ()"
  shows "truthy (attr rq ''delete_acknowledged'')"
    "py_eq (attr rq ''confirmation'') (PStr (py_str (dget before ''vmid'') @ ''/'' @ py_str (dget before ''name'')))"
    "py_eq (dget before ''resources_digest'') (attr rq ''expected_resources_digest'')"
    "py_eq (dget before ''digest'') (attr rq ''expected_digest'')"
  using assms by (auto simp: delete_check_expected_def confirms_def reviewed_same_def dest!: ditem_dget)

text \<open>The comparison accepts only a complete absence with every other volume unchanged.\<close>

definition delete_achieved :: "pydict \<Rightarrow> pyval \<Rightarrow> bool" where
  "delete_achieved after requested \<longleftrightarrow> dget after ''vmid_unused'' = PBool True \<and>
     \<not> truthy (dget after ''remaining_volumes'') \<and> \<not> truthy (dget after ''preservation_unconfirmed'')"

lemma delete_matches_achieved: "delete_matches after requested before = Inr True \<Longrightarrow> delete_achieved after requested"
  by (auto simp: delete_matches_def delete_achieved_def split: if_splits dest!: ditem_dget)

lemma deletion_proved:
  assumes "deletion_result b rows unused = Inr after" "delete_matches after requested (PDict b) = Inr True"
    and "row_list b ''deleted_volumes'' = Inr gone" "row_list b ''preserved_volumes'' = Inr kept"
  shows "unused" "list_all (\<lambda>r. volume_at rows (dget r ''volume_id'') = None) gone" "list_all (unchanged rows) kept"
proof -
  have achieved: "delete_achieved after requested" using assms(2) by (rule delete_matches_achieved)
  have "dget after ''vmid_unused'' = PBool unused"
    "dget after ''remaining_volumes'' =
       PList (map (\<lambda>r. dget r ''volume_id'') (filter (\<lambda>r. volume_at rows (dget r ''volume_id'') \<noteq> None) gone))"
    "dget after ''preservation_unconfirmed'' =
       PList (map (\<lambda>r. dget r ''volume_id'') (filter (\<lambda>r. \<not> unchanged rows r) kept))"
    using assms(1,3,4) by (auto simp: deletion_result_def dget_Cons)
  with achieved show "unused" "list_all (\<lambda>r. volume_at rows (dget r ''volume_id'') = None) gone"
    "list_all (unchanged rows) kept"
    by (auto simp: delete_achieved_def list_all_iff filter_empty_conv)
qed

lemma delete_dispatch_bound: "delete_apply vc node vmid rq sn k = Inr upid \<Longrightarrow> bound_task ''qmdestroy'' node vmid upid"
  unfolding delete_apply_def by (rule dispatched_task_bound)

interpretation delete: task_feature "delete_service sha vc polls cluster" delete_achieved "bound_task ''qmdestroy''"
  for sha vc polls cluster
  by unfold_locales (auto simp: delete_service_def intro: delete_matches_achieved delete_dispatch_bound)

end
