(* ===== verification/VmBackup.thy ===== *)
theory VmBackup
  imports Backups VmDelete
begin

text \<open>
  Backup of a stopped VM by one vzdump task: \<open>app/operations/vm_backup/domain.py\<close>,
  \<open>infrastructure.py\<close> and \<open>application.py\<close>. The new archive is identified by the operation's marker.
\<close>

section \<open>Domain\<close>

definition backup_request_ok :: "pydict \<Rightarrow> bool" where
  "backup_request_ok d =
     (set (dict_keys d) = {''storage_id'', ''idempotency_key'', ''expected_name'', ''expected_review_digest'',
        ''confirmation'', ''backup_acknowledged''}
      \<and> str_field d ''storage_id'' 0 64 is_id \<and> str_field d ''idempotency_key'' 1 160 (matches_full KEY_TEXT)
      \<and> str_field d ''expected_name'' 1 255 (\<lambda>_. True)
      \<and> str_field d ''expected_review_digest'' 0 71 (matches_full SHA256_TEXT)
      \<and> str_field d ''confirmation'' 1 300 (\<lambda>_. True) \<and> bool_field d ''backup_acknowledged'')"

text \<open>The last two comparisons of \<open>check_expected\<close>, shared with the restore.\<close>

definition reviewed_digest :: "string \<Rightarrow> pydict \<Rightarrow> change_request \<Rightarrow> unit result" where
  "reviewed_digest code before rq =
     ebind (ditem before ''name'') (\<lambda>name.
     ebind (raise_if (\<not> py_eq name (attr rq ''expected_name'')) (backup_error code 409)) (\<lambda>_.
     ebind (ditem before ''review_digest'') (\<lambda>digest.
       raise_if (\<not> py_eq digest (attr rq ''expected_review_digest'')) (backup_error code 409))))"

definition backup_check_expected :: "pydict \<Rightarrow> change_request \<Rightarrow> unit result" where
  "backup_check_expected before rq =
     ebind (raise_if (attr rq ''backup_acknowledged'' \<noteq> PBool True) (backup_error ''VM_BACKUP_CONFIRMATION_REQUIRED'' 422)) (\<lambda>_.
     ebind (confirms before rq) (\<lambda>confirmed.
     ebind (raise_if (\<not> confirmed) (backup_error ''VM_BACKUP_CONFIRMATION_REQUIRED'' 422)) (\<lambda>_.
       reviewed_digest ''VM_BACKUP_STATE_CHANGED'' before rq)))"

definition backup_reference :: "string \<Rightarrow> int \<Rightarrow> pyval \<Rightarrow> string result" where
  "backup_reference = task_reference ''VM_BACKUP_TASK_UNKNOWN'' ''vzdump''"

section \<open>Client\<close>

abbreviation backup_unavailable :: string where
  "backup_unavailable \<equiv> ''VM_BACKUP_OBSERVATION_UNAVAILABLE''"

definition listing :: "vm_client \<Rightarrow> string \<Rightarrow> int \<Rightarrow> string \<Rightarrow> nat \<Rightarrow> pydict result" where
  "listing vc node_id vmid storage k =
     ebind (backup_target node_id vmid storage) (\<lambda>_.
     ebind (require_privileges (vc_vm_permissions vc vmid k) [''VM.Backup''] backup_unavailable ''VM_BACKUP_PERMISSION_DENIED'') (\<lambda>_.
     ebind (require_privileges (vc_storage_permissions vc storage k) [''Datastore.Audit'', ''Datastore.AllocateSpace'']
        backup_unavailable ''VM_BACKUP_PERMISSION_DENIED'') (\<lambda>_.
     ebind (read_or (vc_storages vc node_id k) backup_unavailable 503) (\<lambda>storages.
     ebind (storage_available storages (PStr storage) ''backup'') (\<lambda>store.
     ebind (read_or (vc_backups vc node_id storage vmid k) backup_unavailable 503) (\<lambda>backups.
     ebind (archives backups storage vmid) (\<lambda>rows.
       Inr [(''target'', PDict [(''node_id'', PStr node_id), (''vmid'', PInt vmid), (''storage_id'', PStr storage)]),
            (''archives'', PList (map PDict rows)), (''available_bytes'', dget store ''avail''),
            (''read_only'', PBool True)])))))))"

text \<open>Every volume's storage must offer images.\<close>

definition images_available :: "pydict list \<Rightarrow> pydict list \<Rightarrow> unit result" where
  "images_available stores volumes =
     ebind (emap (\<lambda>v. ebind (ditem v ''storage_id'') (\<lambda>s. storage_available stores s ''images'')) volumes) (\<lambda>_. Inr ())"

definition enough_space :: "pyval \<Rightarrow> pyval \<Rightarrow> bool" where
  "enough_space available required = (case (available, required) of (PInt a, PInt r) \<Rightarrow> r \<le> a | _ \<Rightarrow> False)"

lemma enough_space_iff: "enough_space a r \<longleftrightarrow> (\<exists>i j. a = PInt i \<and> r = PInt j \<and> j \<le> i)"
  by (cases a; cases r) (auto simp: enough_space_def)

definition observed_source :: "sha \<Rightarrow> vm_client \<Rightarrow> string \<Rightarrow> string \<Rightarrow> int \<Rightarrow> nat \<Rightarrow> pydict result" where
  "observed_source sha vc code node_id vmid k =
     (case (vc_config vc node_id vmid k, vc_status vc node_id vmid k, vc_pending vc node_id vmid k,
            vc_snapshots vc node_id vmid k) of
        (Some config, Some status, Some pending, Some snapshots) \<Rightarrow>
          ebind (backup_source sha config status pending snapshots vmid) (\<lambda>before.
          ebind (read_or (vc_storages vc node_id k) code 503) (\<lambda>stores.
          ebind (row_list before ''volumes'') (\<lambda>volumes.
          ebind (images_available stores volumes) (\<lambda>_. Inr before))))
      | _ \<Rightarrow> Inl (backup_error code 503))"

definition backup_manifest :: "sha \<Rightarrow> pydict \<Rightarrow> pydict \<Rightarrow> pydict \<Rightarrow> string \<Rightarrow> pydict" where
  "backup_manifest sha before listed defaults storage =
     (let manifest = dmerge before [(''storage_id'', PStr storage), (''archives'', dget listed ''archives''),
            (''defaults_digest'', PStr (operation_digest sha defaults))]
      in dmerge manifest [(''review_digest'', PStr (operation_digest sha manifest)),
           (''available_bytes'', dget listed ''available_bytes'')])"

definition backup_read :: "sha \<Rightarrow> vm_client \<Rightarrow> bool \<Rightarrow> string \<Rightarrow> int \<Rightarrow> string \<Rightarrow> nat \<Rightarrow> pydict result" where
  "backup_read sha vc require_space node_id vmid storage k =
     ebind (listing vc node_id vmid storage k) (\<lambda>listed.
     ebind (require_privileges (vc_vm_permissions vc vmid k) [''VM.Audit''] backup_unavailable ''VM_BACKUP_PERMISSION_DENIED'') (\<lambda>_.
     ebind (read_or (vc_task_audit vc node_id k) backup_unavailable 503) (\<lambda>audit.
     ebind (raise_if (\<not> audit) (backup_error ''VM_BACKUP_PERMISSION_DENIED'' 403)) (\<lambda>_.
     ebind (observed_source sha vc backup_unavailable node_id vmid k) (\<lambda>before.
     ebind (read_or (vc_backup_defaults vc node_id storage k) backup_unavailable 503) (\<lambda>defaults.
     ebind (raise_if (truthy (dget defaults ''script'')) (backup_error ''VM_BACKUP_HOOK_UNSUPPORTED'' 409)) (\<lambda>_.
     ebind (raise_if (require_space \<and> \<not> enough_space (dget listed ''available_bytes'') (dget before ''required_free_bytes''))
        (backup_error ''VM_BACKUP_SPACE_UNCONFIRMED'' 409)) (\<lambda>_.
       Inr (backup_manifest sha before listed defaults storage)))))))))"

definition backup_apply :: "vm_client \<Rightarrow> string \<Rightarrow> int \<Rightarrow> change_request \<Rightarrow> string \<Rightarrow> nat \<Rightarrow> string result" where
  "backup_apply vc node_id vmid rq operation_id k =
     ebind (read_or (vc_create_backup vc node_id vmid (attr rq ''storage_id'') operation_id k) ''VM_BACKUP_DISPATCH_UNKNOWN'' 503)
       (backup_reference node_id vmid)"

section \<open>Service\<close>

definition backup_review :: "sha \<Rightarrow> vm_client \<Rightarrow> string \<Rightarrow> int \<Rightarrow> change_request \<Rightarrow> nat \<Rightarrow> pydict result" where
  "backup_review sha vc node_id vmid rq k = backup_read sha vc True node_id vmid (py_str (attr rq ''storage_id'')) k"

text \<open>The archives with the operation's marker that the review had not listed.\<close>

definition created_archives :: "string \<Rightarrow> pydict list \<Rightarrow> pydict list \<Rightarrow> pydict list" where
  "created_archives operation_id old rows =
     filter (\<lambda>r. dget r ''operation_marker'' = PStr operation_id \<and> volume_at old (dget r ''volume_id'') = None) rows"

definition archives_preserved :: "pydict list \<Rightarrow> pydict list \<Rightarrow> bool" where
  "archives_preserved old rows = list_all (\<lambda>r. case volume_at old (dget r ''volume_id'') of
     None \<Rightarrow> False | Some last_row \<Rightarrow> in_values (PDict last_row) (map PDict rows)) old"

definition backup_outcome :: "operation_snapshot \<Rightarrow> pydict \<Rightarrow> pydict result" where
  "backup_outcome operation after =
     ebind (inner (sn_details operation) ''observed_before'') (\<lambda>before.
     ebind (row_list before ''archives'') (\<lambda>old.
     ebind (row_list after ''archives'') (\<lambda>rows.
       let created = created_archives (sn_operation_id operation) old rows
       in Inr (dmerge after [(''created_archive'', case created of [r] \<Rightarrow> PDict r | _ \<Rightarrow> PNone),
            (''previous_archives_preserved'', PBool (archives_preserved old rows)), (''restore_verified'', PBool False)]))))"

definition backup_observe_result :: "sha \<Rightarrow> vm_client \<Rightarrow> operation_snapshot \<Rightarrow> nat \<Rightarrow> pydict result" where
  "backup_observe_result sha vc operation k =
     ebind (recorded_reference backup_reference operation) (\<lambda>_.
     ebind (ebind (ditem (sn_details operation) ''requested'') (\<lambda>r. dict_item r ''storage_id'')) (\<lambda>storage.
     ebind (read_target (\<lambda>node vmid. backup_read sha vc False node vmid (py_str storage)) operation k)
       (backup_outcome operation)))"

definition backup_matches :: "pydict \<Rightarrow> pyval \<Rightarrow> pyval \<Rightarrow> bool result" where
  "backup_matches after requested before = (case before of
       PDict b \<Rightarrow>
         eall [ebind (ditem after ''created_archive'') (\<lambda>v. Inr (v \<noteq> PNone)),
           ebind (ditem after ''previous_archives_preserved'') (\<lambda>v. Inr (v = PBool True)),
           same_item after ''config_fingerprint'' b ''config_fingerprint'', same_item after ''volumes'' b ''volumes'',
           same_item after ''name'' b ''name'', ebind (ditem after ''status'') (\<lambda>v. Inr (v = PStr ''stopped''))]
     | _ \<Rightarrow> Inl (PyError TypeError))"

definition backup_service :: "sha \<Rightarrow> vm_client \<Rightarrow> (nat \<Rightarrow> nat) \<Rightarrow> string \<Rightarrow> task_service" where
  "backup_service sha vc polls cluster_id =
     \<lparr>ts_operation_type = ''vm_backup'', ts_operation_prefix = ''vm-backup-'', ts_event_prefix = ''backup_'',
      ts_error_prefix = ''VM_BACKUP_'', ts_recovery_kind = ''vm_backup_observation'', ts_cluster_id = cluster_id,
      ts_target = change_target, ts_extra_details = (\<lambda>_ _ _. []), ts_review = backup_review sha vc,
      ts_check_expected = backup_check_expected, ts_lock_vmids = (\<lambda>vmid _. (vmid, [])),
      ts_dispatch = (\<lambda>node_id vmid rq operation. backup_apply vc node_id vmid rq (sn_operation_id operation)),
      ts_polls = polls, ts_task = task_observation vc ''VM_BACKUP_TASK_UNAVAILABLE'',
      ts_observe_result = backup_observe_result sha vc, ts_matches = backup_matches,
      ts_check_reference = recorded_reference backup_reference\<rparr>"

section \<open>What the checks guarantee\<close>

text \<open>With the space check, the storage has room for the disk and a reserve.\<close>

lemma backup_read_space:
  assumes "backup_read sha vc True node vmid storage k = Inr d"
  shows "\<exists>listed before a r. listing vc node vmid storage k = Inr listed \<and>
      observed_source sha vc backup_unavailable node vmid k = Inr before \<and>
      dget listed ''available_bytes'' = PInt a \<and> dget before ''required_free_bytes'' = PInt r \<and> r \<le> a"
  using assms by (auto simp: backup_read_def enough_space_iff)

definition backup_achieved :: "pydict \<Rightarrow> pyval \<Rightarrow> bool" where
  "backup_achieved after requested \<longleftrightarrow>
     dget after ''created_archive'' \<noteq> PNone \<and> dget after ''previous_archives_preserved'' = PBool True"

lemma backup_matches_achieved: "backup_matches after requested before = Inr True \<Longrightarrow> backup_achieved after requested"
  by (auto simp: backup_matches_def backup_achieved_def split: pyval.splits dest!: ditem_dget)

text \<open>What the two fields of the observation say.\<close>

lemma distinct_keys: "dget (dmerge d [(a, u), (b, v), (c, w)]) k =
    (if k = c then w else if k = b then v else if k = a then u else dget d k)"
  by (simp add: dget_def)

lemma backup_outcomeD:
  assumes "backup_outcome operation after = Inr d" "backup_achieved d requested"
  obtains before old rows r where "dget (sn_details operation) ''observed_before'' = PDict before"
    "row_list before ''archives'' = Inr old" "row_list after ''archives'' = Inr rows"
    "created_archives (sn_operation_id operation) old rows = [r]" "archives_preserved old rows"
proof -
  from assms(1) obtain before old rows where b: "dget (sn_details operation) ''observed_before'' = PDict before"
      "row_list before ''archives'' = Inr old" "row_list after ''archives'' = Inr rows"
    and d: "d = dmerge after [(''created_archive'', case created_archives (sn_operation_id operation) old rows of
        [r] \<Rightarrow> PDict r | _ \<Rightarrow> PNone), (''previous_archives_preserved'', PBool (archives_preserved old rows)),
        (''restore_verified'', PBool False)]"
    by (auto simp: backup_outcome_def Let_def dest!: ditem_dget)
  from assms(2) have "archives_preserved old rows" "\<exists>r. created_archives (sn_operation_id operation) old rows = [r]"
    unfolding d backup_achieved_def distinct_keys by (auto split: list.splits)
  with b that show ?thesis by blast
qed

lemma backup_dispatch_bound: "backup_apply vc node vmid rq i k = Inr upid \<Longrightarrow> bound_task ''vzdump'' node vmid upid"
  by (auto simp: backup_apply_def backup_reference_def bound_task_def task_reference_Inr)

interpretation backup: task_feature "backup_service sha vc polls cluster" backup_achieved "bound_task ''vzdump''"
  for sha vc polls cluster
  by unfold_locales (auto simp: backup_service_def intro: backup_matches_achieved backup_dispatch_bound)

end
