(* ===== verification/VmClone.thy ===== *)
theory VmClone
  imports VmDelete
begin

text \<open>
  Full clone of a stopped VM with one NFS disk: \<open>app/operations/vm_clone/domain.py\<close>,
  \<open>infrastructure.py\<close> and \<open>application.py\<close>. The source and the new VM are locked together, the
  description of the new VM carries the identifier of the operation.
\<close>

section \<open>Domain\<close>

abbreviation clone_error :: "string \<Rightarrow> nat \<Rightarrow> error" where
  "clone_error code status \<equiv> FeatureError (''VM_CLONE_'' @ code) status"

definition CLONE_NAME :: rx where
  "CLONE_NAME = Cat (Cls (\<lambda>c. is_alpha c \<or> is_digit c))
     (Star (Cls (\<lambda>c. is_alpha c \<or> is_digit c \<or> c \<in> set ''.-'')))"

definition clone_request_ok :: "pydict \<Rightarrow> bool" where
  "clone_request_ok d =
     (set (dict_keys d) = {''idempotency_key'', ''expected_digest'', ''expected_name'', ''expected_volume'',
        ''expected_size_bytes'', ''new_vmid'', ''name'', ''storage_id'', ''guest_identity_acknowledged''}
      \<and> common_request d \<and> str_field d ''expected_name'' 0 255 (\<lambda>_. True)
      \<and> str_field d ''expected_volume'' 1 255 (\<lambda>_. True)
      \<and> (case dget d ''expected_size_bytes'' of PInt i \<Rightarrow> 0 < i | _ \<Rightarrow> False)
      \<and> int_field d ''new_vmid'' 100 999999999 \<and> str_field d ''name'' 1 63 (matches_full CLONE_NAME)
      \<and> str_field d ''storage_id'' 0 64 is_id \<and> bool_field d ''guest_identity_acknowledged'')"

definition clone_validate_target :: "string \<Rightarrow> int \<Rightarrow> int \<Rightarrow> string \<Rightarrow> unit result" where
  "clone_validate_target node_id vmid new_vmid storage_id =
     raise_if (\<not> valid_target node_id vmid \<or> \<not> vmid_range new_vmid \<or> \<not> is_id storage_id \<or> vmid = new_vmid)
       (clone_error ''INVALID_TARGET'' 422)"

text \<open>\<open>options\<close> without and with a volume in front.\<close>

definition unsupported :: error where
  "unsupported = clone_error ''CONFIG_UNSUPPORTED'' 409"

definition option_parts :: "pyval \<Rightarrow> string list result" where
  "option_parts v = (case v of
       PStr s \<Rightarrow> if s = [] \<or> length s > 4096 then Inl unsupported else Inr (py_split CHR '','' s)
     | _ \<Rightarrow> Inl unsupported)"

definition pairs_of :: "string list \<Rightarrow> (string \<times> string) list result" where
  "pairs_of parts = (case option_pairs parts of None \<Rightarrow> Inl unsupported | Some ps \<Rightarrow> Inr ps)"

definition device_options :: "pyval \<Rightarrow> (string \<times> string) list result" where
  "device_options v = ebind (option_parts v) pairs_of"

definition volume_options :: "pyval \<Rightarrow> (string \<times> (string \<times> string) list) result" where
  "volume_options v = ebind (option_parts v) (\<lambda>parts. ebind (pairs_of (tl parts)) (\<lambda>ps. Inr (hd parts, ps)))"

definition nfs_storage :: "pydict list \<Rightarrow> pyval \<Rightarrow> pydict result" where
  "nfs_storage storages storage_id =
     ebind (raise_if (\<not> images_storage (storage_row storages storage_id)) (clone_error ''STORAGE_UNSUPPORTED'' 409))
       (\<lambda>_. Inr [(''storage_id'', storage_id), (''type'', PStr ''nfs'')])"

definition clone_foreign :: "pydict \<Rightarrow> bool" where
  "clone_foreign config = list_ex (\<lambda>k.
     matches_full (numbered [''hostpci'', ''usb'', ''virtiofs'', ''unused'', ''net'']) k \<and> k \<noteq> ''net0''
     \<or> k \<in> set FOREIGN_KEYS) (dict_keys config)"

definition clone_volume :: "string \<Rightarrow> int \<Rightarrow> (string \<times> string) result" where
  "clone_volume volume vmid =
     (case fullmatch DISK_VOLUME volume of
        Some [storage, owner1, owner2, form] \<Rightarrow>
          ebind (int_of_text owner1) (\<lambda>i. ebind (if i = vmid then int_of_text owner2 else Inr i) (\<lambda>j.
            if i = vmid \<and> j = vmid then Inr (storage, form) else Inl (clone_error ''VOLUME_OWNERSHIP'' 409)))
      | _ \<Rightarrow> Inl (clone_error ''VOLUME_OWNERSHIP'' 409))"

definition clone_size :: "string \<Rightarrow> int result" where
  "clone_size t = (case decimal_bytes t of None \<Rightarrow> Inl (clone_error ''SIZE_UNAVAILABLE'' 503) | Some n \<Rightarrow> Inr n)"

text \<open>Every disk slot except \<open>scsi0\<close> must be the cloud-init volume of the VM at \<open>ide2\<close>.\<close>

definition clone_slot :: "pydict \<Rightarrow> int \<Rightarrow> string \<Rightarrow> pydict result" where
  "clone_slot config vmid key =
     ebind (volume_options (dget config key)) (\<lambda>(media, fields).
       case fullmatch (own_volume_rx ''vm'' vmid CLOUDINIT_SUFFIX) media of
         Some [storage, form] \<Rightarrow>
           if key \<noteq> ''ide2'' \<or> map_of fields ''media'' \<noteq> Some ''cdrom'' then Inl unsupported
           else Inr [(''storage_id'', PStr storage), (''volume_id'', PStr media)]
       | _ \<Rightarrow> Inl unsupported)"

definition clone_cloudinit :: "pydict \<Rightarrow> int \<Rightarrow> pyval result" where
  "clone_cloudinit config vmid =
     ebind (emap (clone_slot config vmid) (filter (\<lambda>k. k \<noteq> ''scsi0'') (disk_slots config)))
       (\<lambda>found. Inr (if found = [] then PNone else PDict (last found)))"

definition clone_nic :: "pydict \<Rightarrow> (string \<times> string) list result" where
  "clone_nic config =
     ebind (device_options (dget config ''net0'')) (\<lambda>nic.
     ebind (raise_if (fst (hd nic) \<notin> {''virtio'', ''e1000'', ''rtl8139'', ''vmxnet3''} \<or> \<not> matches_full MAC (snd (hd nic))
         \<or> \<not> is_id (text_or nic ''bridge'' []) \<or> map_of nic ''trunks'' \<noteq> None) unsupported) (\<lambda>_. Inr nic))"

definition config_int :: "pyval result \<Rightarrow> int result" where
  "config_int v = (case ebind v py_int of Inl _ \<Rightarrow> Inl unsupported | Inr i \<Rightarrow> Inr i)"

definition MARKER :: rx where
  "MARKER = Cat (word_rx ''vm-clone-'') (times 64 (Cls is_lower_hex))"

definition operation_marker :: "pydict \<Rightarrow> pyval" where
  "operation_marker config =
     (if matches_full MARKER (py_str (dget_or config ''description'' (PStr []))) then dget config ''description'' else PNone)"

definition none_or_text :: "string option \<Rightarrow> pyval" where
  "none_or_text v = (case v of None \<Rightarrow> PNone | Some s \<Rightarrow> PStr s)"

definition clone_devices :: "pydict \<Rightarrow> int \<Rightarrow> string \<Rightarrow> pydict result" where
  "clone_devices config vmid digest =
     ebind (volume_options (dget config ''scsi0'')) (\<lambda>(volume, opts).
     ebind (clone_volume volume vmid) (\<lambda>(storage, form).
     ebind (raise_if (map_of opts ''media'' = Some ''cdrom'' \<or> text_or opts ''shared'' ''0'' \<noteq> ''0''
         \<or> text_or opts ''ro'' ''0'' \<noteq> ''0'') unsupported) (\<lambda>_.
     ebind (clone_size (text_or opts ''size'' [])) (\<lambda>bytes.
     ebind (clone_cloudinit config vmid) (\<lambda>cloudinit.
     ebind (clone_nic config) (\<lambda>nic.
     ebind (if truthy (dget config ''smbios1'') then device_options (dget config ''smbios1'') else Inr []) (\<lambda>smbios.
     ebind (config_int (ditem config ''cores'')) (\<lambda>cores.
     ebind (config_int (ditem config ''memory'')) (\<lambda>memory.
     ebind (config_int (Inr (dget_or config ''sockets'' (PInt 1)))) (\<lambda>sockets.
       Inr [(''vmid'', PInt vmid), (''name'', PStr (py_str (dget_or config ''name'' (PStr [])))), (''digest'', PStr digest),
            (''status'', PStr ''stopped''), (''onboot'', PInt 0), (''volume_id'', PStr volume), (''storage_id'', PStr storage),
            (''format'', PStr form), (''size_bytes'', PInt bytes), (''disk_options'', text_dict opts),
            (''cloudinit'', cloudinit), (''nic'', text_dict nic), (''model'', PStr (fst (hd nic))),
            (''mac'', PStr (snd (hd nic))), (''cores'', PInt cores), (''memory_mib'', PInt memory),
            (''sockets'', PInt sockets), (''smbios_uuid'', none_or_text (map_of smbios ''uuid'')),
            (''operation_marker'', operation_marker config)]))))))))))"

definition clone_identity :: "pydict \<Rightarrow> pydict \<Rightarrow> pydict list \<Rightarrow> int \<Rightarrow> pydict result" where
  "clone_identity config status pending vmid =
     ebind (stopped_unlocked clone_error config status pending) (\<lambda>_.
     ebind (raise_if (flag_text config ''onboot'' \<noteq> ''0'') (clone_error ''AUTOSTART_ENABLED'' 409)) (\<lambda>_.
       case config_digest (dget config ''digest'') of
         None \<Rightarrow> Inl (clone_error ''DIGEST_UNAVAILABLE'' 503)
       | Some digest \<Rightarrow>
           ebind (raise_if (clone_foreign config) unsupported) (\<lambda>_.
           ebind (raise_if (contains_text ''custom-'' (py_str (dget_or config ''cpu'' (PStr [])))) unsupported) (\<lambda>_.
             clone_devices config vmid digest))))"

definition confirm_volume :: "pydict \<Rightarrow> pydict list \<Rightarrow> pydict \<Rightarrow> pydict result" where
  "confirm_volume identity storages volume =
     ebind (ditem identity ''storage_id'') (\<lambda>storage. ebind (nfs_storage storages storage) (\<lambda>_.
     ebind (raise_if ((case dget volume ''size'' of PInt i \<Rightarrow> dget identity ''size_bytes'' \<noteq> PInt i | _ \<Rightarrow> True)
         \<or> \<not> py_eq (dget volume ''format'') (dget identity ''format'')) (clone_error ''SIZE_UNCONFIRMED'' 503)) (\<lambda>_.
       case dget identity ''cloudinit'' of
         PDict c \<Rightarrow> ebind (nfs_storage storages (dget c ''storage_id'')) (\<lambda>_. Inr identity)
       | _ \<Rightarrow> Inr identity)))"

definition clone_check_expected :: "pydict \<Rightarrow> change_request \<Rightarrow> unit result" where
  "clone_check_expected before rq =
     ebind (ditem before ''source'') (\<lambda>source.
     ebind (raise_if (\<not> truthy (attr rq ''guest_identity_acknowledged'')) (clone_error ''IDENTITY_ACK_REQUIRED'' 422)) (\<lambda>_.
     ebind (dict_item source ''digest'') (\<lambda>digest. ebind (dict_item source ''name'') (\<lambda>name.
     ebind (dict_item source ''volume_id'') (\<lambda>volume. ebind (dict_item source ''size_bytes'') (\<lambda>bytes.
       raise_if (\<not> (py_eq digest (attr rq ''expected_digest'') \<and> py_eq name (attr rq ''expected_name'')
            \<and> py_eq volume (attr rq ''expected_volume'') \<and> py_eq bytes (attr rq ''expected_size_bytes'')))
         (clone_error ''STATE_CHANGED'' 409)))))))"

section \<open>UUIDs\<close>

text \<open>
  \<open>str(uuid.UUID(text))\<close> of the standard library: \<open>urn:\<close> and \<open>uuid:\<close> are removed, braces at the
  ends and all hyphens; the 32 remaining characters are read by \<open>int(text, 16)\<close>.
\<close>

function remove_text :: "string \<Rightarrow> string \<Rightarrow> string" where
  "remove_text w [] = []"
| "remove_text w (c # s) =
     (if w \<noteq> [] \<and> starts_with w (c # s) then remove_text w (drop (length w) (c # s)) else c # remove_text w s)"
  by pat_completeness auto
termination by (relation "measure (\<lambda>(w, s). length s)") auto

text \<open>Hexadecimal digits with single underscores between them.\<close>

fun hex_digits :: "bool \<Rightarrow> string \<Rightarrow> string option" where
  "hex_digits prev [] = (if prev then Some [] else None)"
| "hex_digits prev (c # cs) =
     (if is_hex c then map_option ((#) c) (hex_digits True cs)
      else if c = CHR ''_'' \<and> prev then
        (case cs of [] \<Rightarrow> None | d # ds \<Rightarrow> if is_hex d then hex_digits False cs else None)
      else None)"

definition unsigned_hex :: "string \<Rightarrow> string option" where
  "unsigned_hex s =
     (if starts_with ''0x'' s \<or> starts_with ''0X'' s
      then hex_digits False (if starts_with ''_'' (drop 2 s) then drop 3 s else drop 2 s)
      else hex_digits False s)"

definition hex_val :: "char \<Rightarrow> nat" where
  "hex_val c = (let n = of_char c in if n < 58 then n - 48 else if n < 71 then n - 55 else n - 87)"

definition nat_of_hex :: "string \<Rightarrow> nat" where
  "nat_of_hex s = foldl (\<lambda>n c. 16 * n + hex_val c) 0 s"

definition int_of_hex :: "string \<Rightarrow> int option" where
  "int_of_hex s = (let t = py_strip s in
     if starts_with ''-'' t then map_option (\<lambda>ds. - int (nat_of_hex ds)) (unsigned_hex (tl t))
     else map_option (\<lambda>ds. int (nat_of_hex ds)) (unsigned_hex (if starts_with ''+'' t then tl t else t)))"

fun low_hex :: "nat \<Rightarrow> nat \<Rightarrow> string" where
  "low_hex 0 n = []"
| "low_hex (Suc w) n = low_hex w (n div 16) @ [hex_digit (n mod 16)]"

definition uuid_text :: "nat \<Rightarrow> string" where
  "uuid_text n = (let h = low_hex 32 n in take 8 h @ ''-'' @ take 4 (drop 8 h) @ ''-'' @ take 4 (drop 12 h) @ ''-''
     @ take 4 (drop 16 h) @ ''-'' @ drop 20 h)"

definition parse_uuid :: "pyval \<Rightarrow> string option" where
  "parse_uuid v = (case v of
       PStr s \<Rightarrow>
         let h = remove_text ''-'' (strip_by (\<lambda>c. c = CHR ''{'' \<or> c = CHR ''}'') (remove_text ''uuid:'' (remove_text ''urn:'' s)))
         in if length h \<noteq> 32 then None
            else (case int_of_hex h of None \<Rightarrow> None | Some i \<Rightarrow> if 0 \<le> i then Some (uuid_text (nat i)) else None)
     | _ \<Rightarrow> None)"

section \<open>Comparison of the result\<close>

definition lower_of :: "pyval \<Rightarrow> string result" where
  "lower_of v = (case v of PStr s \<Rightarrow> Inr (py_lower s) | _ \<Rightarrow> Inl (PyError AttributeError))"

text \<open>The target's network options are the source's with the new MAC address.\<close>

definition expected_nic :: "pydict \<Rightarrow> pydict \<Rightarrow> pydict result" where
  "expected_nic original target =
     ebind (inner original ''nic'') (\<lambda>nic. ebind (ditem original ''model'') (\<lambda>model.
     ebind (ditem target ''mac'') (\<lambda>mac. Inr (dset (py_str model) mac nic))))"

definition other_mac :: "pydict \<Rightarrow> pydict \<Rightarrow> bool result" where
  "other_mac target original =
     ebind (ebind (ditem target ''mac'') lower_of) (\<lambda>a. ebind (ebind (ditem original ''mac'') lower_of) (\<lambda>b. Inr (a \<noteq> b)))"

definition cloudinit_moved :: "pydict \<Rightarrow> pydict \<Rightarrow> pydict \<Rightarrow> bool result" where
  "cloudinit_moved target original requested =
     ebind (ditem target ''cloudinit'') (\<lambda>c. ebind (ditem original ''cloudinit'') (\<lambda>c'.
       eand (Inr (truthy c = truthy c'))
         (if \<not> truthy c then Inr True
          else ebind (dict_item c ''storage_id'') (\<lambda>s. ebind (ditem requested ''storage_id'') (\<lambda>r. Inr (py_eq s r))))))"

definition clone_compare :: "pydict \<Rightarrow> pydict \<Rightarrow> pydict \<Rightarrow> pydict \<Rightarrow> pydict \<Rightarrow> pydict \<Rightarrow> string \<Rightarrow> bool result" where
  "clone_compare after requested before original source target new_uuid =
     ebind (expected_nic original target) (\<lambda>nic.
       eall ([Inr (py_eq (PDict source) (PDict original)), same_item target ''vmid'' requested ''new_vmid'',
              same_item target ''name'' requested ''name'', same_item target ''operation_marker'' after ''expected_marker'',
              same_item target ''storage_id'' requested ''storage_id'', other_item target ''volume_id'' original ''volume_id'']
         @ map (\<lambda>k. same_item target k original k)
             [''format'', ''size_bytes'', ''cores'', ''memory_mib'', ''sockets'', ''disk_options'']
         @ [other_mac target original, ebind (ditem target ''nic'') (\<lambda>n. Inr (py_eq n (PDict nic))),
            ebind (ditem original ''smbios_uuid'') (\<lambda>u. Inr (py_lower new_uuid \<noteq> py_lower (py_str u))),
            cloudinit_moved target original requested]))"

definition clone_matches :: "pydict \<Rightarrow> pyval \<Rightarrow> pyval \<Rightarrow> bool result" where
  "clone_matches after requested before = (case (requested, before) of
       (PDict r, PDict b) \<Rightarrow>
         ebind (inner b ''source'') (\<lambda>original. ebind (inner after ''source'') (\<lambda>source.
         ebind (inner after ''destination'') (\<lambda>target. ebind (ditem target ''smbios_uuid'') (\<lambda>u.
           case parse_uuid u of None \<Rightarrow> Inr False
           | Some new_uuid \<Rightarrow> clone_compare after r b original source target new_uuid))))
     | _ \<Rightarrow> Inl (PyError TypeError))"

section \<open>Client\<close>

definition clone_read :: "vm_client \<Rightarrow> string \<Rightarrow> int \<Rightarrow> nat \<Rightarrow> pydict result" where
  "clone_read vc node_id vmid k =
     (case (vc_config vc node_id vmid k, vc_status vc node_id vmid k, vc_pending vc node_id vmid k) of
        (Some config, Some status, Some pending) \<Rightarrow>
          ebind (clone_identity config status pending vmid) (\<lambda>identity.
          ebind (read_or (vc_storages vc node_id k) ''VM_CLONE_OBSERVATION_UNAVAILABLE'' 503) (\<lambda>storages.
          ebind (read_or (vc_volume vc node_id (py_str (dget identity ''storage_id''))
                   (py_str (dget identity ''volume_id'')) k) ''VM_CLONE_OBSERVATION_UNAVAILABLE'' 503) (\<lambda>volume.
            confirm_volume identity storages volume)))
      | _ \<Rightarrow> Inl (clone_error ''OBSERVATION_UNAVAILABLE'' 503))"

definition bridge_of :: "pydict \<Rightarrow> string result" where
  "bridge_of source = ebind (inner source ''nic'') (\<lambda>nic. ebind (ditem nic ''bridge'') (\<lambda>b. Inr (py_str b)))"

definition clone_permissions_ok :: "string list \<Rightarrow> string list \<Rightarrow> string list \<Rightarrow> string list \<Rightarrow> bool" where
  "clone_permissions_ok original destination storage bridge =
     ({''VM.Audit'', ''VM.Clone'', ''VM.Config.Disk''} \<subseteq> set original
      \<and> {''VM.Audit'', ''VM.Allocate'', ''VM.Config.Disk''} \<subseteq> set destination
      \<and> {''Datastore.Audit'', ''Datastore.AllocateSpace''} \<subseteq> set storage \<and> ''SDN.Use'' \<in> set bridge)"

definition clone_client_review :: "vm_client \<Rightarrow> string \<Rightarrow> int \<Rightarrow> int \<Rightarrow> string \<Rightarrow> nat \<Rightarrow> pydict result" where
  "clone_client_review vc node_id vmid new_vmid storage_id k =
     ebind (clone_read vc node_id vmid k) (\<lambda>source. ebind (bridge_of source) (\<lambda>bridge.
     case (vc_vm_permissions vc vmid k, vc_vm_permissions vc new_vmid k, vc_storage_permissions vc storage_id k,
           vc_bridge_permissions vc bridge k) of
       (Some original, Some destination, Some storage, Some br) \<Rightarrow>
         ebind (raise_if (\<not> clone_permissions_ok original destination storage br) (clone_error ''PERMISSION_DENIED'' 403)) (\<lambda>_.
         ebind (read_or (vc_storages vc node_id k) ''VM_CLONE_OBSERVATION_UNAVAILABLE'' 503) (\<lambda>storages.
         ebind (nfs_storage storages (PStr storage_id)) (\<lambda>target_storage.
         ebind (read_or (vc_resources vc k) ''VM_CLONE_OBSERVATION_UNAVAILABLE'' 503) (\<lambda>resources.
         ebind (raise_if (list_ex (\<lambda>row. py_eq (dget row ''vmid'') (PInt new_vmid)) resources)
            (clone_error ''TARGET_EXISTS'' 409)) (\<lambda>_.
           Inr [(''source'', PDict source), (''destination'',
             PDict (dmerge [(''node_id'', PStr node_id), (''vmid'', PInt new_vmid)] target_storage))])))))
     | _ \<Rightarrow> Inl (clone_error ''OBSERVATION_UNAVAILABLE'' 503)))"

text \<open>\<open>text.rsplit(".", 1)[-1]\<close>\<close>

definition after_last_dot :: "string \<Rightarrow> string" where
  "after_last_dot s = last (py_split CHR ''.'' s)"

definition clone_arguments :: "change_request \<Rightarrow> string \<Rightarrow> pydict" where
  "clone_arguments rq marker =
     [(''newid'', attr rq ''new_vmid''), (''name'', attr rq ''name''), (''storage'', attr rq ''storage_id''),
      (''format'', PStr (after_last_dot (py_str (attr rq ''expected_volume'')))), (''description'', PStr marker)]"

definition clone_apply :: "vm_client \<Rightarrow> string \<Rightarrow> int \<Rightarrow> change_request \<Rightarrow> string \<Rightarrow> nat \<Rightarrow> string result" where
  "clone_apply vc node_id vmid rq marker k =
     dispatched_task ''VM_CLONE_DISPATCH_UNKNOWN'' ''qmclone'' node_id vmid
       (vc_clone vc node_id vmid (clone_arguments rq marker) k)"

section \<open>Service\<close>

text \<open>The validated request holds an integer \<open>new_vmid\<close>.\<close>

definition new_vmid :: "change_request \<Rightarrow> int" where
  "new_vmid rq = (case attr rq ''new_vmid'' of PInt i \<Rightarrow> i | _ \<Rightarrow> 0)"

definition clone_review :: "vm_client \<Rightarrow> string \<Rightarrow> int \<Rightarrow> change_request \<Rightarrow> nat \<Rightarrow> pydict result" where
  "clone_review vc node_id vmid rq k =
     (let storage = py_str (attr rq ''storage_id'') in
      ebind (clone_validate_target node_id vmid (new_vmid rq) storage) (\<lambda>_.
        clone_client_review vc node_id vmid (new_vmid rq) storage k))"

definition clone_target :: "string \<Rightarrow> int \<Rightarrow> change_request \<Rightarrow> pydict" where
  "clone_target node_id vmid rq =
     [(''node_id'', PStr node_id), (''vmid'', attr rq ''new_vmid''), (''name'', attr rq ''name'')]"

definition clone_extra_details :: "string \<Rightarrow> int \<Rightarrow> change_request \<Rightarrow> pydict" where
  "clone_extra_details node_id vmid rq =
     [(''source'', PDict [(''node_id'', PStr node_id), (''vmid'', PInt vmid), (''name'', attr rq ''expected_name'')])]"

definition clone_observe_result :: "vm_client \<Rightarrow> operation_snapshot \<Rightarrow> nat \<Rightarrow> pydict result" where
  "clone_observe_result vc operation k =
     ebind (ditem (sn_details operation) ''source'') (\<lambda>source. ebind (ditem (sn_details operation) ''target'') (\<lambda>target.
     ebind (read_at (clone_read vc) source k) (\<lambda>s. ebind (read_at (clone_read vc) target k) (\<lambda>d.
       Inr [(''expected_marker'', PStr (sn_operation_id operation)), (''source'', PDict s), (''destination'', PDict d)]))))"

definition clone_service :: "vm_client \<Rightarrow> (nat \<Rightarrow> nat) \<Rightarrow> string \<Rightarrow> task_service" where
  "clone_service vc polls cluster_id =
     \<lparr>ts_operation_type = ''vm_clone'', ts_operation_prefix = ''vm-clone-'', ts_event_prefix = ''clone_'',
      ts_error_prefix = ''VM_CLONE_'', ts_recovery_kind = ''vm_clone_observation'', ts_cluster_id = cluster_id,
      ts_target = clone_target, ts_extra_details = clone_extra_details, ts_review = clone_review vc,
      ts_check_expected = clone_check_expected, ts_lock_vmids = (\<lambda>vmid rq. (new_vmid rq, [vmid])),
      ts_dispatch = (\<lambda>node_id vmid rq operation. clone_apply vc node_id vmid rq (sn_operation_id operation)),
      ts_polls = polls, ts_task = task_observation vc ''VM_CLONE_TASK_OBSERVATION_UNAVAILABLE'',
      ts_observe_result = clone_observe_result vc, ts_matches = clone_matches, ts_check_reference = (\<lambda>_. Inr ())\<rparr>"

section \<open>What the checks guarantee\<close>

text \<open>A clone is reviewed only onto an identifier that no VM has, and never onto the source.\<close>

lemma clone_review_free:
  assumes "clone_review vc node vmid rq k = Inr before"
  shows "new_vmid rq \<noteq> vmid" "vmid_range (new_vmid rq)"
    "\<exists>rows. vc_resources vc k = Some rows \<and> list_all (\<lambda>row. \<not> py_eq (dget row ''vmid'') (PInt (new_vmid rq))) rows"
  using assms
  by (auto simp: clone_review_def Let_def clone_validate_target_def clone_client_review_def read_or_def
      list_all_iff list_ex_iff split: option.splits)

text \<open>
  The observed pair: the source as it was reviewed, the destination with the requested identity
  and the operation's marker, its own volume, MAC address and UUID.
\<close>

definition clone_achieved :: "pydict \<Rightarrow> pyval \<Rightarrow> bool" where
  "clone_achieved after requested \<longleftrightarrow> (\<exists>r target. requested = PDict r \<and> dget after ''destination'' = PDict target \<and>
     py_eq (dget target ''vmid'') (dget r ''new_vmid'') \<and> py_eq (dget target ''name'') (dget r ''name'') \<and>
     py_eq (dget target ''storage_id'') (dget r ''storage_id'') \<and>
     py_eq (dget target ''operation_marker'') (dget after ''expected_marker'') \<and>
     parse_uuid (dget target ''smbios_uuid'') \<noteq> None)"

lemma clone_matchesD:
  assumes "clone_matches after requested before = Inr True"
  obtains r b original source target u nic where "requested = PDict r" "before = PDict b"
    "dget b ''source'' = PDict original" "dget after ''source'' = PDict source"
    "dget after ''destination'' = PDict target" "parse_uuid (dget target ''smbios_uuid'') = Some u"
    "clone_compare after r b original source target u = Inr True"
  using assms by (auto simp: clone_matches_def split: pyval.splits option.splits dest!: ditem_dget)

lemma clone_matches_achieved: "clone_matches after requested before = Inr True \<Longrightarrow> clone_achieved after requested"
  by (erule clone_matchesD)
    (auto simp: clone_achieved_def clone_compare_def dest!: same_item_True)

lemma clone_matches_separate:
  assumes "clone_matches after requested (PDict b) = Inr True"
  obtains original target where "dget b ''source'' = PDict original" "dget after ''destination'' = PDict target"
    "py_eq (dget after ''source'') (PDict original)"
    "\<not> py_eq (dget target ''volume_id'') (dget original ''volume_id'')"
    "other_mac target original = Inr True"
  by (rule clone_matchesD [OF assms])
    (auto simp: clone_compare_def intro!: that dest!: other_item_True)

lemma clone_dispatch_bound: "clone_apply vc node vmid rq marker k = Inr upid \<Longrightarrow> bound_task ''qmclone'' node vmid upid"
  unfolding clone_apply_def by (rule dispatched_task_bound)

interpretation clone: task_feature "clone_service vc polls cluster" clone_achieved "bound_task ''qmclone''"
  for vc polls cluster
  by unfold_locales (auto simp: clone_service_def intro: clone_matches_achieved clone_dispatch_bound)

end
