(* ===== verification/VmRestore.thy ===== *)
theory VmRestore
  imports VmBackup VmClone "HOL-Library.Word"
begin

unbundle bit_operations_syntax

text \<open>
  Restore of a backup into a new, isolated VM: \<open>app/operations/vm_restore/domain.py\<close>,
  \<open>infrastructure.py\<close> and \<open>application.py\<close>. The new VM gets a computed MAC address and a NIC
  whose link is down.
\<close>

section \<open>Domain\<close>

definition restore_request_ok :: "pydict \<Rightarrow> bool" where
  "restore_request_ok d =
     (set (dict_keys d) = {''archive'', ''new_vmid'', ''name'', ''storage_id'', ''bridge_id'', ''idempotency_key'',
        ''expected_name'', ''expected_review_digest'', ''confirmation'', ''isolation_acknowledged''}
      \<and> str_field d ''archive'' 0 255 (matches_full ARCHIVE) \<and> int_field d ''new_vmid'' 100 999999999
      \<and> str_field d ''name'' 0 63 (matches_full RESTORE_NAME) \<and> str_field d ''storage_id'' 0 64 is_id
      \<and> str_field d ''bridge_id'' 0 64 is_id \<and> str_field d ''idempotency_key'' 1 160 (matches_full KEY_TEXT)
      \<and> str_field d ''expected_name'' 1 255 (\<lambda>_. True)
      \<and> str_field d ''expected_review_digest'' 0 71 (matches_full SHA256_TEXT)
      \<and> str_field d ''confirmation'' 1 300 (\<lambda>_. True) \<and> bool_field d ''isolation_acknowledged'')"

text \<open>
  \<open>isolated_mac\<close>: the first six bytes of a digest (read from its hexadecimal text), the first
  set to 2, and the last flipped in its lowest bit when the result is the source's address.
\<close>

type_synonym byte = "8 word"

fun hex_bytes :: "string \<Rightarrow> byte list" where
  "hex_bytes (a # b # s) = of_nat (16 * hex_val a + hex_val b) # hex_bytes s"
| "hex_bytes s = []"

definition upper_digit :: "nat \<Rightarrow> char" where
  "upper_digit n = (if n < 10 then char_of (48 + n) else char_of (55 + n))"

definition byte_text :: "byte \<Rightarrow> string" where
  "byte_text b = [upper_digit (unat b div 16), upper_digit (unat b mod 16)]"

definition mac_text :: "byte list \<Rightarrow> string" where
  "mac_text bs = py_join '':'' (map byte_text bs)"

definition isolated_bytes :: "byte list \<Rightarrow> string \<Rightarrow> byte list" where
  "isolated_bytes raw source_mac =
     (let bs = raw[0 := 2] in if mac_text bs = py_upper source_mac then bs[5 := bs ! 5 XOR 1] else bs)"

definition isolated_mac :: "sha \<Rightarrow> string \<Rightarrow> string \<Rightarrow> int \<Rightarrow> string \<Rightarrow> string" where
  "isolated_mac sha archive node new_id source_mac =
     mac_text (isolated_bytes (take 6 (hex_bytes (sha (utf8 (archive @ '':'' @ node @ '':'' @ show_int new_id))))) source_mac)"

definition restore_check_expected :: "pydict \<Rightarrow> change_request \<Rightarrow> unit result" where
  "restore_check_expected before rq =
     ebind (raise_if (attr rq ''isolation_acknowledged'' \<noteq> PBool True) (backup_error ''VM_RESTORE_CONFIRMATION_REQUIRED'' 422)) (\<lambda>_.
     ebind (ditem before ''vmid'') (\<lambda>vmid.
     ebind (raise_if (\<not> py_eq (attr rq ''confirmation'') (PStr (py_str vmid @ ''/'' @ py_str (attr rq ''new_vmid'') @ ''/''
          @ py_str (attr rq ''name'')))) (backup_error ''VM_RESTORE_CONFIRMATION_REQUIRED'' 422)) (\<lambda>_.
       reviewed_digest ''VM_RESTORE_STATE_CHANGED'' before rq)))"

definition restore_reference :: "string \<Rightarrow> int \<Rightarrow> pyval \<Rightarrow> string result" where
  "restore_reference = task_reference ''VM_RESTORE_TASK_UNKNOWN'' ''qmrestore''"

section \<open>Client\<close>

text \<open>The calls that only the restore uses, beside those of the other features.\<close>

record restore_calls =
  rc_client :: vm_client
  rc_backup_config :: "string \<Rightarrow> string \<Rightarrow> nat \<Rightarrow> pyval option"
  rc_restore :: "string \<Rightarrow> pydict \<Rightarrow> nat \<Rightarrow> pyval option"

definition restore_source :: "sha \<Rightarrow> vm_client \<Rightarrow> string \<Rightarrow> string \<Rightarrow> int \<Rightarrow> nat \<Rightarrow> pydict result" where
  "restore_source sha vc code node_id vmid k =
     ebind (require_privileges (vc_vm_permissions vc vmid k) [''VM.Audit''] code ''VM_RESTORE_PERMISSION_DENIED'') (\<lambda>_.
       observed_source sha vc code node_id vmid k)"

definition restore_archive :: "sha \<Rightarrow> restore_calls \<Rightarrow> string \<Rightarrow> string \<Rightarrow> int \<Rightarrow> pyval \<Rightarrow> nat \<Rightarrow> pydict result" where
  "restore_archive sha rc code node_id vmid archive k =
     (case archive_of archive of
        None \<Rightarrow> Inl (backup_error ''VM_RESTORE_ARCHIVE_INVALID'' 422)
      | Some (storage, owner, stamp, suffix) \<Rightarrow>
          ebind (raise_if (owner \<noteq> vmid) (backup_error ''VM_RESTORE_ARCHIVE_INVALID'' 422)) (\<lambda>_.
          ebind (listing (rc_client rc) node_id vmid storage k) (\<lambda>listed.
          ebind (row_list listed ''archives'') (\<lambda>rows.
            case filter (\<lambda>row. py_eq (dget row ''volume_id'') archive) rows of
              [row] \<Rightarrow>
                ebind (read_or (rc_backup_config rc node_id (py_str archive) k) code 503) (\<lambda>raw.
                ebind (parse_archive_config sha raw vmid) (\<lambda>(config, m).
                  Inr [(''file'', PDict row), (''configuration'', PDict m)]))
            | _ \<Rightarrow> Inl (backup_error ''VM_RESTORE_ARCHIVE_MISSING'' 409)))))"

abbreviation restore_unavailable :: string where
  "restore_unavailable \<equiv> ''VM_RESTORE_OBSERVATION_UNAVAILABLE''"

abbreviation restore_denied :: string where
  "restore_denied \<equiv> ''VM_RESTORE_PERMISSION_DENIED''"

definition restore_access :: "vm_client \<Rightarrow> string \<Rightarrow> int \<Rightarrow> string \<Rightarrow> string \<Rightarrow> nat \<Rightarrow> unit result" where
  "restore_access vc node_id new_id storage_id bridge_id k =
     ebind (require_privileges (vc_vm_permissions vc new_id k)
        [''VM.Audit'', ''VM.Allocate'', ''VM.Config.Disk'', ''VM.PowerMgmt'', ''VM.GuestAgent.Audit''] restore_unavailable restore_denied) (\<lambda>_.
     ebind (require_privileges (vc_storage_permissions vc storage_id k) [''Datastore.Audit'', ''Datastore.AllocateSpace'']
        restore_unavailable restore_denied) (\<lambda>_.
     ebind (require_privileges (vc_bridge_permissions vc bridge_id k) [''SDN.Use''] restore_unavailable restore_denied) (\<lambda>_.
     ebind (read_or (vc_task_audit vc node_id k) restore_unavailable 503) (\<lambda>audit.
       raise_if (\<not> audit) (backup_error restore_denied 403)))))"

definition restore_destination :: "sha \<Rightarrow> pydict \<Rightarrow> string \<Rightarrow> string \<Rightarrow> int \<Rightarrow> string \<Rightarrow> string \<Rightarrow> pydict \<Rightarrow> pydict result" where
  "restore_destination sha saved archive node_id new_id storage_id bridge_id bridge_row =
     ebind (inner saved ''configuration'') (\<lambda>c. ebind (ditem c ''source_mac'') (\<lambda>mac. ebind (ditem c ''firewall'') (\<lambda>firewall.
       Inr [(''vmid'', PInt new_id), (''storage_id'', PStr storage_id), (''bridge_id'', PStr bridge_id),
            (''bridge_fingerprint'', PStr (operation_digest sha bridge_row)),
            (''mac'', PStr (isolated_mac sha archive node_id new_id (py_str mac))),
            (''firewall'', firewall), (''link_down'', PBool True), (''onboot'', PBool False)])))"

definition restore_space :: "vm_client \<Rightarrow> string \<Rightarrow> string \<Rightarrow> pydict \<Rightarrow> nat \<Rightarrow> pyval result" where
  "restore_space vc node_id storage_id saved k =
     ebind (read_or (vc_storages vc node_id k) restore_unavailable 503) (\<lambda>stores.
     ebind (storage_available stores (PStr storage_id) ''images'') (\<lambda>store.
     ebind (inner saved ''configuration'') (\<lambda>c. ebind (ditem c ''required_free_bytes'') (\<lambda>required.
     ebind (raise_if (\<not> enough_space (dget store ''avail'') required) (backup_error ''VM_RESTORE_SPACE_UNCONFIRMED'' 409)) (\<lambda>_.
       Inr (dget store ''avail''))))))"

definition restore_targets :: "string \<Rightarrow> int \<Rightarrow> int \<Rightarrow> string \<Rightarrow> string \<Rightarrow> unit result" where
  "restore_targets node_id vmid new_id storage_id bridge_id =
     ebind (backup_target node_id vmid storage_id) (\<lambda>_.
     ebind (backup_target node_id new_id bridge_id) (\<lambda>_.
       raise_if (vmid = new_id) (backup_error ''VM_RESTORE_TARGET_INVALID'' 422)))"

definition restore_client_review :: "sha \<Rightarrow> restore_calls \<Rightarrow> string \<Rightarrow> int \<Rightarrow> string \<Rightarrow> int \<Rightarrow> string \<Rightarrow> string \<Rightarrow> nat
    \<Rightarrow> pydict result" where
  "restore_client_review sha rc node_id vmid archive new_id storage_id bridge_id k =
     (let vc = rc_client rc in
      ebind (restore_targets node_id vmid new_id storage_id bridge_id) (\<lambda>_.
      ebind (restore_source sha vc restore_unavailable node_id vmid k) (\<lambda>original.
      ebind (restore_archive sha rc restore_unavailable node_id vmid (PStr archive) k) (\<lambda>saved.
      ebind (restore_access vc node_id new_id storage_id bridge_id k) (\<lambda>_.
      ebind (raise_if (\<not> vc_vmid_unused vc new_id k) (backup_error restore_unavailable 503)) (\<lambda>_.
      ebind (restore_space vc node_id storage_id saved k) (\<lambda>available.
      ebind (read_or (vc_network vc node_id k) restore_unavailable 503) (\<lambda>network.
      ebind (active_bridge (backup_error ''VM_RESTORE_BRIDGE_UNAVAILABLE'' 409) network bridge_id) (\<lambda>row.
      ebind (restore_destination sha saved archive node_id new_id storage_id bridge_id row) (\<lambda>destination.
      ebind (ditem original ''name'') (\<lambda>name.
        let m = [(''vmid'', PInt vmid), (''name'', name), (''source'', PDict original), (''archive'', PDict saved),
                 (''destination'', PDict destination)]
        in Inr (m @ [(''review_digest'', PStr (operation_digest sha m)), (''available_bytes'', available)]))))))))))))"

definition restore_arguments :: "change_request \<Rightarrow> pyval \<Rightarrow> pyval \<Rightarrow> string \<Rightarrow> pydict" where
  "restore_arguments rq mac firewall operation_id =
     [(''new_vmid'', attr rq ''new_vmid''), (''name'', attr rq ''name''), (''archive'', attr rq ''archive''),
      (''storage'', attr rq ''storage_id''), (''bridge'', attr rq ''bridge_id''), (''mac'', mac), (''firewall'', firewall),
      (''operation_id'', PStr operation_id)]"

definition restore_apply :: "restore_calls \<Rightarrow> string \<Rightarrow> change_request \<Rightarrow> pydict \<Rightarrow> string \<Rightarrow> nat \<Rightarrow> string result" where
  "restore_apply rc node_id rq before operation_id k =
     ebind (inner before ''destination'') (\<lambda>destination.
     ebind (ditem destination ''mac'') (\<lambda>mac. ebind (ditem destination ''firewall'') (\<lambda>firewall.
     ebind (read_or (rc_restore rc node_id (restore_arguments rq mac firewall operation_id) k) ''VM_RESTORE_DISPATCH_UNKNOWN'' 503)
       (restore_reference node_id (new_vmid rq)))))"

text \<open>The restored VM as observed; \<open>allow_running\<close> is for reports on a booted VM.\<close>

definition restored_volume :: "vm_client \<Rightarrow> string \<Rightarrow> string \<Rightarrow> nat \<Rightarrow> pydict list \<Rightarrow> pydict \<Rightarrow> pydict result" where
  "restored_volume vc code node_id k stores volume =
     ebind (storage_available stores (dget volume ''storage_id'') ''images'') (\<lambda>_.
     ebind (read_or (vc_volume vc node_id (py_str (dget volume ''storage_id'')) (volume_text volume) k) code 503) (\<lambda>observed.
       case positive_int (dget observed ''size'') of
         Some bytes \<Rightarrow>
           if py_eq (dget observed ''format'') (dget volume ''format'') then Inr (dset ''size_bytes'' (PInt bytes) volume)
           else Inl (backup_error ''VM_RESTORE_VOLUME_UNCONFIRMED'' 503)
       | None \<Rightarrow> Inl (backup_error ''VM_RESTORE_VOLUME_UNCONFIRMED'' 503)))"

definition NIC_FIELDS :: "string list" where
  "NIC_FIELDS = [''virtio'', ''bridge'', ''link_down'', ''firewall'']"

definition restored_vm :: "sha \<Rightarrow> pydict \<Rightarrow> pyval \<Rightarrow> pydict \<Rightarrow> pydict list \<Rightarrow> pydict result" where
  "restored_vm sha config pw identity volumes =
     ebind (archive_options (dget config ''net0'')) (\<lambda>nic.
     ebind (hardware_fingerprint sha config) (\<lambda>hardware.
     ebind (smbios_uuid config) (\<lambda>uuid.
       Inr (dmerge identity [(''status'', pw), (''volumes'', PList (map PDict volumes)),
         (''hardware_fingerprint'', PStr hardware),
         (''nic'', PDict (map (\<lambda>k. (k, case map_of nic k of None \<Rightarrow> PNone | Some v \<Rightarrow> PStr v)) NIC_FIELDS)),
         (''nic_supported'', PBool (set (map fst nic) = set NIC_FIELDS)),
         (''onboot_disabled'', PBool (flag_text config ''onboot'' = ''0'')),
         (''operation_marker'', matching_marker (marker_rx ''vm-restore-'') (dget config ''description'')),
         (''smbios_uuid'', uuid), (''vmgenid'', dget config ''vmgenid'')]))))"

definition destination_vm :: "sha \<Rightarrow> vm_client \<Rightarrow> string \<Rightarrow> bool \<Rightarrow> string \<Rightarrow> int \<Rightarrow> nat \<Rightarrow> pydict result" where
  "destination_vm sha vc code allow_running node_id vmid k =
     (case (vc_config vc node_id vmid k, vc_status vc node_id vmid k) of
        (Some config, Some status) \<Rightarrow>
          ebind (raise_if (allow_running \<and> dget status ''status'' \<notin> {PStr ''running'', PStr ''stopped''})
             (backup_error ''VM_RESTORE_POWER_UNCONFIRMED'' 503)) (\<lambda>_.
          ebind (read_or (vc_pending vc node_id vmid k) code 503) (\<lambda>pending.
          ebind (read_or (vc_snapshots vc node_id vmid k) code 503) (\<lambda>snapshots.
          ebind (backup_source sha config (if allow_running then [(''status'', PStr ''stopped'')] else status) pending snapshots vmid)
            (\<lambda>identity.
          ebind (read_or (vc_storages vc node_id k) code 503) (\<lambda>stores.
          ebind (row_list identity ''volumes'') (\<lambda>volumes.
          ebind (emap (restored_volume vc code node_id k stores) volumes) (\<lambda>measured.
          ebind (ditem status ''status'') (\<lambda>pw. restored_vm sha config pw identity measured))))))))
      | _ \<Rightarrow> Inl (backup_error code 503))"

definition restore_observe :: "sha \<Rightarrow> restore_calls \<Rightarrow> string \<Rightarrow> int \<Rightarrow> int \<Rightarrow> pyval \<Rightarrow> nat \<Rightarrow> pydict result" where
  "restore_observe sha rc node_id vmid new_id archive k =
     (let vc = rc_client rc; code = ''VM_RESTORE_RESULT_UNAVAILABLE'' in
      ebind (restore_source sha vc code node_id vmid k) (\<lambda>source.
      ebind (restore_archive sha rc code node_id vmid archive k) (\<lambda>saved.
      ebind (destination_vm sha vc code False node_id new_id k) (\<lambda>destination.
        Inr [(''source'', PDict source), (''archive'', PDict saved), (''destination'', PDict destination),
             (''boot_verified'', PBool False), (''guest_access_verified'', PBool False)]))))"

section \<open>Service\<close>

definition restore_review :: "sha \<Rightarrow> restore_calls \<Rightarrow> string \<Rightarrow> int \<Rightarrow> change_request \<Rightarrow> nat \<Rightarrow> pydict result" where
  "restore_review sha rc node_id vmid rq k =
     restore_client_review sha rc node_id vmid (py_str (attr rq ''archive'')) (new_vmid rq) (py_str (attr rq ''storage_id''))
       (py_str (attr rq ''bridge_id'')) k"

definition restore_dispatch :: "restore_calls \<Rightarrow> string \<Rightarrow> int \<Rightarrow> change_request \<Rightarrow> operation_snapshot \<Rightarrow> nat \<Rightarrow> string result" where
  "restore_dispatch rc node_id vmid rq operation k =
     ebind (inner (sn_details operation) ''observed_before'') (\<lambda>before.
       restore_apply rc node_id rq before (sn_operation_id operation) k)"

definition restore_observe_result :: "sha \<Rightarrow> restore_calls \<Rightarrow> operation_snapshot \<Rightarrow> nat \<Rightarrow> pydict result" where
  "restore_observe_result sha rc operation k =
     ebind (ditem (sn_details operation) ''source'') (\<lambda>original.
     ebind (ditem (sn_details operation) ''target'') (\<lambda>target.
     ebind (ditem (sn_details operation) ''requested'') (\<lambda>requested.
     ebind (dict_item original ''node_id'') (\<lambda>node. ebind (dict_item original ''vmid'') (\<lambda>vmid.
     ebind (dict_item target ''vmid'') (\<lambda>new_id. ebind (dict_item requested ''archive'') (\<lambda>archive.
     ebind (at_target (\<lambda>n i. at_target (\<lambda>_ j. restore_observe sha rc n i j archive) node new_id) node vmid k) (\<lambda>after.
       Inr (dset ''expected_marker'' (PStr (sn_operation_id operation)) after)))))))))"

text \<open>A restored VM must not carry the UUID or generation id of the archive.\<close>

definition fresh_identifier :: "pydict \<Rightarrow> pydict \<Rightarrow> string \<Rightarrow> bool result" where
  "fresh_identifier archived target field =
     ebind (ditem archived field) (\<lambda>original.
       if \<not> truthy original \<or> original = PStr ''0'' then Inr True
       else ebind (ditem target field) (\<lambda>v. case parse_uuid v of
           None \<Rightarrow> Inr False
         | Some u \<Rightarrow> ebind (lower_of original) (\<lambda>w. Inr (py_lower u \<noteq> w))))"

definition truth_item :: "pydict \<Rightarrow> string \<Rightarrow> bool result" where
  "truth_item d k = ebind (ditem d k) (\<lambda>v. Inr (truthy v))"

definition isolated_nic :: "pydict \<Rightarrow> pydict \<Rightarrow> pydict \<Rightarrow> bool result" where
  "isolated_nic target expected requested =
     ebind (ditem target ''nic'') (\<lambda>nic. ebind (ditem expected ''mac'') (\<lambda>mac.
     ebind (ditem requested ''bridge_id'') (\<lambda>bridge. ebind (ditem expected ''firewall'') (\<lambda>firewall.
       Inr (py_eq nic (PDict [(''virtio'', mac), (''bridge'', bridge), (''link_down'', PStr ''1''), (''firewall'', firewall)]))))))"

definition volumes_placed :: "pydict \<Rightarrow> pydict \<Rightarrow> pydict \<Rightarrow> bool result" where
  "volumes_placed target archived requested =
     ebind (row_list target ''volumes'') (\<lambda>volumes.
       eand (eall (map (\<lambda>v. same_item v ''storage_id'' requested ''storage_id'') volumes))
         (case volumes of [] \<Rightarrow> Inl (PyError IndexError) | v # _ \<Rightarrow> same_item v ''size_bytes'' archived ''size_bytes''))"

definition restore_matches :: "pydict \<Rightarrow> pyval \<Rightarrow> pyval \<Rightarrow> bool result" where
  "restore_matches after requested before = (case (requested, before) of
       (PDict r, PDict b) \<Rightarrow>
         ebind (inner after ''destination'') (\<lambda>target. ebind (inner b ''destination'') (\<lambda>expected.
         ebind (ebind (inner b ''archive'') (\<lambda>a. inner a ''configuration'')) (\<lambda>archived.
           eall [fresh_identifier archived target ''smbios_uuid'', fresh_identifier archived target ''vmgenid'',
             same_item after ''source'' b ''source'', same_item after ''archive'' b ''archive'',
             same_item target ''vmid'' r ''new_vmid'', same_item target ''name'' r ''name'',
             ebind (ditem target ''status'') (\<lambda>v. Inr (v = PStr ''stopped'')),
             truth_item target ''onboot_disabled'', truth_item target ''nic_supported'',
             same_item target ''operation_marker'' after ''expected_marker'',
             same_item target ''hardware_fingerprint'' archived ''hardware_fingerprint'',
             isolated_nic target expected r, volumes_placed target archived r])))
     | _ \<Rightarrow> Inl (PyError TypeError))"

definition restore_service :: "sha \<Rightarrow> restore_calls \<Rightarrow> (nat \<Rightarrow> nat) \<Rightarrow> string \<Rightarrow> task_service" where
  "restore_service sha rc polls cluster_id =
     \<lparr>ts_operation_type = ''vm_restore'', ts_operation_prefix = ''vm-restore-'', ts_event_prefix = ''restore_'',
      ts_error_prefix = ''VM_RESTORE_'', ts_recovery_kind = ''vm_restore_observation'', ts_cluster_id = cluster_id,
      ts_target = clone_target, ts_extra_details = clone_extra_details, ts_review = restore_review sha rc,
      ts_check_expected = restore_check_expected, ts_lock_vmids = (\<lambda>vmid rq. (new_vmid rq, [vmid])),
      ts_dispatch = restore_dispatch rc, ts_polls = polls,
      ts_task = task_observation (rc_client rc) ''VM_RESTORE_TASK_UNAVAILABLE'',
      ts_observe_result = restore_observe_result sha rc, ts_matches = restore_matches,
      ts_check_reference = recorded_reference restore_reference\<rparr>"

section \<open>The isolated address\<close>

lemma hex_val_upper_digit: "n < 16 \<Longrightarrow> hex_val (upper_digit n) = n"
  by (simp add: hex_val_def upper_digit_def Let_def of_char_of)

lemma byte_bound: "unat (b :: byte) < 256"
proof -
  have "unat b < 2 ^ LENGTH(8)" by (rule unsigned_less)
  then show ?thesis by simp
qed

lemma hex_bytes_byte_text: "hex_bytes (byte_text b) = [b]"
proof -
  show ?thesis using byte_bound [of b] by (simp add: byte_text_def hex_val_upper_digit less_mult_imp_div_less)
qed

lemma byte_text_no_colon: "CHR '':'' \<notin> set (byte_text b)"
proof -
  have "upper_digit n \<noteq> CHR '':''" if "n < 16" for n
  proof
    assume "upper_digit n = CHR '':''"
    then have "of_char (upper_digit n) = (58 :: nat)" by simp
    with that show False by (auto simp: upper_digit_def of_char_of split: if_splits)
  qed
  then have "upper_digit (unat b div 16) \<noteq> CHR '':''" "upper_digit (unat b mod 16) \<noteq> CHR '':''"
    using byte_bound [of b] by (simp_all add: less_mult_imp_div_less)
  then show ?thesis by (auto simp: byte_text_def eq_commute [of "CHR '':''"])
qed

lemma mac_text_inj: "mac_text bs = mac_text cs \<Longrightarrow> bs \<noteq> [] \<Longrightarrow> cs \<noteq> [] \<Longrightarrow> bs = cs"
proof -
  assume eq: "mac_text bs = mac_text cs" and ne: "bs \<noteq> []" "cs \<noteq> []"
  have "py_split CHR '':'' (mac_text ds) = map byte_text ds" if "ds \<noteq> []" for ds
    unfolding mac_text_def using that byte_text_no_colon by (intro split_join) auto
  with eq ne have "map byte_text bs = map byte_text cs" by metis
  then have "map hex_bytes (map byte_text bs) = map hex_bytes (map byte_text cs)" by simp
  then have "map (\<lambda>b. [b]) bs = map (\<lambda>b. [b]) cs" by (simp add: hex_bytes_byte_text comp_def)
  then show "bs = cs" by (rule map_injective) (simp add: inj_on_def)
qed

lemma flipped: "(b :: byte) XOR 1 \<noteq> b"
proof
  assume "b XOR 1 = b"
  then have "bit (b XOR 1) 0 = bit b 0" by simp
  then show False by (simp add: bit_xor_iff bit_1_iff)
qed

lemma isolated_bytes_other:
  assumes "length raw = 6"
  shows "mac_text (isolated_bytes raw m) \<noteq> py_upper m"
proof (cases "mac_text (raw[0 := 2]) = py_upper m")
  case True
  let ?bs = "raw[0 := 2]"
  have "?bs[5 := ?bs ! 5 XOR 1] ! 5 \<noteq> ?bs ! 5" using assms flipped by simp
  then have "?bs[5 := ?bs ! 5 XOR 1] \<noteq> ?bs" by metis
  moreover have "?bs \<noteq> []" using assms by auto
  ultimately have "mac_text (?bs[5 := ?bs ! 5 XOR 1]) \<noteq> mac_text ?bs" using mac_text_inj by fastforce
  with True show ?thesis by (simp add: isolated_bytes_def Let_def)
qed (simp add: isolated_bytes_def Let_def)

lemma length_hex_bytes: "length (hex_bytes s) = length s div 2"
  by (induction s rule: hex_bytes.induct) auto

text \<open>The computed address is never the source's, and it is a locally administered unicast address.\<close>

lemma isolated_mac_other:
  assumes "\<And>s. length (sha s) = 64"
  shows "isolated_mac sha archive node new_id m \<noteq> py_upper m"
  unfolding isolated_mac_def by (rule isolated_bytes_other) (simp add: length_hex_bytes assms)

lemma isolated_bytes_local:
  assumes "length raw = 6"
  shows "\<exists>rest. mac_text (isolated_bytes raw m) = ''02:'' @ rest"
proof -
  obtain a b bs where raw: "raw = a # b # bs" using assms by (cases raw; cases "tl raw") auto
  have two: "byte_text 2 = ''02''" by code_simp
  have "\<exists>c cs. isolated_bytes raw m = 2 # c # cs"
    unfolding raw by (auto simp: isolated_bytes_def Let_def numeral_eq_Suc)
  then show ?thesis by (auto simp: mac_text_def two)
qed

lemma isolated_mac_local:
  assumes "\<And>s. length (sha s) = 64"
  shows "\<exists>rest. isolated_mac sha archive node new_id m = ''02:'' @ rest"
  unfolding isolated_mac_def by (rule isolated_bytes_local) (simp add: length_hex_bytes assms)

section \<open>What the checks guarantee\<close>

text \<open>A restore is reviewed only onto an unused identifier other than the source's.\<close>

lemma restore_review_free:
  assumes "restore_review sha rc node vmid rq k = Inr before"
  shows "new_vmid rq \<noteq> vmid" "vc_vmid_unused (rc_client rc) (new_vmid rq) k"
  using assms by (auto simp: restore_review_def restore_client_review_def restore_targets_def Let_def)

definition restore_achieved :: "pydict \<Rightarrow> pyval \<Rightarrow> bool" where
  "restore_achieved after requested \<longleftrightarrow> (\<exists>r target. requested = PDict r \<and> dget after ''destination'' = PDict target \<and>
     py_eq (dget target ''vmid'') (dget r ''new_vmid'') \<and> py_eq (dget target ''name'') (dget r ''name'') \<and>
     dget target ''status'' = PStr ''stopped'' \<and> truthy (dget target ''onboot_disabled'') \<and>
     py_eq (dget target ''operation_marker'') (dget after ''expected_marker''))"

lemma truth_item_True: "truth_item d k = Inr True \<Longrightarrow> truthy (dget d k)"
  by (auto simp: truth_item_def dest!: ditem_dget)

lemma restore_matches_achieved: "restore_matches after requested before = Inr True \<Longrightarrow> restore_achieved after requested"
  by (auto simp: restore_matches_def restore_achieved_def split: pyval.splits
      dest!: ditem_dget same_item_True truth_item_True)

text \<open>The NIC of the restored VM has the reviewed address and its link is down; source and archive are unchanged.\<close>

lemma restore_matches_isolated:
  assumes "restore_matches after requested (PDict b) = Inr True"
  obtains target expected r where "dget after ''destination'' = PDict target" "dget b ''destination'' = PDict expected"
    "requested = PDict r" "py_eq (dget target ''nic'') (PDict [(''virtio'', dget expected ''mac''), (''bridge'', dget r ''bridge_id''),
       (''link_down'', PStr ''1''), (''firewall'', dget expected ''firewall'')])"
    "py_eq (dget after ''source'') (dget b ''source'')" "py_eq (dget after ''archive'') (dget b ''archive'')"
  using assms by (auto simp: restore_matches_def isolated_nic_def split: pyval.splits dest!: ditem_dget same_item_True)

lemma restore_dispatch_bound:
  "restore_dispatch rc node vmid rq sn k = Inr upid \<Longrightarrow> bound_task ''qmrestore'' node (new_vmid rq) upid"
  by (auto simp: restore_dispatch_def restore_apply_def restore_reference_def bound_task_def task_reference_Inr)

interpretation restore: task_feature "restore_service sha rc polls cluster" restore_achieved
    "\<lambda>node vmid upid. \<exists>i. bound_task ''qmrestore'' node i upid"
  for sha rc polls cluster
  by unfold_locales (auto simp: restore_service_def intro: restore_matches_achieved restore_dispatch_bound)

end
