(* ===== verification/VmTemplate.thy ===== *)
theory VmTemplate
  imports VmDelete
begin

text \<open>
  Conversion of a prepared VM to a template: \<open>app/operations/vm_template/domain.py\<close>,
  \<open>infrastructure.py\<close> and \<open>application.py\<close>.
\<close>

section \<open>Domain\<close>

abbreviation template_error :: "string \<Rightarrow> nat \<Rightarrow> error" where
  "template_error code status \<equiv> FeatureError (''VM_TEMPLATE_'' @ code) status"

definition template_request_ok :: "pydict \<Rightarrow> bool" where
  "template_request_ok d =
     (set (dict_keys d) = {''idempotency_key'', ''expected_digest'', ''expected_name'', ''expected_resources_digest'',
        ''confirmation'', ''guest_prepared'', ''conversion_acknowledged''}
      \<and> common_request d \<and> str_field d ''expected_name'' 1 255 (\<lambda>_. True)
      \<and> str_field d ''expected_resources_digest'' 0 71 (matches_full SHA256_TEXT)
      \<and> str_field d ''confirmation'' 1 300 (\<lambda>_. True)
      \<and> bool_field d ''guest_prepared'' \<and> bool_field d ''conversion_acknowledged'')"

definition template_validate_target :: "string \<Rightarrow> int \<Rightarrow> unit result" where
  "template_validate_target node_id vmid = raise_if (\<not> valid_target node_id vmid) (template_error ''INVALID_TARGET'' 422)"

definition agent_enabled :: "pydict \<Rightarrow> bool" where
  "agent_enabled config = (let agent = py_split CHR '','' (py_str (dget_or config ''agent'' (PStr ''0'')))
     in ''enabled=1'' \<in> set agent \<or> hd agent = ''1'')"

text \<open>The volume of a slot and its normalized configuration entry.\<close>

definition template_slot :: "int \<Rightarrow> bool \<Rightarrow> pydict \<Rightarrow> string \<Rightarrow> (pydict \<times> pyval) result" where
  "template_slot vmid converted config slot =
     (let e = template_error ''VOLUME_OWNERSHIP'' 409; root = (slot = ''scsi0'') in
      ebind (ebind (ditem config slot) (drive (template_error ''DISK_UNSUPPORTED'' 409))) (\<lambda>(volume, opts).
      ebind (own_volume e (if converted \<and> root then ''base'' else ''vm'') vmid (if root then DISK_SUFFIX else CLOUDINIT_SUFFIX) volume)
        (\<lambda>(storage, form).
      ebind (raise_if (text_or opts ''shared'' ''0'' \<noteq> ''0'' \<or> root \<and> map_of opts ''media'' = Some ''cdrom''
           \<or> \<not> root \<and> map_of opts ''media'' \<noteq> Some ''cdrom'') e) (\<lambda>_.
        Inr (volume_dict slot volume storage form,
          PDict [(''volume'', PStr (if root then ''<converted-root>'' else volume)), (''options'', text_dict opts)])))))"

definition inspect_identity :: "sha \<Rightarrow> pydict \<Rightarrow> int \<Rightarrow> bool \<Rightarrow> string \<Rightarrow> string \<Rightarrow> pydict result" where
  "inspect_identity sha config vmid converted digest name =
     ebind (template_slot vmid converted config ''scsi0'') (\<lambda>(root, root_config).
     ebind (template_slot vmid converted config ''ide2'') (\<lambda>(cloud, cloud_config).
       let normalized = dset ''ide2'' cloud_config (dset ''scsi0'' root_config (dpop ''template'' (dpop ''digest'' config)))
       in Inr [(''vmid'', PInt vmid), (''name'', PStr name), (''digest'', PStr digest), (''status'', PStr ''stopped''),
               (''template'', PBool converted), (''volumes'', PList [PDict root, PDict cloud]),
               (''config_fingerprint'', PStr (operation_digest sha normalized)),
               (''guest_readiness'', PStr ''operator_attestation_required'')]))"

definition inspect_vm :: "sha \<Rightarrow> pydict \<Rightarrow> pydict \<Rightarrow> pydict list \<Rightarrow> pydict list \<Rightarrow> int \<Rightarrow> bool \<Rightarrow> pydict result" where
  "inspect_vm sha config status pending snapshots vmid converted =
     ebind (raise_if (\<not> is_stopped status \<or> truthy (dget config ''lock'')) (template_error ''NOT_STOPPED'' 409)) (\<lambda>_.
     ebind (raise_if (flag_text config ''template'' \<noteq> (if converted then ''1'' else ''0''))
        (template_error ''STATE_UNCONFIRMED'' 409)) (\<lambda>_.
     ebind (raise_if (has_pending pending) (template_error ''PENDING_CONFIG'' 409)) (\<lambda>_.
     ebind (raise_if (\<not> only_current snapshots) (template_error ''SNAPSHOT_UNCONFIRMED'' 409)) (\<lambda>_.
     ebind (raise_if (has_foreign_device config \<or> set (disk_slots config) \<noteq> {''scsi0'', ''ide2''})
        (template_error ''CONFIG_UNSUPPORTED'' 409)) (\<lambda>_.
     ebind (raise_if (\<not> agent_enabled config) (template_error ''AGENT_REQUIRED'' 409)) (\<lambda>_.
       case (config_digest (dget config ''digest''), vm_name 255 (dget config ''name'')) of
         (Some digest, Some name) \<Rightarrow> inspect_identity sha config vmid converted digest name
       | _ \<Rightarrow> Inl (template_error ''IDENTITY_UNAVAILABLE'' 503)))))))"

definition template_confirmed :: "pydict \<Rightarrow> change_request \<Rightarrow> bool result" where
  "template_confirmed before rq =
     (if \<not> truthy (attr rq ''guest_prepared'') \<or> \<not> truthy (attr rq ''conversion_acknowledged'') then Inr False
      else confirms before rq)"

definition template_check_expected :: "pydict \<Rightarrow> change_request \<Rightarrow> unit result" where
  "template_check_expected before rq =
     ebind (template_confirmed before rq) (\<lambda>confirmed.
     ebind (raise_if (\<not> confirmed) (template_error ''CONFIRMATION_REQUIRED'' 422)) (\<lambda>_.
     ebind (reviewed_same before rq) (\<lambda>same. raise_if (\<not> same) (template_error ''STATE_CHANGED'' 409))))"

section \<open>Client\<close>

definition sized_volume :: "vm_client \<Rightarrow> string \<Rightarrow> nat \<Rightarrow> bool \<Rightarrow> pydict list \<Rightarrow> pydict \<Rightarrow> pydict result" where
  "sized_volume vc node_id k storage_authority storages volume =
     (let storage = py_str (dget volume ''storage_id'') in
      ebind (raise_if (\<not> images_storage (storage_row storages (dget volume ''storage_id'')))
         (template_error ''STORAGE_UNAVAILABLE'' 503)) (\<lambda>_.
      ebind (require_privileges (vc_storage_permissions vc storage k)
         (''Datastore.Audit'' # (if storage_authority then [''Datastore.Allocate''] else []))
         ''VM_TEMPLATE_OBSERVATION_UNAVAILABLE'' ''VM_TEMPLATE_PERMISSION_DENIED'') (\<lambda>_.
      ebind (read_or (vc_volume vc node_id storage (volume_text volume) k) ''VM_TEMPLATE_OBSERVATION_UNAVAILABLE'' 503) (\<lambda>actual.
        case positive_int (dget actual ''size'') of
          Some bytes \<Rightarrow>
            if py_eq (dget actual ''format'') (dget volume ''format'') then Inr (dset ''size_bytes'' (PInt bytes) volume)
            else Inl (template_error ''VOLUME_UNCONFIRMED'' 503)
        | None \<Rightarrow> Inl (template_error ''VOLUME_UNCONFIRMED'' 503)))))"

definition sized_identity :: "sha \<Rightarrow> pydict \<Rightarrow> pydict list \<Rightarrow> pydict result" where
  "sized_identity sha before volumes =
     ebind (ditem before ''config_fingerprint'') (\<lambda>fingerprint.
       Inr (dmerge (dset ''volumes'' (PList (map PDict volumes)) before)
         [(''resources_digest'', PStr (operation_digest sha
            [(''volumes'', PList (map PDict volumes)), (''config'', fingerprint)]))]))"

definition template_read :: "sha \<Rightarrow> vm_client \<Rightarrow> bool \<Rightarrow> bool \<Rightarrow> string \<Rightarrow> int \<Rightarrow> nat \<Rightarrow> pydict result" where
  "template_read sha vc converted storage_authority node_id vmid k =
     ebind (require_privileges (vc_vm_permissions vc vmid k)
        ([''VM.Audit'', ''VM.Allocate''] @ (if storage_authority then [] else [''VM.Config.Disk'']))
        ''VM_TEMPLATE_OBSERVATION_UNAVAILABLE'' ''VM_TEMPLATE_PERMISSION_DENIED'') (\<lambda>_.
     case (vc_config vc node_id vmid k, vc_status vc node_id vmid k, vc_pending vc node_id vmid k,
           vc_snapshots vc node_id vmid k) of
       (Some config, Some status, Some pending, Some snapshots) \<Rightarrow>
         ebind (inspect_vm sha config status pending snapshots vmid converted) (\<lambda>before.
         ebind (read_or (vc_storages vc node_id k) ''VM_TEMPLATE_OBSERVATION_UNAVAILABLE'' 503) (\<lambda>storages.
         ebind (row_list before ''volumes'') (\<lambda>volumes.
         ebind (emap (sized_volume vc node_id k storage_authority storages) volumes) (sized_identity sha before))))
     | _ \<Rightarrow> Inl (template_error ''OBSERVATION_UNAVAILABLE'' 503))"

definition template_apply :: "vm_client \<Rightarrow> string \<Rightarrow> int \<Rightarrow> change_request \<Rightarrow> operation_snapshot \<Rightarrow> nat \<Rightarrow> string result" where
  "template_apply vc node_id vmid rq operation k =
     dispatched_task ''VM_TEMPLATE_DISPATCH_UNKNOWN'' ''qmtemplate'' node_id vmid (vc_convert vc node_id vmid k)"

section \<open>Service\<close>

definition template_review :: "sha \<Rightarrow> vm_client \<Rightarrow> string \<Rightarrow> int \<Rightarrow> change_request \<Rightarrow> nat \<Rightarrow> pydict result" where
  "template_review sha vc node_id vmid rq k =
     ebind (template_validate_target node_id vmid) (\<lambda>_. template_read sha vc False False node_id vmid k)"

definition template_observe_result :: "sha \<Rightarrow> vm_client \<Rightarrow> operation_snapshot \<Rightarrow> nat \<Rightarrow> pydict result" where
  "template_observe_result sha vc operation k =
     ebind (read_target (template_read sha vc True False) operation k) (\<lambda>after.
       Inr (dset ''guest_readiness'' (PStr ''operator_attested_not_runtime_verified'') after))"

text \<open>\<open>text.replace(old, new, 1)\<close>\<close>

fun replace_first :: "string \<Rightarrow> string \<Rightarrow> string \<Rightarrow> string" where
  "replace_first old new [] = []"
| "replace_first old new (c # cs) =
     (if starts_with old (c # cs) then new @ drop (length old) (c # cs) else c # replace_first old new cs)"

definition expected_volume :: "pydict \<Rightarrow> pyval result" where
  "expected_volume row =
     ebind (ditem row ''volume_id'') (\<lambda>v. ebind (ditem row ''slot'') (\<lambda>slot.
       Inr (PDict (dset ''volume_id'' (if slot = PStr ''scsi0'' then PStr (replace_first ''/vm-'' ''/base-'' (py_str v)) else v) row))))"

definition template_matches :: "pydict \<Rightarrow> pyval \<Rightarrow> pyval \<Rightarrow> bool result" where
  "template_matches after requested before = (case before of
       PDict b \<Rightarrow>
         ebind (ebind (row_list b ''volumes'') (emap expected_volume)) (\<lambda>expected.
         ebind (ditem after ''template'') (\<lambda>template. ebind (ditem after ''status'') (\<lambda>status.
         ebind (ditem after ''name'') (\<lambda>name. ebind (ditem b ''name'') (\<lambda>name'.
         ebind (ditem after ''config_fingerprint'') (\<lambda>fp. ebind (ditem b ''config_fingerprint'') (\<lambda>fp'.
         ebind (ditem after ''volumes'') (\<lambda>volumes.
           Inr (template = PBool True \<and> status = PStr ''stopped'' \<and> py_eq name name' \<and> py_eq fp fp'
                \<and> py_eq volumes (PList expected))))))))))
     | _ \<Rightarrow> Inl (PyError TypeError))"

definition template_service :: "sha \<Rightarrow> vm_client \<Rightarrow> (nat \<Rightarrow> nat) \<Rightarrow> string \<Rightarrow> task_service" where
  "template_service sha vc polls cluster_id =
     \<lparr>ts_operation_type = ''vm_template'', ts_operation_prefix = ''vm-template-'', ts_event_prefix = ''template_'',
      ts_error_prefix = ''VM_TEMPLATE_'', ts_recovery_kind = ''vm_template_observation'', ts_cluster_id = cluster_id,
      ts_target = change_target, ts_extra_details = (\<lambda>_ _ _. []), ts_review = template_review sha vc,
      ts_check_expected = template_check_expected, ts_lock_vmids = (\<lambda>vmid _. (vmid, [])),
      ts_dispatch = template_apply vc, ts_polls = polls,
      ts_task = task_observation vc ''VM_TEMPLATE_TASK_OBSERVATION_UNAVAILABLE'',
      ts_observe_result = template_observe_result sha vc, ts_matches = template_matches, ts_check_reference = (\<lambda>_. Inr ())\<rparr>"

section \<open>What the checks guarantee\<close>

lemma template_slot_owned:
  assumes "template_slot vmid converted config slot = Inr (row, entry)"
  shows "named_after (if converted \<and> slot = ''scsi0'' then ''base'' else ''vm'') vmid row"
proof -
  let ?prefix = "if converted \<and> slot = ''scsi0'' then ''base'' else ''vm''"
  from assms obtain volume storage form suffix where
    "own_volume (template_error ''VOLUME_OWNERSHIP'' 409) ?prefix vmid suffix volume = Inr (storage, form)"
    "row = volume_dict slot volume storage form"
    by (auto simp: template_slot_def Let_def)
  then show ?thesis
    using own_volume_name(2) [of "template_error ''VOLUME_OWNERSHIP'' 409" ?prefix vmid suffix volume storage form]
    by (simp add: named_after_def volume_dict_def dget_Cons)
qed

definition template_achieved :: "pydict \<Rightarrow> pyval \<Rightarrow> bool" where
  "template_achieved after requested \<longleftrightarrow>
     dget after ''template'' = PBool True \<and> dget after ''status'' = PStr ''stopped''"

lemma template_matches_achieved: "template_matches after requested before = Inr True \<Longrightarrow> template_achieved after requested"
  by (auto simp: template_matches_def template_achieved_def split: pyval.splits dest!: ditem_dget)

lemma template_matches_same:
  "template_matches after requested (PDict b) = Inr True \<Longrightarrow>
     py_eq (dget after ''config_fingerprint'') (dget b ''config_fingerprint'') \<and> py_eq (dget after ''name'') (dget b ''name'')"
  by (auto simp: template_matches_def dest!: ditem_dget)

lemma template_dispatch_bound: "template_apply vc node vmid rq sn k = Inr upid \<Longrightarrow> bound_task ''qmtemplate'' node vmid upid"
  unfolding template_apply_def by (rule dispatched_task_bound)

interpretation template: task_feature "template_service sha vc polls cluster" template_achieved "bound_task ''qmtemplate''"
  for sha vc polls cluster
  by unfold_locales (auto simp: template_service_def intro: template_matches_achieved template_dispatch_bound)

end
