(* ===== verification/RecoveryRuntime.thy ===== *)
theory RecoveryRuntime
  imports RecoveryHandlers HostBridge VmRestore VmMigrate VmTemplate
begin

text \<open>
  The composition of \<open>app/operations/recovery/runtime.py\<close>: the facades (\<open>operations/*/facade.py\<close>)
  that connect a service to Proxmox, the recovery handlers of the VM features
  (\<open>vm_*/recovery.py\<close>) and of the host configuration (\<open>host_config/recovery.py\<close>), and the table
  of handlers of the runner.
\<close>

section \<open>Services and their connection\<close>

text \<open>
  \<open>get_default_proxmox_mutation_client()\<close> is one client, seen through the interfaces of the services;
  None when it raises \<open>ProxmoxMutationError\<close> or \<open>SetupError\<close>.
\<close>

record mutation_client =
  mc_host :: host_calls
  mc_restore :: restore_calls

record runtime_env =
  re_cluster :: "string option"
  re_connect :: "nat \<Rightarrow> mutation_client option"
  re_polls :: "nat \<Rightarrow> nat"

definition cluster_id :: "runtime_env \<Rightarrow> string" where
  "cluster_id re = py_strip (case re_cluster re of None \<Rightarrow> ''gjallar-mvp'' | Some c \<Rightarrow> if c = [] then ''gjallar-mvp'' else c)"

definition facade :: "runtime_env \<Rightarrow> string \<Rightarrow> (mutation_client \<Rightarrow> 's) \<Rightarrow> nat \<Rightarrow> 's result" where
  "facade re prefix service k = (case re_connect re k of
       None \<Rightarrow> Inl (FeatureError (prefix @ ''CONNECTION_UNAVAILABLE'') 503)
     | Some client \<Rightarrow> Inr (service client))"

definition compute_facade :: "runtime_env \<Rightarrow> nat \<Rightarrow> config_service result" where
  "compute_facade re = facade re ''VM_COMPUTE_'' (\<lambda>c. compute_service (hc_client (mc_host c)) (cluster_id re))"

definition network_facade :: "runtime_env \<Rightarrow> nat \<Rightarrow> config_service result" where
  "network_facade re = facade re ''VM_NETWORK_'' (\<lambda>c. network_service (hc_client (mc_host c)) (cluster_id re))"

definition disk_facade :: "runtime_env \<Rightarrow> nat \<Rightarrow> task_service result" where
  "disk_facade re = facade re ''VM_DISK_'' (\<lambda>c. disk_service (hc_client (mc_host c)) (re_polls re) (cluster_id re))"

definition clone_facade :: "runtime_env \<Rightarrow> nat \<Rightarrow> task_service result" where
  "clone_facade re = facade re ''VM_CLONE_'' (\<lambda>c. clone_service (hc_client (mc_host c)) (re_polls re) (cluster_id re))"

definition delete_facade :: "sha \<Rightarrow> runtime_env \<Rightarrow> nat \<Rightarrow> task_service result" where
  "delete_facade sha re =
     facade re ''VM_DELETE_'' (\<lambda>c. delete_service sha (hc_client (mc_host c)) (re_polls re) (cluster_id re))"

definition template_facade :: "sha \<Rightarrow> runtime_env \<Rightarrow> nat \<Rightarrow> task_service result" where
  "template_facade sha re =
     facade re ''VM_TEMPLATE_'' (\<lambda>c. template_service sha (hc_client (mc_host c)) (re_polls re) (cluster_id re))"

definition migrate_facade :: "sha \<Rightarrow> runtime_env \<Rightarrow> nat \<Rightarrow> task_service result" where
  "migrate_facade sha re =
     facade re ''VM_MIGRATE_'' (\<lambda>c. migrate_service sha (hc_client (mc_host c)) (re_polls re) (cluster_id re))"

definition backup_facade :: "sha \<Rightarrow> runtime_env \<Rightarrow> nat \<Rightarrow> task_service result" where
  "backup_facade sha re =
     facade re ''VM_BACKUP_'' (\<lambda>c. backup_service sha (hc_client (mc_host c)) (re_polls re) (cluster_id re))"

definition restore_facade :: "sha \<Rightarrow> runtime_env \<Rightarrow> nat \<Rightarrow> task_service result" where
  "restore_facade sha re =
     facade re ''VM_RESTORE_'' (\<lambda>c. restore_service sha (mc_restore c) (re_polls re) (cluster_id re))"

definition storage_facade :: "runtime_env \<Rightarrow> nat \<Rightarrow> host_calls result" where
  "storage_facade re = facade re ''HOST_STORAGE_'' mc_host"

definition bridge_facade :: "runtime_env \<Rightarrow> nat \<Rightarrow> host_calls result" where
  "bridge_facade re = facade re ''HOST_NETWORK_'' mc_host"

section \<open>The handlers of the task features\<close>

definition delete_handler :: "sha \<Rightarrow> flow_env \<Rightarrow> (nat \<Rightarrow> task_service result) \<Rightarrow> recovery_handler" where
  "delete_handler sha fe svc =
     \<lparr>rh_recovery_kind = ''vm_delete_observation'', rh_operation_type = ''vm_delete'', rh_event_prefix = ''delete_'',
      rh_failure_code = ''VM_DELETE_INTERRUPTED_BEFORE_DISPATCH'', rh_error_class = ''DeleteError'',
      rh_verify = task_recovery sha fe svc\<rparr>"

definition template_handler :: "sha \<Rightarrow> flow_env \<Rightarrow> (nat \<Rightarrow> task_service result) \<Rightarrow> recovery_handler" where
  "template_handler sha fe svc =
     \<lparr>rh_recovery_kind = ''vm_template_observation'', rh_operation_type = ''vm_template'',
      rh_event_prefix = ''template_'', rh_failure_code = ''VM_TEMPLATE_INTERRUPTED_BEFORE_DISPATCH'',
      rh_error_class = ''TemplateError'', rh_verify = task_recovery sha fe svc\<rparr>"

definition clone_handler :: "sha \<Rightarrow> flow_env \<Rightarrow> (nat \<Rightarrow> task_service result) \<Rightarrow> recovery_handler" where
  "clone_handler sha fe svc =
     \<lparr>rh_recovery_kind = ''vm_clone_observation'', rh_operation_type = ''vm_clone'', rh_event_prefix = ''clone_'',
      rh_failure_code = ''VM_CLONE_INTERRUPTED_BEFORE_DISPATCH'', rh_error_class = ''CloneError'',
      rh_verify = task_recovery sha fe svc\<rparr>"

definition migrate_handler :: "sha \<Rightarrow> flow_env \<Rightarrow> (nat \<Rightarrow> task_service result) \<Rightarrow> recovery_handler" where
  "migrate_handler sha fe svc =
     \<lparr>rh_recovery_kind = ''vm_migrate_observation'', rh_operation_type = ''vm_migrate'', rh_event_prefix = ''migrate_'',
      rh_failure_code = ''VM_MIGRATE_INTERRUPTED_BEFORE_DISPATCH'', rh_error_class = ''MigrateError'',
      rh_verify = task_recovery sha fe svc\<rparr>"

definition backup_handler :: "sha \<Rightarrow> flow_env \<Rightarrow> (nat \<Rightarrow> task_service result) \<Rightarrow> recovery_handler" where
  "backup_handler sha fe svc =
     \<lparr>rh_recovery_kind = ''vm_backup_observation'', rh_operation_type = ''vm_backup'', rh_event_prefix = ''backup_'',
      rh_failure_code = ''VM_BACKUP_INTERRUPTED_BEFORE_DISPATCH'', rh_error_class = ''BackupError'',
      rh_verify = task_recovery sha fe svc\<rparr>"

definition restore_handler :: "sha \<Rightarrow> flow_env \<Rightarrow> (nat \<Rightarrow> task_service result) \<Rightarrow> recovery_handler" where
  "restore_handler sha fe svc =
     \<lparr>rh_recovery_kind = ''vm_restore_observation'', rh_operation_type = ''vm_restore'', rh_event_prefix = ''restore_'',
      rh_failure_code = ''VM_RESTORE_INTERRUPTED_BEFORE_DISPATCH'', rh_error_class = ''BackupError'',
      rh_verify = task_recovery sha fe svc\<rparr>"

section \<open>The handler of the host configuration\<close>

record host_handler =
  hh_operation_type :: string
  hh_error_class :: string
  hh_verify :: "recovery_lease \<Rightarrow> operation_snapshot \<Rightarrow> string io"

definition recorded_binding :: "sha \<Rightarrow> recovery_lease \<Rightarrow> operation_snapshot \<Rightarrow> pydict option" where
  "recorded_binding sha lease operation = lock_binding sha (sn_operation_type operation) (sn_target_type operation)
     (sn_target_id operation) (sn_details operation) (ri_details (ls_item lease))"

definition host_held :: "sha \<Rightarrow> flow_env \<Rightarrow> string \<Rightarrow> operation_snapshot \<Rightarrow> pydict option \<Rightarrow> pydict option io" where
  "host_held sha fe cluster operation binding =
     (case binding of None \<Rightarrow> io_return None
      | Some _ \<Rightarrow> read_lock sha fe cluster (sn_target_type operation) (sn_target_id operation))"

definition host_exact :: "string \<Rightarrow> recovery_lease \<Rightarrow> operation_snapshot \<Rightarrow> pydict option \<Rightarrow> pydict option \<Rightarrow> bool" where
  "host_exact operation_type lease operation binding held =
     (case (binding, held) of
        (Some b, Some h) \<Rightarrow>
          let durable = dict_of (dget_or h ''durable'' (PDict []))
          in sn_operation_type operation = operation_type \<and> sn_execution_mode operation = ''managed_api''
             \<and> ri_recovery_kind (ls_item lease) = operation_type @ ''_observation''
             \<and> dget h ''owner_id'' = PStr (sn_operation_id operation)
             \<and> dget durable ''operation_type'' = PStr operation_type
             \<and> dget durable ''owner_id'' = PStr (sn_operation_id operation)
             \<and> py_eq (dget h ''lock_id'') (dget b ''target_lock_id'')
             \<and> py_eq (dget b ''target_lock_id'') (dget durable ''operation_lock_id'')
             \<and> py_eq (dget durable ''cluster_id'') (dget b ''cluster_id'')
             \<and> py_eq (dget durable ''scope_key'') (dget b ''scope_key'')
             \<and> py_eq (dget durable ''target'') (dget b ''target'')
             \<and> dget durable ''scope_type'' = PStr ''proxmox_configuration'' \<and> dget durable ''vmid'' = PNone
      | _ \<Rightarrow> False)"

definition host_mismatch_commit :: "operation_snapshot \<Rightarrow> commit_request" where
  "host_mismatch_commit operation =
     fenced operation ((commit_defaults ''host_recovery_binding_mismatch'' ''reconciliation'' ''paused'')
       \<lparr>cq_expected_statuses := Some [sn_status operation],
        cq_error_code := Some ''OPERATION_RECOVERY_BINDING_MISMATCH''\<rparr>)"

definition host_interrupted_commit :: "operation_snapshot \<Rightarrow> commit_request" where
  "host_interrupted_commit operation =
     fenced operation ((commit_defaults ''host_interrupted_before_dispatch'' ''precheck'' ''completed'')
       \<lparr>cq_next_status := Some ''blocked'', cq_expected_statuses := Some [''planned''],
        cq_release_target_lock := True\<rparr>)"

definition host_unavailable_commit :: "operation_snapshot \<Rightarrow> string \<Rightarrow> commit_request" where
  "host_unavailable_commit operation code =
     fenced operation ((commit_defaults ''host_recovery_unavailable'' ''reconciliation'' ''paused'')
       \<lparr>cq_expected_statuses := Some [sn_status operation], cq_error_code := Some code\<rparr>)"

definition host_observe :: "sha \<Rightarrow> flow_env \<Rightarrow> host_handler \<Rightarrow> recovery_lease \<Rightarrow> operation_snapshot \<Rightarrow> string io" where
  "host_observe sha fe hh lease operation =
     io_try (hh_verify hh lease operation)
       (\<lambda>code status. io_bind (commit_io sha fe lease (host_unavailable_commit operation code))
          (\<lambda>_. io_return ''paused''))
       io_return"

definition host_decide :: "sha \<Rightarrow> flow_env \<Rightarrow> host_handler \<Rightarrow> recovery_lease \<Rightarrow> operation_snapshot \<Rightarrow> bool \<Rightarrow> string io" where
  "host_decide sha fe hh lease operation exact =
     (if \<not> exact \<or> (sn_status operation = ''planned'' \<and> dget (sn_details operation) ''mutation_dispatched'' \<noteq> PBool False)
      then io_bind (commit_io sha fe lease (host_mismatch_commit operation)) (\<lambda>_. io_return ''paused'')
      else if sn_status operation = ''planned''
      then io_bind (commit_io sha fe lease (host_interrupted_commit operation)) (\<lambda>_. io_return ''blocked'')
      else host_observe sha fe hh lease operation)"

definition host_handle :: "sha \<Rightarrow> flow_env \<Rightarrow> string \<Rightarrow> host_handler \<Rightarrow> recovery_lease \<Rightarrow> string io" where
  "host_handle sha fe cluster hh lease =
     io_bind (get_io fe (lease_operation_id lease)) (\<lambda>found. case found of
       None \<Rightarrow> io_of (Inl (PyError RuntimeError))
     | Some operation \<Rightarrow>
         let binding = recorded_binding sha lease operation in
         io_bind (host_held sha fe cluster operation binding) (\<lambda>held.
           host_decide sha fe hh lease operation (host_exact (hh_operation_type hh) lease operation binding held)))"

definition storage_handler :: "sha \<Rightarrow> flow_env \<Rightarrow> runtime_env \<Rightarrow> host_handler" where
  "storage_handler sha fe re = \<lparr>hh_operation_type = ''host_storage'', hh_error_class = ''StorageError'',
     hh_verify = (\<lambda>lease operation. io_bind (ext_read (storage_facade re)) (\<lambda>hc. storage_verify sha fe hc lease operation))\<rparr>"

definition bridge_handler :: "sha \<Rightarrow> flow_env \<Rightarrow> runtime_env \<Rightarrow> host_handler" where
  "bridge_handler sha fe re = \<lparr>hh_operation_type = ''host_network'', hh_error_class = ''BridgeError'',
     hh_verify = (\<lambda>lease operation. io_bind (ext_read (bridge_facade re)) (\<lambda>hc. bridge_verify sha fe hc lease operation None))\<rparr>"

section \<open>The table of handlers and the runner\<close>

text \<open>The handlers that run their own verification: power, creation, guided and image operations.\<close>

record other_handlers =
  oh_start :: claim_handler
  oh_shutdown :: claim_handler
  oh_create :: claim_handler
  oh_guided :: claim_handler
  oh_image_cleanup :: claim_handler
  oh_image_build :: claim_handler

definition vm_handlers :: "sha \<Rightarrow> flow_env \<Rightarrow> runtime_env \<Rightarrow> (string \<times> recovery_handler) list" where
  "vm_handlers sha fe re =
     [(''vm_network_observation'', network_handler sha fe (network_facade re)),
      (''vm_compute_observation'', compute_handler sha fe (compute_facade re)),
      (''vm_clone_observation'', clone_handler sha fe (clone_facade re)),
      (''vm_backup_observation'', backup_handler sha fe (backup_facade sha re)),
      (''vm_migrate_observation'', migrate_handler sha fe (migrate_facade sha re)),
      (''vm_restore_observation'', restore_handler sha fe (restore_facade sha re)),
      (''vm_template_observation'', template_handler sha fe (template_facade sha re)),
      (''vm_delete_observation'', delete_handler sha fe (delete_facade sha re)),
      (''vm_disk_observation'', disk_handler sha fe (disk_facade re))]"

definition host_handlers :: "sha \<Rightarrow> flow_env \<Rightarrow> runtime_env \<Rightarrow> (string \<times> host_handler) list" where
  "host_handlers sha fe re =
     [(''host_network_observation'', bridge_handler sha fe re), (''host_storage_observation'', storage_handler sha fe re)]"

definition host_claim :: "sha \<Rightarrow> flow_env \<Rightarrow> string \<Rightarrow> host_handler \<Rightarrow> claim_handler" where
  "host_claim sha fe cluster hh = \<lparr>ch_error_class = hh_error_class hh, ch_handle = host_handle sha fe cluster hh\<rparr>"

definition recovery_handlers :: "sha \<Rightarrow> flow_env \<Rightarrow> runtime_env \<Rightarrow> other_handlers \<Rightarrow> (string \<times> claim_handler) list" where
  "recovery_handlers sha fe re oh =
     [(''vm_start_observation'', oh_start oh), (''vm_shutdown_observation'', oh_shutdown oh),
      (''vm_create_observation'', oh_create oh), (''guided_qm_unlock_observation'', oh_guided oh),
      (''vm_image_cleanup_observation'', oh_image_cleanup oh), (''vm_image_build_observation'', oh_image_build oh)]
     @ map (\<lambda>(kind, rh). (kind, vm_handler sha fe (cluster_id re) rh)) (vm_handlers sha fe re)
     @ map (\<lambda>(kind, hh). (kind, host_claim sha fe (cluster_id re) hh)) (host_handlers sha fe re)"

definition build_recovery_runner :: "sha \<Rightarrow> flow_env \<Rightarrow> runtime_env \<Rightarrow> other_handlers \<Rightarrow> string \<Rightarrow> int \<Rightarrow> int
    \<Rightarrow> (nat \<Rightarrow> string \<Rightarrow> string) \<Rightarrow> (nat \<Rightarrow> string \<Rightarrow> bool) \<Rightarrow> recovery_runner" where
  "build_recovery_runner sha fe re oh worker lease_us max_attempts tokens skipped =
     \<lparr>rr_handlers = map_of (recovery_handlers sha fe re oh), rr_worker_id = worker, rr_lease_us = lease_us,
      rr_max_attempts = max_attempts, rr_tokens = tokens, rr_skipped = skipped\<rparr>"

section \<open>Recovery keeps the core's invariant and sends nothing\<close>

lemmas host_handle_defs = host_handle_def host_held_def host_decide_def host_observe_def

lemma host_handle_ok:
  "fair_env sha fe \<Longrightarrow> (\<And>l sn. io_ok (world_ok sha) (hh_verify hh l sn)) \<Longrightarrow>
     io_ok (world_ok sha) (host_handle sha fe c hh l)"
  unfolding host_handle_defs Let_def by (intro io_intros)

lemma silent_host_handle: "(\<And>l sn. silent (hh_verify hh l sn)) \<Longrightarrow> silent (host_handle sha fe c hh l)"
  unfolding host_handle_defs Let_def by (intro silent_intros)

lemmas feature_handlers = network_handler_def compute_handler_def clone_handler_def backup_handler_def
  migrate_handler_def restore_handler_def template_handler_def delete_handler_def disk_handler_def

lemma vm_handlers_verify_ok:
  assumes "fair_env sha fe" "(kind, rh) \<in> set (vm_handlers sha fe re)"
  shows "io_ok (world_ok sha) (rh_verify rh l sn)"
  using assms(2) by (auto simp: vm_handlers_def feature_handlers intro!: assms(1) io_intros)

lemma vm_handlers_verify_silent:
  assumes "(kind, rh) \<in> set (vm_handlers sha fe re)"
  shows "silent (rh_verify rh l sn)"
  using assms by (auto simp: vm_handlers_def feature_handlers intro!: silent_intros)

lemma host_handlers_verify_ok:
  assumes "fair_env sha fe" "(kind, hh) \<in> set (host_handlers sha fe re)"
  shows "io_ok (world_ok sha) (hh_verify hh l sn)"
  using assms(2) by (auto simp: host_handlers_def bridge_handler_def storage_handler_def intro!: assms(1) io_intros)

lemma host_handlers_verify_silent:
  assumes "(kind, hh) \<in> set (host_handlers sha fe re)"
  shows "silent (hh_verify hh l sn)"
  using assms by (auto simp: host_handlers_def bridge_handler_def storage_handler_def intro!: silent_intros)

definition other_list :: "other_handlers \<Rightarrow> claim_handler list" where
  "other_list oh = [oh_start oh, oh_shutdown oh, oh_create oh, oh_guided oh, oh_image_cleanup oh, oh_image_build oh]"

lemma recovery_handlers_cases:
  assumes "(kind, ch) \<in> set (recovery_handlers sha fe re oh)"
  obtains (other) "ch \<in> set (other_list oh)"
    | (vm) rh where "(kind, rh) \<in> set (vm_handlers sha fe re)" "ch = vm_handler sha fe (cluster_id re) rh"
    | (host) hh where "(kind, hh) \<in> set (host_handlers sha fe re)" "ch = host_claim sha fe (cluster_id re) hh"
  using assms by (auto simp: recovery_handlers_def other_list_def)

text \<open>The table promises what the runner asks of it, when the handlers that are not modelled do.\<close>

lemma recovery_handlers_ok:
  assumes "fair_env sha fe" "\<And>ch l. ch \<in> set (other_list oh) \<Longrightarrow> io_ok (world_ok sha) (ch_handle ch l)"
  shows "handlers_ok (world_ok sha) (map_of (recovery_handlers sha fe re oh))"
  unfolding handlers_ok_def
proof (intro ballI allI)
  fix ch l assume "ch \<in> ran (map_of (recovery_handlers sha fe re oh))"
  then obtain kind where "(kind, ch) \<in> set (recovery_handlers sha fe re oh)" by (auto simp: ran_def dest: map_of_SomeD)
  then show "io_ok (world_ok sha) (ch_handle ch l)"
  proof (cases rule: recovery_handlers_cases)
    case vm
    then show ?thesis using handle_ok [OF assms(1) vm_handlers_verify_ok [OF assms(1)]] by (auto simp: vm_handler_def)
  next
    case host
    then show ?thesis using host_handle_ok [OF assms(1) host_handlers_verify_ok [OF assms(1)]]
      by (auto simp: host_claim_def)
  qed (rule assms(2))
qed

lemma recovery_handlers_silent:
  assumes "\<And>ch l. ch \<in> set (other_list oh) \<Longrightarrow> silent (ch_handle ch l)"
  shows "handlers_silent (map_of (recovery_handlers sha fe re oh))"
  unfolding handlers_silent_def
proof (intro ballI allI)
  fix ch l assume "ch \<in> ran (map_of (recovery_handlers sha fe re oh))"
  then obtain kind where "(kind, ch) \<in> set (recovery_handlers sha fe re oh)" by (auto simp: ran_def dest: map_of_SomeD)
  then show "silent (ch_handle ch l)"
  proof (cases rule: recovery_handlers_cases)
    case vm
    then show ?thesis using silent_handle [OF vm_handlers_verify_silent] by (auto simp: vm_handler_def)
  next
    case host
    then show ?thesis using silent_host_handle [OF host_handlers_verify_silent] by (auto simp: host_claim_def)
  qed (rule assms)
qed

lemma runner_ok:
  assumes "fair_env sha fe" "\<And>ch l. ch \<in> set (other_list oh) \<Longrightarrow> io_ok (world_ok sha) (ch_handle ch l)"
  shows "io_ok (world_ok sha) (run_once sha fe (build_recovery_runner sha fe re oh w u n t s))"
  using assms by (intro run_once_ok) (simp_all add: build_recovery_runner_def recovery_handlers_ok)

lemma runner_silent:
  assumes "\<And>ch l. ch \<in> set (other_list oh) \<Longrightarrow> silent (ch_handle ch l)"
  shows "silent (run_once sha fe (build_recovery_runner sha fe re oh w u n t s))"
  using assms by (intro silent_run_once) (simp add: build_recovery_runner_def recovery_handlers_silent)

text \<open>Each item reaches the handler that validates its own kind, and no kind is registered twice.\<close>

lemma handler_kinds:
  "\<forall>(kind, rh) \<in> set (vm_handlers sha fe re). rh_recovery_kind rh = kind"
  "\<forall>(kind, hh) \<in> set (host_handlers sha fe re). kind = hh_operation_type hh @ ''_observation''"
  "distinct (map fst (recovery_handlers sha fe re oh))"
  by (simp_all add: vm_handlers_def feature_handlers host_handlers_def bridge_handler_def storage_handler_def
      recovery_handlers_def)

section \<open>What the host outcomes mean\<close>

lemma host_decide_outcomes:
  assumes "host_decide sha fe hh lease operation exact w = (Inr out, w')"
    and no_blocked: "\<And>w w'. hh_verify hh lease operation w \<noteq> (Inr ''blocked'', w')"
  shows "out = ''succeeded'' \<Longrightarrow> exact \<and> (\<exists>w1. hh_verify hh lease operation w1 = (Inr ''succeeded'', w'))"
    "out = ''blocked'' \<Longrightarrow> exact \<and> sn_status operation = ''planned'' \<and>
       dget (sn_details operation) ''mutation_dispatched'' = PBool False"
  using assms
  by (auto simp: host_decide_def host_observe_def io_return_Inr split: if_splits elim!: io_bind_InrE io_try_InrE)

text \<open>An exact binding: the open configuration lock of the cluster belongs to the operation, with its target.\<close>

definition owns_configuration :: "db \<Rightarrow> operation_snapshot \<Rightarrow> bool" where
  "owns_configuration d operation \<longleftrightarrow> (\<exists>r \<in> set (db_locks d). lock_open r \<and> lk_scope_type r = ''proxmox_configuration'' \<and>
     lk_owner_id r = Some (sn_operation_id operation) \<and> lk_operation_type r = sn_operation_type operation \<and>
     PStr (lk_operation_lock_id r) = dget (sn_details operation) ''target_lock_id'')"

lemma host_exact_owned:
  assumes "host_exact kind lease operation (recorded_binding sha lease operation) held"
    and "get_target_operation_lock sha cluster d (sn_target_type operation) (sn_target_id operation) = Inr held"
  shows "owns_configuration d operation"
proof -
  obtain b h where b: "recorded_binding sha lease operation = Some b" and held: "held = Some h"
    using assms(1) by (auto simp: host_exact_def split: option.splits)
  from b have hosted: "sn_operation_type operation \<in> set HOST_OPERATION_TYPES"
    and tgt: "target_identity (sn_operation_type operation) (dget (sn_details operation) ''target'')
      = Inr (sn_target_type operation, sn_target_id operation)"
    and bval: "b = map (\<lambda>f. (f, dget (sn_details operation) f)) BINDING_FIELDS"
    unfolding recorded_binding_def by (auto dest: lock_bindingD)
  from tgt have "sn_target_type operation \<in> {''proxmox_storage'', ''proxmox_network''}"
    by (auto simp: target_identity_def split: if_splits pyval.splits option.splits)
  with assms(2) held obtain found where cur: "configuration_current sha d cluster = Inr (Some found)"
      and h: "h = host_lock_dict (sn_target_type operation) (sn_target_id operation) found"
    by (auto simp: get_target_operation_lock_def split: option.splits if_splits)
  from cur obtain r where r: "r \<in> set (db_locks d)" "lock_open r" "lk_scope_type r = ''proxmox_configuration''"
      "found = configuration_lock_of r"
    by (auto simp: configuration_current_def dest!: find_SomeD)
  have lid: "dget b ''target_lock_id'' = dget (sn_details operation) ''target_lock_id''"
    by (simp add: bval BINDING_FIELDS_def dget_Cons)
  from assms(1) b held r h lid show ?thesis
    unfolding owns_configuration_def
    by (intro bexI [of _ r])
      (auto simp: host_exact_def host_lock_dict_def configuration_lock_dict_def configuration_lock_of_def dget_Cons dict_of_def
        Let_def dget_or_def split: option.splits)
qed

end
