(* ===== verification/FeatureExamples.thy ===== *)
theory FeatureExamples
  imports Examples RecoveryRuntime
begin

text \<open>
  Concrete settings of the recovery runtime and of single features, for the witnesses.
\<close>

lemma not_islE:
  assumes "\<not> isl m"
  obtains x where "m = Inr x"
  using assms by (cases m) simp_all

section \<open>Settings of single features\<close>

definition ex_quiet :: claim_handler where
  "ex_quiet = \<lparr>ch_error_class = ''Exception'', ch_handle = (\<lambda>_. io_return ''paused'')\<rparr>"

definition ex_others :: other_handlers where
  "ex_others = \<lparr>oh_start = ex_quiet, oh_shutdown = ex_quiet, oh_create = ex_quiet, oh_guided = ex_quiet,
     oh_image_cleanup = ex_quiet, oh_image_build = ex_quiet\<rparr>"

definition ex_runtime :: runtime_env where
  "ex_runtime = \<lparr>re_cluster = Some ''lab'', re_connect = (\<lambda>_. None), re_polls = (\<lambda>_. 0)\<rparr>"

definition ex_runner :: recovery_runner where
  "ex_runner = build_recovery_runner ex_sha ex_flow ex_runtime ex_others ''w'' 60000000 5 (\<lambda>_ _. ''t'') (\<lambda>_ _. False)"

definition ex_stopped :: pydict where
  "ex_stopped = [(''status'', PStr ''stopped'')]"

definition ex_snapshots :: "pydict list" where
  "ex_snapshots = [[(''name'', PStr ''current'')]]"

definition ex_removed :: pydict where
  "ex_removed = [(''deleted_volumes'', PList [PDict [(''slot'', PStr ''scsi0''), (''volume_id'', PStr ex_volume)]]),
     (''preserved_volumes'', PList [])]"

definition ex_clone_client :: vm_client where
  "ex_clone_client = ex_disk_client
     \<lparr>vc_vm_permissions := (\<lambda>_ _. Some [''VM.Audit'', ''VM.Clone'', ''VM.Allocate'', ''VM.Config.Disk'']),
      vc_storage_permissions := (\<lambda>_ _. Some [''Datastore.Audit'', ''Datastore.AllocateSpace'']),
      vc_storages := (\<lambda>_ _. Some [[(''storage'', PStr ''nfs1''), (''type'', PStr ''nfs''), (''active'', PInt 1),
        (''enabled'', PInt 1), (''content'', PStr ''images'')]]),
      vc_resources := (\<lambda>_. Some [[(''vmid'', PInt 100)]])\<rparr>"

definition ex_clone_request :: change_request where
  "ex_clone_request = \<lparr>rq_idempotency_key = ''k1'', rq_expected_name = ''web'',
     rq_dump = [(''new_vmid'', PInt 101), (''storage_id'', PStr ''nfs1'')]\<rparr>"

definition ex_storage_change :: pydict where
  "ex_storage_change = [(''mode'', PStr ''create''), (''content'', PList [PStr ''iso'']), (''enabled'', PBool True),
     (''path'', PStr ''/srv/iso'')]"

definition ex_scope :: pydict where
  "ex_scope = [(''host_storages'', PList [PStr ''media'']), (''nodes'', PList [PStr ''pve1''])]"

definition ex_created_storage :: storage_change where
  "ex_created_storage = \<lparr>sg_mode = ''create'', sg_path = Some ''/srv/iso'', sg_content = [''iso''], sg_enabled = True\<rparr>"

end
