(* ===== verification/History.thy ===== *)
theory History
  imports CoreSystem "HOL-Library.Sublist"
begin

text \<open>
  What the operation store promises over time, whatever transactions run: histories only grow and
  are walks of the status machine, the identity of an operation never changes, and asking again
  for the same operation finds it.
\<close>

section \<open>Histories only grow\<close>

definition history_le :: "db \<Rightarrow> db \<Rightarrow> bool" where
  "history_le d d' \<longleftrightarrow> prefix (db_events d) (db_events d')"

lemma history_le_refl [simp]: "history_le d d"
  by (simp add: history_le_def)

lemma history_le_trans: "history_le d d' \<Longrightarrow> history_le d' d'' \<Longrightarrow> history_le d d''"
  by (simp add: history_le_def)

lemma history_le_same: "db_events d' = db_events d \<Longrightarrow> history_le d d'"
  by (simp add: history_le_def)

lemma history_le_snoc: "db_events d' = db_events d @ es \<Longrightarrow> history_le d d'"
  by (simp add: history_le_def)

section \<open>The identity of an operation\<close>

definition op_identity :: "op_row \<Rightarrow> string \<times> string \<times> (string \<times> string \<times> string \<times> string) \<times> string \<times> string" where
  "op_identity r = (op_operation_id r, op_execution_mode r, op_scope r, op_intent_digest r, op_plan_digest r)"

definition identity_le :: "db \<Rightarrow> db \<Rightarrow> bool" where
  "identity_le d d' \<longleftrightarrow> op_identity ` set (db_operations d) \<subseteq> op_identity ` set (db_operations d')"

lemma identity_le_refl [simp]: "identity_le d d"
  by (simp add: identity_le_def)

lemma identity_le_trans: "identity_le d d' \<Longrightarrow> identity_le d' d'' \<Longrightarrow> identity_le d d''"
  by (auto simp: identity_le_def)

lemma identity_le_same: "db_operations d' = db_operations d \<Longrightarrow> identity_le d d'"
  by (simp add: identity_le_def)

lemma identity_le_snoc: "db_operations d' = db_operations d @ rs \<Longrightarrow> identity_le d d'"
  by (auto simp: identity_le_def)

text \<open>Both orders at once.\<close>

definition log_le :: "db \<Rightarrow> db \<Rightarrow> bool" where
  "log_le d d' \<longleftrightarrow> history_le d d' \<and> identity_le d d'"

lemma log_le_refl [simp]: "log_le d d"
  by (simp add: log_le_def)

lemma log_le_trans: "log_le d d' \<Longrightarrow> log_le d' d'' \<Longrightarrow> log_le d d''"
  by (auto simp: log_le_def intro: history_le_trans identity_le_trans)

lemma log_le_same: "db_events d' = db_events d \<Longrightarrow> db_operations d' = db_operations d \<Longrightarrow> log_le d d'"
  by (simp add: log_le_def history_le_same identity_le_same)

text \<open>Changes of other tables before or after do not matter.\<close>

lemma log_le_frame:
  assumes "log_le d0 d1" "db_events d0 = db_events d" "db_operations d0 = db_operations d"
    and "db_events d' = db_events d1" "db_operations d' = db_operations d1"
  shows "log_le d d'"
  using assms by (simp add: log_le_def history_le_def identity_le_def)

lemma log_le_left: "log_le a d' \<Longrightarrow> db_events a = db_events d \<Longrightarrow> db_operations a = db_operations d \<Longrightarrow> log_le d d'"
  by (simp add: log_le_def history_le_def identity_le_def)

lemma appended_identity: "op_identity (appended_row sha r q i j t) = op_identity r"
  by (simp add: appended_row_def apply_projection_def op_identity_def op_scope_def)

lemma map_set_row:
  assumes "distinct (map k rows)" "row_of k x rows = Some r" "k r' = x" "f r' = f r"
  shows "map f (set_row k r' rows) = map f rows"
proof -
  have "f (if k q = k r' then r' else q) = f q" if "q \<in> set rows" for q
    using assms distinct_row_of [OF assms(1) that] by auto
  then show ?thesis by (simp add: set_row_def)
qed

lemma append_log_le:
  assumes "store_inv sha d" "append_in_session sha d now eid oid q = Inr (d', sn)"
  shows "log_le d d'"
  using assms(2)
proof (rule append_in_sessionD)
  fix row
  let ?row' = "appended_row sha row q eid oid now"
  assume row: "find_operation d oid = Some row"
    and d': "d' = put_operation ?row' (d\<lparr>db_events := db_events d @ [appended_event sha row q eid oid now]\<rparr>)"
  have "map op_identity (set_row op_operation_id ?row' (db_operations d)) = map op_identity (db_operations d)"
    using assms(1) row row_of_Some [OF row]
    by (intro map_set_row [of _ _ oid row]) (auto simp: store_inv_def op_table_ok_def appended_identity)
  then have "op_identity ` set (set_row op_operation_id ?row' (db_operations d)) = op_identity ` set (db_operations d)"
    by (metis set_map)
  then show "log_le d d'"
    by (simp add: log_le_def history_le_def identity_le_def d')
qed

lemma create_rows_le: "create_rows sha d now eid sp p = Inr (d', r) \<Longrightarrow> log_le d d'"
  by (auto simp: log_le_def elim!: create_rowsD intro: history_le_snoc identity_le_snoc)

lemma create_log_le: "store_create sha d now eid sp p = Inr (d', r) \<Longrightarrow> log_le d d'"
  by (auto simp: store_create_def split: option.splits elim!: create_insert_cases dest: create_rows_le)

lemma lock_conflict_le:
  "store_inv sha d \<Longrightarrow> transition_for_target_lock_conflict sha d now eid oid li lo ns et st p dp = Inr (d', sn)
     \<Longrightarrow> log_le d d'"
  by (auto simp: transition_for_target_lock_conflict_def split: option.splits if_splits dest: append_log_le)

lemma pre_dispatch_le:
  "store_inv sha d \<Longrightarrow> transition_pre_dispatch_failure sha d now eid oid li et st p dp = Inr (d', b) \<Longrightarrow> log_le d d'"
  by (auto simp: transition_pre_dispatch_failure_def split: option.splits if_splits dest: append_log_le)

lemma commit_log_le:
  assumes "store_inv sha d" "commit_observation sha d now en eid lease q = Inr (d', sn, item)"
  shows "log_le d d'"
  using assms(2)
proof (rule commit_observationD)
  fix row operation locks pj d1
  assume "append_in_session sha d en eid (lease_operation_id lease) (commit_append q pj) = Inr (d1, sn)"
    and "d' = fold (\<lambda>l. put_lock (settled_lock (lease_operation_id lease) q now l)) locks
      (put_recovery (settled_recovery row q pj now) d1)"
  with append_log_le [OF assms(1)] show "log_le d d'" by (simp add: log_le_def history_le_def identity_le_def)
qed

lemma record_bound_log_le: "record_bound sha ae d sp b k = Inr (d', sn, l) \<Longrightarrow> log_le d d'"
  by (auto simp: record_bound_def create_shared_def Let_def split: prod.splits sum.splits option.splits if_splits
      dest!: prepare_and_claim_frame create_rows_le intro: log_le_frame log_le_same)

lemma acquire_all_log: "acquire_all ae sp c vs d = Inr (d', ls) \<Longrightarrow>
    db_events d' = db_events d \<and> db_operations d' = db_operations d"
  by (induction vs arbitrary: d ls) (auto split: prod.splits dest!: lock_frame_store(3))

lemma release_all_log: "db_events (release_all now reason ls d) = db_events d \<and>
    db_operations (release_all now reason ls d) = db_operations d"
proof (induction ls arbitrary: d)
  case (Cons x ls)
  obtain v l where "x = (v, l)" by (cases x)
  moreover obtain d' b where "lock_release d now l reason = (d', b)" by (cases "lock_release d now l reason")
  ultimately show ?case using Cons lock_frame_store(1) by simp
qed simp

lemma log_le_release: "log_le d (release_all now reason ls e) = log_le d e"
  using release_all_log [of now reason ls e] by (simp add: log_le_def history_le_def identity_le_def)

lemma vm_prepare_log_le: "vm_prepare sha ae d k sp c v rel = Inr (d', sn, l) \<Longrightarrow> log_le d d'"
  by (auto simp: vm_prepare_def replay_def log_le_release
      split: option.splits prod.splits if_splits
      dest!: acquire_all_log record_bound_log_le) (blast intro: log_le_same log_le_left)+

lemma host_prepare_log_le: "host_prepare sha ae d sp c = Inr (d', sn, l) \<Longrightarrow> log_le d d'"
  by (auto simp: host_prepare_def replay_def Let_def split: option.splits prod.splits if_splits
      dest!: configuration_acquire_frame record_bound_log_le intro: log_le_trans log_le_same)

lemma core_exec_log_le:
  assumes "core_inv sha d" "core_exec sha c d = Inr (d', u)"
  shows "log_le d d'"
  using assms core_invD(1) [OF assms(1)]
  by (cases c)
    (auto dest: create_log_le lock_conflict_le pre_dispatch_le append_log_le commit_log_le vm_prepare_log_le
        host_prepare_log_le
      dest!: lock_frame_store configuration_acquire_frame prepare_and_claim_frame claim_frames
      simp: store_transition_def store_append_event_def intro: log_le_same)

interpretation log: ordered_store "core_exec sha" "core_inv sha" log_le for sha
  by unfold_locales (rule log_le_refl, erule (1) log_le_trans, erule (1) core_exec_log_le)

section \<open>Histories\<close>

text \<open>A walk: every status is followed by itself or by a status that the machine allows next.\<close>

fun status_walk :: "string list \<Rightarrow> bool" where
  "status_walk (s # t # ts) = ((s = t \<or> t \<in> set (allowed_next s)) \<and> status_walk (t # ts))"
| "status_walk _ = True"

lemma links_walk: "status_links (Some s) es \<Longrightarrow> status_walk (s # map ev_to_status es)"
  by (induction es arbitrary: s) (auto simp: transition_iff_allowed)

lemma links_None_walk: "status_links None es \<Longrightarrow> status_walk (map ev_to_status es)"
  by (cases es) (auto dest: links_walk)

lemma no_events:
  assumes "store_inv sha d" "find_operation d i = None"
  shows "list_events d i = []"
proof -
  have "filter (\<lambda>r. er_operation_id r = i) (db_events d) = []"
    using assms by (auto simp: store_inv_def op_table_ok_def filter_empty_conv)
  then show ?thesis by (simp add: list_events_def)
qed

lemma events_prefix:
  assumes "store_inv sha d" "store_inv sha d'" "log_le d d'"
  shows "prefix (list_events d i) (list_events d' i)"
proof (cases "find_operation d i")
  case None
  then show ?thesis using no_events [OF assms(1)] by simp
next
  case (Some r)
  then have "op_identity r \<in> op_identity ` set (db_operations d')"
    using assms(3) row_of_Some by (fastforce simp: log_le_def identity_le_def)
  moreover have "op_operation_id r = i" using row_of_Some [OF Some] by simp
  ultimately obtain r' where "find_operation d' i = Some r'"
    using row_of_None [of op_operation_id i "db_operations d'"] by (fastforce simp: op_identity_def)
  moreover obtain es where "db_events d' = db_events d @ es"
    using assms(3) by (auto simp: log_le_def history_le_def elim: prefixE)
  ultimately show ?thesis
    using list_events_eq [OF assms(1) Some] list_events_eq [OF assms(2)] by (simp add: events_of_def)
qed

lemma events_walk:
  assumes "store_inv sha d"
  shows "status_walk (map ev_to_status (list_events d i))"
proof (cases "find_operation d i")
  case None
  then show ?thesis using no_events [OF assms] by simp
next
  case (Some r)
  with assms have "log_ok sha d r" "op_operation_id r = i" by (auto dest: store_inv_find)
  then show ?thesis using list_events_eq [OF assms Some] by (auto simp: log_ok_def Let_def intro: links_None_walk)
qed

section \<open>Creating twice\<close>

lemma scope_unique:
  assumes "store_inv sha d" "r \<in> set (db_operations d)" "op_scope r = (t, tt, ti, key)"
  shows "find (\<lambda>q. op_operation_type q = t \<and> op_target_type q = tt \<and> op_target_id q = ti \<and> op_idempotency_key q = key)
     (db_operations d) = Some r"
proof -
  have "find (\<lambda>q. op_scope q = op_scope r) (db_operations d) = Some r"
    using assms(1,2) distinct_row_of [of op_scope "db_operations d" r]
    by (auto simp: store_inv_def op_table_ok_def row_of_def)
  then show ?thesis using assms(3) by (simp add: op_scope_def)
qed

lemma created_by_scope:
  assumes "core_inv sha d" "store_create sha d now eid sp p = Inr (d1, r)" "cr_created r"
  obtains x where "get_by_scope (run (core_exec sha) cs d1) sp = Some x"
    "resolve_existing x sp = Inr \<lparr>cr_operation = x, cr_created = False\<rparr>" "sn_operation_id x = sp_operation_id sp"
proof -
  let ?d2 = "run (core_exec sha) cs d1"
  have "create_rows sha d now eid sp p = Inr (d1, r)"
    using assms(2,3) by (auto simp: store_create_def resolve_existing_def split: option.splits if_splits
        elim!: create_insert_cases)
  then obtain row c where row: "row = created_row sp c now" "row \<in> set (db_operations d1)"
    by (rule create_rowsD) auto
  have inv1: "core_inv sha d1"
    by (rule core_inv_store [OF assms(1) create_core_frame [OF assms(2)]])
      (rule store_create_inv [OF core_invD(1) [OF assms(1)] assms(2)])
  then have inv2: "store_inv sha ?d2" by (intro core_invD(1) core.run_inv)
  have "log_le d1 ?d2" using inv1 by (rule log.run_le)
  then have "op_identity row \<in> op_identity ` set (db_operations ?d2)"
    using row(2) by (auto simp: log_le_def identity_le_def)
  then obtain row2 where row2: "row2 \<in> set (db_operations ?d2)" "op_identity row2 = op_identity row" by auto
  then have scope: "op_scope row2 = (sp_operation_type sp, sp_target_type sp, sp_target_id sp, sp_idempotency_key sp)"
    and same: "op_operation_id row2 = sp_operation_id sp" "op_execution_mode row2 = sp_execution_mode sp"
      "op_intent_digest row2 = sp_intent_digest sp" "op_plan_digest row2 = sp_plan_digest sp"
    by (auto simp: op_identity_def row(1) created_row_def op_scope_def)
  have "get_by_scope ?d2 sp = Some (snapshot_of row2)"
    using scope_unique [OF inv2 row2(1) scope] by (simp add: get_by_scope_def)
  moreover have "resolve_existing (snapshot_of row2) sp = Inr \<lparr>cr_operation = snapshot_of row2, cr_created = False\<rparr>"
    using scope same by (simp add: resolve_existing_def snapshot_of_def op_scope_def)
  ultimately show thesis using same(1) that by (simp add: snapshot_of_def)
qed

text \<open>
  An operation that was created once is found again by its specification, whatever ran since, and
  the second request creates nothing; a request with its key and another intent is refused.
\<close>

lemma created_found:
  assumes "core_inv sha d" "store_create sha d now eid sp p = Inr (d1, r)" "cr_created r"
  shows "\<exists>r'. store_create sha (run (core_exec sha) cs d1) now' eid' sp p' = Inr (run (core_exec sha) cs d1, r') \<and>
    \<not> cr_created r' \<and> sn_operation_id (cr_operation r') = sp_operation_id sp"
  by (rule created_by_scope [OF assms, of cs]) (simp add: store_create_def)

lemma created_conflict:
  assumes "core_inv sha d" "store_create sha d now eid sp p = Inr (d1, r)" "cr_created r"
    and "sp_operation_type sp' = sp_operation_type sp" "sp_target_type sp' = sp_target_type sp"
      "sp_target_id sp' = sp_target_id sp" "sp_idempotency_key sp' = sp_idempotency_key sp"
      "sp_intent_digest sp' \<noteq> sp_intent_digest sp"
  shows "store_create sha (run (core_exec sha) cs d1) now' eid' sp' p' = Inl (OperationIntentConflict (sp_operation_id sp))"
proof (rule created_by_scope [OF assms(1-3), of cs])
  fix x assume x: "get_by_scope (run (core_exec sha) cs d1) sp = Some x"
    "resolve_existing x sp = Inr \<lparr>cr_operation = x, cr_created = False\<rparr>" "sn_operation_id x = sp_operation_id sp"
  have "get_by_scope (run (core_exec sha) cs d1) sp' = Some x"
    using x(1) assms(4-7) by (simp add: get_by_scope_def)
  moreover have "resolve_existing x sp' = Inl (OperationIntentConflict (sp_operation_id sp))"
    using x(2,3) assms(8) by (auto simp: resolve_existing_def split: if_splits)
  ultimately show ?thesis by (simp add: store_create_def)
qed

section \<open>Claims make progress\<close>

text \<open>Whenever an item is due, a claim takes one.\<close>

lemma claim_progress:
  assumes "r \<in> set (db_recoveries d)" "due now r" "\<not> skip (rc_operation_id r)" "py_strip w \<noteq> []"
  shows "\<exists>d' l ls. claim_due d now tk skip w us limit = Inr (d', l # ls)"
proof -
  let ?rows = "sort_key (\<lambda>r. (rc_available_at r, rc_operation_id r))
    (filter (\<lambda>r. due now r \<and> \<not> skip (rc_operation_id r)) (db_recoveries d))"
  have "r \<in> set ?rows" using assms by simp
  then have "?rows \<noteq> []" by (metis empty_iff empty_set)
  then have "due_rows d now skip limit \<noteq> []" by (auto simp: due_rows_def)
  then obtain q qs where "due_rows d now skip limit = q # qs" by (cases "due_rows d now skip limit") auto
  then show ?thesis using assms(4) by (simp add: claim_due_def raise_if_def Let_def case_prod_beta)
qed

end
