(* ===== verification/CanonicalJson.thy ===== *)
theory CanonicalJson
  imports PyValues "HOL-Library.Sublist"
begin

text \<open>
  What the digests of the operation core rest on: the canonical JSON of a value and its UTF-8
  bytes determine the value, up to the order of the keys of its dicts. So two payloads with the
  same digest are the same payload, or their bytes are a collision of the hash.
\<close>

section \<open>Values up to the order of keys\<close>

fun json_norm :: "pyval \<Rightarrow> pyval" where
  "json_norm (PList xs) = PList (map json_norm xs)"
| "json_norm (PDict d) = PDict (sort_key fst (map (\<lambda>(k, v). (k, json_norm v)) d))"
| "json_norm v = v"

lemma insort_key_map: "insort_key f (g x) (map g xs) = map g (insort_key (\<lambda>y. f (g y)) x xs)"
  by (induction xs) auto

lemma sort_key_map: "sort_key f (map g xs) = map g (sort_key (\<lambda>y. f (g y)) xs)"
  by (induction xs) (simp_all add: insort_key_map)

lemma sort_key_fst_map: "sort_key fst (map (\<lambda>(k, v). (k, g v)) d) = map (\<lambda>(k, v). (k, g v)) (sort_key fst d)"
  by (simp add: sort_key_map case_prod_unfold)

text \<open>Equal dicts in normal form have the same items.\<close>

lemma json_norm_dict_items:
  assumes "json_norm (PDict d) = json_norm (PDict e)" "(k, v) \<in> set d"
  obtains w where "(k, w) \<in> set e" "json_norm w = json_norm v"
proof -
  have "set (map (\<lambda>(k, v). (k, json_norm v)) d) = set (map (\<lambda>(k, v). (k, json_norm v)) e)"
    using arg_cong [OF assms(1), of "\<lambda>v. case v of PDict d \<Rightarrow> set d | _ \<Rightarrow> {}"] by simp
  moreover have "(k, json_norm v) \<in> set (map (\<lambda>(k, v). (k, json_norm v)) d)"
    unfolding set_map by (rule image_eqI [OF _ assms(2)]) simp
  ultimately have "(k, json_norm v) \<in> (\<lambda>(k, v). (k, json_norm v)) ` set e" by (simp only: set_map)
  then obtain x where "x \<in> set e" "(k, json_norm v) = (case x of (k, v) \<Rightarrow> (k, json_norm v))" by (rule imageE)
  with that show thesis by (cases x) simp
qed

section \<open>Texts and numbers\<close>

text \<open>The code of a character is no proper prefix of that of another.\<close>

definition escaped_chars :: "char list" where
  "escaped_chars = map char_of ([34, 92] @ [0..<32] :: nat list)"

lemma json_char_plain: "c \<notin> set escaped_chars \<Longrightarrow> json_char c = [c] \<and> c \<noteq> CHR 0x22 \<and> c \<noteq> CHR 0x5C"
proof -
  assume c: "c \<notin> set escaped_chars"
  have "(of_char c :: nat) \<noteq> 34 \<and> (of_char c :: nat) \<noteq> 92 \<and> \<not> (of_char c :: nat) < 32"
  proof (intro conjI notI)
    assume "(of_char c :: nat) = 34"
    then have "c = char_of (34 :: nat)" by (metis char_of_char)
    with c show False by (simp add: escaped_chars_def)
  next
    assume "(of_char c :: nat) = 92"
    then have "c = char_of (92 :: nat)" by (metis char_of_char)
    with c show False by (simp add: escaped_chars_def)
  next
    assume "(of_char c :: nat) < 32"
    then have "char_of (of_char c :: nat) \<in> set escaped_chars"
      unfolding escaped_chars_def by (simp only: set_map) (rule imageI, simp)
    with c show False by simp
  qed
  then show ?thesis by (auto simp: json_char_def Let_def)
qed

lemma json_char_escaped:
  assumes "c \<in> set escaped_chars"
  shows "\<exists>s. json_char c = CHR 0x5C # s"
proof -
  have "list_all (\<lambda>c. json_char c \<noteq> [] \<and> hd (json_char c) = CHR 0x5C) escaped_chars" by code_simp
  with assms have "json_char c \<noteq> [] \<and> hd (json_char c) = CHR 0x5C" by (simp add: list_all_iff)
  then show ?thesis by (cases "json_char c") auto
qed

lemma starts_with_iff: "starts_with p s \<longleftrightarrow> prefix p s"
  by (induction p s rule: starts_with.induct) auto

lemma escaped_prefix_free:
  assumes "c \<in> set escaped_chars" "c' \<in> set escaped_chars" "prefix (json_char c) (json_char c')"
  shows "c = c'"
proof -
  have "let cs = map (\<lambda>c. (c, json_char c)) escaped_chars
    in list_all (\<lambda>(c, x). list_all (\<lambda>(c', x'). \<not> starts_with x x' \<or> c = c') cs) cs" by code_simp
  moreover have "starts_with (json_char c) (json_char c')"
    using assms(3) by (auto simp: starts_with_iff)
  ultimately show ?thesis using assms(1,2) by (auto simp: list_all_iff Let_def)
qed

lemma json_char_inject:
  assumes "json_char c @ x = json_char c' @ x'"
  shows "c = c' \<and> x = x'"
proof (cases "c \<in> set escaped_chars"; cases "c' \<in> set escaped_chars")
  assume e: "c \<in> set escaped_chars" "c' \<in> set escaped_chars"
  have "prefix (json_char c) (json_char c' @ x')" "prefix (json_char c') (json_char c' @ x')"
    using assms by (metis prefixI)+
  then have "prefix (json_char c) (json_char c') \<or> prefix (json_char c') (json_char c)"
    by (rule prefix_same_cases)
  with escaped_prefix_free e have "c = c'" by blast
  with assms show ?thesis by simp
qed (use assms json_char_plain [of c] json_char_plain [of c'] json_char_escaped [of c] json_char_escaped [of c'] in auto)

lemma json_char_no_quote: "json_char c @ x \<noteq> CHR 0x22 # y"
  using json_char_plain [of c] json_char_escaped [of c] by (cases "c \<in> set escaped_chars") auto

lemma json_text_inject:
  "concat (map json_char s) @ CHR 0x22 # r = concat (map json_char t) @ CHR 0x22 # r' \<Longrightarrow> s = t \<and> r = r'"
proof (induction s arbitrary: t)
  case Nil
  then show ?case using json_char_no_quote by (cases t) (auto, metis)
next
  case (Cons c s)
  then show ?case
  proof (cases t)
    case Nil
    with Cons.prems show ?thesis using json_char_no_quote [of c] by simp
  next
    case t: (Cons c' t')
    with Cons.prems have "json_char c @ (concat (map json_char s) @ CHR 0x22 # r) =
      json_char c' @ (concat (map json_char t') @ CHR 0x22 # r')" by simp
    from json_char_inject [OF this] Cons.IH t show ?thesis by blast
  qed
qed

lemma json_str_inject:
  assumes "json_str s @ r = json_str t @ r'"
  shows "s = t \<and> r = r'"
proof (rule json_text_inject)
  show "concat (map json_char s) @ CHR 0x22 # r = concat (map json_char t) @ CHR 0x22 # r'"
    using assms by (simp add: json_str_def)
qed

text \<open>What follows a value inside a text: nothing, a comma or a closing bracket.\<close>

definition delimited :: "string \<Rightarrow> bool" where
  "delimited r \<longleftrightarrow> r = [] \<or> hd r \<in> {CHR '','', CHR 0x5D, CHR 0x7D}"

lemma delimited_no_digit: "delimited r \<Longrightarrow> \<not> (\<exists>c s. r = c # s \<and> is_digit c)"
  by (auto simp: delimited_def is_digit_def char_between_def)

lemma digits_inject:
  assumes "\<forall>c \<in> set ds. is_digit c" "\<forall>c \<in> set es. is_digit c" "ds @ r = es @ r'" "delimited r" "delimited r'"
  shows "ds = es \<and> r = r'"
  using assms
proof (induction ds arbitrary: es)
  case Nil
  then show ?case using delimited_no_digit [of r] by (cases es) auto
next
  case (Cons c ds)
  then show ?case using delimited_no_digit [of r'] by (cases es) auto
qed

lemma show_nat_no_minus: "show_nat n @ s \<noteq> CHR ''-'' # u"
  using show_nat_digits [of n] show_nat_nonempty [of n]
  by (cases "show_nat n") (auto simp: is_digit_def char_between_def)

lemma show_nat_delimited:
  assumes "show_nat m @ r = show_nat n @ r'" "delimited r" "delimited r'"
  shows "m = n \<and> r = r'"
  using digits_inject [OF show_nat_digits show_nat_digits assms] by simp

lemma show_int_delimited:
  assumes "show_int i @ r = show_int j @ r'" "delimited r" "delimited r'"
  shows "i = j \<and> r = r'"
proof (cases "i < 0"; cases "j < 0")
  assume n: "i < 0" "j < 0"
  with assms(1) have "show_nat (nat (- i)) @ r = show_nat (nat (- j)) @ r'" by (simp add: show_int_def)
  from show_nat_delimited [OF this assms(2,3)] n show ?thesis by auto
next
  assume n: "\<not> i < 0" "\<not> j < 0"
  with assms(1) have "show_nat (nat i) @ r = show_nat (nat j) @ r'" by (simp add: show_int_def)
  from show_nat_delimited [OF this assms(2,3)] n show ?thesis by auto
next
  assume n: "i < 0" "\<not> j < 0"
  with assms(1) show ?thesis using show_nat_no_minus [of "nat j" r'] by (auto simp: show_int_def dest: sym)
next
  assume n: "\<not> i < 0" "j < 0"
  with assms(1) show ?thesis using show_nat_no_minus [of "nat i" r] by (auto simp: show_int_def)
qed

section \<open>The JSON of a value determines it\<close>

lemma hd_show_int: "hd (show_int i @ r) = CHR ''-'' \<or> is_digit (hd (show_int i @ r))"
proof -
  have "show_nat n \<noteq> [] \<and> is_digit (hd (show_nat n))" for n
    using show_nat_digits [of n] by (cases "show_nat n") (auto dest: arg_cong [of _ _ "\<lambda>s. s = []"])
  then show ?thesis by (simp add: show_int_def)
qed

text \<open>The first character tells the kind of a value.\<close>

fun json_first :: "pyval \<Rightarrow> char \<Rightarrow> bool" where
  "json_first PNone c = (c = CHR ''n'')"
| "json_first (PBool b) c = (c = (if b then CHR ''t'' else CHR ''f''))"
| "json_first (PInt i) c = (c = CHR ''-'' \<or> is_digit c)"
| "json_first (PStr s) c = (c = CHR 0x22)"
| "json_first (PList xs) c = (c = CHR ''['')"
| "json_first (PDict d) c = (c = CHR 0x7B)"

lemma show_int_nonempty: "show_int i \<noteq> []"
  by (simp add: show_int_def)

lemma json_head: "canonical_json v \<noteq> [] \<and> json_first v (hd (canonical_json v @ r))"
  using hd_show_int by (cases v) (auto simp: json_str_def show_int_nonempty)

lemma json_first_eq: "canonical_json v @ r = canonical_json y @ r' \<Longrightarrow> json_first y (hd (canonical_json v @ r))"
  using json_head by metis

lemma json_first_not_close: "json_first v c \<Longrightarrow> c \<noteq> CHR 0x5D \<and> c \<noteq> CHR 0x7D \<and> c \<noteq> CHR '',''"
  by (cases v) (auto simp: is_digit_def char_between_def split: if_splits)

text \<open>A list of texts with commas in between, up to its closing bracket.\<close>

definition decodes :: "('a \<Rightarrow> string) \<Rightarrow> ('a \<Rightarrow> 'a \<Rightarrow> bool) \<Rightarrow> 'a \<Rightarrow> bool" where
  "decodes f R x \<longleftrightarrow> (\<forall>y r r'. delimited r \<longrightarrow> delimited r' \<longrightarrow> f x @ r = f y @ r' \<longrightarrow> R x y \<and> r = r')"

lemma decodesD: "decodes f R x \<Longrightarrow> f x @ r = f y @ r' \<Longrightarrow> delimited r \<Longrightarrow> delimited r' \<Longrightarrow> R x y \<and> r = r'"
  by (simp add: decodes_def)

lemma py_join_rest: "py_join '','' (w # ws) @ c # r = w @ (if ws = [] then c # r else CHR '','' # py_join '','' ws @ c # r)"
  by (cases ws) simp_all

lemma join_inject:
  assumes "\<And>x. x \<in> set xs \<Longrightarrow> decodes f R x" "\<And>x. f x \<noteq> [] \<and> hd (f x) \<noteq> c" "c \<in> {CHR 0x5D, CHR 0x7D}"
    and "py_join '','' (map f xs) @ c # r = py_join '','' (map f ys) @ c # r'"
  shows "list_all2 R xs ys \<and> r = r'"
  using assms(1,4)
proof (induction xs arbitrary: ys)
  case Nil
  show ?case
  proof (cases ys)
    case (Cons y ys')
    with Nil(2) have "c # r = f y @ (if map f ys' = [] then c # r' else CHR '','' # py_join '','' (map f ys') @ c # r')"
      by (simp only: list.map py_join_rest) simp
    with assms(2) [of y] show ?thesis by (cases "f y") auto
  qed (use Nil in simp)
next
  case (Cons x xs)
  let ?rest = "\<lambda>xs r. if map f xs = [] then c # r else CHR '','' # py_join '','' (map f xs) @ c # r"
  have d: "delimited (?rest xs r)" for xs r using assms(3) by (auto simp: delimited_def)
  show ?case
  proof (cases ys)
    case Nil
    with Cons.prems(2) have "f x @ ?rest xs r = c # r'" by (simp only: list.map py_join_rest) simp
    with assms(2) [of x] show ?thesis by (cases "f x") auto
  next
    case ys: (Cons y ys')
    with Cons.prems(2) have "f x @ ?rest xs r = f y @ ?rest ys' r'" by (simp only: list.map py_join_rest)
    from decodesD [OF Cons.prems(1) this d d] have R: "R x y" "?rest xs r = ?rest ys' r'" by auto
    show ?thesis
    proof (cases "xs = [] \<or> ys' = []")
      case True
      with R(2) assms(3) have "xs = [] \<and> ys' = [] \<and> r = r'" by (auto split: if_splits)
      with R(1) ys show ?thesis by simp
    next
      case False
      with R(2) have "py_join '','' (map f xs) @ c # r = py_join '','' (map f ys') @ c # r'" by simp
      with Cons.IH [of ys'] Cons.prems(1) R(1) ys show ?thesis by simp
    qed
  qed
qed

definition same_json :: "pyval \<Rightarrow> pyval \<Rightarrow> bool" where
  "same_json v w \<longleftrightarrow> json_norm v = json_norm w"

definition json_item :: "string \<times> pyval \<Rightarrow> string" where
  "json_item e = json_str (fst e) @ '':'' @ canonical_json (snd e)"

lemma canonical_json_dict:
  "canonical_json (PDict d) = [CHR 0x7B] @ py_join '','' (map json_item (sort_key fst d)) @ [CHR 0x7D]"
proof -
  have "map (\<lambda>(k, j). json_str k @ '':'' @ j) (sort_key fst (map (\<lambda>(k, v). (k, canonical_json v)) d)) =
    map json_item (sort_key fst d)"
    unfolding sort_key_fst_map by (simp add: json_item_def case_prod_unfold)
  then show ?thesis by simp
qed

lemma json_item_decodes:
  assumes "decodes canonical_json same_json (snd e)"
  shows "decodes json_item (\<lambda>a b. fst a = fst b \<and> same_json (snd a) (snd b)) e"
  unfolding decodes_def
proof (intro allI impI)
  fix y r r'
  assume d: "delimited r" "delimited r'" and eq: "json_item e @ r = json_item y @ r'"
  from eq have "json_str (fst e) @ ('':'' @ canonical_json (snd e) @ r) = json_str (fst y) @ ('':'' @ canonical_json (snd y) @ r')"
    by (simp add: json_item_def)
  from json_str_inject [OF this] decodesD [OF assms _ d, of "snd y"]
  show "(fst e = fst y \<and> same_json (snd e) (snd y)) \<and> r = r'" by auto
qed

lemma json_item_head: "json_item e \<noteq> [] \<and> hd (json_item e) \<noteq> CHR 0x7D"
  by (simp add: json_item_def json_str_def)

lemma sorted_pairs_norm:
  assumes "list_all2 (\<lambda>a b. fst a = fst b \<and> same_json (snd a) (snd b)) (sort_key fst d) (sort_key fst e)"
  shows "same_json (PDict d) (PDict e)"
proof -
  have "map (\<lambda>(k, v). (k, json_norm v)) (sort_key fst d) = map (\<lambda>(k, v). (k, json_norm v)) (sort_key fst e)"
    using assms by (induction rule: list_all2_induct) (auto simp: same_json_def)
  then show ?thesis by (simp add: same_json_def sort_key_fst_map)
qed

lemma json_decodes: "decodes canonical_json same_json v"
proof (induction v)
  case (PList xs)
  show ?case unfolding decodes_def
  proof (intro allI impI)
    fix y r r'
    assume d: "delimited r" "delimited r'" and eq: "canonical_json (PList xs) @ r = canonical_json y @ r'"
    have "json_first y CHR ''[''" using json_first_eq [OF eq] by simp
    then obtain ys where y: "y = PList ys" by (cases y) (auto simp: is_digit_def char_between_def split: if_splits)
    have "list_all2 same_json xs ys \<and> r = r'"
    proof (rule join_inject [where f = canonical_json and c = "CHR 0x5D"])
      show "canonical_json x \<noteq> [] \<and> hd (canonical_json x) \<noteq> CHR 0x5D" for x
        using json_head [of x "[]"] json_first_not_close by auto
      show "py_join '','' (map canonical_json xs) @ CHR 0x5D # r = py_join '','' (map canonical_json ys) @ CHR 0x5D # r'"
        using eq y by simp
    qed (auto intro: PList)
    moreover have "list_all2 same_json xs ys \<Longrightarrow> map json_norm xs = map json_norm ys"
      by (induction rule: list_all2_induct) (auto simp: same_json_def)
    ultimately show "same_json (PList xs) y \<and> r = r'" by (auto simp: y same_json_def)
  qed
next
  case (PDict d)
  show ?case unfolding decodes_def
  proof (intro allI impI)
    fix y r r'
    assume dl: "delimited r" "delimited r'" and eq: "canonical_json (PDict d) @ r = canonical_json y @ r'"
    have "json_first y CHR 0x7B" using json_first_eq [OF eq] by simp
    then obtain e where y: "y = PDict e" by (cases y) (auto simp: is_digit_def char_between_def split: if_splits)
    have "list_all2 (\<lambda>a b. fst a = fst b \<and> same_json (snd a) (snd b)) (sort_key fst d) (sort_key fst e) \<and> r = r'"
    proof (rule join_inject [where f = json_item and c = "CHR 0x7D", OF _ json_item_head])
      show "decodes json_item (\<lambda>a b. fst a = fst b \<and> same_json (snd a) (snd b)) x" if "x \<in> set (sort_key fst d)" for x
        by (rule json_item_decodes, rule PDict [of x]) (use that in \<open>simp_all add: snds.simps\<close>)
      show "py_join '','' (map json_item (sort_key fst d)) @ CHR 0x7D # r = py_join '','' (map json_item (sort_key fst e)) @ CHR 0x7D # r'"
        using eq unfolding y canonical_json_dict by simp
    qed simp
    with sorted_pairs_norm show "same_json (PDict d) y \<and> r = r'" by (auto simp: y)
  qed
next
  case (PInt i)
  show ?case unfolding decodes_def
  proof (intro allI impI)
    fix y r r'
    assume d: "delimited r" "delimited r'" and eq: "canonical_json (PInt i) @ r = canonical_json y @ r'"
    have "json_first y (hd (show_int i @ r))" using json_first_eq [OF eq] by simp
    with hd_show_int [of i r] obtain j where y: "y = PInt j"
      by (cases y) (auto simp: is_digit_def char_between_def split: if_splits)
    with eq show_int_delimited [OF _ d, of i j] show "same_json (PInt i) y \<and> r = r'" by (simp add: same_json_def)
  qed
next
  case (PStr s)
  show ?case unfolding decodes_def
  proof (intro allI impI)
    fix y r r'
    assume eq: "canonical_json (PStr s) @ r = canonical_json y @ r'"
    have "json_first y CHR 0x22" using json_first_eq [OF eq] by (simp add: json_str_def)
    then obtain t where y: "y = PStr t" by (cases y) (auto simp: is_digit_def char_between_def split: if_splits)
    with eq json_str_inject [of s r t r'] show "same_json (PStr s) y \<and> r = r'" by (simp add: same_json_def)
  qed
next
  case PNone
  show ?case unfolding decodes_def
  proof (intro allI impI)
    fix y r r'
    assume eq: "canonical_json PNone @ r = canonical_json y @ r'"
    have "json_first y CHR ''n''" using json_first_eq [OF eq] by simp
    then have "y = PNone" by (cases y) (auto simp: is_digit_def char_between_def split: if_splits)
    with eq show "same_json PNone y \<and> r = r'" by (simp add: same_json_def)
  qed
next
  case (PBool b)
  show ?case unfolding decodes_def
  proof (intro allI impI)
    fix y r r'
    assume eq: "canonical_json (PBool b) @ r = canonical_json y @ r'"
    have "json_first y (if b then CHR ''t'' else CHR ''f'')" using json_first_eq [OF eq] by (simp split: if_splits)
    then have "y = PBool b" by (cases y) (auto simp: is_digit_def char_between_def split: if_splits)
    with eq show "same_json (PBool b) y \<and> r = r'" by (simp add: same_json_def)
  qed
qed

section \<open>Bytes\<close>

lemma utf8_char_cases:
  obtains "(of_char c :: nat) < 128" "utf8_char c = [c]"
  | a b where "\<not> (of_char c :: nat) < 128" "utf8_char c = [a, b]" "(of_char a :: nat) = 192 + of_char c div 64"
    "(of_char b :: nat) = 128 + of_char c mod 64"
proof (cases "(of_char c :: nat) < 128")
  case False
  have "(of_char c :: nat) div 64 < 4" using nat_of_char_less_256 [of c] by (simp add: less_mult_imp_div_less)
  then have "(of_char (char_of (192 + of_char c div 64 :: nat)) :: nat) = 192 + of_char c div 64"
    by (simp add: of_char_of)
  moreover have "(of_char c :: nat) mod 64 < 64" by simp
  then have "(of_char (char_of (128 + of_char c mod 64 :: nat)) :: nat) = 128 + of_char c mod 64"
    by (simp only: of_char_of) (simp add: mod_less)
  ultimately show thesis using that(2) False by (auto simp: utf8_char_def Let_def)
qed (use that(1) in \<open>simp add: utf8_char_def Let_def\<close>)

lemma utf8_char_inject:
  assumes "utf8_char c @ x = utf8_char c' @ x'"
  shows "c = c' \<and> x = x'"
proof (cases c rule: utf8_char_cases; cases c' rule: utf8_char_cases)
  fix a b a' b'
  assume c: "utf8_char c = [a, b]" "(of_char a :: nat) = 192 + of_char c div 64" "(of_char b :: nat) = 128 + of_char c mod 64"
    and c': "utf8_char c' = [a', b']" "(of_char a' :: nat) = 192 + of_char c' div 64" "(of_char b' :: nat) = 128 + of_char c' mod 64"
  from c(1) c'(1) assms have eq: "a = a'" "b = b'" "x = x'" by simp_all
  with c(2,3) c'(2,3) have "(of_char c :: nat) div 64 = of_char c' div 64" "(of_char c :: nat) mod 64 = of_char c' mod 64" by simp_all
  then have "(of_char c :: nat) = of_char c'" by (metis div_mult_mod_eq)
  with eq(3) show ?thesis by (simp only: of_char_eq_iff)
qed (use assms in auto)

lemma utf8_inject: "utf8 s = utf8 t \<longleftrightarrow> s = t"
proof
  show "utf8 s = utf8 t \<Longrightarrow> s = t"
  proof (induction s arbitrary: t)
    case Nil
    then show ?case by (cases t; cases "hd t" rule: utf8_char_cases) (auto simp: utf8_def)
  next
    case (Cons c s)
    show ?case
    proof (cases t)
      case Nil
      with Cons.prems show ?thesis by (cases c rule: utf8_char_cases) (auto simp: utf8_def)
    next
      case t: (Cons c' t')
      with Cons.prems have "utf8_char c @ utf8 s = utf8_char c' @ utf8 t'" by (simp add: utf8_def)
      from utf8_char_inject [OF this] Cons.IH t show ?thesis by blast
    qed
  qed
qed simp

text \<open>
  Equal texts mean equal values up to the order of keys, and equal values have equal texts.
\<close>

lemma canonical_json_norm: "canonical_json (json_norm v) = canonical_json v"
proof (induction v)
  case (PList xs)
  then have "map canonical_json (map json_norm xs) = map canonical_json xs" by simp
  then show ?case by (simp only: json_norm.simps canonical_json.simps)
next
  case (PDict d)
  then have items: "json_item (k, json_norm v) = json_item (k, v)" if "(k, v) \<in> set d" for k v
    using that by (force simp: json_item_def snds.simps)
  have "sort_key fst (sort_key fst (map (\<lambda>(k, v). (k, json_norm v)) d)) = map (\<lambda>(k, v). (k, json_norm v)) (sort_key fst d)"
    unfolding sort_key_id_if_sorted [OF sorted_sort_key] by (rule sort_key_fst_map)
  moreover have "map json_item (map (\<lambda>(k, v). (k, json_norm v)) (sort_key fst d)) = map json_item (sort_key fst d)"
    unfolding map_map by (rule map_cong) (auto intro: items)
  ultimately show ?case by (simp only: json_norm.simps canonical_json_dict)
qed simp_all

lemma canonical_json_inject: "canonical_json v = canonical_json w \<longleftrightarrow> same_json v w"
proof
  assume "canonical_json v = canonical_json w"
  with decodesD [OF json_decodes, of v "[]" w "[]"] show "same_json v w" by (simp add: delimited_def)
next
  assume "same_json v w"
  then show "canonical_json v = canonical_json w" using canonical_json_norm by (metis same_json_def)
qed

end
