(* ===== verification/LogAuthenticity.thy ===== *)
theory LogAuthenticity
  imports History CanonicalJson
begin

text \<open>
  What the checksum chain of an operation proves about its events: whoever hands in a chain that
  verifies and ends in the checksum that the operation row records has handed in the recorded
  events, or has found two different texts with the same hash.
\<close>

section \<open>Contents and digests\<close>

text \<open>
  The content of an event is everything its checksum covers, which is everything but the event's
  own id and the checksum itself; dicts inside it are equal up to the order of their keys.
\<close>

definition event_fields :: "operation_event \<Rightarrow> pydict" where
  "event_fields e = event_checksum_payload (ev_operation_id e) (ev_sequence e) (ev_event_type e)
     (ev_from_status e) (ev_to_status e) (ev_stage e) (ev_actor e) (ev_payload e) (ev_previous_checksum e)
     (ev_created_at e)"

definition event_content :: "operation_event \<Rightarrow> pyval" where
  "event_content e = json_norm (PDict (event_fields e))"

definition event_bytes :: "operation_event \<Rightarrow> string" where
  "event_bytes e = utf8 (canonical_json (PDict (event_fields e)))"

definition collision :: "sha \<Rightarrow> string \<Rightarrow> string \<Rightarrow> bool" where
  "collision sha x y \<longleftrightarrow> x \<noteq> y \<and> sha x = sha y"

lemma event_digest_bytes: "event_digest sha e = ''sha256:'' @ sha (event_bytes e)"
  by (simp add: event_digest_def operation_digest_def event_bytes_def event_fields_def)

lemma event_bytes_content: "event_bytes e = event_bytes f \<longleftrightarrow> event_content e = event_content f"
  unfolding event_bytes_def event_content_def utf8_inject canonical_json_inject same_json_def ..

lemma digest_payload:
  "operation_digest sha p = operation_digest sha q \<longleftrightarrow> same_json (PDict p) (PDict q) \<or>
     collision sha (utf8 (canonical_json (PDict p))) (utf8 (canonical_json (PDict q)))"
  unfolding operation_digest_def collision_def utf8_inject canonical_json_inject [symmetric] append_same_eq same_append_eq
  by auto

text \<open>The content has the links of the chain in it.\<close>

lemma event_content_links:
  assumes "event_content e = event_content f"
  shows "ev_sequence e = ev_sequence f" "ev_previous_checksum e = ev_previous_checksum f"
proof -
  note same = assms [unfolded event_content_def]
  have seq: "(''sequence'', PInt (ev_sequence e)) \<in> set (event_fields e)" by (simp add: event_fields_def event_checksum_payload_def)
  have prev: "(''previous_checksum'', PStr (ev_previous_checksum e)) \<in> set (event_fields e)"
    by (simp add: event_fields_def event_checksum_payload_def)
  show "ev_sequence e = ev_sequence f"
    by (rule json_norm_dict_items [OF same seq]) (auto simp: event_fields_def event_checksum_payload_def)
  show "ev_previous_checksum e = ev_previous_checksum f"
    by (rule json_norm_dict_items [OF same prev]) (auto simp: event_fields_def event_checksum_payload_def)
qed

section \<open>Chains with the same last checksum\<close>

lemma chains_agree:
  assumes "verify_chain_from sha c n es" "verify_chain_from sha c n fs" "es \<noteq> []" "fs \<noteq> []"
    and "ev_checksum (last es) = ev_checksum (last fs)"
    and "\<And>e f. e \<in> set es \<Longrightarrow> f \<in> set fs \<Longrightarrow> \<not> collision sha (event_bytes e) (event_bytes f)"
  shows "map event_content es = map event_content fs"
  using assms
proof (induction es arbitrary: fs rule: rev_induct)
  case Nil
  then show ?case by simp
next
  case (snoc e es)
  from snoc.prems(4) obtain gs g where fs: "fs = gs @ [g]" by (cases fs rule: rev_cases) auto
  from snoc.prems(1) have ve: "verify_chain_from sha c n es" "ev_sequence e = n + int (length es)"
    "ev_previous_checksum e = (if es = [] then c else ev_checksum (last es))" "ev_checksum e = event_digest sha e"
    by (simp_all add: verify_chain_from_append)
  from snoc.prems(2) have vg: "verify_chain_from sha c n gs" "ev_sequence g = n + int (length gs)"
    "ev_previous_checksum g = (if gs = [] then c else ev_checksum (last gs))" "ev_checksum g = event_digest sha g"
    by (simp_all add: fs verify_chain_from_append)
  have "sha (event_bytes e) = sha (event_bytes g)"
    using snoc.prems(5) ve(4) vg(4) by (simp add: fs event_digest_bytes)
  moreover have "\<not> collision sha (event_bytes e) (event_bytes g)" using snoc.prems(6) by (simp add: fs)
  ultimately have content: "event_content e = event_content g"
    by (simp add: collision_def event_bytes_content)
  from event_content_links [OF this] ve(2,3) vg(2,3) have len: "length es = length gs"
    and prev: "(if es = [] then c else ev_checksum (last es)) = (if gs = [] then c else ev_checksum (last gs))" by simp_all
  show ?case
  proof (cases "es = []")
    case True
    with len content show ?thesis by (simp add: fs)
  next
    case False
    with len have "gs \<noteq> []" by auto
    with False prev have "map event_content es = map event_content gs"
      by (intro snoc.IH ve(1) vg(1)) (use snoc.prems(6) in \<open>auto simp: fs\<close>)
    with content show ?thesis by (simp add: fs)
  qed
qed

text \<open>Against the recorded log of an operation.\<close>

lemma presented_chain:
  assumes "store_inv sha d" "find_operation d i = Some r" "verify_event_chain sha es" "es \<noteq> []"
    and "ev_checksum (last es) = op_last_event_checksum r"
  shows "map event_content es = map event_content (list_events d i) \<or>
    (\<exists>e \<in> set es. \<exists>f \<in> set (list_events d i). collision sha (event_bytes e) (event_bytes f))"
proof -
  from store_inv_find [OF assms(1,2)] have "log_ok sha d r" "op_operation_id r = i" by auto
  then have "list_events d i \<noteq> []" "verify_event_chain sha (list_events d i)"
    "ev_checksum (last (list_events d i)) = op_last_event_checksum r"
    unfolding list_events_eq [OF assms(1,2)] by (simp_all add: log_ok_def Let_def)
  with chains_agree [of sha "[]" 1 es "list_events d i"] assms(3-5) show ?thesis
    unfolding verify_event_chain_def by metis
qed

end
