(* ===== verification/Lifecycle.thy ===== *)
theory Lifecycle
  imports History
begin

text \<open>
  What the status machine makes of the histories: the statuses before a dispatch are never entered
  again once they are left, so an operation enters \<open>dispatching\<close> at most once in its life; and a
  status without successors stays, whatever transactions run.
\<close>

section \<open>One dispatch\<close>

definition PRE_DISPATCH_STATUSES :: "string set" where
  "PRE_DISPATCH_STATUSES = {''draft'', ''planned'', ''awaiting_approval'', ''approved''}"

definition enters_dispatching :: "operation_event \<Rightarrow> bool" where
  "enters_dispatching e \<longleftrightarrow> ev_to_status e = ''dispatching'' \<and> ev_from_status e \<noteq> Some ''dispatching''"

lemma pre_dispatch_sources:
  "t \<in> set (allowed_next s) \<Longrightarrow> t \<in> PRE_DISPATCH_STATUSES \<or> t = ''dispatching'' \<Longrightarrow> s \<in> PRE_DISPATCH_STATUSES"
  by (auto simp: PRE_DISPATCH_STATUSES_def allowed_next_def ALLOWED_TRANSITIONS_def split: if_splits)

lemma links_after_dispatch:
  "status_links (Some s) es \<Longrightarrow> s \<notin> PRE_DISPATCH_STATUSES \<Longrightarrow> filter enters_dispatching es = []"
proof (induction es arbitrary: s)
  case (Cons e es)
  then have links: "ev_from_status e = Some s" "ev_to_status e = s \<or> ev_to_status e \<in> set (allowed_next s)"
    "status_links (Some (ev_to_status e)) es"
    by (auto simp: transition_iff_allowed)
  with Cons.prems(2) pre_dispatch_sources [of "ev_to_status e" s]
  have "ev_to_status e \<notin> PRE_DISPATCH_STATUSES" "\<not> enters_dispatching e"
    by (auto simp: enters_dispatching_def)
  with Cons.IH [OF links(3)] show ?case by simp
qed simp

lemma links_dispatch_once: "status_links p es \<Longrightarrow> length (filter enters_dispatching es) \<le> 1"
proof (induction es arbitrary: p)
  case (Cons e es)
  then have rest: "status_links (Some (ev_to_status e)) es" by simp
  show ?case
  proof (cases "enters_dispatching e")
    case True
    then have "ev_to_status e \<notin> PRE_DISPATCH_STATUSES" by (simp add: enters_dispatching_def PRE_DISPATCH_STATUSES_def)
    from links_after_dispatch [OF rest this] show ?thesis by simp
  next
    case False
    with Cons.IH [OF rest] show ?thesis by simp
  qed
qed simp

lemma events_links:
  assumes "store_inv sha d" "find_operation d i = Some r"
  shows "status_links None (list_events d i)" "list_events d i \<noteq> []" "ev_to_status (last (list_events d i)) = op_status r"
proof -
  from store_inv_find [OF assms] have "log_ok sha d r" "op_operation_id r = i" by auto
  then show "status_links None (list_events d i)" "list_events d i \<noteq> []" "ev_to_status (last (list_events d i)) = op_status r"
    unfolding list_events_eq [OF assms] by (simp_all add: log_ok_def Let_def)
qed

lemma dispatched_at_most_once:
  assumes "store_inv sha d"
  shows "length (filter enters_dispatching (list_events d i)) \<le> 1"
proof (cases "find_operation d i")
  case None
  then show ?thesis by (simp add: no_events [OF assms])
next
  case (Some r)
  show ?thesis by (rule links_dispatch_once [OF events_links(1) [OF assms Some]])
qed

section \<open>Final statuses\<close>

lemma links_stuck:
  assumes "status_links p (es @ fs)" "es \<noteq> []" "allowed_next (ev_to_status (last es)) = []"
  shows "ev_to_status (last (es @ fs)) = ev_to_status (last es)"
  using assms(1)
proof (induction fs rule: rev_induct)
  case (snoc f fs)
  then have "status_links p ((es @ fs) @ [f])" by simp
  with assms(2) have "status_links p (es @ fs)"
    "ev_to_status f = ev_to_status (last (es @ fs)) \<or> ev_to_status f \<in> set (allowed_next (ev_to_status (last (es @ fs))))"
    unfolding status_links_append by (auto simp: Let_def transition_iff_allowed)
  with snoc.IH assms(3) show ?case by simp
qed simp

lemma operation_stays:
  assumes "log_le d d'" "find_operation d i = Some r"
  obtains r' where "find_operation d' i = Some r'"
proof -
  have "op_identity r \<in> op_identity ` set (db_operations d')" and id: "op_operation_id r = i"
    using assms(1) row_of_Some [OF assms(2)] by (auto simp: log_le_def identity_le_def)
  then obtain x where x: "x \<in> set (db_operations d')" "op_identity r = op_identity x" by blast
  from x(2) id have "op_operation_id x = i" unfolding op_identity_def by simp
  with x(1) have "find_operation d' i \<noteq> None" using row_of_None [of op_operation_id i "db_operations d'"] by blast
  with that show thesis by blast
qed

lemma stuck_status_stays:
  assumes "store_inv sha d" "store_inv sha d'" "log_le d d'" "find_operation d i = Some r" "allowed_next (op_status r) = []"
  shows "\<exists>r'. find_operation d' i = Some r' \<and> op_status r' = op_status r"
proof -
  obtain r' where r': "find_operation d' i = Some r'" by (rule operation_stays [OF assms(3,4)])
  obtain fs where fs: "list_events d' i = list_events d i @ fs"
    using events_prefix [OF assms(1-3)] by (auto elim: prefixE)
  have "ev_to_status (last (list_events d i @ fs)) = ev_to_status (last (list_events d i))"
    using events_links [OF assms(1,4)] events_links(1) [OF assms(2) r'] assms(5) by (intro links_stuck) (simp_all add: fs)
  with events_links(3) [OF assms(1,4)] events_links(3) [OF assms(2) r'] r' show ?thesis by (simp add: fs)
qed

lemma terminal_stuck: "s \<in> set TERMINAL_OPERATION_STATUSES - {''expired''} \<Longrightarrow> allowed_next s = []"
proof -
  assume s: "s \<in> set TERMINAL_OPERATION_STATUSES - {''expired''}"
  have "list_all (\<lambda>s. s \<in> set OPERATION_STATUSES) TERMINAL_OPERATION_STATUSES" by code_simp
  with s have "s \<in> set OPERATION_STATUSES" by (simp add: list_all_iff)
  from terminal_iff_stuck [OF this] s show ?thesis by blast
qed

end
