(* ===== verification/Passwords.thy ===== *)
theory Passwords
  imports PyValues
begin

text \<open>
  \<open>app/auth/passwords.py\<close>: password hashes as text. \<open>hashlib.pbkdf2_hmac("sha256", ...)\<close> is
  the parameter \<open>pbkdf2\<close> (password bytes, salt, iterations); Base64 is written out, decoding
  with \<open>validate=True\<close>. Bytes are characters.
\<close>

section \<open>Evaluation of decimal texts\<close>

text \<open>Code equations over \<open>int\<close>, for the simplifier.\<close>

definition digit_char :: "int \<Rightarrow> char" where
  "digit_char d = char_of (48 + nat d)"

lemma digit_char_code [code]: "digit_char d =
    (if d = 0 then CHR ''0'' else if d = 1 then CHR ''1'' else if d = 2 then CHR ''2'' else if d = 3 then CHR ''3''
     else if d = 4 then CHR ''4'' else if d = 5 then CHR ''5'' else if d = 6 then CHR ''6'' else if d = 7 then CHR ''7''
     else if d = 8 then CHR ''8'' else if d = 9 then CHR ''9'' else char_of (48 + nat d))"
  by (simp add: digit_char_def char_of_eq_iff take_bit_eq_mod)

definition show_digits :: "int \<Rightarrow> string" where
  "show_digits i = show_nat (nat i)"

lemma show_digits_code [code]:
  "show_digits i = (if i < 10 then [digit_char i] else show_digits (i div 10) @ [digit_char (i mod 10)])"
proof -
  have "nat i < 10 \<longleftrightarrow> i < 10" by linarith
  then show ?thesis
    by (simp add: show_digits_def digit_char_def show_nat.simps [of "nat i"] nat_div_distrib nat_mod_distrib)
qed

lemma show_int_code [code]: "show_int i = (if i < 0 then CHR ''-'' # show_digits (- i) else show_digits i)"
  by (simp add: show_int_def show_digits_def)

definition int_of_digits :: "string \<Rightarrow> int" where
  "int_of_digits ds = int (nat_of_digits ds)"

lemma int_of_digits_code [code]: "int_of_digits ds = foldl (\<lambda>n c. 10 * n + int (digit_val c)) 0 ds"
  by (induction ds rule: rev_induct) (simp_all add: int_of_digits_def nat_of_digits_def)

lemma int_of_text_code [code]:
  "int_of_text s =
     (let t = py_strip s;
          neg = (case t of c # _ \<Rightarrow> c = CHR ''-'' | [] \<Rightarrow> False);
          u = (case t of c # cs \<Rightarrow> if c = CHR ''-'' \<or> c = CHR ''+'' then cs else t | [] \<Rightarrow> [])
      in case int_digits False u of
           None \<Rightarrow> Inl (PyError ValueError)
         | Some ds \<Rightarrow> if int (length ds) > 4300 then Inl (PyError ValueError)
                      else Inr (if neg then - int_of_digits ds else int_of_digits ds))"
proof -
  have "4300 < length ds \<longleftrightarrow> 4300 < int (length ds)" for ds :: string by linarith
  then show ?thesis by (simp only: int_of_text_def int_of_digits_def)
qed

section \<open>Base64\<close>

definition b64_char :: "nat \<Rightarrow> char" where
  "b64_char n = (if n < 26 then char_of (65 + n) else if n < 52 then char_of (71 + n)
     else if n < 62 then char_of (n - 4) else if n = 62 then CHR ''+'' else CHR ''/'')"

definition b64_value :: "char \<Rightarrow> nat option" where
  "b64_value c = (let n = (of_char c :: nat) in
     if 65 \<le> n \<and> n \<le> 90 then Some (n - 65) else if 97 \<le> n \<and> n \<le> 122 then Some (n - 71)
     else if 48 \<le> n \<and> n \<le> 57 then Some (n + 4) else if n = 43 then Some 62
     else if n = 47 then Some 63 else None)"

fun b64_encode :: "string \<Rightarrow> string" where
  "b64_encode [] = []"
| "b64_encode [x] = (let a = (of_char x :: nat) in
     [b64_char (a div 4), b64_char (a mod 4 * 16), CHR ''='', CHR ''=''])"
| "b64_encode [x, y] = (let a = (of_char x :: nat); b = of_char y in
     [b64_char (a div 4), b64_char (a mod 4 * 16 + b div 16), b64_char (b mod 16 * 4), CHR ''=''])"
| "b64_encode (x # y # z # s) = (let a = (of_char x :: nat); b = of_char y; c = of_char z in
     b64_char (a div 4) # b64_char (a mod 4 * 16 + b div 16) # b64_char (b mod 16 * 4 + c div 64)
       # b64_char (c mod 64) # b64_encode s)"

text \<open>
  \<open>binascii.a2b_base64\<close> in strict mode: other characters, padding in front or inside and data
  after the padding are errors, the spare bits of the last group are dropped.
\<close>

fun b64_groups :: "string \<Rightarrow> string option" where
  "b64_groups [] = Some []"
| "b64_groups (a # s) =
     (if a = CHR ''='' then (if list_all (\<lambda>c. c = CHR ''='') s then Some [] else None)
      else case s of b # c # d # r \<Rightarrow>
          (case (b64_value a, b64_value b) of
             (Some i, Some j) \<Rightarrow>
               if c = CHR ''='' then (if d = CHR ''='' \<and> r = [] then Some [char_of (i * 4 + j div 16)] else None)
               else (case b64_value c of None \<Rightarrow> None | Some k \<Rightarrow>
                 if d = CHR ''='' then
                   (if r = [] then Some [char_of (i * 4 + j div 16), char_of (j mod 16 * 16 + k div 4)] else None)
                 else (case b64_value d of None \<Rightarrow> None | Some l \<Rightarrow>
                   map_option (\<lambda>t. char_of (i * 4 + j div 16) # char_of (j mod 16 * 16 + k div 4)
                      # char_of (k mod 4 * 64 + l) # t) (b64_groups r)))
           | _ \<Rightarrow> None)
        | _ \<Rightarrow> None)"

definition b64_decode :: "string \<Rightarrow> string result" where
  "b64_decode s =
     (if (case s of c # _ \<Rightarrow> c = CHR ''='' | [] \<Rightarrow> False) then Inl (PyError ValueError)
      else case b64_groups s of None \<Rightarrow> Inl (PyError ValueError) | Some bytes \<Rightarrow> Inr bytes)"

subsection \<open>Decoding an encoding gives the bytes back\<close>

lemma b64_value_char:
  assumes "n < 64"
  shows "b64_value (b64_char n) = Some n"
proof -
  consider "n < 26" | "26 \<le> n" "n < 52" | "52 \<le> n" "n < 62" | "n = 62" | "n = 63"
    using assms by linarith
  then show ?thesis
    by cases (auto simp: b64_value_def b64_char_def of_char_of Let_def)
qed

lemma b64_value_pad: "b64_value (CHR ''='') = None"
  by code_simp

lemma b64_char_pad: "n < 64 \<Longrightarrow> b64_char n \<noteq> CHR ''=''"
  using b64_value_char [of n] b64_value_pad by auto

text \<open>The four sextets of three bytes, and the bytes they give back.\<close>

lemma sextet_bounds:
  fixes x y z :: char
  defines "a \<equiv> of_char x :: nat" and "b \<equiv> of_char y" and "c \<equiv> of_char z"
  shows "a div 4 < 64" "a mod 4 * 16 < 64" "a mod 4 * 16 + b div 16 < 64" "b mod 16 * 4 < 64"
    "b mod 16 * 4 + c div 64 < 64" "c mod 64 < 64"
proof -
  have lt: "a < 256" "b < 256" "c < 256" by (simp_all add: a_def b_def c_def)
  then have q: "a mod 4 < 4" "b mod 16 < 16" "b div 16 < 16" "c div 64 < 4" by auto
  then show "a mod 4 * 16 + b div 16 < 64" "b mod 16 * 4 + c div 64 < 64" by linarith+
  show "a div 4 < 64" "a mod 4 * 16 < 64" "b mod 16 * 4 < 64" "c mod 64 < 64" using lt q by auto
qed

lemma sextet_joins:
  "(of_char c :: nat) div 16 div 16 = 0" "(of_char c :: nat) div 16 mod 16 = of_char c div 16"
  "(of_char c :: nat) div 64 div 4 = 0" "(of_char c :: nat) div 64 mod 4 = of_char c div 64"
proof -
  have "(of_char c :: nat) div 16 < 16" "(of_char c :: nat) div 64 < 4"
    by (simp_all add: div_less_iff_less_mult)
  then show "(of_char c :: nat) div 16 div 16 = 0" "(of_char c :: nat) div 16 mod 16 = of_char c div 16"
    "(of_char c :: nat) div 64 div 4 = 0" "(of_char c :: nat) div 64 mod 4 = of_char c div 64" by simp_all
qed

lemma b64_groups_encode: "b64_groups (b64_encode s) = Some s"
  by (induction s rule: b64_encode.induct)
    (simp_all add: Let_def b64_value_char b64_char_pad sextet_bounds sextet_joins)

lemma b64_encode_head: "b64_encode (x # s) = c # r \<Longrightarrow> c \<noteq> CHR ''=''"
proof -
  have "(of_char x :: nat) div 4 < 64" by (rule sextet_bounds)
  then show "b64_encode (x # s) = c # r \<Longrightarrow> c \<noteq> CHR ''=''"
    using b64_char_pad by (cases s; cases "tl s") (auto simp: Let_def)
qed

lemma b64_roundtrip: "b64_decode (b64_encode s) = Inr s"
proof (cases s)
  case (Cons x t)
  then show ?thesis
    using b64_groups_encode [of s] b64_encode_head [of x t]
    by (auto simp: b64_decode_def split: list.splits)
qed (simp add: b64_decode_def)

lemma b64_char_dollar: "b64_char n \<noteq> CHR ''$'' \<and> of_char (b64_char n) < (128 :: nat)"
proof (cases "n < 63")
  case True
  have "list_all (\<lambda>n. b64_char n \<noteq> CHR ''$'' \<and> of_char (b64_char n) < (128 :: nat)) [0..<63]" by code_simp
  with True show ?thesis by (simp add: list_all_iff)
qed (simp add: b64_char_def)

lemma b64_encode_chars: "c \<in> set (b64_encode s) \<Longrightarrow> c \<noteq> CHR ''$'' \<and> of_char c < (128 :: nat)"
  by (induction s rule: b64_encode.induct) (auto simp: Let_def b64_char_dollar)

section \<open>Hashing and checking\<close>

type_synonym kdf = "string \<Rightarrow> string \<Rightarrow> int \<Rightarrow> string"

definition HASH_NAME :: string where "HASH_NAME = ''pbkdf2_sha256''"
definition HASH_VERSION :: string where "HASH_VERSION = ''v1''"
definition DEFAULT_ITERATIONS :: int where "DEFAULT_ITERATIONS = 600000"
definition MIN_ITERATIONS :: int where "MIN_ITERATIONS = 1000"
definition MAX_PASSWORD_BYTES :: int where "MAX_PASSWORD_BYTES = 1024"

text \<open>\<open>env\<close> is the value of \<open>GJALLAR_PASSWORD_HASH_ITERATIONS\<close>, if it is set.\<close>

definition hash_iterations :: "string option \<Rightarrow> int" where
  "hash_iterations env =
     (let raw = py_strip (case env of None \<Rightarrow> [] | Some v \<Rightarrow> v)
      in if raw = [] then DEFAULT_ITERATIONS
         else case int_of_text raw of Inr n \<Rightarrow> max MIN_ITERATIONS n | Inl _ \<Rightarrow> DEFAULT_ITERATIONS)"

definition password_bytes :: "string \<Rightarrow> string result" where
  "password_bytes password =
     (let encoded = utf8 password
      in if int (length encoded) > MAX_PASSWORD_BYTES then Inl (PyError ValueError) else Inr encoded)"

text \<open>\<open>pbkdf2_hmac\<close> takes its iterations as a C \<open>int\<close>.\<close>

definition pbkdf2_hmac :: "kdf \<Rightarrow> string \<Rightarrow> string \<Rightarrow> int \<Rightarrow> string result" where
  "pbkdf2_hmac pbkdf2 bytes salt iterations =
     (if iterations > 2147483647 then Inl (PyError OverflowError) else Inr (pbkdf2 bytes salt iterations))"

definition hash_password :: "kdf \<Rightarrow> string option \<Rightarrow> string \<Rightarrow> string \<Rightarrow> string result" where
  "hash_password pbkdf2 env salt password =
     ebind (password_bytes password) (\<lambda>bytes.
       let iterations = hash_iterations env
       in ebind (pbkdf2_hmac pbkdf2 bytes salt iterations) (\<lambda>digest.
            Inr (py_join ''$'' [HASH_NAME, HASH_VERSION, show_int iterations, b64_encode salt, b64_encode digest])))"

text \<open>\<open>str.split(c, n)\<close>: at most \<open>n\<close> cuts.\<close>

fun py_split_max :: "char \<Rightarrow> nat \<Rightarrow> string \<Rightarrow> string list" where
  "py_split_max c 0 s = [s]"
| "py_split_max c (Suc n) s = (case py_partition c s of
       (w, False, _) \<Rightarrow> [w] | (w, True, r) \<Rightarrow> w # py_split_max c n r)"

definition ascii_only :: "string \<Rightarrow> string result" where
  "ascii_only s = (if list_all (\<lambda>c. of_char c < (128 :: nat)) s then Inr s else Inl (PyError ValueError))"

text \<open>The fields of a stored hash; \<open>Inr None\<close> is an early \<open>return False\<close>.\<close>

definition stored_fields :: "string \<Rightarrow> (int \<times> string \<times> string) option result" where
  "stored_fields stored =
     (case py_split_max CHR ''$'' 4 stored of
        [name, version, iterations_text, salt_text, digest_text] \<Rightarrow>
          if name \<noteq> HASH_NAME \<or> version \<noteq> HASH_VERSION then Inr None
          else ebind (int_of_text iterations_text) (\<lambda>iterations.
            if iterations < MIN_ITERATIONS then Inr None
            else ebind (ebind (ascii_only salt_text) b64_decode) (\<lambda>salt.
                 ebind (ebind (ascii_only digest_text) b64_decode) (\<lambda>expected.
                   Inr (Some (iterations, salt, expected)))))
      | _ \<Rightarrow> Inl (PyError ValueError))"

definition verify_password :: "kdf \<Rightarrow> string \<Rightarrow> string \<Rightarrow> bool result" where
  "verify_password pbkdf2 password stored =
     (case ebind (password_bytes password) (\<lambda>bytes. ebind (stored_fields stored) (\<lambda>fields. Inr (bytes, fields))) of
        Inl (PyError ValueError) \<Rightarrow> Inr False
      | Inl (PyError TypeError) \<Rightarrow> Inr False
      | Inl e \<Rightarrow> Inl e
      | Inr (bytes, None) \<Rightarrow> Inr False
      | Inr (bytes, Some (iterations, salt, expected)) \<Rightarrow>
          ebind (pbkdf2_hmac pbkdf2 bytes salt iterations) (\<lambda>actual. Inr (actual = expected)))"

subsection \<open>What a stored hash accepts\<close>

lemma hash_iterations_bound: "MIN_ITERATIONS \<le> hash_iterations env"
  by (auto simp: hash_iterations_def Let_def DEFAULT_ITERATIONS_def MIN_ITERATIONS_def split: sum.splits)

lemma split_max_join:
  assumes "c \<notin> set w"
  shows "py_split_max c (Suc n) (w @ c # s) = w # py_split_max c n s"
  using py_partition_no_sep [OF assms, of s] by simp

lemma show_int_no_dollar: "c \<in> set (show_int i) \<Longrightarrow> c \<noteq> CHR ''$''"
  using show_nat_digits [of "nat i"] show_nat_digits [of "nat (- i)"]
  by (auto simp: show_int_def is_digit_def char_between_def split: if_splits)

lemma hash_split:
  assumes "CHR ''$'' \<notin> set n" "CHR ''$'' \<notin> set v"
  shows "py_split_max CHR ''$'' 4 (py_join ''$'' [n, v, show_int i, b64_encode s, b64_encode d]) =
      [n, v, show_int i, b64_encode s, b64_encode d]"
proof -
  define c where "c = CHR ''$''"
  have *: "py_split_max c (Suc (Suc (Suc (Suc 0)))) (w1 @ c # w2 @ c # w3 @ c # w4 @ c # w5) = [w1, w2, w3, w4, w5]"
    if "c \<notin> set w1" "c \<notin> set w2" "c \<notin> set w3" "c \<notin> set w4" for w1 w2 w3 w4 w5
    using that by (simp add: py_partition_no_sep)
  have "c \<notin> set (show_int i)" "c \<notin> set (b64_encode s)"
    using show_int_no_dollar b64_encode_chars by (auto simp: c_def)
  with * [of n v] assms have "py_split_max c (Suc (Suc (Suc (Suc 0))))
      (n @ c # v @ c # show_int i @ c # b64_encode s @ c # b64_encode d) =
      [n, v, show_int i, b64_encode s, b64_encode d]" by (simp add: c_def del: py_split_max.simps)
  moreover have "4 = Suc (Suc (Suc (Suc 0)))" by simp
  ultimately show ?thesis by (simp only: py_join.simps append_Cons append_Nil c_def)
qed

lemma show_nat_length_pow: "n < 10 ^ k \<Longrightarrow> 0 < k \<Longrightarrow> length (show_nat n) \<le> k"
proof (induction k arbitrary: n)
  case (Suc k)
  show ?case
  proof (cases "n < 10")
    case False
    then have "0 < k" using Suc.prems(1) by (cases k) auto
    moreover have "n div 10 < 10 ^ k" using Suc.prems(1) by (simp add: less_mult_imp_div_less mult.commute)
    ultimately have "length (show_nat (n div 10)) \<le> k" using Suc.IH by blast
    then show ?thesis using False by (subst show_nat.simps) simp
  qed (subst show_nat.simps, simp)
qed simp

lemma int_of_show_int:
  assumes "0 \<le> i" "i \<le> 2147483647"
  shows "int_of_text (show_int i) = Inr i"
proof -
  have "nat i < 10 ^ 10" using assms by simp
  then have "length (show_nat (nat i)) \<le> 4300" using show_nat_length_pow [of "nat i" 10] by simp
  with assms(1) show ?thesis using show_nat_digits by (simp add: show_int_def int_of_text_digits)
qed

lemma stored_fields_hash:
  assumes "MIN_ITERATIONS \<le> i" "i \<le> 2147483647"
  shows "stored_fields (py_join ''$'' [HASH_NAME, HASH_VERSION, show_int i, b64_encode s, b64_encode d]) =
     Inr (Some (i, s, d))"
proof -
  have names: "CHR ''$'' \<notin> set HASH_NAME" "CHR ''$'' \<notin> set HASH_VERSION"
    by (simp_all add: HASH_NAME_def HASH_VERSION_def)
  have asc: "ascii_only (b64_encode x) = Inr (b64_encode x)" for x
    using b64_encode_chars by (auto simp: ascii_only_def list_all_iff)
  have int: "int_of_text (show_int i) = Inr i"
    using assms by (intro int_of_show_int) (simp_all add: MIN_ITERATIONS_def)
  show ?thesis
    using assms(1) unfolding stored_fields_def hash_split [OF names]
    by (simp add: int asc b64_roundtrip)
qed

lemma verify_hash:
  assumes "hash_password pbkdf2 env salt password = Inr stored"
  shows "verify_password pbkdf2 attempt stored =
    (case password_bytes attempt of
       Inl _ \<Rightarrow> Inr False
     | Inr bytes \<Rightarrow> Inr (pbkdf2 bytes salt (hash_iterations env) = pbkdf2 (utf8 password) salt (hash_iterations env)))"
proof -
  from assms have it: "hash_iterations env \<le> 2147483647" and st: "stored = py_join ''$'' [HASH_NAME, HASH_VERSION,
      show_int (hash_iterations env), b64_encode salt, b64_encode (pbkdf2 (utf8 password) salt (hash_iterations env))]"
    by (auto simp: hash_password_def password_bytes_def pbkdf2_hmac_def Let_def split: if_splits)
  have fields: "stored_fields stored = Inr (Some (hash_iterations env, salt,
      pbkdf2 (utf8 password) salt (hash_iterations env)))"
    unfolding st by (rule stored_fields_hash [OF hash_iterations_bound it])
  have "password_bytes attempt = Inl (PyError ValueError) \<or> password_bytes attempt = Inr (utf8 attempt)"
    by (simp add: password_bytes_def Let_def)
  then show ?thesis
    using it by (elim disjE) (simp_all add: verify_password_def fields pbkdf2_hmac_def)
qed

end
