(* ===== verification/Accounts.thy ===== *)
theory Accounts
  imports Passwords Transactions "HOL-Library.Product_Lexorder"
begin

text \<open>
  Local accounts (\<open>app/auth/users.py\<close>, \<open>roles.py\<close>, \<open>sessions.py\<close>, \<open>audit.py\<close>): the tables
  \<open>users\<close>, \<open>sessions\<close> and \<open>account_audit_events\<close> and every operation on them. A function is one
  database session; the row locks of the last-administrator guard make it atomic. What a
  transaction draws from its surroundings (clock, fresh identifiers, salt, configured
  iterations) is the record \<open>account_env\<close>; SHA-256 of a token is the parameter \<open>sha\<close>.
\<close>

section \<open>Tables\<close>

record user_row =
  us_user_id :: string
  us_username :: string
  us_password_hash :: string
  us_role :: string
  us_enabled :: bool
  us_created_at :: time
  us_updated_at :: time
  us_last_login_at :: "time option"

record session_row =
  se_session_id :: string
  se_user_id :: string
  se_session_token_hash :: string
  se_expires_at :: time
  se_created_at :: time
  se_revoked_at :: "time option"
  se_user_agent_hash :: "string option"
  se_ip_hash :: "string option"

record account_event_row =
  av_event_id :: string
  av_operation :: string
  av_actor_user_id :: "string option"
  av_actor_username :: "string option"
  av_actor_role :: "string option"
  av_target_user_id :: "string option"
  av_target_username :: "string option"
  av_target_session_id :: "string option"
  av_details :: pydict
  av_created_at :: time

record account_db =
  ad_users :: "user_row list"
  ad_sessions :: "session_row list"
  ad_events :: "account_event_row list"

definition empty_accounts :: account_db where
  "empty_accounts = \<lparr>ad_users = [], ad_sessions = [], ad_events = []\<rparr>"

record account_env =
  an_kdf :: kdf
  an_iterations :: "string option"
  an_now :: time
  an_hex :: string
  an_salt :: string
  an_token :: string

definition insert_user :: "account_db \<Rightarrow> user_row \<Rightarrow> account_db result" where
  "insert_user d r =
     (if list_ex (\<lambda>q. us_user_id q = us_user_id r \<or> us_username q = us_username r) (ad_users d)
      then Inl IntegrityError else Inr (d\<lparr>ad_users := ad_users d @ [r]\<rparr>))"

definition insert_session :: "account_db \<Rightarrow> session_row \<Rightarrow> account_db result" where
  "insert_session d r =
     (if list_ex (\<lambda>q. se_session_id q = se_session_id r \<or> se_session_token_hash q = se_session_token_hash r)
           (ad_sessions d) \<or> row_of us_user_id (se_user_id r) (ad_users d) = None
      then Inl IntegrityError else Inr (d\<lparr>ad_sessions := ad_sessions d @ [r]\<rparr>))"

definition insert_account_event :: "account_db \<Rightarrow> account_event_row \<Rightarrow> account_db result" where
  "insert_account_event d r =
     (if list_ex (\<lambda>q. av_event_id q = av_event_id r) (ad_events d)
      then Inl IntegrityError else Inr (d\<lparr>ad_events := ad_events d @ [r]\<rparr>))"

definition put_user :: "user_row \<Rightarrow> account_db \<Rightarrow> account_db" where
  "put_user r d = d\<lparr>ad_users := set_row us_user_id r (ad_users d)\<rparr>"

definition put_session :: "session_row \<Rightarrow> account_db \<Rightarrow> account_db" where
  "put_session r d = d\<lparr>ad_sessions := set_row se_session_id r (ad_sessions d)\<rparr>"

section \<open>Roles\<close>

record auth_user =
  at_user_id :: string
  at_username :: string
  at_role :: string

definition ROLE_ORDER :: "(string \<times> nat) list" where
  "ROLE_ORDER = [(''viewer'', 10), (''operator'', 20), (''admin'', 30)]"

definition normalize_role :: "string \<Rightarrow> string result" where
  "normalize_role role =
     (let normalized = py_lower (py_strip role)
      in if map_of ROLE_ORDER normalized = None then Inl InvalidRoleError else Inr normalized)"

definition role_rank :: "string \<Rightarrow> nat" where
  "role_rank role = (case map_of ROLE_ORDER role of Some n \<Rightarrow> n | None \<Rightarrow> 0)"

definition role_at_least :: "string \<Rightarrow> string \<Rightarrow> bool result" where
  "role_at_least actual required =
     ebind (normalize_role actual) (\<lambda>actual_role.
     ebind (normalize_role required) (\<lambda>required_role.
       Inr (role_rank required_role \<le> role_rank actual_role)))"

definition auth_user_dict :: "auth_user \<Rightarrow> pydict" where
  "auth_user_dict a =
     [(''user_id'', PStr (at_user_id a)), (''username'', PStr (at_username a)), (''role'', PStr (at_role a))]"

section \<open>Users\<close>

definition USERNAME_PATTERN :: rx where
  "USERNAME_PATTERN = (let c = Cls (\<lambda>c. is_alpha c \<or> is_digit c \<or> c \<in> set ''_.@-'') in Cat c (upto_times 79 c))"

definition normalize_username :: "string \<Rightarrow> string result" where
  "normalize_username username =
     (let normalized = py_strip username
      in if \<not> matches_full USERNAME_PATTERN normalized then Inl (PyError ValueError) else Inr normalized)"

definition actor_from_user :: "user_row \<Rightarrow> auth_user result" where
  "actor_from_user row =
     ebind (normalize_role (us_role row)) (\<lambda>role.
       Inr \<lparr>at_user_id = us_user_id row, at_username = us_username row, at_role = role\<rparr>)"

definition validated_password :: "string \<Rightarrow> string result" where
  "validated_password password = (if password = [] then Inl (PyError ValueError) else Inr password)"

definition find_username :: "account_db \<Rightarrow> string \<Rightarrow> user_row option" where
  "find_username d username = row_of us_username username (ad_users d)"

definition find_user :: "account_db \<Rightarrow> string \<Rightarrow> user_row option" where
  "find_user d user_id = row_of us_user_id user_id (ad_users d)"

definition get_user_or_raise :: "account_db \<Rightarrow> string \<Rightarrow> user_row result" where
  "get_user_or_raise d username =
     ebind (normalize_username username) (\<lambda>normalized_username.
       case find_username d normalized_username of
         None \<Rightarrow> Inl UserNotFoundError | Some row \<Rightarrow> Inr row)"

definition enabled_admin_row :: "user_row \<Rightarrow> bool" where
  "enabled_admin_row row \<longleftrightarrow> us_role row = ''admin'' \<and> us_enabled row"

definition enabled_admin_count :: "account_db \<Rightarrow> nat" where
  "enabled_admin_count d = length (filter enabled_admin_row (ad_users d))"

definition is_enabled_admin :: "user_row \<Rightarrow> bool result" where
  "is_enabled_admin row =
     (if us_enabled row then ebind (normalize_role (us_role row)) (\<lambda>role. Inr (role = ''admin'')) else Inr False)"

definition ensure_not_last_enabled_admin :: "account_db \<Rightarrow> user_row \<Rightarrow> unit result" where
  "ensure_not_last_enabled_admin d row =
     ebind (is_enabled_admin row) (\<lambda>admin.
       if \<not> admin then Inr ()
       else raise_if (enabled_admin_count d \<le> 1) LastEnabledAdminError)"

definition active_session :: "time \<Rightarrow> string \<Rightarrow> session_row \<Rightarrow> bool" where
  "active_session now user_id s \<longleftrightarrow>
     se_user_id s = user_id \<and> se_revoked_at s = None \<and> se_expires_at s > now"

definition revoke_where :: "(session_row \<Rightarrow> bool) \<Rightarrow> time \<Rightarrow> account_db \<Rightarrow> account_db \<times> nat" where
  "revoke_where p revoked_at d =
     (d\<lparr>ad_sessions := map (\<lambda>s. if p s then s\<lparr>se_revoked_at := Some revoked_at\<rparr> else s) (ad_sessions d)\<rparr>,
      length (filter p (ad_sessions d)))"

definition revoke_active_sessions :: "account_db \<Rightarrow> string \<Rightarrow> time \<Rightarrow> account_db \<times> nat" where
  "revoke_active_sessions d user_id revoked_at = revoke_where (active_session revoked_at user_id) revoked_at d"

definition revoke_other_active_sessions :: "account_db \<Rightarrow> string \<Rightarrow> time \<Rightarrow> string option \<Rightarrow> account_db \<times> nat" where
  "revoke_other_active_sessions d user_id revoked_at current_session_id =
     revoke_where (\<lambda>s. active_session revoked_at user_id s \<and>
       (case current_session_id of None \<Rightarrow> True | Some c \<Rightarrow> c = [] \<or> se_session_id s \<noteq> c)) revoked_at d"

record user_operation_result =
  uo_user :: auth_user
  uo_revoked_sessions :: nat
  uo_current_session_preserved :: bool

definition new_user_row :: "account_env \<Rightarrow> string \<Rightarrow> string \<Rightarrow> string \<Rightarrow> bool \<Rightarrow> user_row" where
  "new_user_row ev username password_hash role enabled =
     \<lparr>us_user_id = ''user_'' @ an_hex ev, us_username = username, us_password_hash = password_hash,
      us_role = role, us_enabled = enabled, us_created_at = an_now ev, us_updated_at = an_now ev,
      us_last_login_at = None\<rparr>"

definition hashed :: "account_env \<Rightarrow> string \<Rightarrow> string result" where
  "hashed ev password = ebind (validated_password password) (hash_password (an_kdf ev) (an_iterations ev) (an_salt ev))"

definition create_user :: "account_env \<Rightarrow> account_db \<Rightarrow> string \<Rightarrow> string \<Rightarrow> string \<Rightarrow> bool
    \<Rightarrow> (account_db \<times> auth_user) result" where
  "create_user ev d username password role enabled =
     ebind (normalize_username username) (\<lambda>normalized_username.
     ebind (normalize_role role) (\<lambda>normalized_role.
     ebind (hashed ev password) (\<lambda>password_hash.
       case find_username d normalized_username of
         Some _ \<Rightarrow> Inl DuplicateUserError
       | None \<Rightarrow>
           let row = new_user_row ev normalized_username password_hash normalized_role enabled
           in ebind (insert_user d row) (\<lambda>d'. ebind (actor_from_user row) (\<lambda>actor. Inr (d', actor))))))"

definition create_admin :: "account_env \<Rightarrow> account_db \<Rightarrow> string \<Rightarrow> string \<Rightarrow> (account_db \<times> auth_user) result" where
  "create_admin ev d username password = create_user ev d username password ''admin'' True"

definition create_first_installation_admin :: "account_env \<Rightarrow> account_db \<Rightarrow> string \<Rightarrow> string
    \<Rightarrow> (account_db \<times> auth_user) result" where
  "create_first_installation_admin ev d username password =
     ebind (raise_if (length (ad_users d) \<noteq> 0) (PyError ValueError)) (\<lambda>_.
     ebind (normalize_username username) (\<lambda>normalized.
     ebind (hashed ev password) (\<lambda>password_hash.
       let row = new_user_row ev normalized password_hash ''admin'' True
       in ebind (insert_user d row) (\<lambda>d1.
          ebind (insert_account_event d1
            \<lparr>av_event_id = ''acctevt-'' @ an_hex ev, av_operation = ''installation.create_first_admin'',
             av_actor_user_id = Some (us_user_id row), av_actor_username = Some (us_username row),
             av_actor_role = Some ''admin'', av_target_user_id = Some (us_user_id row),
             av_target_username = Some (us_username row), av_target_session_id = None,
             av_details = [(''source'', PStr ''installation_host''), (''zero_user_verified'', PBool True)],
             av_created_at = an_now ev\<rparr>) (\<lambda>d2.
          ebind (actor_from_user row) (\<lambda>actor. Inr (d2, actor)))))))"

text \<open>The two environment variables of the bootstrap administrator.\<close>

definition bootstrap_admin_credentials_from_env :: "string option \<Rightarrow> string option
    \<Rightarrow> (string \<times> string) option result" where
  "bootstrap_admin_credentials_from_env username password =
     (let username_configured = (case username of None \<Rightarrow> False | Some u \<Rightarrow> py_strip u \<noteq> []);
          password_configured = (case password of None \<Rightarrow> False | Some p \<Rightarrow> p \<noteq> [])
      in if \<not> username_configured \<and> \<not> password_configured then Inr None
         else if \<not> username_configured \<or> \<not> password_configured then Inl (PyError ValueError)
         else ebind (normalize_username (the username)) (\<lambda>u.
              ebind (validated_password (the password)) (\<lambda>p. Inr (Some (u, p)))))"

datatype bootstrap_status = NotConfigured | AlreadyExists string | Created string

definition bootstrap_admin_from_env :: "account_env \<Rightarrow> account_db \<Rightarrow> string option \<Rightarrow> string option
    \<Rightarrow> (account_db \<times> bootstrap_status) result" where
  "bootstrap_admin_from_env ev d username password =
     ebind (bootstrap_admin_credentials_from_env username password) (\<lambda>credentials. case credentials of
       None \<Rightarrow> Inr (d, NotConfigured)
     | Some (username, password) \<Rightarrow>
         (case find_username d username of
            Some existing \<Rightarrow> ebind (is_enabled_admin existing) (\<lambda>admin.
              if admin then Inr (d, AlreadyExists username) else Inl (PyError ValueError))
          | None \<Rightarrow>
              ebind (hash_password (an_kdf ev) (an_iterations ev) (an_salt ev) password) (\<lambda>password_hash.
              ebind (insert_user d (new_user_row ev username password_hash ''admin'' True)) (\<lambda>d'.
                Inr (d', Created username)))))"

definition list_users :: "account_db \<Rightarrow> user_row list" where
  "list_users d = sort_key us_username (ad_users d)"

definition set_user_role :: "account_env \<Rightarrow> account_db \<Rightarrow> string \<Rightarrow> string \<Rightarrow> (account_db \<times> auth_user) result" where
  "set_user_role ev d username role =
     ebind (normalize_role role) (\<lambda>normalized_role.
     ebind (get_user_or_raise d username) (\<lambda>row.
     ebind (if normalized_role \<noteq> ''admin'' then ensure_not_last_enabled_admin d row else Inr ()) (\<lambda>_.
       let row' = row\<lparr>us_role := normalized_role, us_updated_at := an_now ev\<rparr>
       in ebind (actor_from_user row') (\<lambda>actor. Inr (put_user row' d, actor)))))"

definition disable_user :: "account_env \<Rightarrow> account_db \<Rightarrow> string \<Rightarrow> (account_db \<times> user_operation_result) result" where
  "disable_user ev d username =
     ebind (get_user_or_raise d username) (\<lambda>row.
     ebind (ensure_not_last_enabled_admin d row) (\<lambda>_.
       let row' = row\<lparr>us_enabled := False, us_updated_at := an_now ev\<rparr>;
           (d', revoked) = revoke_active_sessions (put_user row' d) (us_user_id row) (an_now ev)
       in ebind (actor_from_user row') (\<lambda>actor.
            Inr (d', \<lparr>uo_user = actor, uo_revoked_sessions = revoked, uo_current_session_preserved = False\<rparr>))))"

definition reset_password :: "account_env \<Rightarrow> account_db \<Rightarrow> string \<Rightarrow> string
    \<Rightarrow> (account_db \<times> user_operation_result) result" where
  "reset_password ev d username password =
     ebind (hashed ev password) (\<lambda>password_hash.
     ebind (get_user_or_raise d username) (\<lambda>row.
       let row' = row\<lparr>us_password_hash := password_hash, us_updated_at := an_now ev\<rparr>;
           (d', revoked) = revoke_active_sessions (put_user row' d) (us_user_id row) (an_now ev)
       in ebind (actor_from_user row') (\<lambda>actor.
            Inr (d', \<lparr>uo_user = actor, uo_revoked_sessions = revoked, uo_current_session_preserved = False\<rparr>))))"

definition change_own_password :: "account_env \<Rightarrow> account_db \<Rightarrow> auth_user \<Rightarrow> string \<Rightarrow> string \<Rightarrow> string option
    \<Rightarrow> (account_db \<times> user_operation_result) result" where
  "change_own_password ev d actor current_password new_password current_session_id =
     ebind (validated_password new_password) (\<lambda>validated_new_password.
       case find_user d (at_user_id actor) of
         None \<Rightarrow> Inl UserNotFoundError
       | Some row \<Rightarrow>
           if \<not> us_enabled row then Inl UserNotFoundError
           else ebind (verify_password (an_kdf ev) current_password (us_password_hash row)) (\<lambda>valid.
             if \<not> valid then Inl CurrentPasswordInvalidError
             else ebind (hash_password (an_kdf ev) (an_iterations ev) (an_salt ev) validated_new_password)
               (\<lambda>password_hash.
                 let row' = row\<lparr>us_password_hash := password_hash, us_updated_at := an_now ev\<rparr>;
                     (d', revoked) = revoke_other_active_sessions (put_user row' d) (us_user_id row) (an_now ev)
                                       current_session_id
                 in ebind (actor_from_user row') (\<lambda>user.
                      Inr (d', \<lparr>uo_user = user, uo_revoked_sessions = revoked,
                                uo_current_session_preserved = (current_session_id \<notin> {None, Some []})\<rparr>)))))"

definition authenticate_user :: "account_env \<Rightarrow> account_db \<Rightarrow> string \<Rightarrow> string
    \<Rightarrow> (account_db \<times> auth_user option) result" where
  "authenticate_user ev d username password =
     (case normalize_username username of
        Inl _ \<Rightarrow> Inr (d, None)
      | Inr normalized_username \<Rightarrow>
          (case find_username d normalized_username of
             None \<Rightarrow> Inr (d, None)
           | Some row \<Rightarrow>
               if \<not> us_enabled row then Inr (d, None)
               else ebind (verify_password (an_kdf ev) password (us_password_hash row)) (\<lambda>valid.
                 if \<not> valid then Inr (d, None)
                 else let row' = row\<lparr>us_last_login_at := Some (an_now ev), us_updated_at := an_now ev\<rparr>
                      in ebind (actor_from_user row') (\<lambda>actor. Inr (put_user row' d, Some actor)))))"

section \<open>Sessions\<close>

definition DEFAULT_SESSION_TTL_SECONDS :: int where "DEFAULT_SESSION_TTL_SECONDS = 28800"

definition session_ttl_seconds :: "string option \<Rightarrow> int" where
  "session_ttl_seconds env =
     (let raw = py_strip (case env of None \<Rightarrow> [] | Some v \<Rightarrow> v)
      in if raw = [] then DEFAULT_SESSION_TTL_SECONDS
         else case int_of_text raw of Inr n \<Rightarrow> max 60 n | Inl _ \<Rightarrow> DEFAULT_SESSION_TTL_SECONDS)"

definition token_hash :: "(string \<Rightarrow> string) \<Rightarrow> string \<Rightarrow> string" where
  "token_hash sha token = sha (utf8 token)"

definition optional_hash :: "(string \<Rightarrow> string) \<Rightarrow> string option \<Rightarrow> string option" where
  "optional_hash sha value =
     (let normalized = py_strip (case value of None \<Rightarrow> [] | Some v \<Rightarrow> v)
      in if normalized = [] then None else Some (sha (utf8 normalized)))"

definition session_status :: "session_row \<Rightarrow> time \<Rightarrow> string" where
  "session_status row checked_at =
     (if se_revoked_at row \<noteq> None then ''revoked''
      else if se_expires_at row \<le> checked_at then ''expired'' else ''active'')"

record issued_session =
  is_token :: string
  is_expires_at :: time
  is_actor :: auth_user

text \<open>\<open>datetime\<close> ends with the year 9999.\<close>

definition MAX_TIME :: time where "MAX_TIME = 253402300799999999"

definition create_session :: "(string \<Rightarrow> string) \<Rightarrow> account_env \<Rightarrow> string option \<Rightarrow> account_db \<Rightarrow> auth_user
    \<Rightarrow> string option \<Rightarrow> string option \<Rightarrow> (account_db \<times> issued_session) result" where
  "create_session sha ev ttl d actor user_agent ip =
     (let expires_at = an_now ev + session_ttl_seconds ttl * 1000000
      in if expires_at > MAX_TIME then Inl (PyError OverflowError)
         else ebind (insert_session d
                \<lparr>se_session_id = ''sess_'' @ an_hex ev, se_user_id = at_user_id actor,
                 se_session_token_hash = token_hash sha (an_token ev), se_expires_at = expires_at,
                 se_created_at = an_now ev, se_revoked_at = None,
                 se_user_agent_hash = optional_hash sha user_agent, se_ip_hash = optional_hash sha ip\<rparr>) (\<lambda>d'.
              Inr (d', \<lparr>is_token = an_token ev, is_expires_at = expires_at, is_actor = actor\<rparr>)))"

definition find_token :: "(string \<Rightarrow> string) \<Rightarrow> account_db \<Rightarrow> string \<Rightarrow> session_row option" where
  "find_token sha d raw_token = row_of se_session_token_hash (token_hash sha raw_token) (ad_sessions d)"

definition actor_for_session_token :: "(string \<Rightarrow> string) \<Rightarrow> account_db \<Rightarrow> time \<Rightarrow> string option
    \<Rightarrow> (account_db \<times> auth_user option) result" where
  "actor_for_session_token sha d now token =
     (let raw_token = py_strip (case token of None \<Rightarrow> [] | Some t \<Rightarrow> t)
      in if raw_token = [] then Inr (d, None)
         else case find_token sha d raw_token of
           None \<Rightarrow> Inr (d, None)
         | Some row \<Rightarrow>
             if se_revoked_at row \<noteq> None then Inr (d, None)
             else if se_expires_at row \<le> now then Inr (d, None)
             else (case find_user d (se_user_id row) of
                 None \<Rightarrow> Inr (put_session (row\<lparr>se_revoked_at := Some now\<rparr>) d, None)
               | Some user \<Rightarrow>
                   if \<not> us_enabled user then Inr (put_session (row\<lparr>se_revoked_at := Some now\<rparr>) d, None)
                   else ebind (actor_from_user user) (\<lambda>actor. Inr (d, Some actor))))"

definition revoke_session_token :: "(string \<Rightarrow> string) \<Rightarrow> account_db \<Rightarrow> time \<Rightarrow> string option
    \<Rightarrow> (account_db \<times> bool) result" where
  "revoke_session_token sha d now token =
     (let raw_token = py_strip (case token of None \<Rightarrow> [] | Some t \<Rightarrow> t)
      in if raw_token = [] then Inr (d, False)
         else case find_token sha d raw_token of
           None \<Rightarrow> Inr (d, False)
         | Some row \<Rightarrow>
             if se_revoked_at row \<noteq> None then Inr (d, False)
             else Inr (put_session (row\<lparr>se_revoked_at := Some now\<rparr>) d, True))"

definition session_id_for_token :: "(string \<Rightarrow> string) \<Rightarrow> account_db \<Rightarrow> string option \<Rightarrow> string option" where
  "session_id_for_token sha d token =
     (let raw_token = py_strip (case token of None \<Rightarrow> [] | Some t \<Rightarrow> t)
      in if raw_token = [] then None
         else case find_token sha d raw_token of
           None \<Rightarrow> None
         | Some row \<Rightarrow> if se_session_id row = [] then None else Some (se_session_id row))"

record session_summary =
  sm_session_id :: string
  sm_user_id :: string
  sm_username :: string
  sm_role :: string
  sm_enabled :: bool
  sm_created_at :: time
  sm_expires_at :: time
  sm_revoked_at :: "time option"
  sm_status :: string
  sm_is_current_session :: bool

definition summary_from_rows :: "session_row \<Rightarrow> user_row \<Rightarrow> string option \<Rightarrow> time \<Rightarrow> session_summary result" where
  "summary_from_rows s u current_session_id now =
     ebind (actor_from_user u) (\<lambda>actor.
       Inr \<lparr>sm_session_id = se_session_id s, sm_user_id = us_user_id u, sm_username = us_username u,
            sm_role = at_role actor, sm_enabled = us_enabled u, sm_created_at = se_created_at s,
            sm_expires_at = se_expires_at s, sm_revoked_at = se_revoked_at s,
            sm_status = session_status s now,
            sm_is_current_session = (case current_session_id of None \<Rightarrow> False
               | Some c \<Rightarrow> c \<noteq> [] \<and> se_session_id s = c)\<rparr>)"

definition joined_session :: "account_db \<Rightarrow> string \<Rightarrow> (session_row \<times> user_row) option" where
  "joined_session d session_id =
     (case row_of se_session_id session_id (ad_sessions d) of
        None \<Rightarrow> None
      | Some s \<Rightarrow> (case find_user d (se_user_id s) of None \<Rightarrow> None | Some u \<Rightarrow> Some (s, u)))"

definition get_session_summary :: "account_db \<Rightarrow> time \<Rightarrow> string \<Rightarrow> string option \<Rightarrow> session_summary result" where
  "get_session_summary d now session_id current_session_id =
     (let normalized_session_id = py_strip session_id
      in if normalized_session_id = [] then Inl SessionNotFoundError
         else case joined_session d normalized_session_id of
           None \<Rightarrow> Inl SessionNotFoundError
         | Some (s, u) \<Rightarrow> summary_from_rows s u current_session_id now)"

fun all_ok :: "'a result list \<Rightarrow> 'a list result" where
  "all_ok [] = Inr []"
| "all_ok (m # ms) = ebind m (\<lambda>x. ebind (all_ok ms) (\<lambda>xs. Inr (x # xs)))"

definition list_session_inventory :: "account_db \<Rightarrow> time \<Rightarrow> string option \<Rightarrow> session_summary list result" where
  "list_session_inventory d now current_session_id =
     all_ok (map (\<lambda>(s, u). summary_from_rows s u current_session_id now)
       (sort_key (\<lambda>(s, u). (- se_created_at s, se_session_id s))
         (concat (map (\<lambda>s. case find_user d (se_user_id s) of None \<Rightarrow> [] | Some u \<Rightarrow> [(s, u)]) (ad_sessions d)))))"

record revocation_result =
  rr_session :: session_summary
  rr_revoked :: bool
  rr_idempotent :: bool
  rr_previous_status :: string
  rr_current_session_revoked :: bool

definition revoke_session_by_id :: "account_db \<Rightarrow> time \<Rightarrow> string \<Rightarrow> string option
    \<Rightarrow> (account_db \<times> revocation_result) result" where
  "revoke_session_by_id d now session_id current_session_id =
     (let normalized_session_id = py_strip session_id
      in if normalized_session_id = [] then Inl SessionNotFoundError
         else case joined_session d normalized_session_id of
           None \<Rightarrow> Inl SessionNotFoundError
         | Some (s, u) \<Rightarrow>
             let previous_status = session_status s now;
                 revoked = (previous_status = ''active'');
                 s' = (if revoked then s\<lparr>se_revoked_at := Some now\<rparr> else s)
             in ebind (summary_from_rows s' u current_session_id now) (\<lambda>summary.
                  Inr (if revoked then put_session s' d else d,
                       \<lparr>rr_session = summary, rr_revoked = revoked, rr_idempotent = (\<not> revoked),
                        rr_previous_status = previous_status,
                        rr_current_session_revoked = (revoked \<and> (case current_session_id of None \<Rightarrow> False
                           | Some c \<Rightarrow> c \<noteq> [] \<and> normalized_session_id = c))\<rparr>)))"

section \<open>Audit events\<close>

definition OMIT_KEY_NAMES :: "string list" where
  "OMIT_KEY_NAMES = [''ip'', ''ip_hash'', ''remote_ip'', ''client_ip'', ''user_agent'', ''user_agent_hash'']"

definition OMIT_KEY_FRAGMENTS :: "string list" where
  "OMIT_KEY_FRAGMENTS = [''password'', ''token'', ''hash'', ''secret'']"

definition unsafe_key :: "string \<Rightarrow> bool" where
  "unsafe_key key =
     (let normalized = py_lower (py_strip key)
      in normalized \<in> set OMIT_KEY_NAMES \<or> list_ex (\<lambda>f. contains_text f normalized) OMIT_KEY_FRAGMENTS)"

fun sanitize_audit_details :: "pyval \<Rightarrow> pyval" where
  "sanitize_audit_details (PDict d) =
     PDict (map (\<lambda>(k, v). (k, sanitize_audit_details v)) (filter (\<lambda>(k, v). \<not> unsafe_key k) d))"
| "sanitize_audit_details (PList xs) = PList (map sanitize_audit_details xs)"
| "sanitize_audit_details v = v"

definition safe_text :: "string option \<Rightarrow> string option" where
  "safe_text value = (let t = py_strip (case value of None \<Rightarrow> [] | Some v \<Rightarrow> v) in if t = [] then None else Some t)"

record account_audit_event =
  ax_event_id :: string
  ax_operation :: string
  ax_actor :: pydict
  ax_target :: pydict
  ax_details :: pydict
  ax_created_at :: time

definition record_account_audit_event :: "account_env \<Rightarrow> account_db \<Rightarrow> auth_user \<Rightarrow> string \<Rightarrow> string option
    \<Rightarrow> string option \<Rightarrow> string option \<Rightarrow> pydict \<Rightarrow> (account_db \<times> account_audit_event) result" where
  "record_account_audit_event ev d actor operation target_user_id target_username target_session_id details =
     (let details' = (case sanitize_audit_details (PDict details) of PDict e \<Rightarrow> e | _ \<Rightarrow> []);
          event_id = ''acctevt-'' @ an_hex ev
      in ebind (insert_account_event d
           \<lparr>av_event_id = event_id, av_operation = py_strip operation,
            av_actor_user_id = Some (at_user_id actor), av_actor_username = Some (at_username actor),
            av_actor_role = Some (at_role actor), av_target_user_id = safe_text target_user_id,
            av_target_username = safe_text target_username, av_target_session_id = safe_text target_session_id,
            av_details = details', av_created_at = an_now ev\<rparr>) (\<lambda>d'.
         Inr (d', \<lparr>ax_event_id = event_id, ax_operation = py_strip operation, ax_actor = auth_user_dict actor,
                   ax_target = concat (map (\<lambda>(k, v). case safe_text v of None \<Rightarrow> [] | Some t \<Rightarrow> [(k, PStr t)])
                     [(''user_id'', target_user_id), (''username'', target_username),
                      (''session_id'', target_session_id)]),
                   ax_details = details', ax_created_at = an_now ev\<rparr>)))"

end
