(* ===== verification/AccountInvariants.thy ===== *)
theory AccountInvariants
  imports Accounts
begin

text \<open>
  The account store as a transactional store: a command per operation, the invariant of the
  tables, the order in which every transaction moves (a revoked session stays revoked, a
  disabled user stays disabled, the events only grow, an enabled administrator remains), and
  the interpretation of the store interface.
\<close>

section \<open>Commands\<close>

datatype account_command =
    CreateUser account_env string string string bool
  | FirstAdmin account_env string string
  | BootstrapAdmin account_env "string option" "string option"
  | SetRole account_env string string
  | DisableUser account_env string
  | ResetPassword account_env string string
  | ChangePassword account_env auth_user string string "string option"
  | Authenticate account_env string string
  | CreateSession account_env "string option" auth_user "string option" "string option"
  | ActorForToken time "string option"
  | RevokeToken time "string option"
  | RevokeSession time string "string option"
  | RecordEvent account_env auth_user string "string option" "string option" "string option" pydict

definition forget :: "(account_db \<times> 'r) result \<Rightarrow> (account_db \<times> unit) result" where
  "forget m = ebind m (\<lambda>(d, _). Inr (d, ()))"

fun account_exec :: "(string \<Rightarrow> string) \<Rightarrow> account_command \<Rightarrow> account_db \<Rightarrow> (account_db \<times> unit) result" where
  "account_exec sha (CreateUser ev u p r e) d = forget (create_user ev d u p r e)"
| "account_exec sha (FirstAdmin ev u p) d = forget (create_first_installation_admin ev d u p)"
| "account_exec sha (BootstrapAdmin ev u p) d = forget (bootstrap_admin_from_env ev d u p)"
| "account_exec sha (SetRole ev u r) d = forget (set_user_role ev d u r)"
| "account_exec sha (DisableUser ev u) d = forget (disable_user ev d u)"
| "account_exec sha (ResetPassword ev u p) d = forget (reset_password ev d u p)"
| "account_exec sha (ChangePassword ev a c n s) d = forget (change_own_password ev d a c n s)"
| "account_exec sha (Authenticate ev u p) d = forget (authenticate_user ev d u p)"
| "account_exec sha (CreateSession ev ttl a ua ip) d = forget (create_session sha ev ttl d a ua ip)"
| "account_exec sha (ActorForToken now t) d = forget (actor_for_session_token sha d now t)"
| "account_exec sha (RevokeToken now t) d = forget (revoke_session_token sha d now t)"
| "account_exec sha (RevokeSession now i c) d = forget (revoke_session_by_id d now i c)"
| "account_exec sha (RecordEvent ev a op t1 t2 t3 ds) d = forget (record_account_audit_event ev d a op t1 t2 t3 ds)"

lemma forget_Inr [simp]: "forget m = Inr (d, u) \<longleftrightarrow> (\<exists>r. m = Inr (d, r))"
  by (cases m) (auto simp: forget_def)

section \<open>Invariant and order\<close>

definition user_ok :: "user_row \<Rightarrow> bool" where
  "user_ok r \<longleftrightarrow> normalize_username (us_username r) = Inr (us_username r) \<and>
     normalize_role (us_role r) = Inr (us_role r)"

definition account_inv :: "account_db \<Rightarrow> bool" where
  "account_inv d \<longleftrightarrow> distinct (map us_user_id (ad_users d)) \<and> distinct (map us_username (ad_users d)) \<and>
     (\<forall>r \<in> set (ad_users d). user_ok r) \<and>
     distinct (map se_session_id (ad_sessions d)) \<and> distinct (map se_session_token_hash (ad_sessions d)) \<and>
     (\<forall>s \<in> set (ad_sessions d). find_user d (se_user_id s) \<noteq> None) \<and>
     distinct (map av_event_id (ad_events d))"

definition user_le :: "user_row \<Rightarrow> user_row \<Rightarrow> bool" where
  "user_le r r' \<longleftrightarrow> us_user_id r' = us_user_id r \<and> us_username r' = us_username r \<and>
     us_created_at r' = us_created_at r \<and> (us_enabled r' \<longrightarrow> us_enabled r)"

definition session_le :: "session_row \<Rightarrow> session_row \<Rightarrow> bool" where
  "session_le s s' \<longleftrightarrow> s' = s\<lparr>se_revoked_at := se_revoked_at s'\<rparr> \<and>
     (se_revoked_at s \<noteq> None \<longrightarrow> se_revoked_at s' = se_revoked_at s)"

definition rows_le :: "('r \<Rightarrow> 'r \<Rightarrow> bool) \<Rightarrow> 'r list \<Rightarrow> 'r list \<Rightarrow> bool" where
  "rows_le le rs rs' \<longleftrightarrow> (\<exists>us vs. rs' = us @ vs \<and> list_all2 le rs us)"

definition has_enabled_admin :: "account_db \<Rightarrow> bool" where
  "has_enabled_admin d \<longleftrightarrow> (\<exists>r \<in> set (ad_users d). enabled_admin_row r)"

definition account_le :: "account_db \<Rightarrow> account_db \<Rightarrow> bool" where
  "account_le d d' \<longleftrightarrow> rows_le user_le (ad_users d) (ad_users d') \<and>
     rows_le session_le (ad_sessions d) (ad_sessions d') \<and> rows_le (=) (ad_events d) (ad_events d') \<and>
     (has_enabled_admin d \<longrightarrow> has_enabled_admin d')"

lemma user_le_refl [simp]: "user_le r r"
  by (simp add: user_le_def)

lemma user_le_trans: "user_le r r' \<Longrightarrow> user_le r' r'' \<Longrightarrow> user_le r r''"
  by (auto simp: user_le_def)

lemma session_le_refl [simp]: "session_le s s"
  by (simp add: session_le_def)

lemma session_le_trans: "session_le s s' \<Longrightarrow> session_le s' s'' \<Longrightarrow> session_le s s''"
proof (cases s, cases s', cases s'')
qed (auto simp: session_le_def)

lemma session_leD:
  "session_le s s' \<Longrightarrow> se_session_id s' = se_session_id s \<and> se_user_id s' = se_user_id s \<and>
     se_session_token_hash s' = se_session_token_hash s"
  by (cases s; cases s') (simp add: session_le_def)

lemma rows_le_same: "(\<And>r. r \<in> set rs \<Longrightarrow> le r r) \<Longrightarrow> rows_le le rs rs"
  unfolding rows_le_def by (intro exI [of _ rs] exI [of _ "[]"]) (simp add: list.rel_refl_strong)

lemma rows_le_append: "(\<And>r. le r r) \<Longrightarrow> rows_le le rs (rs @ vs)"
  unfolding rows_le_def by (intro exI [of _ rs] exI [of _ vs]) (simp add: list.rel_refl_strong)

lemma rows_le_map: "(\<And>r. r \<in> set rs \<Longrightarrow> le r (f r)) \<Longrightarrow> rows_le le rs (map f rs)"
  unfolding rows_le_def by (intro exI [of _ "map f rs"] exI [of _ "[]"]) (simp add: list_all2_map2 list.rel_refl_strong)

lemma rows_le_trans:
  assumes tr: "\<And>x y z. le x y \<Longrightarrow> le y z \<Longrightarrow> le x z" and "rows_le le rs rs'" "rows_le le rs' rs''"
  shows "rows_le le rs rs''"
proof -
  from assms(2) obtain us vs where us: "rs' = us @ vs" "list_all2 le rs us" unfolding rows_le_def by blast
  from assms(3) obtain us' vs' where us': "rs'' = us' @ vs'" "list_all2 le rs' us'" unfolding rows_le_def by blast
  from us'(2) obtain ws ws' where ws: "us' = ws @ ws'" "list_all2 le us ws"
    unfolding us(1) list_all2_append1 by blast
  have "list_all2 le rs ws" by (rule list_all2_trans [OF tr us(2) ws(2)])
  with us'(1) ws(1) show ?thesis unfolding rows_le_def by (intro exI [of _ ws] exI [of _ "ws' @ vs'"]) simp
qed

lemma rows_le_mem:
  assumes "rows_le le rs rs'" "r \<in> set rs"
  shows "\<exists>r' \<in> set rs'. le r r'"
proof -
  from assms(1) obtain us vs where us: "rs' = us @ vs" "list_all2 le rs us" unfolding rows_le_def by blast
  from us(2) assms(2) have "\<exists>r' \<in> set us. le r r'" by (induction rule: list_all2_induct) auto
  then show ?thesis by (auto simp: us(1))
qed

lemma account_le_refl [simp]: "account_le d d"
  by (simp add: account_le_def rows_le_same)

lemma account_le_trans:
  assumes "account_le d d'" "account_le d' d''"
  shows "account_le d d''"
proof -
  have "rows_le user_le (ad_users d) (ad_users d'')"
    using assms rows_le_trans [of user_le "ad_users d" "ad_users d'"] user_le_trans by (simp add: account_le_def)
  moreover have "rows_le session_le (ad_sessions d) (ad_sessions d'')"
    using assms rows_le_trans [of session_le "ad_sessions d" "ad_sessions d'"] session_le_trans
    by (simp add: account_le_def)
  moreover have "rows_le (=) (ad_events d) (ad_events d'')"
    using assms rows_le_trans [of "(=)" "ad_events d" "ad_events d'"] by (simp add: account_le_def)
  ultimately show ?thesis using assms by (simp add: account_le_def)
qed

subsection \<open>Steps\<close>

text \<open>What every operation is made of: a new user, a changed user, a new session, revoked sessions, an event.\<close>

lemma normalize_role_idem: "normalize_role r = Inr r' \<Longrightarrow> normalize_role r' = Inr r'"
proof -
  have "normalize_role ''viewer'' = Inr ''viewer''" "normalize_role ''operator'' = Inr ''operator''"
    "normalize_role ''admin'' = Inr ''admin''" by code_simp+
  then show "normalize_role r = Inr r' \<Longrightarrow> normalize_role r' = Inr r'"
    by (auto simp: normalize_role_def [of r] ROLE_ORDER_def Let_def split: if_splits)
qed

lemma username_pattern_chars:
  "matches_full USERNAME_PATTERN s \<longleftrightarrow> s \<noteq> [] \<and> length s \<le> 80 \<and>
     (\<forall>c \<in> set s. is_alpha c \<or> is_digit c \<or> c \<in> set ''_.@-'')"
  unfolding matches_full_iff_lang USERNAME_PATTERN_def Let_def cls_cat_iff upto_cls_iff
  by (cases s) auto

lemma username_char_not_space: "is_alpha c \<or> is_digit c \<or> c \<in> set ''_.@-'' \<Longrightarrow> \<not> py_space c"
  by (auto simp: is_alpha_def is_digit_def char_between_def py_space_def Let_def)

lemma normalize_username_idem: "normalize_username u = Inr v \<Longrightarrow> normalize_username v = Inr v"
proof -
  assume "normalize_username u = Inr v"
  then have v: "matches_full USERNAME_PATTERN v" by (auto simp: normalize_username_def Let_def split: if_splits)
  then have "\<forall>c \<in> set v. \<not> py_space c" using username_char_not_space username_pattern_chars by blast
  then have "py_strip v = v" by (simp add: py_strip_def strip_by_none)
  with v show ?thesis by (simp add: normalize_username_def Let_def)
qed

lemma find_user_Some: "find_user d i = Some r \<Longrightarrow> r \<in> set (ad_users d) \<and> us_user_id r = i"
  by (auto simp: find_user_def dest: row_of_Some)

lemma find_user_put [simp]:
  "find_user (put_user r d) i = (if us_user_id r = i then (case find_user d i of None \<Rightarrow> None | Some _ \<Rightarrow> Some r)
     else find_user d i)"
  by (simp add: find_user_def put_user_def row_simps)

lemma insert_user_step:
  assumes "account_inv d" "user_ok r" "insert_user d r = Inr d'"
  shows "account_inv d' \<and> account_le d d'"
proof -
  from assms(3) have d': "d' = d\<lparr>ad_users := ad_users d @ [r]\<rparr>"
    and new: "\<forall>q \<in> set (ad_users d). us_user_id q \<noteq> us_user_id r \<and> us_username q \<noteq> us_username r"
    by (auto simp: insert_user_def list_ex_iff split: if_splits)
  have "find_user d i \<noteq> None \<Longrightarrow> find_user d' i \<noteq> None" for i
    by (auto simp: d' find_user_def row_simps)
  then have "account_inv d'" using assms(1,2) new by (force simp: d' account_inv_def)
  moreover have "account_le d d'"
    by (auto simp: d' account_le_def has_enabled_admin_def rows_le_append rows_le_same)
  ultimately show ?thesis ..
qed

lemma put_user_step:
  assumes "account_inv d" "r \<in> set (ad_users d)" "user_ok r'" "user_le r r'"
    and admin: "has_enabled_admin d \<Longrightarrow> has_enabled_admin (put_user r' d)"
  shows "account_inv (put_user r' d) \<and> account_le d (put_user r' d)"
proof -
  have ids: "us_user_id r' = us_user_id r" "us_username r' = us_username r" using assms(4) by (simp_all add: user_le_def)
  have uniq: "q = r" if "q \<in> set (ad_users d)" "us_user_id q = us_user_id r" for q
    using assms(1,2) that by (auto simp: account_inv_def distinct_map inj_on_def)
  then have names: "map us_username (set_row us_user_id r' (ad_users d)) = map us_username (ad_users d)"
    using ids by (auto simp: set_row_def)
  have oks: "\<forall>q \<in> set (set_row us_user_id r' (ad_users d)). user_ok q"
    using assms(1,3) by (auto simp: account_inv_def dest!: set_row_mem)
  have fk: "find_user d i \<noteq> None \<Longrightarrow> find_user (put_user r' d) i \<noteq> None" for i
    by (auto split: option.splits)
  have "account_inv (put_user r' d)"
    using assms(1) names oks fk unfolding account_inv_def by (simp add: put_user_def)
  moreover have "rows_le user_le (ad_users d) (ad_users (put_user r' d))"
    unfolding put_user_def set_row_def using uniq assms(4) ids
    by (simp, intro rows_le_map) (metis user_le_refl)
  then have "account_le d (put_user r' d)"
    using admin by (auto simp: account_le_def put_user_def rows_le_same)
  ultimately show ?thesis ..
qed

lemma sessions_step:
  assumes "account_inv d" "\<And>s. s \<in> set (ad_sessions d) \<Longrightarrow> session_le s (f s)"
  shows "account_inv (d\<lparr>ad_sessions := map f (ad_sessions d)\<rparr>) \<and> account_le d (d\<lparr>ad_sessions := map f (ad_sessions d)\<rparr>)"
proof -
  have same: "se_session_id (f s) = se_session_id s" "se_session_token_hash (f s) = se_session_token_hash s"
    "se_user_id (f s) = se_user_id s" if "s \<in> set (ad_sessions d)" for s
    using session_leD [OF assms(2) [OF that]] by simp_all
  have maps: "map (\<lambda>s. se_session_id (f s)) (ad_sessions d) = map se_session_id (ad_sessions d)"
    "map (\<lambda>s. se_session_token_hash (f s)) (ad_sessions d) = map se_session_token_hash (ad_sessions d)"
    using same by simp_all
  have "account_inv (d\<lparr>ad_sessions := map f (ad_sessions d)\<rparr>)"
    using assms(1) same by (simp add: account_inv_def comp_def maps find_user_def)
  then show ?thesis
    using assms(2) by (simp add: account_le_def has_enabled_admin_def rows_le_map rows_le_same)
qed

lemma revoke_where_step:
  assumes "account_inv d" "\<And>s. p s \<Longrightarrow> se_revoked_at s = None" "revoke_where p t d = (d', n)"
  shows "account_inv d' \<and> account_le d d'"
proof -
  have "session_le s (if p s then s\<lparr>se_revoked_at := Some t\<rparr> else s)" for s
    using assms(2) by (auto simp: session_le_def)
  with sessions_step [OF assms(1)] assms(3) show ?thesis by (auto simp: revoke_where_def)
qed

lemma put_session_step:
  assumes "account_inv d" "s \<in> set (ad_sessions d)" "se_revoked_at s = None"
  shows "account_inv (put_session (s\<lparr>se_revoked_at := Some t\<rparr>) d) \<and> account_le d (put_session (s\<lparr>se_revoked_at := Some t\<rparr>) d)"
proof -
  have uniq: "q = s" if "q \<in> set (ad_sessions d)" "se_session_id q = se_session_id s" for q
    using assms(1,2) that by (auto simp: account_inv_def distinct_map inj_on_def)
  have "session_le q (if se_session_id q = se_session_id s then s\<lparr>se_revoked_at := Some t\<rparr> else q)"
    if "q \<in> set (ad_sessions d)" for q
    using uniq [OF that] assms(3) by (auto simp: session_le_def)
  with sessions_step [OF assms(1)] show ?thesis by (simp add: put_session_def set_row_def)
qed

lemma insert_session_step:
  assumes "account_inv d" "insert_session d s = Inr d'"
  shows "account_inv d' \<and> account_le d d'"
proof -
  from assms(2) have d': "d' = d\<lparr>ad_sessions := ad_sessions d @ [s]\<rparr>" and "row_of us_user_id (se_user_id s) (ad_users d) \<noteq> None"
    and "\<forall>q \<in> set (ad_sessions d). se_session_id q \<noteq> se_session_id s \<and> se_session_token_hash q \<noteq> se_session_token_hash s"
    by (auto simp: insert_session_def list_ex_iff split: if_splits)
  then have "account_inv d'" using assms(1) by (force simp: account_inv_def find_user_def)
  then show ?thesis
    by (simp add: d' account_le_def has_enabled_admin_def rows_le_append rows_le_same)
qed

lemma insert_event_step:
  assumes "account_inv d" "insert_account_event d r = Inr d'"
  shows "account_inv d' \<and> account_le d d'"
proof -
  from assms(2) have d': "d' = d\<lparr>ad_events := ad_events d @ [r]\<rparr>" and "\<forall>q \<in> set (ad_events d). av_event_id q \<noteq> av_event_id r"
    by (auto simp: insert_account_event_def list_ex_iff split: if_splits)
  then have "account_inv d'" using assms(1) by (force simp: account_inv_def find_user_def)
  then show ?thesis
    by (simp add: d' account_le_def has_enabled_admin_def rows_le_append rows_le_same)
qed

section \<open>Every operation keeps the invariant and moves up\<close>

definition account_step :: "account_db \<Rightarrow> account_db \<Rightarrow> bool" where
  "account_step d d' \<longleftrightarrow> account_inv d' \<and> account_le d d'"

lemma account_step_refl [simp]: "account_inv d \<Longrightarrow> account_step d d"
  by (simp add: account_step_def)

lemma account_step_trans: "account_step d d' \<Longrightarrow> account_step d' d'' \<Longrightarrow> account_step d d''"
  using account_le_trans unfolding account_step_def by blast

lemma account_step_inv: "account_step d d' \<Longrightarrow> account_inv d'"
  by (simp add: account_step_def)

lemma put_keeps_others:
  "q \<in> set (ad_users d) \<Longrightarrow> us_user_id q \<noteq> us_user_id r \<Longrightarrow> q \<in> set (ad_users (put_user r d))"
  by (force simp: put_user_def set_row_def)

lemma put_has_row:
  "r \<in> set (ad_users d) \<Longrightarrow> us_user_id r' = us_user_id r \<Longrightarrow> r' \<in> set (ad_users (put_user r' d))"
  by (force simp: put_user_def set_row_def)

lemma put_enabled_admin:
  assumes "account_inv d" "r \<in> set (ad_users d)" "us_user_id r' = us_user_id r"
    and "enabled_admin_row r \<Longrightarrow> enabled_admin_row r'" "has_enabled_admin d"
  shows "has_enabled_admin (put_user r' d)"
proof -
  from assms(5) obtain q where q: "q \<in> set (ad_users d)" "enabled_admin_row q" by (auto simp: has_enabled_admin_def)
  show ?thesis
  proof (cases "us_user_id q = us_user_id r")
    case True
    then have "q = r" using assms(1,2) q(1) by (auto simp: account_inv_def distinct_map inj_on_def)
    with q assms(2-4) put_has_row show ?thesis unfolding has_enabled_admin_def by blast
  next
    case False
    with q assms(3) put_keeps_others [of q d r'] show ?thesis unfolding has_enabled_admin_def by auto
  qed
qed

lemma is_enabled_admin_iff: "user_ok r \<Longrightarrow> is_enabled_admin r = Inr (enabled_admin_row r)"
  by (auto simp: is_enabled_admin_def user_ok_def enabled_admin_row_def)

lemma two_of_filter:
  assumes "distinct xs" "length (filter p xs) > 1"
  shows "\<exists>y \<in> set xs. p y \<and> y \<noteq> x"
proof -
  obtain a b zs where "filter p xs = a # b # zs"
    using assms(2) by (cases "filter p xs"; cases "tl (filter p xs)") auto
  moreover have "distinct (filter p xs)" using assms(1) by simp
  moreover from calculation have ab: "a \<in> set (filter p xs)" "b \<in> set (filter p xs)" by simp_all
  ultimately have "a \<noteq> b" by auto
  moreover have "a \<in> set xs" "p a" "b \<in> set xs" "p b" using ab by (simp_all only: set_filter mem_Collect_eq)
  ultimately show ?thesis by metis
qed

text \<open>The guard of the last administrator does what it is for.\<close>

lemma other_admin_remains:
  assumes inv: "account_inv d" and r: "r \<in> set (ad_users d)" "us_user_id r' = us_user_id r"
    and ok: "ensure_not_last_enabled_admin d r = Inr u" and has: "has_enabled_admin d"
  shows "has_enabled_admin (put_user r' d)"
proof -
  have "user_ok r" using inv r by (simp add: account_inv_def)
  then have e: "is_enabled_admin r = Inr (enabled_admin_row r)" by (rule is_enabled_admin_iff)
  have "distinct (ad_users d)" using inv by (auto simp: account_inv_def distinct_map)
  moreover have "length (filter enabled_admin_row (ad_users d)) > 1" if "enabled_admin_row r"
    using ok that e by (simp add: ensure_not_last_enabled_admin_def enabled_admin_count_def raise_if_def split: if_splits)
  ultimately obtain q where q: "q \<in> set (ad_users d)" "enabled_admin_row q" "q \<noteq> r"
    using has two_of_filter unfolding has_enabled_admin_def by metis
  then have "us_user_id q \<noteq> us_user_id r" using inv r(1) by (auto simp: account_inv_def distinct_map inj_on_def)
  with q r(2) put_keeps_others [of q d r'] show ?thesis unfolding has_enabled_admin_def by auto
qed

lemma get_user_mem: "get_user_or_raise d u = Inr r \<Longrightarrow> r \<in> set (ad_users d)"
  by (auto simp: get_user_or_raise_def find_username_def split: option.splits dest: row_of_Some)

lemma new_user_ok: "normalize_username u = Inr v \<Longrightarrow> normalize_role r = Inr r' \<Longrightarrow> user_ok (new_user_row ev v h r' e)"
  by (simp add: user_ok_def new_user_row_def normalize_username_idem normalize_role_idem)

lemma admin_role: "normalize_role ''admin'' = Inr ''admin''"
  by code_simp

lemma add_user_step:
  assumes "account_inv d" "normalize_username u = Inr v" "normalize_role r = Inr r'"
    and "insert_user d (new_user_row ev v h r' e) = Inr d'"
  shows "account_step d d'"
  unfolding account_step_def by (rule insert_user_step [OF assms(1) new_user_ok [OF assms(2,3)] assms(4)])

lemma create_user_step:
  assumes "account_inv d" "create_user ev d u p r e = Inr (d', a)"
  shows "account_step d d'"
proof -
  from assms(2) obtain v r' h where "normalize_username u = Inr v" "normalize_role r = Inr r'"
    "insert_user d (new_user_row ev v h r' e) = Inr d'"
    by (auto simp: create_user_def Let_def split: option.splits)
  then show ?thesis by (rule add_user_step [OF assms(1)])
qed

lemma first_admin_step:
  assumes "account_inv d" "create_first_installation_admin ev d u p = Inr (d', a)"
  shows "account_step d d'"
proof -
  from assms(2) obtain v h d1 row where "normalize_username u = Inr v" "insert_user d (new_user_row ev v h ''admin'' True) = Inr d1"
    and d': "insert_account_event d1 row = Inr d'"
    by (auto simp: create_first_installation_admin_def Let_def)
  then have "account_step d d1"
    using insert_user_step [OF assms(1) new_user_ok [OF _ admin_role]] by (simp add: account_step_def)
  moreover from this have "account_step d1 d'"
    using insert_event_step [OF _ d'] by (simp add: account_step_def)
  ultimately show ?thesis by (rule account_step_trans)
qed

lemma bootstrap_credentials_ok:
  "bootstrap_admin_credentials_from_env u p = Inr (Some (x, y)) \<Longrightarrow> normalize_username x = Inr x"
  by (auto simp: bootstrap_admin_credentials_from_env_def Let_def normalize_username_idem split: if_splits)

lemma bootstrap_step:
  assumes "account_inv d" "bootstrap_admin_from_env ev d u p = Inr (d', a)"
  shows "account_step d d'"
proof -
  from assms(2) have "d' = d \<or> (\<exists>x y h. bootstrap_admin_credentials_from_env u p = Inr (Some (x, y)) \<and>
      insert_user d (new_user_row ev x h ''admin'' True) = Inr d')"
    unfolding bootstrap_admin_from_env_def
    by (elim ebind_InrE) (auto split: option.splits if_splits elim!: ebind_InrE)
  then show ?thesis
    using assms(1) add_user_step [OF assms(1) bootstrap_credentials_ok admin_role] by auto
qed

lemma set_user_role_step:
  assumes "account_inv d" "set_user_role ev d u r = Inr (d', a)"
  shows "account_step d d'"
proof -
  from assms(2) obtain r' row where r: "normalize_role r = Inr r'" "get_user_or_raise d u = Inr row"
    and d': "d' = put_user (row\<lparr>us_role := r', us_updated_at := an_now ev\<rparr>) d"
    and guard: "r' \<noteq> ''admin'' \<Longrightarrow> ensure_not_last_enabled_admin d row = Inr ()"
    by (auto simp: set_user_role_def Let_def split: if_splits)
  have row: "row \<in> set (ad_users d)" "user_ok row"
    using get_user_mem [OF r(2)] assms(1) by (auto simp: account_inv_def)
  have "has_enabled_admin d \<Longrightarrow> has_enabled_admin d'"
    unfolding d' using other_admin_remains [OF assms(1) row(1) _ guard] put_enabled_admin [OF assms(1) row(1)]
    by (cases "r' = ''admin''") (auto simp: enabled_admin_row_def)
  then show ?thesis
    unfolding account_step_def d' using row r(1)
    by (intro put_user_step [OF assms(1) row(1)]) (auto simp: user_ok_def user_le_def normalize_role_idem)
qed

lemma revoke_active_step:
  assumes "account_step d d1" "revoke_active_sessions d1 i t = (d2, n)"
  shows "account_step d d2"
proof -
  have "account_step d1 d2"
    unfolding account_step_def
    by (rule revoke_where_step [OF account_step_inv [OF assms(1)] _ assms(2) [unfolded revoke_active_sessions_def]])
      (simp add: active_session_def)
  with assms(1) show ?thesis by (rule account_step_trans)
qed

lemma revoke_other_step:
  assumes "account_step d d1" "revoke_other_active_sessions d1 i t c = (d2, n)"
  shows "account_step d d2"
proof -
  have "account_step d1 d2"
    unfolding account_step_def
    by (rule revoke_where_step [OF account_step_inv [OF assms(1)] _ assms(2) [unfolded revoke_other_active_sessions_def]])
      (simp add: active_session_def)
  with assms(1) show ?thesis by (rule account_step_trans)
qed

lemma disable_user_step:
  assumes "account_inv d" "disable_user ev d u = Inr (d', a)"
  shows "account_step d d'"
proof -
  from assms(2) obtain row n where row: "get_user_or_raise d u = Inr row" "ensure_not_last_enabled_admin d row = Inr ()"
    and rev: "revoke_active_sessions (put_user (row\<lparr>us_enabled := False, us_updated_at := an_now ev\<rparr>) d)
      (us_user_id row) (an_now ev) = (d', n)"
    by (auto simp: disable_user_def Let_def split: prod.splits)
  have mem: "row \<in> set (ad_users d)" "user_ok row"
    using get_user_mem [OF row(1)] assms(1) by (auto simp: account_inv_def)
  have "account_step d (put_user (row\<lparr>us_enabled := False, us_updated_at := an_now ev\<rparr>) d)"
    unfolding account_step_def using mem other_admin_remains [OF assms(1) mem(1) _ row(2)]
    by (intro put_user_step [OF assms(1) mem(1)]) (auto simp: user_ok_def user_le_def)
  from revoke_active_step [OF this rev] show ?thesis .
qed

lemma same_authority_step:
  assumes "account_inv d" "r \<in> set (ad_users d)"
    and "us_user_id r' = us_user_id r" "us_username r' = us_username r" "us_role r' = us_role r"
      "us_enabled r' = us_enabled r" "us_created_at r' = us_created_at r"
  shows "account_step d (put_user r' d)"
proof -
  have "user_ok r" using assms(1,2) by (simp add: account_inv_def)
  then show ?thesis
    unfolding account_step_def using assms put_enabled_admin [OF assms(1,2,3)]
    by (intro put_user_step [OF assms(1,2)]) (auto simp: user_ok_def user_le_def enabled_admin_row_def)
qed

lemma reset_password_step:
  assumes "account_inv d" "reset_password ev d u p = Inr (d', a)"
  shows "account_step d d'"
proof -
  from assms(2) obtain row h n where row: "get_user_or_raise d u = Inr row"
    and rev: "revoke_active_sessions (put_user (row\<lparr>us_password_hash := h, us_updated_at := an_now ev\<rparr>) d)
      (us_user_id row) (an_now ev) = (d', n)"
    by (auto simp: reset_password_def Let_def split: prod.splits)
  from rev show ?thesis
    by (rule revoke_active_step [rotated]) (simp add: same_authority_step [OF assms(1) get_user_mem [OF row]])
qed

lemma change_own_password_step:
  assumes "account_inv d" "change_own_password ev d actor c p s = Inr (d', a)"
  shows "account_step d d'"
proof -
  from assms(2) obtain row h n where row: "find_user d (at_user_id actor) = Some row"
    and rev: "revoke_other_active_sessions (put_user (row\<lparr>us_password_hash := h, us_updated_at := an_now ev\<rparr>) d)
      (us_user_id row) (an_now ev) s = (d', n)"
    by (auto simp: change_own_password_def Let_def split: prod.splits option.splits if_splits)
  have "row \<in> set (ad_users d)" using find_user_Some [OF row] by simp
  from rev show ?thesis
    by (rule revoke_other_step [rotated]) (simp add: same_authority_step [OF assms(1) \<open>row \<in> set (ad_users d)\<close>])
qed

lemma authenticate_cases:
  assumes "authenticate_user ev d u p = Inr (d', a)"
  shows "d' = d \<or> (\<exists>row \<in> set (ad_users d).
      d' = put_user (row\<lparr>us_last_login_at := Some (an_now ev), us_updated_at := an_now ev\<rparr>) d)"
proof (cases "normalize_username u")
  case (Inr v)
  show ?thesis
  proof (cases "find_username d v")
    case (Some row)
    then have "row \<in> set (ad_users d)" by (auto simp: find_username_def dest: row_of_Some)
    then show ?thesis using assms Inr Some by (auto simp: authenticate_user_def Let_def split: if_splits)
  qed (use assms Inr in \<open>simp add: authenticate_user_def\<close>)
qed (use assms in \<open>simp add: authenticate_user_def\<close>)

lemma authenticate_step:
  assumes "account_inv d" "authenticate_user ev d u p = Inr (d', a)"
  shows "account_step d d'"
  using authenticate_cases [OF assms(2)] same_authority_step [OF assms(1)] account_step_refl [OF assms(1)] by auto

lemma create_session_step:
  "account_inv d \<Longrightarrow> create_session sha ev ttl d a ua ip = Inr (d', s) \<Longrightarrow> account_step d d'"
  using insert_session_step unfolding create_session_def account_step_def Let_def
  by (auto split: if_splits)

lemma revoke_session_step:
  "account_inv d \<Longrightarrow> s \<in> set (ad_sessions d) \<Longrightarrow> se_revoked_at s = None \<Longrightarrow>
     account_step d (put_session (s\<lparr>se_revoked_at := Some t\<rparr>) d)"
  unfolding account_step_def by (rule put_session_step)

lemma find_token_Some:
  "find_token sha d t = Some s \<Longrightarrow> s \<in> set (ad_sessions d) \<and> se_session_token_hash s = token_hash sha t"
  by (auto simp: find_token_def dest: row_of_Some)

text \<open>What presenting a token can change.\<close>

lemma actor_for_token_cases:
  assumes "actor_for_session_token sha d now t = Inr (d', a)"
  shows "d' = d \<or> (\<exists>s \<in> set (ad_sessions d). se_revoked_at s = None \<and>
      d' = put_session (s\<lparr>se_revoked_at := Some now\<rparr>) d)"
  using assms unfolding actor_for_session_token_def Let_def
  by (auto split: if_splits option.splits dest: find_token_Some)

lemma revoke_token_cases:
  assumes "revoke_session_token sha d now t = Inr (d', b)"
  shows "d' = d \<or> (\<exists>s \<in> set (ad_sessions d). se_revoked_at s = None \<and>
      d' = put_session (s\<lparr>se_revoked_at := Some now\<rparr>) d)"
  using assms unfolding revoke_session_token_def Let_def
  by (auto split: if_splits option.splits dest: find_token_Some)

lemma actor_for_token_step:
  "account_inv d \<Longrightarrow> actor_for_session_token sha d now t = Inr (d', a) \<Longrightarrow> account_step d d'"
  using actor_for_token_cases revoke_session_step account_step_refl by metis

lemma revoke_token_step:
  "account_inv d \<Longrightarrow> revoke_session_token sha d now t = Inr (d', b) \<Longrightarrow> account_step d d'"
  using revoke_token_cases revoke_session_step account_step_refl by metis

lemma revoke_by_id_step:
  assumes "account_inv d" "revoke_session_by_id d now i c = Inr (d', r)"
  shows "account_step d d'"
proof -
  from assms(2) have "d' = d \<or> (\<exists>s. row_of se_session_id (py_strip i) (ad_sessions d) = Some s \<and>
      session_status s now = ''active'' \<and> d' = put_session (s\<lparr>se_revoked_at := Some now\<rparr>) d)"
    by (auto simp: revoke_session_by_id_def joined_session_def Let_def split: option.splits if_splits)
  then show ?thesis
    using assms(1) by (auto simp: session_status_def split: if_splits dest!: row_of_Some
        intro: revoke_session_step)
qed

lemma record_event_step:
  "account_inv d \<Longrightarrow> record_account_audit_event ev d a op t1 t2 t3 ds = Inr (d', e) \<Longrightarrow> account_step d d'"
  using insert_event_step unfolding record_account_audit_event_def account_step_def Let_def by auto

lemmas account_steps = create_user_step first_admin_step bootstrap_step set_user_role_step disable_user_step
  reset_password_step change_own_password_step authenticate_step create_session_step actor_for_token_step
  revoke_token_step revoke_by_id_step record_event_step

lemma account_exec_step: "account_inv d \<Longrightarrow> account_exec sha c d = Inr (d', u) \<Longrightarrow> account_step d d'"
  by (cases c) (simp_all, (elim exE, rule account_steps, assumption+)+)

interpretation accounts: ordered_store "account_exec sha" account_inv account_le for sha
proof
  show "account_inv d'" if "account_inv d" "account_exec sha c d = Inr (d', r)" for d c d' r
    using account_exec_step [OF that] by (simp add: account_step_def)
  show "account_le d d" for d by simp
  show "account_le d d''" if "account_le d d'" "account_le d' d''" for d d' d''
    using that by (rule account_le_trans)
  show "account_le d d'" if "account_inv d" "account_exec sha c d = Inr (d', r)" for d c d' r
    using account_exec_step [OF that] by (simp add: account_step_def)
qed

lemma account_inv_empty: "account_inv empty_accounts"
  by (simp add: account_inv_def empty_accounts_def)

end
