(* ===== verification/AccountSafety.thy ===== *)
theory AccountSafety
  imports AccountInvariants
begin

text \<open>
  What the account operations guarantee: when a session token is accepted, that a disabled
  account never authenticates again, that resetting a password ends the sessions before it,
  that the password just stored is the one that authenticates, and that audit details carry no
  secret-bearing key.
\<close>

section \<open>Tokens\<close>

text \<open>\<open>session_grants sha d now token s u\<close>: the session of the token is usable and belongs to \<open>u\<close>.\<close>

definition session_grants :: "(string \<Rightarrow> string) \<Rightarrow> account_db \<Rightarrow> time \<Rightarrow> string \<Rightarrow> session_row \<Rightarrow> user_row \<Rightarrow> bool" where
  "session_grants sha d now token s u \<longleftrightarrow> py_strip token \<noteq> [] \<and> s \<in> set (ad_sessions d) \<and>
     se_session_token_hash s = token_hash sha (py_strip token) \<and> se_revoked_at s = None \<and> now < se_expires_at s \<and>
     u \<in> set (ad_users d) \<and> us_user_id u = se_user_id s \<and> us_enabled u"

lemma actor_of_ok: "user_ok u \<Longrightarrow> actor_from_user u =
    Inr \<lparr>at_user_id = us_user_id u, at_username = us_username u, at_role = us_role u\<rparr>"
  by (simp add: actor_from_user_def user_ok_def)

lemma actor_from_user_id: "actor_from_user row = Inr a \<Longrightarrow> at_user_id a = us_user_id row"
  by (cases a) (auto simp: actor_from_user_def)

lemma session_persists: "account_le d d' \<Longrightarrow> s \<in> set (ad_sessions d) \<Longrightarrow> \<exists>q \<in> set (ad_sessions d'). session_le s q"
  by (rule rows_le_mem [of session_le "ad_sessions d"]) (simp_all add: account_le_def)

lemma user_persists: "account_le d d' \<Longrightarrow> u \<in> set (ad_users d) \<Longrightarrow> \<exists>q \<in> set (ad_users d'). user_le u q"
  by (rule rows_le_mem [of user_le "ad_users d"]) (simp_all add: account_le_def)

lemma find_token_mem:
  "account_inv d \<Longrightarrow> s \<in> set (ad_sessions d) \<Longrightarrow> se_session_token_hash s = token_hash sha t \<Longrightarrow>
     find_token sha d t = Some s"
  using distinct_row_of [of se_session_token_hash "ad_sessions d" s] by (simp add: find_token_def account_inv_def)

lemma find_user_mem:
  "account_inv d \<Longrightarrow> u \<in> set (ad_users d) \<Longrightarrow> find_user d (us_user_id u) = Some u"
  using distinct_row_of [of us_user_id "ad_users d" u] by (simp add: find_user_def account_inv_def)

lemma token_accepted_grant:
  assumes "actor_for_session_token sha d now token = Inr (d', Some a)"
  shows "\<exists>t s u. token = Some t \<and> session_grants sha d now t s u \<and> d' = d \<and> actor_from_user u = Inr a"
proof (cases token)
  case (Some t)
  from assms Some obtain s where s: "find_token sha d (py_strip t) = Some s" "py_strip t \<noteq> []"
    "se_revoked_at s = None" "\<not> se_expires_at s \<le> now"
    by (auto simp: actor_for_session_token_def Let_def split: option.splits if_splits)
  with assms Some obtain u where u: "find_user d (se_user_id s) = Some u" "us_enabled u" "actor_from_user u = Inr a" "d' = d"
    by (auto simp: actor_for_session_token_def Let_def split: option.splits if_splits)
  have "session_grants sha d now t s u"
    using s u find_token_Some [OF s(1)] find_user_Some [OF u(1)] by (simp add: session_grants_def)
  with u Some show ?thesis by blast
qed (use assms in \<open>simp add: actor_for_session_token_def py_strip_def strip_by_def\<close>)

lemma grant_token_accepted:
  assumes "account_inv d" "session_grants sha d now t s u"
  shows "actor_for_session_token sha d now (Some t) =
     Inr (d, Some \<lparr>at_user_id = us_user_id u, at_username = us_username u, at_role = us_role u\<rparr>)"
proof -
  have "find_token sha d (py_strip t) = Some s" "find_user d (se_user_id s) = Some u" "user_ok u"
    using assms find_token_mem find_user_mem [of d u] by (auto simp: session_grants_def account_inv_def)
  with assms(2) show ?thesis
    by (simp add: actor_for_session_token_def session_grants_def actor_of_ok)
qed

section \<open>Disabled accounts\<close>

text \<open>\<open>account_disabled d i\<close>: the user with this identifier exists and is disabled.\<close>

definition account_disabled :: "account_db \<Rightarrow> string \<Rightarrow> bool" where
  "account_disabled d i \<longleftrightarrow> (\<exists>u \<in> set (ad_users d). us_user_id u = i \<and> \<not> us_enabled u)"

lemma disabled_stays: "account_disabled d i \<Longrightarrow> account_le d d' \<Longrightarrow> account_disabled d' i"
  using user_persists [of d d'] unfolding account_disabled_def by (fastforce simp: user_le_def)

lemma disabled_not_enabled:
  "account_inv d \<Longrightarrow> account_disabled d i \<Longrightarrow> u \<in> set (ad_users d) \<Longrightarrow> us_user_id u = i \<Longrightarrow> \<not> us_enabled u"
  by (auto simp: account_disabled_def account_inv_def distinct_map inj_on_def)

lemma disable_user_disables:
  assumes "account_inv d" "disable_user ev d u = Inr (d', r)"
  shows "account_disabled d' (at_user_id (uo_user r))"
proof -
  from assms(2) obtain row n where row: "get_user_or_raise d u = Inr row"
    and rev: "revoke_active_sessions (put_user (row\<lparr>us_enabled := False, us_updated_at := an_now ev\<rparr>) d)
      (us_user_id row) (an_now ev) = (d', n)"
    and a: "actor_from_user (row\<lparr>us_enabled := False, us_updated_at := an_now ev\<rparr>) = Inr (uo_user r)"
    by (auto simp: disable_user_def Let_def split: prod.splits)
  have "row\<lparr>us_enabled := False, us_updated_at := an_now ev\<rparr> \<in> set (ad_users d')"
    using put_has_row [OF get_user_mem [OF row]] rev by (auto simp: revoke_active_sessions_def revoke_where_def)
  moreover have "at_user_id (uo_user r) = us_user_id row" using actor_from_user_id [OF a] by simp
  ultimately show ?thesis
    unfolding account_disabled_def by (intro bexI [of _ "row\<lparr>us_enabled := False, us_updated_at := an_now ev\<rparr>"]) simp_all
qed

lemma disabled_token_refused:
  assumes "account_inv d" "account_disabled d i" "actor_for_session_token sha d now t = Inr (d', Some a)"
  shows "at_user_id a \<noteq> i"
  using token_accepted_grant [OF assms(3)] disabled_not_enabled [OF assms(1,2)]
  by (auto simp: session_grants_def actor_from_user_def)

lemma authenticated_user:
  assumes "authenticate_user ev d u p = Inr (d', Some a)"
  obtains row where "row \<in> set (ad_users d)" "us_enabled row" "at_user_id a = us_user_id row"
    "normalize_username u = Inr (us_username row)" "verify_password (an_kdf ev) p (us_password_hash row) = Inr True"
proof (cases "normalize_username u")
  case (Inr v)
  show ?thesis
  proof (cases "find_username d v")
    case (Some row)
    then have "row \<in> set (ad_users d)" "us_username row = v" by (auto simp: find_username_def dest: row_of_Some)
    with that show ?thesis
      using assms Inr Some by (auto simp: authenticate_user_def Let_def actor_from_user_def split: if_splits)
  qed (use assms Inr in \<open>simp add: authenticate_user_def\<close>)
qed (use assms in \<open>simp add: authenticate_user_def\<close>)

lemma disabled_login_refused:
  assumes "account_inv d" "account_disabled d i" "authenticate_user ev d u p = Inr (d', Some a)"
  shows "at_user_id a \<noteq> i"
  using authenticated_user [OF assms(3)] disabled_not_enabled [OF assms(1,2)] by metis

section \<open>Password changes\<close>

text \<open>\<open>ended d i t\<close>: no session of the user in \<open>d\<close> is usable at or after \<open>t\<close>.\<close>

definition ended :: "account_db \<Rightarrow> string \<Rightarrow> time \<Rightarrow> bool" where
  "ended d i t \<longleftrightarrow> (\<forall>s \<in> set (ad_sessions d). se_user_id s = i \<longrightarrow> se_revoked_at s \<noteq> None \<or> se_expires_at s \<le> t)"

lemma session_le_ended:
  "session_le s s' \<Longrightarrow> se_revoked_at s \<noteq> None \<or> se_expires_at s \<le> t \<Longrightarrow>
     se_revoked_at s' \<noteq> None \<or> se_expires_at s' \<le> t"
  by (cases s; cases s') (auto simp: session_le_def)

lemma ended_stays:
  assumes "account_inv d'" "account_le d d'" "ended d i t" "s \<in> set (ad_sessions d)" "se_user_id s = i"
    and "s' \<in> set (ad_sessions d')" "se_session_id s' = se_session_id s"
  shows "se_revoked_at s' \<noteq> None \<or> se_expires_at s' \<le> t"
proof -
  from assms(2,4) obtain q where q: "q \<in> set (ad_sessions d')" "session_le s q"
    using session_persists by blast
  then have "q = s'"
    using assms(1,6,7) session_leD [OF q(2)] by (auto simp: account_inv_def distinct_map inj_on_def)
  with q session_le_ended assms(3-5) show ?thesis unfolding ended_def by blast
qed

lemma revoke_active_ends:
  assumes "revoke_active_sessions d i t = (d', n)"
  shows "ended d' i t"
proof -
  define f where "f s = (if active_session t i s then s\<lparr>se_revoked_at := Some t\<rparr> else s)" for s
  have d': "ad_sessions d' = map f (ad_sessions d)"
    using assms by (auto simp: revoke_active_sessions_def revoke_where_def f_def)
  have "se_user_id (f s) = i \<longrightarrow> se_revoked_at (f s) \<noteq> None \<or> se_expires_at (f s) \<le> t" for s
    by (cases "active_session t i s") (simp_all add: f_def active_session_def not_less)
  then show ?thesis unfolding ended_def d' set_map by blast
qed

lemma reset_password_ends:
  assumes "reset_password ev d u p = Inr (d', r)"
  shows "ended d' (at_user_id (uo_user r)) (an_now ev) \<and> map se_session_id (ad_sessions d') = map se_session_id (ad_sessions d)"
proof -
  from assms obtain row h n where
    rev: "revoke_active_sessions (put_user (row\<lparr>us_password_hash := h, us_updated_at := an_now ev\<rparr>) d)
      (us_user_id row) (an_now ev) = (d', n)"
    and a: "actor_from_user (row\<lparr>us_password_hash := h, us_updated_at := an_now ev\<rparr>) = Inr (uo_user r)"
    by (auto simp: reset_password_def Let_def split: prod.splits)
  have "at_user_id (uo_user r) = us_user_id row" using actor_from_user_id [OF a] by simp
  moreover have "map se_session_id (ad_sessions d') = map se_session_id (ad_sessions d)"
    using rev by (auto simp: revoke_active_sessions_def revoke_where_def put_user_def)
  ultimately show ?thesis using revoke_active_ends [OF rev] by simp
qed

lemma ended_user_id:
  assumes "account_le d d'" "account_inv d'" "s' \<in> set (ad_sessions d')" "se_session_id s' \<in> se_session_id ` set (ad_sessions d)"
  shows "\<exists>s \<in> set (ad_sessions d). se_session_id s = se_session_id s' \<and> se_user_id s = se_user_id s'"
proof -
  from assms(4) obtain s where s: "s \<in> set (ad_sessions d)" "se_session_id s = se_session_id s'" by auto
  then obtain q where q: "q \<in> set (ad_sessions d')" "session_le s q"
    using session_persists [OF assms(1)] by blast
  then have "q = s'"
    using assms(2,3) s session_leD [OF q(2)] by (auto simp: account_inv_def distinct_map inj_on_def)
  with s q session_leD [OF q(2)] show ?thesis by metis
qed

text \<open>A session that is usable after the reset did not exist before it.\<close>

lemma usable_after_reset_is_new:
  assumes inv: "account_inv d" and reset: "reset_password ev d u p = Inr (d1, r)" and le: "account_le d1 d2" "account_inv d2"
    and later: "an_now ev \<le> now"
    and use: "actor_for_session_token sha d2 now token = Inr (d3, Some a)" "at_user_id a = at_user_id (uo_user r)"
  shows "session_id_for_token sha d2 token \<notin> Some ` se_session_id ` set (ad_sessions d)"
proof
  assume "session_id_for_token sha d2 token \<in> Some ` se_session_id ` set (ad_sessions d)"
  then obtain old where old: "old \<in> set (ad_sessions d)" "session_id_for_token sha d2 token = Some (se_session_id old)" by auto
  from token_accepted_grant [OF use(1)] obtain t s v where
    g: "token = Some t" "session_grants sha d2 now t s v" "actor_from_user v = Inr a" by blast
  then have s: "find_token sha d2 (py_strip t) = Some s" "s \<in> set (ad_sessions d2)"
    using find_token_mem [OF le(2)] by (auto simp: session_grants_def)
  have id: "se_session_id s = se_session_id old"
    using old(2) g s by (auto simp: session_id_for_token_def session_grants_def split: if_splits)
  have "se_session_id s \<in> se_session_id ` set (ad_sessions d1)"
    using id old(1) reset_password_ends [OF reset] by (metis image_eqI image_set)
  from ended_user_id [OF le(1,2) s(2) this] obtain s1 where
    s1: "s1 \<in> set (ad_sessions d1)" "se_session_id s1 = se_session_id s" "se_user_id s1 = se_user_id s" by blast
  have "se_user_id s1 = at_user_id (uo_user r)"
    using s1(3) g use(2) by (auto simp: session_grants_def actor_from_user_def)
  with ended_stays [OF le(2,1) _ s1(1) _ s(2) s1(2) [symmetric]] reset_password_ends [OF reset]
  have "se_revoked_at s \<noteq> None \<or> se_expires_at s \<le> an_now ev" by blast
  with g(2) later show False by (auto simp: session_grants_def)
qed

text \<open>The password that was stored is accepted, another one only if it derives the same key.\<close>

lemma hashed_accepts:
  assumes "hashed ev password = Inr stored"
  shows "verify_password (an_kdf ev) password stored = Inr True"
proof -
  from assms have h: "hash_password (an_kdf ev) (an_iterations ev) (an_salt ev) password = Inr stored"
    by (auto simp: hashed_def validated_password_def split: if_splits)
  then have "password_bytes password = Inr (utf8 password)"
    by (auto simp: hash_password_def password_bytes_def Let_def split: if_splits)
  with verify_hash [OF h, of password] show ?thesis by simp
qed

lemma created_user_logs_in:
  assumes "account_inv d" "create_user ev d username password role True = Inr (d', actor)" "an_kdf ev' = an_kdf ev"
  shows "\<exists>d''. authenticate_user ev' d' username password = Inr (d'', Some actor)"
proof -
  from assms(2) obtain v r h where v: "normalize_username username = Inr v" "normalize_role role = Inr r"
    and h: "hashed ev password = Inr h" and ins: "insert_user d (new_user_row ev v h r True) = Inr d'"
    and a: "actor_from_user (new_user_row ev v h r True) = Inr actor"
    by (auto simp: create_user_def Let_def split: option.splits)
  define row where "row = new_user_row ev v h r True"
  have inv: "account_inv d'" using create_user_step [OF assms(1,2)] by (simp add: account_step_def)
  have "row \<in> set (ad_users d')" "us_username row = v"
    using ins by (auto simp: insert_user_def row_def new_user_row_def split: if_splits)
  then have "find_username d' v = Some row"
    using inv distinct_row_of [of us_username "ad_users d'" row] by (simp add: account_inv_def find_username_def)
  moreover have "us_enabled row" "us_password_hash row = h" by (simp_all add: row_def new_user_row_def)
  ultimately show ?thesis
    using v hashed_accepts [OF h] assms(3) a
    by (auto simp: authenticate_user_def Let_def actor_from_user_def row_def new_user_row_def)
qed

section \<open>Audit details\<close>

fun audit_safe :: "pyval \<Rightarrow> bool" where
  "audit_safe (PDict d) = list_all (\<lambda>(k, v). \<not> unsafe_key k \<and> audit_safe v) d"
| "audit_safe (PList xs) = list_all audit_safe xs"
| "audit_safe _ = True"

lemma sanitize_safe: "audit_safe (sanitize_audit_details v)"
  by (induction v rule: sanitize_audit_details.induct) (auto simp: list_all_iff)

lemma sanitize_idem: "audit_safe v \<Longrightarrow> sanitize_audit_details v = v"
proof (induction v rule: sanitize_audit_details.induct)
  case (1 d)
  then have "filter (\<lambda>(k, v). \<not> unsafe_key k) d = d" by (auto simp: list_all_iff intro!: filter_True)
  moreover have "map (\<lambda>(k, v). (k, sanitize_audit_details v)) d = d"
    using 1 calculation by (intro map_idI) (force simp: list_all_iff)
  ultimately show ?case by simp
qed (auto simp: list_all_iff intro!: map_idI)

lemma recorded_event_safe:
  "record_account_audit_event ev d a op t1 t2 t3 ds = Inr (d', e) \<Longrightarrow>
     ad_events d' = ad_events d @ [last (ad_events d')] \<and> audit_safe (PDict (av_details (last (ad_events d')))) \<and>
     av_actor_user_id (last (ad_events d')) = Some (at_user_id a)"
  using sanitize_safe [of "PDict ds"]
  by (auto simp: record_account_audit_event_def insert_account_event_def Let_def list_all_iff
      split: if_splits pyval.splits)

end
