(* ===== verification/AccountApi.thy ===== *)
theory AccountApi
  imports AccountSafety
begin

text \<open>
  The account endpoints: \<open>app/auth/dependencies.py\<close>, \<open>app/auth/api.py\<close> and
  \<open>app/auth/admin_api.py\<close>. A handler runs several transactions; other requests may commit
  between them. An \<open>HTTPException\<close> is a \<open>FeatureError\<close> with its code and status; the result
  of a handler is the \<open>data\<close> of the response.
\<close>

section \<open>Handlers\<close>

text \<open>
  \<open>aw_cookie\<close> is what the response does to the session cookie: nothing, clear it, or set it.
\<close>

datatype cookie_action = CookieUntouched | CookieCleared | CookieSet string time

record account_world =
  aw_db :: account_db
  aw_step :: nat
  aw_cookie :: cookie_action

record api_env =
  ap_between :: "nat \<Rightarrow> account_db \<Rightarrow> account_db"
  ap_env :: "nat \<Rightarrow> account_env"
  ap_sha :: "string \<Rightarrow> string"
  ap_ttl :: "string option"

type_synonym 'a api = "account_world \<Rightarrow> 'a result \<times> account_world"

definition api_return :: "'a \<Rightarrow> 'a api" where
  "api_return x w = (Inr x, w)"

definition api_raise :: "error \<Rightarrow> 'a api" where
  "api_raise e w = (Inl e, w)"

definition api_of :: "'a result \<Rightarrow> 'a api" where
  "api_of m w = (m, w)"

definition api_bind :: "'a api \<Rightarrow> ('a \<Rightarrow> 'b api) \<Rightarrow> 'b api" where
  "api_bind m f w = (case m w of (Inl e, w') \<Rightarrow> (Inl e, w') | (Inr x, w') \<Rightarrow> f x w')"

definition api_except :: "'a api \<Rightarrow> (error \<Rightarrow> error) \<Rightarrow> 'a api" where
  "api_except m f w = (case m w of (Inl e, w') \<Rightarrow> (Inl (f e), w') | (Inr x, w') \<Rightarrow> (Inr x, w'))"

definition api_tx :: "api_env \<Rightarrow> (account_env \<Rightarrow> account_db \<Rightarrow> (account_db \<times> 'a) result) \<Rightarrow> 'a api" where
  "api_tx pe f w =
     (let d = ap_between pe (aw_step w) (aw_db w)
      in case f (ap_env pe (aw_step w)) d of
           Inl e \<Rightarrow> (Inl e, w\<lparr>aw_db := d, aw_step := Suc (aw_step w)\<rparr>)
         | Inr (d', x) \<Rightarrow> (Inr x, w\<lparr>aw_db := d', aw_step := Suc (aw_step w)\<rparr>))"

definition set_cookie :: "cookie_action \<Rightarrow> unit api" where
  "set_cookie c w = (Inr (), w\<lparr>aw_cookie := c\<rparr>)"

section \<open>Dependencies\<close>

definition actor_from_request :: "api_env \<Rightarrow> string option \<Rightarrow> auth_user option api" where
  "actor_from_request pe token = api_tx pe (\<lambda>ev d. actor_for_session_token (ap_sha pe) d (an_now ev) token)"

definition require_user :: "api_env \<Rightarrow> string option \<Rightarrow> auth_user api" where
  "require_user pe token = api_bind (actor_from_request pe token) (\<lambda>actor. case actor of
     None \<Rightarrow> api_raise (FeatureError ''AUTH_REQUIRED'' 401) | Some a \<Rightarrow> api_return a)"

definition require_role :: "api_env \<Rightarrow> string \<Rightarrow> string option \<Rightarrow> auth_user api" where
  "require_role pe required_role token =
     api_bind (require_user pe token) (\<lambda>actor.
     api_bind (api_of (role_at_least (at_role actor) required_role)) (\<lambda>enough.
       if \<not> enough then api_raise (FeatureError ''AUTH_FORBIDDEN'' 403) else api_return actor))"

definition current_session_id_from_request :: "api_env \<Rightarrow> string option \<Rightarrow> string option api" where
  "current_session_id_from_request pe token = api_tx pe (\<lambda>ev d. Inr (d, session_id_for_token (ap_sha pe) d token))"

definition required_string :: "string \<Rightarrow> pydict option \<Rightarrow> string \<Rightarrow> bool \<Rightarrow> string result" where
  "required_string code payload key strip =
     (case payload of
        None \<Rightarrow> Inl (FeatureError code 400)
      | Some p \<Rightarrow>
          let raw_value = text_or_empty (dget p key);
              value = (if strip then py_strip raw_value else raw_value)
          in if value = [] then Inl (FeatureError code 400) else Inr value)"

definition iso_or_none :: "time option \<Rightarrow> pyval" where
  "iso_or_none t = (case t of None \<Rightarrow> PNone | Some t \<Rightarrow> PStr (isoformat t))"

definition audit_response_fields :: "account_audit_event \<Rightarrow> pydict" where
  "audit_response_fields e =
     [(''audit_event_id'', PStr (ax_event_id e)),
      (''audit_event'', PDict [(''event_id'', PStr (ax_event_id e)), (''operation'', PStr (ax_operation e)),
         (''actor'', PDict (ax_actor e)), (''target'', PDict (ax_target e)), (''details'', PDict (ax_details e)),
         (''created_at'', PStr (isoformat (ax_created_at e)))])]"

definition audit :: "api_env \<Rightarrow> auth_user \<Rightarrow> string \<Rightarrow> string option \<Rightarrow> string option \<Rightarrow> string option \<Rightarrow> pydict
    \<Rightarrow> account_audit_event api" where
  "audit pe actor operation user_id username session_id details =
     api_tx pe (\<lambda>ev d. record_account_audit_event ev d actor operation user_id username session_id details)"

section \<open>\<open>auth/api.py\<close>\<close>

definition login :: "api_env \<Rightarrow> pydict \<Rightarrow> string option \<Rightarrow> string option \<Rightarrow> pydict api" where
  "login pe payload user_agent ip =
     (let username = stripped_text (dget payload ''username''); password = text_or_empty (dget payload ''password'');
          failed = FeatureError ''LOGIN_FAILED'' 401
      in if username = [] \<or> password = [] then api_raise failed
         else api_bind (api_tx pe (\<lambda>ev d. authenticate_user ev d username password)) (\<lambda>found. case found of
           None \<Rightarrow> api_raise failed
         | Some actor \<Rightarrow>
             api_bind (api_tx pe (\<lambda>ev d. create_session (ap_sha pe) ev (ap_ttl pe) d actor user_agent ip)) (\<lambda>issued.
             api_bind (set_cookie (CookieSet (is_token issued) (is_expires_at issued))) (\<lambda>_.
               api_return [(''authenticated'', PBool True), (''user'', PDict (auth_user_dict actor)),
                 (''expires_at'', PStr (isoformat (is_expires_at issued)))]))))"

definition me :: "api_env \<Rightarrow> string option \<Rightarrow> pydict api" where
  "me pe token =
     api_bind (actor_from_request pe token) (\<lambda>actor.
     api_bind (if token \<notin> {None, Some []} \<and> actor = None then set_cookie CookieCleared else api_return ()) (\<lambda>_.
       api_return [(''authenticated'', PBool (actor \<noteq> None)),
         (''user'', case actor of None \<Rightarrow> PNone | Some a \<Rightarrow> PDict (auth_user_dict a))]))"

text \<open>The errors of a password change; every account error is a \<open>ValueError\<close>.\<close>

definition account_value_error :: "error \<Rightarrow> bool" where
  "account_value_error e \<longleftrightarrow> e \<in> {PyError ValueError, InvalidRoleError, UserNotFoundError, DuplicateUserError,
     LastEnabledAdminError, CurrentPasswordInvalidError, SessionNotFoundError}"

definition change_password_error :: "error \<Rightarrow> error" where
  "change_password_error e =
     (if e = CurrentPasswordInvalidError then FeatureError ''CURRENT_PASSWORD_INVALID'' 403
      else if account_value_error e then FeatureError ''INVALID_CHANGE_PASSWORD_REQUEST'' 400 else e)"

definition change_password :: "api_env \<Rightarrow> string option \<Rightarrow> pydict option \<Rightarrow> pydict api" where
  "change_password pe token payload =
     api_bind (require_user pe token) (\<lambda>actor.
     api_bind (api_of (required_string ''INVALID_CHANGE_PASSWORD_REQUEST'' payload ''current_password'' False)) (\<lambda>current.
     api_bind (api_of (required_string ''INVALID_CHANGE_PASSWORD_REQUEST'' payload ''new_password'' False)) (\<lambda>new.
     api_bind (current_session_id_from_request pe token) (\<lambda>current_session_id.
     api_bind (api_except (api_tx pe (\<lambda>ev d. change_own_password ev d actor current new current_session_id))
                 change_password_error) (\<lambda>r.
     api_bind (audit pe actor ''auth.change_password'' (Some (at_user_id (uo_user r))) (Some (at_username (uo_user r)))
                 current_session_id [(''revoked_sessions'', PInt (int (uo_revoked_sessions r))),
                   (''current_session_preserved'', PBool (uo_current_session_preserved r))]) (\<lambda>e.
       api_return ([(''authenticated'', PBool True), (''user'', PDict (auth_user_dict (uo_user r))),
         (''revoked_sessions'', PInt (int (uo_revoked_sessions r))),
         (''current_session_preserved'', PBool (uo_current_session_preserved r))] @ audit_response_fields e)))))))"

section \<open>\<open>auth/admin_api.py\<close>\<close>

definition user_summary_of :: "user_row \<Rightarrow> pydict result" where
  "user_summary_of r = ebind (normalize_role (us_role r)) (\<lambda>role.
     Inr [(''user_id'', PStr (us_user_id r)), (''username'', PStr (us_username r)), (''role'', PStr role),
          (''enabled'', PBool (us_enabled r)), (''created_at'', PStr (isoformat (us_created_at r))),
          (''updated_at'', PStr (isoformat (us_updated_at r))), (''last_login_at'', iso_or_none (us_last_login_at r))])"

definition summary_for :: "api_env \<Rightarrow> string \<Rightarrow> pydict api" where
  "summary_for pe username = api_tx pe (\<lambda>ev d.
     ebind (get_user_or_raise d username) (\<lambda>row. ebind (user_summary_of row) (\<lambda>s. Inr (d, s))))"

definition map_user_error :: "error \<Rightarrow> error" where
  "map_user_error e =
     (if e = InvalidRoleError then FeatureError ''INVALID_ADMIN_ROLE'' 400
      else if e = LastEnabledAdminError then FeatureError ''LAST_ENABLED_ADMIN'' 409
      else if e = UserNotFoundError then FeatureError ''USER_NOT_FOUND'' 404
      else if e = DuplicateUserError then FeatureError ''USER_ALREADY_EXISTS'' 409
      else if account_value_error e then FeatureError ''INVALID_ADMIN_USER_REQUEST'' 400 else e)"

definition admin_list_users :: "api_env \<Rightarrow> string option \<Rightarrow> pyval api" where
  "admin_list_users pe token =
     api_bind (require_role pe ''admin'' token) (\<lambda>actor.
     api_bind (api_tx pe (\<lambda>ev d. ebind (all_ok (map user_summary_of (list_users d))) (\<lambda>us. Inr (d, us)))) (\<lambda>us.
       api_return (PList (map PDict us))))"

definition admin_create_user :: "api_env \<Rightarrow> string option \<Rightarrow> pydict option \<Rightarrow> pydict api" where
  "admin_create_user pe token payload =
     api_bind (require_role pe ''admin'' token) (\<lambda>actor.
     api_bind (api_of (required_string ''INVALID_ADMIN_USER_REQUEST'' payload ''username'' True)) (\<lambda>username.
     api_bind (api_of (required_string ''INVALID_ADMIN_USER_REQUEST'' payload ''password'' False)) (\<lambda>password.
     api_bind (api_of (required_string ''INVALID_ADMIN_USER_REQUEST'' payload ''role'' True)) (\<lambda>role.
     api_bind (api_except
         (api_bind (api_tx pe (\<lambda>ev d. create_user ev d username password role True)) (\<lambda>created.
          api_bind (summary_for pe username) (\<lambda>user. api_return (created, user)))) map_user_error) (\<lambda>(created, user).
     api_bind (audit pe actor ''admin.create_user'' (Some (at_user_id created)) (Some (at_username created)) None
         [(''role'', PStr (at_role created)), (''enabled'', dget user ''enabled'')]) (\<lambda>e.
       api_return ((''user'', PDict user) # audit_response_fields e)))))))"

definition admin_set_user_role :: "api_env \<Rightarrow> string option \<Rightarrow> string \<Rightarrow> pydict option \<Rightarrow> pydict api" where
  "admin_set_user_role pe token username payload =
     api_bind (require_role pe ''admin'' token) (\<lambda>actor.
     api_bind (api_of (required_string ''INVALID_ADMIN_USER_REQUEST'' payload ''role'' True)) (\<lambda>role.
     api_bind (api_except
         (api_bind (summary_for pe username) (\<lambda>previous.
          api_bind (api_tx pe (\<lambda>ev d. set_user_role ev d username role)) (\<lambda>updated.
          api_bind (summary_for pe username) (\<lambda>user. api_return (previous, updated, user))))) map_user_error)
       (\<lambda>(previous, updated, user).
     api_bind (audit pe actor ''admin.set_user_role'' (Some (at_user_id updated)) (Some (at_username updated)) None
         [(''changed_fields'', PDict [(''role'', PDict [(''old'', dget previous ''role''), (''new'', PStr (at_role updated))])]),
          (''revoked_sessions'', PInt 0)]) (\<lambda>e.
       api_return ((''user'', PDict user) # audit_response_fields e)))))"

definition admin_disable_user :: "api_env \<Rightarrow> string option \<Rightarrow> string \<Rightarrow> pydict api" where
  "admin_disable_user pe token username =
     api_bind (require_role pe ''admin'' token) (\<lambda>actor.
     api_bind (api_except
         (api_bind (summary_for pe username) (\<lambda>previous.
          api_bind (api_tx pe (\<lambda>ev d. disable_user ev d username)) (\<lambda>r.
          api_bind (summary_for pe username) (\<lambda>user. api_return (previous, r, user))))) map_user_error)
       (\<lambda>(previous, r, user).
     api_bind (audit pe actor ''admin.disable_user'' (Some (at_user_id (uo_user r))) (Some (at_username (uo_user r))) None
         [(''changed_fields'', PDict [(''enabled'', PDict [(''old'', dget previous ''enabled''),
             (''new'', dget user ''enabled'')])]),
          (''revoked_sessions'', PInt (int (uo_revoked_sessions r)))]) (\<lambda>e.
       api_return ([(''user'', PDict user), (''revoked_sessions'', PInt (int (uo_revoked_sessions r)))]
         @ audit_response_fields e))))"

definition admin_reset_password :: "api_env \<Rightarrow> string option \<Rightarrow> string \<Rightarrow> pydict option \<Rightarrow> pydict api" where
  "admin_reset_password pe token username payload =
     api_bind (require_role pe ''admin'' token) (\<lambda>actor.
     api_bind (api_of (required_string ''INVALID_ADMIN_USER_REQUEST'' payload ''password'' False)) (\<lambda>password.
     api_bind (api_except
         (api_bind (summary_for pe username) (\<lambda>previous.
          api_bind (api_tx pe (\<lambda>ev d. reset_password ev d username password)) (\<lambda>r.
          api_bind (summary_for pe username) (\<lambda>user. api_return (previous, r, user))))) map_user_error)
       (\<lambda>(previous, r, user).
     api_bind (audit pe actor ''admin.reset_password'' (Some (at_user_id (uo_user r))) (Some (at_username (uo_user r))) None
         [(''target_role'', dget previous ''role''), (''target_enabled'', dget previous ''enabled''),
          (''revoked_sessions'', PInt (int (uo_revoked_sessions r)))]) (\<lambda>e.
       api_return ([(''user'', PDict user), (''revoked_sessions'', PInt (int (uo_revoked_sessions r)))]
         @ audit_response_fields e)))))"

definition session_summary_dict :: "session_summary \<Rightarrow> pydict" where
  "session_summary_dict s =
     [(''session_id'', PStr (sm_session_id s)), (''user_id'', PStr (sm_user_id s)), (''username'', PStr (sm_username s)),
      (''role'', PStr (sm_role s)), (''enabled'', PBool (sm_enabled s)), (''created_at'', PStr (isoformat (sm_created_at s))),
      (''expires_at'', PStr (isoformat (sm_expires_at s))), (''revoked_at'', iso_or_none (sm_revoked_at s)),
      (''status'', PStr (sm_status s)), (''is_current_session'', PBool (sm_is_current_session s))]"

definition admin_list_sessions :: "api_env \<Rightarrow> string option \<Rightarrow> pyval api" where
  "admin_list_sessions pe token =
     api_bind (require_role pe ''admin'' token) (\<lambda>actor.
     api_bind (current_session_id_from_request pe token) (\<lambda>current_session_id.
     api_bind (api_tx pe (\<lambda>ev d. ebind (list_session_inventory d (an_now ev) current_session_id) (\<lambda>ss. Inr (d, ss)))) (\<lambda>ss.
       api_return (PList (map (\<lambda>s. PDict (session_summary_dict s)) ss)))))"

definition session_not_found :: "error \<Rightarrow> error" where
  "session_not_found e = (if e = SessionNotFoundError then FeatureError ''SESSION_NOT_FOUND'' 404 else e)"

definition admin_revoke_session :: "api_env \<Rightarrow> string option \<Rightarrow> string \<Rightarrow> pydict api" where
  "admin_revoke_session pe token session_id =
     api_bind (require_role pe ''admin'' token) (\<lambda>actor.
     api_bind (current_session_id_from_request pe token) (\<lambda>current_session_id.
     api_bind (api_except (api_tx pe (\<lambda>ev d. revoke_session_by_id d (an_now ev) session_id current_session_id))
                 session_not_found) (\<lambda>r.
     api_bind (if rr_current_session_revoked r then set_cookie CookieCleared else api_return ()) (\<lambda>_.
     let s = rr_session r
     in api_bind (audit pe actor ''admin.revoke_session'' (Some (sm_user_id s)) (Some (sm_username s)) (Some (sm_session_id s))
         [(''previous_status'', PStr (rr_previous_status r)), (''new_status'', PStr (sm_status s)),
          (''revoked'', PBool (rr_revoked r)), (''idempotent'', PBool (rr_idempotent r)),
          (''current_session_revoked'', PBool (rr_current_session_revoked r)),
          (''target_role'', PStr (sm_role s)), (''target_enabled'', PBool (sm_enabled s))]) (\<lambda>e.
       api_return ([(''session'', PDict (session_summary_dict s)), (''revoked'', PBool (rr_revoked r)),
         (''idempotent'', PBool (rr_idempotent r)), (''current_session_revoked'', PBool (rr_current_session_revoked r))]
         @ audit_response_fields e))))))"

section \<open>Handlers run transactions of the account store\<close>

definition fair_api :: "api_env \<Rightarrow> bool" where
  "fair_api pe \<longleftrightarrow> (\<forall>k d. reach (account_exec (ap_sha pe)) d (ap_between pe k d))"

text \<open>\<open>keeps m\<close>: the handler only moves the tables by account steps, whatever it returns or raises.\<close>

definition keeps :: "'a api \<Rightarrow> bool" where
  "keeps m \<longleftrightarrow> (\<forall>w. account_inv (aw_db w) \<longrightarrow> account_step (aw_db w) (aw_db (snd (m w))))"

named_theorems keeps_intros \<open>handlers made of account transactions\<close>

lemma keeps_return [keeps_intros]: "keeps (api_return x)"
  by (simp add: keeps_def api_return_def)

lemma keeps_raise [keeps_intros]: "keeps (api_raise e)"
  by (simp add: keeps_def api_raise_def)

lemma keeps_of [keeps_intros]: "keeps (api_of m)"
  by (simp add: keeps_def api_of_def)

lemma keeps_cookie [keeps_intros]: "keeps (set_cookie c)"
  by (simp add: keeps_def set_cookie_def)

lemma keeps_bind [keeps_intros]:
  assumes "keeps m" "\<And>x. keeps (f x)"
  shows "keeps (api_bind m f)"
  unfolding keeps_def
proof (intro allI impI)
  fix w :: account_world assume w: "account_inv (aw_db w)"
  obtain r w' where r: "m w = (r, w')" by (cases "m w")
  with assms(1) w have 1: "account_step (aw_db w) (aw_db w')" by (auto simp: keeps_def)
  show "account_step (aw_db w) (aw_db (snd (api_bind m f w)))"
  proof (cases r)
    case (Inr x)
    from 1 have "account_inv (aw_db w')" by (rule account_step_inv)
    with assms(2) have "account_step (aw_db w') (aw_db (snd (f x w')))" by (simp add: keeps_def)
    with 1 account_step_trans show ?thesis by (simp add: api_bind_def r Inr)
  qed (use 1 in \<open>simp add: api_bind_def r\<close>)
qed

lemma keeps_except [keeps_intros]: "keeps m \<Longrightarrow> keeps (api_except m f)"
  unfolding keeps_def api_except_def by (auto split: prod.splits sum.splits)

lemma keeps_if [keeps_intros]: "keeps m \<Longrightarrow> keeps m' \<Longrightarrow> keeps (if b then m else m')"
  by simp

lemma keeps_option [keeps_intros]:
  "keeps m \<Longrightarrow> (\<And>x. keeps (f x)) \<Longrightarrow> keeps (case z of None \<Rightarrow> m | Some x \<Rightarrow> f x)"
  by (simp split: option.splits)

lemma keeps_prod [keeps_intros]: "(\<And>x y. keeps (f x y)) \<Longrightarrow> keeps (case z of (x, y) \<Rightarrow> f x y)"
  by (simp split: prod.splits)

lemma keeps_let [keeps_intros]: "(\<And>x. keeps (f x)) \<Longrightarrow> keeps (Let z f)"
  by (simp add: Let_def)

lemma between_step:
  assumes "fair_api pe" "account_inv d"
  shows "account_step d (ap_between pe k d)"
proof -
  have "reach (account_exec (ap_sha pe)) d (ap_between pe k d)" using assms(1) by (simp add: fair_api_def)
  then show ?thesis
    using assms(2) by (induction rule: reach.induct) (auto intro: account_step_trans account_exec_step account_step_inv)
qed

lemma keeps_tx:
  assumes "fair_api pe" "\<And>ev d d' x. account_inv d \<Longrightarrow> f ev d = Inr (d', x) \<Longrightarrow> account_step d d'"
  shows "keeps (api_tx pe f)"
  unfolding keeps_def
proof (intro allI impI)
  fix w :: account_world assume "account_inv (aw_db w)"
  then have 1: "account_step (aw_db w) (ap_between pe (aw_step w) (aw_db w))" by (rule between_step [OF assms(1)])
  show "account_step (aw_db w) (aw_db (snd (api_tx pe f w)))"
  proof (cases "f (ap_env pe (aw_step w)) (ap_between pe (aw_step w) (aw_db w))")
    case (Inr x)
    then show ?thesis
      using assms(2) [OF account_step_inv [OF 1]] account_step_trans [OF 1]
      by (cases x) (simp add: api_tx_def Let_def)
  qed (use 1 in \<open>simp add: api_tx_def Let_def\<close>)
qed

lemma read_tx_keeps:
  assumes "fair_api pe" "\<And>ev d d' x. f ev d = Inr (d', x) \<Longrightarrow> d' = d"
  shows "keeps (api_tx pe f)"
proof (rule keeps_tx [OF assms(1)])
  show "account_step d d'" if "account_inv d" "f ev d = Inr (d', x)" for ev d d' x
    using assms(2) [OF that(2)] that(1) by simp
qed

lemma keeps_actor [keeps_intros]: "fair_api pe \<Longrightarrow> keeps (actor_from_request pe t)"
  unfolding actor_from_request_def by (rule keeps_tx) (auto intro: actor_for_token_step)

lemma keeps_session_id [keeps_intros]: "fair_api pe \<Longrightarrow> keeps (current_session_id_from_request pe t)"
  unfolding current_session_id_from_request_def by (rule read_tx_keeps) auto

lemma keeps_summary [keeps_intros]: "fair_api pe \<Longrightarrow> keeps (summary_for pe u)"
  unfolding summary_for_def by (rule read_tx_keeps) auto

lemma keeps_audit [keeps_intros]: "fair_api pe \<Longrightarrow> keeps (audit pe a op t1 t2 t3 ds)"
  unfolding audit_def by (rule keeps_tx) (auto intro: record_event_step)

lemma keeps_transactions [keeps_intros]:
  assumes "fair_api pe"
  shows "keeps (api_tx pe (\<lambda>ev d. authenticate_user ev d u p))"
    "keeps (api_tx pe (\<lambda>ev d. create_session sha ev ttl d a ua ip))"
    "keeps (api_tx pe (\<lambda>ev d. change_own_password ev d a c n s))"
    "keeps (api_tx pe (\<lambda>ev d. create_user ev d u p r e))"
    "keeps (api_tx pe (\<lambda>ev d. set_user_role ev d u r))"
    "keeps (api_tx pe (\<lambda>ev d. disable_user ev d u))"
    "keeps (api_tx pe (\<lambda>ev d. reset_password ev d u p))"
    "keeps (api_tx pe (\<lambda>ev d. revoke_session_by_id d (an_now ev) i cur))"
  using assms by (auto intro!: keeps_tx intro: account_steps)

lemma keeps_require [keeps_intros]: "fair_api pe \<Longrightarrow> keeps (require_user pe t)" "fair_api pe \<Longrightarrow> keeps (require_role pe r t)"
  unfolding require_role_def require_user_def by (intro keeps_intros; assumption)+

lemma keeps_list_users: "fair_api pe \<Longrightarrow> keeps (admin_list_users pe t)"
  unfolding admin_list_users_def by (intro keeps_intros read_tx_keeps) (assumption | force)+

lemma keeps_list_sessions: "fair_api pe \<Longrightarrow> keeps (admin_list_sessions pe t)"
  unfolding admin_list_sessions_def by (intro keeps_intros read_tx_keeps) (assumption | force)+

lemma handlers_keep:
  assumes "fair_api pe"
  shows "keeps (login pe q ua ip)" "keeps (me pe t)" "keeps (change_password pe t b)" "keeps (admin_create_user pe t b)"
    "keeps (admin_set_user_role pe t u b)" "keeps (admin_disable_user pe t u)" "keeps (admin_reset_password pe t u b)"
    "keeps (admin_revoke_session pe t i)"
  unfolding login_def me_def change_password_def admin_create_user_def admin_set_user_role_def admin_disable_user_def
    admin_reset_password_def admin_revoke_session_def Let_def
  by (intro keeps_intros assms)+

section \<open>Only administrators\<close>

text \<open>The state in which the first transaction of a handler finds the database.\<close>

definition seen :: "api_env \<Rightarrow> account_world \<Rightarrow> account_db" where
  "seen pe w = ap_between pe (aw_step w) (aw_db w)"

definition admin_request :: "api_env \<Rightarrow> account_world \<Rightarrow> string option \<Rightarrow> bool" where
  "admin_request pe w token \<longleftrightarrow> (\<exists>t s u. token = Some t \<and>
     session_grants (ap_sha pe) (seen pe w) (an_now (ap_env pe (aw_step w))) t s u \<and> us_role u = ''admin'')"

definition refused :: "error \<Rightarrow> bool" where
  "refused e \<longleftrightarrow> e = FeatureError ''AUTH_REQUIRED'' 401 \<or> e = FeatureError ''AUTH_FORBIDDEN'' 403"

definition only_sessions :: "account_db \<Rightarrow> account_db \<Rightarrow> bool" where
  "only_sessions d d' \<longleftrightarrow> ad_users d' = ad_users d \<and> ad_events d' = ad_events d"

lemma admin_rank: "normalize_role r = Inr r \<Longrightarrow> role_at_least r ''admin'' = Inr (r = ''admin'')"
proof -
  have "role_at_least ''viewer'' ''admin'' = Inr False" "role_at_least ''operator'' ''admin'' = Inr False"
    "role_at_least ''admin'' ''admin'' = Inr True" by code_simp+
  then show "normalize_role r = Inr r \<Longrightarrow> role_at_least r ''admin'' = Inr (r = ''admin'')"
    by (auto simp: normalize_role_def ROLE_ORDER_def Let_def split: if_splits)
qed

lemma actor_only_sessions:
  "actor_for_session_token sha d now t = Inr (d', a) \<Longrightarrow> only_sessions d d'"
  using actor_for_token_cases [of sha d now t d' a] by (auto simp: only_sessions_def put_session_def)

lemma actor_never_fails:
  assumes "account_inv d"
  shows "\<exists>d' a. actor_for_session_token sha d now t = Inr (d', a)"
proof -
  have "user_ok u" if "find_user d i = Some u" for i u
    using assms find_user_Some [OF that] by (simp add: account_inv_def)
  then show ?thesis by (auto simp: actor_for_session_token_def Let_def actor_of_ok split: option.splits)
qed

lemma require_admin_refuses:
  assumes inv: "account_inv (seen pe w)" and no: "\<not> admin_request pe w token"
  shows "\<exists>e w'. require_role pe ''admin'' token w = (Inl e, w') \<and> refused e \<and> only_sessions (seen pe w) (aw_db w')"
proof -
  define now where "now = an_now (ap_env pe (aw_step w))"
  obtain d' a where a: "actor_for_session_token (ap_sha pe) (seen pe w) now token = Inr (d', a)"
    using actor_never_fails [OF inv] by blast
  define w' where "w' = w\<lparr>aw_db := d', aw_step := Suc (aw_step w)\<rparr>"
  have run: "actor_from_request pe token w = (Inr a, w')"
    using a by (simp add: actor_from_request_def api_tx_def seen_def now_def w'_def)
  have only: "only_sessions (seen pe w) (aw_db w')" using actor_only_sessions [OF a] by (simp add: w'_def)
  show ?thesis
  proof (cases a)
    case None
    then have "require_role pe ''admin'' token w = (Inl (FeatureError ''AUTH_REQUIRED'' 401), w')"
      by (simp add: require_role_def require_user_def api_bind_def run api_raise_def)
    with only show ?thesis by (simp add: refused_def)
  next
    case (Some actor)
    from token_accepted_grant [OF a [unfolded Some]] obtain t s u where
      g: "token = Some t" "session_grants (ap_sha pe) (seen pe w) now t s u" "actor_from_user u = Inr actor" by blast
    have ok: "user_ok u" using g(2) inv by (auto simp: session_grants_def account_inv_def)
    have "us_role u \<noteq> ''admin''" using no g by (auto simp: admin_request_def now_def)
    moreover have "at_role actor = us_role u" using actor_of_ok [OF ok] g(3) by auto
    ultimately have "role_at_least (at_role actor) ''admin'' = Inr False"
      using admin_rank ok by (simp add: user_ok_def)
    then have "require_role pe ''admin'' token w = (Inl (FeatureError ''AUTH_FORBIDDEN'' 403), w')"
      by (simp add: require_role_def require_user_def api_bind_def run api_return_def api_of_def Some api_raise_def)
    with only show ?thesis by (simp add: refused_def)
  qed
qed

lemma gated:
  assumes "account_inv (seen pe w)" "\<not> admin_request pe w token"
    and "api_bind (require_role pe ''admin'' token) f w = (r, w')"
  shows "\<exists>e. r = Inl e \<and> refused e \<and> only_sessions (seen pe w) (aw_db w')"
  using require_admin_refuses [OF assms(1,2)] assms(3) by (auto simp: api_bind_def)

end
