(* ===== verification/AccountExamples.thy ===== *)
theory AccountExamples
  imports AccountApi
begin

text \<open>Concrete accounts for the witnesses: an administrator and a viewer with a session each.\<close>

definition ex_kdf :: kdf where
  "ex_kdf password salt iterations = password @ salt"

definition ex_account_env :: "time \<Rightarrow> string \<Rightarrow> account_env" where
  "ex_account_env now hex =
     \<lparr>an_kdf = ex_kdf, an_iterations = None, an_now = now, an_hex = hex, an_salt = ''salt'', an_token = hex\<rparr>"

definition ex_token_sha :: "string \<Rightarrow> string" where
  "ex_token_sha s = s"

definition ex_sign_up :: "account_command list" where
  "ex_sign_up =
     [CreateUser (ex_account_env 1 ''1'') ''root'' ''pw'' ''admin'' True,
      CreateUser (ex_account_env 2 ''2'') ''guest'' ''pw'' ''viewer'' True,
      CreateSession (ex_account_env 3 ''3'') None
        \<lparr>at_user_id = ''user_1'', at_username = ''root'', at_role = ''admin''\<rparr> None None,
      CreateSession (ex_account_env 4 ''4'') None
        \<lparr>at_user_id = ''user_2'', at_username = ''guest'', at_role = ''viewer''\<rparr> None None]"

definition ex_accounts :: account_db where
  "ex_accounts = run (account_exec ex_token_sha) ex_sign_up empty_accounts"

lemma ex_accounts_admin: "has_enabled_admin ex_accounts"
  by code_simp

lemma ex_accounts_inv: "account_inv ex_accounts"
  unfolding ex_accounts_def by (rule accounts.run_inv [OF account_inv_empty])

lemma ex_disable: "\<not> isl (disable_user (ex_account_env 5 ''5'') ex_accounts ''guest'')"
  by code_simp

lemma ex_reset: "\<not> isl (reset_password (ex_account_env 5 ''5'') ex_accounts ''guest'' ''new'')"
  by code_simp

definition ex_api :: api_env where
  "ex_api = \<lparr>ap_between = (\<lambda>_ d. d), ap_env = (\<lambda>k. ex_account_env (10 + int k) ''9''), ap_sha = ex_token_sha, ap_ttl = None\<rparr>"

definition ex_account_world :: account_world where
  "ex_account_world = \<lparr>aw_db = ex_accounts, aw_step = 0, aw_cookie = CookieUntouched\<rparr>"

lemma ex_guest_forbidden: "fst (admin_disable_user ex_api (Some ''4'') ''root'' ex_account_world) =
    Inl (FeatureError ''AUTH_FORBIDDEN'' 403)"
  by code_simp

lemma ex_admin_disables: "\<not> isl (fst (admin_disable_user ex_api (Some ''3'') ''guest'' ex_account_world))"
  by code_simp

end
