(* ===== verification/VmStart.thy ===== *)
theory VmStart
  imports RecoveryRuntime
begin

text \<open>
  VM start, the parts without effects: \<open>app/operations/vm_start/domain.py\<close>, \<open>precheck.py\<close>,
  \<open>tracking.py\<close>, the pure helpers of \<open>workflow.py\<close> and the request side of
  \<open>app/vm_actions/start.py\<close>. Inventory entries are given as the dicts that \<open>to_dict\<close> returns.
\<close>

section \<open>Identity and intent\<close>

text \<open>\<open>re.sub\<close> of runs of other characters by one \<open>-\<close>; the flag says that a run is open.\<close>

primrec dashed_runs :: "(char \<Rightarrow> bool) \<Rightarrow> bool \<Rightarrow> string \<Rightarrow> string" where
  "dashed_runs P opened [] = []"
| "dashed_runs P opened (c # s) =
     (if P c then c # dashed_runs P False s
      else if opened then dashed_runs P True s else CHR ''-'' # dashed_runs P True s)"

definition safe_segment :: "string \<Rightarrow> string" where
  "safe_segment value =
     (let safe = take 80 (strip_by (\<lambda>c. c = CHR ''-'')
            (dashed_runs (\<lambda>c. is_alpha c \<or> is_digit c \<or> c = CHR ''_'' \<or> c = CHR ''-'') False value))
      in if safe = [] then ''vm'' else safe)"

definition build_vm_start_job_id :: "sha \<Rightarrow> string \<Rightarrow> int \<Rightarrow> string \<Rightarrow> string" where
  "build_vm_start_job_id sha node_id vmid idempotency_key =
     ''vm-start-'' @ safe_segment node_id @ ''-'' @ show_int vmid @ ''-'' @
       take 16 (sha (utf8 (node_id @ '':'' @ show_int vmid @ '':'' @ idempotency_key)))"

definition vm_start_target :: "string \<Rightarrow> int \<Rightarrow> string \<Rightarrow> pydict" where
  "vm_start_target node_id vmid name =
     [(''node_id'', PStr node_id), (''vmid'', PInt vmid), (''name'', PStr name)]"

definition vm_start_target_lock_id :: "int \<Rightarrow> string" where
  "vm_start_target_lock_id vmid = ''vmid:'' @ show_int vmid"

definition vm_start_expected_context :: "pydict \<Rightarrow> pydict" where
  "vm_start_expected_context payload =
     [(''expected_name'', PStr (stripped_text (dget payload ''expected_name''))),
      (''expected_status'', PStr (stripped_text (dget payload ''expected_status'')))]"

definition stable_vm_start_intent :: "string \<Rightarrow> int \<Rightarrow> pydict \<Rightarrow> pydict" where
  "stable_vm_start_intent node_id vmid payload =
     [(''schema'', PStr ''vm_start_intent.v1''), (''operation'', PStr ''vm_start''),
      (''target'', PDict [(''node_id'', PStr node_id), (''vmid'', PInt vmid)]),
      (''expected'', PDict (vm_start_expected_context payload))]"

record start_command =
  sc_node_id :: string
  sc_vmid :: int
  sc_payload :: pydict
  sc_actor :: pydict

definition start_from_request :: "string \<Rightarrow> int \<Rightarrow> pydict option \<Rightarrow> pydict option \<Rightarrow> start_command" where
  "start_from_request node_id vmid payload actor =
     \<lparr>sc_node_id = node_id, sc_vmid = vmid, sc_payload = (case payload of None \<Rightarrow> [] | Some p \<Rightarrow> p),
      sc_actor = (case actor of None \<Rightarrow> [] | Some a \<Rightarrow> a)\<rparr>"

definition start_intent :: "start_command \<Rightarrow> pydict" where
  "start_intent c = stable_vm_start_intent (sc_node_id c) (sc_vmid c) (sc_payload c)"

section \<open>The pre-check\<close>

record start_precheck =
  pre_target :: pydict
  pre_observed_before :: pydict
  pre_expected :: pydict

record start_blocked =
  sb_code :: string
  sb_message :: string
  sb_target :: pydict
  sb_expected :: pydict
  sb_observed_before :: pydict

definition normalize_vm_status :: "pyval \<Rightarrow> string" where
  "normalize_vm_status v = py_lower (stripped_text v)"

definition vm_node_id :: "pyval \<Rightarrow> string" where
  "vm_node_id v = (let data = dict_of v in
     stripped_text (py_or (dget data ''node_id'') (dget data ''node'')))"

definition vm_vmid :: "pyval \<Rightarrow> int option" where
  "vm_vmid v = (let data = dict_of v in
     case py_int (if dget data ''vmid'' \<noteq> PNone then dget data ''vmid'' else dget data ''id'') of
       Inr i \<Rightarrow> Some i | Inl _ \<Rightarrow> None)"

definition find_exact_vm :: "pyval list \<Rightarrow> string \<Rightarrow> int \<Rightarrow> pyval option \<times> pyval option" where
  "find_exact_vm vms node_id vmid =
     (find (\<lambda>vm. vm_vmid vm = Some vmid \<and> vm_node_id vm = node_id) vms,
      find (\<lambda>vm. vm_vmid vm = Some vmid \<and> vm_node_id vm \<noteq> node_id) vms)"

definition find_vm_template :: "pyval list \<Rightarrow> string \<Rightarrow> int \<Rightarrow> pyval option" where
  "find_vm_template templates node_id vmid =
     find (\<lambda>t. vm_vmid t = Some vmid \<and> (vm_node_id t = [] \<or> vm_node_id t = node_id)) templates"

text \<open>\<open>str(observed.get("name") or target.get("name") or "")\<close>\<close>

definition observed_name_or :: "pydict \<Rightarrow> pydict \<Rightarrow> string" where
  "observed_name_or observed target = text_or_empty (py_or (dget observed ''name'') (dget target ''name''))"

definition or_unknown :: "string \<Rightarrow> string" where
  "or_unknown s = (if s = [] then ''unknown'' else s)"

definition start_state_block :: "pydict \<Rightarrow> pydict \<Rightarrow> pydict \<Rightarrow> start_blocked + start_precheck" where
  "start_state_block expected target observed_before =
     (let blocked = (\<lambda>code message. \<lparr>sb_code = code, sb_message = message, sb_target = target,
            sb_expected = expected, sb_observed_before = observed_before\<rparr>);
          status = normalize_vm_status (dget observed_before ''status'');
          expected_name = stripped_text (dget expected ''expected_name'');
          observed_name = stripped_text (dget observed_before ''name'');
          expected_status = normalize_vm_status (dget expected ''expected_status'')
      in if truthy (dget observed_before ''template'')
         then Inl (blocked ''VM_START_TEMPLATE_BLOCKED'' ''VM start is blocked for templates'')
         else if expected_name \<noteq> [] \<and> observed_name \<noteq> expected_name
         then Inl (blocked ''VM_START_CONTEXT_MISMATCH'' (''VM start context mismatch: expected name ''
                @ expected_name @ '', observed '' @ or_unknown observed_name))
         else if expected_status \<noteq> [] \<and> status \<noteq> expected_status
         then Inl (blocked ''VM_START_CONTEXT_MISMATCH'' (''VM start context mismatch: expected status ''
                @ expected_status @ '', observed '' @ or_unknown status))
         else if status \<noteq> ''stopped''
         then Inl (blocked ''VM_START_NON_STOPPED_BLOCKED'' (''VM start requires a stopped VM; observed ''
                @ or_unknown status))
         else Inr \<lparr>pre_target = target, pre_observed_before = observed_before, pre_expected = expected\<rparr>)"

definition evaluate_vm_start_precheck :: "pyval list \<Rightarrow> pyval list \<Rightarrow> string \<Rightarrow> int \<Rightarrow> pydict
    \<Rightarrow> start_blocked + start_precheck" where
  "evaluate_vm_start_precheck vms templates node_id vmid payload =
     (let expected = vm_start_expected_context payload;
          target = vm_start_target node_id vmid (text_or_empty (dget expected ''expected_name''));
          (exact_vm, moved_vm) = find_exact_vm vms node_id vmid;
          renamed = (\<lambda>observed. dset ''name'' (PStr (observed_name_or observed target)) target)
      in case find_vm_template templates node_id vmid of
           Some t \<Rightarrow> Inl \<lparr>sb_code = ''VM_START_TEMPLATE_BLOCKED'', sb_message = ''VM start is blocked for templates'',
             sb_target = renamed (dict_of t), sb_expected = expected,
             sb_observed_before = dset ''template'' (PBool True) (dict_of t)\<rparr>
         | None \<Rightarrow> (case exact_vm of
               None \<Rightarrow> (case moved_vm of
                   Some vm \<Rightarrow> Inl \<lparr>sb_code = ''VM_START_MOVED_BLOCKED'',
                     sb_message = ''VM start target moved from the requested node'',
                     sb_target = renamed (dict_of vm), sb_expected = expected, sb_observed_before = dict_of vm\<rparr>
                 | None \<Rightarrow> Inl \<lparr>sb_code = ''VM_START_MISSING_BLOCKED'',
                     sb_message = ''VM start target was not found in fresh inventory'',
                     sb_target = target, sb_expected = expected, sb_observed_before = []\<rparr>)
             | Some vm \<Rightarrow> start_state_block expected
                 (vm_start_target node_id vmid (observed_name_or (dict_of vm) target)) (dict_of vm)))"

section \<open>The Operation\<close>

definition start_spec :: "sha \<Rightarrow> start_command \<Rightarrow> string \<Rightarrow> string \<Rightarrow> operation_spec" where
  "start_spec sha command operation_id idempotency_key =
     (let intent = start_intent command
      in \<lparr>sp_operation_id = operation_id, sp_operation_type = ''vm_start'', sp_execution_mode = ''managed_api'',
          sp_target_type = ''proxmox_vm'', sp_target_id = vm_start_target_lock_id (sc_vmid command),
          sp_idempotency_key = idempotency_key, sp_intent_digest = operation_digest sha intent,
          sp_plan_digest = operation_digest sha [(''schema'', PStr ''vm_start_plan.v1''), (''intent'', PDict intent)],
          sp_actor = actor_from_mapping (sc_actor command), sp_initial_status = ''planned'',
          sp_initial_stage = ''plan'', sp_expires_at = None,
          sp_details = [(''job_id'', PStr operation_id),
            (''target'', PDict [(''node_id'', PStr (sc_node_id command)), (''vmid'', PInt (sc_vmid command))]),
            (''recovery_contract'', PStr PRE_DISPATCH_RECOVERY_CONTRACT)]\<rparr>)"

definition start_created_payload :: "start_command \<Rightarrow> string \<Rightarrow> pydict" where
  "start_created_payload command operation_id =
     [(''job_id'', PStr operation_id), (''intent'', PDict (start_intent command)),
      (''recovery_contract'', PStr PRE_DISPATCH_RECOVERY_CONTRACT)]"

definition prepare_vm_start_operation :: "sha \<Rightarrow> flow_env \<Rightarrow> start_command \<Rightarrow> string \<Rightarrow> string \<Rightarrow> create_result io" where
  "prepare_vm_start_operation sha fe command operation_id idempotency_key =
     (let spec = start_spec sha command operation_id idempotency_key
      in io_bind (io_of (spec_post_init spec)) (\<lambda>_. tx fe (\<lambda>k d.
           store_create sha d (fe_event_now fe k) (fe_event_id fe k) spec (start_created_payload command operation_id))))"

definition transition_vm_start_operation :: "sha \<Rightarrow> flow_env \<Rightarrow> string \<Rightarrow> string \<Rightarrow> string \<Rightarrow> string \<Rightarrow> pydict
    \<Rightarrow> pydict \<Rightarrow> string list option \<Rightarrow> operation_snapshot io" where
  "transition_vm_start_operation sha fe operation_id next_status event_type stage payload details_patch expected_statuses =
     tx fe (\<lambda>k d. store_transition sha d (fe_event_now fe k) (fe_event_id fe k) operation_id next_status
       event_type stage payload details_patch None expected_statuses)"

end
