(* ===== verification/VmStartPorts.thy ===== *)
theory VmStartPorts
  imports VmStart
begin

text \<open>
  The ports of the VM start workflow, \<open>app/operations/vm_start/ports.py\<close>, the adapters of
  \<open>app/vm_actions/start.py\<close> and the lock helpers of \<open>workflow.py\<close>. The operation store, the recovery store and the
  target locks are the models of the other theories; the Proxmox client, the inventory, the job
  files and the artifact files are functions of the step. An error carries its code and HTTP
  status; the texts and details of errors are not modelled.
\<close>

section \<open>Ports\<close>

text \<open>
  A client call either fails with \<open>ProxmoxMutationError\<close>, whose details are the left case, or
  answers; other exceptions are the outer \<open>Inl\<close>. \<open>cl_polls\<close> is the number of heartbeats while the
  client waits for a task, \<open>cl_connection\<close> the compacted connection evidence.
\<close>

record start_client =
  cl_start :: "nat \<Rightarrow> string \<Rightarrow> int \<Rightarrow> (pydict + pyval) result"
  cl_polls :: "nat \<Rightarrow> nat"
  cl_wait :: "nat \<Rightarrow> string \<Rightarrow> string \<Rightarrow> (pydict + pydict) result"
  cl_status :: "nat \<Rightarrow> string \<Rightarrow> int \<Rightarrow> (pydict + pydict) result"
  cl_connection :: pydict

text \<open>The keyword arguments of \<open>jobs.record\<close>.\<close>

record job_update =
  ju_job_id :: string
  ju_job_type :: string
  ju_status :: string
  ju_target_id :: string
  ju_risk_level :: string
  ju_stage :: string
  ju_step_status :: string
  ju_message :: string
  ju_artifacts :: "pydict list option"
  ju_risks :: "pyval list"
  ju_details :: pydict

record start_ports =
  pp_cluster :: string
  pp_recovery :: bool
  pp_lease_us :: int
  pp_list_vms :: "nat \<Rightarrow> pyval list result"
  pp_list_templates :: "nat \<Rightarrow> pyval list result"
  pp_client :: "nat \<Rightarrow> (pydict + start_client option) result"
  pp_job_get :: "nat \<Rightarrow> string \<Rightarrow> pydict option result"
  pp_job_record :: "nat \<Rightarrow> job_update \<Rightarrow> pydict result"
  pp_write_json :: "nat \<Rightarrow> string \<Rightarrow> string \<Rightarrow> string \<Rightarrow> pydict \<Rightarrow> pydict result"

text \<open>\<open>_CurrentVmStartMutationAdapter\<close>: failures keep allowlisted details, answers are compacted.\<close>

definition adapted :: "('a \<Rightarrow> 'b) \<Rightarrow> (pydict + 'a) result \<Rightarrow> (pydict + 'b) result" where
  "adapted compact r = ebind r (\<lambda>a. Inr (case a of
     Inl details \<Rightarrow> Inl (compact_proxmox_error_details details) | Inr x \<Rightarrow> Inr (compact x)))"

definition adapter_start_vm :: "start_client \<Rightarrow> nat \<Rightarrow> string \<Rightarrow> int \<Rightarrow> (pydict + pyval) result" where
  "adapter_start_vm cl k node vmid = adapted (\<lambda>v. v) (cl_start cl k node vmid)"

definition adapter_wait_for_task :: "start_client \<Rightarrow> nat \<Rightarrow> string \<Rightarrow> string \<Rightarrow> (pydict + pydict) result" where
  "adapter_wait_for_task cl k node upid =
     adapted (\<lambda>task. compact_proxmox_task task node upid) (cl_wait cl k node upid)"

definition adapter_get_vm_status :: "start_client \<Rightarrow> nat \<Rightarrow> string \<Rightarrow> int \<Rightarrow> (pydict + pydict) result" where
  "adapter_get_vm_status cl k node vmid =
     adapted (\<lambda>status. compact_proxmox_vm_status status node vmid) (cl_status cl k node vmid)"

definition start_error :: "string \<Rightarrow> error" where
  "start_error code = FeatureError code 409"

section \<open>Target locks\<close>

record lock_handle =
  hd_evidence :: pydict
  hd_lock :: durable_lock

text \<open>What \<open>DurableTargetLockBusy.existing\<close> holds when \<open>acquire\<close> refuses.\<close>

definition busy_existing :: "setup_env \<Rightarrow> db \<Rightarrow> string \<Rightarrow> int \<Rightarrow> string \<Rightarrow> pydict" where
  "busy_existing env d cluster vmid operation_type =
     (let c = normalized_cluster cluster in
      case lock_current d c vmid of
        Some existing \<Rightarrow> durable_lock_dict existing
      | None \<Rightarrow> (case admit_mutation env d c vmid operation_type of
            Inl (FeatureError code status) \<Rightarrow> [(''reason'', PStr code)]
          | Inl e \<Rightarrow> []
          | Inr _ \<Rightarrow> (case find (\<lambda>r. lk_cluster_id r = c \<and> lk_scope_type r = ''proxmox_configuration''
                  \<and> lock_open r) (db_locks d) of
                Some host \<Rightarrow> [(''reason'', PStr ''HOST_CONFIGURATION_IN_PROGRESS''),
                  (''owner_id'', opt_val (\<lambda>s. PStr s) (lk_owner_id host))]
              | None \<Rightarrow> [])))"

text \<open>\<open>TargetOperationLockBusy.to_dict\<close>\<close>

definition busy_evidence :: "string \<Rightarrow> string \<Rightarrow> string \<Rightarrow> pydict \<Rightarrow> pydict" where
  "busy_evidence target_type target_id owner_id existing =
     [(''target_type'', PStr target_type), (''target_id'', PStr target_id),
      (''requested_owner_id'', PStr owner_id), (''existing'', PDict existing)]"

definition start_handle :: "string \<Rightarrow> string \<Rightarrow> string \<Rightarrow> durable_lock \<Rightarrow> lock_handle" where
  "start_handle target_type target_id owner_id lock =
     \<lparr>hd_evidence = dset ''owner_id'' (PStr owner_id) (lock_handle_dict target_type target_id lock), hd_lock = lock\<rparr>"

text \<open>\<open>locks.acquire_target\<close>: the left case is \<open>VmStartTargetLockBusy\<close> with its evidence.\<close>

definition acquire_start_target :: "flow_env \<Rightarrow> start_ports \<Rightarrow> string \<Rightarrow> int \<Rightarrow> string \<Rightarrow> (pydict + lock_handle) io" where
  "acquire_start_target fe pp target_id vmid operation_id = tx fe (\<lambda>k d.
     let ae = fe_admission fe k in
     case acquire_target_lock (ae_setup ae) d (ae_lock_now ae) (ae_lock_ids ae vmid) (pp_cluster pp) ''proxmox_vm''
            target_id operation_id ''vm_start'' of
       Inl (DurableTargetLockBusy scope_key) \<Rightarrow> Inr (d, Inl (busy_evidence ''proxmox_vm'' target_id operation_id
         (busy_existing (ae_setup ae) d (pp_cluster pp) vmid ''vm_start'')))
     | Inl e \<Rightarrow> Inl e
     | Inr (d', lock) \<Rightarrow> Inr (d', Inr (start_handle ''proxmox_vm'' target_id operation_id lock)))"

definition release_start_target :: "flow_env \<Rightarrow> lock_handle \<Rightarrow> unit io" where
  "release_start_target fe held = tx fe (\<lambda>k d.
     Inr (release_target_lock d (ae_lock_now (fe_admission fe k)) (hd_lock held), ()))"

definition lock_evidence :: "lock_handle \<Rightarrow> bool \<Rightarrow> pydict" where
  "lock_evidence held retained =
     dset ''status'' (PStr (if retained then ''reconciliation_required'' else ''active'')) (hd_evidence held)"

definition required_target_lock_binding :: "lock_handle \<Rightarrow> string \<Rightarrow> int \<Rightarrow> (pydict \<times> pydict) result" where
  "required_target_lock_binding held operation_id vmid =
     (let lock = lock_evidence held False; durable = dict_of (dget lock ''durable'');
          cluster_id = stripped_text (dget durable ''cluster_id'');
          found_vmid = (case int_or_zero (dget durable ''vmid'') of Inr i \<Rightarrow> i | Inl _ \<Rightarrow> 0)
      in if text_or_empty (dget lock ''target_type'') \<noteq> ''proxmox_vm''
            \<or> text_or_empty (dget lock ''target_id'') \<noteq> vm_start_target_lock_id vmid
            \<or> text_or_empty (dget lock ''owner_id'') \<noteq> operation_id
            \<or> stripped_text (dget lock ''lock_id'') = []
            \<or> stripped_text (dget durable ''operation_lock_id'') = []
            \<or> text_or_empty (dget durable ''operation_type'') \<noteq> ''vm_start''
            \<or> text_or_empty (dget durable ''owner_id'') \<noteq> operation_id
            \<or> text_or_empty (dget durable ''scope_type'') \<noteq> ''proxmox_locator''
            \<or> text_or_empty (dget durable ''scope_key'') \<noteq> locator_scope_key cluster_id vmid
            \<or> text_or_empty (dget durable ''status'') \<noteq> ''active''
            \<or> cluster_id = [] \<or> found_vmid \<noteq> vmid
         then Inl (PyError ValueError) else Inr (lock, durable))"

definition no_effect_marker :: "lock_handle \<Rightarrow> string \<Rightarrow> pydict" where
  "no_effect_marker held reason =
     (let durable = dict_of (dget (lock_evidence held False) ''durable'')
      in [(''pre_dispatch_terminal_no_effect'', PBool True), (''mutation_dispatched'', PBool False),
          (''pre_dispatch_terminal_reason'', PStr reason),
          (''target_lock_id'', PStr (text_or_empty (dget durable ''operation_lock_id''))),
          (''cluster_id'', PStr (text_or_empty (dget durable ''cluster_id'')))])"

definition conflicting_operation_id :: "pydict \<Rightarrow> string option" where
  "conflicting_operation_id lock =
     (let existing = dict_of (dget lock ''existing'');
          operation_id = stripped_text (py_or (dget existing ''owner_id'') (dget existing ''operation_id''))
      in if operation_id = [] then None else Some operation_id)"

definition is_http_4xx_rejection :: "pydict \<Rightarrow> bool" where
  "is_http_4xx_rejection details =
     (case py_int (dget details ''status_code'') of
        Inl _ \<Rightarrow> False
      | Inr c \<Rightarrow> 400 \<le> c \<and> c < 500 \<and> c \<notin> {408, 425, 429})"

end
