(* ===== verification/VmStartWorkflow.thy ===== *)
theory VmStartWorkflow
  imports VmStartPorts
begin

text \<open>
  The VM start workflow, \<open>app/operations/vm_start/workflow.py\<close>. An error carries its code and
  HTTP status; the texts and details of errors are not modelled.
\<close>

section \<open>Local state\<close>

text \<open>The variables of \<open>_execute_vm_start_workflow\<close> that are fixed once the target lock is held.\<close>

record start_run =
  sr_job_id :: string
  sr_key :: string
  sr_node_id :: string
  sr_vmid :: int
  sr_payload :: pydict
  sr_actor :: pydict
  sr_intent :: pydict
  sr_lock :: lock_handle

definition texts :: "string list \<Rightarrow> pyval" where
  "texts xs = PList (map (\<lambda>x. PStr x) xs)"

section \<open>Jobs\<close>

definition start_target_text :: "string \<Rightarrow> int \<Rightarrow> string \<Rightarrow> string" where
  "start_target_text node_id vmid name =
     node_id @ '':'' @ show_int vmid @ (if name = [] then [] else '':'' @ name)"

definition actor_detail_fields :: "pydict \<Rightarrow> pydict" where
  "actor_detail_fields actor =
     (if actor = [] then []
      else let user_id = text_or_empty (dget actor ''user_id''); username = text_or_empty (dget actor ''username'');
               role = text_or_empty (dget actor ''role'')
           in [(''actor'', PDict [(''user_id'', PStr user_id), (''username'', PStr username), (''role'', PStr role)]),
               (''actor_user_id'', PStr user_id), (''actor_username'', PStr username), (''actor_role'', PStr role)])"

definition stored_vm_start_intent :: "pydict \<Rightarrow> pydict" where
  "stored_vm_start_intent job = dict_of (dget (dict_of (dget job ''details'')) ''vm_start_intent'')"

definition ensure_replay_matches_intent :: "pydict \<Rightarrow> pydict \<Rightarrow> unit result" where
  "ensure_replay_matches_intent job requested_intent =
     raise_if (stored_vm_start_intent job \<noteq> []
         \<and> \<not> py_eq (PDict (stored_vm_start_intent job)) (PDict requested_intent))
       (start_error ''VM_START_IDEMPOTENCY_CONFLICT'')"

definition start_job_update :: "start_run \<Rightarrow> string \<Rightarrow> string \<Rightarrow> string \<Rightarrow> string \<Rightarrow> pydict \<Rightarrow> pydict list option
    \<Rightarrow> pydict \<Rightarrow> job_update result" where
  "start_job_update sr status stage step_status message target artifacts details =
     ebind (int_or_zero (dget target ''vmid'')) (\<lambda>vmid. Inr
       \<lparr>ju_job_id = sr_job_id sr, ju_job_type = ''vm_start'', ju_status = status,
        ju_target_id = start_target_text (text_or_empty (dget target ''node_id'')) vmid
          (text_or_empty (dget target ''name'')),
        ju_risk_level = ''unknown'', ju_stage = stage, ju_step_status = step_status, ju_message = message,
        ju_artifacts = artifacts, ju_risks = [],
        ju_details = dmerge (dset ''vm_start_intent'' (PDict (sr_intent sr))
          (dmerge [(''target'', PDict target)] details)) (actor_detail_fields (sr_actor sr))\<rparr>)"

text \<open>The job adapter masks secrets before it records.\<close>

definition record_vm_start_job :: "start_ports \<Rightarrow> start_run \<Rightarrow> string \<Rightarrow> string \<Rightarrow> string \<Rightarrow> string \<Rightarrow> pydict
    \<Rightarrow> pydict list option \<Rightarrow> pydict \<Rightarrow> pydict io" where
  "record_vm_start_job pp sr status stage step_status message target artifacts details =
     io_bind (io_of (start_job_update sr status stage step_status message target artifacts details)) (\<lambda>ju.
       ext_read (\<lambda>k. pp_job_record pp k (ju\<lparr>ju_details := sanitized (ju_details ju)\<rparr>)))"

definition result_from_existing :: "pydict \<Rightarrow> pydict" where
  "result_from_existing job =
     (let details = dict_of (dget job ''details''); stored = dict_of (dget details ''vm_start_result'');
          target = (case dget details ''target'' of PDict t \<Rightarrow> PDict t | _ \<Rightarrow> dget_or stored ''target'' (PDict []))
      in dmerge stored
           [(''job_id'', dget job ''job_id''), (''status'', dget job ''status''), (''target'', target),
            (''idempotent_replay'', PBool True), (''proxmox_mutation_enabled'', PBool False),
            (''proxmox_mutation_ran_previously'',
               PBool (dget stored ''proxmox_mutation_enabled'' = PBool True)),
            (''message'', py_or (py_or (dget job ''message'') (dget stored ''message''))
               (PStr ''Existing VM start job returned for idempotency key''))])"

definition is_recoverable_replay :: "pydict \<Rightarrow> operation_snapshot option \<Rightarrow> bool" where
  "is_recoverable_replay job operation = (case operation of
     None \<Rightarrow> False
   | Some sn \<Rightarrow>
       sn_status sn = ''planned''
       \<and> dget (sn_details sn) ''recovery_contract'' = PStr PRE_DISPATCH_RECOVERY_CONTRACT
       \<and> (let result = dict_of (dget (dict_of (dget job ''details'')) ''vm_start_result'')
          in dget job ''status'' = PStr ''failed''
             \<and> dget result ''proxmox_start_ran'' = PBool False
             \<and> dget result ''proxmox_mutation_enabled'' = PBool False
             \<and> (dget result ''pre_dispatch_no_effect_verified'' = PBool True
                \<or> dget result ''pre_dispatch_file_guard_cleaned'' = PBool True)))"

definition job_get :: "start_ports \<Rightarrow> string \<Rightarrow> pydict option io" where
  "job_get pp job_id = ext_read (\<lambda>k. pp_job_get pp k job_id)"

section \<open>Commits under the lease\<close>

definition start_lease_lost :: error where
  "start_lease_lost = FeatureError ''VM_START_RECOVERY_LEASE_LOST'' 503"

text \<open>\<open>except RecoveryLeaseLost\<close>\<close>

definition lease_checked :: "'a io \<Rightarrow> 'a io" where
  "lease_checked m = io_catch m
     (\<lambda>e. io_of (Inl (case e of RecoveryLeaseLost _ \<Rightarrow> start_lease_lost | _ \<Rightarrow> e))) io_return"

text \<open>
  The repeated shape of the workflow: with a lease \<open>commit_observation\<close>, whose item renews the
  lease; without recovery the plain transition of the Operation.
\<close>

definition start_checkpoint :: "sha \<Rightarrow> flow_env \<Rightarrow> string \<Rightarrow> recovery_lease option \<Rightarrow> string \<Rightarrow> commit_request
    \<Rightarrow> recovery_lease option io" where
  "start_checkpoint sha fe job_id lease next_status q = (case lease of
     Some l \<Rightarrow> io_bind (lease_checked (commit_io sha fe l (q\<lparr>cq_next_status := Some next_status\<rparr>)))
       (\<lambda>(operation, item). io_return (Some (renewed l item)))
   | None \<Rightarrow> io_bind (transition_vm_start_operation sha fe job_id next_status (cq_event_type q) (cq_stage q)
         (cq_payload q) (cq_details_patch q) (cq_expected_statuses q))
       (\<lambda>_. io_return None))"

definition projection_recorded_commit :: "string \<Rightarrow> string \<Rightarrow> commit_request" where
  "projection_recorded_commit stage operation_status =
     (commit_defaults ''recovery_compatibility_projection_recorded'' stage ''completed'')
       \<lparr>cq_payload := [(''operation_status'', PStr operation_status)],
        cq_expected_statuses := Some [operation_status], cq_release_target_lock := True\<rparr>"

section \<open>Evidence\<close>

definition recovery_task_payload :: "pydict \<Rightarrow> pydict" where
  "recovery_task_payload task = compact_proxmox_task task [] []"

definition recovery_observed_payload :: "pydict \<Rightarrow> string \<Rightarrow> int \<Rightarrow> pydict" where
  "recovery_observed_payload observed node_id vmid =
     compact_proxmox_vm_status observed node_id vmid @
       [(''error'', PStr (if truthy (dget observed ''error'') then ''proxmox_vm_status_observation_unavailable'' else []))]"

definition target_locator :: "pydict \<Rightarrow> (string \<times> int) result" where
  "target_locator target = ebind (int_or_zero (dget target ''vmid'')) (\<lambda>vmid.
     Inr (text_or_empty (dget target ''node_id''), vmid))"

definition observe_status :: "start_client \<Rightarrow> string \<Rightarrow> int \<Rightarrow> pydict io" where
  "observe_status cl node_id vmid =
     io_bind (ext_read (\<lambda>k. adapter_get_vm_status cl k node_id vmid)) (\<lambda>a. io_return (case a of
       Inl details \<Rightarrow> [(''error'', PStr ''proxmox_vm_status_observation_unavailable'')]
     | Inr status \<Rightarrow> status))"

definition write_observed_artifact :: "start_ports \<Rightarrow> start_run \<Rightarrow> start_client \<Rightarrow> start_precheck \<Rightarrow> pydict
    \<Rightarrow> pydict \<Rightarrow> pydict io" where
  "write_observed_artifact pp sr cl pre task observed_after =
     io_bind (io_of (target_locator (pre_target pre))) (\<lambda>(node_id, vmid). ext_read (\<lambda>k.
       pp_write_json pp k (sr_job_id sr) ''vm_start_observed_after'' ''vm_start_observed_after.json''
         (dmerge
           [(''job_id'', PStr (sr_job_id sr)), (''operation'', PStr ''vm_start''), (''target'', PDict (pre_target pre)),
            (''idempotency_key'', PStr (sr_key sr)), (''expected'', PDict (pre_expected pre)),
            (''observed_before'', PDict (pre_observed_before pre)), (''task'', PDict (recovery_task_payload task)),
            (''observed_after'', PDict (recovery_observed_payload observed_after node_id vmid)),
            (''evidence'', PDict [(''connection'', PDict (cl_connection cl)),
               (''observation_kinds'', texts [''vm_start'', ''task_status'', ''vm_status''])])]
           (actor_detail_fields (sr_actor sr)))))"

section \<open>The handoff after a failed write\<close>

record handoff =
  ho_code :: string
  ho_event_type :: string
  ho_stage :: string
  ho_operation_status :: string
  ho_side_effects :: "string list"
  ho_evidence_status :: string
  ho_next_status :: "string option"
  ho_recovery_error_code :: string
  ho_recovery_status :: string

definition swallow :: "'a io \<Rightarrow> 'a option io" where
  "swallow m = io_catch m (\<lambda>_. io_return None) (\<lambda>x. io_return (Some x))"

definition handoff_commit :: "handoff \<Rightarrow> pydict \<Rightarrow> pydict \<Rightarrow> commit_request" where
  "handoff_commit ho task_payload observed_payload =
     (commit_defaults (ho_event_type ho) (ho_stage ho) (ho_recovery_status ho))
       \<lparr>cq_next_status := ho_next_status ho,
        cq_payload := [(''code'', PStr (ho_code ho)), (''evidence_status'', PStr (ho_evidence_status ho)),
          (''side_effects'', texts (ho_side_effects ho))],
        cq_details_patch := [(''reconciliation_code'', PStr (ho_code ho)),
          (''evidence_status'', PStr (ho_evidence_status ho))],
        cq_expected_statuses := Some [ho_operation_status ho],
        cq_error_code := Some (ho_recovery_error_code ho),
        cq_recovery_details_patch := [(''phase'', PStr (ho_stage ho)),
          (''evidence_status'', PStr (ho_evidence_status ho)), (''evidence_error_code'', PStr (ho_code ho)),
          (''task'', PDict task_payload), (''observed_after'', PDict observed_payload)]\<rparr>"

text \<open>The write of the handoff; no failure of it leaves the function.\<close>

definition handoff_write :: "sha \<Rightarrow> flow_env \<Rightarrow> string \<Rightarrow> recovery_lease option \<Rightarrow> handoff \<Rightarrow> pydict \<Rightarrow> pydict
    \<Rightarrow> operation_snapshot option io" where
  "handoff_write sha fe job_id lease ho task_payload observed_payload =
     (let q = handoff_commit ho task_payload observed_payload in case lease of
        Some l \<Rightarrow> io_bind (swallow (commit_io sha fe l q)) (\<lambda>committed. case committed of
            Some (operation, item) \<Rightarrow> io_return (Some operation)
          | None \<Rightarrow> io_bind (swallow (tx fe (\<lambda>k d. Inr (d, recovery_get d job_id)))) (\<lambda>_. io_return None))
      | None \<Rightarrow> (case ho_next_status ho of
            None \<Rightarrow> io_return None
          | Some next_status \<Rightarrow> swallow (transition_vm_start_operation sha fe job_id next_status (cq_event_type q)
              (cq_stage q) (cq_payload q) (cq_details_patch q) (cq_expected_statuses q))))"

definition persistence_failure_handoff :: "sha \<Rightarrow> flow_env \<Rightarrow> start_ports \<Rightarrow> string \<Rightarrow> recovery_lease option
    \<Rightarrow> pydict \<Rightarrow> pydict \<Rightarrow> pydict \<Rightarrow> handoff \<Rightarrow> 'a io" where
  "persistence_failure_handoff sha fe pp job_id lease target task observed_after ho =
     io_bind (io_of (target_locator target)) (\<lambda>(node_id, vmid).
     io_bind (handoff_write sha fe job_id lease ho (recovery_task_payload task)
         (recovery_observed_payload observed_after node_id vmid)) (\<lambda>committed.
     io_bind (if committed = None then io_bind (swallow (get_io fe job_id)) (\<lambda>_. io_return ()) else io_return ()) (\<lambda>_.
     io_bind (swallow (job_get pp job_id)) (\<lambda>_.
       io_of (Inl (FeatureError (ho_code ho) 503))))))"

definition evidence_handoff :: "string \<Rightarrow> string \<Rightarrow> string list \<Rightarrow> string \<Rightarrow> handoff" where
  "evidence_handoff operation_status stage side_effects upid =
     \<lparr>ho_code = ''VM_START_OBSERVED_EVIDENCE_PERSISTENCE_UNAVAILABLE'',
      ho_event_type = ''observed_evidence_persistence_failed'', ho_stage = stage,
      ho_operation_status = operation_status, ho_side_effects = side_effects,
      ho_evidence_status = ''persistence_failed'', ho_next_status = Some ''needs_reconciliation'',
      ho_recovery_error_code = (if upid \<noteq> [] then ''VM_START_OBSERVED_EVIDENCE_PERSISTENCE_UNAVAILABLE''
        else ''VM_START_RECOVERY_TASK_REFERENCE_MISSING''),
      ho_recovery_status = (if upid \<noteq> [] then ''retry_wait'' else ''paused'')\<rparr>"

definition artifact_or_handoff :: "sha \<Rightarrow> flow_env \<Rightarrow> start_ports \<Rightarrow> start_run \<Rightarrow> start_client \<Rightarrow> start_precheck
    \<Rightarrow> recovery_lease option \<Rightarrow> pydict \<Rightarrow> pydict \<Rightarrow> string \<Rightarrow> string \<Rightarrow> string list \<Rightarrow> pydict io" where
  "artifact_or_handoff sha fe pp sr cl pre lease task observed_after operation_status stage side_effects =
     io_catch (write_observed_artifact pp sr cl pre task observed_after)
       (\<lambda>_. persistence_failure_handoff sha fe pp (sr_job_id sr) lease (pre_target pre) task observed_after
          (evidence_handoff operation_status stage side_effects (stripped_text (dget task ''upid''))))
       io_return"

definition projection_handoff :: "string \<Rightarrow> string list \<Rightarrow> string \<Rightarrow> handoff" where
  "projection_handoff operation_status side_effects evidence_status =
     \<lparr>ho_code = ''VM_START_COMPATIBILITY_PROJECTION_PERSISTENCE_UNAVAILABLE'',
      ho_event_type = ''compatibility_projection_persistence_failed'', ho_stage = ''reconciliation'',
      ho_operation_status = operation_status, ho_side_effects = side_effects,
      ho_evidence_status = evidence_status, ho_next_status = None,
      ho_recovery_error_code = ''VM_START_COMPATIBILITY_PROJECTION_PERSISTENCE_UNAVAILABLE'',
      ho_recovery_status = ''retry_wait''\<rparr>"

section \<open>Reconciliation\<close>

definition reconciliation_commit :: "string \<Rightarrow> string \<Rightarrow> string \<Rightarrow> pydict \<Rightarrow> pydict \<Rightarrow> string list \<Rightarrow> pydict
    \<Rightarrow> string \<Rightarrow> commit_request" where
  "reconciliation_commit code message stage task observed_after side_effects target upid =
     (commit_defaults ''reconciliation_required'' stage (if upid = [] then ''paused'' else ''retry_wait''))
       \<lparr>cq_payload := [(''code'', PStr code), (''message'', PStr message), (''task'', PDict task),
          (''observed_after'', PDict observed_after), (''side_effects'', texts side_effects)],
        cq_details_patch := [(''reconciliation_code'', PStr code)],
        cq_expected_statuses := Some [''dispatching'', ''running'', ''verifying''],
        cq_retry_delay := (if upid = [] then 0 else 30000000), cq_error_code := Some code,
        cq_recovery_details_patch := [(''upid'', PStr upid), (''node_id'', dget target ''node_id''),
          (''vmid'', dget target ''vmid'')]\<rparr>"

definition reconciliation_result :: "start_run \<Rightarrow> start_precheck \<Rightarrow> string \<Rightarrow> string \<Rightarrow> pydict \<Rightarrow> pydict \<Rightarrow> pydict
    \<Rightarrow> string \<Rightarrow> string list \<Rightarrow> pydict" where
  "reconciliation_result sr pre code message task observed_after artifact upid side_effects =
     [(''job_id'', PStr (sr_job_id sr)), (''status'', PStr ''needs_reconciliation''), (''code'', PStr code),
      (''message'', PStr message), (''target'', PDict (pre_target pre)), (''task'', PDict task), (''upid'', PStr upid),
      (''observed_before'', PDict (pre_observed_before pre)), (''observed_after'', PDict observed_after),
      (''observed_after_artifact'', PDict artifact),
      (''artifacts'', PList (if artifact = [] then [] else [PDict artifact])),
      (''idempotency_key'', PStr (sr_key sr)), (''reconciliation_required'', PBool True),
      (''target_operation_lock'', PDict (lock_evidence (sr_lock sr) True)),
      (''proxmox_mutation_enabled'', PBool True), (''side_effects'', texts side_effects)]"

definition record_reconciliation_required :: "sha \<Rightarrow> flow_env \<Rightarrow> start_ports \<Rightarrow> start_run \<Rightarrow> start_precheck
    \<Rightarrow> recovery_lease option \<Rightarrow> string \<Rightarrow> string \<Rightarrow> string \<Rightarrow> pydict \<Rightarrow> pydict \<Rightarrow> pydict \<Rightarrow> string \<Rightarrow> string list
    \<Rightarrow> 'a io" where
  "record_reconciliation_required sha fe pp sr pre lease code message stage task observed_after artifact upid side_effects =
     (let target = pre_target pre in
      io_bind (io_of (target_locator target)) (\<lambda>(node_id, vmid).
      let compact_task = recovery_task_payload task;
          compact_observed = recovery_observed_payload observed_after node_id vmid;
          result = reconciliation_result sr pre code message compact_task compact_observed artifact upid side_effects in
      io_bind (start_checkpoint sha fe (sr_job_id sr) lease ''needs_reconciliation''
          (reconciliation_commit code message stage compact_task compact_observed side_effects target upid)) (\<lambda>_.
      io_bind (record_vm_start_job pp sr ''needs_reconciliation'' stage ''needs_reconciliation'' message target
          (Some (if artifact = [] then [] else [artifact]))
          [(''vm_start'', PDict [(''idempotency_key'', PStr (sr_key sr)), (''expected'', PDict (pre_expected pre)),
             (''observed_before'', PDict (pre_observed_before pre)), (''task'', PDict compact_task),
             (''observed_after'', PDict compact_observed), (''proxmox_mutation_enabled'', PBool True),
             (''reconciliation_required'', PBool True)]),
           (''vm_start_result'', PDict result), (''target_operation_lock'', PDict (lock_evidence (sr_lock sr) True))]) (\<lambda>_.
        io_of (Inl (start_error code))))))"

section \<open>A known outcome\<close>

text \<open>
  The end of the three branches whose outcome is known: the checkpoint, the job, the release of
  the lock by the last commit. \<open>final\<close> is what the branch returns or raises.
\<close>

definition start_conclude :: "sha \<Rightarrow> flow_env \<Rightarrow> start_ports \<Rightarrow> start_run \<Rightarrow> start_precheck \<Rightarrow> recovery_lease option
    \<Rightarrow> string \<Rightarrow> commit_request \<Rightarrow> string \<Rightarrow> string \<Rightarrow> pydict list option \<Rightarrow> pydict \<Rightarrow> pydict \<Rightarrow> pydict \<Rightarrow> handoff
    \<Rightarrow> pydict result \<Rightarrow> pydict result io" where
  "start_conclude sha fe pp sr pre lease next_status q job_status message artifacts result task observed_after ho final =
     io_bind (start_checkpoint sha fe (sr_job_id sr) lease next_status q) (\<lambda>lease.
     io_bind (io_catch (record_vm_start_job pp sr job_status (cq_stage q) job_status message (pre_target pre) artifacts
           [(''vm_start_result'', PDict result),
            (''target_operation_lock'', PDict (lock_evidence (sr_lock sr) False))])
         (\<lambda>_. persistence_failure_handoff sha fe pp (sr_job_id sr) lease (pre_target pre) task observed_after ho)
         (\<lambda>_. io_return ())) (\<lambda>_.
     io_bind (case lease of
         None \<Rightarrow> io_return ()
       | Some l \<Rightarrow> io_bind (lease_checked (commit_io sha fe l (projection_recorded_commit (cq_stage q) next_status)))
           (\<lambda>_. io_return ())) (\<lambda>_.
       io_return final)))"

section \<open>After the dispatch\<close>

text \<open>
  From the dispatch on the target lock is kept on every exception; the value returned here says
  that the outcome is known, by a result or by an error that is raised after the lock is free.
\<close>

definition start_rejected :: "sha \<Rightarrow> flow_env \<Rightarrow> start_ports \<Rightarrow> start_run \<Rightarrow> start_precheck \<Rightarrow> recovery_lease option
    \<Rightarrow> pydict \<Rightarrow> pydict result io" where
  "start_rejected sha fe pp sr pre lease error_details =
     (let message = ''Proxmox VM start request was rejected by the API'';
          side_effects = [''proxmox_start_request_rejected''];
          task = [(''node'', PStr (sr_node_id sr)), (''upid'', PStr []), (''status'', PStr ''failed''),
            (''error'', PStr ''proxmox_start_request_rejected''), (''details'', PDict error_details)];
          result = [(''job_id'', PStr (sr_job_id sr)), (''status'', PStr ''failed''), (''message'', PStr message),
            (''target'', PDict (pre_target pre)), (''task'', PDict task),
            (''observed_before'', PDict (pre_observed_before pre)), (''observed_after'', PDict []),
            (''artifacts'', PList []), (''idempotency_key'', PStr (sr_key sr)),
            (''target_operation_lock'', PDict (lock_evidence (sr_lock sr) False)),
            (''proxmox_mutation_enabled'', PBool False), (''side_effects'', texts side_effects)]
      in start_conclude sha fe pp sr pre lease ''failed''
           ((commit_defaults ''dispatch_rejected'' ''start'' ''leased'')
              \<lparr>cq_payload := [(''message'', PStr message), (''task'', PDict (recovery_task_payload task))],
               cq_expected_statuses := Some [''dispatching''], cq_error_code := Some ''VM_START_REQUEST_FAILED'',
               cq_recovery_details_patch := [(''phase'', PStr ''dispatch_rejected''),
                 (''terminal_outcome'', PStr ''failed''), (''task'', PDict (recovery_task_payload task)),
                 (''observed_after'', PDict [])]\<rparr>)
           ''failed'' message None result task []
           (projection_handoff ''failed'' side_effects ''not_required'')
           (Inl (start_error ''VM_START_REQUEST_FAILED'')))"

text \<open>The request may or may not have taken effect: an ambiguous failure, or no task reference.\<close>

definition start_unknown :: "sha \<Rightarrow> flow_env \<Rightarrow> start_ports \<Rightarrow> start_run \<Rightarrow> start_client \<Rightarrow> start_precheck
    \<Rightarrow> recovery_lease option \<Rightarrow> pydict \<Rightarrow> string \<Rightarrow> string list \<Rightarrow> pydict result io" where
  "start_unknown sha fe pp sr cl pre lease task message side_effects =
     io_bind (observe_status cl (sr_node_id sr) (sr_vmid sr)) (\<lambda>observed_after.
     io_bind (artifact_or_handoff sha fe pp sr cl pre lease task observed_after ''dispatching'' ''reconciliation''
         side_effects) (\<lambda>artifact.
       record_reconciliation_required sha fe pp sr pre lease ''VM_START_REQUEST_RECONCILIATION_REQUIRED'' message
         ''start'' task observed_after artifact [] side_effects))"

definition start_unanswered :: "sha \<Rightarrow> flow_env \<Rightarrow> start_ports \<Rightarrow> start_run \<Rightarrow> start_client \<Rightarrow> start_precheck
    \<Rightarrow> recovery_lease option \<Rightarrow> pydict \<Rightarrow> pydict result io" where
  "start_unanswered sha fe pp sr cl pre lease error_details =
     start_unknown sha fe pp sr cl pre lease
       [(''node'', PStr (sr_node_id sr)), (''upid'', PStr []), (''status'', PStr ''unknown''),
        (''exitstatus'', PStr ''unknown''), (''error'', PStr ''proxmox_start_request_state_unknown''),
        (''details'', PDict error_details)]
       ''Proxmox VM start request outcome is ambiguous and requires reconciliation''
       [''proxmox_start_request_ambiguous'', ''proxmox_post_check_observed'']"

definition start_without_task :: "sha \<Rightarrow> flow_env \<Rightarrow> start_ports \<Rightarrow> start_run \<Rightarrow> start_client \<Rightarrow> start_precheck
    \<Rightarrow> recovery_lease option \<Rightarrow> pydict result io" where
  "start_without_task sha fe pp sr cl pre lease =
     start_unknown sha fe pp sr cl pre lease
       [(''node'', PStr (sr_node_id sr)), (''upid'', PStr []), (''status'', PStr ''unknown''),
        (''exitstatus'', PStr ''unknown''), (''error'', PStr ''Proxmox start did not return a UPID'')]
       ''Proxmox VM start request did not return a UPID and requires reconciliation''
       [''proxmox_start_invoked'', ''proxmox_post_check_observed'']"

subsection \<open>Waiting for the task\<close>

fun start_heartbeats :: "flow_env \<Rightarrow> int \<Rightarrow> nat \<Rightarrow> recovery_lease \<Rightarrow> unit io" where
  "start_heartbeats fe us 0 lease = io_return ()"
| "start_heartbeats fe us (Suc n) lease =
     io_bind (tx fe (\<lambda>k d. heartbeat d (fe_now fe k) lease us)) (\<lambda>_. start_heartbeats fe us n lease)"

text \<open>The flag is \<open>task_poll_ambiguous\<close>.\<close>

definition await_start_task :: "flow_env \<Rightarrow> start_ports \<Rightarrow> start_run \<Rightarrow> start_client \<Rightarrow> recovery_lease option
    \<Rightarrow> string \<Rightarrow> (bool \<times> pydict) io" where
  "await_start_task fe pp sr cl lease upid =
     io_bind (case lease of
         None \<Rightarrow> io_return ()
       | Some l \<Rightarrow> io_bind (ext_read (\<lambda>k. Inr (cl_polls cl k))) (\<lambda>n.
           lease_checked (start_heartbeats fe (pp_lease_us pp) n l))) (\<lambda>_.
     io_bind (ext_read (\<lambda>k. adapter_wait_for_task cl k (sr_node_id sr) upid)) (\<lambda>a. io_return (case a of
         Inl details \<Rightarrow> (True, [(''node'', PStr (sr_node_id sr)), (''upid'', PStr upid), (''status'', PStr ''failed''),
           (''exitstatus'', PStr ''unknown''), (''error'', PStr ''proxmox_start_task_observation_unavailable''),
           (''details'', PDict (compact_proxmox_error_details details))])
       | Inr task \<Rightarrow> (False, task))))"

subsection \<open>Deciding the outcome\<close>

definition POLLED_SIDE_EFFECTS :: "string list" where
  "POLLED_SIDE_EFFECTS = [''proxmox_start_invoked'', ''proxmox_task_polled'', ''proxmox_post_check_observed'']"

definition start_result :: "start_run \<Rightarrow> start_precheck \<Rightarrow> string \<Rightarrow> string \<Rightarrow> pydict \<Rightarrow> string \<Rightarrow> pydict \<Rightarrow> pydict
    \<Rightarrow> pydict \<Rightarrow> pydict" where
  "start_result sr pre status message task upid observed_after artifact replayed =
     [(''job_id'', PStr (sr_job_id sr)), (''status'', PStr status), (''message'', PStr message),
      (''target'', PDict (pre_target pre)), (''task'', PDict task), (''upid'', PStr upid),
      (''observed_before'', PDict (pre_observed_before pre)), (''observed_after'', PDict observed_after),
      (''observed_after_artifact'', PDict artifact), (''artifacts'', PList [PDict artifact])] @ replayed @
     [(''idempotency_key'', PStr (sr_key sr)),
      (''target_operation_lock'', PDict (lock_evidence (sr_lock sr) False)),
      (''proxmox_mutation_enabled'', PBool True), (''side_effects'', texts POLLED_SIDE_EFFECTS)]"

definition start_failed :: "sha \<Rightarrow> flow_env \<Rightarrow> start_ports \<Rightarrow> start_run \<Rightarrow> start_precheck \<Rightarrow> recovery_lease option
    \<Rightarrow> pydict \<Rightarrow> pydict \<Rightarrow> pydict \<Rightarrow> string \<Rightarrow> pydict result io" where
  "start_failed sha fe pp sr pre lease task observed_after artifact upid =
     (let compact_task = recovery_task_payload task;
          compact_observed = recovery_observed_payload observed_after (sr_node_id sr) (sr_vmid sr);
          message = ''Proxmox VM start task failed.''
      in start_conclude sha fe pp sr pre lease ''failed''
           ((commit_defaults ''task_failed'' ''task_poll'' ''leased'')
              \<lparr>cq_payload := [(''task'', PDict compact_task), (''observed_after'', PDict compact_observed)],
               cq_expected_statuses := Some [''verifying''], cq_error_code := Some ''VM_START_TASK_FAILED'',
               cq_recovery_details_patch := [(''terminal_outcome'', PStr ''failed''),
                 (''task'', PDict compact_task), (''observed_after'', PDict compact_observed)]\<rparr>)
           ''failed'' message (Some [artifact])
           (start_result sr pre ''failed'' message compact_task upid compact_observed artifact [])
           task observed_after (projection_handoff ''failed'' POLLED_SIDE_EFFECTS ''recorded'')
           (Inl (start_error ''VM_START_TASK_FAILED'')))"

definition start_succeeded :: "sha \<Rightarrow> flow_env \<Rightarrow> start_ports \<Rightarrow> start_run \<Rightarrow> start_precheck \<Rightarrow> recovery_lease option
    \<Rightarrow> pydict \<Rightarrow> pydict \<Rightarrow> pydict \<Rightarrow> string \<Rightarrow> pydict result io" where
  "start_succeeded sha fe pp sr pre lease task observed_after artifact upid =
     (let compact_task = recovery_task_payload task;
          compact_observed = recovery_observed_payload observed_after (sr_node_id sr) (sr_vmid sr);
          message = ''VM start completed and the VM is running.'';
          result = start_result sr pre ''completed'' message compact_task upid compact_observed artifact
            [(''idempotent_replay'', PBool False)]
      in start_conclude sha fe pp sr pre lease ''succeeded''
           ((commit_defaults ''verification_succeeded'' ''post_check'' ''leased'')
              \<lparr>cq_payload := [(''task'', PDict compact_task), (''observed_after'', PDict compact_observed),
                 (''artifact'', PDict artifact)],
               cq_details_patch := [(''result_status'', PStr ''completed'')],
               cq_expected_statuses := Some [''verifying''],
               cq_recovery_details_patch := [(''terminal_outcome'', PStr ''succeeded''),
                 (''task'', PDict compact_task), (''observed_after'', PDict compact_observed)]\<rparr>)
           ''completed'' message (Some [artifact]) result task observed_after
           (projection_handoff ''succeeded'' POLLED_SIDE_EFFECTS ''recorded'') (Inr result))"

definition start_settle :: "sha \<Rightarrow> flow_env \<Rightarrow> start_ports \<Rightarrow> start_run \<Rightarrow> start_precheck \<Rightarrow> recovery_lease option
    \<Rightarrow> bool \<Rightarrow> pydict \<Rightarrow> pydict \<Rightarrow> pydict \<Rightarrow> string \<Rightarrow> pydict result io" where
  "start_settle sha fe pp sr pre lease task_poll_ambiguous task observed_after artifact upid =
     (let compact_task = recovery_task_payload task;
          compact_observed = recovery_observed_payload observed_after (sr_node_id sr) (sr_vmid sr);
          exitstatus = py_upper (text_or_empty (dget compact_task ''exitstatus''));
          observed_status = text_or_empty (dget compact_observed ''status'');
          reconcile = (\<lambda>code message stage. record_reconciliation_required sha fe pp sr pre lease code message stage
            task observed_after artifact upid POLLED_SIDE_EFFECTS)
      in if task_poll_ambiguous \<or> exitstatus = [] \<or> exitstatus = ''UNKNOWN''
         then reconcile ''VM_START_TASK_RECONCILIATION_REQUIRED''
                ''Proxmox VM start task status is unknown and requires reconciliation'' ''task_poll''
         else if exitstatus \<noteq> ''OK''
         then (if dget compact_task ''status'' \<noteq> PStr ''stopped'' \<or> observed_status \<noteq> ''stopped''
               then reconcile ''VM_START_TASK_RECONCILIATION_REQUIRED''
                 (''Proxmox VM start task failed but observed VM state is not safely stopped; ''
                  @ ''reconciliation is required'') ''task_poll''
               else start_failed sha fe pp sr pre lease task observed_after artifact upid)
         else if observed_status \<noteq> ''running''
         then reconcile ''VM_START_POST_CHECK_RECONCILIATION_REQUIRED''
                (''VM start post-check did not verify the expected running state; reconciliation is required'')
                ''post_check''
         else start_succeeded sha fe pp sr pre lease task observed_after artifact upid)"

end
