(* ===== verification/VmStartExecute.thy ===== *)
theory VmStartExecute
  imports VmStartWorkflow Accounts
begin

text \<open>
  The second part of \<open>app/operations/vm_start/workflow.py\<close>: from the request to the dispatch and
  \<open>_execute_vm_start_workflow\<close> as a whole, with its \<open>finally\<close> that frees the target lock.
\<close>

section \<open>Accepted by Proxmox\<close>

definition start_accepted :: "sha \<Rightarrow> flow_env \<Rightarrow> start_ports \<Rightarrow> start_run \<Rightarrow> start_client \<Rightarrow> start_precheck
    \<Rightarrow> recovery_lease option \<Rightarrow> string \<Rightarrow> pydict result io" where
  "start_accepted sha fe pp sr cl pre lease upid =
     (let node_id = sr_node_id sr; vmid = sr_vmid sr in
      io_bind (start_checkpoint sha fe (sr_job_id sr) lease ''running''
          ((commit_defaults ''dispatch_accepted'' ''task_poll'' ''leased'')
             \<lparr>cq_payload := [(''upid'', PStr upid), (''node_id'', PStr node_id)],
              cq_details_patch := [(''proxmox_upid'', PStr upid)], cq_expected_statuses := Some [''dispatching''],
              cq_recovery_details_patch := [(''upid'', PStr upid), (''node_id'', PStr node_id), (''vmid'', PInt vmid)]\<rparr>))
        (\<lambda>lease.
      io_bind (record_vm_start_job pp sr ''running'' ''task_poll'' ''running'' ''Proxmox VM start task is being polled.''
          (pre_target pre) None
          [(''vm_start'', PDict [(''idempotency_key'', PStr (sr_key sr)), (''expected'', PDict (pre_expected pre)),
             (''observed_before'', PDict (pre_observed_before pre)),
             (''task'', PDict [(''node'', PStr node_id), (''upid'', PStr upid)]),
             (''proxmox_mutation_enabled'', PBool True)]),
           (''target_operation_lock'', PDict (lock_evidence (sr_lock sr) False))]) (\<lambda>_.
      io_bind (await_start_task fe pp sr cl lease upid) (\<lambda>(task_poll_ambiguous, task).
      io_bind (observe_status cl node_id vmid) (\<lambda>observed_after.
      let evidence = [(''task'', PDict (recovery_task_payload task)),
            (''observed_after'', PDict (recovery_observed_payload observed_after node_id vmid))] in
      io_bind (start_checkpoint sha fe (sr_job_id sr) lease ''verifying''
          ((commit_defaults ''task_and_state_observed'' ''post_check'' ''leased'')
             \<lparr>cq_payload := evidence, cq_expected_statuses := Some [''running''],
              cq_recovery_details_patch := evidence\<rparr>)) (\<lambda>lease.
      io_bind (artifact_or_handoff sha fe pp sr cl pre lease task observed_after ''verifying'' ''post_check''
          POLLED_SIDE_EFFECTS) (\<lambda>artifact.
        start_settle sha fe pp sr pre lease task_poll_ambiguous task observed_after artifact upid)))))))"

section \<open>The dispatch\<close>

definition start_answered :: "sha \<Rightarrow> flow_env \<Rightarrow> start_ports \<Rightarrow> start_run \<Rightarrow> start_client \<Rightarrow> start_precheck
    \<Rightarrow> recovery_lease option \<Rightarrow> pydict + pyval \<Rightarrow> pydict result io" where
  "start_answered sha fe pp sr cl pre lease answer = (case answer of
     Inl details \<Rightarrow>
       if is_http_4xx_rejection details
       then start_rejected sha fe pp sr pre lease (compact_proxmox_error_details details)
       else start_unanswered sha fe pp sr cl pre lease (compact_proxmox_error_details details)
   | Inr v \<Rightarrow>
       let upid = text_or_empty (dget (compact_proxmox_task [] (sr_node_id sr) (stripped_text v)) ''upid'')
       in if upid = [] then start_without_task sha fe pp sr cl pre lease
          else start_accepted sha fe pp sr cl pre lease upid)"

definition start_dispatched :: "sha \<Rightarrow> flow_env \<Rightarrow> start_ports \<Rightarrow> start_run \<Rightarrow> start_client \<Rightarrow> start_precheck
    \<Rightarrow> recovery_lease option \<Rightarrow> pydict result io" where
  "start_dispatched sha fe pp sr cl pre lease =
     io_bind (ext_call (\<lambda>k. adapter_start_vm cl k (sr_node_id sr) (sr_vmid sr)) (sr_node_id sr) (sr_vmid sr) [])
       (start_answered sha fe pp sr cl pre lease)"

section \<open>Leaving the protected block\<close>

text \<open>
  Inside the \<open>try ... finally\<close> block the variable \<open>retain_target_lock\<close> says whether the lock
  stays when the block is left. A process of the block yields the value of that variable together
  with the result or the exception. \<open>exits keep m f\<close> runs \<open>m\<close> while the variable is \<open>keep\<close>.
\<close>

type_synonym exit_io = "(bool \<times> pydict result) io"

definition exits :: "bool \<Rightarrow> 'a io \<Rightarrow> ('a \<Rightarrow> exit_io) \<Rightarrow> exit_io" where
  "exits keep m f = io_catch m (\<lambda>e. io_return (keep, Inl e)) f"

definition holding :: "flow_env \<Rightarrow> lock_handle \<Rightarrow> exit_io \<Rightarrow> pydict io" where
  "holding fe lock m = io_bind m (\<lambda>(keep, r).
     if keep then io_of r else io_bind (release_start_target fe lock) (\<lambda>_. io_of r))"

section \<open>Before the dispatch\<close>

definition recovery_details :: "start_run \<Rightarrow> pydict \<Rightarrow> pydict" where
  "recovery_details sr durable =
     [(''node_id'', PStr (sr_node_id sr)), (''vmid'', PInt (sr_vmid sr)), (''target_type'', PStr ''proxmox_vm''),
      (''target_id'', PStr (vm_start_target_lock_id (sr_vmid sr))), (''operation_type'', PStr ''vm_start''),
      (''execution_mode'', PStr ''managed_api''), (''phase'', PStr ''pre_dispatch''),
      (''target_lock_id'', PStr (text_or_empty (dget durable ''operation_lock_id''))),
      (''cluster_id'', PStr (text_or_empty (dget durable ''cluster_id'')))]"

definition start_prepare_and_claim :: "flow_env \<Rightarrow> start_ports \<Rightarrow> string \<Rightarrow> string \<Rightarrow> pydict \<Rightarrow> int option
    \<Rightarrow> string option \<Rightarrow> recovery_lease io" where
  "start_prepare_and_claim fe pp job_id lease_owner details version checksum =
     (let spec = \<lparr>rs_operation_id = job_id, rs_recovery_kind = ''vm_start_observation'', rs_details = details\<rparr>
      in io_bind (io_of (recovery_spec_check spec)) (\<lambda>_. tx fe (\<lambda>k d.
           prepare_and_claim d (fe_now fe k) (ae_token (fe_admission fe k)) spec lease_owner (pp_lease_us pp)
             version checksum)))"

text \<open>Registration of the recovery: the lock evidence, the durable lock, the lease.\<close>

definition register_recovery :: "flow_env \<Rightarrow> start_ports \<Rightarrow> start_run \<Rightarrow> (pydict \<times> pydict \<times> recovery_lease) io" where
  "register_recovery fe pp sr =
     io_bind (io_of (required_target_lock_binding (sr_lock sr) (sr_job_id sr) (sr_vmid sr))) (\<lambda>(lock, durable).
     io_bind (start_prepare_and_claim fe pp (sr_job_id sr) (''foreground:'' @ sr_job_id sr)
         (recovery_details sr durable) None None) (\<lambda>lease.
       io_return (lock, durable, lease)))"

definition dispatch_prepared_payload :: "start_precheck \<Rightarrow> pydict" where
  "dispatch_prepared_payload pre =
     [(''target'', PDict (pre_target pre)), (''expected'', PDict (pre_expected pre)),
      (''observed_before'', PDict (pre_observed_before pre))]"

definition dispatch_prepared_commit :: "start_precheck \<Rightarrow> pydict \<Rightarrow> pydict \<Rightarrow> commit_request" where
  "dispatch_prepared_commit pre lock durable =
     (commit_defaults ''dispatch_prepared'' ''start'' ''leased'')
       \<lparr>cq_next_status := Some ''dispatching'', cq_payload := dispatch_prepared_payload pre,
        cq_details_patch := [(''target_operation_lock'', PDict lock)], cq_expected_statuses := Some [''planned''],
        cq_recovery_details_patch := [(''phase'', PStr ''dispatch_prepared''),
          (''target_lock_id'', PStr (text_or_empty (dget durable ''operation_lock_id''))),
          (''cluster_id'', PStr (text_or_empty (dget durable ''cluster_id'')))],
        cq_bind_target_lock := True\<rparr>"

text \<open>
  A failure before the dispatch: the job, then the Operation; the lock is kept only when an
  unfinished recovery still needs it.
\<close>

definition pre_dispatch_failed :: "sha \<Rightarrow> flow_env \<Rightarrow> start_ports \<Rightarrow> start_run \<Rightarrow> pydict \<Rightarrow> pydict \<Rightarrow> string
    \<Rightarrow> string \<Rightarrow> string \<Rightarrow> pydict \<Rightarrow> error \<Rightarrow> exit_io" where
  "pre_dispatch_failed sha fe pp sr target result message reason event_type payload e =
     exits True (record_vm_start_job pp sr ''failed'' ''start'' ''failed'' message target None
         [(''vm_start_result'', PDict result),
          (''target_operation_lock'', PDict (lock_evidence (sr_lock sr) False))]) (\<lambda>_.
     let no_effect = no_effect_marker (sr_lock sr) reason in
     exits True (tx fe (\<lambda>k d. transition_pre_dispatch_failure sha d (fe_event_now fe k) (fe_event_id fe k)
         (sr_job_id sr) (text_or_empty (dget no_effect ''target_lock_id'')) event_type ''start''
         (payload @ no_effect) no_effect)) (\<lambda>completed_without_recovery.
       io_return (\<not> completed_without_recovery, Inl e)))"

definition start_client_unavailable :: "sha \<Rightarrow> flow_env \<Rightarrow> start_ports \<Rightarrow> start_run \<Rightarrow> start_precheck \<Rightarrow> exit_io" where
  "start_client_unavailable sha fe pp sr pre =
     (let message = ''Proxmox mutation client is unavailable for VM start''
      in pre_dispatch_failed sha fe pp sr (pre_target pre)
        [(''job_id'', PStr (sr_job_id sr)), (''status'', PStr ''failed''), (''message'', PStr message),
         (''target'', PDict (pre_target pre)), (''observed_before'', PDict (pre_observed_before pre)),
         (''observed_after'', PDict []), (''artifacts'', PList []), (''idempotency_key'', PStr (sr_key sr)),
         (''target_operation_lock'', PDict (lock_evidence (sr_lock sr) False)),
         (''pre_dispatch_no_effect_verified'', PBool True), (''proxmox_start_ran'', PBool False),
         (''proxmox_mutation_enabled'', PBool False), (''side_effects'', PList [])]
        message ''mutation_client_unavailable'' ''mutation_client_unavailable'' [(''message'', PStr message)]
        (start_error ''VM_START_CLIENT_UNAVAILABLE''))"

definition start_recovery_unavailable :: error where
  "start_recovery_unavailable = FeatureError ''VM_START_RECOVERY_UNAVAILABLE'' 503"

definition start_registration_failed :: "sha \<Rightarrow> flow_env \<Rightarrow> start_ports \<Rightarrow> start_run \<Rightarrow> start_precheck \<Rightarrow> exit_io" where
  "start_registration_failed sha fe pp sr pre =
     (let message = ''Durable recovery could not be registered before VM start dispatch''
      in pre_dispatch_failed sha fe pp sr (pre_target pre)
        [(''job_id'', PStr (sr_job_id sr)), (''status'', PStr ''failed''), (''message'', PStr message),
         (''target'', PDict (pre_target pre)),
         (''target_operation_lock'', PDict (lock_evidence (sr_lock sr) False)),
         (''pre_dispatch_no_effect_verified'', PBool True), (''reconciliation_required'', PBool False),
         (''proxmox_start_ran'', PBool False), (''proxmox_mutation_enabled'', PBool False),
         (''side_effects'', PList [])]
        message ''recovery_registration_failed'' ''recovery_registration_failed''
        [(''code'', PStr ''VM_START_RECOVERY_UNAVAILABLE'')] start_recovery_unavailable)"

definition start_with_recovery :: "sha \<Rightarrow> flow_env \<Rightarrow> start_ports \<Rightarrow> start_run \<Rightarrow> start_client \<Rightarrow> start_precheck
    \<Rightarrow> exit_io" where
  "start_with_recovery sha fe pp sr cl pre =
     io_catch (register_recovery fe pp sr)
       (\<lambda>_. start_registration_failed sha fe pp sr pre)
       (\<lambda>(lock, durable, lease).
          io_catch (commit_io sha fe lease (dispatch_prepared_commit pre lock durable))
            (\<lambda>_. io_return (True, Inl start_recovery_unavailable))
            (\<lambda>(operation, item).
               exits True (start_dispatched sha fe pp sr cl pre (Some (renewed lease item)))
                 (\<lambda>r. io_return (False, r))))"

definition start_without_recovery :: "sha \<Rightarrow> flow_env \<Rightarrow> start_ports \<Rightarrow> start_run \<Rightarrow> start_client \<Rightarrow> start_precheck
    \<Rightarrow> exit_io" where
  "start_without_recovery sha fe pp sr cl pre =
     exits False (transition_vm_start_operation sha fe (sr_job_id sr) ''dispatching'' ''dispatch_prepared'' ''start''
         (dispatch_prepared_payload pre) [] (Some [''planned''])) (\<lambda>_.
     exits True (start_dispatched sha fe pp sr cl pre None) (\<lambda>r. io_return (False, r)))"

definition start_admitted :: "sha \<Rightarrow> flow_env \<Rightarrow> start_ports \<Rightarrow> start_run \<Rightarrow> start_client \<Rightarrow> start_precheck \<Rightarrow> exit_io" where
  "start_admitted sha fe pp sr cl pre =
     exits False (record_vm_start_job pp sr ''running'' ''start'' ''running''
         ''VM start request is being sent to Proxmox.'' (pre_target pre) None
         [(''vm_start'', PDict [(''idempotency_key'', PStr (sr_key sr)), (''expected'', PDict (pre_expected pre)),
            (''observed_before'', PDict (pre_observed_before pre)), (''proxmox_mutation_enabled'', PBool False)]),
          (''target_operation_lock'', PDict (lock_evidence (sr_lock sr) False))]) (\<lambda>_.
       if pp_recovery pp then start_with_recovery sha fe pp sr cl pre
       else start_without_recovery sha fe pp sr cl pre)"

text \<open>
  \<open>_raise_precheck_block\<close>; when it raises the block's own code, the outcome is recorded and the
  lock is given back.
\<close>

definition raise_precheck_block :: "sha \<Rightarrow> flow_env \<Rightarrow> start_ports \<Rightarrow> start_run \<Rightarrow> start_blocked \<Rightarrow> pydict io" where
  "raise_precheck_block sha fe pp sr blocked =
     (let no_effect = no_effect_marker (sr_lock sr) ''precheck_blocked'' in
      io_bind (transition_vm_start_operation sha fe (sr_job_id sr) ''blocked'' ''precheck_blocked'' ''precheck''
          ([(''code'', PStr (sb_code blocked)), (''expected'', PDict (sb_expected blocked)),
            (''observed_before'', PDict (sb_observed_before blocked))] @ no_effect)
          no_effect (Some [''planned''])) (\<lambda>_.
      io_bind (record_vm_start_job pp sr ''blocked'' ''precheck'' ''blocked'' (sb_message blocked) (sb_target blocked) None
          [(''vm_start'', PDict [(''code'', PStr (sb_code blocked)), (''expected'', PDict (sb_expected blocked)),
             (''observed_before'', PDict (sb_observed_before blocked)), (''proxmox_mutation_enabled'', PBool False)])])
        (\<lambda>_. io_of (Inl (start_error (sb_code blocked))))))"

definition has_code :: "string \<Rightarrow> error \<Rightarrow> bool" where
  "has_code code e = (case e of FeatureError c s \<Rightarrow> c = code | _ \<Rightarrow> False)"

definition start_blocked_exit :: "sha \<Rightarrow> flow_env \<Rightarrow> start_ports \<Rightarrow> start_run \<Rightarrow> start_blocked \<Rightarrow> exit_io" where
  "start_blocked_exit sha fe pp sr blocked =
     io_catch (raise_precheck_block sha fe pp sr blocked)
       (\<lambda>e. io_return (\<not> has_code (sb_code blocked) e, Inl e)) (\<lambda>r. io_return (True, Inr r))"

definition start_checked :: "sha \<Rightarrow> flow_env \<Rightarrow> start_ports \<Rightarrow> start_run \<Rightarrow> exit_io" where
  "start_checked sha fe pp sr =
     exits False (record_vm_start_job pp sr ''running'' ''precheck'' ''running'' ''VM start precheck is running.''
         (vm_start_target (sr_node_id sr) (sr_vmid sr) (text_or_empty (dget (sr_payload sr) ''expected_name''))) None
         [(''vm_start'', PDict [(''idempotency_key'', PStr (sr_key sr)),
            (''expected'', PDict (vm_start_expected_context (sr_payload sr))), (''proxmox_mutation_enabled'', PBool False)]),
          (''target_operation_lock'', PDict (lock_evidence (sr_lock sr) False))]) (\<lambda>_.
     exits False (ext_read (pp_list_vms pp)) (\<lambda>vms.
     exits False (ext_read (pp_list_templates pp)) (\<lambda>templates.
       case evaluate_vm_start_precheck vms templates (sr_node_id sr) (sr_vmid sr) (sr_payload sr) of
         Inl blocked \<Rightarrow> start_blocked_exit sha fe pp sr blocked
       | Inr pre \<Rightarrow> exits False (ext_read (pp_client pp)) (\<lambda>c. case c of
             Inr (Some cl) \<Rightarrow> start_admitted sha fe pp sr cl pre
           | _ \<Rightarrow> start_client_unavailable sha fe pp sr pre))))"

section \<open>Replays of a failure before the dispatch\<close>

definition start_reconcile_operation :: "nat \<Rightarrow> error" where
  "start_reconcile_operation status = FeatureError ''VM_START_OPERATION_RECONCILIATION_REQUIRED'' status"

definition replay_durable :: "pydict \<Rightarrow> pydict" where
  "replay_durable lock = (case dget lock ''durable'' of PDict d \<Rightarrow> d | _ \<Rightarrow> dict_of (dget lock ''existing''))"

definition replay_terminal :: "operation_snapshot \<Rightarrow> (string \<times> pydict) result" where
  "replay_terminal operation =
     (if sn_status operation \<in> {''failed'', ''blocked''}
      then ebind (ditem (sn_details operation) ''pre_dispatch_terminal_reason'') (\<lambda>reason. Inr (sn_status operation,
        [(''pre_dispatch_terminal_no_effect'', PBool True), (''mutation_dispatched'', PBool False),
         (''pre_dispatch_terminal_reason'', reason),
         (''recovery_contract'', PStr PRE_DISPATCH_RECOVERY_CONTRACT)]))
      else Inr (''failed'', []))"

definition replay_closed_commit :: "operation_snapshot \<Rightarrow> string \<Rightarrow> commit_request" where
  "replay_closed_commit operation terminal_outcome =
     fenced operation ((commit_defaults ''replayed_pre_dispatch_failure_closed'' ''reconciliation'' ''completed'')
       \<lparr>cq_next_status := (if sn_status operation \<in> {''failed'', ''blocked''} then None else Some ''failed''),
        cq_payload := [(''mutation_dispatched'', PBool False), (''compatibility_projection'', PStr terminal_outcome)],
        cq_details_patch := [(''result_status'', PStr terminal_outcome), (''recovered_pre_dispatch'', PBool True)],
        cq_expected_statuses := Some [sn_status operation],
        cq_recovery_details_patch := [(''terminal_outcome'', PStr terminal_outcome)],
        cq_release_target_lock := True\<rparr>)"

text \<open>The \<open>try\<close> block; the operation that the caller passes may be missing.\<close>

definition close_replay :: "sha \<Rightarrow> flow_env \<Rightarrow> start_ports \<Rightarrow> start_run \<Rightarrow> operation_snapshot option \<Rightarrow> pydict \<Rightarrow> unit io" where
  "close_replay sha fe pp sr found durable =
     io_bind (io_of (case found of None \<Rightarrow> Inl (PyError AttributeError) | Some operation \<Rightarrow> Inr operation)) (\<lambda>operation.
     io_bind (io_of (replay_terminal operation)) (\<lambda>(terminal_outcome, terminal_details).
     io_bind (start_prepare_and_claim fe pp (sr_job_id sr) (''replay:'' @ sr_job_id sr)
         (dmerge (recovery_details sr durable @ [(''terminal_outcome'', PStr terminal_outcome)]) terminal_details)
         (Some (sn_version operation)) (Some (sn_last_event_checksum operation))) (\<lambda>lease.
     io_bind (commit_io sha fe lease (replay_closed_commit operation terminal_outcome)) (\<lambda>_. io_return ()))))"

definition replay_already_closed :: "operation_snapshot option \<Rightarrow> pydict \<Rightarrow> bool" where
  "replay_already_closed current durable = (case current of
     None \<Rightarrow> False
   | Some operation \<Rightarrow>
       sn_status operation = ''failed''
       \<and> is_pre_dispatch_terminal_no_effect (sn_operation_type operation) (sn_status operation) (sn_details operation) None
       \<and> py_eq (dget (sn_details operation) ''target_lock_id'') (dget durable ''operation_lock_id'')
       \<and> py_eq (dget (sn_details operation) ''cluster_id'') (dget durable ''cluster_id''))"

definition is_operation_conflict :: "error \<Rightarrow> bool" where
  "is_operation_conflict e = (case e of RecoveryOperationConflict _ \<Rightarrow> True | _ \<Rightarrow> False)"

definition close_replayed_failure :: "sha \<Rightarrow> flow_env \<Rightarrow> start_ports \<Rightarrow> start_run \<Rightarrow> pydict
    \<Rightarrow> operation_snapshot option \<Rightarrow> pydict \<Rightarrow> pydict io" where
  "close_replayed_failure sha fe pp sr job found lock =
     (let durable = replay_durable lock in
      io_bind (io_of (
        if \<not> pp_recovery pp \<or> text_or_empty (dget durable ''owner_id'') \<noteq> sr_job_id sr
           \<or> text_or_empty (dget durable ''operation_type'') \<noteq> ''vm_start'' then Inr False
        else ebind (int_or_zero (dget durable ''vmid'')) (\<lambda>vmid. Inr (vmid = sr_vmid sr)))) (\<lambda>fenced.
      if \<not> fenced then io_of (Inl (start_reconcile_operation 503))
      else io_catch (close_replay sha fe pp sr found durable)
        (\<lambda>e. if is_operation_conflict e
             then io_bind (get_io fe (sr_job_id sr)) (\<lambda>current.
               if replay_already_closed current durable then io_return (result_from_existing job)
               else io_of (Inl (start_reconcile_operation 503)))
             else io_of (Inl (start_reconcile_operation 503)))
        (\<lambda>_. io_return (result_from_existing job))))"

section \<open>A busy target\<close>

text \<open>\<open>if existing\<close>: a job that was found and is not the empty dict.\<close>

definition present :: "pydict option \<Rightarrow> pydict option" where
  "present job = (case job of Some (x # xs) \<Rightarrow> Some (x # xs) | _ \<Rightarrow> None)"

definition conflict_transition :: "sha \<Rightarrow> flow_env \<Rightarrow> string \<Rightarrow> pydict \<Rightarrow> string \<Rightarrow> string \<Rightarrow> string \<Rightarrow> pydict
    \<Rightarrow> pydict \<Rightarrow> operation_snapshot io" where
  "conflict_transition sha fe job_id lock next_status event_type stage payload details_patch =
     tx fe (\<lambda>k d. transition_for_target_lock_conflict sha d (fe_event_now fe k) (fe_event_id fe k) job_id
       (text_or_empty (dget (dict_of (dget lock ''existing'')) ''operation_lock_id''))
       (case conflicting_operation_id lock of None \<Rightarrow> [] | Some i \<Rightarrow> i)
       next_status event_type stage payload details_patch)"

text \<open>
  The lock is not held here. \<open>sr_lock\<close> is not read by what runs in this branch; it is the handle
  of the run that was refused.
\<close>

definition start_busy :: "sha \<Rightarrow> flow_env \<Rightarrow> start_ports \<Rightarrow> start_run \<Rightarrow> pydict \<Rightarrow> pydict io" where
  "start_busy sha fe pp sr lock =
     io_bind (job_get pp (sr_job_id sr)) (\<lambda>existing.
     io_bind (get_io fe (sr_job_id sr)) (\<lambda>current.
     io_bind (io_of (case present existing of None \<Rightarrow> Inr ()
         | Some job \<Rightarrow> ensure_replay_matches_intent job (sr_intent sr))) (\<lambda>_.
     let owner = conflicting_operation_id lock;
         conflict = [(''target_operation_lock'', PDict lock)] @
           (case owner of None \<Rightarrow> [] | Some i \<Rightarrow> [(''conflicting_operation_id'', PStr i)]) in
     case existing of
       Some job \<Rightarrow>
         if job \<noteq> [] \<and> \<not> is_recoverable_replay job current then io_return (result_from_existing job)
         else if owner = Some (sr_job_id sr) then close_replayed_failure sha fe pp sr job current lock
         else io_bind (conflict_transition sha fe (sr_job_id sr) lock ''failed'' ''replayed_pre_dispatch_failure_closed''
                ''reconciliation'' [(''mutation_dispatched'', PBool False), (''target_lock_owned_by_replay'', PBool False)]
                [(''result_status'', PStr ''failed''), (''recovered_pre_dispatch'', PBool True)])
                (\<lambda>_. io_return (result_from_existing job))
     | None \<Rightarrow>
         if owner = Some (sr_job_id sr) then io_of (Inl (start_error ''VM_START_IN_PROGRESS''))
         else io_bind (conflict_transition sha fe (sr_job_id sr) lock ''blocked'' ''target_lock_blocked'' ''precheck''
                conflict conflict) (\<lambda>_. io_of (Inl (start_error ''VM_START_TARGET_LOCK_BUSY''))))))"

section \<open>Under the lock\<close>

definition start_owned :: "sha \<Rightarrow> flow_env \<Rightarrow> start_ports \<Rightarrow> start_run \<Rightarrow> exit_io" where
  "start_owned sha fe pp sr =
     exits False (job_get pp (sr_job_id sr)) (\<lambda>existing.
     exits False (get_io fe (sr_job_id sr)) (\<lambda>current. case present existing of
         Some job \<Rightarrow> exits False (io_of (ensure_replay_matches_intent job (sr_intent sr))) (\<lambda>_.
           if \<not> is_recoverable_replay job current then io_return (False, Inr (result_from_existing job))
           else exits True (close_replayed_failure sha fe pp sr job current (lock_evidence (sr_lock sr) False))
                  (\<lambda>r. io_return (False, Inr r)))
       | None \<Rightarrow> (case current of
             None \<Rightarrow> io_return (False, Inl (start_reconcile_operation 409))
           | Some operation \<Rightarrow>
               if sn_status operation \<noteq> ''planned''
               then io_return (False, Inl (start_reconcile_operation 409))
               else start_checked sha fe pp sr)))"

section \<open>The workflow\<close>

definition validated_request :: "sha \<Rightarrow> string \<Rightarrow> int \<Rightarrow> pydict \<Rightarrow> (string \<times> string) result" where
  "validated_request sha node_id vmid payload =
     (let idempotency_key = stripped_text (dget payload ''idempotency_key'')
      in if dget payload ''vm_start_acknowledged'' \<noteq> PBool True then Inl (start_error ''VM_START_ACK_REQUIRED'')
         else if idempotency_key = [] then Inl (start_error ''VM_START_IDEMPOTENCY_KEY_REQUIRED'')
         else Inr (idempotency_key, build_vm_start_job_id sha node_id vmid idempotency_key))"

definition start_run_of :: "start_command \<Rightarrow> string \<Rightarrow> string \<Rightarrow> lock_handle \<Rightarrow> start_run" where
  "start_run_of command idempotency_key job_id lock =
     \<lparr>sr_job_id = job_id, sr_key = idempotency_key, sr_node_id = sc_node_id command, sr_vmid = sc_vmid command,
      sr_payload = sc_payload command, sr_actor = sc_actor command, sr_intent = start_intent command, sr_lock = lock\<rparr>"

definition no_handle :: lock_handle where
  "no_handle = \<lparr>hd_evidence = [], hd_lock = \<lparr>dl_lock_id = [], dl_operation_type = [], dl_cluster_id = [], dl_vmid = 0,
     dl_owner_id = [], dl_scope_key = [], dl_status = [], dl_created_at = 0\<rparr>\<rparr>"

definition start_planned :: "sha \<Rightarrow> flow_env \<Rightarrow> start_ports \<Rightarrow> start_command \<Rightarrow> string \<Rightarrow> string \<Rightarrow> pydict io" where
  "start_planned sha fe pp command idempotency_key job_id =
     io_bind (acquire_start_target fe pp (vm_start_target_lock_id (sc_vmid command)) (sc_vmid command) job_id) (\<lambda>a.
       case a of
         Inl lock \<Rightarrow> start_busy sha fe pp (start_run_of command idempotency_key job_id no_handle) lock
       | Inr held \<Rightarrow> holding fe held (start_owned sha fe pp (start_run_of command idempotency_key job_id held)))"

definition prepare_or_conflict :: "sha \<Rightarrow> flow_env \<Rightarrow> start_command \<Rightarrow> string \<Rightarrow> string \<Rightarrow> create_result io" where
  "prepare_or_conflict sha fe command job_id idempotency_key =
     io_catch (prepare_vm_start_operation sha fe command job_id idempotency_key)
       (\<lambda>e. io_of (Inl (case e of OperationIntentConflict _ \<Rightarrow> start_error ''VM_START_IDEMPOTENCY_CONFLICT'' | _ \<Rightarrow> e)))
       io_return"

definition start_prepared :: "sha \<Rightarrow> flow_env \<Rightarrow> start_ports \<Rightarrow> start_command \<Rightarrow> string \<Rightarrow> string \<Rightarrow> pydict io" where
  "start_prepared sha fe pp command idempotency_key job_id =
     io_bind (prepare_or_conflict sha fe command job_id idempotency_key) (\<lambda>prepared.
       if \<not> cr_created prepared \<and> sn_status (cr_operation prepared) \<noteq> ''planned''
       then io_bind (job_get pp job_id) (\<lambda>existing. case present existing of
           Some job \<Rightarrow> io_bind (io_of (ensure_replay_matches_intent job (start_intent command)))
             (\<lambda>_. io_return (result_from_existing job))
         | None \<Rightarrow> io_of (Inl (start_reconcile_operation 409)))
       else start_planned sha fe pp command idempotency_key job_id)"

text \<open>The lookup before anything is written: a job that answers the request again.\<close>

definition replayed_result :: "flow_env \<Rightarrow> start_ports \<Rightarrow> start_command \<Rightarrow> string \<Rightarrow> pydict option io" where
  "replayed_result fe pp command job_id =
     io_bind (job_get pp job_id) (\<lambda>existing. case present existing of
       None \<Rightarrow> io_return None
     | Some job \<Rightarrow> io_bind (io_of (ensure_replay_matches_intent job (start_intent command))) (\<lambda>_.
         io_bind (get_io fe job_id) (\<lambda>operation. io_return
           (if is_recoverable_replay job operation then None else Some (result_from_existing job)))))"

definition execute_vm_start_workflow :: "sha \<Rightarrow> flow_env \<Rightarrow> start_ports \<Rightarrow> start_command \<Rightarrow> pydict io" where
  "execute_vm_start_workflow sha fe pp command =
     io_bind (io_of (validated_request sha (sc_node_id command) (sc_vmid command) (sc_payload command)))
       (\<lambda>(idempotency_key, job_id).
     io_bind (replayed_result fe pp command job_id) (\<lambda>replayed. case replayed of
         Some result \<Rightarrow> io_return result
       | None \<Rightarrow> start_prepared sha fe pp command idempotency_key job_id))"

section \<open>The facade\<close>

definition actor_evidence :: "pydict option \<Rightarrow> pydict result" where
  "actor_evidence actor = (case actor of
     None \<Rightarrow> Inr []
   | Some a \<Rightarrow>
       if a = [] then Inr []
       else ebind (normalize_role (text_or_empty (dget a ''role''))) (\<lambda>role. Inr
            [(''user_id'', PStr (text_or_empty (dget a ''user_id''))),
             (''username'', PStr (text_or_empty (dget a ''username''))), (''role'', PStr role)]))"

definition run_vm_start :: "sha \<Rightarrow> flow_env \<Rightarrow> start_ports \<Rightarrow> string \<Rightarrow> int \<Rightarrow> pydict option \<Rightarrow> pydict option
    \<Rightarrow> pydict io" where
  "run_vm_start sha fe pp node_id vmid payload actor =
     io_bind (io_of (case actor of None \<Rightarrow> Inr None | Some a \<Rightarrow> ebind (actor_evidence actor) (\<lambda>e. Inr (Some e))))
       (\<lambda>evidence. execute_vm_start_workflow sha fe (pp\<lparr>pp_recovery := True, pp_lease_us := 60000000\<rparr>)
          (start_from_request node_id vmid payload evidence))"

end
