(* ===== verification/VmStartSafety.thy ===== *)
theory VmStartSafety
  imports VmStartExecute History
begin

text \<open>
  What the VM start workflow guarantees: it commits only through the store's transactions, sends
  at most one start request, and only in a state that recovery can take over.
\<close>

section \<open>Processes that commit through the store\<close>

text \<open>
  \<open>later sha fe d d'\<close>: commands of the store and what other processes commit in between lead
  from \<open>d\<close> to \<open>d'\<close>. In a fair environment that is reachability.
\<close>

inductive later :: "sha \<Rightarrow> flow_env \<Rightarrow> db \<Rightarrow> db \<Rightarrow> bool" for sha fe where
  later_refl: "later sha fe d d"
| later_command: "later sha fe d d' \<Longrightarrow> core_exec sha c d' = Inr (d'', ()) \<Longrightarrow> later sha fe d d''"
| later_others: "later sha fe d d' \<Longrightarrow> later sha fe d (fe_between fe k d')"

lemma reach_trans: "reach exec d' d'' \<Longrightarrow> reach exec d d' \<Longrightarrow> reach exec d d''"
  by (induction rule: reach.induct) (auto intro: reach_step)

lemma later_reach: "later sha fe d d' \<Longrightarrow> fair_env sha fe \<Longrightarrow> reach (core_exec sha) d d'"
proof (induction rule: later.induct)
  case (later_others d d' k)
  then show ?case using reach_trans [of "core_exec sha" d' "fe_between fe k d'" d] by (simp add: fair_env_def)
qed (auto intro: reach_refl reach_step)

definition reached :: "sha \<Rightarrow> flow_env \<Rightarrow> db \<Rightarrow> world \<Rightarrow> bool" where
  "reached sha fe d w \<longleftrightarrow> later sha fe d (w_db w)"

lemma tx_reached:
  assumes "\<And>k d d' x. f k d = Inr (d', x) \<Longrightarrow> d' = d \<or> (\<exists>c. core_exec sha c d = Inr (d', ()))"
  shows "io_ok (reached sha fe d0) (tx fe f)"
  unfolding io_ok_def
proof (intro allI impI)
  fix w assume w: "reached sha fe d0 w"
  let ?d = "fe_between fe (w_step w) (w_db w)"
  have d: "later sha fe d0 ?d" using w unfolding reached_def by (rule later_others)
  show "reached sha fe d0 (snd (tx fe f w))"
  proof (cases "f (w_step w) ?d")
    case (Inl e)
    with d show ?thesis by (simp add: tx_def reached_def)
  next
    case (Inr p)
    obtain d' x where p: "p = (d', x)" by (cases p)
    from assms [of "w_step w" ?d d' x] Inr p d have "later sha fe d0 d'" by (auto intro: later_command)
    with Inr p show ?thesis by (simp add: tx_def reached_def)
  qed
qed

text \<open>A transaction of the store is a command of the store.\<close>

lemma command_step: "core_exec sha c d = void m \<Longrightarrow> m = Inr (d', x) \<Longrightarrow> d' = d \<or> (\<exists>c. core_exec sha c d = Inr (d', ()))"
  by (metis void_Inr)

lemmas command_steps = core_exec.simps [THEN command_step]

named_theorems reached_intros \<open>processes that commit through the store\<close>

lemmas [reached_intros] = io_ok_return io_ok_of io_ok_bind io_ok_catch io_ok_if io_ok_option io_ok_prod io_ok_let

lemma io_ok_sum [reached_intros]:
  "(\<And>x. io_ok I (f x)) \<Longrightarrow> (\<And>y. io_ok I (g y)) \<Longrightarrow> io_ok I (case z of Inl x \<Rightarrow> f x | Inr y \<Rightarrow> g y)"
  by (simp split: sum.splits)

lemma reached_read [reached_intros]: "io_ok (reached sha fe d) (ext_read f)"
  by (simp add: io_ok_def ext_read_def reached_def)

lemma reached_call [reached_intros]: "io_ok (reached sha fe d) (ext_call f n v r)"
  by (simp add: io_ok_def ext_call_def reached_def)

lemma reached_get [reached_intros]: "io_ok (reached sha fe d) (get_io fe i)"
  unfolding get_io_def by (rule tx_reached) auto

lemma reached_get_recovery [reached_intros]:
  "io_ok (reached sha fe d) (tx fe (\<lambda>k d. Inr (d, recovery_get d i)))"
  by (rule tx_reached) auto

lemma reached_commit [reached_intros]: "io_ok (reached sha fe d) (commit_io sha fe l q)"
  unfolding commit_io_def by (rule tx_reached) (erule command_steps)

lemma reached_transition [reached_intros]:
  "io_ok (reached sha fe d) (transition_vm_start_operation sha fe i ns et st p dp ex)"
  unfolding transition_vm_start_operation_def by (rule tx_reached) (erule command_steps)

lemma reached_prepare [reached_intros]:
  "io_ok (reached sha fe d) (prepare_vm_start_operation sha fe c i k)"
  unfolding prepare_vm_start_operation_def Let_def
  by (intro reached_intros tx_reached) (erule command_steps)

lemma reached_claim [reached_intros]:
  "io_ok (reached sha fe d) (start_prepare_and_claim fe pp i ow de v c)"
  unfolding start_prepare_and_claim_def Let_def
  by (intro reached_intros tx_reached) (erule command_steps)

lemma reached_heartbeat [reached_intros]:
  "io_ok (reached sha fe d) (tx fe (\<lambda>k d. heartbeat d (fe_now fe k) l us))"
  by (rule tx_reached) (erule command_steps)

lemma reached_conflict [reached_intros]:
  "io_ok (reached sha fe d) (conflict_transition sha fe i l ns et st p dp)"
  unfolding conflict_transition_def by (rule tx_reached) (erule command_steps)

lemma reached_pre_dispatch [reached_intros]:
  "io_ok (reached sha fe d) (tx fe (\<lambda>k d. transition_pre_dispatch_failure sha d
     (fe_event_now fe k) (fe_event_id fe k) i l et st p dp))"
  by (rule tx_reached) (erule command_steps)

lemma reached_release [reached_intros]:
  "io_ok (reached sha fe d) (release_start_target fe l)"
  unfolding release_start_target_def
proof (rule tx_reached)
  fix k d d' x
  assume "Inr (release_target_lock d (ae_lock_now (fe_admission fe k)) (hd_lock l), ()) = (Inr (d', x) :: error + _)"
  then have "core_exec sha (ReleaseLock (ae_lock_now (fe_admission fe k)) (hd_lock l) ''verified_operation_completed'') d = Inr (d', ())"
    by (cases "lock_release d (ae_lock_now (fe_admission fe k)) (hd_lock l) ''verified_operation_completed''")
      (simp add: release_target_lock_def)
  then show "d' = d \<or> (\<exists>c. core_exec sha c d = Inr (d', ()))" by blast
qed

lemma reached_acquire [reached_intros]:
  "io_ok (reached sha fe d) (acquire_start_target fe pp t v i)"
  unfolding acquire_start_target_def Let_def
proof (rule tx_reached)
  fix k d d' x
  let ?ae = "fe_admission fe k"
  let ?a = "acquire_target_lock (ae_setup ?ae) d (ae_lock_now ?ae) (ae_lock_ids ?ae v) (pp_cluster pp) ''proxmox_vm'' t i ''vm_start''"
  assume x: "(case ?a of
       Inl (DurableTargetLockBusy scope_key) \<Rightarrow> Inr (d, Inl (busy_evidence ''proxmox_vm'' t i
         (busy_existing (ae_setup ?ae) d (pp_cluster pp) v ''vm_start'')))
     | Inl e \<Rightarrow> Inl e
     | Inr (d', lock) \<Rightarrow> Inr (d', Inr (start_handle ''proxmox_vm'' t i lock))) = Inr (d', x)"
  show "d' = d \<or> (\<exists>c. core_exec sha c d = Inr (d', ()))"
  proof (cases ?a)
    case (Inl e)
    with x show ?thesis by (cases e) auto
  next
    case (Inr p)
    then obtain vmid l where "lock_acquire (ae_setup ?ae) d (ae_lock_now ?ae) (ae_lock_ids ?ae v) ''vm_start'' (pp_cluster pp)
        vmid i (''vm_start'' @ ''_dispatch'') = Inr (d', l)"
      using x by (cases p) (auto simp: acquire_target_lock_def)
    then have "core_exec sha (AcquireLock (ae_setup ?ae) (ae_lock_now ?ae) (ae_lock_ids ?ae v) ''vm_start'' (pp_cluster pp)
        vmid i (''vm_start'' @ ''_dispatch'')) d = Inr (d', ())" by simp
    then show ?thesis by blast
  qed
qed

lemma reached_heartbeats [reached_intros]:
  "io_ok (reached sha fe d) (start_heartbeats fe us n l)"
  by (induction n) (auto intro!: reached_intros)

lemmas start_helpers = job_get_def swallow_def lease_checked_def record_vm_start_job_def observe_status_def
  write_observed_artifact_def

lemmas start_ends = start_checkpoint_def handoff_write_def persistence_failure_handoff_def artifact_or_handoff_def
  record_reconciliation_required_def start_conclude_def

lemma reached_ends [reached_intros]:
  "io_ok (reached sha fe d) (start_checkpoint sha fe i l ns q)"
    "io_ok (reached sha fe d) (persistence_failure_handoff sha fe pp i l t ta ob ho)"
    "io_ok (reached sha fe d) (artifact_or_handoff sha fe pp sr cl pre l ta ob s1 s2 se)"
    "io_ok (reached sha fe d) (record_reconciliation_required sha fe pp sr pre l c m st ta ob ar u se)"
    "io_ok (reached sha fe d) (start_conclude sha fe pp sr pre l ns q js m ars re ta ob ho fin)"
  unfolding start_ends start_helpers Let_def by (intro reached_intros)+

lemmas start_outcomes = start_rejected_def start_unanswered_def start_without_task_def start_unknown_def
  await_start_task_def start_failed_def start_succeeded_def start_settle_def start_accepted_def start_answered_def

lemma reached_answered [reached_intros]:
  "io_ok (reached sha fe d) (start_answered sha fe pp sr cl pre l a)"
  unfolding start_outcomes start_helpers Let_def by (intro reached_intros)

lemma reached_closed [reached_intros]:
  "io_ok (reached sha fe d) (close_replayed_failure sha fe pp sr job found lock)"
  unfolding close_replayed_failure_def close_replay_def Let_def by (intro reached_intros)

lemmas start_exits = exits_def pre_dispatch_failed_def start_client_unavailable_def register_recovery_def
  start_registration_failed_def start_with_recovery_def start_without_recovery_def start_admitted_def
  raise_precheck_block_def start_blocked_exit_def start_checked_def start_owned_def start_dispatched_def

lemma reached_owned [reached_intros]:
  "io_ok (reached sha fe d) (start_owned sha fe pp sr)"
  unfolding start_exits start_helpers Let_def by (intro reached_intros)

lemma run_vm_start_reached:
  "io_ok (reached sha fe d) (run_vm_start sha fe pp node vmid payload actor)"
  unfolding run_vm_start_def execute_vm_start_workflow_def replayed_result_def start_prepared_def start_planned_def prepare_or_conflict_def holding_def
    start_busy_def start_helpers Let_def
  by (intro reached_intros)

section \<open>What a process sends\<close>

lemma silent_sum [silent_intros]:
  "(\<And>x. silent (f x)) \<Longrightarrow> (\<And>y. silent (g y)) \<Longrightarrow> silent (case z of Inl x \<Rightarrow> f x | Inr y \<Rightarrow> g y)"
  by (simp split: sum.splits)

lemma silent_start_heartbeats [silent_intros]: "silent (start_heartbeats fe us n l)"
  by (induction n) (auto intro!: silent_intros)

lemmas start_transactions = transition_vm_start_operation_def prepare_vm_start_operation_def
  start_prepare_and_claim_def conflict_transition_def release_start_target_def acquire_start_target_def

lemma silent_ends [silent_intros]:
  "silent (start_checkpoint sha fe i l ns q)"
  "silent (persistence_failure_handoff sha fe pp i l t ta ob ho)"
  "silent (artifact_or_handoff sha fe pp sr cl pre l ta ob s1 s2 se)"
  "silent (record_reconciliation_required sha fe pp sr pre l c m st ta ob ar u se)"
  "silent (start_conclude sha fe pp sr pre l ns q js msg ars re ta ob ho fin)"
  unfolding start_ends start_helpers start_transactions Let_def by (intro silent_intros)+

lemma silent_answered [silent_intros]: "silent (start_answered sha fe pp sr cl pre l a)"
  unfolding start_outcomes start_helpers Let_def by (intro silent_intros)

lemma silent_closed [silent_intros]: "silent (close_replayed_failure sha fe pp sr job found lock)"
  unfolding close_replayed_failure_def close_replay_def start_transactions Let_def by (intro silent_intros)

text \<open>\<open>calls_once P m w\<close>: run in the world \<open>w\<close>, the process sends at most one call.\<close>

definition calls_once :: "(dispatched_call \<Rightarrow> bool) \<Rightarrow> 'a io \<Rightarrow> world \<Rightarrow> bool" where
  "calls_once P m w \<longleftrightarrow> w_calls (snd (m w)) = w_calls w \<or>
     (\<exists>c. P c \<and> w_calls (snd (m w)) = w_calls w @ [c])"

lemma sends_once_calls: "sends_once P m \<longleftrightarrow> (\<forall>w. calls_once P m w)"
  by (simp add: sends_once_def calls_once_def)

lemma calls_once_catch:
  assumes "silent m" "\<And>e w'. m w = (Inl e, w') \<Longrightarrow> calls_once P (h e) w'"
    and "\<And>x w'. m w = (Inr x, w') \<Longrightarrow> calls_once P (f x) w'"
  shows "calls_once P (io_catch m h f) w"
proof -
  obtain r w' where m: "m w = (r, w')" by (cases "m w")
  with assms(1) have eq: "w_calls w' = w_calls w" by (rule silentE)
  show ?thesis
    using assms(2,3) m eq by (cases r) (auto simp: calls_once_def io_catch_def)
qed

lemma sends_once_catch:
  assumes "silent m" "\<And>e. sends_once P (h e)" "\<And>w x w'. m w = (Inr x, w') \<Longrightarrow> sends_once P (f x)"
  shows "sends_once P (io_catch m h f)"
  using assms unfolding sends_once_calls by (blast intro: calls_once_catch)

text \<open>The call last: what follows it is silent.\<close>

lemma calls_once_then_silent:
  assumes "calls_once P m w" "\<And>e. silent (h e)" "\<And>x. silent (f x)"
  shows "calls_once P (io_catch m h f) w"
proof -
  obtain r w' where m: "m w = (r, w')" by (cases "m w")
  have "w_calls (snd (io_catch m h f w)) = w_calls w'"
    using assms(2,3) m by (cases r) (simp_all add: io_catch_def silent_def)
  with assms(1) m show ?thesis by (simp add: calls_once_def)
qed

lemma sends_once_then_silent:
  assumes "sends_once P m" "\<And>x. silent (f x)"
  shows "sends_once P (io_bind m f)"
proof -
  have "io_bind m f = io_catch m (\<lambda>e. io_of (Inl e)) f"
    by (rule ext) (simp add: io_bind_def io_catch_def io_of_def split: prod.splits sum.splits)
  then show ?thesis
    using assms calls_once_then_silent unfolding sends_once_calls by (metis silent_of)
qed

section \<open>The state in which a start request leaves\<close>

text \<open>
  The Operation is durably dispatching; with recovery a leased recovery item exists and an
  active target lock of the Operation is held.
\<close>

definition start_covered :: "bool \<Rightarrow> string \<Rightarrow> db \<Rightarrow> bool" where
  "start_covered recovery job_id d \<longleftrightarrow>
     (\<exists>r. find_operation d job_id = Some r \<and> op_status r = ''dispatching'') \<and>
     (recovery \<longrightarrow> (\<exists>r. find_recovery d job_id = Some r \<and> rc_status r = ''leased'') \<and>
       (\<exists>l \<in> set (db_locks d). lk_status l = ''active'' \<and> lk_owner_id l = Some job_id))"

definition start_call_ok :: "bool \<Rightarrow> string \<Rightarrow> string \<Rightarrow> int \<Rightarrow> dispatched_call \<Rightarrow> bool" where
  "start_call_ok recovery job_id node vmid c \<longleftrightarrow>
     start_covered recovery job_id (dc_db c) \<and> dc_node c = node \<and> dc_vmid c = vmid"

lemma dispatched_calls:
  assumes "start_covered recovery (sr_job_id sr) (w_db w)"
  shows "calls_once (start_call_ok recovery (sr_job_id sr) (sr_node_id sr) (sr_vmid sr))
    (start_dispatched sha fe pp sr cl pre l) w"
proof -
  let ?c = "\<lparr>dc_db = w_db w, dc_step = w_step w, dc_node = sr_node_id sr, dc_vmid = sr_vmid sr, dc_request = []\<rparr>"
  let ?w = "w\<lparr>w_calls := w_calls w @ [?c], w_step := Suc (w_step w)\<rparr>"
  have "w_calls (snd (start_dispatched sha fe pp sr cl pre l w)) = w_calls w @ [?c]"
  proof (cases "adapter_start_vm cl (w_step w) (sr_node_id sr) (sr_vmid sr)")
    case (Inl e)
    then show ?thesis by (simp add: start_dispatched_def io_bind_def ext_call_def)
  next
    case (Inr a)
    have "w_calls (snd (start_answered sha fe pp sr cl pre l a ?w)) = w_calls ?w"
      using silent_answered by (simp add: silent_def)
    with Inr show ?thesis by (simp add: start_dispatched_def io_bind_def ext_call_def)
  qed
  with assms show ?thesis by (auto simp: calls_once_def start_call_ok_def)
qed

subsection \<open>The commit that prepares the dispatch\<close>

lemma commit_bound_lock:
  assumes "commit_observation sha d now en eid lease q = Inr (d', sn, item)"
    and q: "cq_bind_target_lock q" "\<not> cq_release_target_lock q" "cq_next_status q = Some ''dispatching''"
  shows "\<exists>l \<in> set (db_locks d'). lk_status l = ''active'' \<and> lk_owner_id l = Some (lease_operation_id lease)"
  using assms(1)
proof (rule commit_observationD)
  fix row operation locks pj d1
  assume c: "commit_checks sha d now lease q = Inr (row, operation, locks)"
    and app: "append_in_session sha d en eid (lease_operation_id lease) (commit_append q pj) = Inr (d1, sn)"
    and d': "d' = fold (\<lambda>l. put_lock (settled_lock (lease_operation_id lease) q now l)) locks
       (put_recovery (settled_recovery row q pj now) d1)"
  let ?d = "put_recovery (settled_recovery row q pj now) d1"
  have locks: "db_locks ?d = db_locks d" using append_frame(1) [OF app] by simp
  have eq: "locks = commit_locks sha d row operation q" by (rule commit_checksD(4) [OF c])
  have "assert_binding_checkpoint operation (rc_details row) (effective_details row q)
      (sanitized (cq_details_patch q)) locks = Inr ()"
    using c q(1) by (auto simp: commit_checks_def Let_def split: option.splits)
  then have one: "length locks = 1" "lk_status (hd locks) = ''active''"
    by (auto simp: assert_binding_checkpoint_def Let_def)
  then obtain l where l: "locks = [l]" by (cases locks) auto
  have "l \<in> set (commit_locks sha d row operation q)" using eq l by (metis list.set_intros(1))
  then have "lk_owner_id l = Some (op_operation_id operation)" and mem: "l \<in> set (db_locks d)"
    by (auto dest!: subsetD [OF commit_locks_subset] simp: owned_lock_def)
  moreover have "op_operation_id operation = lease_operation_id lease"
    using row_of_Some [OF commit_checksD(2) [OF c]] by simp
  moreover have "l \<in> set (db_locks d')"
    using fold_put_lock_mem [of locks ?d "settled_lock (lease_operation_id lease) q now" l] l locks mem q
    by (simp add: d' settled_lock_def)
  ultimately show ?thesis using one(2) l by auto
qed

lemma commit_covers:
  assumes "commit_io sha fe lease (dispatch_prepared_commit pre lock durable) w = (Inr (sn, item), w')"
  shows "start_covered True (lease_operation_id lease) (w_db w')"
proof -
  obtain d now en eid where c: "commit_observation sha d now en eid lease (dispatch_prepared_commit pre lock durable)
      = Inr (w_db w', sn, item)"
    using commit_io_InrD [OF assms] by blast
  have q: "cq_next_status (dispatch_prepared_commit pre lock durable) = Some ''dispatching''"
    "cq_recovery_status (dispatch_prepared_commit pre lock durable) = ''leased''"
    "cq_bind_target_lock (dispatch_prepared_commit pre lock durable)"
    "\<not> cq_release_target_lock (dispatch_prepared_commit pre lock durable)"
    by (simp_all add: dispatch_prepared_commit_def commit_defaults_def)
  show ?thesis
    using commit_settles [OF c q(1)] commit_bound_lock [OF c q(3,4,1)] q(2) by (simp add: start_covered_def)
qed

lemma transition_covers:
  assumes "transition_vm_start_operation sha fe i ''dispatching'' et st p dp ex w = (Inr sn, w')"
  shows "start_covered False i (w_db w')"
proof -
  from assms obtain k d where "store_transition sha d (fe_event_now fe k) (fe_event_id fe k) i ''dispatching'' et st p dp None ex
      = Inr (w_db w', sn)"
    unfolding transition_vm_start_operation_def by (blast dest: tx_InrD)
  then show ?thesis
    unfolding store_transition_def
    by (elim append_in_session_row) (auto simp: start_covered_def append_target_def)
qed

lemma prepare_and_claim_lease:
  "prepare_and_claim d now t sp w us v c = Inr (d', l) \<Longrightarrow> lease_operation_id l = rs_operation_id sp"
  by (auto simp: lease_operation_id_def lease_of_def item_of_def new_recovery_row_def
      elim!: prepare_and_claimD dest: row_of_Some)

lemma start_lease:
  assumes "start_prepare_and_claim fe pp i ow de v c w = (Inr lease, w')"
  shows "lease_operation_id lease = i"
  using assms unfolding start_prepare_and_claim_def Let_def
  by (elim io_bind_InrE) (auto dest!: tx_InrD prepare_and_claim_lease)

lemma register_recovery_lease:
  assumes "register_recovery fe pp sr w = (Inr (lock, durable, lease), w')"
  shows "lease_operation_id lease = sr_job_id sr"
  using assms unfolding register_recovery_def
  by (auto elim!: io_bind_InrE dest: start_lease simp: io_return_Inr split: prod.splits)

section \<open>One start request, of a stopped VM\<close>

definition precheck_passed :: "start_ports \<Rightarrow> string \<Rightarrow> int \<Rightarrow> pydict \<Rightarrow> bool" where
  "precheck_passed pp node vmid payload \<longleftrightarrow> (\<exists>k k' vms templates pre. pp_list_vms pp k = Inr vms \<and>
     pp_list_templates pp k' = Inr templates \<and> evaluate_vm_start_precheck vms templates node vmid payload = Inr pre)"

definition start_request_ok :: "start_ports \<Rightarrow> string \<Rightarrow> string \<Rightarrow> int \<Rightarrow> pydict \<Rightarrow> dispatched_call \<Rightarrow> bool" where
  "start_request_ok pp job_id node vmid payload c \<longleftrightarrow>
     start_call_ok (pp_recovery pp) job_id node vmid c \<and> precheck_passed pp node vmid payload"

lemma calls_once_mono: "calls_once P m w \<Longrightarrow> (\<And>c. P c \<Longrightarrow> Q c) \<Longrightarrow> calls_once Q m w"
  unfolding calls_once_def by blast

lemma dispatched_exit:
  assumes "start_covered (pp_recovery pp) (sr_job_id sr) (w_db w)"
    "precheck_passed pp (sr_node_id sr) (sr_vmid sr) (sr_payload sr)"
  shows "calls_once (start_request_ok pp (sr_job_id sr) (sr_node_id sr) (sr_vmid sr) (sr_payload sr))
    (exits True (start_dispatched sha fe pp sr cl pre l) (\<lambda>r. io_return (False, r))) w"
  unfolding exits_def
  using assms(2)
  by (intro calls_once_then_silent silent_intros calls_once_mono [OF dispatched_calls [OF assms(1)]])
    (simp add: start_request_ok_def)

lemma sends_once_exits:
  assumes "silent m" "\<And>w x w'. m w = (Inr x, w') \<Longrightarrow> sends_once P (f x)"
  shows "sends_once P (exits keep m f)"
  unfolding exits_def
  by (rule sends_once_catch [OF assms(1)]) (auto intro: sends_once_silent silent_return assms(2))

lemma silent_record [silent_intros]: "silent (record_vm_start_job pp sr st sg ss m t a d)"
  unfolding record_vm_start_job_def by (intro silent_intros)

lemma silent_pre_dispatch [silent_intros]:
  "silent (start_client_unavailable sha fe pp sr pre)" "silent (start_registration_failed sha fe pp sr pre)"
  "silent (start_blocked_exit sha fe pp sr blocked)" "silent (register_recovery fe pp sr)"
  unfolding start_exits start_transactions Let_def by (intro silent_intros)+

lemma admitted_once:
  assumes "precheck_passed pp (sr_node_id sr) (sr_vmid sr) (sr_payload sr)"
  shows "sends_once (start_request_ok pp (sr_job_id sr) (sr_node_id sr) (sr_vmid sr) (sr_payload sr))
    (start_admitted sha fe pp sr cl pre)"
proof -
  let ?P = "start_request_ok pp (sr_job_id sr) (sr_node_id sr) (sr_vmid sr) (sr_payload sr)"
  have go: "sends_once ?P (io_catch (commit_io sha fe lease (dispatch_prepared_commit pre lock durable))
      (\<lambda>_. io_return (True, Inl start_recovery_unavailable))
      (\<lambda>(operation, item). exits True (start_dispatched sha fe pp sr cl pre (Some (renewed lease item))) (\<lambda>r. io_return (False, r))))"
    if "lease_operation_id lease = sr_job_id sr" "pp_recovery pp" for lease lock durable
    unfolding sends_once_calls
  proof (intro allI calls_once_catch silent_intros)
    fix w w' e
    show "calls_once ?P (io_return (True, Inl start_recovery_unavailable) :: exit_io) w'"
      by (simp add: calls_once_def io_return_def)
  next
    fix w w' x
    assume "commit_io sha fe lease (dispatch_prepared_commit pre lock durable) w = (Inr x, w')"
    with commit_covers that have "start_covered (pp_recovery pp) (sr_job_id sr) (w_db w')" by (cases x) fastforce
    then show "calls_once ?P (case x of (operation, item) \<Rightarrow> exits True (start_dispatched sha fe pp sr cl pre
        (Some (renewed lease item))) (\<lambda>r. io_return (False, r))) w'"
      using dispatched_exit assms by (cases x) simp
  qed
  have "sends_once ?P (start_with_recovery sha fe pp sr cl pre)" if "pp_recovery pp"
    unfolding start_with_recovery_def
    by (rule sends_once_catch)
      (use that go in \<open>auto intro!: silent_pre_dispatch sends_once_silent [OF silent_pre_dispatch(2)] dest: register_recovery_lease\<close>)
  moreover have "sends_once ?P (start_without_recovery sha fe pp sr cl pre)" if "\<not> pp_recovery pp"
    unfolding start_without_recovery_def exits_def [of False] sends_once_calls
  proof (intro allI calls_once_catch silent_intros)
    fix w w' x
    assume "transition_vm_start_operation sha fe (sr_job_id sr) ''dispatching'' ''dispatch_prepared'' ''start''
       (dispatch_prepared_payload pre) [] (Some [''planned'']) w = (Inr x, w')"
    with transition_covers that have "start_covered (pp_recovery pp) (sr_job_id sr) (w_db w')" by simp
    then show "calls_once ?P (exits True (start_dispatched sha fe pp sr cl pre None) (\<lambda>r. io_return (False, r))) w'"
      using dispatched_exit assms by simp
  qed (simp_all add: calls_once_def io_return_def transition_vm_start_operation_def silent_tx)
  ultimately show ?thesis
    unfolding start_admitted_def by (intro sends_once_exits silent_intros) simp
qed

lemma owned_once:
  "sends_once (start_request_ok pp (sr_job_id sr) (sr_node_id sr) (sr_vmid sr) (sr_payload sr)) (start_owned sha fe pp sr)"
proof -
  let ?P = "start_request_ok pp (sr_job_id sr) (sr_node_id sr) (sr_vmid sr) (sr_payload sr)"
  have pre: "sends_once ?P (case evaluate_vm_start_precheck vms templates (sr_node_id sr) (sr_vmid sr) (sr_payload sr) of
         Inl blocked \<Rightarrow> start_blocked_exit sha fe pp sr blocked
       | Inr pre \<Rightarrow> exits False (ext_read (pp_client pp)) (\<lambda>c. case c of
             Inr (Some cl) \<Rightarrow> start_admitted sha fe pp sr cl pre
           | _ \<Rightarrow> start_client_unavailable sha fe pp sr pre))"
    if "ext_read (pp_list_vms pp) w = (Inr vms, w1)" "ext_read (pp_list_templates pp) v = (Inr templates, v1)" for vms templates w w1 v v1
  proof (cases "evaluate_vm_start_precheck vms templates (sr_node_id sr) (sr_vmid sr) (sr_payload sr)")
    case (Inl b)
    then show ?thesis by (auto intro!: sends_once_silent silent_intros)
  next
    case (Inr pre)
    with that have "precheck_passed pp (sr_node_id sr) (sr_vmid sr) (sr_payload sr)"
      unfolding precheck_passed_def by (blast dest: ext_read_Inr)
    with Inr show ?thesis
      by (auto intro!: sends_once_exits silent_intros split: sum.splits option.splits)
        (auto intro: admitted_once sends_once_silent silent_intros)
  qed
  have "sends_once ?P (start_checked sha fe pp sr)"
    unfolding start_checked_def by (intro sends_once_exits silent_intros) (rule pre)
  then show ?thesis
    unfolding start_owned_def job_get_def
    by (intro sends_once_exits sends_once_option sends_once_if silent_intros)
      (auto intro: sends_once_silent silent_intros)
qed

lemma silent_busy: "silent (start_busy sha fe pp sr lock)"
  unfolding start_busy_def start_helpers start_transactions Let_def by (intro silent_intros)

lemma planned_once:
  "sends_once (start_request_ok pp job_id (sc_node_id c) (sc_vmid c) (sc_payload c)) (start_planned sha fe pp c key job_id)"
proof -
  have "sends_once (start_request_ok pp job_id (sc_node_id c) (sc_vmid c) (sc_payload c))
      (holding fe lock (start_owned sha fe pp (start_run_of c key job_id lock)))" for lock
    unfolding holding_def release_start_target_def
    using owned_once [of pp "start_run_of c key job_id lock"]
    by (intro sends_once_then_silent silent_intros) (simp add: start_run_of_def)
  then show ?thesis
    unfolding start_planned_def acquire_start_target_def
    by (intro sends_once_bind silent_intros) (auto intro: sends_once_silent silent_busy split: sum.splits)
qed

lemma prepared_once:
  "sends_once (start_request_ok pp job_id (sc_node_id c) (sc_vmid c) (sc_payload c)) (start_prepared sha fe pp c key job_id)"
proof -
  have "silent (prepare_or_conflict sha fe c job_id key)"
    unfolding prepare_or_conflict_def start_transactions Let_def by (intro silent_intros)
  moreover have "silent (io_bind (job_get pp job_id) (\<lambda>existing. case present existing of
         Some job \<Rightarrow> io_bind (io_of (ensure_replay_matches_intent job (start_intent c)))
           (\<lambda>_. io_return (result_from_existing job))
       | None \<Rightarrow> io_of (Inl (start_reconcile_operation 409))))"
    unfolding job_get_def by (intro silent_intros)
  ultimately show ?thesis
    unfolding start_prepared_def by (intro sends_once_bind) (auto intro: sends_once_silent planned_once)
qed

lemma execute_once:
  assumes "validated_request sha (sc_node_id c) (sc_vmid c) (sc_payload c) = Inr (key, job_id)"
  shows "sends_once (start_request_ok pp job_id (sc_node_id c) (sc_vmid c) (sc_payload c))
    (execute_vm_start_workflow sha fe pp c)"
proof -
  have "silent (replayed_result fe pp c job_id)"
    unfolding replayed_result_def job_get_def by (intro silent_intros)
  then show ?thesis
    unfolding execute_vm_start_workflow_def assms
    by (intro sends_once_bind silent_intros) (auto simp: io_of_Inr
        intro!: sends_once_bind sends_once_option prepared_once intro: sends_once_silent silent_return)
qed

lemma execute_refused:
  "validated_request sha (sc_node_id c) (sc_vmid c) (sc_payload c) = Inl e \<Longrightarrow>
     execute_vm_start_workflow sha fe pp c w = (Inl e, w)"
  by (simp add: execute_vm_start_workflow_def io_bind_def io_of_def)

end
