(* ===== verification/VmStartSuccess.thy ===== *)
theory VmStartSuccess
  imports VmStartSafety
begin

text \<open>What a result of the VM start workflow that is not a replay says.\<close>

section \<open>What a process yields\<close>

definition yields :: "('a \<Rightarrow> world \<Rightarrow> bool) \<Rightarrow> 'a io \<Rightarrow> bool" where
  "yields R m \<longleftrightarrow> (\<forall>w x w'. m w = (Inr x, w') \<longrightarrow> R x w')"

lemma yieldsD: "yields R m \<Longrightarrow> m w = (Inr x, w') \<Longrightarrow> R x w'"
  by (simp add: yields_def)

named_theorems yields_intros \<open>what processes yield\<close>

lemma yields_raise [yields_intros]: "yields R (io_of (Inl e))"
  by (simp add: yields_def io_of_def)

lemma yields_return: "(\<And>w. R x w) \<Longrightarrow> yields R (io_return x)"
  by (simp add: yields_def io_return_def)

lemma yields_bind [yields_intros]: "(\<And>x. yields R (f x)) \<Longrightarrow> yields R (io_bind m f)"
  unfolding yields_def by (blast elim: io_bind_InrE)

lemma yields_catch [yields_intros]:
  "(\<And>e. yields R (h e)) \<Longrightarrow> (\<And>x. yields R (f x)) \<Longrightarrow> yields R (io_catch m h f)"
  unfolding yields_def by (blast elim: io_catch_InrE)

lemma yields_bind_of: "yields S m \<Longrightarrow> (\<And>x w. S x w \<Longrightarrow> yields R (f x)) \<Longrightarrow> yields R (io_bind m f)"
  unfolding yields_def by (blast elim: io_bind_InrE)

lemma yields_if [yields_intros]: "(b \<Longrightarrow> yields R m) \<Longrightarrow> (\<not> b \<Longrightarrow> yields R m') \<Longrightarrow> yields R (if b then m else m')"
  by simp

lemma yields_option [yields_intros]:
  "yields R m \<Longrightarrow> (\<And>x. yields R (f x)) \<Longrightarrow> yields R (case z of None \<Rightarrow> m | Some x \<Rightarrow> f x)"
  by (simp split: option.splits)

lemma yields_prod [yields_intros]: "(\<And>x y. yields R (f x y)) \<Longrightarrow> yields R (case z of (x, y) \<Rightarrow> f x y)"
  by (simp split: prod.splits)

lemma yields_sum [yields_intros]:
  "(\<And>x. yields R (f x)) \<Longrightarrow> (\<And>y. yields R (g y)) \<Longrightarrow> yields R (case z of Inl x \<Rightarrow> f x | Inr y \<Rightarrow> g y)"
  by (simp split: sum.splits)

section \<open>Fresh success\<close>

text \<open>
  \<open>verified_start\<close>: the task ended with exit status OK, the VM was observed running, a request
  for this VM has been sent, and in a state from which only transactions of the store lead to
  the present one the Operation was succeeded and its recovery completed.
\<close>

definition verified_start :: "sha \<Rightarrow> flow_env \<Rightarrow> string \<Rightarrow> string \<Rightarrow> int \<Rightarrow> pydict \<Rightarrow> world \<Rightarrow> bool" where
  "verified_start sha fe job_id node vmid result w \<longleftrightarrow>
     dget (dict_of (dget result ''task'')) ''exitstatus'' = PStr ''OK'' \<and>
     dget (dict_of (dget result ''observed_after'')) ''status'' = PStr ''running'' \<and>
     (\<exists>c \<in> set (w_calls w). dc_node c = node \<and> dc_vmid c = vmid) \<and>
     (\<exists>d. settled_success job_id d \<and> reached sha fe d w)"

definition fresh_verified :: "sha \<Rightarrow> flow_env \<Rightarrow> string \<Rightarrow> string \<Rightarrow> int \<Rightarrow> pydict \<Rightarrow> world \<Rightarrow> bool" where
  "fresh_verified sha fe job_id node vmid result w \<longleftrightarrow>
     dget result ''idempotent_replay'' = PBool True \<or> verified_start sha fe job_id node vmid result w"

definition exit_verified :: "sha \<Rightarrow> flow_env \<Rightarrow> string \<Rightarrow> string \<Rightarrow> int \<Rightarrow> pydict result \<Rightarrow> world \<Rightarrow> bool" where
  "exit_verified sha fe job_id node vmid r w \<longleftrightarrow> (\<forall>x. r = Inr x \<longrightarrow> fresh_verified sha fe job_id node vmid x w)"

lemma replay_flag: "dget (result_from_existing job) ''idempotent_replay'' = PBool True"
  unfolding result_from_existing_def Let_def by (subst dget_dmerge) (simp_all add: dhas_def dget_def)

lemma fresh_replay [yields_intros]:
  "yields (fresh_verified sha fe i n v) (io_return (result_from_existing job))"
  by (rule yields_return) (simp add: fresh_verified_def replay_flag)

subsection \<open>Leases\<close>

definition lease_for :: "string \<Rightarrow> recovery_lease option \<Rightarrow> bool" where
  "lease_for i lease \<longleftrightarrow> (\<exists>l. lease = Some l \<and> lease_operation_id l = i)"

lemma lease_checked_Inr: "lease_checked m w = (Inr x, w') \<longleftrightarrow> m w = (Inr x, w')"
  by (auto simp: lease_checked_def io_catch_def io_of_def io_return_def split: prod.splits sum.splits)

lemma checkpoint_lease:
  assumes "lease_for i lease"
  shows "yields (\<lambda>lease' w. lease_for i lease') (start_checkpoint sha fe i' lease ns q)"
proof -
  obtain l where l: "lease = Some l" "lease_operation_id l = i" using assms by (auto simp: lease_for_def)
  have "lease_for i (Some (renewed l item))" if "commit_io sha fe l q' w = (Inr (sn, item), w')" for q' w sn item w'
    using renewed_id [OF that] l(2) by (simp add: lease_for_def)
  then show ?thesis
    unfolding yields_def start_checkpoint_def l(1)
    by (auto elim!: io_bind_InrE simp: lease_checked_Inr io_return_Inr)
qed

text \<open>A commit that names the status it expects and changes none leaves that status.\<close>

lemma commit_confirms:
  assumes "commit_observation sha d now en eid lease q = Inr (d', sn, item)"
    and q: "cq_next_status q = None" "cq_expected_statuses q = Some [s]"
  shows "\<exists>r. find_operation d' (lease_operation_id lease) = Some r \<and> op_status r = s"
proof -
  from assms(1) obtain row operation locks where c: "commit_checks sha d now lease q = Inr (row, operation, locks)"
    by (rule commit_observationD)
  then have "op_status operation = s" using q(2) by (auto simp: commit_checks_def Let_def split: option.splits)
  moreover note commit_checksD(2) [OF c]
  moreover obtain r r' where "find_operation d (lease_operation_id lease) = Some r"
    "find_operation d' (lease_operation_id lease) = Some r'" "op_status r' = op_status r"
    by (rule commit_operation_row [OF assms(1)]) (simp add: q(1))
  ultimately show ?thesis by simp
qed

lemma projection_recorded:
  assumes "commit_io sha fe l (projection_recorded_commit stage ''succeeded'') w = (Inr x, w')"
  shows "settled_success (lease_operation_id l) (w_db w')"
proof -
  obtain sn item where x: "x = (sn, item)" by (cases x)
  from assms obtain d now en eid where c: "commit_observation sha d now en eid l (projection_recorded_commit stage ''succeeded'')
      = Inr (w_db w', sn, item)" unfolding x by (blast dest: commit_io_InrD)
  then have "\<exists>r. find_operation (w_db w') (lease_operation_id l) = Some r \<and> op_status r = ''succeeded''"
    by (rule commit_confirms) (simp_all add: projection_recorded_commit_def commit_defaults_def)
  moreover have "\<exists>r. find_recovery (w_db w') (lease_operation_id l) = Some r \<and> rc_status r = ''completed''"
    by (rule commit_recovery_status [OF c]) (simp add: projection_recorded_commit_def commit_defaults_def)
  ultimately show ?thesis by (simp add: settled_success_def)
qed

subsection \<open>The end of the workflow\<close>

lemma conclude_success:
  assumes "lease_for (sr_job_id sr) lease"
  shows "yields (\<lambda>r w. r = fin \<and> settled_success (sr_job_id sr) (w_db w))
    (start_conclude sha fe pp sr pre lease ''succeeded'' q js msg ars re ta ob ho fin)"
  unfolding start_conclude_def
proof (rule yields_bind_of [OF checkpoint_lease [OF assms]])
  fix lease' w assume "lease_for (sr_job_id sr) lease'"
  then obtain l where l: "lease' = Some l" "lease_operation_id l = sr_job_id sr" by (auto simp: lease_for_def)
  show "yields (\<lambda>r w. r = fin \<and> settled_success (sr_job_id sr) (w_db w))
     (io_bind (io_catch (record_vm_start_job pp sr js (cq_stage q) js msg (pre_target pre) ars
           [(''vm_start_result'', PDict re), (''target_operation_lock'', PDict (lock_evidence (sr_lock sr) False))])
         (\<lambda>_. persistence_failure_handoff sha fe pp (sr_job_id sr) lease' (pre_target pre) ta ob ho)
         (\<lambda>_. io_return ())) (\<lambda>_.
      io_bind (case lease' of None \<Rightarrow> io_return ()
         | Some l \<Rightarrow> io_bind (lease_checked (commit_io sha fe l (projection_recorded_commit (cq_stage q) ''succeeded'')))
             (\<lambda>_. io_return ())) (\<lambda>_. io_return fin)))"
    using l projection_recorded [of sha fe l "cq_stage q"]
    by (intro allI yields_bind [where m = "io_catch _ _ _"])
      (auto simp: yields_def lease_checked_Inr io_return_Inr elim!: io_bind_InrE)
qed

definition settled_start :: "string \<Rightarrow> pydict result \<Rightarrow> world \<Rightarrow> bool" where
  "settled_start job_id r w \<longleftrightarrow> (\<forall>x. r = Inr x \<longrightarrow>
     dget (dict_of (dget x ''task'')) ''exitstatus'' = PStr ''OK'' \<and>
     dget (dict_of (dget x ''observed_after'')) ''status'' = PStr ''running'' \<and> settled_success job_id (w_db w))"

lemma conclude_raises: "yields (\<lambda>r w. r = fin) (start_conclude sha fe pp sr pre lease ns q js msg ars re ta ob ho fin)"
  unfolding start_conclude_def by (intro yields_intros yields_return) simp

lemma yields_mono: "yields S m \<Longrightarrow> (\<And>x w. S x w \<Longrightarrow> R x w) \<Longrightarrow> yields R m"
  unfolding yields_def by blast

lemma start_settle_success:
  assumes "lease_for (sr_job_id sr) lease"
  shows "yields (settled_start (sr_job_id sr))
    (start_settle sha fe pp sr pre lease ambiguous task observed artifact upid)"
proof -
  have failed: "yields (settled_start (sr_job_id sr)) (start_failed sha fe pp sr pre lease task observed artifact upid)"
    unfolding start_failed_def Let_def
    by (rule yields_mono [OF conclude_raises]) (simp add: settled_start_def)
  have reconcile: "yields (settled_start (sr_job_id sr)) (record_reconciliation_required sha fe pp sr pre lease c m st t ob a u se)"
    for c m st t ob a u se
    unfolding record_reconciliation_required_def Let_def by (intro yields_intros)
  have succeeded: "yields (settled_start (sr_job_id sr)) (start_succeeded sha fe pp sr pre lease task observed artifact upid)"
    if ok: "py_upper (text_or_empty (dget (recovery_task_payload task) ''exitstatus'')) = ''OK''"
      "text_or_empty (dget (recovery_observed_payload observed (sr_node_id sr) (sr_vmid sr)) ''status'') = ''running''"
  proof -
    have "exit_word s = ''OK''" if "py_upper (exit_word s) = ''OK''" for s
      using that exit_word_in [of s] by (auto simp: py_upper_def)
    then have "dget (recovery_task_payload task) ''exitstatus'' = PStr ''OK''"
      using ok(1) by (simp add: recovery_task_payload_def compact_task_get)
    moreover have "dget (recovery_observed_payload observed (sr_node_id sr) (sr_vmid sr)) ''status'' = PStr ''running''"
      using ok(2) by (simp add: recovery_observed_payload_def compact_proxmox_vm_status_def dget_def)
    ultimately show ?thesis
      unfolding start_succeeded_def Let_def
      by (intro yields_mono [OF conclude_success [OF assms]])
        (auto simp: settled_start_def start_result_def dget_def dict_of_def)
  qed
  show ?thesis
    unfolding start_settle_def Let_def by (intro yields_if failed reconcile succeeded) simp_all
qed

lemma reconciliation_raises:
  "yields R (record_reconciliation_required sha fe pp sr pre lease c m st t ob a u se)"
  unfolding record_reconciliation_required_def Let_def by (intro yields_intros)

lemma answered_success:
  assumes "lease_for (sr_job_id sr) lease"
  shows "yields (settled_start (sr_job_id sr)) (start_answered sha fe pp sr cl pre lease a)"
proof -
  have accepted: "yields (settled_start (sr_job_id sr)) (start_accepted sha fe pp sr cl pre lease upid)" for upid
    unfolding start_accepted_def Let_def
    by (rule yields_bind_of [OF checkpoint_lease [OF assms]], rule yields_bind, rule yields_bind,
        rule yields_prod, rule yields_bind, rule yields_bind_of [OF checkpoint_lease], assumption,
        rule yields_bind, erule start_settle_success)
  have unknown: "yields (settled_start (sr_job_id sr)) (start_unknown sha fe pp sr cl pre lease t m se)" for t m se
    unfolding start_unknown_def by (intro yields_bind reconciliation_raises)
  have rejected: "yields (settled_start (sr_job_id sr)) (start_rejected sha fe pp sr pre lease d)" for d
    unfolding start_rejected_def Let_def by (rule yields_mono [OF conclude_raises]) (simp add: settled_start_def)
  show ?thesis
    unfolding start_answered_def start_unanswered_def start_without_task_def Let_def
    by (intro yields_sum yields_if accepted unknown rejected)
qed

subsection \<open>Back to the caller\<close>

lemma dispatched_success:
  assumes "lease_for (sr_job_id sr) lease"
  shows "yields (\<lambda>r. exit_verified sha fe (sr_job_id sr) (sr_node_id sr) (sr_vmid sr) r)
    (start_dispatched sha fe pp sr cl pre lease)"
  unfolding yields_def
proof (intro allI impI)
  fix w r w' assume run: "start_dispatched sha fe pp sr cl pre lease w = (Inr r, w')"
  let ?c = "\<lparr>dc_db = w_db w, dc_step = w_step w, dc_node = sr_node_id sr, dc_vmid = sr_vmid sr, dc_request = []\<rparr>"
  from run obtain a w1 where call: "ext_call (\<lambda>k. adapter_start_vm cl k (sr_node_id sr) (sr_vmid sr)) (sr_node_id sr) (sr_vmid sr) [] w = (Inr a, w1)"
    and answered: "start_answered sha fe pp sr cl pre lease a w1 = (Inr r, w')"
    unfolding start_dispatched_def by (rule io_bind_InrE)
  have "?c \<in> set (w_calls w1)" using call by (auto simp: ext_call_def)
  then have "?c \<in> set (w_calls w')" using silentE [OF silent_answered answered] by simp
  then have sent: "\<exists>c \<in> set (w_calls w'). dc_node c = sr_node_id sr \<and> dc_vmid c = sr_vmid sr"
    by (rule bexI [rotated]) simp
  have settled: "settled_start (sr_job_id sr) r w'"
    by (rule yieldsD [OF answered_success [OF assms] answered])
  have here: "\<exists>d. settled_success (sr_job_id sr) d \<and> reached sha fe d w'" if "settled_success (sr_job_id sr) (w_db w')"
    by (intro exI [of _ "w_db w'"] conjI that) (simp add: reached_def later_refl)
  show "exit_verified sha fe (sr_job_id sr) (sr_node_id sr) (sr_vmid sr) r w'"
    using settled sent here
    by (simp add: settled_start_def exit_verified_def fresh_verified_def verified_start_def)
qed

text \<open>The exits of the protected block.\<close>

definition block_verified :: "sha \<Rightarrow> flow_env \<Rightarrow> string \<Rightarrow> string \<Rightarrow> int \<Rightarrow> bool \<times> pydict result \<Rightarrow> world \<Rightarrow> bool" where
  "block_verified sha fe job_id node vmid x w \<longleftrightarrow> exit_verified sha fe job_id node vmid (snd x) w"

lemma block_raise [yields_intros]: "yields (block_verified sha fe i n v) (io_return (keep, Inl e))"
  by (rule yields_return) (simp add: block_verified_def exit_verified_def)

lemma block_replay [yields_intros]:
  "yields (block_verified sha fe i n v) (io_return (keep, Inr (result_from_existing job)))"
  by (rule yields_return) (simp add: block_verified_def exit_verified_def fresh_verified_def replay_flag)

lemma exits_of:
  "yields S m \<Longrightarrow> (\<And>x. (\<exists>w. S x w) \<Longrightarrow> yields (block_verified sha fe i n v) (f x)) \<Longrightarrow>
     yields (block_verified sha fe i n v) (exits keep m f)"
  unfolding exits_def yields_def [of _ "io_catch _ _ _"]
  by (intro allI impI, elim io_catch_InrE) (blast dest: yieldsD, erule yieldsD [OF block_raise])

lemma yields_exits [yields_intros]:
  "(\<And>x. yields (block_verified sha fe i n v) (f x)) \<Longrightarrow> yields (block_verified sha fe i n v) (exits keep m f)"
  by (rule exits_of [of "\<lambda>_ _. True"]) (simp_all add: yields_def)

lemma exits_then_return:
  assumes "yields (exit_verified sha fe i n v) m"
  shows "yields (block_verified sha fe i n v) (exits keep m (\<lambda>r. io_return (False, r)))"
  using assms unfolding yields_def exits_def
  by (auto elim!: io_catch_InrE simp: io_return_Inr block_verified_def exit_verified_def)

lemma closed_replay [yields_intros]:
  "yields (\<lambda>r w. dget r ''idempotent_replay'' = PBool True) (close_replayed_failure sha fe pp sr job found lock)"
  unfolding close_replayed_failure_def Let_def by (intro yields_intros yields_return replay_flag)

lemma with_recovery_verified:
  "yields (block_verified sha fe (sr_job_id sr) (sr_node_id sr) (sr_vmid sr)) (start_with_recovery sha fe pp sr cl pre)"
proof -
  have failed: "yields (block_verified sha fe (sr_job_id sr) (sr_node_id sr) (sr_vmid sr)) (start_registration_failed sha fe pp sr pre)"
    unfolding start_registration_failed_def pre_dispatch_failed_def Let_def by (intro yields_intros)
  show ?thesis
    unfolding yields_def start_with_recovery_def
  proof (intro allI impI, elim io_catch_InrE)
    fix w x w' e w1 assume "start_registration_failed sha fe pp sr pre w1 = (Inr x, w')"
    then show "block_verified sha fe (sr_job_id sr) (sr_node_id sr) (sr_vmid sr) x w'" by (rule yieldsD [OF failed])
  next
    fix w x w' y w1
    assume reg: "register_recovery fe pp sr w = (Inr y, w1)"
      and run: "(case y of (lock, durable, lease) \<Rightarrow> io_catch (commit_io sha fe lease (dispatch_prepared_commit pre lock durable))
            (\<lambda>_. io_return (True, Inl start_recovery_unavailable))
            (\<lambda>(operation, item). exits True (start_dispatched sha fe pp sr cl pre (Some (renewed lease item)))
                 (\<lambda>r. io_return (False, r)))) w1 = (Inr x, w')"
    obtain lock durable lease where y: "y = (lock, durable, lease)" by (cases y)
    have l: "lease_operation_id lease = sr_job_id sr" using reg y register_recovery_lease by simp
    have go: "yields (block_verified sha fe (sr_job_id sr) (sr_node_id sr) (sr_vmid sr))
        (exits True (start_dispatched sha fe pp sr cl pre (Some (renewed lease item))) (\<lambda>r. io_return (False, r)))"
      if "commit_io sha fe lease (dispatch_prepared_commit pre lock durable) w1 = (Inr (sn, item), w2)" for sn item w2
      using renewed_id [OF that] l by (intro exits_then_return dispatched_success) (simp add: lease_for_def)
    from run show "block_verified sha fe (sr_job_id sr) (sr_node_id sr) (sr_vmid sr) x w'"
      unfolding y prod.case
      by (elim io_catch_InrE) (auto intro: yieldsD [OF go] yieldsD [OF block_raise])
  qed
qed

lemma owned_verified:
  assumes "pp_recovery pp"
  shows "yields (block_verified sha fe (sr_job_id sr) (sr_node_id sr) (sr_vmid sr)) (start_owned sha fe pp sr)"
proof -
  let ?R = "block_verified sha fe (sr_job_id sr) (sr_node_id sr) (sr_vmid sr)"
  have blocked: "yields ?R (start_blocked_exit sha fe pp sr b)" for b
  proof -
    have "yields (\<lambda>_ _. False) (raise_precheck_block sha fe pp sr b)"
      unfolding raise_precheck_block_def Let_def by (intro yields_intros)
    then show ?thesis
      unfolding start_blocked_exit_def yields_def [of ?R]
      by (intro allI impI, elim io_catch_InrE) (blast dest: yieldsD, erule yieldsD [OF block_raise])
  qed
  have unavailable: "yields ?R (start_client_unavailable sha fe pp sr pre)" for pre
    unfolding start_client_unavailable_def pre_dispatch_failed_def Let_def by (intro yields_intros)
  have closed: "yields ?R (exits True (close_replayed_failure sha fe pp sr job found lock) (\<lambda>r. io_return (False, Inr r)))"
    for job found lock
    by (rule exits_of [OF closed_replay], rule yields_return)
      (simp add: block_verified_def exit_verified_def fresh_verified_def)
  show ?thesis
    unfolding start_owned_def start_checked_def start_admitted_def Let_def
    using assms
    by (intro yields_exits yields_option yields_if yields_sum block_raise block_replay blocked unavailable closed
        with_recovery_verified) simp_all
qed

lemma verified_stable:
  assumes "verified_start sha fe i n v r w" "silent m" "m w = (x, w')" and "\<And>d. io_ok (reached sha fe d) m"
  shows "verified_start sha fe i n v r w'"
proof -
  have "w_calls w' = w_calls w" using assms(2,3) by (rule silentE)
  moreover have "reached sha fe d' w'" if "reached sha fe d' w" for d'
    using assms(4) [of d'] that assms(3) unfolding io_ok_def by (metis snd_conv)
  ultimately show ?thesis using assms(1) by (auto simp: verified_start_def)
qed

lemma holding_verified:
  assumes "yields (block_verified sha fe i n v) m"
  shows "yields (fresh_verified sha fe i n v) (holding fe lock m)"
  unfolding yields_def holding_def
proof (intro allI impI, elim io_bind_InrE)
  fix w x w' y w1
  assume m: "m w = (Inr y, w1)" and run: "(case y of (keep, r) \<Rightarrow>
     if keep then io_of r else io_bind (release_start_target fe lock) (\<lambda>_. io_of r)) w1 = (Inr x, w')"
  obtain keep r where y: "y = (keep, r)" by (cases y)
  have ev: "exit_verified sha fe i n v r w1" using yieldsD [OF assms m] by (simp add: block_verified_def y)
  show "fresh_verified sha fe i n v x w'"
  proof (cases keep)
    case True
    with run ev show ?thesis by (simp add: y io_of_Inr exit_verified_def)
  next
    case False
    then obtain u where rel: "release_start_target fe lock w1 = (Inr u, w')" and r: "r = Inr x"
      using run by (auto simp: y io_of_Inr elim!: io_bind_InrE)
    have "silent (release_start_target fe lock)" unfolding release_start_target_def by (rule silent_tx)
    with verified_stable [OF _ _ rel reached_release] ev r show ?thesis
      by (auto simp: exit_verified_def fresh_verified_def)
  qed
qed

lemma execute_verified:
  assumes "pp_recovery pp"
    and "validated_request sha (sc_node_id c) (sc_vmid c) (sc_payload c) = Inr (key, job_id)"
  shows "yields (fresh_verified sha fe job_id (sc_node_id c) (sc_vmid c)) (execute_vm_start_workflow sha fe pp c)"
proof -
  let ?R = "fresh_verified sha fe job_id (sc_node_id c) (sc_vmid c)"
  have replay: "yields ?R m" if "yields (\<lambda>r w. dget r ''idempotent_replay'' = PBool True) m" for m
    using that by (rule yields_mono) (simp add: fresh_verified_def)
  have busy: "yields ?R (start_busy sha fe pp sr lock)" for sr lock
    unfolding start_busy_def Let_def
    by (intro yields_bind yields_option yields_if yields_raise fresh_replay replay [OF closed_replay])
  have "yields ?R (holding fe held (start_owned sha fe pp (start_run_of c key job_id held)))" for held
    using holding_verified [OF owned_verified [OF assms(1), where sr = "start_run_of c key job_id held"]]
    by (simp add: start_run_of_def)
  then have planned: "yields ?R (start_planned sha fe pp c key job_id)"
    unfolding start_planned_def by (intro yields_bind yields_sum busy)
  have prepared: "yields ?R (start_prepared sha fe pp c key job_id)"
    unfolding start_prepared_def by (intro yields_bind yields_if yields_option yields_raise fresh_replay planned)
  have looked: "yields (\<lambda>r w. \<forall>x. r = Some x \<longrightarrow> dget x ''idempotent_replay'' = PBool True) (replayed_result fe pp c job_id)"
    unfolding replayed_result_def by (intro yields_bind yields_option yields_return) (simp_all add: replay_flag)
  have "yields ?R (io_bind (replayed_result fe pp c job_id) (\<lambda>replayed. case replayed of
      Some result \<Rightarrow> io_return result | None \<Rightarrow> start_prepared sha fe pp c key job_id))"
  proof (rule yields_bind_of [OF looked])
    fix r w assume "\<forall>x. r = Some x \<longrightarrow> dget x ''idempotent_replay'' = PBool True"
    then show "yields ?R (case r of Some result \<Rightarrow> io_return result | None \<Rightarrow> start_prepared sha fe pp c key job_id)"
      using prepared by (cases r) (auto intro!: yields_return simp: fresh_verified_def)
  qed
  then show ?thesis
    unfolding yields_def execute_vm_start_workflow_def assms(2) by (simp add: io_bind_def io_of_def)
qed

section \<open>The facade\<close>

lemma run_vm_start_sends:
  "sends_once (\<lambda>c. \<exists>key job_id. validated_request sha node vmid payload = Inr (key, job_id) \<and>
       start_covered True job_id (dc_db c) \<and> dc_node c = node \<and> dc_vmid c = vmid \<and> precheck_passed pp node vmid payload)
     (run_vm_start sha fe pp node vmid (Some payload) actor)" (is "sends_once ?P _")
proof -
  let ?c = "\<lambda>e. start_from_request node vmid (Some payload) e"
  let ?pp = "pp\<lparr>pp_recovery := True, pp_lease_us := 60000000\<rparr>"
  have c: "sc_node_id (?c e) = node" "sc_vmid (?c e) = vmid" "sc_payload (?c e) = payload" for e
    by (simp_all add: start_from_request_def)
  have ok: "start_request_ok ?pp i node vmid payload call \<Longrightarrow> validated_request sha node vmid payload = Inr (k, i) \<Longrightarrow> ?P call"
    for i k call
    by (auto simp: start_request_ok_def start_call_ok_def precheck_passed_def)
  have "sends_once ?P (execute_vm_start_workflow sha fe ?pp (?c e))" for e
  proof (cases "validated_request sha node vmid payload")
    case (Inl err)
    then have "execute_vm_start_workflow sha fe ?pp (?c e) w = (Inl err, w)" for w
      by (intro execute_refused) (simp add: c)
    then show ?thesis by (simp add: sends_once_def)
  next
    case (Inr p)
    obtain k i where p: "p = (k, i)" by (cases p)
    have "sends_once (start_request_ok ?pp i node vmid payload) (execute_vm_start_workflow sha fe ?pp (?c e))"
      using execute_once [of sha "?c e" k i ?pp] Inr p by (simp add: c)
    then show ?thesis
      by (rule sends_once_mono) (erule ok [OF _ Inr [unfolded p]])
  qed
  then show ?thesis
    unfolding run_vm_start_def by (intro sends_once_bind silent_intros)
qed

lemma run_vm_start_verified:
  "yields (\<lambda>result w. \<exists>key job_id. validated_request sha node vmid payload = Inr (key, job_id) \<and>
       fresh_verified sha fe job_id node vmid result w) (run_vm_start sha fe pp node vmid (Some payload) actor)"
  unfolding yields_def
proof (intro allI impI)
  fix w result w'
  assume "run_vm_start sha fe pp node vmid (Some payload) actor w = (Inr result, w')"
  let ?c = "\<lambda>e. start_from_request node vmid (Some payload) e"
  let ?pp = "pp\<lparr>pp_recovery := True, pp_lease_us := 60000000\<rparr>"
  have c: "sc_node_id (?c e) = node" "sc_vmid (?c e) = vmid" "sc_payload (?c e) = payload" for e
    by (simp_all add: start_from_request_def)
  from \<open>run_vm_start _ _ _ _ _ _ _ _ = _\<close> obtain e w1
    where run: "execute_vm_start_workflow sha fe ?pp (?c e) w1 = (Inr result, w')"
    unfolding run_vm_start_def by (rule io_bind_InrE)
  obtain key job_id where v: "validated_request sha node vmid payload = Inr (key, job_id)"
  proof (cases "validated_request sha node vmid payload")
    case (Inl err)
    then show ?thesis using execute_refused [of sha "?c e" err] run by (simp add: c)
  next
    case (Inr p)
    then show ?thesis using that by (cases p) simp
  qed
  have "yields (fresh_verified sha fe job_id (sc_node_id (?c e)) (sc_vmid (?c e))) (execute_vm_start_workflow sha fe ?pp (?c e))"
    by (rule execute_verified) (simp_all add: c v)
  from yieldsD [OF this run] v show "\<exists>key job_id. validated_request sha node vmid payload = Inr (key, job_id) \<and>
      fresh_verified sha fe job_id node vmid result w'" by (auto simp: c)
qed

end
