(* ===== verification/VmStartExamples.thy ===== *)
theory VmStartExamples
  imports VmStartSuccess FeatureExamples
begin

text \<open>The end of a start whose task answered OK and whose VM is then running.\<close>

definition ex_start_ports :: start_ports where
  "ex_start_ports = \<lparr>pp_cluster = ''lab'', pp_recovery = True, pp_lease_us = 60000000,
     pp_list_vms = (\<lambda>_. Inr []), pp_list_templates = (\<lambda>_. Inr []), pp_client = (\<lambda>_. Inr (Inr None)),
     pp_job_get = (\<lambda>_ _. Inr None), pp_job_record = (\<lambda>_ u. Inr []), pp_write_json = (\<lambda>_ i t f p. Inr [])\<rparr>"

definition ex_start_run :: start_run where
  "ex_start_run = \<lparr>sr_job_id = ''op'', sr_key = ''k'', sr_node_id = ''pve1'', sr_vmid = 100, sr_payload = [],
     sr_actor = [], sr_intent = [], sr_lock = no_handle\<rparr>"

definition ex_start_pre :: start_precheck where
  "ex_start_pre = \<lparr>pre_target = [(''vmid'', PInt 100)], pre_observed_before = [], pre_expected = []\<rparr>"

definition ex_start_settled :: "pydict result result \<times> world" where
  "ex_start_settled = start_settle ex_sha ex_flow ex_start_ports ex_start_run ex_start_pre (Some (ex_lease ''vm_start_observation''))
     False [(''exitstatus'', PStr ''OK'')] [(''status'', PStr ''running'')] [] ''u''
     (ex_world_of (ex_db ''vm_start'' ''vm_start_observation'' ''verifying'' []))"

lemma ex_start_settles:
  "case fst ex_start_settled of Inr (Inr r) \<Rightarrow> dget r ''idempotent_replay'' = PBool False | _ \<Rightarrow> False"
  by code_simp

end
