(* ===== verification/ProxmoxClient.thy ===== *)
theory ProxmoxClient
  imports RecoveryRuntime
begin

text \<open>
  The Proxmox client, \<open>app/proxmox/client.py\<close>: the wrapping of answers and failures, the typed
  reads and requests, the two polling loops, and the client interfaces that the features' models
  use (\<open>vm_client\<close>, \<open>restore_calls\<close>, \<open>host_calls\<close>) filled with it. The HTTP library is a
  parameter. Of an exception the model keeps the \<open>details\<close>; one that has only a message has the
  empty dict. Durations are in microseconds. Environment variables and monitoring (whose values are
  floating-point numbers) are not modelled.
\<close>

section \<open>Requests\<close>

record client_request =
  rq_method :: string
  rq_path :: string
  rq_data :: pyval
  rq_metadata :: bool
  rq_host_network :: bool

definition plain_request :: "string \<Rightarrow> string \<Rightarrow> pyval \<Rightarrow> client_request" where
  "plain_request method path data = \<lparr>rq_method = method, rq_path = path, rq_data = data,
     rq_metadata = False, rq_host_network = False\<rparr>"

definition get_request :: "string \<Rightarrow> client_request" where
  "get_request path = plain_request ''GET'' path PNone"

text \<open>What \<open>_request\<close> may raise: \<open>ProxmoxMutationError\<close>, or another exception with its text.\<close>

datatype request_failure =
    MutationFailure pydict
  | OtherFailure string

record http_sent =
  hs_method :: string
  hs_url :: string
  hs_params :: pyval
  hs_data :: pyval

record http_response =
  hr_status :: int
  hr_reason :: string
  hr_text :: string
  hr_json :: "string + pyval"

definition http_request_of :: "string \<Rightarrow> client_request \<Rightarrow> http_sent" where
  "http_request_of api_url rq =
     \<lparr>hs_method = rq_method rq, hs_url = api_url @ rq_path rq,
      hs_params = (if rq_method rq = ''DELETE'' then rq_data rq else PNone),
      hs_data = (if rq_method rq = ''DELETE'' then PNone else rq_data rq)\<rparr>"

fun py_type_name :: "pyval \<Rightarrow> string" where
  "py_type_name PNone = ''NoneType''"
| "py_type_name (PBool b) = ''bool''"
| "py_type_name (PInt i) = ''int''"
| "py_type_name (PStr s) = ''str''"
| "py_type_name (PList xs) = ''list''"
| "py_type_name (PDict d) = ''dict''"

definition default_answer :: "client_request \<Rightarrow> http_response \<Rightarrow> request_failure + pyval" where
  "default_answer rq response =
     (if 400 \<le> hr_status response \<and> hr_status response < 600
      then Inl (MutationFailure [(''method'', PStr (rq_method rq)), (''path'', PStr (rq_path rq)),
        (''status_code'', PInt (hr_status response)), (''reason'', PStr (hr_reason response)),
        (''response_text'', PStr (hr_text response)),
        (''response_json'', case hr_json response of Inl _ \<Rightarrow> PNone | Inr v \<Rightarrow> v)])
      else case hr_json response of
          Inl failure \<Rightarrow> Inl (OtherFailure failure)
        | Inr payload \<Rightarrow>
            if rq_metadata rq then Inr payload
            else (case payload of
                PDict d \<Rightarrow> Inr (dget_or d ''data'' payload)
              | v \<Rightarrow> Inl (OtherFailure (CHR 0x27 # py_type_name v @ CHR 0x27 # '' object has no attribute '' @
                  CHR 0x27 # ''get'' @ [CHR 0x27]))))"

definition default_request :: "(nat \<Rightarrow> http_sent \<Rightarrow> string + http_response) \<Rightarrow> string \<Rightarrow> nat \<Rightarrow> client_request
    \<Rightarrow> request_failure + pyval" where
  "default_request http api_url k rq = (case http k (http_request_of api_url rq) of
       Inl failure \<Rightarrow> Inl (OtherFailure failure)
     | Inr response \<Rightarrow> default_answer rq response)"

section \<open>The client\<close>

text \<open>
  The constructor's arguments. The transport may answer differently at each step \<open>k\<close>;
  \<open>mc_elapsed k\<close> is the time that passes at step \<open>k\<close> beside the sleep between two polls.
\<close>

record api_client =
  mc_request :: "nat \<Rightarrow> client_request \<Rightarrow> request_failure + pyval"
  mc_poll_interval :: int
  mc_task_timeout :: int
  mc_elapsed :: "nat \<Rightarrow> nat"

definition task_poll_interval :: "api_client \<Rightarrow> int" where
  "task_poll_interval c = max (mc_poll_interval c) 100000"

definition task_timeout :: "api_client \<Rightarrow> int" where
  "task_timeout c = max (mc_task_timeout c) 1000000"

definition request_json :: "api_client \<Rightarrow> nat \<Rightarrow> client_request \<Rightarrow> pydict + pyval" where
  "request_json c k rq = (case mc_request c k rq of
       Inl (MutationFailure details) \<Rightarrow> Inl details
     | Inl (OtherFailure failure) \<Rightarrow> Inl [(''method'', PStr (rq_method rq)), (''path'', PStr (rq_path rq)),
         (''error'', PStr failure)]
     | Inr v \<Rightarrow> Inr v)"

text \<open>A \<open>raise\<close> of \<open>ProxmoxMutationError\<close> whose details are \<open>details\<close>.\<close>

definition require :: "bool \<Rightarrow> pydict \<Rightarrow> pydict + unit" where
  "require b details = (if b then Inr () else Inl details)"

definition expect_dict :: "pyval \<Rightarrow> pydict + pydict" where
  "expect_dict v = (case v of PDict d \<Rightarrow> Inr d | _ \<Rightarrow> Inl [])"

text \<open>A list of dicts that all satisfy \<open>P\<close>, and nothing else.\<close>

fun dicts_with :: "(pydict \<Rightarrow> bool) \<Rightarrow> pyval list \<Rightarrow> pydict list option" where
  "dicts_with P [] = Some []"
| "dicts_with P (v # vs) = (case v of
     PDict d \<Rightarrow> if P d then map_option (Cons d) (dicts_with P vs) else None
   | _ \<Rightarrow> None)"

definition expect_rows :: "(pydict \<Rightarrow> bool) \<Rightarrow> pyval \<Rightarrow> pydict + pydict list" where
  "expect_rows P v = (case v of
     PList vs \<Rightarrow> (case dicts_with P vs of Some rows \<Rightarrow> Inr rows | None \<Rightarrow> Inl [])
   | _ \<Rightarrow> Inl [])"

definition node_path :: "string \<Rightarrow> string \<Rightarrow> string" where
  "node_path node rest = ''/nodes/'' @ node @ rest"

definition qemu_path :: "string \<Rightarrow> int \<Rightarrow> string \<Rightarrow> string" where
  "qemu_path node vmid rest = ''/nodes/'' @ node @ ''/qemu/'' @ show_int vmid @ rest"

section \<open>Inventory reads\<close>

definition list_nodes :: "api_client \<Rightarrow> nat \<Rightarrow> pydict + pydict list" where
  "list_nodes c k = ebind (request_json c k (get_request ''/nodes'')) (expect_rows (\<lambda>_. True))"

definition get_node_status :: "api_client \<Rightarrow> nat \<Rightarrow> string \<Rightarrow> pydict + pydict" where
  "get_node_status c k node = ebind (request_json c k (get_request (node_path node ''/status''))) expect_dict"

definition get_vm_migration_preconditions :: "api_client \<Rightarrow> nat \<Rightarrow> string \<Rightarrow> int \<Rightarrow> string \<Rightarrow> pydict + pydict" where
  "get_vm_migration_preconditions c k node vmid destination =
     ebind (request_json c k (get_request (qemu_path node vmid (''/migrate?target='' @ py_quote destination)))) expect_dict"

definition snapshot_envelope :: "pyval \<Rightarrow> pydict + pydict list \<times> pydict" where
  "snapshot_envelope payload =
     ebind (expect_dict payload) (\<lambda>d.
     ebind (expect_rows (\<lambda>_. True) (dget d ''data'')) (\<lambda>rows.
     ebind (require (\<not> dhas d ''changes'' \<or> (case dget d ''changes'' of PStr _ \<Rightarrow> True | _ \<Rightarrow> False)) []) (\<lambda>_.
       Inr (rows, d))))"

definition get_node_network_snapshot :: "api_client \<Rightarrow> nat \<Rightarrow> string \<Rightarrow> pydict + pydict" where
  "get_node_network_snapshot c k node =
     ebind (request_json c k ((get_request (node_path node ''/network''))\<lparr>rq_metadata := True\<rparr>)) (\<lambda>payload.
     ebind (snapshot_envelope payload) (\<lambda>(rows, d).
       Inr [(''interfaces'', PList (map (\<lambda>r. PDict r) rows)), (''pending_changes'', PBool (truthy (dget d ''changes'')))]))"

definition get_host_network_snapshot :: "api_client \<Rightarrow> nat \<Rightarrow> string \<Rightarrow> pydict + (pydict list \<times> string)" where
  "get_host_network_snapshot c k node =
     ebind (request_json c k ((get_request (node_path node ''/network''))\<lparr>rq_metadata := True, rq_host_network := True\<rparr>)) (\<lambda>payload.
     ebind (snapshot_envelope payload) (\<lambda>(rows, d).
       Inr (rows, case dget d ''changes'' of PStr s \<Rightarrow> s | _ \<Rightarrow> [])))"

definition list_vm_resources :: "api_client \<Rightarrow> nat \<Rightarrow> pydict + pydict list" where
  "list_vm_resources c k = ebind (request_json c k (get_request ''/cluster/resources?type=vm''))
     (expect_rows (\<lambda>row. case dget row ''vmid'' of PInt i \<Rightarrow> True | _ \<Rightarrow> False))"

definition assert_vmid_unused :: "api_client \<Rightarrow> nat \<Rightarrow> int \<Rightarrow> pydict + unit" where
  "assert_vmid_unused c k vmid =
     ebind (request_json c k (get_request (''/cluster/nextid?vmid='' @ show_int vmid))) (\<lambda>result.
       require (result = PInt vmid \<or> result = PStr (show_int vmid)) [])"

definition has_text :: "string \<Rightarrow> pydict \<Rightarrow> bool" where
  "has_text key row = (case dget row key of PStr _ \<Rightarrow> True | _ \<Rightarrow> False)"

definition get_vm_snapshots :: "api_client \<Rightarrow> nat \<Rightarrow> string \<Rightarrow> int \<Rightarrow> pydict + pydict list" where
  "get_vm_snapshots c k node vmid =
     ebind (request_json c k (get_request (qemu_path node vmid ''/snapshot''))) (expect_rows (has_text ''name''))"

definition list_vm_storage_images :: "api_client \<Rightarrow> nat \<Rightarrow> string \<Rightarrow> string \<Rightarrow> int \<Rightarrow> pydict + pydict list" where
  "list_vm_storage_images c k node storage vmid =
     ebind (request_json c k (get_request (node_path node
         (''/storage/'' @ storage @ ''/content?content=images&vmid='' @ show_int vmid)))) (expect_rows (has_text ''volid''))"

definition get_node_storages :: "api_client \<Rightarrow> nat \<Rightarrow> string \<Rightarrow> pydict + pydict list" where
  "get_node_storages c k node = ebind (request_json c k (get_request (node_path node ''/storage''))) (expect_rows (\<lambda>_. True))"

definition get_volume_info :: "api_client \<Rightarrow> nat \<Rightarrow> string \<Rightarrow> string \<Rightarrow> string \<Rightarrow> pydict + pydict" where
  "get_volume_info c k node storage volume =
     ebind (request_json c k (get_request (node_path node (''/storage/'' @ storage @ ''/content/'' @ py_quote volume))))
       expect_dict"

definition get_backup_defaults :: "api_client \<Rightarrow> nat \<Rightarrow> string \<Rightarrow> string \<Rightarrow> pydict + pydict" where
  "get_backup_defaults c k node storage =
     ebind (request_json c k (get_request (node_path node (''/vzdump/defaults?storage='' @ py_quote storage)))) (\<lambda>data.
     ebind (expect_dict data) (\<lambda>d. ebind (require (d \<noteq> []) []) (\<lambda>_. Inr d)))"

definition list_vm_backups :: "api_client \<Rightarrow> nat \<Rightarrow> string \<Rightarrow> string \<Rightarrow> int \<Rightarrow> pydict + pydict list" where
  "list_vm_backups c k node storage vmid =
     ebind (request_json c k (get_request (node_path node
         (''/storage/'' @ storage @ ''/content?content=backup&vmid='' @ show_int vmid)))) (expect_rows (\<lambda>_. True))"

definition get_backup_config :: "api_client \<Rightarrow> nat \<Rightarrow> string \<Rightarrow> string \<Rightarrow> pydict + string" where
  "get_backup_config c k node archive =
     ebind (request_json c k (get_request (node_path node (''/vzdump/extractconfig?volume='' @ py_quote archive)))) (\<lambda>data.
       case data of
         PStr s \<Rightarrow> if s = [] \<or> 262144 < length (utf8 s) then Inl [] else Inr s
       | _ \<Rightarrow> Inl [])"

definition list_active_vm_tasks :: "api_client \<Rightarrow> nat \<Rightarrow> string \<Rightarrow> int \<Rightarrow> pydict + pydict list" where
  "list_active_vm_tasks c k node vmid =
     ebind (request_json c k (get_request (node_path node (''/tasks?source=active&vmid='' @ show_int vmid)))) (\<lambda>data.
       Inr (case data of PList vs \<Rightarrow> map dict_of (filter (\<lambda>v. case v of PDict _ \<Rightarrow> True | _ \<Rightarrow> False) vs) | _ \<Rightarrow> []))"

definition list_storage_configurations :: "api_client \<Rightarrow> nat \<Rightarrow> pydict + pydict list" where
  "list_storage_configurations c k = ebind (request_json c k (get_request ''/storage'')) (expect_rows (has_text ''storage''))"

definition get_storage_configuration :: "api_client \<Rightarrow> nat \<Rightarrow> string \<Rightarrow> pydict + pydict" where
  "get_storage_configuration c k storage =
     ebind (request_json c k (get_request (''/storage/'' @ py_quote storage))) (\<lambda>data.
     ebind (expect_dict data) (\<lambda>d. ebind (require (dget d ''storage'' = PStr storage) []) (\<lambda>_. Inr d)))"

section \<open>Permissions\<close>

text \<open>\<open>quote\<close> with \<open>safe="/"\<close>\<close>

definition py_quote_path :: "string \<Rightarrow> string" where
  "py_quote_path s = concat (map (\<lambda>ch. if ch = CHR ''/'' then [ch] else py_quote [ch]) s)"

definition permissions_at :: "string \<Rightarrow> pyval \<Rightarrow> pydict + string list" where
  "permissions_at path data =
     ebind (expect_dict data) (\<lambda>d. ebind (expect_dict (dget d path)) (\<lambda>granted. Inr (dict_keys granted)))"

definition read_permissions :: "api_client \<Rightarrow> nat \<Rightarrow> string \<Rightarrow> string \<Rightarrow> pydict + string list" where
  "read_permissions c k quoted path =
     ebind (request_json c k (get_request (''/access/permissions?path='' @ quoted))) (permissions_at path)"

definition get_bridge_permissions :: "api_client \<Rightarrow> nat \<Rightarrow> string \<Rightarrow> pydict + string list" where
  "get_bridge_permissions c k bridge =
     (let path = ''/sdn/zones/localnetwork/'' @ bridge in read_permissions c k (py_quote path) path)"

definition get_host_network_permissions :: "api_client \<Rightarrow> nat \<Rightarrow> string \<Rightarrow> pydict + (string list \<times> string list)" where
  "get_host_network_permissions c k node =
     (let read = (\<lambda>path. read_permissions c k (py_quote path) path) in
      ebind (read (node_path node [])) (\<lambda>at_node. ebind (read ''/sdn/zones/localnetwork'') (\<lambda>at_zone.
        Inr (at_node, at_zone))))"

definition get_vm_permissions :: "api_client \<Rightarrow> nat \<Rightarrow> int \<Rightarrow> pydict + string list" where
  "get_vm_permissions c k vmid = (let path = ''/vms/'' @ show_int vmid in read_permissions c k path path)"

definition get_storage_permissions :: "api_client \<Rightarrow> nat \<Rightarrow> string \<Rightarrow> pydict + string list" where
  "get_storage_permissions c k storage =
     (let path = ''/storage/'' @ storage in read_permissions c k (py_quote_path path) path)"

definition get_storage_configuration_permissions :: "api_client \<Rightarrow> nat \<Rightarrow> pydict + string list" where
  "get_storage_configuration_permissions c k = read_permissions c k ''/storage'' ''/storage''"

definition has_node_task_audit :: "api_client \<Rightarrow> nat \<Rightarrow> string \<Rightarrow> pydict + bool" where
  "has_node_task_audit c k node =
     (let path = node_path node [] in
      ebind (request_json c k (get_request (''/access/permissions?path='' @ path))) (\<lambda>data.
        Inr (case permissions_at path data of Inl _ \<Rightarrow> False | Inr granted \<Rightarrow> ''Sys.Audit'' \<in> set granted)))"

section \<open>VM reads\<close>

definition get_vm_status :: "api_client \<Rightarrow> nat \<Rightarrow> string \<Rightarrow> int \<Rightarrow> pydict + pydict" where
  "get_vm_status c k node vmid =
     ebind (request_json c k (get_request (qemu_path node vmid ''/status/current''))) (\<lambda>data. Inr (dict_of data))"

definition get_vm_config :: "api_client \<Rightarrow> nat \<Rightarrow> string \<Rightarrow> int \<Rightarrow> pydict + pydict" where
  "get_vm_config c k node vmid =
     ebind (request_json c k (get_request (qemu_path node vmid ''/config''))) (\<lambda>data. Inr (dict_of data))"

definition get_vm_current_config :: "api_client \<Rightarrow> nat \<Rightarrow> string \<Rightarrow> int \<Rightarrow> pydict + pydict" where
  "get_vm_current_config c k node vmid =
     ebind (request_json c k (get_request (qemu_path node vmid ''/config?current=1''))) expect_dict"

definition get_vm_pending :: "api_client \<Rightarrow> nat \<Rightarrow> string \<Rightarrow> int \<Rightarrow> pydict + pydict list" where
  "get_vm_pending c k node vmid =
     ebind (request_json c k (get_request (qemu_path node vmid ''/pending''))) (expect_rows (\<lambda>_. True))"

definition get_task_status :: "api_client \<Rightarrow> nat \<Rightarrow> string \<Rightarrow> string \<Rightarrow> pydict + pydict" where
  "get_task_status c k node upid =
     ebind (request_json c k (get_request (node_path node (''/tasks/'' @ upid @ ''/status'')))) (\<lambda>data. Inr (dict_of data))"

definition get_guest_network_interfaces :: "api_client \<Rightarrow> nat \<Rightarrow> string \<Rightarrow> int \<Rightarrow> pydict + pydict" where
  "get_guest_network_interfaces c k node vmid =
     ebind (request_json c k (get_request (qemu_path node vmid ''/agent/network-get-interfaces''))) (\<lambda>data.
       Inr (case data of PDict d \<Rightarrow> d | v \<Rightarrow> [(''result'', v)]))"

definition get_guest_exec_status :: "api_client \<Rightarrow> nat \<Rightarrow> string \<Rightarrow> int \<Rightarrow> int \<Rightarrow> pydict + pydict" where
  "get_guest_exec_status c k node vmid pid =
     ebind (request_json c k (get_request (qemu_path node vmid (''/agent/exec-status?pid='' @ show_int pid))))
       (\<lambda>data. Inr (dict_of data))"

section \<open>Requests that change something\<close>

definition send :: "api_client \<Rightarrow> nat \<Rightarrow> string \<Rightarrow> string \<Rightarrow> pydict \<Rightarrow> pydict + pyval" where
  "send c k method path data = request_json c k (plain_request method path (PDict data))"

text \<open>A request that answers with a task reference.\<close>

definition requested_task :: "pydict \<Rightarrow> pydict + pyval \<Rightarrow> pydict + string" where
  "requested_task details answer = ebind answer (\<lambda>data.
     ebind (require (stripped_text data \<noteq> []) details) (\<lambda>_. Inr (stripped_text data)))"

definition migrate_vm_reviewed :: "api_client \<Rightarrow> nat \<Rightarrow> string \<Rightarrow> int \<Rightarrow> pyval \<Rightarrow> pydict + pyval" where
  "migrate_vm_reviewed c k node vmid destination = send c k ''POST'' (qemu_path node vmid ''/migrate'') (migrate_body destination)"

definition create_vm_from_image :: "api_client \<Rightarrow> nat \<Rightarrow> string \<Rightarrow> pydict \<Rightarrow> pydict + pyval" where
  "create_vm_from_image c k node config = send c k ''POST'' (node_path node ''/qemu'') config"

definition convert_vm_to_template :: "api_client \<Rightarrow> nat \<Rightarrow> string \<Rightarrow> int \<Rightarrow> pydict + pyval" where
  "convert_vm_to_template c k node vmid = send c k ''POST'' (qemu_path node vmid ''/template'') []"

definition DELETE_BODY :: pydict where
  "DELETE_BODY = [(''purge'', PInt 0), (''destroy-unreferenced-disks'', PInt 0)]"

definition delete_vm_reviewed :: "api_client \<Rightarrow> nat \<Rightarrow> string \<Rightarrow> int \<Rightarrow> pydict + pyval" where
  "delete_vm_reviewed c k node vmid = send c k ''DELETE'' (qemu_path node vmid []) DELETE_BODY"

definition reviewed_clone_body :: "pyval \<Rightarrow> pyval \<Rightarrow> pyval \<Rightarrow> pyval \<Rightarrow> pyval \<Rightarrow> pydict" where
  "reviewed_clone_body newid name storage disk_format description =
     [(''newid'', newid), (''name'', name), (''storage'', storage), (''format'', disk_format), (''full'', PInt 1),
      (''description'', description)]"

definition clone_vm_reviewed :: "api_client \<Rightarrow> nat \<Rightarrow> string \<Rightarrow> int \<Rightarrow> pyval \<Rightarrow> pyval \<Rightarrow> pyval \<Rightarrow> pyval \<Rightarrow> pyval
    \<Rightarrow> pydict + pyval" where
  "clone_vm_reviewed c k node vmid newid name storage disk_format description =
     send c k ''POST'' (qemu_path node vmid ''/clone'') (reviewed_clone_body newid name storage disk_format description)"

definition clone_vm :: "api_client \<Rightarrow> nat \<Rightarrow> string \<Rightarrow> int \<Rightarrow> int \<Rightarrow> string \<Rightarrow> string \<Rightarrow> string \<Rightarrow> pydict + string" where
  "clone_vm c k template_node template_vmid newid name target storage =
     (let payload = [(''newid'', PInt newid), (''name'', PStr name), (''target'', PStr target),
            (''storage'', PStr storage), (''full'', PInt 1)]
      in requested_task [(''payload'', PDict payload)]
           (send c k ''POST'' (qemu_path template_node template_vmid ''/clone'') payload))"

definition set_vm_config :: "api_client \<Rightarrow> nat \<Rightarrow> string \<Rightarrow> int \<Rightarrow> pydict \<Rightarrow> pydict + pyval" where
  "set_vm_config c k node vmid config = send c k ''PUT'' (qemu_path node vmid ''/config'') config"

definition resize_vm_disk :: "api_client \<Rightarrow> nat \<Rightarrow> string \<Rightarrow> int \<Rightarrow> string \<Rightarrow> int \<Rightarrow> pydict + pyval" where
  "resize_vm_disk c k node vmid disk gigabytes =
     send c k ''PUT'' (qemu_path node vmid ''/resize'') [(''disk'', PStr disk), (''size'', PStr (show_int gigabytes @ ''G''))]"

definition resize_vm_disk_reviewed :: "api_client \<Rightarrow> nat \<Rightarrow> string \<Rightarrow> int \<Rightarrow> int \<Rightarrow> string \<Rightarrow> pydict + pyval" where
  "resize_vm_disk_reviewed c k node vmid size_gib digest =
     send c k ''PUT'' (qemu_path node vmid ''/resize'')
       [(''disk'', PStr ''scsi0''), (''size'', PStr (show_int size_gib @ ''G'')), (''digest'', PStr digest)]"

definition target_details :: "string \<Rightarrow> int \<Rightarrow> pydict" where
  "target_details node vmid = [(''node'', PStr node), (''vmid'', PInt vmid)]"

definition start_vm :: "api_client \<Rightarrow> nat \<Rightarrow> string \<Rightarrow> int \<Rightarrow> pydict + string" where
  "start_vm c k node vmid = requested_task (target_details node vmid)
     (request_json c k (plain_request ''POST'' (qemu_path node vmid ''/status/start'') PNone))"

definition shutdown_vm :: "api_client \<Rightarrow> nat \<Rightarrow> string \<Rightarrow> int \<Rightarrow> pydict + string" where
  "shutdown_vm c k node vmid = requested_task (target_details node vmid)
     (request_json c k (plain_request ''POST'' (qemu_path node vmid ''/status/shutdown'') PNone))"

definition create_vm_backup :: "api_client \<Rightarrow> nat \<Rightarrow> string \<Rightarrow> int \<Rightarrow> pyval \<Rightarrow> string \<Rightarrow> pydict + pyval" where
  "create_vm_backup c k node vmid storage operation_id =
     send c k ''POST'' (node_path node ''/vzdump'') (backup_body vmid storage operation_id)"

definition restore_vm_backup :: "api_client \<Rightarrow> nat \<Rightarrow> string \<Rightarrow> pydict \<Rightarrow> pydict + pyval" where
  "restore_vm_backup c k node body = send c k ''POST'' (node_path node ''/qemu'') body"

text \<open>
  The command of \<open>agent/exec\<close>: a text, or its parts that are not blank. A pair of the form data
  is a list of two values here. \<open>int(pid)\<close> may raise, which is the outer left case.
\<close>

definition guest_command_parts :: "pyval list \<Rightarrow> string list" where
  "guest_command_parts command = filter (\<lambda>part. py_strip part \<noteq> []) (map py_str command)"

definition guest_command_data :: "string \<Rightarrow> int \<Rightarrow> string + pyval list \<Rightarrow> pydict + pyval" where
  "guest_command_data node vmid command = (case command of
       Inl line \<Rightarrow> Inr (PDict [(''command'', PStr line)])
     | Inr parts \<Rightarrow> ebind (require (guest_command_parts parts \<noteq> []) (target_details node vmid)) (\<lambda>_.
         Inr (PList (map (\<lambda>part. PList [PStr ''command'', PStr part]) (guest_command_parts parts)))))"

definition guest_exec_pid :: "string \<Rightarrow> int \<Rightarrow> pyval \<Rightarrow> pyval \<Rightarrow> (pydict + int) result" where
  "guest_exec_pid node vmid command data =
     (let payload = dict_of data; pid = dget payload ''pid''
      in if pid = PNone \<or> py_strip (py_str pid) = []
         then Inr (Inl (target_details node vmid @ [(''command'', command), (''response'', PDict payload)]))
         else ebind (py_int pid) (\<lambda>i. Inr (Inr i)))"

definition exec_guest_command :: "api_client \<Rightarrow> nat \<Rightarrow> string \<Rightarrow> int \<Rightarrow> string + pyval list \<Rightarrow> (pydict + int) result" where
  "exec_guest_command c k node vmid command =
     (case ebind (guest_command_data node vmid command) (\<lambda>data.
        request_json c k (plain_request ''POST'' (qemu_path node vmid ''/agent/exec'') data)) of
        Inl details \<Rightarrow> Inr (Inl details)
      | Inr data \<Rightarrow> guest_exec_pid node vmid (case command of Inl line \<Rightarrow> PStr line | Inr parts \<Rightarrow> PList parts) data)"

section \<open>Polling\<close>

text \<open>
  The loop of \<open>wait_for_task\<close> and \<open>wait_guest_exec\<close>: read, heartbeat, remember, return what
  \<open>finish\<close> makes of a final answer, give up after the deadline, sleep. \<open>now\<close> is the monotonic
  clock when the iteration begins and \<open>k\<close> its step; the result comes with the next step. A
  heartbeat that raises ends the loop with its exception.
\<close>

function poll_until :: "(nat \<Rightarrow> pydict + pydict) \<Rightarrow> (nat \<Rightarrow> unit result) \<Rightarrow> (pydict \<Rightarrow> pydict list \<Rightarrow> pydict option)
    \<Rightarrow> (pydict list \<Rightarrow> pydict) \<Rightarrow> api_client \<Rightarrow> int \<Rightarrow> int \<Rightarrow> nat \<Rightarrow> pydict list
    \<Rightarrow> (pydict + pydict) result \<times> nat" where
  "poll_until read beat finish timed_out c deadline now k polls = (case read k of
       Inl details \<Rightarrow> (Inr (Inl details), Suc k)
     | Inr status \<Rightarrow> (case beat k of
           Inl e \<Rightarrow> (Inl e, Suc k)
         | Inr _ \<Rightarrow> (case finish status (polls @ [status]) of
               Some r \<Rightarrow> (Inr (Inr r), Suc k)
             | None \<Rightarrow>
                 if deadline \<le> now + int (mc_elapsed c k)
                 then (Inr (Inl (timed_out (polls @ [status]))), Suc k)
                 else poll_until read beat finish timed_out c deadline
                   (now + int (mc_elapsed c k) + task_poll_interval c) (Suc k) (polls @ [status]))))"
  by pat_completeness auto
termination
  by (relation "measure (\<lambda>(read, beat, finish, timed_out, c, deadline, now, k, polls). nat (deadline - now))")
    (auto simp: task_poll_interval_def)

declare poll_until.simps [simp del]

definition dict_rows_value :: "pydict list \<Rightarrow> pyval" where
  "dict_rows_value rows = PList (map (\<lambda>d. PDict d) rows)"

definition task_stopped :: "pydict \<Rightarrow> bool" where
  "task_stopped status \<longleftrightarrow> py_lower (text_or_empty (dget status ''status'')) = ''stopped''"

definition finished_task :: "string \<Rightarrow> string \<Rightarrow> pydict \<Rightarrow> pydict list \<Rightarrow> pydict option" where
  "finished_task node upid status polls =
     (if task_stopped status
      then Some [(''node'', PStr node), (''upid'', PStr upid), (''status'', dget status ''status''),
        (''exitstatus'', dget status ''exitstatus''), (''polls'', dict_rows_value polls)]
      else None)"

definition wait_for_task :: "api_client \<Rightarrow> (nat \<Rightarrow> unit result) \<Rightarrow> int \<Rightarrow> nat \<Rightarrow> string \<Rightarrow> string
    \<Rightarrow> (pydict + pydict) result \<times> nat" where
  "wait_for_task c beat now k node upid =
     poll_until (\<lambda>k. get_task_status c k node upid) beat (finished_task node upid)
       (\<lambda>polls. [(''node'', PStr node), (''upid'', PStr upid), (''polls'', dict_rows_value polls)])
       c (now + task_timeout c) now k []"

definition guest_exec_ended :: "pydict \<Rightarrow> bool" where
  "guest_exec_ended status \<longleftrightarrow>
     dget status ''exited'' = PBool True
     \<or> py_lower (text_or_empty (dget status ''exited'')) \<in> {''1'', ''true'', ''yes''}
     \<or> dhas status ''exitcode''"

definition finished_exec :: "pydict \<Rightarrow> pydict list \<Rightarrow> pydict option" where
  "finished_exec status polls =
     (if guest_exec_ended status then Some (dset ''polls'' (dict_rows_value polls) status) else None)"

definition wait_guest_exec :: "api_client \<Rightarrow> (nat \<Rightarrow> unit result) \<Rightarrow> int \<Rightarrow> nat \<Rightarrow> string \<Rightarrow> int \<Rightarrow> int
    \<Rightarrow> (pydict + pydict) result \<times> nat" where
  "wait_guest_exec c beat now k node vmid pid =
     poll_until (\<lambda>k. get_guest_exec_status c k node vmid pid) beat finished_exec
       (\<lambda>polls. target_details node vmid @ [(''pid'', PInt pid), (''polls'', dict_rows_value polls)])
       c (now + task_timeout c) now k []"

subsection \<open>How polling ends\<close>

text \<open>What \<open>poll_until\<close> does from step \<open>k\<close> on when it ends before step \<open>k'\<close>.\<close>

definition polled :: "(nat \<Rightarrow> pydict + pydict) \<Rightarrow> (pydict \<Rightarrow> pydict list \<Rightarrow> pydict option) \<Rightarrow> pydict list
    \<Rightarrow> nat \<Rightarrow> nat \<Rightarrow> (pydict + pydict) result \<Rightarrow> bool" where
  "polled read finish polls k k' r \<longleftrightarrow> k < k' \<and> (case r of
     Inr (Inr result) \<Rightarrow> (\<exists>status polls'. read (k' - 1) = Inr status \<and> finish status (polls' @ [status]) = Some result
       \<and> length polls' + k + 1 = length polls + k')
   | _ \<Rightarrow> True)"

lemma polled_later: "polled read finish (polls @ [status]) (Suc k) k' r \<Longrightarrow> polled read finish polls k k' r"
  by (auto simp: polled_def split: sum.splits)

lemma poll_until_polled:
  "polled read finish polls k (snd (poll_until read beat finish timed_out c deadline now k polls))
     (fst (poll_until read beat finish timed_out c deadline now k polls))"
proof (induction read beat finish timed_out c deadline now k polls rule: poll_until.induct)
  case (1 read beat finish timed_out c deadline now k polls)
  let ?again = "poll_until read beat finish timed_out c deadline
    (now + int (mc_elapsed c k) + task_poll_interval c) (Suc k)"
  show ?case
  proof (cases "read k")
    case (Inl d)
    then show ?thesis by (simp add: poll_until.simps polled_def)
  next
    case read: (Inr status)
    show ?thesis
    proof (cases "beat k")
      case (Inl e)
      with read show ?thesis by (simp add: poll_until.simps polled_def)
    next
      case (Inr u)
      show ?thesis
      proof (cases "finish status (polls @ [status]) = None \<and> now + int (mc_elapsed c k) < deadline")
        case True
        then have "polled read finish (polls @ [status]) (Suc k) (snd (?again (polls @ [status]))) (fst (?again (polls @ [status])))"
          using read Inr by (intro "1.IH") auto
        moreover have "poll_until read beat finish timed_out c deadline now k polls = ?again (polls @ [status])"
          using True read Inr by (subst poll_until.simps) simp
        ultimately show ?thesis by (metis polled_later)
      next
        case False
        with read Inr show ?thesis
          by (subst (1 2) poll_until.simps) (auto simp: polled_def split: option.splits)
      qed
    qed
  qed
qed

lemma poll_until_bound:
  "deadline - now \<le> int n * task_poll_interval c \<Longrightarrow>
   snd (poll_until read beat finish timed_out c deadline now k polls) \<le> k + n + 1"
proof (induction n arbitrary: now k polls)
  case 0
  then show ?case by (subst poll_until.simps) (auto split: sum.splits option.splits)
next
  case (Suc n)
  let ?again = "poll_until read beat finish timed_out c deadline
    (now + int (mc_elapsed c k) + task_poll_interval c) (Suc k)"
  have "snd (?again polls') \<le> Suc k + n + 1" for polls'
    using Suc.prems by (intro Suc.IH) (simp add: algebra_simps)
  then show ?case by (subst poll_until.simps) (auto split: sum.splits option.splits)
qed

definition max_polls :: "api_client \<Rightarrow> nat" where
  "max_polls c = nat ((task_timeout c - 1) div task_poll_interval c) + 2"

lemma max_polls_suffice: "task_timeout c \<le> int (max_polls c - 1) * task_poll_interval c"
proof -
  let ?i = "task_poll_interval c" and ?t = "task_timeout c"
  have i: "0 < ?i" by (simp add: task_poll_interval_def)
  have t: "0 < ?t" by (simp add: task_timeout_def)
  define q m where "q = (?t - 1) div ?i" and "m = (?t - 1) mod ?i"
  have "?i * q + m = ?t - 1" by (simp add: q_def m_def)
  moreover have "m < ?i" using i by (simp add: m_def)
  moreover have "0 \<le> q" using i t by (simp add: q_def pos_imp_zdiv_nonneg_iff)
  ultimately show ?thesis by (simp add: max_polls_def q_def [symmetric] algebra_simps)
qed

lemma waiting_bound:
  "snd (poll_until read beat finish timed_out c (now + task_timeout c) now k polls) \<le> k + max_polls c"
  using poll_until_bound [of "now + task_timeout c" now "max_polls c - 1" c read beat finish timed_out k polls]
    max_polls_suffice [of c] by (simp add: max_polls_def)

lemma wait_for_task_ends:
  "\<exists>r n. wait_for_task c beat now k node upid = (r, k + n) \<and> 0 < n \<and> n \<le> max_polls c \<and>
     (case r of
        Inr (Inr result) \<Rightarrow> \<exists>status. get_task_status c (k + n - 1) node upid = Inr status \<and> task_stopped status \<and>
          dget result ''exitstatus'' = dget status ''exitstatus'' \<and>
          (\<exists>polls. dget result ''polls'' = dict_rows_value polls \<and> length polls = n)
      | _ \<Rightarrow> True)"
proof -
  obtain r k' where w: "wait_for_task c beat now k node upid = (r, k')" by (cases "wait_for_task c beat now k node upid")
  have p: "polled (\<lambda>k. get_task_status c k node upid) (finished_task node upid) [] k k' r"
    using w poll_until_polled unfolding wait_for_task_def by (metis fst_conv snd_conv)
  have b: "k' \<le> k + max_polls c" using w waiting_bound unfolding wait_for_task_def by (metis snd_conv)
  define n where "n = k' - k"
  have n: "k' = k + n" "0 < n" using p by (auto simp: polled_def n_def)
  have "case r of Inr (Inr result) \<Rightarrow> \<exists>status. get_task_status c (k + n - 1) node upid = Inr status \<and> task_stopped status \<and>
      dget result ''exitstatus'' = dget status ''exitstatus'' \<and>
      (\<exists>polls. dget result ''polls'' = dict_rows_value polls \<and> length polls = n) | _ \<Rightarrow> True"
    using p n by (auto simp: polled_def finished_task_def dget_def split: sum.splits if_splits)
  then show ?thesis using w n b by auto
qed

section \<open>The interfaces of the features\<close>

text \<open>\<open>ProxmoxMutationError\<close> is what the clients of the features turn into their own errors.\<close>

definition unless_failed :: "pydict + 'a \<Rightarrow> 'a option" where
  "unless_failed r = (case r of Inl _ \<Rightarrow> None | Inr x \<Rightarrow> Some x)"

lemma unless_failed_Some: "unless_failed r = Some x \<longleftrightarrow> r = Inr x"
  by (simp add: unless_failed_def split: sum.splits)

definition proxmox_vm_client :: "api_client \<Rightarrow> vm_client" where
  "proxmox_vm_client c =
     \<lparr>vc_config = \<lambda>node vmid k. unless_failed (get_vm_current_config c k node vmid),
      vc_status = \<lambda>node vmid k. unless_failed (get_vm_status c k node vmid),
      vc_pending = \<lambda>node vmid k. unless_failed (get_vm_pending c k node vmid),
      vc_vm_permissions = \<lambda>vmid k. unless_failed (get_vm_permissions c k vmid),
      vc_network = \<lambda>node k. unless_failed (get_node_network_snapshot c k node),
      vc_bridge_permissions = \<lambda>bridge k. unless_failed (get_bridge_permissions c k bridge),
      vc_storages = \<lambda>node k. unless_failed (get_node_storages c k node),
      vc_storage_permissions = \<lambda>storage k. unless_failed (get_storage_permissions c k storage),
      vc_volume = \<lambda>node storage volume k. unless_failed (get_volume_info c k node storage volume),
      vc_set_config = \<lambda>node vmid config k. unless_failed (set_vm_config c k node vmid config),
      vc_resize = \<lambda>node vmid size_gib digest k. unless_failed (resize_vm_disk_reviewed c k node vmid size_gib digest),
      vc_task = \<lambda>node upid k. unless_failed (get_task_status c k node upid),
      vc_snapshots = \<lambda>node vmid k. unless_failed (get_vm_snapshots c k node vmid),
      vc_images = \<lambda>node storage vmid k. unless_failed (list_vm_storage_images c k node storage vmid),
      vc_vmid_unused = \<lambda>vmid k. unless_failed (assert_vmid_unused c k vmid) \<noteq> None,
      vc_resources = \<lambda>k. unless_failed (list_vm_resources c k),
      vc_nodes = \<lambda>k. unless_failed (list_nodes c k),
      vc_node_status = \<lambda>node k. unless_failed (get_node_status c k node),
      vc_task_audit = \<lambda>node k. unless_failed (has_node_task_audit c k node),
      vc_preconditions = \<lambda>node vmid destination k. unless_failed (get_vm_migration_preconditions c k node vmid destination),
      vc_backups = \<lambda>node storage vmid k. unless_failed (list_vm_backups c k node storage vmid),
      vc_backup_defaults = \<lambda>node storage k. unless_failed (get_backup_defaults c k node storage),
      vc_delete = \<lambda>node vmid k. unless_failed (delete_vm_reviewed c k node vmid),
      vc_clone = \<lambda>node vmid args k. unless_failed (clone_vm_reviewed c k node vmid (dget args ''newid'')
        (dget args ''name'') (dget args ''storage'') (dget args ''format'') (dget args ''description'')),
      vc_convert = \<lambda>node vmid k. unless_failed (convert_vm_to_template c k node vmid),
      vc_migrate = \<lambda>node vmid destination k. unless_failed (migrate_vm_reviewed c k node vmid destination),
      vc_create_backup = \<lambda>node vmid storage operation_id k.
        unless_failed (create_vm_backup c k node vmid storage operation_id)\<rparr>"

text \<open>\<open>restore_body\<close> puts the texts of its arguments into the device option.\<close>

definition restore_body_of :: "pydict \<Rightarrow> pydict" where
  "restore_body_of args =
     restore_body (case dget args ''new_vmid'' of PInt i \<Rightarrow> i | _ \<Rightarrow> 0) (dget args ''name'') (dget args ''archive'')
       (dget args ''storage'') (py_str (dget args ''bridge'')) (py_str (dget args ''mac'')) (py_str (dget args ''firewall''))
       (py_str (dget args ''operation_id''))"

definition proxmox_restore_calls :: "api_client \<Rightarrow> restore_calls" where
  "proxmox_restore_calls c =
     \<lparr>rc_client = proxmox_vm_client c,
      rc_backup_config = \<lambda>node archive k. map_option (\<lambda>s. PStr s) (unless_failed (get_backup_config c k node archive)),
      rc_restore = \<lambda>node args k. unless_failed (restore_vm_backup c k node (restore_body_of args))\<rparr>"

definition proxmox_host_calls :: "api_client \<Rightarrow> host_calls" where
  "proxmox_host_calls c =
     \<lparr>hc_client = proxmox_vm_client c,
      hc_storage_admin = \<lambda>k. unless_failed (get_storage_configuration_permissions c k),
      hc_storage_configs = \<lambda>k. unless_failed (list_storage_configurations c k),
      hc_storage_config = \<lambda>storage k. unless_failed (get_storage_configuration c k storage),
      hc_network_permissions = \<lambda>node k. unless_failed (get_host_network_permissions c k node),
      hc_network_snapshot = \<lambda>node k. unless_failed (get_host_network_snapshot c k node),
      hc_send = \<lambda>method path body k. unless_failed (send c k method path body)\<rparr>"

end
