(* ===== verification/Spec2Isabelle.thy ===== *)
theory Spec2Isabelle
  imports FeatureExamples LogAuthenticity Lifecycle AccountExamples VmStartExamples ProxmoxClient
begin

text \<open>
  Gjallar operates Proxmox VE through a web interface. Its backend (\<open>src/backend/app\<close>) reviews a
  change, records it as an operation, takes durable locks on its targets, sends at most the reviewed
  mutation and verifies the result by observation; a recovery runner takes over operations whose
  process died. This development models that backend's core and proves what makes it correct.

  \<^bold>\<open>Parts and how they interact.\<close> A request reaches the service of a feature (\<open>operations/vm_*\<close>,
  \<open>operations/host_*\<close>). The service validates it, observes the target through the Proxmox client and
  compares the review with the expectation of the request. The admission (\<open>operations/vm_admission.py\<close>,
  \<open>operations/host_config/admission.py\<close>) then acquires the locks, creates the operation and claims its
  recovery item in one transaction. The flow (\<open>operations/vm_config\<close>) reviews again, commits that it is
  dispatching, sends the mutation, commits the answer and verifies. Every later write goes through the
  lease of the recovery item (\<open>operations/recovery\<close>), whose generation fences off a process that was
  overtaken. The runner claims due items and calls the handler of their kind, which verifies only.

  \<^bold>\<open>Theories.\<close>
  \<^item> Prelude (strings, results, tables as row lists), Regex (the regular expressions of \<open>re\<close> that the
    sources use), PyValues (JSON-like Python values, \<open>==\<close>, truth, \<open>str\<close>, \<open>int\<close>).
  \<^item> Redaction: \<open>core/redaction.py\<close>. OperationDomain, Evidence, OperationStore: \<open>operations/core\<close>:
    statuses and transitions, digests and the checksum chain, the evidence kept in events, the store.
  \<^item> Database: the tables of \<open>operations/core\<close>, \<open>operations/recovery\<close>, \<open>db/models.py\<close> and
    \<open>setup_integration/models.py\<close> that the repositories write, with the constraints they rely on.
  \<^item> SetupAdmission: \<open>setup_integration/runtime.py\<close> (pinning, admission). TargetLocks, HostConfig:
    \<open>operations/locks\<close>, \<open>operations/host_config\<close>. RecoveryStore, RecoveryCommit:
    \<open>operations/recovery/infrastructure/repository.py\<close>. Admission: the admission transactions.
  \<^item> Transactions: stores as interfaces (locales). CoreSystem, History: all transactions of the core as
    commands of one store, its invariant, its orders and the interpretations of the locales. Lifecycle:
    one dispatch per operation, final statuses. CanonicalJson, LogAuthenticity: the canonical JSON
    of a value determines it, and the recorded checksum its log.
  \<^item> Flow: processes over the shared database and the Proxmox client. ConfigChange, TaskChange:
    \<open>operations/vm_config\<close>; their locales state what a feature promises the flow, and each feature is an
    interpretation. VmCommon, VmVolumes: what the features share.
  \<^item> VmCompute, VmNetwork, VmDisk, VmTemplate, VmDelete, VmClone, VmMigrate, VmBackup, VmRestore:
    \<open>operations/vm_*\<close>; Backups: \<open>backups\<close>. HostChange, HostStorage, HostNetwork, HostBridge:
    \<open>operations/host_storage\<close>, \<open>operations/host_network\<close>.
  \<^item> RecoveryHandlers, RecoveryRuntime: \<open>operations/recovery/application.py\<close> (binding, runner), the
    recovery handlers and facades of the features, \<open>operations/recovery/runtime.py\<close>.
  \<^item> ProxmoxClient: \<open>proxmox/client.py\<close>: the typed reads and requests over an HTTP transport that is a
    parameter, the polling loops, and the clients that the features take as arguments.
  \<^item> VmStart, VmStartPorts, VmStartWorkflow, VmStartExecute: \<open>operations/vm_start\<close> and
    \<open>vm_actions/start.py\<close>: domain and pre-check, ports and adapters, the workflow from the request to
    the settled outcome. VmStartSafety, VmStartSuccess: when it sends and what a result says.
    VmStartExamples: a start that ends verified.
  \<^item> Passwords, Accounts, AccountInvariants, AccountSafety, AccountApi: \<open>auth\<close>: password hashes, users,
    sessions, roles and audit events as one transactional store, what it guarantees, and the endpoints.
  \<^item> Examples, FeatureExamples, AccountExamples: concrete settings for the witnesses.

  \<^bold>\<open>Correspondence.\<close> A table row is a record and a table a list of rows; a \<open>with session\<close> block is a
  function from the database to an error (the transaction rolls back) or the new database and a result.
  A process is a function on worlds: the database, the log of mutations that left for Proxmox, and a
  step counter; a logged mutation carries the database and the step of its moment. Between two steps
  of a process any other committed work may happen (\<open>fe_between\<close>); the environment is fair when that
  work keeps the invariant of the core. A read of Proxmox is a function
  of the step, so that two reads may differ. Exceptions are values of one \<open>error\<close> type: the exceptions
  of the core are constructors, those of the features carry their code and HTTP status. Time is a
  number of microseconds, uuids and the clock are arguments, SHA-256 is a parameter.

  \<^bold>\<open>What the lemmas show.\<close> The log of an operation is an append-only verified chain and a walk of the
  status machine with at most one dispatch, terminal statuses other than expired are final,
  and no other events fit the recorded checksum without a collision of the hash. A claim leases the due
  items, each once, and touches no other. Locks of one scope, and a host lock with every other lock of its cluster, exclude each
  other. A lease that was overtaken never writes again. A flow sends at most the reviewed mutation, only
  after the database says durably that it is dispatching, and a
  resize or a bridge change only after the target was looked at once more; a host bridge is reloaded
  only after the staged plan was seen twice. A reported success was observed. Recovery sends nothing.
  Each feature's comparison proves what its request asked for, and the parsers and policies of the features are characterized. An account that was disabled never logs in again, an
  enabled administrator always remains, and only a live session of an enabled administrator manages
  accounts.

  \<^bold>\<open>Bounds and loops.\<close> No definition takes fuel. The client's polling loop ends because each round
  sleeps at least a tenth of a second and the deadline is fixed; its number of polls is bounded by the
  timeout over the interval. In the flows the polling of a task is bounded by \<open>ts_polls\<close>, the number of
  polls that fit into the deadline at a step, an argument because the clock is one; in VM start it is
  \<open>cl_polls\<close>. Loops over
  text and rows are structural recursion or have a measure (\<open>splitlines\<close>, \<open>remove_text\<close>).

  \<^bold>\<open>Simplifications.\<close> A \<open>str\<close> is a list of code points below 256. Floating-point numbers are not values
  of the model. Texts shown to users (messages, warnings, guides) are left out; codes and statuses are
  kept. A transaction is atomic; what PostgreSQL's row locks and indexes guarantee is in the tables'
  insert functions and in the set of skipped rows of a claim.

  \<^bold>\<open>Not modelled.\<close> The HTTP routes other than those of the accounts, the frontend, the account
  command line, logout (it also drops registration drafts), monitoring and insights (metrics are
  floating-point numbers), job records and projections (the job and artifact files that VM start writes are parameters of its
  model, as is the inventory it reads), installation, the Proxmox inventory, VM creation, VM shutdown,
  guided manual commands, image building and cleanup, and the request policy of managed connections.
  The recovery handlers of VM start, shutdown, creation, guided commands and images are arguments of
  the recovery runtime. The details of the errors that VM start raises are left out.
\<close>

section \<open>The operation log\<close>

text \<open>
  C1: every successful append to an operation's log, a transition or an observation, keeps the
  invariant of the log: one verified checksum chain per operation, as many events as the
  version says, the last event carrying the projection's status and checksum, and allowed
  status transitions only.
\<close>

theorem append_keeps_log:
  assumes "store_inv sha d" and "append_in_session sha d now event_id operation_id q = Inr (d', sn)"
  shows "store_inv sha d'"
  using assms by (rule append_in_session_inv)

theorem append_keeps_log_witness:
  "\<exists>d sn. append_in_session ex_sha ex_log 0 ''event-2'' ''op'' ex_append = Inr (d, sn) \<and> store_inv ex_sha d \<and>
     sn_version sn = 2"
proof -
  have "case append_in_session ex_sha ex_log 0 ''event-2'' ''op'' ex_append of
      Inr (d, sn) \<Rightarrow> sn_version sn = 2 | Inl _ \<Rightarrow> False"
    by code_simp
  then obtain d sn where "append_in_session ex_sha ex_log 0 ''event-2'' ''op'' ex_append = Inr (d, sn)" "sn_version sn = 2"
    by (auto split: sum.splits)
  then show ?thesis using append_keeps_log [OF core_invD(1) [OF ex_log_inv]] by blast
qed

text \<open>
  C2: whatever transactions run, in whatever order and with whatever arguments, starting from the
  empty database: all events of an operation are a checksum chain that verifies, their number is
  the version of the operation, and the last one carries its checksum and its status.
\<close>

theorem log_always_verifies:
  "(case find_operation (run (core_exec sha) cs empty_db) i of
      None \<Rightarrow> True
    | Some r \<Rightarrow>
        let es = list_events (run (core_exec sha) cs empty_db) i
        in verify_event_chain sha es \<and> int (length es) = op_version r \<and>
           ev_checksum (last es) = op_last_event_checksum r \<and> ev_to_status (last es) = op_status r)"
proof (cases "find_operation (run (core_exec sha) cs empty_db) i")
  case (Some r)
  let ?d = "run (core_exec sha) cs empty_db"
  have inv: "store_inv sha ?d" using core.run_inv core_inv_empty core_invD(1) by blast
  from row_of_Some [OF Some] have r: "r \<in> set (db_operations ?d)" "op_operation_id r = i" by auto
  then have "log_ok sha ?d r" using inv by (simp add: store_inv_def)
  with r(2) Some show ?thesis by (simp add: list_events_eq [OF inv] log_ok_def Let_def)
qed simp

text \<open>
  C3: the recorded checksum authenticates the log, after any transactions: whoever hands in a non-empty
  list of events that verifies as a chain and ends in the checksum that the operation's row records has
  handed in the recorded events, each with the recorded content (everything that the checksum covers,
  dicts up to the order of their keys), or has found two different texts with the same hash. Nothing is
  claimed against someone who also rewrites the checksum in the row.
\<close>

theorem tampering_is_detected:
  assumes "find_operation (run (core_exec sha) cs empty_db) i = Some r"
    and "verify_event_chain sha es" "es \<noteq> []" "ev_checksum (last es) = op_last_event_checksum r"
  shows "map event_content es = map event_content (list_events (run (core_exec sha) cs empty_db) i) \<or>
    (\<exists>e \<in> set es. \<exists>f \<in> set (list_events (run (core_exec sha) cs empty_db) i).
       collision sha (event_bytes e) (event_bytes f))"
  by (rule presented_chain [OF core_invD(1) [OF core.run_inv [OF core_inv_empty]] assms])

theorem tampering_is_detected_witness:
  "let d = run (core_exec (\<lambda>s. s)) [CreateOperation 0 ''event-1'' ex_spec []] empty_db;
       es = map (\<lambda>e. e\<lparr>ev_event_id := ''forged''\<rparr>) (list_events d ''op'')
   in es \<noteq> [] \<and> verify_event_chain (\<lambda>s. s) es \<and> map event_content es = map event_content (list_events d ''op'')"
proof -
  define d where "d = run (core_exec (\<lambda>s. s)) [CreateOperation 0 ''event-1'' ex_spec []] empty_db"
  define es where "es = map (\<lambda>e. e\<lparr>ev_event_id := ''forged''\<rparr>) (list_events d ''op'')"
  have "case find_operation d ''op'' of None \<Rightarrow> False
      | Some r \<Rightarrow> verify_event_chain (\<lambda>s. s) es \<and> es \<noteq> [] \<and> ev_checksum (last es) = op_last_event_checksum r"
    unfolding es_def d_def by code_simp
  then obtain r where r: "find_operation d ''op'' = Some r"
    and es: "verify_event_chain (\<lambda>s. s) es" "es \<noteq> []" "ev_checksum (last es) = op_last_event_checksum r"
    by (auto split: option.splits)
  have "map event_content es = map event_content (list_events d ''op'')"
    using tampering_is_detected [OF r [unfolded d_def] es] by (auto simp: collision_def d_def)
  with es(1,2) show ?thesis unfolding Let_def d_def [symmetric] es_def [symmetric] by blast
qed

section \<open>The status machine\<close>

text \<open>
  C4: an operation is dispatched at most once in its life: after any transactions its log has at most
  one event that enters the status dispatching, however often it was retried or reconciled.
\<close>

theorem operation_dispatches_once:
  "length (filter enters_dispatching (list_events (run (core_exec sha) cs empty_db) i)) \<le> 1"
  by (rule dispatched_at_most_once [OF core_invD(1) [OF core.run_inv [OF core_inv_empty]]])

text \<open>
  C5: a terminal status other than expired is final: whatever transactions run after, the operation
  is still there and still has it.
\<close>

theorem terminal_status_is_final:
  assumes "find_operation (run (core_exec sha) cs empty_db) i = Some r"
    and "op_status r \<in> set TERMINAL_OPERATION_STATUSES - {''expired''}"
  shows "\<exists>r'. find_operation (run (core_exec sha) cs' (run (core_exec sha) cs empty_db)) i = Some r' \<and>
    op_status r' = op_status r"
proof -
  have inv: "core_inv sha (run (core_exec sha) cs empty_db)" by (rule core.run_inv [OF core_inv_empty])
  show ?thesis
    by (rule stuck_status_stays [OF core_invD(1) [OF inv] core_invD(1) [OF core.run_inv [OF inv]] log.run_le [OF inv]
          assms(1) terminal_stuck [OF assms(2)]])
qed

theorem terminal_status_is_final_witness:
  "let d = run (core_exec ex_sha) [CreateOperation 0 ''event-1'' ex_spec [],
       Transition 1 ''event-2'' ''op'' ''cancelled'' ''cancelled'' ''done'' [] [] None None] empty_db
   in \<exists>r. find_operation (run (core_exec ex_sha) [Transition 2 ''event-3'' ''op'' ''dispatching'' ''go'' ''dispatch'' [] [] None None] d)
     ''op'' = Some r \<and> op_status r = ''cancelled''"
proof -
  define cs where "cs = [CreateOperation 0 ''event-1'' ex_spec [],
       Transition 1 ''event-2'' ''op'' ''cancelled'' ''cancelled'' ''done'' [] [] None None]"
  have "case find_operation (run (core_exec ex_sha) cs empty_db) ''op'' of None \<Rightarrow> False | Some r \<Rightarrow> op_status r = ''cancelled''"
    unfolding cs_def by code_simp
  then obtain r where r: "find_operation (run (core_exec ex_sha) cs empty_db) ''op'' = Some r" "op_status r = ''cancelled''"
    by (auto split: option.splits)
  then have "op_status r \<in> set TERMINAL_OPERATION_STATUSES - {''expired''}" by (simp add: TERMINAL_OPERATION_STATUSES_def)
  from terminal_status_is_final [OF r(1) this, of "[Transition 2 ''event-3'' ''op'' ''dispatching'' ''go'' ''dispatch'' [] [] None None]"] r(2)
  show ?thesis unfolding Let_def cs_def [symmetric] by (simp del: run.simps)
qed

section \<open>Locks\<close>

text \<open>
  C6: after any transactions, no two open locks have the same type, cluster and scope: a VM is
  locked for one operation at a time.
\<close>

theorem one_open_lock_per_scope:
  "distinct (map lock_scope (filter lock_open (db_locks (run (core_exec sha) cs empty_db))))"
proof -
  let ?d = "run (core_exec sha) cs empty_db"
  have inv: "lock_inv ?d" using core.run_inv core_inv_empty core_invD(2) by blast
  then have "distinct (db_locks ?d)" by (auto simp: lock_inv_def distinct_map)
  moreover have "inj_on lock_scope (set (filter lock_open (db_locks ?d)))"
    by (rule inj_onI) (use inv open_lock_unique in auto)
  ultimately show ?thesis by (simp add: distinct_map)
qed

text \<open>
  C7: while a host configuration lock is open it is the only open lock of its cluster, after any
  transactions.
\<close>

theorem host_lock_exclusive:
  assumes "r \<in> open_locks (run (core_exec sha) cs empty_db)" "lk_scope_type r = ''proxmox_configuration''"
    and "q \<in> open_locks (run (core_exec sha) cs empty_db)" "lk_cluster_id q = lk_cluster_id r"
  shows "q = r"
  using host_locks.run_exclusive [OF core_inv_empty assms(3,1)] assms(2,4) by (simp add: host_conflict_def)

theorem host_lock_exclusive_witness:
  "let d = run (core_exec ex_sha) ex_host_commands empty_db
   in \<exists>r. open_locks d = {r} \<and> lk_scope_type r = ''proxmox_configuration''"
proof -
  define d where "d = run (core_exec ex_sha) ex_host_commands empty_db"
  have "list_ex (\<lambda>r. lock_open r \<and> lk_scope_type r = ''proxmox_configuration'') (db_locks d)"
    unfolding d_def by code_simp
  moreover have "list_all (\<lambda>r. lk_cluster_id r = ''lab'') (db_locks d)" unfolding d_def by code_simp
  ultimately obtain r where r: "r \<in> open_locks d" "lk_scope_type r = ''proxmox_configuration''"
      and lab: "\<And>q. q \<in> open_locks d \<Longrightarrow> lk_cluster_id q = ''lab''"
    unfolding list_ex_iff list_all_iff open_locks_def by blast
  have "q = r" if "q \<in> open_locks d" for q
    using host_lock_exclusive [OF r [unfolded d_def] that [unfolded d_def]] lab [OF that] lab [OF r(1)] by metis
  with r(1) have "open_locks d = {r}" by blast
  with r(2) show ?thesis unfolding Let_def d_def by blast
qed

section \<open>Recovery leases\<close>

text \<open>
  C8: a lease that another claim has overtaken, or whose work is completed, never commits again:
  whatever transactions run after, a commit with it fails with a lost lease.
\<close>

theorem overtaken_lease_never_commits:
  assumes "core_inv sha d" "overtaken d lease" "cq_recovery_status q \<in> set RECOVERY_STATUSES"
  shows "commit_observation sha (run (core_exec sha) cs d) now event_now event_id lease q =
    Inl (RecoveryLeaseLost (lease_operation_id lease))"
proof -
  have "overtaken (run (core_exec sha) cs d) lease"
    using overtaken_stable [OF core.run_le] assms(1,2) by blast
  from commit_needs_lease [OF overtaken_lost [OF this]] assms(3) show ?thesis by blast
qed

theorem overtaken_lease_never_commits_witness:
  "commit_observation ex_sha (run (core_exec ex_sha) [Heartbeat 0 (ex_lease ''vm_compute_observation'') 1] ex_log) 0 0 ''e''
     ex_stale_lease (commit_defaults ''e'' ''s'' ''leased'') = Inl (RecoveryLeaseLost ''op'')"
proof -
  have "cq_recovery_status (commit_defaults ''e'' ''s'' ''leased'') \<in> set RECOVERY_STATUSES" by code_simp
  moreover have "lease_operation_id ex_stale_lease = ''op''" by code_simp
  ultimately show ?thesis using overtaken_lease_never_commits [OF ex_log_inv ex_stale_overtaken] by (simp del: run.simps)
qed

text \<open>
  C9: a claim of due work leases the due items that no other transaction has locked, all of them up to
  the limit, which is at most ten, and none twice. Each leased item had no live lease and was not completed, and in
  the new database it is leased to the worker in a new generation, with the token of the lease; the
  recovery items that were not leased are unchanged.
\<close>

theorem claim_takes_free_items:
  assumes "d = run (core_exec sha) cs empty_db" "claim_due d now tokens skip_locked worker us limit = Inr (d', ls)"
  shows "length ls = min (nat (max 1 (min limit 10)))
      (length (filter (\<lambda>r. due now r \<and> \<not> skip_locked (rc_operation_id r)) (db_recoveries d))) \<and>
    distinct (map lease_operation_id ls) \<and> (\<forall>l \<in> set ls. claimed_by d d' now skip_locked worker l) \<and>
    (\<forall>i. i \<notin> lease_operation_id ` set ls \<longrightarrow> find_recovery d' i = find_recovery d i)"
proof -
  have "recovery_inv d" unfolding assms(1) by (rule core_invD(3) [OF core.run_inv [OF core_inv_empty]])
  from claim_due_result [OF this assms(2)] show ?thesis by blast
qed

theorem claim_takes_free_items_witness:
  "\<exists>d' l. claim_due ex_log 60000000 (\<lambda>_. ''t'') (\<lambda>_. False) ''worker'' 60000000 5 = Inr (d', [l]) \<and>
     claimed_by ex_log d' 60000000 (\<lambda>_. False) ''worker'' l"
proof -
  have "case claim_due ex_log 60000000 (\<lambda>_. ''t'') (\<lambda>_. False) ''worker'' 60000000 5 of Inl _ \<Rightarrow> False | Inr (_, ls) \<Rightarrow> length ls = 1"
    by code_simp
  then obtain d' l where c: "claim_due ex_log 60000000 (\<lambda>_. ''t'') (\<lambda>_. False) ''worker'' 60000000 5 = Inr (d', [l])"
    by (auto split: sum.splits simp: length_Suc_conv)
  from claim_takes_free_items [OF ex_log_def c] c show ?thesis by auto
qed

section \<open>Changes of a VM\<close>

text \<open>
  C10: a configuration change sends at most one mutation, and when it leaves, the database already
  says durably that this very operation is dispatching it.
\<close>

theorem config_change_dispatches_once:
  "sends_once (dispatched_as (config_operation_id sha cs node vmid rq) node vmid (rq_dump rq))
     (config_execute sha fe cs node vmid rq actor)"
  by (rule config_execute_once)

text \<open>
  C11: a change by a Proxmox task sends at most one mutation, and when it leaves, the database already
  says durably that this very operation is dispatching it.
\<close>

theorem task_change_dispatches_once:
  "sends_once (dispatched_as (task_operation_id sha ts node vmid rq) node vmid (rq_dump rq))
     (task_execute sha fe ts node vmid rq actor)"
  by (rule task_execute_once)

text \<open>
  C12: when the verification of a configuration change reports success, the operation is durably
  succeeded and its recovery completed, the dispatch had been acknowledged, and one observation
  matched the recorded request and the recorded earlier state.
\<close>

theorem config_success_is_verified:
  assumes "config_verify sha fe cs lease operation w = (Inr ''succeeded'', w')"
  shows "settled_success (lease_operation_id lease) (w_db w') \<and> (\<exists>observed. config_evidence cs operation observed)"
  using config_verify_success [OF assms] by blast

theorem config_success_is_verified_witness:
  "\<exists>w. config_verify ex_sha ex_flow (compute_service (ex_client 0) ''lab'') (ex_lease ''vm_compute_observation'')
     ex_compute_snapshot (ex_world_of ex_compute_db) = (Inr ''succeeded'', w) \<and>
     settled_success (lease_operation_id (ex_lease ''vm_compute_observation'')) (w_db w)"
  using config_success_is_verified [OF pair_eqI [OF ex_compute_verified]] pair_eqI [OF ex_compute_verified] by blast

text \<open>
  C13: when the verification of a task reports success, the operation is durably succeeded and its
  recovery completed; the operation is bound to a task reference, and the task, which the caller handed
  in or which this verification read from Proxmox under that reference at the recorded node, had
  stopped with exit status OK; the observation was made after the task was read, and it matched the
  recorded request and earlier state.
\<close>

theorem task_success_is_verified:
  assumes "task_verify sha fe ts lease operation given w = (Inr ''succeeded'', w')"
  shows "settled_success (lease_operation_id lease) (w_db w') \<and> 
    (\<exists>task after. task_evidence ts operation given (w_step w) task after)"
  using task_verify_success [OF assms] by blast

theorem task_success_is_verified_witness:
  "\<exists>w. task_verify ex_sha ex_flow ex_disk (ex_lease ''vm_disk_observation'') ex_disk_snapshot None ex_disk_world
     = (Inr ''succeeded'', w) \<and> settled_success (lease_operation_id (ex_lease ''vm_disk_observation'')) (w_db w)"
  using task_success_is_verified [OF pair_eqI [OF ex_disk_verified]] pair_eqI [OF ex_disk_verified] by blast

text \<open>
  C14: a compute change that is reported as succeeded has observed the requested name, cores and
  memory.
\<close>

theorem compute_success_achieved:
  assumes "config_verify sha fe (compute_service vc cluster) lease operation w = (Inr ''succeeded'', w')"
  shows "\<exists>observed requested. ditem (sn_details operation) ''requested'' = Inr requested \<and>
    compute_achieved observed requested \<and>
    (\<exists>node vmid k. cs_observe (compute_service vc cluster) node vmid k = Inr observed)"
  by (rule compute.success_achieved [OF assms])

theorem compute_success_achieved_witness:
  "\<exists>observed requested. ditem (sn_details ex_compute_snapshot) ''requested'' = Inr requested \<and>
     compute_achieved observed requested"
  using compute_success_achieved [OF pair_eqI [OF ex_compute_verified]] by blast

section \<open>Histories\<close>

text \<open>
  C15: the log of an operation implements an append-only history that is a walk of the status machine: 
  whatever transactions run, the events recorded before stay in front, and every status in the
  history is followed by itself or by a status that the machine allows next.
\<close>

theorem history_append_only:
  "let d = run (core_exec sha) cs empty_db; d' = run (core_exec sha) cs' d
   in prefix (list_events d i) (list_events d' i) \<and> status_walk (map ev_to_status (list_events d' i))"
proof -
  let ?d = "run (core_exec sha) cs empty_db"
  have inv: "core_inv sha ?d" by (rule core.run_inv [OF core_inv_empty])
  from core.run_inv [OF this] have inv': "store_inv sha (run (core_exec sha) cs' ?d)" by (rule core_invD(1))
  show ?thesis
    unfolding Let_def using events_prefix [OF core_invD(1) [OF inv] inv' log.run_le [OF inv]] events_walk [OF inv'] by blast
qed

text \<open>
  C16: creating an operation is idempotent: whatever ran since, the same specification finds the
  operation, changes nothing and creates nothing.
\<close>

theorem create_idempotent:
  assumes "core_inv sha d" "store_create sha d now eid sp p = Inr (d1, r)" "cr_created r"
  shows "\<exists>r'. store_create sha (run (core_exec sha) cs d1) now' eid' sp p' = Inr (run (core_exec sha) cs d1, r') \<and>
    \<not> cr_created r' \<and> sn_operation_id (cr_operation r') = sp_operation_id sp"
  using assms by (rule created_found)

theorem create_idempotent_witness:
  "\<exists>d1 r r'. store_create ex_sha empty_db 0 ''event-1'' ex_spec [] = Inr (d1, r) \<and> cr_created r \<and>
     store_create ex_sha d1 5 ''event-2'' ex_spec [] = Inr (d1, r') \<and> \<not> cr_created r'"
proof -
  have "case store_create ex_sha empty_db 0 ''event-1'' ex_spec [] of Inr (_, r) \<Rightarrow> cr_created r | Inl _ \<Rightarrow> False"
    by code_simp
  then obtain d1 r where c: "store_create ex_sha empty_db 0 ''event-1'' ex_spec [] = Inr (d1, r)" "cr_created r"
    by (auto split: sum.splits)
  then show ?thesis using create_idempotent [OF core_inv_empty c, of "[]" 5 "''event-2''" "[]"] by auto
qed

text \<open>
  C17: a request that reuses the key of a created operation with another intent is refused with a
  conflict that names the operation.
\<close>

theorem create_conflict:
  assumes "core_inv sha d" "store_create sha d now eid sp p = Inr (d1, r)" "cr_created r"
    and "sp_operation_type sp' = sp_operation_type sp" "sp_target_type sp' = sp_target_type sp"
      "sp_target_id sp' = sp_target_id sp" "sp_idempotency_key sp' = sp_idempotency_key sp"
      "sp_intent_digest sp' \<noteq> sp_intent_digest sp"
  shows "store_create sha (run (core_exec sha) cs d1) now' eid' sp' p' = Inl (OperationIntentConflict (sp_operation_id sp))"
  using assms by (rule created_conflict)

theorem create_conflict_witness:
  "\<exists>d1 r. store_create ex_sha empty_db 0 ''event-1'' ex_spec [] = Inr (d1, r) \<and>
     store_create ex_sha d1 5 ''event-2'' (ex_spec\<lparr>sp_intent_digest := ''j''\<rparr>) [] = Inl (OperationIntentConflict ''op'')"
proof -
  have "case store_create ex_sha empty_db 0 ''event-1'' ex_spec [] of Inr (_, r) \<Rightarrow> cr_created r | Inl _ \<Rightarrow> False"
    by code_simp
  then obtain d1 r where c: "store_create ex_sha empty_db 0 ''event-1'' ex_spec [] = Inr (d1, r)" "cr_created r"
    by (auto split: sum.splits)
  have "store_create ex_sha (run (core_exec ex_sha) [] d1) 5 ''event-2'' (ex_spec\<lparr>sp_intent_digest := ''j''\<rparr>) []
      = Inl (OperationIntentConflict (sp_operation_id ex_spec))"
    by (rule create_conflict [OF core_inv_empty c]) (simp_all add: ex_spec_def)
  with c show ?thesis by (simp add: ex_spec_def)
qed

text \<open>
  C18: claiming makes progress: whenever an item is due and not locked by another claim, a claim
  by a named worker takes at least one item.
\<close>

theorem due_work_is_claimed:
  assumes "r \<in> set (db_recoveries d)" "due now r" "\<not> skip_locked (rc_operation_id r)" "py_strip worker \<noteq> []"
  shows "\<exists>d' l ls. claim_due d now tokens skip_locked worker us limit = Inr (d', l # ls)"
  using assms by (rule claim_progress)

theorem due_work_is_claimed_witness:
  "\<exists>d' l ls. claim_due ex_log 60000000 (\<lambda>_. ''t'') (\<lambda>_. False) ''worker'' 60000000 1 = Inr (d', l # ls)"
proof -
  have "list_ex (due 60000000) (db_recoveries ex_log)" by code_simp
  then obtain r where "r \<in> set (db_recoveries ex_log)" "due 60000000 r" by (auto simp: list_ex_iff)
  moreover have "py_strip ''worker'' \<noteq> []" by code_simp
  ultimately show ?thesis by (intro due_work_is_claimed) simp_all
qed

section \<open>The recovery runtime\<close>

text \<open>
  C19: one iteration of the recovery runner keeps the invariants of the core, with all the handlers of
  the runtime, when the handlers that are not modelled and the other processes do.
\<close>

theorem recovery_keeps_core:
  assumes "fair_env sha fe" "\<And>ch l. ch \<in> set (other_list oh) \<Longrightarrow> io_ok (world_ok sha) (ch_handle ch l)"
    and "world_ok sha w"
  shows "world_ok sha (snd (run_once sha fe (build_recovery_runner sha fe re oh worker us n tokens skipped) w))"
  using runner_ok [OF assms(1,2)] assms(3) by (simp add: io_ok_def)

theorem recovery_keeps_core_witness:
  "world_ok ex_sha (snd (run_once ex_sha ex_flow ex_runner (ex_world_of ex_log)))"
  unfolding ex_runner_def
proof (rule recovery_keeps_core)
  show "fair_env ex_sha ex_flow" by (simp add: fair_env_def ex_flow_def reach_refl)
  show "io_ok (world_ok ex_sha) (ch_handle ch l)" if "ch \<in> set (other_list ex_others)" for ch l
    using that by (auto simp: other_list_def ex_others_def ex_quiet_def intro: io_intros)
  show "world_ok ex_sha (ex_world_of ex_log)" using ex_log_inv by (simp add: world_ok_def ex_world_of_def)
qed

text \<open>
  C20: recovery only observes: an iteration of the runner sends no mutation to Proxmox, when the
  handlers that are not modelled send none.
\<close>

theorem recovery_sends_nothing:
  assumes "\<And>ch l. ch \<in> set (other_list oh) \<Longrightarrow> silent (ch_handle ch l)"
  shows "w_calls (snd (run_once sha fe (build_recovery_runner sha fe re oh worker us n tokens skipped) w)) = w_calls w"
  using runner_silent [OF assms] by (simp add: silent_def)

theorem recovery_sends_nothing_witness:
  "w_calls (snd (run_once ex_sha ex_flow ex_runner (ex_world_of ex_log))) = []"
proof -
  have "silent (ch_handle ch l)" if "ch \<in> set (other_list ex_others)" for ch l
    using that by (auto simp: other_list_def ex_others_def ex_quiet_def intro: silent_intros)
  then show ?thesis unfolding ex_runner_def by (subst recovery_sends_nothing) (simp_all add: ex_world_of_def)
qed

section \<open>Secrets\<close>

text \<open>
  C21: redaction masks: in a redacted value, at every depth, the value under a secret key is the
  mask, and no text without an @ sign holds a secret marker.
\<close>

theorem redaction_masks: "masked (redact_secrets v)"
  by (rule redact_secrets_masked)

section \<open>Digests\<close>

text \<open>
  C22: a digest identifies its payload: two payloads have the same digest exactly if they are equal up to the
  order of the keys of their dicts, at every depth, or if their canonical JSON texts are two different
  texts with the same hash. Intents, plans, idempotency identities and events are compared by this digest.
\<close>

theorem digest_identifies_payload:
  "operation_digest sha p = operation_digest sha q \<longleftrightarrow> same_json (PDict p) (PDict q) \<or>
     collision sha (utf8 (canonical_json (PDict p))) (utf8 (canonical_json (PDict q)))"
  by (rule digest_payload)

section \<open>What the features guarantee\<close>

text \<open>
  C23: editing the network device of a VM changes exactly the bridge and the VLAN tag: the edited
  text parses, its model and address stay first, and every other option is unchanged.
\<close>

theorem network_edit_roundtrip:
  assumes "parse_net0 (PStr net0) = Inr ps" "is_id b" "\<forall>t \<in> set_option tag. 1 \<le> t \<and> t \<le> 4094"
    and "replace_network (PStr net0) b tag = Inr net1" "length net1 \<le> 2048"
  shows "\<exists>qs. parse_net0 (PStr net1) = Inr qs \<and> hd qs = hd ps \<and>
    map_of qs = (map_of ps)(''bridge'' \<mapsto> b, ''tag'' := map_option show_int tag)"
  using assms by (rule replaced_options)

theorem network_edit_roundtrip_witness:
  "\<exists>net1 qs. replace_network (PStr ''virtio=AA:BB:CC:DD:EE:FF,bridge=vmbr0,firewall=1'') ''vmbr1'' (Some 7) = Inr net1 \<and>
     parse_net0 (PStr net1) = Inr qs \<and> map_of qs ''tag'' = Some ''7'' \<and> map_of qs ''firewall'' = Some ''1''"
proof -
  let ?old = "''virtio=AA:BB:CC:DD:EE:FF,bridge=vmbr0,firewall=1''"
  let ?new = "''virtio=AA:BB:CC:DD:EE:FF,bridge=vmbr1,firewall=1,tag=7''"
  let ?ps = "[(''virtio'', ''AA:BB:CC:DD:EE:FF''), (''bridge'', ''vmbr0''), (''firewall'', ''1'')]"
  have old: "parse_net0 (PStr ?old) = Inr ?ps" by code_simp
  have id: "is_id ''vmbr1''" by code_simp
  have new: "replace_network (PStr ?old) ''vmbr1'' (Some 7) = Inr ?new" by code_simp
  have seven: "show_int 7 = ''7''" by code_simp
  from network_edit_roundtrip [OF old id _ new] obtain qs where
    "parse_net0 (PStr ?new) = Inr qs"
    "map_of qs = (map_of ?ps)(''bridge'' \<mapsto> ''vmbr1'', ''tag'' := map_option show_int (Some 7))"
    by auto
  with new seven show ?thesis by (intro exI [of _ ?new] exI [of _ qs]) simp
qed

text \<open>
  C24: a disk only grows: a resize sends at most one call, when the database says that this operation is
  dispatching it, and before the call the disk was read from Proxmox after the admission and found to be
  strictly smaller than the requested size, and in the reviewed state: size, volume, name and digest of
  the configuration as the request expects them.
\<close>

theorem disk_only_grows:
  "sends_once (\<lambda>c. dispatched_as (task_operation_id sha (disk_service vc polls cluster) node vmid rq) node vmid (rq_dump rq) c \<and>
       disk_growth_call vc node vmid rq c)
     (task_execute sha fe (disk_service vc polls cluster) node vmid rq actor)"
  by (rule sends_once_mono [OF task_execute_reviewed]) (blast intro: disk_reviewed_grows)

text \<open>
  C25: a deletion is reviewed only for a stopped, unlocked and unprotected VM, and every volume that
  the review lists for deletion is named after that VM.
\<close>

theorem deletion_lists_own_volumes:
  assumes "deletion_identity config status pending snapshots vmid = Inr d"
  shows "is_stopped status \<and> \<not> template_or_locked config \<and> flag_text config ''protection'' = ''0'' \<and>
    (\<exists>disks. dget d ''deleted_volumes'' = PList (map PDict disks) \<and> list_all (named_after ''vm'' vmid) disks)"
  using deletion_identityD [OF assms] deletion_identity_owned [OF assms] by blast

theorem deletion_lists_own_volumes_witness:
  "\<exists>d disks. deletion_identity (ex_config 2) ex_stopped [] ex_snapshots 100 = Inr d \<and>
     dget d ''deleted_volumes'' = PList (map PDict disks) \<and> list_all (named_after ''vm'' 100) disks"
proof -
  have "\<not> isl (deletion_identity (ex_config 2) ex_stopped [] ex_snapshots 100)" by code_simp
  then obtain d where d: "deletion_identity (ex_config 2) ex_stopped [] ex_snapshots 100 = Inr d" by (rule not_islE)
  from deletion_lists_own_volumes [OF this] d show ?thesis by blast
qed


text \<open>
  C26: a deletion is confirmed only when the VM id is unused again, every volume reviewed for
  deletion is gone and every volume reviewed as preserved is unchanged.
\<close>

theorem deletion_is_proved:
  assumes "deletion_result b rows unused = Inr after" "delete_matches after requested (PDict b) = Inr True"
    and "row_list b ''deleted_volumes'' = Inr gone" "row_list b ''preserved_volumes'' = Inr kept"
  shows "unused \<and> list_all (\<lambda>r. volume_at rows (dget r ''volume_id'') = None) gone \<and> list_all (unchanged rows) kept"
  using deletion_proved [OF assms] by blast

theorem deletion_is_proved_witness:
  "\<exists>after gone. deletion_result ex_removed [] True = Inr after \<and> delete_matches after PNone (PDict ex_removed) = Inr True \<and>
     row_list ex_removed ''deleted_volumes'' = Inr gone \<and> list_all (\<lambda>r. volume_at [] (dget r ''volume_id'') = None) gone"
proof -
  have "case deletion_result ex_removed [] True of
      Inr after \<Rightarrow> delete_matches after PNone (PDict ex_removed) = Inr True | Inl _ \<Rightarrow> False"
    by code_simp
  then obtain after where a: "deletion_result ex_removed [] True = Inr after"
      "delete_matches after PNone (PDict ex_removed) = Inr True"
    by (auto split: sum.splits)
  have "\<not> isl (row_list ex_removed ''deleted_volumes'')" by code_simp
  then obtain gone where gone: "row_list ex_removed ''deleted_volumes'' = Inr gone" by (rule not_islE)
  have "row_list ex_removed ''preserved_volumes'' = Inr []" by code_simp
  from deletion_is_proved [OF a gone this] a gone show ?thesis by blast
qed

text \<open>
  C27: the address of a restored VM's network device is locally administered (it begins with 02) and
  never the address of the source, for any digest of 64 hex digits.
\<close>

theorem isolated_address:
  assumes "\<And>s. length (sha s) = 64"
  shows "isolated_mac sha archive node new_id m \<noteq> py_upper m \<and> take 3 (isolated_mac sha archive node new_id m) = ''02:''"
proof -
  have "\<exists>rest. isolated_mac sha archive node new_id m = ''02:'' @ rest"
    by (rule isolated_mac_local) (rule assms)
  moreover have "isolated_mac sha archive node new_id m \<noteq> py_upper m"
    by (rule isolated_mac_other) (rule assms)
  ultimately show ?thesis by auto
qed

theorem isolated_address_witness:
  "isolated_mac ex_sha ''a'' ''n'' 101 ''02:00:00:00:00:00'' = ''02:00:00:00:00:01'' \<and>
   isolated_mac ex_sha ''a'' ''n'' 101 ''02:00:00:00:00:00'' \<noteq> ''02:00:00:00:00:00''"
proof -
  have "length (ex_sha s) = 64" for s by (simp add: ex_sha_def)
  then have "isolated_mac ex_sha ''a'' ''n'' 101 ''02:00:00:00:00:00'' \<noteq> py_upper ''02:00:00:00:00:00''"
    using isolated_address by blast
  moreover have "py_upper ''02:00:00:00:00:00'' = ''02:00:00:00:00:00''" by code_simp
  moreover have "isolated_mac ex_sha ''a'' ''n'' 101 ''02:00:00:00:00:00'' = ''02:00:00:00:00:01''" by code_simp
  ultimately show ?thesis by simp
qed

text \<open>
  C28: a clone is reviewed only for a new VM id in the range of Proxmox that no VM of the cluster has.
\<close>

theorem clone_id_is_free:
  assumes "clone_review vc node vmid rq k = Inr before"
  shows "new_vmid rq \<noteq> vmid \<and> vmid_range (new_vmid rq) \<and>
    (\<exists>rows. vc_resources vc k = Some rows \<and> list_all (\<lambda>row. \<not> py_eq (dget row ''vmid'') (PInt (new_vmid rq))) rows)"
  using clone_review_free [OF assms] by blast

theorem clone_id_is_free_witness:
  "new_vmid ex_clone_request = 101 \<and> vmid_range 101 \<and>
   (\<exists>before. clone_review ex_clone_client ''pve1'' 100 ex_clone_request 0 = Inr before)"
proof -
  have "\<not> isl (clone_review ex_clone_client ''pve1'' 100 ex_clone_request 0)" by code_simp
  then obtain before where b: "clone_review ex_clone_client ''pve1'' 100 ex_clone_request 0 = Inr before"
    by (rule not_islE)
  have "new_vmid ex_clone_request = 101" by code_simp
  with clone_id_is_free [OF b] b show ?thesis by simp
qed

text \<open>
  C29: a VLAN list is brought into a canonical form: it denotes the same VLANs, and normalizing it
  again changes nothing.
\<close>

theorem vlan_ranges_roundtrip:
  assumes "vlan_ranges (PStr s) = Inr t" "length t \<le> 1024"
  shows "vlan_ids t = vlan_ids s \<and> vlan_ranges (PStr t) = Inr t"
  using vlan_ranges_canonical [OF assms(1)] assms(2) by blast

theorem vlan_ranges_roundtrip_witness:
  "vlan_ranges (PStr ''7 2-4 3-5'') = Inr ''2-5 7'' \<and> vlan_ids ''2-5 7'' = vlan_ids ''7 2-4 3-5'' \<and>
   vlan_ranges (PStr ''2-5 7'') = Inr ''2-5 7''"
proof -
  have v: "vlan_ranges (PStr ''7 2-4 3-5'') = Inr ''2-5 7''" by code_simp
  with vlan_ranges_roundtrip [OF v] show ?thesis by simp
qed

section \<open>Host configuration\<close>

text \<open>
  C30: a change of a host bridge sends at most two mutations: first the staging, when the database
  already says that this operation is dispatching and after the plan of this request was reviewed and
  reviewed again, each time as the request confirmed it; then the reload, when the database says that it
  reloads and after the staged configuration of this very plan was observed twice since the staging,
  the second time with the rest of the host as it was the first time.
\<close>

theorem bridge_stages_then_reloads:
  "sends (stage_then_reload sha hc c node bridge rq) (bridge_execute sha fe hc polls c node bridge rq actor)"
  by (rule bridge_execute_sends)

text \<open>
  C31: a change of a directory storage sends at most one mutation, and when it leaves, the database
  already says durably that this operation is dispatching it.
\<close>

theorem storage_change_dispatches_once:
  "sends_once (dispatched_as (host_operation_id sha (storage_feature sha hc c) node storage rq) node 0 (rq_dump rq))
     (storage_execute sha fe hc c node storage rq actor)"
  by (rule storage_execute_once)

text \<open>
  C32: every body that the storage service builds for a valid change passes the transport policy of
  the scope that names its storage and node.
\<close>

theorem storage_body_is_allowed:
  assumes "storage_change_of d = Some c" "storage_mutation_body c node st before = Inr body"
    and "sg_mode c = ''update'' \<Longrightarrow> \<exists>b. before = PDict b \<and> config_digest (dget b ''digest'') \<noteq> None"
    and "dget_or scope ''host_storages'' (PList []) = PList ss" "PStr st \<in> set ss"
      "ditem scope ''nodes'' = Inr (PList ns)" "PStr node \<in> set ns"
  shows "storage_request_allowed (if sg_mode c = ''create'' then ''POST'' else ''PUT'')
      (if sg_mode c = ''create'' then ''/storage'' else ''/storage/'' @ st) (PDict body) scope = Inr True"
  using assms by (rule storage_body_allowed)

theorem storage_body_is_allowed_witness:
  "\<exists>body. storage_mutation_body ex_created_storage ''pve1'' ''media'' PNone = Inr body \<and>
     storage_request_allowed ''POST'' ''/storage'' (PDict body) ex_scope = Inr True"
proof -
  have change: "storage_change_of ex_storage_change = Some ex_created_storage" by code_simp
  have "\<not> isl (storage_mutation_body ex_created_storage ''pve1'' ''media'' PNone)" by code_simp
  then obtain body where body: "storage_mutation_body ex_created_storage ''pve1'' ''media'' PNone = Inr body"
    by (rule not_islE)
  have create: "sg_mode ex_created_storage = ''create''" by code_simp
  have "dget_or ex_scope ''host_storages'' (PList []) = PList [PStr ''media'']"
    "ditem ex_scope ''nodes'' = Inr (PList [PStr ''pve1''])" by code_simp+
  from storage_body_is_allowed [OF change body _ this(1) _ this(2)] create body show ?thesis by simp
qed

text \<open>
  C33: for a scope of node names and VM ids, the transport policy admits exactly these migrations: a POST to the
  migrate path of a VM of the scope, with the one body (online, with-local-disks and force all the integer 0, in
  any order of the keys) whose target is a node of the scope other than the node in the path.
\<close>

theorem migrate_policy_exact:
  assumes "\<forall>d. data = PDict d \<longrightarrow> distinct (dict_keys d)"
    and "ditem scope ''nodes'' = Inr (PList (map PStr nodes))" "ditem scope ''vmids'' = Inr (PList (map PInt vmids))"
  shows "migrate_request_allowed method pieces data scope = Inr True \<longleftrightarrow>
    method = ''POST'' \<and> length pieces = 5 \<and> pieces ! 2 = ''qemu'' \<and> pieces ! 4 = ''migrate'' \<and> py_isdigit (pieces ! 3) \<and>
    (\<exists>vmid \<in> set vmids. int_of_text (pieces ! 3) = Inr vmid) \<and>
    (\<exists>d. \<exists>n \<in> set nodes. data = PDict d \<and> n \<noteq> pieces ! 1 \<and> map_of d = map_of (migrate_body (PStr n)))"
  using assms by (rule migrate_policy)

theorem migrate_policy_exact_witness:
  "let scope = [(''vmids'', PList [PInt 100]), (''nodes'', PList [PStr ''pve2''])];
       path = [''nodes'', ''pve1'', ''qemu'', ''100'', ''migrate'']
   in migrate_request_allowed ''POST'' path (PDict (migrate_body (PStr ''pve2''))) scope = Inr True \<and>
      migrate_request_allowed ''POST'' path (PDict (dset ''online'' (PBool False) (migrate_body (PStr ''pve2'')))) scope \<noteq> Inr True"
proof -
  let ?scope = "[(''vmids'', PList [PInt 100]), (''nodes'', PList [PStr ''pve2''])]"
  let ?path = "[''nodes'', ''pve1'', ''qemu'', ''100'', ''migrate'']"
  let ?bad = "dset ''online'' (PBool False) (migrate_body (PStr ''pve2''))"
  have scope: "ditem ?scope ''nodes'' = Inr (PList (map PStr [''pve2'']))" "ditem ?scope ''vmids'' = Inr (PList (map PInt [100]))"
    by (simp_all add: ditem_def)
  have keys: "distinct (dict_keys (migrate_body (PStr ''pve2'')))" "distinct (dict_keys ?bad)" by code_simp+
  have vmid: "int_of_text (?path ! 3) = Inr 100" "py_isdigit (?path ! 3)" by code_simp+
  have "migrate_request_allowed ''POST'' ?path (PDict (migrate_body (PStr ''pve2''))) ?scope = Inr True"
    unfolding migrate_policy_exact [OF _ scope, of "PDict (migrate_body (PStr ''pve2''))" "''POST''" ?path, simplified, OF keys(1)]
    using vmid by simp
  moreover have "migrate_request_allowed ''POST'' ?path (PDict ?bad) ?scope \<noteq> Inr True"
  proof
    assume "migrate_request_allowed ''POST'' ?path (PDict ?bad) ?scope = Inr True"
    with migrate_policy_exact [OF _ scope, of "PDict ?bad" "''POST''" ?path] keys(2)
    obtain n where "map_of ?bad = map_of (migrate_body (PStr n))" by auto
    then have "map_of ?bad ''online'' = map_of (migrate_body (PStr n)) ''online''" by simp
    then show False by (simp add: migrate_body_def)
  qed
  ultimately show ?thesis unfolding Let_def by blast
qed

section \<open>Accounts\<close>


text \<open>
  C34: whatever sequence of account operations runs, starting from the empty tables, an
  enabled administrator, once there is one, never disappears: demotion and disabling of the
  last one are refused.
\<close>

theorem last_admin_stays:
  assumes "has_enabled_admin (run (account_exec sha) cs empty_accounts)"
  shows "has_enabled_admin (run (account_exec sha) (cs @ cs') empty_accounts)"
proof -
  have "account_le (run (account_exec sha) cs empty_accounts) (run (account_exec sha) cs' (run (account_exec sha) cs empty_accounts))"
    by (intro accounts.run_le accounts.run_inv account_inv_empty)
  with assms show ?thesis by (simp add: account_le_def run_append)
qed

theorem last_admin_stays_witness:
  "has_enabled_admin (run (account_exec ex_token_sha)
     (ex_sign_up @ [DisableUser (ex_account_env 5 ''5'') ''root'', SetRole (ex_account_env 6 ''6'') ''root'' ''viewer'']) empty_accounts)"
  by (rule last_admin_stays) (use ex_accounts_admin in \<open>simp add: ex_accounts_def\<close>)

text \<open>
  C35: a password that an account was created with logs in to that account, whatever text it
  is: hashing, storing, parsing and comparing it round-trips. The login may come with another
  clock, salt and iteration setting.
\<close>

theorem stored_password_logs_in:
  assumes "create_user ev (run (account_exec sha) cs empty_accounts) username password role True = Inr (d, actor)"
    and "an_kdf ev' = an_kdf ev"
  shows "\<exists>d'. authenticate_user ev' d username password = Inr (d', Some actor)"
  by (rule created_user_logs_in [OF accounts.run_inv [OF account_inv_empty] assms])

theorem stored_password_logs_in_witness:
  "\<exists>d actor d'. create_user (ex_account_env 5 ''5'') ex_accounts ''dora'' ''p$w'' ''operator'' True = Inr (d, actor) \<and>
     authenticate_user (ex_account_env 6 ''6'') d ''dora'' ''p$w'' = Inr (d', Some actor)"
proof -
  have "\<not> isl (create_user (ex_account_env 5 ''5'') ex_accounts ''dora'' ''p$w'' ''operator'' True)" by code_simp
  then obtain d actor where c: "create_user (ex_account_env 5 ''5'') ex_accounts ''dora'' ''p$w'' ''operator'' True = Inr (d, actor)"
    by (cases "create_user (ex_account_env 5 ''5'') ex_accounts ''dora'' ''p$w'' ''operator'' True") auto
  with stored_password_logs_in [OF c [unfolded ex_accounts_def], of "ex_account_env 6 ''6''"] show ?thesis
    by (auto simp: ex_account_env_def)
qed

text \<open>
  C36: a disabled account is out for good. After \<open>disable_user\<close> and any further operations no
  session token is accepted for that user and no password logs in to it.
\<close>

theorem disabled_account_is_out:
  assumes "disable_user ev (run (account_exec sha) cs empty_accounts) username = Inr (d, r)"
  shows "\<not> (\<exists>d' a. actor_for_session_token sha (run (account_exec sha) cs' d) now token = Inr (d', Some a) \<and>
        at_user_id a = at_user_id (uo_user r)) \<and>
    \<not> (\<exists>d' a. authenticate_user ev' (run (account_exec sha) cs' d) name password = Inr (d', Some a) \<and>
        at_user_id a = at_user_id (uo_user r))"
proof -
  have inv0: "account_inv (run (account_exec sha) cs empty_accounts)" by (intro accounts.run_inv account_inv_empty)
  have inv: "account_inv d" using disable_user_step [OF inv0 assms] by (rule account_step_inv)
  have "account_disabled (run (account_exec sha) cs' d) (at_user_id (uo_user r))"
    by (rule disabled_stays [OF disable_user_disables [OF inv0 assms] accounts.run_le [OF inv]])
  with accounts.run_inv [OF inv] show ?thesis
    using disabled_token_refused disabled_login_refused by blast
qed

theorem disabled_account_is_out_witness:
  "\<exists>d r. disable_user (ex_account_env 5 ''5'') ex_accounts ''guest'' = Inr (d, r) \<and>
     \<not> (\<exists>d' a. actor_for_session_token ex_token_sha d 7 (Some ''4'') = Inr (d', Some a) \<and>
        at_user_id a = at_user_id (uo_user r))"
proof -
  from ex_disable obtain d r where dr: "disable_user (ex_account_env 5 ''5'') ex_accounts ''guest'' = Inr (d, r)"
    by (cases "disable_user (ex_account_env 5 ''5'') ex_accounts ''guest''") auto
  from disabled_account_is_out [OF dr [unfolded ex_accounts_def], of "[]"] dr show ?thesis by auto
qed

text \<open>
  C37: only administrators manage accounts. Unless the request's token belongs to a live session of
  an enabled administrator, the endpoints that create, change, disable or reset a user or revoke a
  session answer 401 or 403 and leave the users and the audit events as they found them.
\<close>

theorem only_admins_manage_accounts:
  assumes "account_inv (seen pe w)" "\<not> admin_request pe w token"
  shows "\<forall>m \<in> {admin_create_user pe token body, admin_set_user_role pe token username body,
      admin_disable_user pe token username, admin_reset_password pe token username body,
      admin_revoke_session pe token session_id}.
    \<exists>e. fst (m w) = Inl e \<and> refused e \<and> only_sessions (seen pe w) (aw_db (snd (m w)))"
proof -
  have "\<exists>e. fst (m w) = Inl e \<and> refused e \<and> only_sessions (seen pe w) (aw_db (snd (m w)))"
    if "m = api_bind (require_role pe ''admin'' token) f" for m :: "pydict api" and f
    using gated [OF assms, of f "fst (m w)" "snd (m w)"] that by simp
  then show ?thesis
    unfolding admin_create_user_def admin_set_user_role_def admin_disable_user_def admin_reset_password_def
      admin_revoke_session_def by blast
qed

theorem only_admins_manage_accounts_witness:
  "\<exists>e. fst (admin_disable_user ex_api (Some ''4'') ''root'' ex_account_world) = Inl e \<and> refused e"
proof -
  have seen: "seen ex_api ex_account_world = ex_accounts" by (simp add: seen_def ex_api_def ex_account_world_def)
  have now: "an_now (ap_env ex_api (aw_step ex_account_world)) = 10" "ap_sha ex_api = ex_token_sha"
    by (simp_all add: ex_api_def ex_account_world_def ex_account_env_def)
  have viewer: "case actor_for_session_token ex_token_sha ex_accounts 10 (Some ''4'') of
      Inr (_, Some a) \<Rightarrow> at_role a = ''viewer'' | _ \<Rightarrow> False" by code_simp
  have "\<not> admin_request ex_api ex_account_world (Some ''4'')"
    unfolding admin_request_def seen now using viewer grant_token_accepted [OF ex_accounts_inv] by auto
  with only_admins_manage_accounts [of ex_api ex_account_world "Some ''4''" _ "''root''"] ex_accounts_inv show ?thesis
    by (auto simp: seen)
qed

section \<open>VM start\<close>

text \<open>
  C38: a VM start sends at most one start request to Proxmox, to the requested node and VM, only for
  an acknowledged request with an idempotency key whose pre-check passed on the observed inventory.
  When it is sent the database durably says that the Operation is dispatching, its recovery item is
  leased and an active target lock belongs to it, so that recovery can take over from there.
\<close>

theorem vm_start_sends_once:
  "sends_once (\<lambda>c. \<exists>key job_id. validated_request sha node vmid payload = Inr (key, job_id) \<and>
       start_covered True job_id (dc_db c) \<and> dc_node c = node \<and> dc_vmid c = vmid \<and>
       precheck_passed pp node vmid payload)
     (run_vm_start sha fe pp node vmid (Some payload) actor)"
  by (rule run_vm_start_sends)

text \<open>
  C39: a result of a VM start is either marked as a replay, or the start is verified: the task ended
  with OK, the VM was observed running, a start request was sent to this node and VM, and the
  Operation is durably succeeded with its recovery completed in a state from which only transactions
  of the core and of other processes lead to the present one.
\<close>

theorem vm_start_success_is_verified:
  "yields (\<lambda>result w. \<exists>key job_id. validated_request sha node vmid payload = Inr (key, job_id) \<and>
       fresh_verified sha fe job_id node vmid result w)
     (run_vm_start sha fe pp node vmid (Some payload) actor)"
  by (rule run_vm_start_verified)

section \<open>Polling\<close>

text \<open>
  C40: waiting for a Proxmox task ends. Whatever the transport answers at each step, whatever time
  passes beside the sleeps and whether or not a heartbeat raises, the loop makes at least one poll and
  at most the number that fits into the timeout plus two. It returns a result only when the last poll
  answered that the task is stopped, with that answer's exit status and all the polls.
\<close>

theorem task_polling_ends:
  "\<exists>r n. wait_for_task c beat now k node upid = (r, k + n) \<and> 0 < n \<and>
     n \<le> nat ((task_timeout c - 1) div task_poll_interval c) + 2 \<and>
     (case r of
        Inr (Inr result) \<Rightarrow> \<exists>status. get_task_status c (k + n - 1) node upid = Inr status \<and> task_stopped status \<and>
          dget result ''exitstatus'' = dget status ''exitstatus'' \<and>
          (\<exists>polls. dget result ''polls'' = dict_rows_value polls \<and> length polls = n)
      | _ \<Rightarrow> True)"
  using wait_for_task_ends [of c beat now k node upid] unfolding max_polls_def .

end
